(* ===== verification/Prelude.thy ===== *)
theory Prelude
  imports Main "HOL-Library.Word"
begin

text \<open>
  Shared vocabulary of the development: Go errors and outcomes, the string functions of Go's
  \<open>strings\<close> and \<open>strconv\<close> packages that the program calls, and the generic lemmas and
  automation collections the component theories use.

  Strings are byte strings, as in Go: \<open>string\<close> is a list of \<open>char\<close> and one \<open>char\<close>
  is one byte. White space and letter case are those of ASCII.
\<close>

named_theorems ip_simps \<open>rewriting of byte strings and the numbers they denote\<close>
named_theorems str_simps \<open>rewriting of the string functions\<close>

section \<open>Errors and outcomes\<close>

text \<open>
  A Go error value. \<open>Msg\<close> is an error made by \<open>errors.New\<close> or \<open>fmt.Errorf\<close>, with its
  text; \<open>NotExist\<close> and \<open>Exist\<close> are operating system errors that \<open>os.IsNotExist\<close> and
  \<open>os.IsExist\<close> recognise;
  \<open>CniErr\<close> is a \<open>*types.Error\<close> with its code, message and details;
  \<open>ArgsErr\<close> is an \<open>UnmarshalableArgsError\<close>; the next two are the errors of
  \<open>cni/libcni/conf.go\<close> for a name and a directory without a configuration; the last is an
  \<open>*iptables.Error\<close>, a run of iptables that failed, with its exit status, whether it says that
  the chain or the rule is missing (\<open>IsNotExist\<close>), and its text.
\<close>

datatype go_error =
    Msg string
  | NotExist string
  | Exist string
  | CniErr nat string string
  | ArgsErr string
  | NotFoundError string string
  | NoConfigsFoundError string
  | IptablesError int bool string

text \<open>The method \<open>Error()\<close> of each kind of error (\<open>types.Error.Error\<close> for \<open>CniErr\<close>).\<close>

fun err_text :: "go_error \<Rightarrow> string" where
  "err_text (Msg m) = m"
| "err_text (NotExist m) = m"
| "err_text (Exist m) = m"
| "err_text (CniErr c m d) = m @ (if d \<noteq> [] then ''; '' @ d else [])"
| "err_text (ArgsErr m) = m"
| "err_text (NotFoundError dir name) =
     ''no net configuration with name '' @ [CHR 0x22] @ name @ [CHR 0x22] @ '' in '' @ dir"
| "err_text (NoConfigsFoundError dir) = ''no net configurations found in '' @ dir"
| "err_text (IptablesError status missing m) = m"

text \<open>A function that can also panic has three outcomes.\<close>

datatype 'a outcome = Ret 'a | Fail go_error | Panic string

fun outcome_of :: "go_error + 'a \<Rightarrow> 'a outcome" where
  "outcome_of (Inl e) = Fail e"
| "outcome_of (Inr x) = Ret x"

fun bind_sum :: "'e + 'a \<Rightarrow> ('a \<Rightarrow> 'e + 'b) \<Rightarrow> 'e + 'b" where
  "bind_sum (Inl e) f = Inl e"
| "bind_sum (Inr x) f = f x"

lemma outcome_of_Ret [simp]: "outcome_of r = Ret x \<longleftrightarrow> r = Inr x"
  by (cases r) auto

lemma bind_sum_Inr_iff [simp]:
  "bind_sum r f = Inr y \<longleftrightarrow> (\<exists>x. r = Inr x \<and> f x = Inr y)"
  by (cases r) auto

lemma bind_sum_Inl_iff:
  "bind_sum r f = Inl e \<longleftrightarrow> r = Inl e \<or> (\<exists>x. r = Inr x \<and> f x = Inl e)"
  by (cases r) auto

fun bind_out :: "'a outcome \<Rightarrow> ('a \<Rightarrow> 'b outcome) \<Rightarrow> 'b outcome" where
  "bind_out (Ret x) f = f x"
| "bind_out (Fail e) f = Fail e"
| "bind_out (Panic m) f = Panic m"

lemma bind_out_Ret_iff [simp]: "bind_out r f = Ret y \<longleftrightarrow> (\<exists>x. r = Ret x \<and> f x = Ret y)"
  by (cases r) auto

text \<open>A loop over a slice that stops at the first error (\<open>for ... { if err != nil { return } }\<close>).\<close>

fun map_sum_list :: "('a \<Rightarrow> 'e + 'b) \<Rightarrow> 'a list \<Rightarrow> 'e + 'b list" where
  "map_sum_list f [] = Inr []"
| "map_sum_list f (x # xs) =
     (case f x of Inl e \<Rightarrow> Inl e
      | Inr y \<Rightarrow> (case map_sum_list f xs of Inl e \<Rightarrow> Inl e | Inr ys \<Rightarrow> Inr (y # ys)))"

lemma map_sum_list_Inr_iff:
  "map_sum_list f xs = Inr ys \<longleftrightarrow> list_all2 (\<lambda>x y. f x = Inr y) xs ys"
proof (induction xs arbitrary: ys)
  case (Cons x xs)
  then show ?case
    by (cases "f x"; cases "map_sum_list f xs") (auto simp: list_all2_Cons1)
qed auto

section \<open>Strings\<close>

subsection \<open>strings.Split, strings.Join, strings.HasPrefix\<close>

text \<open>\<open>strings.Split(s, sep)\<close> for a separator of one byte; it never returns an empty slice.\<close>

fun split_on :: "char \<Rightarrow> string \<Rightarrow> string list" where
  "split_on c [] = [[]]"
| "split_on c (x # xs) =
     (if x = c then [] # split_on c xs
      else (case split_on c xs of [] \<Rightarrow> [[x]] | w # ws \<Rightarrow> (x # w) # ws))"

fun join :: "string \<Rightarrow> string list \<Rightarrow> string" where
  "join sep [] = []"
| "join sep [x] = x"
| "join sep (x # y # ys) = x @ sep @ join sep (y # ys)"

lemma split_on_not_Nil [simp]: "split_on c xs \<noteq> []"
  by (induction xs) (auto split: list.splits)

lemma join_split_on [str_simps]: "join [c] (split_on c xs) = xs"
proof (induction xs)
  case (Cons x xs)
  obtain w ws where w: "split_on c xs = w # ws"
    by (cases "split_on c xs") auto
  then show ?case
    using Cons by (cases ws) auto
qed simp

lemma split_on_no_sep [str_simps]: "c \<notin> set xs \<Longrightarrow> split_on c xs = [xs]"
  by (induction xs) auto

lemma split_on_append_sep [str_simps]:
  "c \<notin> set xs \<Longrightarrow> split_on c (xs @ c # ys) = xs # split_on c ys"
  by (induction xs) auto

lemma split_on_join [str_simps]:
  "ws \<noteq> [] \<Longrightarrow> \<forall>w\<in>set ws. c \<notin> set w \<Longrightarrow> split_on c (join [c] ws) = ws"
  by (induction "[c]" ws rule: join.induct) (auto simp: str_simps)

lemma split_on_parts: "w \<in> set (split_on c xs) \<Longrightarrow> c \<notin> set w"
  by (induction xs arbitrary: w) (auto split: if_splits list.splits)

lemma set_split_on: "w \<in> set (split_on c xs) \<Longrightarrow> set w \<subseteq> set xs"
proof (induction xs arbitrary: w)
  case (Cons x xs)
  then show ?case
    by (cases "split_on c xs") (fastforce split: if_splits)+
qed simp

definition has_prefix :: "string \<Rightarrow> string \<Rightarrow> bool" where
  "has_prefix s p \<longleftrightarrow> take (length p) s = p"

lemma has_prefix_append [simp]: "has_prefix (p @ s) p"
  by (simp add: has_prefix_def)

definition has_suffix :: "string \<Rightarrow> string \<Rightarrow> bool" where
  "has_suffix s p \<longleftrightarrow> length p \<le> length s \<and> drop (length s - length p) s = p"

lemma has_suffix_append [simp]: "has_suffix (s @ p) p"
  by (simp add: has_suffix_def)

lemma has_prefix_iff: "has_prefix s p \<longleftrightarrow> (\<exists>t. s = p @ t)"
  unfolding has_prefix_def by (metis append_eq_conv_conj append_take_drop_id)

text \<open>
  The verb \<open>%q\<close> of \<open>fmt\<close> on a string and on a slice of strings; of the escapes, those
  of the quote and the backslash.
\<close>

definition quote :: "string \<Rightarrow> string" where
  "quote s = CHR 0x22 # concat (map (\<lambda>c. if c = CHR 0x22 \<or> c = CHR 0x5C then [CHR 0x5C, c] else [c]) s) @ [CHR 0x22]"

definition squote :: "string \<Rightarrow> string" where
  "squote s = [CHR 0x27] @ s @ [CHR 0x27]"

definition quote_list :: "string list \<Rightarrow> string" where
  "quote_list ss = ''['' @ join '' '' (map quote ss) @ '']''"

subsection \<open>unicode.IsSpace, strings.TrimSpace, strings.Fields, strings.ToLower on ASCII\<close>

definition is_space :: "char \<Rightarrow> bool" where
  "is_space c \<longleftrightarrow> c \<in> {CHR 0x09, CHR 0x0A, CHR 0x0B, CHR 0x0C, CHR 0x0D, CHR 0x20}"

definition trim_space :: "string \<Rightarrow> string" where
  "trim_space s = rev (dropWhile is_space (rev (dropWhile is_space s)))"

fun fields_aux :: "string \<Rightarrow> string \<Rightarrow> string list" where
  "fields_aux w [] = (if w = [] then [] else [rev w])"
| "fields_aux w (c # cs) =
     (if is_space c then (if w = [] then fields_aux [] cs else rev w # fields_aux [] cs)
      else fields_aux (c # w) cs)"

definition fields :: "string \<Rightarrow> string list" where
  "fields s = fields_aux [] s"

lemma fields_aux_nonempty: "w \<in> set (fields_aux acc s) \<Longrightarrow> w \<noteq> []"
  by (induction acc s rule: fields_aux.induct) (auto split: if_splits)

lemma fields_nonempty: "w \<in> set (fields s) \<Longrightarrow> w \<noteq> []"
  by (auto simp: fields_def dest: fields_aux_nonempty)

lemma fields_aux_no_space:
  "\<forall>c\<in>set acc. \<not> is_space c \<Longrightarrow> w \<in> set (fields_aux acc s) \<Longrightarrow> c \<in> set w \<Longrightarrow> \<not> is_space c"
  by (induction acc s rule: fields_aux.induct) (auto split: if_splits)

lemma fields_no_space: "w \<in> set (fields s) \<Longrightarrow> c \<in> set w \<Longrightarrow> \<not> is_space c"
  by (auto simp: fields_def dest: fields_aux_no_space [rotated])

lemma fields_aux_word:
  "\<forall>c\<in>set w. \<not> is_space c \<Longrightarrow> fields_aux acc (w @ s) = fields_aux (rev w @ acc) s"
  by (induction w arbitrary: acc) auto

definition to_lower_char :: "char \<Rightarrow> char" where
  "to_lower_char c =
     (let n = (of_char c :: nat) in if 65 \<le> n \<and> n \<le> 90 then char_of (n + 32) else c)"

definition to_lower :: "string \<Rightarrow> string" where
  "to_lower s = map to_lower_char s"

subsection \<open>Decimal numbers: strconv.Itoa, strconv.Atoi\<close>

definition digit_char :: "nat \<Rightarrow> char" where
  "digit_char n = char_of (48 + n)"

definition is_digit :: "char \<Rightarrow> bool" where
  "is_digit c \<longleftrightarrow> 48 \<le> (of_char c :: nat) \<and> (of_char c :: nat) \<le> 57"

definition digit_val :: "char \<Rightarrow> nat" where
  "digit_val c = of_char c - 48"

lemma digit_char_simps [simp]:
  "n < 10 \<Longrightarrow> is_digit (digit_char n)" "n < 10 \<Longrightarrow> digit_val (digit_char n) = n"
  by (simp_all add: is_digit_def digit_char_def digit_val_def)

fun dec_nat :: "nat \<Rightarrow> string" where
  "dec_nat n = (if n < 10 then [digit_char n] else dec_nat (n div 10) @ [digit_char (n mod 10)])"

declare dec_nat.simps [simp del]

definition Itoa :: "int \<Rightarrow> string" where
  "Itoa i = (if i < 0 then ''-'' @ dec_nat (nat (- i)) else dec_nat (nat i))"

definition num_of_digits :: "string \<Rightarrow> nat" where
  "num_of_digits ds = foldl (\<lambda>a c. 10 * a + digit_val c) 0 ds"

lemma num_of_digits_snoc [simp]:
  "num_of_digits [] = 0"
  "num_of_digits (ds @ [c]) = 10 * num_of_digits ds + digit_val c"
  by (simp_all add: num_of_digits_def)

lemma dec_nat_digits: "c \<in> set (dec_nat n) \<Longrightarrow> is_digit c"
proof (induction n rule: dec_nat.induct)
  case (1 n)
  then show ?case by (subst (asm) dec_nat.simps) (auto split: if_splits)
qed

lemma dec_nat_not_Nil [simp]: "dec_nat n \<noteq> []"
  by (subst dec_nat.simps) simp

lemma num_of_digits_dec_nat [str_simps]: "num_of_digits (dec_nat n) = n"
proof (induction n rule: dec_nat.induct)
  case (1 n)
  show ?case
  proof (cases "n < 10")
    case True
    then show ?thesis
      using num_of_digits_snoc(2) [of "[]" "digit_char n"] by (subst dec_nat.simps) simp
  next
    case False
    with "1.IH" show ?thesis by (subst dec_nat.simps) simp
  qed
qed

lemma dec_nat_inject [simp]: "dec_nat m = dec_nat n \<longleftrightarrow> m = n"
  by (metis num_of_digits_dec_nat)

text \<open>
  \<open>strconv.Atoi\<close>: the value and whether an error was reported. A syntax error gives 0;
  a number outside 64 bits gives the nearest representable one. The value matters because
  \<open>CmdAdd\<close> ignores the error.
\<close>

definition max_int64 :: int where "max_int64 = 9223372036854775807"

definition Atoi :: "string \<Rightarrow> int \<times> bool" where
  "Atoi s =
     (let neg = (s \<noteq> [] \<and> hd s = CHR ''-'');
          ds = (if s \<noteq> [] \<and> (hd s = CHR ''-'' \<or> hd s = CHR ''+'') then tl s else s)
      in if ds = [] \<or> \<not> list_all is_digit ds then (0, True)
         else let n = int (num_of_digits ds) in
           if neg then (if n > max_int64 + 1 then (- max_int64 - 1, True) else (- n, False))
           else (if n > max_int64 then (max_int64, True) else (n, False)))"

lemma hd_dec_nat: "is_digit (hd (dec_nat n))"
  by (rule dec_nat_digits [of _ n]) simp

lemma Atoi_dec_nat [str_simps]: "int n \<le> max_int64 \<Longrightarrow> Atoi (dec_nat n) = (int n, False)"
proof -
  assume n: "int n \<le> max_int64"
  have "hd (dec_nat n) \<noteq> CHR ''-''" "hd (dec_nat n) \<noteq> CHR ''+''"
    using hd_dec_nat [of n] by (auto simp: is_digit_def)
  moreover have "list_all is_digit (dec_nat n)"
    by (auto simp: list_all_iff dec_nat_digits)
  ultimately show ?thesis
    using n by (simp add: Atoi_def num_of_digits_dec_nat)
qed

section \<open>Lists\<close>

lemma list_all2_same_length: "list_all2 P xs ys \<Longrightarrow> length xs = length ys"
  by (rule list_all2_lengthD)

lemma take_replicate_eq:
  "length xs = n \<Longrightarrow> (\<forall>x\<in>set xs. x = a) \<Longrightarrow> xs = replicate n a"
  by (metis replicate_eqI)

lemma map_of_filter_key: "map_of (filter (\<lambda>(k, _). Q k) xs) k = (if Q k then map_of xs k else None)"
  by (induction xs) auto

lemma length4_conv: "length xs = 4 \<longleftrightarrow> (\<exists>a b c d. xs = [a, b, c, d])"
  by (auto simp: numeral_eq_Suc length_Suc_conv)

end
