(* ===== verification/GoNet.thy ===== *)
theory GoNet
  imports Prelude
begin

text \<open>
  The part of Go's package \<open>net\<close> that the program uses: addresses and masks as byte
  strings, their comparison and masking, printing and parsing.

  A \<open>net.IP\<close> is a list of bytes and \<open>nil\<close> is the empty list. The only value of the
  program for which \<open>nil\<close> and the empty slice could differ is \<open>PrevIP\<close> of the address
  one, which no caller compares with \<open>nil\<close>.
\<close>

unbundle bit_operations_syntax

type_synonym byte = "8 word"
type_synonym net_ip = "byte list"

record ip_net =
  IP :: net_ip
  Mask :: "byte list"

lemma unat_byte [simp]: "unat (b :: byte) < 256"
proof -
  have "unat b < 2 ^ LENGTH(8)"
    by (rule unsigned_less)
  then show ?thesis by simp
qed

section \<open>Forms of an address\<close>

definition v4InV6Prefix :: "byte list" where
  "v4InV6Prefix = replicate 10 0 @ [0xff, 0xff]"

definition To4 :: "net_ip \<Rightarrow> net_ip" where
  "To4 ip = (if length ip = 4 then ip
             else if length ip = 16 \<and> take 12 ip = v4InV6Prefix then drop 12 ip
             else [])"

definition To16 :: "net_ip \<Rightarrow> net_ip" where
  "To16 ip = (if length ip = 4 then v4InV6Prefix @ ip
              else if length ip = 16 then ip else [])"

definition ip_Equal :: "net_ip \<Rightarrow> net_ip \<Rightarrow> bool" where
  "ip_Equal ip x =
     (if length ip = length x then ip = x
      else if length ip = 4 \<and> length x = 16 then take 12 x = v4InV6Prefix \<and> ip = drop 12 x
      else if length ip = 16 \<and> length x = 4 then take 12 ip = v4InV6Prefix \<and> drop 12 ip = x
      else False)"

lemma length_v4InV6Prefix [simp]: "length v4InV6Prefix = 12"
  by (simp add: v4InV6Prefix_def)

lemma To4_cases: "length (To4 ip) = 4 \<or> To4 ip = []"
  by (auto simp: To4_def)

lemma To4_id [simp]: "length ip = 4 \<Longrightarrow> To4 ip = ip"
  by (simp add: To4_def)

lemma To4_prefix [simp]: "length ip = 4 \<Longrightarrow> To4 (v4InV6Prefix @ ip) = ip"
  by (simp add: To4_def)

lemma ip_Equal_refl [simp]: "ip_Equal ip ip"
  by (simp add: ip_Equal_def)

lemma ip_Equal_same_length: "length a = length b \<Longrightarrow> ip_Equal a b \<longleftrightarrow> a = b"
  by (simp add: ip_Equal_def)

lemma ip_Equal_sym: "ip_Equal a b \<longleftrightarrow> ip_Equal b a"
  by (auto simp: ip_Equal_def)

text \<open>Two addresses are equal exactly when their canonical forms are.\<close>

definition canon_form :: "net_ip \<Rightarrow> net_ip" where
  "canon_form ip = (if To4 ip \<noteq> [] then To4 ip else ip)"

lemma canon_form_len4 [simp]: "length ip = 4 \<Longrightarrow> canon_form ip = ip"
  by (auto simp: canon_form_def)

lemma ip_Equal_canon_form: "ip_Equal a b \<longleftrightarrow> canon_form a = canon_form b"
proof (cases "length a = length b")
  case True
  have "take 12 a = v4InV6Prefix \<Longrightarrow> take 12 b = v4InV6Prefix \<Longrightarrow> drop 12 a = drop 12 b \<Longrightarrow> a = b"
    by (metis append_take_drop_id)
  with True show ?thesis
    by (auto simp: ip_Equal_def canon_form_def To4_def split: if_splits)
next
  case False
  then show ?thesis
    by (auto simp: ip_Equal_def canon_form_def To4_def split: if_splits)
qed

section \<open>Masks\<close>

text \<open>\<open>simpleMaskLength\<close>: the number of leading ones of a byte, if only zeros follow.\<close>

fun byte_ones :: "nat \<Rightarrow> byte \<Rightarrow> nat \<times> byte" where
  "byte_ones 0 v = (0, v)"
| "byte_ones (Suc k) v =
     (if bit v 7 then (case byte_ones k (push_bit 1 v) of (n, w) \<Rightarrow> (Suc n, w)) else (0, v))"

fun simpleMaskLength :: "byte list \<Rightarrow> int" where
  "simpleMaskLength [] = 0"
| "simpleMaskLength (v # vs) =
     (if v = 0xff then (let n = simpleMaskLength vs in if n = -1 then -1 else 8 + n)
      else case byte_ones 8 v of (n, w) \<Rightarrow>
        if w \<noteq> 0 then -1 else if list_all (\<lambda>b. b = 0) vs then int n else -1)"

definition Mask_Size :: "byte list \<Rightarrow> int \<times> int" where
  "Mask_Size m = (let n = simpleMaskLength m in
     if n = -1 then (0, 0) else (n, int (length m) * 8))"

text \<open>\<open>net.CIDRMask(ones, bits)\<close>: the mask bytes with \<open>ones\<close> leading ones.\<close>

definition byte_mask :: "nat \<Rightarrow> byte" where
  "byte_mask k = (if 8 \<le> k then 0xff else NOT (drop_bit k 0xff))"

fun cidr_bytes :: "nat \<Rightarrow> nat \<Rightarrow> byte list" where
  "cidr_bytes 0 n = []"
| "cidr_bytes (Suc l) n = byte_mask n # cidr_bytes l (n - 8)"

definition CIDRMask :: "int \<Rightarrow> int \<Rightarrow> byte list" where
  "CIDRMask ones bits =
     (if bits \<noteq> 32 \<and> bits \<noteq> 128 then []
      else if ones < 0 \<or> ones > bits then []
      else cidr_bytes (nat bits div 8) (nat ones))"

definition ip_Mask :: "net_ip \<Rightarrow> byte list \<Rightarrow> net_ip" where
  "ip_Mask ip m =
     (let m = (if length m = 16 \<and> length ip = 4 \<and> list_all (\<lambda>b. b = 0xff) (take 12 m)
               then drop 12 m else m);
          ip = (if length m = 4 \<and> length ip = 16 \<and> take 12 ip = v4InV6Prefix
                then drop 12 ip else ip)
      in if length ip \<noteq> length m then [] else map2 (AND) ip m)"

definition networkNumberAndMask :: "ip_net \<Rightarrow> net_ip \<times> byte list" where
  "networkNumberAndMask n =
     (let ip = (if To4 (IP n) \<noteq> [] then To4 (IP n) else IP n); m = Mask n in
      if To4 (IP n) = [] \<and> length (IP n) \<noteq> 16 then ([], [])
      else if length m = 4 then (if length ip \<noteq> 4 then ([], []) else (ip, m))
      else if length m = 16 then (if length ip = 4 then (ip, drop 12 m) else (ip, m))
      else ([], []))"

definition IPNet_Contains :: "ip_net \<Rightarrow> net_ip \<Rightarrow> bool" where
  "IPNet_Contains n ip =
     (case networkNumberAndMask n of (nn, m) \<Rightarrow>
        let ip = (if To4 ip \<noteq> [] then To4 ip else ip) in
        length ip = length nn \<and> map2 (AND) nn m = map2 (AND) ip m)"

lemma length_cidr_bytes [simp]: "length (cidr_bytes l n) = l"
  by (induction l n rule: cidr_bytes.induct) auto

section \<open>Printing\<close>

definition hex_char :: "nat \<Rightarrow> char" where
  "hex_char n = (if n < 10 then char_of (48 + n) else char_of (87 + n))"

fun hex_nat :: "nat \<Rightarrow> string" where
  "hex_nat n = (if n < 16 then [hex_char n] else hex_nat (n div 16) @ [hex_char (n mod 16)])"

declare hex_nat.simps [simp del]

definition hex_byte :: "byte \<Rightarrow> string" where
  "hex_byte b = [hex_char (unat b div 16), hex_char (unat b mod 16)]"

text \<open>The eight 16-bit groups of a 16-byte address.\<close>

fun groups :: "byte list \<Rightarrow> nat list" where
  "groups (a # b # xs) = (unat a * 256 + unat b) # groups xs"
| "groups xs = []"

text \<open>
  The longest run of zero groups, the first of the longest ones, as the loop of
  \<open>IP.String\<close> finds it: \<open>i\<close> is the current group, \<open>e0\<close> and \<open>e1\<close> the best run
  so far.
\<close>

definition zero_run :: "nat list \<Rightarrow> nat" where
  "zero_run gs = length (takeWhile (\<lambda>g. g = 0) gs)"

fun longest_run :: "nat \<Rightarrow> nat list \<Rightarrow> nat \<Rightarrow> int \<Rightarrow> int \<Rightarrow> int \<times> int" where
  "longest_run 0 gs i e0 e1 = (e0, e1)"
| "longest_run (Suc fuel) gs i e0 e1 =
     (if i \<ge> length gs then (e0, e1)
      else let z = zero_run (drop i gs) in
        if z > 0 \<and> int z > e1 - e0 then longest_run fuel gs (i + z + 1) (int i) (int (i + z))
        else longest_run fuel gs (i + 1) e0 e1)"

text \<open>Printing the groups with \<open>::\<close> in place of the groups \<open>e0\<close> to \<open>e1 - 1\<close>.\<close>

fun print_groups :: "nat \<Rightarrow> nat list \<Rightarrow> nat \<Rightarrow> int \<Rightarrow> int \<Rightarrow> string" where
  "print_groups 0 gs i e0 e1 = []"
| "print_groups (Suc fuel) gs i e0 e1 =
     (if i \<ge> length gs then []
      else if int i = e0 then
        (if nat e1 \<ge> length gs then ''::''
         else ''::'' @ hex_nat (gs ! nat e1) @ print_groups fuel gs (nat e1 + 1) e0 e1)
      else (if i > 0 then '':'' else []) @ hex_nat (gs ! i) @ print_groups fuel gs (i + 1) e0 e1)"

definition dotted :: "byte list \<Rightarrow> string" where
  "dotted p = join ''.'' (map (\<lambda>b. dec_nat (unat b)) p)"

definition ip_String :: "net_ip \<Rightarrow> string" where
  "ip_String ip =
     (if ip = [] then ''<nil>''
      else if To4 ip \<noteq> [] then dotted (To4 ip)
      else if length ip \<noteq> 16 then ''?'' @ concat (map hex_byte ip)
      else let gs = groups ip; r = longest_run 9 gs 0 (-1) (-1);
               e0 = (if snd r - fst r \<le> 1 then -1 else fst r);
               e1 = (if snd r - fst r \<le> 1 then -1 else snd r)
           in print_groups 9 gs 0 e0 e1)"

definition IPNet_String :: "ip_net \<Rightarrow> string" where
  "IPNet_String n =
     (case networkNumberAndMask n of (nn, m) \<Rightarrow>
        if nn = [] \<or> m = [] then ''<nil>''
        else if simpleMaskLength m = -1
             then ip_String nn @ ''/'' @ concat (map hex_byte m)
             else ip_String nn @ ''/'' @ Itoa (simpleMaskLength m))"

section \<open>Parsing\<close>

text \<open>
  \<open>dtoi\<close>: the longest run of digits at the front as a number, the number of bytes used,
  and whether it succeeded; it stops with a failure at \<open>0xFFFFFF\<close>.
\<close>

fun dtoi_aux :: "nat \<Rightarrow> nat \<Rightarrow> string \<Rightarrow> nat \<times> nat \<times> bool" where
  "dtoi_aux n i [] = (n, i, 0 < i)"
| "dtoi_aux n i (c # cs) =
     (if is_digit c then
        (let n' = n * 10 + digit_val c in
         if n' \<ge> 0xFFFFFF then (0xFFFFFF, i, False) else dtoi_aux n' (i + 1) cs)
      else (n, i, 0 < i))"

definition dtoi :: "string \<Rightarrow> nat \<times> nat \<times> bool" where
  "dtoi s = dtoi_aux 0 0 s"

definition hex_val :: "char \<Rightarrow> nat option" where
  "hex_val c = (let n = (of_char c :: nat) in
     if 48 \<le> n \<and> n \<le> 57 then Some (n - 48)
     else if 97 \<le> n \<and> n \<le> 102 then Some (n - 87)
     else if 65 \<le> n \<and> n \<le> 70 then Some (n - 55) else None)"

fun xtoi_aux :: "nat \<Rightarrow> nat \<Rightarrow> string \<Rightarrow> nat \<times> nat \<times> bool" where
  "xtoi_aux n i [] = (n, i, 0 < i)"
| "xtoi_aux n i (c # cs) =
     (case hex_val c of
        Some d \<Rightarrow> (let n' = n * 16 + d in
          if n' \<ge> 0xFFFFFF then (0, i, False) else xtoi_aux n' (i + 1) cs)
      | None \<Rightarrow> (n, i, 0 < i))"

definition xtoi :: "string \<Rightarrow> nat \<times> nat \<times> bool" where
  "xtoi s = xtoi_aux 0 0 s"

text \<open>
  \<open>parseIPv4\<close> (Go 1.15, the version of \<open>go.mod\<close>): \<open>k\<close> decimal parts of at most
  255, the later ones after a dot, and nothing else.
\<close>

fun parse_parts :: "nat \<Rightarrow> bool \<Rightarrow> string \<Rightarrow> byte list option" where
  "parse_parts 0 first s = (if s = [] then Some [] else None)"
| "parse_parts (Suc k) first s =
     (if s = [] then None
      else if \<not> first \<and> hd s \<noteq> CHR ''.'' then None
      else let s = (if first then s else tl s) in
        case dtoi s of (n, c, ok) \<Rightarrow>
          if \<not> ok \<or> n > 255 then None
          else map_option (\<lambda>bs. of_nat n # bs) (parse_parts k False (drop c s)))"

definition parseIPv4 :: "string \<Rightarrow> net_ip" where
  "parseIPv4 s = (case parse_parts 4 True s of None \<Rightarrow> [] | Some bs \<Rightarrow> v4InV6Prefix @ bs)"

text \<open>
  \<open>parseIPv6\<close>: the loop over groups, with the bytes parsed so far, the position of the
  ellipsis, and the rest of the text; the result is the final loop state.
\<close>

fun ipv6_loop :: "nat \<Rightarrow> byte list \<Rightarrow> nat option \<Rightarrow> string \<Rightarrow> (byte list \<times> nat option \<times> string) option" where
  "ipv6_loop 0 bs ell s = Some (bs, ell, s)"
| "ipv6_loop (Suc fuel) bs ell s =
     (if length bs \<ge> 16 then Some (bs, ell, s)
      else case xtoi s of (n, c, ok) \<Rightarrow>
        if \<not> ok \<or> n > 0xFFFF then None
        else if c < length s \<and> s ! c = CHR ''.'' then
          (if ell = None \<and> length bs \<noteq> 12 then None
           else if length bs + 4 > 16 then None
           else let ip4 = parseIPv4 s in
             if ip4 = [] then None else Some (bs @ drop 12 ip4, ell, []))
        else let bs' = bs @ [of_nat (n div 256), of_nat n]; s = drop c s in
          if s = [] then Some (bs', ell, s)
          else if hd s \<noteq> CHR '':'' \<or> length s = 1 then None
          else let s = tl s in
            if hd s = CHR '':'' then
              (if ell \<noteq> None then None
               else let s = tl s in
                 if s = [] then Some (bs', Some (length bs'), s)
                 else ipv6_loop fuel bs' (Some (length bs')) s)
            else ipv6_loop fuel bs' ell s)"

definition parseIPv6 :: "string \<Rightarrow> net_ip" where
  "parseIPv6 s =
     (let lead = has_prefix s ''::'' in
      if lead \<and> length s = 2 then replicate 16 0
      else case ipv6_loop 9 [] (if lead then Some 0 else None) (if lead then drop 2 s else s) of
        None \<Rightarrow> []
      | Some (bs, ell, rest) \<Rightarrow>
          if rest \<noteq> [] then []
          else if length bs < 16 then
            (case ell of None \<Rightarrow> []
             | Some e \<Rightarrow> take e bs @ replicate (16 - length bs) 0 @ drop e bs)
          else if ell \<noteq> None then [] else bs)"

text \<open>\<open>net.ParseIP\<close>: the first dot or colon decides the family.\<close>

fun ParseIP_scan :: "string \<Rightarrow> char option" where
  "ParseIP_scan [] = None"
| "ParseIP_scan (c # cs) = (if c = CHR ''.'' \<or> c = CHR '':'' then Some c else ParseIP_scan cs)"

definition ParseIP :: "string \<Rightarrow> net_ip" where
  "ParseIP s = (case ParseIP_scan s of
       Some c \<Rightarrow> if c = CHR ''.'' then parseIPv4 s else parseIPv6 s
     | None \<Rightarrow> [])"

text \<open>\<open>net.ParseCIDR\<close>: the address as written and its network.\<close>

definition net_ParseCIDR :: "string \<Rightarrow> go_error + (net_ip \<times> ip_net)" where
  "net_ParseCIDR s =
     (if CHR ''/'' \<notin> set s then Inl (Msg (''invalid CIDR address: '' @ s))
      else let addr = takeWhile (\<lambda>c. c \<noteq> CHR ''/'') s;
               ms = tl (dropWhile (\<lambda>c. c \<noteq> CHR ''/'') s);
               ip4 = parseIPv4 addr;
               iplen = (if ip4 = [] then 16 else 4 :: nat);
               ip = (if ip4 = [] then parseIPv6 addr else ip4)
           in case dtoi ms of (n, i, ok) \<Rightarrow>
             if ip = [] \<or> \<not> ok \<or> i \<noteq> length ms \<or> n > 8 * iplen
             then Inl (Msg (''invalid CIDR address: '' @ s))
             else let m = CIDRMask (int n) (int (8 * iplen)) in
               Inr (ip, \<lparr>IP = ip_Mask ip m, Mask = m\<rparr>))"

section \<open>Printing and parsing an IPv4 address\<close>

lemma foldl_digits_ge: "(a::nat) \<le> foldl (\<lambda>a c. 10 * a + digit_val c) a ds"
proof (induction ds arbitrary: a)
  case (Cons d ds)
  have "a \<le> 10 * a + digit_val d" by simp
  also have "\<dots> \<le> foldl (\<lambda>a c. 10 * a + digit_val c) (10 * a + digit_val d) ds"
    by (rule Cons.IH)
  finally show ?case by simp
qed simp

lemma dtoi_aux_digits:
  assumes "\<forall>c\<in>set ds. is_digit c" and "rest = [] \<or> \<not> is_digit (hd rest)"
    and "foldl (\<lambda>a c. 10 * a + digit_val c) n ds < 0xFFFFFF" and "0 < i + length ds"
  shows "dtoi_aux n i (ds @ rest) =
    (foldl (\<lambda>a c. 10 * a + digit_val c) n ds, i + length ds, True)"
  using assms
proof (induction ds arbitrary: n i)
  case Nil
  then show ?case by (cases rest) auto
next
  case (Cons d ds)
  have "10 * n + digit_val d < 0xFFFFFF"
    using Cons.prems(3) foldl_digits_ge [of "10 * n + digit_val d" ds] by simp
  with Cons.prems Cons.IH [of "n * 10 + digit_val d" "Suc i"] show ?case
    by (simp add: Let_def mult.commute)
qed

lemma dtoi_dec_nat:
  assumes "n < 0xFFFFFF" and "rest = [] \<or> \<not> is_digit (hd rest)"
  shows "dtoi (dec_nat n @ rest) = (n, length (dec_nat n), True)"
proof -
  have "foldl (\<lambda>a c. 10 * a + digit_val c) 0 (dec_nat n) = n"
    using num_of_digits_dec_nat [of n] by (simp add: num_of_digits_def)
  with assms show ?thesis
    unfolding dtoi_def by (subst dtoi_aux_digits) (auto simp: dec_nat_digits)
qed

definition dot_tail :: "byte list \<Rightarrow> string" where
  "dot_tail q = concat (map (\<lambda>b. CHR ''.'' # dec_nat (unat b)) q)"

lemma dotted_Cons: "dotted (b # q) = dec_nat (unat b) @ dot_tail q"
  by (induction q arbitrary: b) (auto simp: dotted_def dot_tail_def)

lemma dot_tail_no_digit: "dot_tail q = [] \<or> \<not> is_digit (hd (dot_tail q))"
  by (cases q) (auto simp: dot_tail_def is_digit_def)

lemma dtoi_octet: "dtoi (dec_nat (unat (b :: byte)) @ dot_tail q) = (unat b, length (dec_nat (unat b)), True)"
proof (rule dtoi_dec_nat [OF _ dot_tail_no_digit])
  show "unat b < 0xFFFFFF"
    using unat_byte [of b] by linarith
qed

lemma parse_parts_tail: "length q = k \<Longrightarrow> parse_parts k False (dot_tail q) = Some q"
proof (induction k arbitrary: q)
  case 0
  then show ?case by (simp add: dot_tail_def)
next
  case (Suc k)
  then obtain b p where q: "q = b # p" "length p = k" by (cases q) auto
  have t: "dot_tail (b # p) = CHR ''.'' # dec_nat (unat b) @ dot_tail p"
    by (simp add: dot_tail_def)
  have "\<not> 255 < unat b"
    using unat_byte [of b] by linarith
  with q Suc.IH [of p] dtoi_octet [of b p] show ?case
    by (simp add: t Let_def)
qed

lemma parse_parts_dotted: "length q = k \<Longrightarrow> parse_parts (Suc k) True (dotted (b # q)) = Some (b # q)"
proof -
  assume k: "length q = k"
  have "\<not> 255 < unat b"
    using unat_byte [of b] by linarith
  with k dtoi_octet [of b q] parse_parts_tail [of q k] show ?thesis
    by (simp add: dotted_Cons Let_def)
qed

lemma ParseIP_scan_digits: "\<forall>c\<in>set ds. is_digit c \<Longrightarrow> ParseIP_scan (ds @ s) = ParseIP_scan s"
  by (induction ds) (auto simp: is_digit_def)

lemma ParseIP_dotted:
  assumes "length p = 4"
  shows "ParseIP (dotted p) = v4InV6Prefix @ p"
proof -
  obtain a b c d where p: "p = [a, b, c, d]"
    using assms by (auto simp: length4_conv)
  have "ParseIP_scan (dotted p) = Some CHR ''.''"
    by (simp add: p dotted_Cons dot_tail_def ParseIP_scan_digits dec_nat_digits)
  moreover have "parse_parts 4 True (dotted p) = Some p"
    using parse_parts_dotted [of "[b, c, d]" 3 a] by (simp add: p)
  ultimately show ?thesis
    by (simp add: ParseIP_def parseIPv4_def)
qed

text \<open>An IPv4 address survives printing and parsing, in its 16-byte form.\<close>

lemma ParseIP_String_v4: "length ip = 4 \<Longrightarrow> ParseIP (ip_String ip) = v4InV6Prefix @ ip"
  by (auto simp: ip_String_def ParseIP_dotted)

lemma ip_String_v4_inject:
  "length a = 4 \<Longrightarrow> length b = 4 \<Longrightarrow> ip_String a = ip_String b \<longleftrightarrow> a = b"
  by (metis ParseIP_String_v4 same_append_eq)

lemma ip_String_canon: "To4 ip \<noteq> [] \<Longrightarrow> ip_String ip = ip_String (To4 ip)"
  using To4_cases [of ip] by (cases "ip = []") (simp_all add: ip_String_def To4_def)

end
