(* ===== verification/Cidr.thy ===== *)
theory Cidr
  imports GoNet
begin

text \<open>
  Addresses as numbers: \<open>plugins/pkg/ip/cidr.go\<close> over Go's \<open>math/big\<close>, and what a
  CIDR mask means for these numbers. A big integer is an \<open>int\<close>; \<open>be_nat\<close> is
  \<open>SetBytes\<close> and \<open>nat_bytes\<close> is \<open>Bytes\<close>, which drops leading zero bytes.
\<close>

section \<open>math/big: bytes to numbers and back\<close>

fun be_nat :: "byte list \<Rightarrow> nat" where
  "be_nat [] = 0"
| "be_nat (b # bs) = unat b * 256 ^ length bs + be_nat bs"

fun nat_bytes :: "nat \<Rightarrow> byte list" where
  "nat_bytes n = (if n = 0 then [] else nat_bytes (n div 256) @ [of_nat (n mod 256)])"

declare nat_bytes.simps [simp del]

section \<open>cidr.go\<close>

definition ipToInt :: "net_ip \<Rightarrow> int" where
  "ipToInt ip = (let v = To4 ip in
     if v \<noteq> [] then int (be_nat v) else int (be_nat (To16 ip)))"

definition intToIP :: "int \<Rightarrow> net_ip" where
  "intToIP i = nat_bytes (nat \<bar>i\<bar>)"

definition NextIP :: "net_ip \<Rightarrow> net_ip" where
  "NextIP ip = (let i = ipToInt ip in intToIP (i + 1))"

definition PrevIP :: "net_ip \<Rightarrow> net_ip" where
  "PrevIP ip = (let i = ipToInt ip in intToIP (i - 1))"

definition ip_Cmp :: "net_ip \<Rightarrow> net_ip \<Rightarrow> int" where
  "ip_Cmp a b =
     (let aa = ipToInt a; bb = ipToInt b in if aa < bb then -1 else if aa = bb then 0 else 1)"

definition Network :: "ip_net \<Rightarrow> ip_net" where
  "Network ipn = \<lparr>IP = ip_Mask (IP ipn) (Mask ipn), Mask = Mask ipn\<rparr>"

section \<open>Numbers of byte strings\<close>

lemma be_nat_append [ip_simps]: "be_nat (xs @ ys) = be_nat xs * 256 ^ length ys + be_nat ys"
  by (induction xs) (auto simp: algebra_simps power_add)

lemma be_nat_less: "be_nat bs < 256 ^ length bs"
proof (induction bs)
  case (Cons b bs)
  have "unat b \<le> 255"
    using unat_byte [of b] by linarith
  then have "unat b * 256 ^ length bs \<le> 255 * 256 ^ length bs"
    by (rule mult_le_mono1)
  with Cons have "unat b * 256 ^ length bs + be_nat bs < 255 * 256 ^ length bs + 256 ^ length bs"
    by (rule add_le_less_mono [rotated])
  then show ?case by simp
qed simp

lemma be_nat_inject:
  "length xs = length ys \<Longrightarrow> be_nat xs = be_nat ys \<Longrightarrow> xs = ys"
proof (induction xs ys rule: list_induct2)
  case (Cons x xs y ys)
  let ?p = "256 ^ length xs :: nat"
  have eq: "unat x * ?p + be_nat xs = unat y * ?p + be_nat ys"
    using Cons by simp
  have lt: "be_nat xs < ?p" "be_nat ys < ?p"
    using be_nat_less [of xs] be_nat_less [of ys] Cons.hyps by simp_all
  have "(unat x * ?p + be_nat xs) div ?p = unat x" "(unat y * ?p + be_nat ys) div ?p = unat y"
    using lt by simp_all
  with eq have "unat x = unat y" by simp
  with eq have "x = y" "be_nat xs = be_nat ys" by (simp_all add: word_unat_eq_iff)
  with Cons.IH show ?case by simp
qed simp

lemma be_nat_eq_iff: "length xs = length ys \<Longrightarrow> be_nat xs = be_nat ys \<longleftrightarrow> xs = ys"
  by (auto dest: be_nat_inject)

lemma be_nat_nat_bytes [ip_simps]: "be_nat (nat_bytes n) = n"
proof (induction n rule: nat_bytes.induct)
  case (1 n)
  then show ?case
    by (subst nat_bytes.simps) (auto simp: be_nat_append unat_of_nat)
qed

lemma length_nat_bytes:
  "256 ^ k \<le> n \<Longrightarrow> n < 256 ^ Suc k \<Longrightarrow> length (nat_bytes n) = Suc k"
proof (induction k arbitrary: n)
  case 0
  then have "0 < n" "n div 256 = 0" by simp_all
  then show ?case
    by (subst nat_bytes.simps) (simp add: nat_bytes.simps [of 0])
next
  case (Suc k)
  have "256 ^ k \<le> n div 256"
    using Suc.prems(1) by (simp add: less_eq_div_iff_mult_less_eq mult.commute)
  moreover have "n div 256 < 256 ^ Suc k"
    using Suc.prems(2) by (simp add: less_mult_imp_div_less mult.commute)
  ultimately have "length (nat_bytes (n div 256)) = Suc k"
    by (rule Suc.IH)
  moreover have "n \<noteq> 0"
    using Suc.prems(1) by (metis le_zero_eq power_eq_0_iff zero_neq_numeral)
  ultimately show ?case
    by (subst nat_bytes.simps) simp
qed

lemma be_nat_lead: "bs \<noteq> [] \<Longrightarrow> hd bs \<noteq> 0 \<longleftrightarrow> 256 ^ (length bs - 1) \<le> be_nat bs"
proof (cases bs)
  case (Cons b cs)
  have lt: "be_nat cs < 256 ^ length cs" by (rule be_nat_less)
  show ?thesis
  proof (cases "b = 0")
    case True
    with Cons lt show ?thesis by simp
  next
    case False
    then have "1 \<le> unat b"
      by (metis less_one linorder_not_less unat_eq_0)
    then have "1 * 256 ^ length cs \<le> unat b * 256 ^ length cs"
      by (rule mult_le_mono1)
    then have "256 ^ length cs \<le> unat b * 256 ^ length cs + be_nat cs"
      by linarith
    with Cons False show ?thesis by simp
  qed
qed simp

section \<open>Canonical addresses and their successor\<close>

text \<open>
  The form \<open>canonicalizeIP\<close> gives an address: four bytes, or sixteen that are not an
  IPv4 address in disguise.
\<close>

definition canonical :: "net_ip \<Rightarrow> bool" where
  "canonical ip \<longleftrightarrow> length ip = 4 \<or> length ip = 16 \<and> To4 ip = []"

lemma canonical_not_Nil: "canonical ip \<Longrightarrow> ip \<noteq> []"
  by (auto simp: canonical_def)

lemma ipToInt_canonical: "canonical ip \<Longrightarrow> ipToInt ip = int (be_nat ip)"
  by (auto simp: canonical_def ipToInt_def To16_def Let_def)

lemma To4_lead: "length ip = 16 \<Longrightarrow> hd ip \<noteq> 0 \<Longrightarrow> To4 ip = []"
proof -
  assume a: "length ip = 16" "hd ip \<noteq> 0"
  have "hd v4InV6Prefix = 0"
    by (simp add: v4InV6Prefix_def numeral_eq_Suc)
  moreover have "hd (take 12 ip) = hd ip"
    by (rule hd_take) simp
  ultimately have "take 12 ip \<noteq> v4InV6Prefix"
    using a(2) by metis
  with a show ?thesis
    by (simp add: To4_def)
qed

lemma canonical_lead: "length ip = 4 \<or> length ip = 16 \<Longrightarrow> hd ip \<noteq> 0 \<Longrightarrow> canonical ip"
  by (auto simp: canonical_def To4_lead)

lemma ip_Equal_canonical:
  assumes "canonical a" "canonical b" shows "ip_Equal a b \<longleftrightarrow> a = b"
proof -
  have "canon_form a = a" "canon_form b = b"
    using assms To4_cases by (auto simp: canonical_def canon_form_def)
  then show ?thesis by (simp add: ip_Equal_canon_form)
qed

text \<open>
  \<open>NextIP\<close> adds one and keeps the length of the address, provided the address does not
  begin with a zero byte and is not the last one of its family.
\<close>

lemma NextIP_props:
  assumes len: "length ip = 4 \<or> length ip = 16" and lead: "hd ip \<noteq> 0"
    and top: "be_nat ip + 1 < 256 ^ length ip"
  shows length_NextIP: "length (NextIP ip) = length ip"
    and be_nat_NextIP: "be_nat (NextIP ip) = be_nat ip + 1"
    and hd_NextIP: "hd (NextIP ip) \<noteq> 0"
proof -
  have ne: "ip \<noteq> []" using len by auto
  have c: "canonical ip" using len lead by (rule canonical_lead)
  have eq: "NextIP ip = nat_bytes (be_nat ip + 1)"
    by (simp add: NextIP_def intToIP_def ipToInt_canonical [OF c] Let_def nat_add_distrib)
  have lo: "256 ^ (length ip - 1) \<le> be_nat ip"
    using be_nat_lead [OF ne] lead by simp
  have "length (nat_bytes (be_nat ip + 1)) = Suc (length ip - 1)"
    using lo top ne by (intro length_nat_bytes) simp_all
  then show l: "length (NextIP ip) = length ip"
    using ne eq by simp
  show b: "be_nat (NextIP ip) = be_nat ip + 1"
    by (simp only: eq be_nat_nat_bytes)
  have "NextIP ip \<noteq> []" using l ne by auto
  with l b lo show "hd (NextIP ip) \<noteq> 0"
    by (simp add: be_nat_lead)
qed

lemma ip_Cmp_canonical:
  "canonical a \<Longrightarrow> canonical b \<Longrightarrow> ip_Cmp a b < 0 \<longleftrightarrow> be_nat a < be_nat b"
  "canonical a \<Longrightarrow> canonical b \<Longrightarrow> ip_Cmp a b > 0 \<longleftrightarrow> be_nat a > be_nat b"
  "canonical a \<Longrightarrow> canonical b \<Longrightarrow> 0 \<le> ip_Cmp a b \<longleftrightarrow> be_nat b \<le> be_nat a"
  "canonical a \<Longrightarrow> canonical b \<Longrightarrow> ip_Cmp a b \<le> 0 \<longleftrightarrow> be_nat a \<le> be_nat b"
  by (auto simp: ip_Cmp_def ipToInt_canonical Let_def)

section \<open>CIDR masks as division by a power of two\<close>

text \<open>
  \<open>is_cidr m n\<close>: the mask \<open>m\<close> has \<open>n\<close> leading ones and then only zeros. This is
  what \<open>Mask_Size\<close> recognises and \<open>CIDRMask\<close> builds.
\<close>

definition is_cidr :: "byte list \<Rightarrow> nat \<Rightarrow> bool" where
  "is_cidr m n \<longleftrightarrow> n \<le> 8 * length m \<and> m = cidr_bytes (length m) n"

lemma byte_mask_eq: "byte_mask k = NOT (mask (8 - k))"
proof (cases "8 \<le> k")
  case False
  then have "drop_bit k (0xff :: byte) = mask (8 - k)"
    by (intro bit_word_eqI) (auto simp: bit_simps bit_numeral_rec not_le less_Suc_eq numeral_eq_Suc)
  with False show ?thesis by (simp add: byte_mask_def)
qed (simp add: byte_mask_def)

lemma unat_and_not_mask: "unat (a AND NOT (mask n)) = unat a div 2 ^ n * 2 ^ n" for a :: byte
proof -
  have "unat (a AND NOT (mask n)) = push_bit n (drop_bit n (unat a))"
    by (rule bit_eqI) (auto simp: bit_simps dest: bit_imp_le_length)
  then show ?thesis
    by (simp add: push_bit_eq_mult drop_bit_eq_div)
qed

lemma unat_or_mask:
  fixes a :: byte
  assumes "n \<le> 8"
  shows "unat (a OR mask n) = unat a div 2 ^ n * 2 ^ n + (2 ^ n - 1)"
proof -
  have "unat (a OR mask n) = push_bit n (drop_bit n (unat a)) OR mask n"
    using assms by (intro bit_eqI) (auto simp: bit_simps)
  also have "\<dots> = push_bit n (drop_bit n (unat a)) + mask n"
    by (rule disjunctive_add_eq_or [symmetric], rule bit_eqI) (auto simp: bit_simps)
  finally show ?thesis
    by (simp add: push_bit_eq_mult drop_bit_eq_div mask_eq_exp_minus_1)
qed

lemma and_byte_mask_eq_iff:
  "a AND byte_mask k = b AND byte_mask k \<longleftrightarrow> unat a div 2 ^ (8 - k) = unat b div 2 ^ (8 - k)"
proof -
  have "a AND byte_mask k = b AND byte_mask k \<longleftrightarrow>
      unat (a AND byte_mask k) = unat (b AND byte_mask k)"
    by (simp add: word_unat_eq_iff)
  then show ?thesis
    by (simp add: byte_mask_eq unat_and_not_mask)
qed

lemma cidr_bytes_0 [simp]: "cidr_bytes l 0 = replicate l 0"
  by (induction l) (simp_all add: byte_mask_def)

lemma map2_and_zero [simp]: "length xs = l \<Longrightarrow> map2 (AND) xs (replicate l 0) = replicate l (0 :: byte)"
  by (induction xs arbitrary: l) auto

lemma byte_mask_full [simp]: "8 \<le> n \<Longrightarrow> x AND byte_mask n = x"
  by (simp add: byte_mask_eq)

lemma div_mult_exp: "r < 2 ^ (a::nat) \<Longrightarrow> (u * 2 ^ a + r) div 2 ^ (a + b) = u div (2 ^ b :: nat)"
  by (simp add: power_add div_mult2_eq)

lemma div_mult_exp2:
  "h \<le> a \<Longrightarrow> (u * 2 ^ a + r) div 2 ^ h = u * 2 ^ (a - h) + r div (2 ^ h :: nat)"
proof -
  assume "h \<le> a"
  then have "(2 :: nat) ^ a = 2 ^ (a - h) * 2 ^ h"
    by (simp flip: power_add)
  then show ?thesis
    by (simp add: mult.assoc [symmetric] div_mult_self1)
qed

lemma power_256: "(256 :: nat) ^ l = 2 ^ (8 * l)"
  by (simp add: power_mult)

text \<open>Two addresses agree under a mask exactly when they lie in the same block.\<close>

lemma masked_eq_iff:
  assumes "length a = l" "length b = l" "n \<le> 8 * l"
  shows "map2 (AND) a (cidr_bytes l n) = map2 (AND) b (cidr_bytes l n) \<longleftrightarrow>
    be_nat a div 2 ^ (8 * l - n) = be_nat b div 2 ^ (8 * l - n)"
  using assms
proof (induction l arbitrary: a b n)
  case (Suc l)
  then obtain x xs y ys where ab: "a = x # xs" "b = y # ys" "length xs = l" "length ys = l"
    by (metis length_Suc_conv)
  have lt: "be_nat xs < 2 ^ (8 * l)" "be_nat ys < 2 ^ (8 * l)"
    using be_nat_less [of xs] be_nat_less [of ys] ab by (simp_all add: power_256)
  show ?case
  proof (cases "8 \<le> n")
    case True
    let ?h = "8 * l - (n - 8)"
    have h: "8 * Suc l - n = ?h" "?h \<le> 8 * l" using True by auto
    have d: "be_nat xs div 2 ^ ?h < 2 ^ (8 * l - ?h)" "be_nat ys div 2 ^ ?h < 2 ^ (8 * l - ?h)"
      using lt h(2) by (auto intro!: less_mult_imp_div_less simp flip: power_add)
    have dd: "(unat x * 2 ^ (8 * l) + be_nat xs) div 2 ^ ?h = unat x * 2 ^ (8 * l - ?h) + be_nat xs div 2 ^ ?h"
      "(unat y * 2 ^ (8 * l) + be_nat ys) div 2 ^ ?h = unat y * 2 ^ (8 * l - ?h) + be_nat ys div 2 ^ ?h"
      by (rule div_mult_exp2 [OF h(2)])+
    have inj: "(u * p + r = v * p + s) = (u = v \<and> r = s)" if "r < p" "s < p" for u v p r s :: nat
    proof -
      have "(u * p + r) div p = u" "(u * p + r) mod p = r" "(v * p + s) div p = v" "(v * p + s) mod p = s"
        using that by auto
      then show ?thesis by metis
    qed
    have IH: "map2 (AND) xs (cidr_bytes l (n - 8)) = map2 (AND) ys (cidr_bytes l (n - 8)) \<longleftrightarrow>
      be_nat xs div 2 ^ ?h = be_nat ys div 2 ^ ?h"
      using Suc.prems(3) True ab by (intro Suc.IH) auto
    show ?thesis
      using True IH unfolding ab h(1) be_nat.simps power_256 ab(3,4) dd inj [OF d]
      by (simp add: word_unat_eq_iff)
  next
    case False
    then have h: "8 * Suc l - n = 8 * l + (8 - n)" and z: "n - 8 = 0" by auto
    show ?thesis
      unfolding ab h be_nat.simps power_256 ab(3,4)
      by (simp add: z ab and_byte_mask_eq_iff div_mult_exp [OF lt(1)] div_mult_exp [OF lt(2)])
  qed
qed simp

text \<open>Setting all host bits gives the last address of the block; clearing them the first.\<close>

lemma be_nat_host_ones:
  assumes "length a = l" "n \<le> 8 * l"
  shows "be_nat (map2 (\<lambda>b m. b OR NOT m) a (cidr_bytes l n)) =
    be_nat a div 2 ^ (8 * l - n) * 2 ^ (8 * l - n) + (2 ^ (8 * l - n) - 1)"
  using assms
proof (induction l arbitrary: a n)
  case (Suc l)
  then obtain x xs where a: "a = x # xs" "length xs = l"
    by (metis length_Suc_conv)
  have lt: "be_nat xs < 2 ^ (8 * l)"
    using be_nat_less [of xs] a by (simp add: power_256)
  show ?case
  proof (cases "8 \<le> n")
    case True
    let ?h = "8 * l - (n - 8)"
    have h: "8 * Suc l - n = ?h" "?h \<le> 8 * l" using True by auto
    have p: "(2 :: nat) ^ (8 * l) = 2 ^ (8 * l - ?h) * 2 ^ ?h"
      using h(2) by (simp flip: power_add)
    have IH: "be_nat (map2 (\<lambda>b m. b OR NOT m) xs (cidr_bytes l (n - 8))) =
      be_nat xs div 2 ^ ?h * 2 ^ ?h + (2 ^ ?h - 1)"
      using Suc.prems(2) True a by (intro Suc.IH) auto
    have "be_nat (map2 (\<lambda>b m. b OR NOT m) a (cidr_bytes (Suc l) n)) =
      unat x * 2 ^ (8 * l) + (be_nat xs div 2 ^ ?h * 2 ^ ?h + (2 ^ ?h - 1))"
      using True IH a by (simp add: byte_mask_eq power_256)
    also have "\<dots> = (unat x * 2 ^ (8 * l - ?h) + be_nat xs div 2 ^ ?h) * 2 ^ ?h + (2 ^ ?h - 1)"
      by (subst p) (simp only: add_mult_distrib mult.assoc add.assoc)
    also have "\<dots> = be_nat a div 2 ^ ?h * 2 ^ ?h + (2 ^ ?h - 1)"
      unfolding a be_nat.simps power_256 a(2) div_mult_exp2 [OF h(2)] by simp
    finally show ?thesis using h(1) by simp
  next
    case False
    have h: "8 * Suc l - n = 8 * l + (8 - n)" and z: "n - 8 = 0" using False by auto
    have zero: "be_nat (map2 (\<lambda>b m. b OR NOT m) xs (replicate l 0)) = 2 ^ (8 * l) - 1" if "length xs = l" for xs l
      using that
    proof (induction xs arbitrary: l)
      case (Cons y ys)
      then obtain k where k: "l = Suc k" "length ys = k" by auto
      have "(1 :: nat) \<le> 2 ^ (8 * k)" by simp
      then have "255 * 2 ^ (8 * k) + (2 ^ (8 * k) - 1) = 256 * 2 ^ (8 * k) - (1 :: nat)"
        by linarith
      moreover have "unat (- 1 :: byte) = 255"
        by (simp add: unsigned_minus_1_eq_mask mask_eq_exp_minus_1)
      ultimately show ?case
        using Cons.IH [of k] k by (simp add: power_256 power_add)
    qed simp
    have m: "unat (x OR NOT (byte_mask n)) = unat x div 2 ^ (8 - n) * 2 ^ (8 - n) + (2 ^ (8 - n) - 1)"
      using unat_or_mask [of "8 - n" x] by (simp add: byte_mask_eq)
    let ?q = "unat x div 2 ^ (8 - n)"
    have "be_nat (map2 (\<lambda>b m. b OR NOT m) a (cidr_bytes (Suc l) n)) =
      (?q * 2 ^ (8 - n) + (2 ^ (8 - n) - 1)) * 2 ^ (8 * l) + (2 ^ (8 * l) - 1)"
      using m zero [OF a(2)] a z by (simp add: power_256)
    also have "\<dots> = ?q * 2 ^ (8 * l + (8 - n)) + (2 ^ (8 * l + (8 - n)) - 1)"
    proof -
      have "(1 :: nat) \<le> 2 ^ (8 * l)" "(1 :: nat) \<le> 2 ^ (8 - n)" by simp_all
      then obtain u v where "(2 :: nat) ^ (8 * l) = Suc u" "(2 :: nat) ^ (8 - n) = Suc v"
        by (metis One_nat_def Suc_le_D)
      then show ?thesis by (simp add: power_add algebra_simps)
    qed
    also have "?q = be_nat a div 2 ^ (8 * l + (8 - n))"
      unfolding a be_nat.simps power_256 a(2) by (rule div_mult_exp [OF lt, symmetric])
    finally show ?thesis using h by simp
  qed
qed simp

text \<open>What \<open>Mask_Size\<close> says about a mask.\<close>

lemma byte_ones_table:
  "list_all (\<lambda>i. let v = of_nat i :: byte in case byte_ones 8 v of (n, w) \<Rightarrow>
     w \<noteq> 0 \<or> v = 0xff \<or> (n < 8 \<and> v = byte_mask n)) [0..<256]"
  by code_simp

lemma byte_ones_zero:
  assumes "byte_ones 8 v = (n, 0)" "v \<noteq> 0xff"
  shows "n < 8 \<and> v = byte_mask n"
proof -
  have "unat v \<in> set [0..<256]"
    by simp
  then have "let v = of_nat (unat v) :: byte in case byte_ones 8 v of (n, w) \<Rightarrow>
     w \<noteq> 0 \<or> v = 0xff \<or> (n < 8 \<and> v = byte_mask n)"
    using byte_ones_table unfolding list_all_iff by blast
  then show ?thesis
    using assms by (simp add: Let_def)
qed

lemma simpleMaskLength_ge: "-1 \<le> simpleMaskLength m"
  by (induction m) (auto simp: Let_def split: prod.splits)

lemma simpleMaskLength_cidr:
  "simpleMaskLength m = int n \<Longrightarrow> is_cidr m n"
proof (induction m arbitrary: n)
  case (Cons v m)
  show ?case
  proof (cases "v = 0xff")
    case True
    with Cons.prems have "simpleMaskLength m \<noteq> -1" "int n = 8 + simpleMaskLength m"
      by (auto simp: Let_def split: if_splits)
    then have "simpleMaskLength m = int (n - 8)" "8 \<le> n"
      using simpleMaskLength_ge [of m] by auto
    with Cons.IH [of "n - 8"] True show ?thesis
      by (auto simp: is_cidr_def byte_mask_def)
  next
    case False
    obtain k w where kw: "byte_ones 8 v = (k, w)" by (cases "byte_ones 8 v")
    with Cons.prems False have "w = 0" "list_all (\<lambda>b. b = 0) m" "k = n"
      by (auto split: if_splits)
    with kw False byte_ones_zero [of v n] have "n < 8" "v = byte_mask n"
      by auto
    moreover have "m = replicate (length m) 0"
      using \<open>list_all (\<lambda>b. b = 0) m\<close> by (induction m) auto
    ultimately show ?thesis by (simp add: is_cidr_def)
  qed
qed (simp add: is_cidr_def)

lemma Mask_Size_cidr: "Mask_Size m = (ones, bits) \<Longrightarrow> bits \<noteq> 0 \<Longrightarrow>
    is_cidr m (nat ones) \<and> 0 \<le> ones \<and> bits = 8 * int (length m)"
  using simpleMaskLength_cidr [of m "nat ones"] simpleMaskLength_ge [of m]
  by (auto simp: Mask_Size_def Let_def split: if_splits)

section \<open>Membership in a network\<close>

text \<open>
  A network in normal form: a canonical address and a CIDR mask of the same length.
  \<open>host_bits\<close> is the number of address bits the mask leaves to the hosts.
\<close>

definition prefix_len :: "ip_net \<Rightarrow> nat" where
  "prefix_len n = nat (fst (Mask_Size (Mask n)))"

definition host_bits :: "ip_net \<Rightarrow> nat" where
  "host_bits n = 8 * length (IP n) - prefix_len n"

definition net_ok :: "ip_net \<Rightarrow> bool" where
  "net_ok n \<longleftrightarrow> canonical (IP n) \<and> length (Mask n) = length (IP n) \<and> is_cidr (Mask n) (prefix_len n)"

lemma host_bits_le: "net_ok n \<Longrightarrow> prefix_len n \<le> 8 * length (IP n)"
  by (auto simp: net_ok_def is_cidr_def)

lemma To4_canonical_or: "canonical a \<Longrightarrow> (if To4 a \<noteq> [] then To4 a else a) = a"
  by (auto simp: canonical_def)

lemma networkNumberAndMask_ok: "net_ok n \<Longrightarrow> networkNumberAndMask n = (IP n, Mask n)"
  unfolding net_ok_def networkNumberAndMask_def canonical_def
  by (auto simp: Let_def)

lemma IPNet_Contains_iff:
  assumes "net_ok n" "canonical a"
  shows "IPNet_Contains n a \<longleftrightarrow> length a = length (IP n) \<and>
    be_nat (IP n) div 2 ^ host_bits n = be_nat a div 2 ^ host_bits n"
proof (cases "length a = length (IP n)")
  case True
  have "Mask n = cidr_bytes (length (IP n)) (prefix_len n)"
    using assms(1) by (metis net_ok_def is_cidr_def)
  then show ?thesis
    unfolding IPNet_Contains_def networkNumberAndMask_ok [OF assms(1)] host_bits_def
    using True masked_eq_iff [of "IP n" "length (IP n)" a "prefix_len n"] host_bits_le [OF assms(1)]
    by (simp add: To4_canonical_or [OF assms(2)] Let_def)
next
  case False
  then show ?thesis
    unfolding IPNet_Contains_def networkNumberAndMask_ok [OF assms(1)]
    by (simp add: To4_canonical_or [OF assms(2)] Let_def)
qed

lemma div_block_le:
  "a div k = b div k \<Longrightarrow> a \<le> x \<Longrightarrow> x \<le> b \<Longrightarrow> x div k = a div (k :: nat)"
  by (metis div_le_mono le_antisym)

lemma Network_IP:
  "net_ok n \<Longrightarrow> IP (Network n) = map2 (AND) (IP n) (Mask n)"
  by (auto simp: Network_def ip_Mask_def net_ok_def canonical_def Let_def)

end
