(* ===== verification/Ranges.thy ===== *)
theory Ranges
  imports Cidr
begin

text \<open>
  An address range (\<open>backend/allocator/range.go\<close>): its canonicalisation, its membership
  test and the overlap test, and what they mean for the numbers the addresses denote.
\<close>

record ip_range =
  RangeStart :: net_ip
  RangeEnd :: net_ip
  Subnet :: ip_net
  Gateway :: net_ip

section \<open>range.go\<close>

definition canonicalizeIP :: "net_ip \<Rightarrow> go_error + net_ip" where
  "canonicalizeIP ip =
     (if To4 ip \<noteq> [] then Inr (To4 ip)
      else if To16 ip \<noteq> [] then Inr (To16 ip)
      else Inl (Msg (''IP '' @ ip_String ip @ '' not v4 nor v6'')))"

text \<open>
  \<open>lastIP\<close>: all host bits set, less one for IPv4. Its caller has checked that address and
  mask have the same length, so no index is out of range.
\<close>

definition lastIP :: "ip_net \<Rightarrow> net_ip" where
  "lastIP subnet =
     (let end = map2 (\<lambda>b m. b OR NOT m) (IP subnet) (Mask subnet) in
      if To4 (IP subnet) \<noteq> [] then end[3 := end ! 3 - 1] else end)"

definition Range_Contains :: "ip_range \<Rightarrow> net_ip \<Rightarrow> bool" where
  "Range_Contains r addr =
     (case canonicalizeIP addr of
        Inl e \<Rightarrow> False
      | Inr addr \<Rightarrow>
          if length addr \<noteq> length (IP (Subnet r)) then False
          else if \<not> IPNet_Contains (Subnet r) addr then False
          else if RangeStart r \<noteq> [] \<and> ip_Cmp addr (RangeStart r) < 0 then False
          else if RangeEnd r \<noteq> [] \<and> ip_Cmp addr (RangeEnd r) > 0 then False
          else True)"

text \<open>The three parts of \<open>Canonicalize\<close> that fill in the gateway and the two ends.\<close>

definition fill_gateway :: "ip_range \<Rightarrow> go_error + ip_range" where
  "fill_gateway r =
     (if Gateway r = [] then Inr (r\<lparr>Gateway := NextIP (IP (Subnet r))\<rparr>)
      else bind_sum (canonicalizeIP (Gateway r)) (\<lambda>g.
        if \<not> IPNet_Contains (Subnet r) g
        then Inl (Msg (''gateway '' @ ip_String g @ '' not in network '' @ IPNet_String (Subnet r)))
        else Inr (r\<lparr>Gateway := g\<rparr>)))"

definition fill_start :: "ip_range \<Rightarrow> go_error + ip_range" where
  "fill_start r =
     (if RangeStart r \<noteq> [] then
        bind_sum (canonicalizeIP (RangeStart r)) (\<lambda>s.
          let r = r\<lparr>RangeStart := s\<rparr> in
          if \<not> Range_Contains r (RangeStart r)
          then Inl (Msg (''RangeStart '' @ ip_String s @ '' not in network '' @ IPNet_String (Subnet r)))
          else Inr r)
      else Inr (r\<lparr>RangeStart := NextIP (IP (Subnet r))\<rparr>))"

definition fill_end :: "ip_range \<Rightarrow> go_error + ip_range" where
  "fill_end r =
     (if RangeEnd r \<noteq> [] then
        bind_sum (canonicalizeIP (RangeEnd r)) (\<lambda>e.
          let r = r\<lparr>RangeEnd := e\<rparr> in
          if \<not> Range_Contains r (RangeEnd r)
          then Inl (Msg (''RangeEnd '' @ ip_String e @ '' not in network '' @ IPNet_String (Subnet r)))
          else Inr r)
      else Inr (r\<lparr>RangeEnd := lastIP (Subnet r)\<rparr>))"

definition Range_Canonicalize :: "ip_range \<Rightarrow> go_error + ip_range" where
  "Range_Canonicalize r =
     bind_sum (canonicalizeIP (IP (Subnet r))) (\<lambda>ip.
       let r = r\<lparr>Subnet := (Subnet r)\<lparr>IP := ip\<rparr>\<rparr> in
       case Mask_Size (Mask (Subnet r)) of (ones, masklen) \<Rightarrow>
         if ones > masklen - 2
         then Inl (Msg (''Network '' @ IPNet_String (Subnet r) @ '' too small to allocate from''))
         else if length (IP (Subnet r)) \<noteq> length (Mask (Subnet r))
         then Inl (Msg ''IPNet IP and Mask version mismatch'')
         else bind_sum (fill_gateway r) (\<lambda>r. bind_sum (fill_start r) fill_end))"

definition Range_Overlaps :: "ip_range \<Rightarrow> ip_range \<Rightarrow> bool" where
  "Range_Overlaps r r1 =
     (if length (RangeStart r) \<noteq> length (RangeStart r1) then False
      else Range_Contains r (RangeStart r1) \<or> Range_Contains r (RangeEnd r1)
         \<or> Range_Contains r1 (RangeStart r) \<or> Range_Contains r1 (RangeEnd r))"

definition Range_String :: "ip_range \<Rightarrow> string" where
  "Range_String r = ip_String (RangeStart r) @ ''-'' @ ip_String (RangeEnd r)"

section \<open>Canonical addresses\<close>

lemma canonicalizeIP_Inr: "canonicalizeIP ip = Inr c \<Longrightarrow> canonical c"
  by (auto simp: canonicalizeIP_def canonical_def To16_def split: if_splits dest: To4_cases [THEN disjE])
    (auto simp: To4_def split: if_splits)

lemma canonicalizeIP_id: "canonical ip \<Longrightarrow> canonicalizeIP ip = Inr ip"
  by (auto simp: canonicalizeIP_def canonical_def To16_def)

lemma canonicalizeIP_Equal: "canonicalizeIP ip = Inr c \<Longrightarrow> ip_Equal ip c"
  unfolding canonicalizeIP_def ip_Equal_def To4_def To16_def by (auto split: if_splits)

lemma canonicalizeIP_form: "canonicalizeIP ip = Inr c \<Longrightarrow> c = canon_form ip"
  by (auto simp: canonicalizeIP_def canon_form_def To16_def To4_def split: if_splits)

section \<open>Ranges in normal form\<close>

text \<open>
  \<open>range_ok\<close>: the subnet is in normal form, both ends are canonical addresses of the
  subnet's family inside its block, neither begins with a zero byte, and the start is not
  after the end. \<open>lo\<close> and \<open>hi\<close> are the ends as numbers.
\<close>

definition lo :: "ip_range \<Rightarrow> nat" where "lo r = be_nat (RangeStart r)"
definition hi :: "ip_range \<Rightarrow> nat" where "hi r = be_nat (RangeEnd r)"
definition fam :: "ip_range \<Rightarrow> nat" where "fam r = length (RangeStart r)"

definition in_block :: "ip_net \<Rightarrow> nat \<Rightarrow> bool" where
  "in_block n x \<longleftrightarrow> be_nat (IP n) div 2 ^ host_bits n = x div 2 ^ host_bits n"

definition range_ok :: "ip_range \<Rightarrow> bool" where
  "range_ok r \<longleftrightarrow>
     net_ok (Subnet r) \<and> length (IP (Subnet r)) = fam r \<and>
     canonical (RangeStart r) \<and> canonical (RangeEnd r) \<and> length (RangeEnd r) = fam r \<and>
     hd (RangeStart r) \<noteq> 0 \<and>
     in_block (Subnet r) (lo r) \<and> in_block (Subnet r) (hi r) \<and> lo r \<le> hi r"

lemma Range_Contains_canonical:
  assumes "net_ok (Subnet r)" "canonical a"
    and "RangeStart r \<noteq> [] \<Longrightarrow> canonical (RangeStart r)"
    and "RangeEnd r \<noteq> [] \<Longrightarrow> canonical (RangeEnd r)"
  shows "Range_Contains r a \<longleftrightarrow> length a = length (IP (Subnet r)) \<and> in_block (Subnet r) (be_nat a) \<and>
    (RangeStart r \<noteq> [] \<longrightarrow> lo r \<le> be_nat a) \<and> (RangeEnd r \<noteq> [] \<longrightarrow> be_nat a \<le> hi r)"
  using assms
  by (auto simp: Range_Contains_def canonicalizeIP_id IPNet_Contains_iff in_block_def
      ip_Cmp_canonical lo_def hi_def not_less)

lemma range_ok_ne: "range_ok r \<Longrightarrow> RangeStart r \<noteq> [] \<and> RangeEnd r \<noteq> []"
  by (auto simp: range_ok_def dest: canonical_not_Nil)

text \<open>Membership in a range is membership in an interval of numbers.\<close>

lemma Range_Contains_ok:
  assumes ok: "range_ok r" and "canonical a"
  shows "Range_Contains r a \<longleftrightarrow> length a = fam r \<and> lo r \<le> be_nat a \<and> be_nat a \<le> hi r"
proof -
  have "in_block (Subnet r) x" if "lo r \<le> x" "x \<le> hi r" for x
    using ok that div_block_le [of "lo r" _ "hi r" x] by (auto simp: range_ok_def in_block_def)
  then show ?thesis
    using assms range_ok_ne [OF ok]
    by (subst Range_Contains_canonical) (auto simp: range_ok_def)
qed

lemma Range_Overlaps_ok:
  assumes "range_ok r" "range_ok s"
  shows "Range_Overlaps r s \<longleftrightarrow> fam r = fam s \<and> lo r \<le> hi s \<and> lo s \<le> hi r"
proof -
  have "canonical (RangeStart r)" "canonical (RangeEnd r)" "canonical (RangeStart s)" "canonical (RangeEnd s)"
    and "length (RangeEnd r) = fam r" "length (RangeEnd s) = fam s" "lo r \<le> hi r" "lo s \<le> hi s"
    using assms by (auto simp: range_ok_def)
  then show ?thesis
    using assms unfolding Range_Overlaps_def
    by (auto simp: Range_Contains_ok fam_def [symmetric] lo_def [symmetric] hi_def [symmetric])
qed

section \<open>What canonicalisation establishes\<close>

lemma unat_or_not: "unat (b OR NOT m) = unat (b AND m) + unat (NOT m)" for b m :: byte
proof -
  have "unat (b OR NOT m) = unat (b AND m) OR unat (NOT m)"
    by (rule bit_eqI) (auto simp: bit_simps dest: bit_imp_le_length)
  also have "\<dots> = unat (b AND m) + unat (NOT m)"
    by (rule disjunctive_add_eq_or [symmetric], rule bit_eqI) (auto simp: bit_simps)
  finally show ?thesis .
qed

lemma be_nat_or_not:
  "length a = length m \<Longrightarrow>
    be_nat (map2 (\<lambda>b m. b OR NOT m) a m) = be_nat (map2 (AND) a m) + be_nat (map NOT m)"
  by (induction a m rule: list_induct2) (simp_all add: unat_or_not algebra_simps)

lemma be_nat_replicate_0 [simp]: "be_nat (replicate n 0) = 0"
  by (induction n) auto

lemma be_nat_masked:
  assumes "length a = l" "n \<le> 8 * l"
  shows "be_nat (map2 (AND) a (cidr_bytes l n)) = be_nat a div 2 ^ (8 * l - n) * 2 ^ (8 * l - n)"
proof -
  let ?m = "cidr_bytes l n"
  have z: "map2 (\<lambda>b m. b OR NOT m) (replicate k 0) m = map NOT m" if "length m = k" for k and m :: "byte list"
    using that by (induction m arbitrary: k) auto
  have "be_nat (map NOT ?m) = 2 ^ (8 * l - n) - 1"
    using be_nat_host_ones [of "replicate l 0" l n] assms(2) z [of ?m l] by simp
  moreover have "be_nat (map2 (\<lambda>b m. b OR NOT m) a ?m) = be_nat (map2 (AND) a ?m) + be_nat (map NOT ?m)"
    using assms(1) by (intro be_nat_or_not) simp
  ultimately show ?thesis
    unfolding be_nat_host_ones [OF assms] by (metis add_right_cancel)
qed

definition block_top :: "ip_net \<Rightarrow> nat" where
  "block_top n = be_nat (IP n) div 2 ^ host_bits n * 2 ^ host_bits n + (2 ^ host_bits n - 1)"

lemma net_ok_cidr: "net_ok n \<Longrightarrow> Mask n = cidr_bytes (length (IP n)) (prefix_len n)"
  by (metis net_ok_def is_cidr_def)

lemma block_top_less: "net_ok n \<Longrightarrow> block_top n < 256 ^ length (IP n)"
proof -
  assume ok: "net_ok n"
  have "block_top n = be_nat (map2 (\<lambda>b m. b OR NOT m) (IP n) (Mask n))"
    using be_nat_host_ones [OF refl host_bits_le [OF ok]] net_ok_cidr [OF ok]
    by (simp add: block_top_def host_bits_def)
  also have "\<dots> < 256 ^ length (IP n)"
    using be_nat_less [of "map2 (\<lambda>b m. b OR NOT m) (IP n) (Mask n)"] ok by (simp add: net_ok_def)
  finally show ?thesis .
qed

lemma in_block_iff: "in_block n x \<longleftrightarrow> block_top n - (2 ^ host_bits n - 1) \<le> x \<and> x \<le> block_top n"
proof -
  let ?k = "2 ^ host_bits n :: nat" and ?q = "be_nat (IP n) div 2 ^ host_bits n"
  have k: "0 < ?k" by simp
  have "?q = x div ?k \<longleftrightarrow> ?q * ?k \<le> x \<and> x < (?q + 1) * ?k"
    by (metis k add.commute div_nat_eqI less_eq_div_iff_mult_less_eq lessI mult.commute plus_1_eq_Suc
        dividend_less_div_times div_times_less_eq_dividend mult_Suc less_add_same_cancel1 Suc_eq_plus1)
  moreover obtain j where "?k = Suc j"
    using k gr0_implies_Suc by blast
  ultimately show ?thesis
    unfolding in_block_def block_top_def by (auto simp: algebra_simps)
qed

lemma no_host_bits:
  assumes "net_ok n" "IP (Network n) = IP n"
  shows "be_nat (IP n) = block_top n - (2 ^ host_bits n - 1)"
proof -
  have "map2 (AND) (IP n) (cidr_bytes (length (IP n)) (prefix_len n)) = IP n"
    using assms Network_IP [OF assms(1)] net_ok_cidr [OF assms(1)] by metis
  then have "be_nat (IP n) = be_nat (IP n) div 2 ^ host_bits n * 2 ^ host_bits n"
    using be_nat_masked [OF refl host_bits_le [OF assms(1)]] by (simp add: host_bits_def)
  then show ?thesis
    by (simp add: block_top_def)
qed

text \<open>The default end: the top of the block, less one for IPv4.\<close>

lemma lastIP_props:
  assumes ok: "net_ok n" and h: "0 < host_bits n"
  shows "length (lastIP n) = length (IP n)"
    and "be_nat (lastIP n) = block_top n - (if length (IP n) = 4 then 1 else 0)"
proof -
  let ?e = "map2 (\<lambda>b m. b OR NOT m) (IP n) (Mask n)"
  have len: "length ?e = length (IP n)"
    using ok by (simp add: net_ok_def)
  then show "length (lastIP n) = length (IP n)"
    by (simp add: lastIP_def Let_def)
  have top: "be_nat ?e = block_top n"
    using be_nat_host_ones [OF refl host_bits_le [OF ok]] net_ok_cidr [OF ok]
    by (simp add: block_top_def host_bits_def)
  show "be_nat (lastIP n) = block_top n - (if length (IP n) = 4 then 1 else 0)"
  proof (cases "length (IP n) = 4")
    case True
    then have "length ?e = 4"
      using len by simp
    then obtain a b c d where e: "?e = [a, b, c, d]"
      unfolding length4_conv by (elim exE) (rule that)
    have "odd (block_top n)"
      using h by (simp add: block_top_def)
    then have "odd (be_nat [a, b, c, d])"
      using top e by metis
    then have "unat d \<noteq> 0" by (auto simp: odd_iff_mod_2_eq_one)
    then have "d \<noteq> 0" "1 \<le> unat d" by auto
    then have "unat (d - 1) = unat d - 1"
      by (rule_tac unat_minus_one)
    with \<open>1 \<le> unat d\<close> have "be_nat [a, b, c, d - 1] = be_nat [a, b, c, d] - 1"
      by simp
    moreover have "lastIP n = [a, b, c, d - 1]"
      using True e by (auto simp: lastIP_def Let_def)
    ultimately show ?thesis
      using True top e by simp
  next
    case False
    then have "To4 (IP n) = []"
      using ok by (auto simp: net_ok_def canonical_def)
    with False top show ?thesis
      by (simp add: lastIP_def Let_def)
  qed
qed


text \<open>A successful canonicalisation, taken apart.\<close>

lemma NextIP_not_Nil [simp]: "NextIP ip \<noteq> []"
proof -
  have "0 \<le> ipToInt ip" by (simp add: ipToInt_def Let_def)
  then have "nat \<bar>ipToInt ip + 1\<bar> \<noteq> 0" by simp
  then show ?thesis
    unfolding NextIP_def intToIP_def Let_def by (subst nat_bytes.simps) simp
qed

lemma fill_gateway_Inr: "fill_gateway r = Inr r1 \<Longrightarrow> \<exists>g. r1 = r\<lparr>Gateway := g\<rparr> \<and>
    (Gateway r = [] \<longrightarrow> g = NextIP (IP (Subnet r))) \<and>
    (Gateway r \<noteq> [] \<longrightarrow> canonicalizeIP (Gateway r) = Inr g \<and> IPNet_Contains (Subnet r) g)"
  by (auto simp: fill_gateway_def split: if_splits)

lemma fill_start_Inr: "fill_start r = Inr r1 \<Longrightarrow> \<exists>s. r1 = r\<lparr>RangeStart := s\<rparr> \<and>
    (RangeStart r = [] \<longrightarrow> s = NextIP (IP (Subnet r))) \<and>
    (RangeStart r \<noteq> [] \<longrightarrow> canonicalizeIP (RangeStart r) = Inr s \<and> Range_Contains r1 s)"
  by (auto simp: fill_start_def Let_def split: if_splits)

lemma fill_end_Inr: "fill_end r = Inr r1 \<Longrightarrow> \<exists>e. r1 = r\<lparr>RangeEnd := e\<rparr> \<and>
    (RangeEnd r = [] \<longrightarrow> e = lastIP (Subnet r)) \<and>
    (RangeEnd r \<noteq> [] \<longrightarrow> canonicalizeIP (RangeEnd r) = Inr e \<and> Range_Contains r1 e)"
  by (auto simp: fill_end_def Let_def split: if_splits)

lemma Range_Canonicalize_Inr:
  assumes "Range_Canonicalize r = Inr r'"
  shows "canonicalizeIP (IP (Subnet r)) = Inr (IP (Subnet r'))"
    and "Mask (Subnet r') = Mask (Subnet r)"
    and "net_ok (Subnet r')" and "2 \<le> host_bits (Subnet r')"
    and "\<exists>r0. fill_gateway r0 = Inr (r'\<lparr>RangeStart := RangeStart r, RangeEnd := RangeEnd r\<rparr>) \<and>
      Gateway r0 = Gateway r \<and> Subnet r0 = Subnet r'"
    and "fill_start (r'\<lparr>RangeStart := RangeStart r, RangeEnd := RangeEnd r\<rparr>) = Inr (r'\<lparr>RangeEnd := RangeEnd r\<rparr>)"
    and "fill_end (r'\<lparr>RangeEnd := RangeEnd r\<rparr>) = Inr r'"
proof -
  obtain ip where ip: "canonicalizeIP (IP (Subnet r)) = Inr ip"
    using assms by (auto simp: Range_Canonicalize_def)
  obtain ones bits where sz: "Mask_Size (Mask (Subnet r)) = (ones, bits)"
    by (cases "Mask_Size (Mask (Subnet r))")
  define r0 where "r0 = r\<lparr>Subnet := (Subnet r)\<lparr>IP := ip\<rparr>\<rparr>"
  have size: "ones \<le> bits - 2" "length ip = length (Mask (Subnet r))"
    and "bind_sum (fill_gateway r0) (\<lambda>r. bind_sum (fill_start r) fill_end) = Inr r'"
    using assms ip sz by (auto simp: Range_Canonicalize_def r0_def Let_def split: if_splits)
  then obtain r1 r2 where f: "fill_gateway r0 = Inr r1" "fill_start r1 = Inr r2" "fill_end r2 = Inr r'"
    by auto
  obtain g s e where r1: "r1 = r0\<lparr>Gateway := g\<rparr>" and r2: "r2 = r1\<lparr>RangeStart := s\<rparr>" and r': "r' = r2\<lparr>RangeEnd := e\<rparr>"
    using fill_gateway_Inr [OF f(1)] fill_start_Inr [OF f(2)] fill_end_Inr [OF f(3)] by blast
  have sub: "Subnet r' = (Subnet r)\<lparr>IP := ip\<rparr>"
    by (simp add: r1 r2 r' r0_def)
  then show "canonicalizeIP (IP (Subnet r)) = Inr (IP (Subnet r'))" "Mask (Subnet r') = Mask (Subnet r)"
    using ip by simp_all
  have "bits \<noteq> 0"
    using size(1) sz by (auto simp: Mask_Size_def Let_def split: if_splits)
  then have "is_cidr (Mask (Subnet r)) (nat ones)" "0 \<le> ones" "bits = 8 * int (length ip)"
    using Mask_Size_cidr [OF sz] size(2) by auto
  then show "net_ok (Subnet r')" "2 \<le> host_bits (Subnet r')"
    using canonicalizeIP_Inr [OF ip] size sz
    by (auto simp: sub net_ok_def prefix_len_def host_bits_def)
  show "\<exists>r0. fill_gateway r0 = Inr (r'\<lparr>RangeStart := RangeStart r, RangeEnd := RangeEnd r\<rparr>) \<and>
      Gateway r0 = Gateway r \<and> Subnet r0 = Subnet r'"
    using f(1) sub by (intro exI [of _ r0]) (simp add: r1 r2 r' r0_def)
  show "fill_start (r'\<lparr>RangeStart := RangeStart r, RangeEnd := RangeEnd r\<rparr>) = Inr (r'\<lparr>RangeEnd := RangeEnd r\<rparr>)"
    using f(2) by (simp add: r1 r2 r' r0_def)
  show "fill_end (r'\<lparr>RangeEnd := RangeEnd r\<rparr>) = Inr r'"
    using f(3) by (simp add: r1 r2 r' r0_def)
qed

text \<open>
  Canonicalisation succeeds only with a range in normal form, when the subnet is written
  without host bits and does not begin with a zero byte, and unless the start was given
  beyond the default end.
\<close>

lemma Range_Canonicalize_ok:
  assumes can: "Range_Canonicalize r = Inr r'"
    and lead: "hd (IP (Subnet r')) \<noteq> 0" "hd (RangeStart r') \<noteq> 0"
    and net: "RangeStart r = [] \<Longrightarrow> IP (Network (Subnet r')) = IP (Subnet r')"
    and default_end: "RangeEnd r = [] \<Longrightarrow> RangeStart r \<noteq> [] \<Longrightarrow> lo r' \<le> be_nat (lastIP (Subnet r'))"
  shows "range_ok r'"
proof -
  let ?n = "Subnet r'"
  let ?k = "2 ^ host_bits ?n :: nat"
  note parts = Range_Canonicalize_Inr [OF can]
  have ok: "net_ok ?n" and h: "2 \<le> host_bits ?n" by (fact parts)+
  have len: "length (IP ?n) = 4 \<or> length (IP ?n) = 16"
    using ok by (auto simp: net_ok_def canonical_def)
  have "(2 :: nat) ^ 2 \<le> ?k" using h by (intro power_increasing) auto
  then have k: "4 \<le> ?k" by simp
  have top: "?k - 1 \<le> block_top ?n" "block_top ?n < 256 ^ length (IP ?n)"
    using block_top_less [OF ok] by (simp_all add: block_top_def)
  obtain s where s: "s = RangeStart r'"
    "RangeStart r = [] \<Longrightarrow> s = NextIP (IP ?n)"
    "RangeStart r \<noteq> [] \<Longrightarrow> canonicalizeIP (RangeStart r) = Inr s \<and> Range_Contains (r'\<lparr>RangeEnd := RangeEnd r\<rparr>) s"
    using fill_start_Inr [OF parts(6)] by (cases r') auto
  obtain e where e: "e = RangeEnd r'"
    "RangeEnd r = [] \<Longrightarrow> e = lastIP ?n"
    "RangeEnd r \<noteq> [] \<Longrightarrow> canonicalizeIP (RangeEnd r) = Inr e \<and> Range_Contains r' e"
    using fill_end_Inr [OF parts(7)] by (cases r') auto
  have start: "canonical s \<and> length s = length (IP ?n) \<and> in_block ?n (be_nat s) \<and>
    (RangeStart r = [] \<longrightarrow> be_nat s = block_top ?n - (?k - 1) + 1)"
  proof (cases "RangeStart r = []")
    case True
    have b: "be_nat (IP ?n) = block_top ?n - (?k - 1)"
      using no_host_bits [OF ok net [OF True]] .
    have "be_nat (IP ?n) + 1 < 256 ^ length (IP ?n)"
      using b top k by linarith
    note nx = NextIP_props [OF len lead(1) this]
    have "canonical s"
      using canonical_lead [of s] len lead(2) s nx True by auto
    with nx s True b top k show ?thesis
      by (auto simp: in_block_iff)
  next
    case False
    with s have c: "canonical s" "Range_Contains (r'\<lparr>RangeEnd := RangeEnd r\<rparr>) s"
      by (auto dest: canonicalizeIP_Inr)
    then have "IPNet_Contains ?n s" "length s = length (IP ?n)"
      by (auto simp: Range_Contains_def canonicalizeIP_id split: if_splits)
    with c(1) False show ?thesis
      using IPNet_Contains_iff [OF ok c(1)] by (auto simp: in_block_def)
  qed
  have "RangeStart r' \<noteq> []" using start s(1) canonical_not_Nil by auto
  have lo: "lo r' = be_nat s" by (simp add: lo_def s(1))
  have hds: "256 ^ (length s - 1) \<le> be_nat s"
    using be_nat_lead [of s] start lead(2) s(1) canonical_not_Nil by auto
  have "canonical e \<and> length e = length (IP ?n) \<and> in_block ?n (be_nat e) \<and> be_nat s \<le> be_nat e"
  proof (cases "RangeEnd r = []")
    case True
    have h0: "0 < host_bits ?n" using h by simp
    note lp = lastIP_props [OF ok h0]
    have le: "be_nat s \<le> be_nat e"
      using default_end [OF True] start e(2) [OF True] lo lp(2) k top
      by (cases "RangeStart r = []") auto
    have "e \<noteq> []" "length e = length s"
      using lp(1) e(2) [OF True] start len by auto
    then have "hd e \<noteq> 0"
      using be_nat_lead [of e] hds le by auto
    then have "canonical e"
      using lp(1) e(2) [OF True] len by (intro canonical_lead) auto
    with le lp e(2) [OF True] k top show ?thesis
      by (auto simp: in_block_iff)
  next
    case False
    with e have c: "canonical e" "Range_Contains r' e"
      by (auto dest: canonicalizeIP_Inr)
    have "Range_Contains r' e \<longleftrightarrow> length e = length (IP ?n) \<and> in_block ?n (be_nat e) \<and>
      (RangeStart r' \<noteq> [] \<longrightarrow> lo r' \<le> be_nat e) \<and> (RangeEnd r' \<noteq> [] \<longrightarrow> be_nat e \<le> hi r')"
      using start s(1) e(1) c(1) by (intro Range_Contains_canonical [OF ok c(1)]) auto
    with c \<open>RangeStart r' \<noteq> []\<close> lo show ?thesis by auto
  qed
  with start ok lead s(1) e(1) show ?thesis
    by (auto simp: range_ok_def fam_def lo_def hi_def)
qed

end
