(* ===== verification/RangeSets.thy ===== *)
theory RangeSets
  imports Ranges
begin

text \<open>
  A set of ranges (\<open>backend/allocator/range_set.go\<close>): lookup, overlap and
  canonicalisation, and the invariant canonicalisation establishes.
\<close>

type_synonym range_set = "ip_range list"

section \<open>range_set.go\<close>

definition RangeSet_String :: "range_set \<Rightarrow> string" where
  "RangeSet_String s = join '','' (map Range_String s)"

definition RangeSet_RangeFor :: "range_set \<Rightarrow> net_ip \<Rightarrow> go_error + ip_range" where
  "RangeSet_RangeFor s addr =
     (case canonicalizeIP addr of
        Inl e \<Rightarrow> Inl e
      | Inr addr \<Rightarrow>
          (case find (\<lambda>r. Range_Contains r addr) s of
             Some r \<Rightarrow> Inr r
           | None \<Rightarrow> Inl (Msg (ip_String addr @ '' not in range set '' @ RangeSet_String s))))"

definition RangeSet_Contains :: "range_set \<Rightarrow> net_ip \<Rightarrow> bool" where
  "RangeSet_Contains s addr =
     (case RangeSet_RangeFor s addr of Inl _ \<Rightarrow> False | Inr _ \<Rightarrow> True)"

definition RangeSet_Overlaps :: "range_set \<Rightarrow> range_set \<Rightarrow> bool" where
  "RangeSet_Overlaps s p1 = list_ex (\<lambda>r. list_ex (\<lambda>r1. Range_Overlaps r r1) p1) s"

text \<open>
  \<open>Canonicalize\<close>: first every range with the family check (\<open>fam\<close> is the length of the
  first range's start), then the pairwise overlap check.
\<close>

fun canon_ranges :: "nat option \<Rightarrow> range_set \<Rightarrow> go_error + range_set" where
  "canon_ranges f [] = Inr []"
| "canon_ranges f (r # rs) =
     (case Range_Canonicalize r of
        Inl e \<Rightarrow> Inl e
      | Inr r' \<Rightarrow>
          if f \<noteq> None \<and> f \<noteq> Some (length (RangeStart r')) then Inl (Msg ''mixed address families'')
          else bind_sum (canon_ranges (Some (length (RangeStart r'))) rs) (\<lambda>rs'. Inr (r' # rs')))"

fun check_overlaps :: "range_set \<Rightarrow> go_error option" where
  "check_overlaps [] = None"
| "check_overlaps (r1 # rs) =
     (case find (\<lambda>r2. Range_Overlaps r1 r2) rs of
        Some r2 \<Rightarrow> Some (Msg (''subnets '' @ Range_String r1 @ '' and '' @ Range_String r2 @ '' overlap''))
      | None \<Rightarrow> check_overlaps rs)"

definition RangeSet_Canonicalize :: "range_set \<Rightarrow> go_error + range_set" where
  "RangeSet_Canonicalize s =
     (if s = [] then Inl (Msg ''empty range set'')
      else bind_sum (canon_ranges None s) (\<lambda>s'.
        case check_overlaps s' of Some e \<Rightarrow> Inl e | None \<Rightarrow> Inr s'))"

section \<open>The invariant of a range set\<close>

definition set_ok :: "range_set \<Rightarrow> bool" where
  "set_ok s \<longleftrightarrow> s \<noteq> [] \<and> (\<forall>r\<in>set s. range_ok r \<and> fam r = fam (hd s)) \<and>
     sorted_wrt (\<lambda>r r1. \<not> Range_Overlaps r r1) s"

lemma check_overlaps_None:
  "check_overlaps s = None \<longleftrightarrow> sorted_wrt (\<lambda>r r1. \<not> Range_Overlaps r r1) s"
  by (induction s) (auto split: option.splits simp: find_None_iff find_Some_iff)

lemma canon_ranges_Inr:
  "canon_ranges f s = Inr s' \<Longrightarrow> list_all2 (\<lambda>r r'. Range_Canonicalize r = Inr r') s s' \<and>
     (\<forall>r\<in>set s'. case f of None \<Rightarrow> fam r = fam (hd s') | Some l \<Rightarrow> fam r = l)"
proof (induction f s arbitrary: s' rule: canon_ranges.induct)
  case (2 f r rs)
  obtain r' where r': "Range_Canonicalize r = Inr r'"
    using "2.prems" by (cases "Range_Canonicalize r") auto
  then have f: "f = None \<or> f = Some (fam r')"
    using "2.prems" by (auto simp: fam_def split: if_splits)
  then have *: "\<not> (f \<noteq> None \<and> f \<noteq> Some (length (RangeStart r')))"
    by (auto simp: fam_def)
  with "2.prems" r' obtain rs' where s': "s' = r' # rs'"
    and "canon_ranges (Some (length (RangeStart r'))) rs = Inr rs'"
    by auto
  then have IH: "list_all2 (\<lambda>r r'. Range_Canonicalize r = Inr r') rs rs'" "\<forall>r\<in>set rs'. fam r = fam r'"
    using "2.IH" [OF r' *] by (auto simp: fam_def)
  with r' s' f show ?case by (auto split: option.splits)
qed simp

text \<open>
  Canonicalisation returns ranges of one family, no two of which overlap, each the
  canonical form of the range given.
\<close>

lemma RangeSet_Canonicalize_Inr:
  assumes "RangeSet_Canonicalize s = Inr s'"
  shows "s' \<noteq> []" and "list_all2 (\<lambda>r r'. Range_Canonicalize r = Inr r') s s'"
    and "\<forall>r\<in>set s'. fam r = fam (hd s')"
    and "sorted_wrt (\<lambda>r r1. \<not> Range_Overlaps r r1) s'"
proof -
  have ne: "s \<noteq> []" and c: "canon_ranges None s = Inr s'" and o: "check_overlaps s' = None"
    using assms by (auto simp: RangeSet_Canonicalize_def split: if_splits option.splits)
  from canon_ranges_Inr [OF c] show l: "list_all2 (\<lambda>r r'. Range_Canonicalize r = Inr r') s s'"
    and "\<forall>r\<in>set s'. fam r = fam (hd s')" by simp_all
  from l ne show "s' \<noteq> []" by auto
  from o show "sorted_wrt (\<lambda>r r1. \<not> Range_Overlaps r r1) s'"
    by (simp only: check_overlaps_None)
qed

lemma RangeSet_Canonicalize_ok:
  assumes "RangeSet_Canonicalize s = Inr s'" and "\<forall>r\<in>set s'. range_ok r"
  shows "set_ok s'"
  unfolding set_ok_def
  using RangeSet_Canonicalize_Inr [OF assms(1)] assms(2) by blast

lemma Range_Overlaps_sym: "Range_Overlaps r s \<longleftrightarrow> Range_Overlaps s r"
  by (auto simp: Range_Overlaps_def)

lemma set_okD:
  assumes "set_ok s" "r \<in> set s"
  shows "range_ok r" "fam r = fam (hd s)"
  using assms unfolding set_ok_def by blast+

lemma set_ok_pair: "set_ok s \<Longrightarrow> i < j \<Longrightarrow> j < length s \<Longrightarrow> \<not> Range_Overlaps (s ! i) (s ! j)"
  using sorted_wrt_nth_less [of "\<lambda>r r1. \<not> Range_Overlaps r r1" s i j]
  unfolding set_ok_def by blast

text \<open>No address number lies in two ranges of a set in normal form.\<close>

lemma set_ok_disjoint:
  assumes "set_ok s" "i < length s" "j < length s" "i \<noteq> j"
    "lo (s ! i) \<le> x" "x \<le> hi (s ! i)" "lo (s ! j) \<le> x" "x \<le> hi (s ! j)"
  shows False
proof -
  have "\<not> Range_Overlaps (s ! i) (s ! j)"
  proof (cases "i < j")
    case True
    then show ?thesis
      using assms(1,3) by (intro set_ok_pair)
  next
    case False
    with assms(4) have "j < i" by simp
    then have "\<not> Range_Overlaps (s ! j) (s ! i)"
      using assms(1,2) by (intro set_ok_pair)
    then show ?thesis by (simp add: Range_Overlaps_sym)
  qed
  moreover have "range_ok (s ! i)" "range_ok (s ! j)" "fam (s ! i) = fam (s ! j)"
    using set_okD [OF assms(1), of "s ! i"] set_okD [OF assms(1), of "s ! j"] assms(2,3)
    by simp_all
  ultimately show False
    using assms(5-8) Range_Overlaps_ok [of "s ! i" "s ! j"] by linarith
qed

lemma RangeSet_RangeFor_Inr:
  "RangeSet_RangeFor s a = Inr r \<Longrightarrow>
    r \<in> set s \<and> (\<exists>c. canonicalizeIP a = Inr c \<and> Range_Contains r c)"
  by (auto simp: RangeSet_RangeFor_def find_Some_iff split: sum.splits option.splits)

lemma RangeSet_Contains_iff:
  "RangeSet_Contains s a \<longleftrightarrow> (\<exists>c. canonicalizeIP a = Inr c \<and> (\<exists>r\<in>set s. Range_Contains r c))"
  by (auto simp: RangeSet_Contains_def RangeSet_RangeFor_def find_None_iff find_Some_iff
      split: sum.splits option.splits)

lemma RangeSet_Overlaps_iff:
  "RangeSet_Overlaps s p \<longleftrightarrow> (\<exists>r\<in>set s. \<exists>r1\<in>set p. Range_Overlaps r r1)"
  by (auto simp: RangeSet_Overlaps_def list_ex_iff)

end
