(* ===== verification/Properties_Ranges.thy ===== *)
theory Properties_Ranges
  imports RangeSets
begin

text \<open>
  The properties of ranges and range sets, with concrete instances.
\<close>

section \<open>Concrete ranges\<close>

text \<open>\<open>10.1.2.0/24\<close> as the configuration has it, and its normal form.\<close>

definition conf24 :: ip_range where
  "conf24 = \<lparr>RangeStart = [], RangeEnd = [], Subnet = \<lparr>IP = [10,1,2,0], Mask = [255,255,255,0]\<rparr>, Gateway = []\<rparr>"

definition range24 :: ip_range where
  "range24 = \<lparr>RangeStart = [10,1,2,1], RangeEnd = [10,1,2,254],
     Subnet = \<lparr>IP = [10,1,2,0], Mask = [255,255,255,0]\<rparr>, Gateway = [10,1,2,1]\<rparr>"

text \<open>Two ranges of two addresses each in one subnet.\<close>

definition range_a :: ip_range where
  "range_a = \<lparr>RangeStart = [10,1,2,10], RangeEnd = [10,1,2,11],
     Subnet = \<lparr>IP = [10,1,2,0], Mask = [255,255,255,0]\<rparr>, Gateway = [10,1,2,1]\<rparr>"

definition range_b :: ip_range where
  "range_b = \<lparr>RangeStart = [10,1,2,20], RangeEnd = [10,1,2,21],
     Subnet = \<lparr>IP = [10,1,2,0], Mask = [255,255,255,0]\<rparr>, Gateway = [10,1,2,1]\<rparr>"

lemma ex_Mask_Size: "Mask_Size [255,255,255,0] = (24, 32)"
  by code_simp

lemma ex_block: "host_bits \<lparr>IP = [10,1,2,0], Mask = [255,255,255,0]\<rparr> = 8"
  "prefix_len \<lparr>IP = [10,1,2,0], Mask = [255,255,255,0]\<rparr> = 24"
  by (simp_all add: host_bits_def prefix_len_def ex_Mask_Size)

lemma ex_net_ok: "net_ok \<lparr>IP = [10,1,2,0], Mask = [255,255,255,0]\<rparr>"
proof -
  have "is_cidr [255,255,255,0] 24" by code_simp
  then show ?thesis by (simp add: net_ok_def canonical_def ex_block)
qed

lemma ex_range_ok [simp]: "range_ok range24" "range_ok range_a" "range_ok range_b"
  using ex_net_ok
  by (simp_all add: range_ok_def range24_def range_a_def range_b_def fam_def lo_def hi_def canonical_def
      in_block_def ex_block)

lemma ex_disjoint: "\<not> Range_Overlaps range_a range_b"
  by (simp only: Range_Overlaps_ok ex_range_ok) (simp add: lo_def hi_def range_a_def range_b_def)

lemma ex_fam: "fam range24 = 4" "fam range_a = 4" "fam range_b = 4"
  by (simp_all add: fam_def range24_def range_a_def range_b_def)

lemma ex_set_ok [simp]: "set_ok [range24]" "set_ok [range_a, range_b]"
  unfolding set_ok_def using ex_disjoint by (simp_all add: ex_fam)

lemma ex_Canonicalize: "Range_Canonicalize conf24 = Inr range24"
proof -
  have "NextIP [10,1,2,0] = [10,1,2,1]"
    using NextIP_props [of "[10,1,2,0]"] by (intro be_nat_inject) simp_all
  moreover have "lastIP \<lparr>IP = [10,1,2,0], Mask = [255,255,255,0]\<rparr> = [10,1,2,254]"
    by (simp add: lastIP_def To4_def)
  ultimately show ?thesis
    by (simp add: Range_Canonicalize_def conf24_def range24_def canonicalizeIP_def To4_def ex_Mask_Size
        fill_gateway_def fill_start_def fill_end_def)
qed

section \<open>Addresses\<close>

text \<open>
  C19. \<open>ip.NextIP\<close> is the successor and \<open>ip.PrevIP\<close> undoes it: for an address that does not
  start with a zero byte and is not the last of its family, the next one has the same family
  and the next number.
\<close>

theorem NextIP_successor:
  assumes "length a = 4 \<or> length a = 16" "hd a \<noteq> 0" "be_nat a + 1 < 256 ^ length a"
  shows "length (NextIP a) = length a \<and> be_nat (NextIP a) = be_nat a + 1 \<and> PrevIP (NextIP a) = a"
proof -
  note nx = NextIP_props [OF assms]
  have "a \<noteq> []" using assms(1) by auto
  then have "nat_bytes (be_nat a) = a"
    using assms(2) be_nat_lead [of a] be_nat_less [of a]
    by (intro be_nat_inject length_nat_bytes [of "length a - 1", THEN trans]) (simp_all add: be_nat_nat_bytes)
  moreover have "canonical (NextIP a)"
    using nx assms(1) by (simp add: canonical_lead)
  ultimately show ?thesis
    using nx by (simp add: PrevIP_def intToIP_def ipToInt_canonical)
qed

theorem NextIP_successor_witness:
  "length (NextIP [10,0,0,255]) = 4 \<and> be_nat (NextIP [10,0,0,255]) = 167772416 \<and>
    PrevIP (NextIP [10,0,0,255]) = [10,0,0,255]"
  using NextIP_successor [of "[10,0,0,255]"] by simp

section \<open>One range\<close>

text \<open>
  C16. \<open>Range.Canonicalize\<close> ends in normal form: both ends are addresses of the subnet's
  family inside the subnet, the start is not after the end, and from then on \<open>Contains\<close> is
  membership in the interval between them. The hypotheses exclude subnets and starts that
  begin with a zero byte, a subnet with host bits when the start is the default, and a start
  after the default end: there the code accepts ranges that are not in normal form (\<open>Canonicalize_start_after_end\<close>).
\<close>

theorem Canonicalize_normal_form:
  assumes "Range_Canonicalize r = Inr r'"
    and "hd (IP (Subnet r')) \<noteq> 0" "hd (RangeStart r') \<noteq> 0"
    and "RangeStart r = [] \<Longrightarrow> IP (Network (Subnet r')) = IP (Subnet r')"
    and "RangeEnd r = [] \<Longrightarrow> RangeStart r \<noteq> [] \<Longrightarrow> be_nat (RangeStart r') \<le> be_nat (lastIP (Subnet r'))"
  shows "length (RangeStart r') = length (IP (Subnet r')) \<and> length (RangeEnd r') = length (IP (Subnet r')) \<and>
    IPNet_Contains (Subnet r') (RangeStart r') \<and> IPNet_Contains (Subnet r') (RangeEnd r') \<and>
    be_nat (RangeStart r') \<le> be_nat (RangeEnd r') \<and>
    (\<forall>a c. canonicalizeIP a = Inr c \<longrightarrow>
      (Range_Contains r' a \<longleftrightarrow> length c = length (RangeStart r') \<and>
        be_nat (RangeStart r') \<le> be_nat c \<and> be_nat c \<le> be_nat (RangeEnd r')))"
proof -
  have ok: "range_ok r'"
    using Range_Canonicalize_ok [OF assms(1-4)] assms(5) by (simp add: lo_def)
  have "Range_Contains r' a \<longleftrightarrow> Range_Contains r' c" if "canonicalizeIP a = Inr c" for a c
    using canonicalizeIP_id [OF canonicalizeIP_Inr [OF that]] that by (simp add: Range_Contains_def)
  then show ?thesis
    using ok Range_Contains_ok [OF ok] canonicalizeIP_Inr
    by (auto simp: range_ok_def fam_def lo_def hi_def in_block_def IPNet_Contains_iff)
qed

theorem Canonicalize_normal_form_witness:
  "Range_Canonicalize conf24 = Inr range24 \<and> be_nat (RangeStart range24) \<le> be_nat (RangeEnd range24) \<and>
    Range_Contains range24 [10,1,2,200] \<and> \<not> Range_Contains range24 [10,1,2,255]"
proof -
  have "IP (Network (Subnet range24)) = IP (Subnet range24)"
    by (simp add: Network_def range24_def ip_Mask_def)
  moreover have "canonicalizeIP [10,1,2,200] = Inr [10,1,2,200]" "canonicalizeIP [10,1,2,255] = Inr [10,1,2,255]"
    by (simp_all add: canonicalizeIP_id canonical_def)
  moreover have "hd (IP (Subnet range24)) \<noteq> 0" "hd (RangeStart range24) \<noteq> 0" "RangeEnd conf24 = []"
      "RangeStart conf24 = []" "length (RangeStart range24) = 4"
      "be_nat (RangeStart range24) = 167838209" "be_nat (RangeEnd range24) = 167838462"
    by (simp_all add: range24_def conf24_def)
  ultimately show ?thesis
    using Canonicalize_normal_form [OF ex_Canonicalize] ex_Canonicalize by auto
qed

text \<open>
  What those hypotheses exclude: with the start \<open>10.1.2.255\<close> and no end, the code accepts
  the broadcast address as start, sets the end to \<open>10.1.2.254\<close>, and the range contains no
  address at all.
\<close>

theorem Canonicalize_start_after_end:
  "\<exists>r'. Range_Canonicalize (conf24\<lparr>RangeStart := [10,1,2,255]\<rparr>) = Inr r' \<and>
    RangeStart r' = [10,1,2,255] \<and> RangeEnd r' = [10,1,2,254] \<and>
    (\<forall>a. \<not> Range_Contains r' a)"
proof -
  let ?n = "\<lparr>IP = [10,1,2,0], Mask = [255,255,255,0]\<rparr>"
  let ?r = "\<lparr>RangeStart = [10,1,2,255], RangeEnd = [10,1,2,254], Subnet = ?n, Gateway = [10,1,2,1]\<rparr>"
  have "NextIP [10,1,2,0] = [10,1,2,1]"
    using NextIP_props [of "[10,1,2,0]"] by (intro be_nat_inject) simp_all
  moreover have "lastIP ?n = [10,1,2,254]"
    by (simp add: lastIP_def To4_def)
  moreover have "Range_Contains (?r\<lparr>RangeEnd := []\<rparr>) [10,1,2,255]"
    by (subst Range_Contains_canonical)
      (simp_all add: ex_net_ok in_block_def ex_block canonical_def lo_def)
  ultimately have "Range_Canonicalize (conf24\<lparr>RangeStart := [10,1,2,255]\<rparr>) = Inr ?r"
    by (simp add: Range_Canonicalize_def conf24_def canonicalizeIP_def To4_def ex_Mask_Size
        fill_gateway_def fill_start_def fill_end_def)
  moreover have "\<not> Range_Contains ?r a" for a
  proof (cases "canonicalizeIP a")
    case (Inr c)
    then have "Range_Contains ?r a \<longleftrightarrow> Range_Contains ?r c" and c: "canonical c"
      using canonicalizeIP_id [OF canonicalizeIP_Inr [OF Inr]] canonicalizeIP_Inr [OF Inr]
      by (simp_all add: Range_Contains_def)
    moreover have "\<not> Range_Contains ?r c"
      using c by (subst Range_Contains_canonical) (auto simp: ex_net_ok canonical_def lo_def hi_def)
    ultimately show ?thesis by simp
  qed (simp add: Range_Contains_def)
  ultimately show ?thesis by (intro exI [of _ ?r]) simp
qed

text \<open>
  C17. \<open>Range.Overlaps\<close> on ranges in normal form decides whether some address is in both.
\<close>

theorem Overlaps_common_address:
  assumes "range_ok r" "range_ok s"
  shows "Range_Overlaps r s \<longleftrightarrow> (\<exists>a. Range_Contains r a \<and> Range_Contains s a)"
proof
  assume "Range_Overlaps r s"
  then have o: "fam r = fam s" "lo r \<le> hi s" "lo s \<le> hi r"
    using Range_Overlaps_ok [OF assms] by auto
  have c: "canonical (RangeStart r)" "canonical (RangeStart s)" "lo r \<le> hi r" "lo s \<le> hi s"
    using assms by (auto simp: range_ok_def)
  show "\<exists>a. Range_Contains r a \<and> Range_Contains s a"
  proof (cases "lo r \<le> lo s")
    case True
    with o c have "Range_Contains r (RangeStart s) \<and> Range_Contains s (RangeStart s)"
      by (simp add: Range_Contains_ok assms fam_def lo_def)
    then show ?thesis by blast
  next
    case False
    with o c have "Range_Contains r (RangeStart r) \<and> Range_Contains s (RangeStart r)"
      by (simp add: Range_Contains_ok assms fam_def lo_def)
    then show ?thesis by blast
  qed
next
  assume "\<exists>a. Range_Contains r a \<and> Range_Contains s a"
  then obtain a where a: "Range_Contains r a" "Range_Contains s a" by blast
  then obtain c where c: "canonicalizeIP a = Inr c"
    by (auto simp: Range_Contains_def split: sum.splits)
  have "Range_Contains r c" "Range_Contains s c" and k: "canonical c"
    using a c canonicalizeIP_id [OF canonicalizeIP_Inr [OF c]] canonicalizeIP_Inr [OF c]
    by (simp_all add: Range_Contains_def)
  then show "Range_Overlaps r s"
    using Range_Contains_ok [OF assms(1) k] Range_Contains_ok [OF assms(2) k]
    by (simp add: Range_Overlaps_ok [OF assms])
qed

theorem Overlaps_common_address_witness:
  "(\<exists>a. Range_Contains range24 a \<and> Range_Contains range_a a) \<and>
    \<not> (\<exists>a. Range_Contains range_a a \<and> Range_Contains range_b a)"
proof -
  have "Range_Overlaps range24 range_a"
    by (simp only: Range_Overlaps_ok ex_range_ok ex_fam) (simp add: lo_def hi_def range24_def range_a_def)
  then show ?thesis
    using Overlaps_common_address [OF ex_range_ok(1,2)] Overlaps_common_address [OF ex_range_ok(2,3)]
      ex_disjoint by blast
qed

section \<open>A set of ranges\<close>

text \<open>
  C18. \<open>RangeSet.Canonicalize\<close> succeeds only on a set whose ranges, if each is in normal form,
  share one family and no address: every address lies in at most one range, and \<open>RangeFor\<close>
  finds it.
\<close>

theorem RangeSet_Canonicalize_disjoint:
  assumes "RangeSet_Canonicalize s = Inr s'" "\<forall>r\<in>set s'. range_ok r"
  shows "length s' = length s \<and> (\<forall>r\<in>set s'. length (RangeStart r) = length (RangeStart (hd s'))) \<and>
    (\<forall>i j a. i < length s' \<longrightarrow> j < length s' \<longrightarrow> Range_Contains (s' ! i) a \<longrightarrow>
      Range_Contains (s' ! j) a \<longrightarrow> i = j) \<and>
    (\<forall>i a. i < length s' \<longrightarrow> Range_Contains (s' ! i) a \<longrightarrow> RangeSet_RangeFor s' a = Inr (s' ! i))"
proof -
  have ok: "set_ok s'" using RangeSet_Canonicalize_ok [OF assms] .
  have len: "length s' = length s"
    using RangeSet_Canonicalize_Inr(2) [OF assms(1)] by (simp add: list_all2_same_length)
  have dis: "i = j" if "i < length s'" "j < length s'" "Range_Contains (s' ! i) a" "Range_Contains (s' ! j) a" for i j a
  proof (rule ccontr)
    assume "i \<noteq> j"
    from that obtain c where c: "canonicalizeIP a = Inr c"
      by (auto simp: Range_Contains_def split: sum.splits)
    have "Range_Contains (s' ! i) c" "Range_Contains (s' ! j) c" "canonical c"
      using that c canonicalizeIP_id [OF canonicalizeIP_Inr [OF c]] canonicalizeIP_Inr [OF c]
      by (simp_all add: Range_Contains_def)
    moreover have "range_ok (s' ! i)" "range_ok (s' ! j)" using that assms(2) by simp_all
    ultimately show False
      using set_ok_disjoint [OF ok that(1,2) \<open>i \<noteq> j\<close>, of "be_nat c"] by (simp add: Range_Contains_ok)
  qed
  have "RangeSet_RangeFor s' a = Inr (s' ! i)" if "i < length s'" "Range_Contains (s' ! i) a" for i a
  proof -
    from that obtain c where c: "canonicalizeIP a = Inr c"
      by (auto simp: Range_Contains_def split: sum.splits)
    have c': "Range_Contains r a \<longleftrightarrow> Range_Contains r c" for r
      using c canonicalizeIP_id [OF canonicalizeIP_Inr [OF c]] by (simp add: Range_Contains_def)
    have "find (\<lambda>r. Range_Contains r c) s' = Some (s' ! i)"
      unfolding find_Some_iff using that dis c' by (metis less_trans nat_neq_iff)
    then show ?thesis by (simp add: RangeSet_RangeFor_def c)
  qed
  with len dis set_okD(2) [OF ok] show ?thesis unfolding fam_def by blast
qed

theorem RangeSet_Canonicalize_disjoint_witness:
  "\<exists>s'. RangeSet_Canonicalize [conf24] = Inr s' \<and> length s' = 1 \<and>
    RangeSet_RangeFor s' [10,1,2,7] = Inr range24"
proof -
  have s': "RangeSet_Canonicalize [conf24] = Inr [range24]"
    by (simp add: RangeSet_Canonicalize_def ex_Canonicalize)
  have "Range_Contains range24 [10,1,2,7]"
    by (subst Range_Contains_ok) (simp_all add: ex_fam lo_def hi_def canonical_def, simp_all add: range24_def)
  then show ?thesis
    using RangeSet_Canonicalize_disjoint [OF s'] s' by simp
qed

end
