(* ===== verification/CniTypes.thy ===== *)
theory CniTypes
  imports GoNet
begin

text \<open>
  The CNI data types of \<open>cni/pkg/types/types.go\<close> that the plugins exchange: routes, DNS
  settings, network configurations and the well known error codes.
\<close>

record dns_conf =
  Nameservers :: "string list"
  Domain :: string
  Search :: "string list"
  Options :: "string list"

definition empty_dns :: dns_conf where
  "empty_dns = \<lparr>Nameservers = [], Domain = [], Search = [], Options = []\<rparr>"

record route =
  Dst :: ip_net
  GW :: net_ip

section \<open>Error codes and errors\<close>

definition ErrUnknown :: nat where "ErrUnknown = 0"
definition ErrIncompatibleCNIVersion :: nat where "ErrIncompatibleCNIVersion = 1"
definition ErrUnsupportedField :: nat where "ErrUnsupportedField = 2"
definition ErrUnknownContainer :: nat where "ErrUnknownContainer = 3"
definition ErrInvalidEnvironmentVariables :: nat where "ErrInvalidEnvironmentVariables = 4"
definition ErrIOFailure :: nat where "ErrIOFailure = 5"
definition ErrDecodingFailure :: nat where "ErrDecodingFailure = 6"
definition ErrInvalidNetworkConfig :: nat where "ErrInvalidNetworkConfig = 7"
definition ErrTryAgainLater :: nat where "ErrTryAgainLater = 11"
definition ErrInternal :: nat where "ErrInternal = 999"

lemmas err_codes = ErrUnknown_def ErrIncompatibleCNIVersion_def ErrUnsupportedField_def
  ErrUnknownContainer_def ErrInvalidEnvironmentVariables_def ErrIOFailure_def
  ErrDecodingFailure_def ErrInvalidNetworkConfig_def ErrTryAgainLater_def ErrInternal_def

definition NewError :: "nat \<Rightarrow> string \<Rightarrow> string \<Rightarrow> go_error" where
  "NewError code msg details = CniErr code msg details"

section \<open>types.ParseCIDR\<close>

text \<open>The network keeps the address as written, host bits included.\<close>

definition types_ParseCIDR :: "string \<Rightarrow> go_error + ip_net" where
  "types_ParseCIDR s =
     (case net_ParseCIDR s of
        Inl e \<Rightarrow> Inl e
      | Inr (ip, ipn) \<Rightarrow> Inr (ipn\<lparr>IP := ip\<rparr>))"

end
