(* ===== verification/Json.thy ===== *)
theory Json
  imports CniTypes
begin

text \<open>
  JSON values and how \<open>encoding/json\<close> decodes them into the structs of the program. The text
  of a document is not modelled: a document is the value it denotes, or the error of its
  syntax. Objects are lists of members; a struct field takes the last member whose name
  matches it, in any letter case, and a member that matches no field is skipped. The texts of
  decoding errors are left out.
\<close>

datatype json =
    JNull
  | JBool bool
  | JNum string
  | JStr string
  | JArr "json list"
  | JObj "(string \<times> json) list"

text \<open>A document: the argument of \<open>json.Unmarshal\<close>.\<close>

type_synonym document = "go_error + json"

definition json_error :: "go_error + 'a" where
  "json_error = Inl (Msg ''json: cannot unmarshal'')"

definition jfield :: "(string \<times> json) list \<Rightarrow> string \<Rightarrow> json option" where
  "jfield kvs name = map_option snd (find (\<lambda>(k, _). to_lower k = to_lower name) (rev kvs))"

text \<open>The members of an object; \<open>null\<close> leaves a struct as it is.\<close>

fun jmembers :: "json \<Rightarrow> go_error + (string \<times> json) list" where
  "jmembers JNull = Inr []"
| "jmembers (JObj kvs) = Inr kvs"
| "jmembers _ = json_error"

text \<open>A field with decoder \<open>d\<close>; \<open>z\<close> is its zero value.\<close>

definition dec_field :: "(json \<Rightarrow> go_error + 'a) \<Rightarrow> 'a \<Rightarrow> (string \<times> json) list \<Rightarrow> string \<Rightarrow> go_error + 'a" where
  "dec_field d z kvs name = (case jfield kvs name of None \<Rightarrow> Inr z | Some j \<Rightarrow> d j)"

fun dec_string :: "json \<Rightarrow> go_error + string" where
  "dec_string JNull = Inr []"
| "dec_string (JStr s) = Inr s"
| "dec_string _ = json_error"

fun dec_bool :: "json \<Rightarrow> go_error + bool" where
  "dec_bool JNull = Inr False"
| "dec_bool (JBool b) = Inr b"
| "dec_bool _ = json_error"

fun dec_list :: "(json \<Rightarrow> go_error + 'a) \<Rightarrow> json \<Rightarrow> go_error + 'a list" where
  "dec_list d JNull = Inr []"
| "dec_list d (JArr js) = map_sum_list d js"
| "dec_list d _ = json_error"

fun dec_pointer :: "(json \<Rightarrow> go_error + 'a) \<Rightarrow> json \<Rightarrow> go_error + 'a option" where
  "dec_pointer d JNull = Inr None"
| "dec_pointer d j = bind_sum (d j) (\<lambda>x. Inr (Some x))"

text \<open>\<open>net.IP.UnmarshalText\<close>: the empty text is the nil address.\<close>

definition IP_UnmarshalText :: "string \<Rightarrow> go_error + net_ip" where
  "IP_UnmarshalText s =
     (if s = [] then Inr []
      else let x = ParseIP s in if x = [] then Inl (Msg (''invalid IP address: '' @ s)) else Inr x)"

fun dec_ip :: "json \<Rightarrow> go_error + net_ip" where
  "dec_ip JNull = Inr []"
| "dec_ip (JStr s) = IP_UnmarshalText s"
| "dec_ip _ = json_error"

section \<open>types.IPNet and types.Route\<close>

text \<open>
  \<open>IPNet.UnmarshalJSON\<close> decodes a string first, which \<open>null\<close> leaves empty, and then parses
  it. \<open>IPNet.MarshalJSON\<close> prints the network.
\<close>

definition IPNet_UnmarshalJSON :: "json \<Rightarrow> go_error + ip_net" where
  "IPNet_UnmarshalJSON data = bind_sum (dec_string data) types_ParseCIDR"

definition IPNet_MarshalJSON :: "ip_net \<Rightarrow> json" where
  "IPNet_MarshalJSON n = JStr (IPNet_String n)"

definition zero_net :: ip_net where
  "zero_net = \<lparr>IP = [], Mask = []\<rparr>"

definition Route_UnmarshalJSON :: "json \<Rightarrow> go_error + route" where
  "Route_UnmarshalJSON data =
     bind_sum (jmembers data) (\<lambda>kvs.
     bind_sum (dec_field IPNet_UnmarshalJSON zero_net kvs ''dst'') (\<lambda>dst.
     bind_sum (dec_field dec_ip [] kvs ''gw'') (\<lambda>gw. Inr \<lparr>Dst = dst, GW = gw\<rparr>)))"

text \<open>\<open>gw\<close> has \<open>omitempty\<close>; \<open>net.IP.MarshalText\<close> prints the address.\<close>

definition Route_MarshalJSON :: "route \<Rightarrow> json" where
  "Route_MarshalJSON r =
     JObj ((''dst'', IPNet_MarshalJSON (Dst r)) #
           (if GW r = [] then [] else [(''gw'', JStr (ip_String (GW r)))]))"

text \<open>A pointer to a route in a list; \<open>null\<close>, which leaves a nil pointer, is not modelled.\<close>

definition dec_route :: "json \<Rightarrow> go_error + route" where
  "dec_route j = (if j = JNull then json_error else Route_UnmarshalJSON j)"

section \<open>Lemmas\<close>

lemma dec_field_None [simp]: "jfield kvs name = None \<Longrightarrow> dec_field d z kvs name = Inr z"
  by (simp add: dec_field_def)

lemma dec_field_Some [simp]: "jfield kvs name = Some j \<Longrightarrow> dec_field d z kvs name = d j"
  by (simp add: dec_field_def)

lemma jfield_Nil [simp]: "jfield [] name = None"
  by (simp add: jfield_def)

lemma jfield_snoc: "jfield (kvs @ [(k, j)]) name = (if to_lower k = to_lower name then Some j else jfield kvs name)"
  by (simp add: jfield_def)

lemma jfield_Cons:
  "jfield ((k, j) # kvs) name =
    (case jfield kvs name of Some x \<Rightarrow> Some x | None \<Rightarrow> if to_lower k = to_lower name then Some j else None)"
proof -
  have f: "find P (xs @ ys) = (case find P xs of Some x \<Rightarrow> Some x | None \<Rightarrow> find P ys)" for P and xs ys :: "'b list"
    by (induction xs) auto
  show ?thesis by (simp add: jfield_def f split: option.splits)
qed

end
