(* ===== verification/Args.thy ===== *)
theory Args
  imports Json
begin

text \<open>
  The arguments in \<open>CNI_ARGS\<close> (\<open>cni/pkg/types/args.go\<close>). The struct that \<open>LoadArgs\<close> fills by
  reflection is a list of named fields, with the fields of embedded structs among them.
\<close>

datatype arg_field =
    FBool bool      \<comment> \<open>UnmarshallableBool\<close>
  | FStr string     \<comment> \<open>UnmarshallableString\<close>
  | FIP net_ip      \<comment> \<open>net.IP\<close>
  | FOther string   \<comment> \<open>a field of another type, with the type's name\<close>

type_synonym container = "(string \<times> arg_field) list"

definition UnmarshallableBool_UnmarshalText :: "string \<Rightarrow> go_error + bool" where
  "UnmarshallableBool_UnmarshalText data =
     (let s = to_lower data in
      if s = ''1'' \<or> s = ''true'' then Inr True
      else if s = ''0'' \<or> s = ''false'' then Inr False
      else Inl (Msg (''boolean unmarshal error: invalid input '' @ s)))"

definition UnmarshallableString_UnmarshalText :: "string \<Rightarrow> go_error + string" where
  "UnmarshallableString_UnmarshalText data = Inr data"

text \<open>\<open>GetKeyField\<close> and the assignment through the field's address.\<close>

definition GetKeyField :: "string \<Rightarrow> container \<Rightarrow> arg_field option" where
  "GetKeyField keyString v = map_of v keyString"

fun set_field :: "container \<Rightarrow> string \<Rightarrow> arg_field \<Rightarrow> container" where
  "set_field [] k x = []"
| "set_field ((k', y) # v) k x = (if k' = k then (k, x) # v else (k', y) # set_field v k x)"

text \<open>\<open>UnmarshalText\<close> of a field; \<open>None\<close> for a type that has none.\<close>

fun field_UnmarshalText :: "arg_field \<Rightarrow> string \<Rightarrow> (go_error + arg_field) option" where
  "field_UnmarshalText (FBool _) s = Some (bind_sum (UnmarshallableBool_UnmarshalText s) (\<lambda>b. Inr (FBool b)))"
| "field_UnmarshalText (FStr _) s = Some (bind_sum (UnmarshallableString_UnmarshalText s) (\<lambda>b. Inr (FStr b)))"
| "field_UnmarshalText (FIP _) s = Some (bind_sum (IP_UnmarshalText s) (\<lambda>b. Inr (FIP b)))"
| "field_UnmarshalText (FOther _) s = None"

fun field_type :: "arg_field \<Rightarrow> string" where
  "field_type (FBool _) = ''*types.UnmarshallableBool''"
| "field_type (FStr _) = ''*types.UnmarshallableString''"
| "field_type (FIP _) = ''*net.IP''"
| "field_type (FOther t) = ''*'' @ t"

text \<open>The loop over the pairs: the struct so far and the unknown pairs so far.\<close>

fun load_pairs :: "string list \<Rightarrow> string list \<Rightarrow> container \<Rightarrow> (go_error + string list) \<times> container" where
  "load_pairs [] unknownArgs v = (Inr unknownArgs, v)"
| "load_pairs (pair # pairs) unknownArgs v =
     (case split_on (CHR ''='') pair of
        [keyString, valueString] \<Rightarrow>
          (case GetKeyField keyString v of
             None \<Rightarrow> load_pairs pairs (unknownArgs @ [pair]) v
           | Some keyField \<Rightarrow>
               (case field_UnmarshalText keyField valueString of
                  None \<Rightarrow> (Inl (ArgsErr (''ARGS: cannot unmarshal into field '' @ squote keyString @ '' - type '' @
                    squote (field_type keyField) @ '' does not implement encoding.TextUnmarshaler'')), v)
                | Some (Inl err) \<Rightarrow>
                    (Inl (Msg (''ARGS: error parsing value of pair '' @ quote pair @ '': '' @ err_text err @ '')'')), v)
                | Some (Inr x) \<Rightarrow> load_pairs pairs unknownArgs (set_field v keyString x)))
      | _ \<Rightarrow> (Inl (Msg (''ARGS: invalid pair '' @ quote pair)), v))"

text \<open>\<open>reflect.Value.Bool\<close> panics on anything that is not a boolean.\<close>

definition LoadArgs :: "string \<Rightarrow> container \<Rightarrow> unit outcome \<times> container" where
  "LoadArgs args container =
     (if args = [] then (Ret (), container)
      else (case load_pairs (split_on (CHR '';'') args) [] container of
        (Inl err, container) \<Rightarrow> (Fail err, container)
      | (Inr unknownArgs, container) \<Rightarrow>
          (case GetKeyField ''IgnoreUnknown'' container of
             Some (FBool isIgnoreUnknown) \<Rightarrow>
               (if unknownArgs \<noteq> [] \<and> \<not> isIgnoreUnknown
                then (Fail (Msg (''ARGS: unknown args '' @ quote_list unknownArgs)), container)
                else (Ret (), container))
           | _ \<Rightarrow> (Panic ''reflect: call of reflect.Value.Bool'', container))))"

text \<open>\<open>CommonArgs\<close>, embedded in a struct: its own name and its promoted field.\<close>

definition CommonArgs :: container where
  "CommonArgs = [(''CommonArgs'', FOther ''types.CommonArgs''), (''IgnoreUnknown'', FBool False)]"

section \<open>Lemmas\<close>

text \<open>A well-formed pair, and the text of a list of pairs.\<close>

definition pair_ok :: "string \<times> string \<Rightarrow> bool" where
  "pair_ok kv \<longleftrightarrow> CHR ''='' \<notin> set (fst kv) \<and> CHR ''='' \<notin> set (snd kv) \<and>
     CHR '';'' \<notin> set (fst kv) \<and> CHR '';'' \<notin> set (snd kv)"

definition args_text :: "(string \<times> string) list \<Rightarrow> string" where
  "args_text kvs = join '';'' (map (\<lambda>(k, v). k @ ''='' @ v) kvs)"

lemma split_pair: "pair_ok (k, v) \<Longrightarrow> split_on (CHR ''='') (k @ ''='' @ v) = [k, v]"
  by (simp add: pair_ok_def str_simps)

lemma split_args_text:
  "kvs \<noteq> [] \<Longrightarrow> \<forall>kv\<in>set kvs. pair_ok kv \<Longrightarrow>
    split_on (CHR '';'') (args_text kvs) = map (\<lambda>(k, v). k @ ''='' @ v) kvs"
  unfolding args_text_def by (rule split_on_join) (auto simp: pair_ok_def)

lemma args_text_not_Nil: "kvs \<noteq> [] \<Longrightarrow> args_text kvs \<noteq> []"
  by (cases kvs; cases "tl kvs") (auto simp: args_text_def)

lemma map_of_set_field:
  "map_of v k = Some y \<Longrightarrow> map_of (set_field v k x) = (map_of v)(k \<mapsto> x)"
  by (induction v k x rule: set_field.induct) (auto simp: fun_eq_iff)

lemma map_of_set_field_None: "map_of v k = None \<Longrightarrow> set_field v k x = v"
  by (induction v k x rule: set_field.induct) auto

text \<open>Every error of the loop names an error of one pair; unknown pairs only accumulate.\<close>

lemma load_pairs_strings:
  assumes "\<forall>kv\<in>set kvs. pair_ok kv" "\<forall>kv\<in>set kvs. \<exists>s. map_of v (fst kv) = Some (FStr s)"
  shows "\<exists>v'. load_pairs (map (\<lambda>(k, w). k @ ''='' @ w) kvs) u v = (Inr u, v') \<and>
    map_of v' = (map_of v)(map fst kvs [\<mapsto>] map (\<lambda>kv. FStr (snd kv)) kvs)"
  using assms
proof (induction kvs arbitrary: v)
  case (Cons kv kvs)
  obtain k w where kv: "kv = (k, w)" by (cases kv)
  have sp: "split_on (CHR ''='') (k @ ''='' @ w) = [k, w]"
    using Cons.prems(1) kv split_pair by simp
  obtain s where k: "map_of v k = Some (FStr s)" using Cons.prems(2) kv by auto
  let ?v = "set_field v k (FStr w)"
  have m: "map_of ?v = (map_of v)(k \<mapsto> FStr w)" using map_of_set_field [OF k] .
  have "\<forall>kv\<in>set kvs. \<exists>s. map_of ?v (fst kv) = Some (FStr s)"
    using Cons.prems(2) by (auto simp: m)
  then obtain v' where "load_pairs (map (\<lambda>(k, w). k @ ''='' @ w) kvs) u ?v = (Inr u, v')"
    "map_of v' = (map_of ?v)(map fst kvs [\<mapsto>] map (\<lambda>kv. FStr (snd kv)) kvs)"
    using Cons.IH [of ?v] Cons.prems(1) by auto
  then show ?case
    using sp k m by (auto simp: kv GetKeyField_def UnmarshallableString_UnmarshalText_def)
qed simp

end
