(* ===== verification/CniResult.thy ===== *)
theory CniResult
  imports CniTypes
begin

text \<open>
  The two result formats of a plugin and the conversions between them:
  \<open>cni/pkg/types/020/types.go\<close> (spec 0.2.0 and before, one address per family) and
  \<open>cni/pkg/types/current/types.go\<close> (0.3.x and 0.4.0).
\<close>

section \<open>types020\<close>

record ip_config020 =
  IP020 :: ip_net
  Gateway020 :: net_ip
  Routes020 :: "route list"

record result020 =
  CNIVersion020 :: string
  IP4 :: "ip_config020 option"
  IP6 :: "ip_config020 option"
  DNS020 :: dns_conf

definition ImplementedSpecVersion020 :: string where
  "ImplementedSpecVersion020 = ''0.2.0''"

definition SupportedVersions020 :: "string list" where
  "SupportedVersions020 = ['''', ''0.1.0'', ImplementedSpecVersion020]"

section \<open>current\<close>

record ip_config =
  Version :: string
  Interface :: "int option"
  Address :: ip_net
  ConfGateway :: net_ip

record interface =
  Name :: string
  Mac :: string
  Sandbox :: string

record result_cur =
  CNIVersion :: string
  Interfaces :: "interface list"
  IPs :: "ip_config list"
  Routes :: "route list"
  DNS :: dns_conf

definition ImplementedSpecVersion :: string where
  "ImplementedSpecVersion = ''0.4.0''"

definition SupportedVersions :: "string list" where
  "SupportedVersions = [''0.3.0'', ''0.3.1'', ImplementedSpecVersion]"

text \<open>The interface \<open>types.Result\<close> with its two implementations.\<close>

datatype cni_result = R020 result020 | RCur result_cur

section \<open>Conversion to 0.2.0\<close>

text \<open>
  The first loop of \<open>convertTo020\<close>: the first address of each family, stopping as soon as
  both are found.
\<close>

fun first_ips :: "ip_config list \<Rightarrow> result020 \<Rightarrow> result020" where
  "first_ips [] old = old"
| "first_ips (ip # rest) old =
     (let conf = \<lparr>IP020 = Address ip, Gateway020 = ConfGateway ip, Routes020 = []\<rparr>;
          old = (if Version ip = ''4'' \<and> IP4 old = None then old\<lparr>IP4 := Some conf\<rparr>
                 else if Version ip = ''6'' \<and> IP6 old = None then old\<lparr>IP6 := Some conf\<rparr>
                 else old)
      in if IP4 old \<noteq> None \<and> IP6 old \<noteq> None then old else first_ips rest old)"

definition add_route020 :: "route \<Rightarrow> ip_config020 \<Rightarrow> ip_config020" where
  "add_route020 r c = c\<lparr>Routes020 := Routes020 c @ [r]\<rparr>"

fun split_routes :: "route list \<Rightarrow> result020 \<Rightarrow> result020" where
  "split_routes [] old = old"
| "split_routes (r # rest) old =
     (let is4 = (To4 (IP (Dst r)) \<noteq> []);
          old = (if is4 \<and> IP4 old \<noteq> None then old\<lparr>IP4 := map_option (add_route020 r) (IP4 old)\<rparr>
                 else if \<not> is4 \<and> IP6 old \<noteq> None then old\<lparr>IP6 := map_option (add_route020 r) (IP6 old)\<rparr>
                 else old)
      in split_routes rest old)"

definition convertTo020 :: "result_cur \<Rightarrow> go_error + result020" where
  "convertTo020 r =
     (let old = \<lparr>CNIVersion020 = ImplementedSpecVersion020, IP4 = None, IP6 = None, DNS020 = DNS r\<rparr>;
          old = split_routes (Routes r) (first_ips (IPs r) old)
      in if IP4 old = None \<and> IP6 old = None
         then Inl (Msg ''cannot convert: no valid IP addresses'')
         else Inr old)"

section \<open>GetAsVersion\<close>

definition GetAsVersion020 :: "result020 \<Rightarrow> string \<Rightarrow> go_error + cni_result" where
  "GetAsVersion020 r version =
     (if version \<in> set SupportedVersions020 then Inr (R020 (r\<lparr>CNIVersion020 := version\<rparr>))
      else Inl (Msg (''cannot convert version '' @ quote_list SupportedVersions020 @ '' to '' @ version)))"

definition GetAsVersionCur :: "result_cur \<Rightarrow> string \<Rightarrow> go_error + cni_result" where
  "GetAsVersionCur r version =
     (if version \<in> {''0.3.0'', ''0.3.1'', ImplementedSpecVersion}
      then Inr (RCur (r\<lparr>CNIVersion := version\<rparr>))
      else if version \<in> {SupportedVersions020 ! 0, SupportedVersions020 ! 1, SupportedVersions020 ! 2}
      then (case convertTo020 r of Inl e \<Rightarrow> Inl e | Inr old \<Rightarrow> Inr (R020 old))
      else Inl (Msg (''cannot convert version 0.3.x to '' @ quote version)))"

fun GetAsVersion :: "cni_result \<Rightarrow> string \<Rightarrow> go_error + cni_result" where
  "GetAsVersion (R020 r) v = GetAsVersion020 r v"
| "GetAsVersion (RCur r) v = GetAsVersionCur r v"

fun result_Version :: "cni_result \<Rightarrow> string" where
  "result_Version (R020 r) = ImplementedSpecVersion020"
| "result_Version (RCur r) = ImplementedSpecVersion"

section \<open>Conversion from any version\<close>

definition GetResult020 :: "cni_result \<Rightarrow> go_error + result020" where
  "GetResult020 r =
     bind_sum (GetAsVersion r ImplementedSpecVersion020) (\<lambda>r'.
       case r' of R020 x \<Rightarrow> Inr x | RCur _ \<Rightarrow> Inl (Msg ''failed to convert result''))"

definition GetResult :: "cni_result \<Rightarrow> go_error + result_cur" where
  "GetResult r =
     bind_sum (GetAsVersion r ImplementedSpecVersion) (\<lambda>r'.
       case r' of RCur x \<Rightarrow> Inr x | R020 _ \<Rightarrow> Inl (Msg ''failed to convert result''))"

definition convertFrom020 :: "cni_result \<Rightarrow> go_error + result_cur" where
  "convertFrom020 result =
     bind_sum (GetResult020 result) (\<lambda>old.
       let conf = (\<lambda>v c. \<lparr>Version = v, Interface = None, Address = IP020 c, ConfGateway = Gateway020 c\<rparr>);
           ips4 = (case IP4 old of None \<Rightarrow> [] | Some c \<Rightarrow> [conf ''4'' c]);
           rts4 = (case IP4 old of None \<Rightarrow> [] | Some c \<Rightarrow> map (\<lambda>r. \<lparr>Dst = Dst r, GW = GW r\<rparr>) (Routes020 c));
           ips6 = (case IP6 old of None \<Rightarrow> [] | Some c \<Rightarrow> [conf ''6'' c]);
           rts6 = (case IP6 old of None \<Rightarrow> [] | Some c \<Rightarrow> map (\<lambda>r. \<lparr>Dst = Dst r, GW = GW r\<rparr>) (Routes020 c))
       in Inr \<lparr>CNIVersion = ImplementedSpecVersion, Interfaces = [], IPs = ips4 @ ips6,
               Routes = rts4 @ rts6, DNS = DNS020 old\<rparr>)"

definition convertFrom030 :: "cni_result \<Rightarrow> go_error + result_cur" where
  "convertFrom030 result =
     (case result of
        R020 _ \<Rightarrow> Inl (Msg ''failed to convert result'')
      | RCur r \<Rightarrow> Inr (r\<lparr>CNIVersion := ImplementedSpecVersion\<rparr>))"

definition resultConverters :: "(string list \<times> (cni_result \<Rightarrow> go_error + result_cur)) list" where
  "resultConverters = [(SupportedVersions020, convertFrom020), (SupportedVersions, convertFrom030)]"

definition NewResultFromResult :: "cni_result \<Rightarrow> go_error + result_cur" where
  "NewResultFromResult result =
     (let version = result_Version result in
      case find (\<lambda>(vs, conv). version \<in> set vs) resultConverters of
        Some (vs, conv) \<Rightarrow> conv result
      | None \<Rightarrow> Inl (Msg (''unsupported CNI result22 version '' @ quote version)))"

end
