(* ===== verification/Iter.thy ===== *)
theory Iter
  imports RangeSets
begin

text \<open>
  The range iterator of \<open>backend/allocator/allocator.go\<close>: \<open>RangeIter.Next\<close>. The iterator
  walks round the addresses of a range set, skips gateways and stops when it is back where
  it started. \<open>Next\<close> calls itself to skip a gateway; \<open>None\<close> means that the call does not
  return.
\<close>

record range_iter =
  rangeset :: range_set
  rangeIdx :: nat
  cur :: net_ip
  startIP :: net_ip
  startRange :: nat

section \<open>RangeIter.Next\<close>

definition cur_range :: "range_iter \<Rightarrow> ip_range" where
  "cur_range i = rangeset i ! rangeIdx i"

text \<open>One move of the cursor, up to the gateway test; the flag says that the round is over.\<close>

definition iter_advance :: "range_iter \<Rightarrow> range_iter \<times> bool" where
  "iter_advance i =
     (let r = cur_range i in
      if cur i = [] then
        (let i = i\<lparr>cur := RangeStart r\<rparr> in (i\<lparr>startIP := cur i\<rparr>, False))
      else
        let i = (if ip_Equal (cur i) (RangeEnd r)
                 then let i = i\<lparr>rangeIdx := (rangeIdx i + 1) mod length (rangeset i)\<rparr>
                      in i\<lparr>cur := RangeStart (cur_range i)\<rparr>
                 else i\<lparr>cur := NextIP (cur i)\<rparr>)
        in if startIP i = [] then (i\<lparr>startIP := cur i\<rparr>, False)
           else (i, rangeIdx i = startRange i \<and> ip_Equal (cur i) (startIP i)))"

partial_function (option) iter_Next ::
  "range_iter \<Rightarrow> (range_iter \<times> (ip_net \<times> net_ip) option) option" where
  "iter_Next i =
     (case iter_advance i of (i, over) \<Rightarrow>
        if over then Some (i, None)
        else let r = cur_range i in
          if ip_Equal (cur i) (Gateway r) then iter_Next i
          else Some (i, Some (\<lparr>IP = cur i, Mask = Mask (Subnet r)\<rparr>, Gateway r)))"

section \<open>The ring of addresses\<close>

text \<open>
  The positions of a range set: a range index and the number of an address in that range,
  in the order the iterator visits them.
\<close>

type_synonym pos = "nat \<times> nat"

definition ring :: "range_set \<Rightarrow> pos list" where
  "ring rs = concat (map (\<lambda>i. map (Pair i) [lo (rs ! i)..<Suc (hi (rs ! i))]) [0..<length rs])"

definition is_pos :: "range_set \<Rightarrow> pos \<Rightarrow> bool" where
  "is_pos rs p \<longleftrightarrow> fst p < length rs \<and> lo (rs ! fst p) \<le> snd p \<and> snd p \<le> hi (rs ! fst p)"

definition next_pos :: "range_set \<Rightarrow> pos \<Rightarrow> pos" where
  "next_pos rs p =
     (if snd p = hi (rs ! fst p)
      then let k = (fst p + 1) mod length rs in (k, lo (rs ! k))
      else (fst p, snd p + 1))"

lemma set_ring: "set (ring rs) = {p. is_pos rs p}"
  by (force simp: ring_def is_pos_def)

text \<open>The address of a given length with a given number.\<close>

fun addr_bytes :: "nat \<Rightarrow> nat \<Rightarrow> net_ip" where
  "addr_bytes 0 x = []"
| "addr_bytes (Suc l) x = addr_bytes l (x div 256) @ [of_nat (x mod 256)]"

lemma length_addr_bytes [simp]: "length (addr_bytes l x) = l"
  by (induction l arbitrary: x) auto

lemma be_nat_addr_bytes: "x < 256 ^ l \<Longrightarrow> be_nat (addr_bytes l x) = x"
proof (induction l arbitrary: x)
  case (Suc l)
  then have "x div 256 < 256 ^ l"
    by (simp add: less_mult_imp_div_less mult.commute)
  with Suc.IH show ?case
    by (simp add: be_nat_append unat_of_nat)
qed simp

lemma addr_bytes_be_nat: "length a = l \<Longrightarrow> addr_bytes l (be_nat a) = a"
  using be_nat_less [of a] by (intro be_nat_inject) (simp_all add: be_nat_addr_bytes)

section \<open>The ring is one cycle of positions\<close>

definition cyc :: "range_set \<Rightarrow> pos list \<Rightarrow> bool" where
  "cyc rs ps \<longleftrightarrow> ps \<noteq> [] \<and> successively (\<lambda>p q. q = next_pos rs p) ps \<and>
     next_pos rs (last ps) = hd ps"

lemma cyc_swap: "cyc rs (us @ vs) \<Longrightarrow> cyc rs (vs @ us)"
  by (cases "us = []"; cases "vs = []") (simp_all add: cyc_def successively_append_iff)

lemma cyc_rotate: "cyc rs (xs @ p # ys) \<Longrightarrow> cyc rs (ys @ xs @ [p])"
  using cyc_swap [of rs "xs @ [p]" ys] by simp

lemma successively_segment:
  "a \<le> b \<Longrightarrow> (\<And>x. a \<le> x \<Longrightarrow> x < b \<Longrightarrow> next_pos rs (i, x) = (i, x + 1)) \<Longrightarrow>
    successively (\<lambda>p q. q = next_pos rs p) (map (Pair i) [a..<Suc b])"
proof (induction b)
  case (Suc b)
  show ?case
  proof (cases "a = Suc b")
    case False
    then have "a \<le> b" using Suc.prems(1) by simp
    then have "map (Pair i) [a..<Suc (Suc b)] = map (Pair i) [a..<Suc b] @ [(i, Suc b)]" by simp
    moreover have "last (map (Pair i) [a..<Suc b]) = (i, b)" using \<open>a \<le> b\<close> by simp
    ultimately show ?thesis
      using Suc \<open>a \<le> b\<close> by (auto simp: successively_append_iff)
  qed (use Suc in simp)
qed simp

definition segment :: "range_set \<Rightarrow> nat \<Rightarrow> pos list" where
  "segment rs i = map (Pair i) [lo (rs ! i)..<Suc (hi (rs ! i))]"

lemma segment_props:
  assumes "lo (rs ! i) \<le> hi (rs ! i)"
  shows "segment rs i \<noteq> []" "hd (segment rs i) = (i, lo (rs ! i))" "last (segment rs i) = (i, hi (rs ! i))"
    "successively (\<lambda>p q. q = next_pos rs p) (segment rs i)"
  using assms successively_segment [of "lo (rs ! i)" "hi (rs ! i)" rs i]
  by (simp_all add: segment_def last_map hd_map next_pos_def del: upt_Suc)

lemma segments_chain:
  assumes "0 < n" "n \<le> length rs" "\<forall>i<length rs. lo (rs ! i) \<le> hi (rs ! i)"
  shows "concat (map (segment rs) [0..<n]) \<noteq> [] \<and>
    hd (concat (map (segment rs) [0..<n])) = (0, lo (rs ! 0)) \<and>
    last (concat (map (segment rs) [0..<n])) = (n - 1, hi (rs ! (n - 1))) \<and>
    successively (\<lambda>p q. q = next_pos rs p) (concat (map (segment rs) [0..<n]))"
  using assms(1,2)
proof (induction n)
  case (Suc n)
  have seg: "lo (rs ! n) \<le> hi (rs ! n)" using Suc.prems assms(3) by simp
  note sp = segment_props [OF seg]
  show ?case
  proof (cases "n = 0")
    case False
    then have IH: "concat (map (segment rs) [0..<n]) \<noteq> []"
      "hd (concat (map (segment rs) [0..<n])) = (0, lo (rs ! 0))"
      "last (concat (map (segment rs) [0..<n])) = (n - 1, hi (rs ! (n - 1)))"
      "successively (\<lambda>p q. q = next_pos rs p) (concat (map (segment rs) [0..<n]))"
      using Suc by auto
    have "next_pos rs (n - 1, hi (rs ! (n - 1))) = (n, lo (rs ! n))"
      using False Suc.prems(2) by (simp add: next_pos_def)
    with IH sp show ?thesis
      by (simp add: successively_append_iff)
  qed (use sp in simp)
qed simp

lemma set_ok_le: "set_ok rs \<Longrightarrow> i < length rs \<Longrightarrow> lo (rs ! i) \<le> hi (rs ! i)"
  using set_okD(1) [of rs "rs ! i"] by (simp add: range_ok_def)

lemma ring_segments: "ring rs = concat (map (segment rs) [0..<length rs])"
  by (simp only: ring_def segment_def [abs_def])

lemma ring_chain:
  assumes "set_ok rs"
  shows "ring rs \<noteq> []" "hd (ring rs) = (0, lo (rs ! 0))"
    "last (ring rs) = (length rs - 1, hi (rs ! (length rs - 1)))"
    "successively (\<lambda>p q. q = next_pos rs p) (ring rs)"
proof -
  have ne: "0 < length rs"
    using assms unfolding set_ok_def by blast
  have le: "\<forall>i<length rs. lo (rs ! i) \<le> hi (rs ! i)"
    using set_ok_le [OF assms] by blast
  show "ring rs \<noteq> []" "hd (ring rs) = (0, lo (rs ! 0))"
    "last (ring rs) = (length rs - 1, hi (rs ! (length rs - 1)))"
    "successively (\<lambda>p q. q = next_pos rs p) (ring rs)"
    using segments_chain [OF ne order.refl le] unfolding ring_segments by blast+
qed

lemma cyc_ring: assumes "set_ok rs" shows "cyc rs (ring rs)"
proof -
  have "rs \<noteq> []"
    using assms unfolding set_ok_def by blast
  then have "next_pos rs (length rs - 1, hi (rs ! (length rs - 1))) = (0, lo (rs ! 0))"
    by (simp add: next_pos_def)
  with ring_chain [OF assms] show ?thesis
    by (simp add: cyc_def)
qed

lemma distinct_ring: "distinct (ring rs)"
proof -
  have "distinct (concat (map (segment rs) [0..<n]))" for n
  proof (induction n)
    case (Suc n)
    have "distinct (segment rs n)"
      by (simp add: segment_def distinct_map inj_on_def del: upt_Suc)
    moreover have "fst p < n" if "p \<in> set (concat (map (segment rs) [0..<n]))" for p
      using that by (auto simp: segment_def simp del: upt_Suc)
    moreover have "fst p = n" if "p \<in> set (segment rs n)" for p
      using that by (auto simp: segment_def simp del: upt_Suc)
    ultimately show ?case
      using Suc by (fastforce simp del: set_concat)
  qed simp
  then show ?thesis by (simp add: ring_segments)
qed

lemma ring_positions_disjoint:
  "set_ok rs \<Longrightarrow> is_pos rs p \<Longrightarrow> is_pos rs q \<Longrightarrow> snd p = snd q \<Longrightarrow> p = q"
  using set_ok_disjoint [of rs "fst p" "fst q" "snd p"]
  by (auto simp: is_pos_def prod_eq_iff)

section \<open>The iterator follows the ring\<close>

definition addr_at :: "range_set \<Rightarrow> pos \<Rightarrow> net_ip" where
  "addr_at rs p = addr_bytes (fam (hd rs)) (snd p)"

definition is_gateway :: "range_set \<Rightarrow> pos \<Rightarrow> bool" where
  "is_gateway rs p \<longleftrightarrow> ip_Equal (addr_at rs p) (Gateway (rs ! fst p))"

definition entry :: "range_set \<Rightarrow> pos \<Rightarrow> ip_net \<times> net_ip" where
  "entry rs p = (\<lparr>IP = addr_at rs p, Mask = Mask (Subnet (rs ! fst p))\<rparr>, Gateway (rs ! fst p))"

text \<open>The iterator stands at a position: its cursor is that address, in some form.\<close>

definition at_pos :: "range_set \<Rightarrow> range_iter \<Rightarrow> pos \<Rightarrow> bool" where
  "at_pos rs i p \<longleftrightarrow> rangeset i = rs \<and> rangeIdx i = fst p \<and> is_pos rs p \<and>
     canonicalizeIP (cur i) = Inr (addr_at rs p)"

lemma pos_props:
  assumes "set_ok rs" "is_pos rs p"
  shows "range_ok (rs ! fst p)" "fam (rs ! fst p) = fam (hd rs)"
    and "length (addr_at rs p) = fam (hd rs)" "be_nat (addr_at rs p) = snd p"
    and "hd (addr_at rs p) \<noteq> 0" "canonical (addr_at rs p)"
    and "fam (hd rs) = 4 \<or> fam (hd rs) = 16"
proof -
  let ?r = "rs ! fst p" and ?l = "fam (hd rs)"
  have "?r \<in> set rs" using assms(2) by (simp add: is_pos_def)
  note ok = set_okD [OF assms(1) this]
  show "range_ok ?r" "fam ?r = ?l" by (fact ok)+
  have r: "length (RangeStart ?r) = ?l" "length (RangeEnd ?r) = ?l" "canonical (RangeStart ?r)"
    "hd (RangeStart ?r) \<noteq> 0" "lo ?r \<le> hi ?r"
    using ok by (auto simp: range_ok_def fam_def)
  show l: "?l = 4 \<or> ?l = 16"
    using r by (auto simp: canonical_def)
  have "snd p < 256 ^ ?l"
    using assms(2) be_nat_less [of "RangeEnd ?r"] r by (simp add: is_pos_def hi_def)
  then show b: "be_nat (addr_at rs p) = snd p"
    by (simp add: addr_at_def be_nat_addr_bytes)
  show len: "length (addr_at rs p) = ?l"
    by (simp add: addr_at_def)
  have "256 ^ (?l - 1) \<le> lo ?r"
    using be_nat_lead [of "RangeStart ?r"] r canonical_not_Nil by (auto simp: lo_def)
  also have "\<dots> \<le> be_nat (addr_at rs p)"
    using assms(2) b by (simp add: is_pos_def)
  finally show "hd (addr_at rs p) \<noteq> 0"
    using be_nat_lead [of "addr_at rs p"] len l by force
  then show "canonical (addr_at rs p)"
    using len l by (intro canonical_lead) auto
qed

lemma ipToInt_canonicalize: "canonicalizeIP a = Inr c \<Longrightarrow> ipToInt a = ipToInt c"
  unfolding canonicalizeIP_def ipToInt_def
  by (auto simp: Let_def To16_def To4_def split: if_splits)

lemma ip_Equal_canonicalize:
  assumes "canonicalizeIP a = Inr c" "canonical b" shows "ip_Equal a b \<longleftrightarrow> c = b"
proof -
  have "canon_form a = c" using assms(1) canonicalizeIP_form by simp
  moreover have "canon_form b = b"
    using assms(2) canonicalizeIP_form [OF canonicalizeIP_id [OF assms(2)]] by simp
  ultimately show ?thesis by (simp add: ip_Equal_canon_form)
qed

lemma next_pos_is_pos: "set_ok rs \<Longrightarrow> is_pos rs p \<Longrightarrow> is_pos rs (next_pos rs p)"
proof -
  assume a: "set_ok rs" "is_pos rs p"
  then have "0 < length rs" by (auto simp: is_pos_def)
  then have "(fst p + 1) mod length rs < length rs" by simp
  with a set_ok_le [OF a(1) this] show ?thesis
    by (auto simp: is_pos_def next_pos_def Let_def)
qed

lemma addr_at_inject:
  "set_ok rs \<Longrightarrow> is_pos rs p \<Longrightarrow> is_pos rs q \<Longrightarrow> addr_at rs p = addr_at rs q \<longleftrightarrow> p = q"
  using pos_props(4) [of rs p] pos_props(4) [of rs q] ring_positions_disjoint [of rs p q] by auto

lemma RangeStart_addr_at:
  "set_ok rs \<Longrightarrow> k < length rs \<Longrightarrow> RangeStart (rs ! k) = addr_at rs (k, lo (rs ! k))"
proof -
  assume a: "set_ok rs" "k < length rs"
  then have "length (RangeStart (rs ! k)) = fam (hd rs)"
    using set_okD(2) [of rs "rs ! k"] by (simp add: fam_def)
  then show ?thesis
    by (simp add: addr_at_def lo_def addr_bytes_be_nat)
qed

lemma NextIP_addr_at:
  assumes "set_ok rs" "is_pos rs p" "snd p < hi (rs ! fst p)" "canonicalizeIP a = Inr (addr_at rs p)"
  shows "NextIP a = addr_at rs (fst p, snd p + 1)"
proof -
  note pp = pos_props [OF assms(1,2)]
  have "length (RangeEnd (rs ! fst p)) = fam (hd rs)"
    using pp(1,2) by (simp add: range_ok_def)
  then have "hi (rs ! fst p) < 256 ^ fam (hd rs)"
    using be_nat_less [of "RangeEnd (rs ! fst p)"] by (simp add: hi_def)
  then have "be_nat (addr_at rs p) + 1 < 256 ^ length (addr_at rs p)"
    using assms(3) pp by simp
  moreover have "length (addr_at rs p) = 4 \<or> length (addr_at rs p) = 16"
    using pp by simp
  ultimately have n: "length (NextIP (addr_at rs p)) = length (addr_at rs p)"
    "be_nat (NextIP (addr_at rs p)) = be_nat (addr_at rs p) + 1"
    using NextIP_props [OF _ pp(5)] by auto
  have "NextIP a = NextIP (addr_at rs p)"
    using ipToInt_canonicalize [OF assms(4)] by (simp add: NextIP_def)
  also have "\<dots> = addr_bytes (fam (hd rs)) (be_nat (NextIP (addr_at rs p)))"
    using n(1) pp(3) by (simp add: addr_bytes_be_nat)
  finally show ?thesis
    using n(2) pp(4) by (simp add: addr_at_def)
qed

text \<open>One move of the iterator is one move on the ring.\<close>

lemma iter_advance_pos:
  assumes ok: "set_ok rs" and at: "at_pos rs i p" and adv: "iter_advance i = (i', over)"
  shows "at_pos rs i' (next_pos rs p)" "cur i' = addr_at rs (next_pos rs p)"
    "startRange i' = startRange i"
    "startIP i = [] \<Longrightarrow> startIP i' = addr_at rs (next_pos rs p) \<and> \<not> over"
    "startIP i \<noteq> [] \<Longrightarrow> startIP i' = startIP i \<and>
      (over \<longleftrightarrow> fst (next_pos rs p) = startRange i \<and> ip_Equal (addr_at rs (next_pos rs p)) (startIP i))"
proof -
  have p: "is_pos rs p" and c: "canonicalizeIP (cur i) = Inr (addr_at rs p)"
    and i: "rangeset i = rs" "rangeIdx i = fst p"
    using at by (auto simp: at_pos_def)
  note pp = pos_props [OF ok p]
  let ?r = "rs ! fst p" and ?q = "next_pos rs p"
  have q: "is_pos rs ?q" using ok p by (rule next_pos_is_pos)
  have ne: "cur i \<noteq> []"
    using c by (auto simp: canonicalizeIP_def To4_def To16_def)
  have "RangeEnd ?r = addr_bytes (fam (hd rs)) (hi ?r)"
    using pp(1,2) by (simp add: range_ok_def hi_def addr_bytes_be_nat)
  moreover have "canonical (RangeEnd ?r)" using pp(1) by (simp add: range_ok_def)
  ultimately have eq: "ip_Equal (cur i) (RangeEnd ?r) \<longleftrightarrow> snd p = hi ?r"
    using ip_Equal_canonicalize [OF c] pp(4) by (metis addr_at_def hi_def)
  have cr: "cur_range i = ?r" using i by (simp add: cur_range_def)
  define j where "j = (if snd p = hi ?r
    then i\<lparr>rangeIdx := (fst p + 1) mod length rs, cur := RangeStart (rs ! ((fst p + 1) mod length rs))\<rparr>
    else i\<lparr>cur := NextIP (cur i)\<rparr>)"
  have adv': "iter_advance i = (if startIP j = [] then (j\<lparr>startIP := cur j\<rparr>, False)
           else (j, rangeIdx j = startRange j \<and> ip_Equal (cur j) (startIP j)))"
    using ne eq i unfolding iter_advance_def cr by (simp add: Let_def j_def cur_range_def)
  have j: "rangeset j = rs" "startRange j = startRange i" "startIP j = startIP i"
    "rangeIdx j = fst ?q" "cur j = addr_at rs ?q"
  proof -
    show "rangeset j = rs" "startRange j = startRange i" "startIP j = startIP i"
      using i by (simp_all add: j_def)
    show "rangeIdx j = fst ?q"
      using i by (simp add: j_def next_pos_def Let_def)
    have "0 < length rs" using p by (auto simp: is_pos_def)
    then have "(fst p + 1) mod length rs < length rs" by simp
    moreover have "snd p \<noteq> hi ?r \<Longrightarrow> snd p < hi ?r" using p by (simp add: is_pos_def)
    ultimately show "cur j = addr_at rs ?q"
      using RangeStart_addr_at [OF ok] NextIP_addr_at [OF ok p _ c]
      by (simp add: j_def next_pos_def Let_def)
  qed
  have cq: "canonicalizeIP (addr_at rs ?q) = Inr (addr_at rs ?q)"
    using canonicalizeIP_id [OF pos_props(6) [OF ok q]] .
  show "at_pos rs i' ?q" "cur i' = addr_at rs ?q" "startRange i' = startRange i"
    "startIP i = [] \<Longrightarrow> startIP i' = addr_at rs ?q \<and> \<not> over"
    "startIP i \<noteq> [] \<Longrightarrow> startIP i' = startIP i \<and>
      (over \<longleftrightarrow> fst ?q = startRange i \<and> ip_Equal (addr_at rs ?q) (startIP i))"
    using adv j q cq unfolding adv' at_pos_def by (auto split: if_splits)
qed

lemma iter_Next_unfold:
  assumes "set_ok rs" "at_pos rs i p" "iter_advance i = (i', over)"
  shows "iter_Next i =
    (if over then Some (i', None)
     else if is_gateway rs (next_pos rs p) then iter_Next i'
     else Some (i', Some (entry rs (next_pos rs p))))"
proof -
  note adv = iter_advance_pos [OF assms]
  have "cur_range i' = rs ! fst (next_pos rs p)"
    using adv(1) by (simp add: at_pos_def cur_range_def)
  then show ?thesis
    using adv(2) assms(3) by (subst iter_Next.simps) (simp add: is_gateway_def entry_def Let_def)
qed

end
