(* ===== verification/Store.thy ===== *)
theory Store
  imports GoNet
begin

text \<open>
  The interface \<open>backend.Store\<close> (\<open>backend/store.go\<close>): the operations an allocator calls,
  as a record of functions on the state \<open>'s\<close> of the world behind them, and the laws the
  allocator relies on, as a locale.
\<close>

record 's store =
  st_Lock :: "'s \<Rightarrow> go_error option \<times> 's"
  st_Unlock :: "'s \<Rightarrow> go_error option \<times> 's"
  st_Close :: "'s \<Rightarrow> go_error option \<times> 's"
  st_Reserve :: "string \<Rightarrow> net_ip \<Rightarrow> string \<Rightarrow> 's \<Rightarrow> (go_error + bool) \<times> 's"
  st_LastReservedIP :: "string \<Rightarrow> 's \<Rightarrow> (go_error + net_ip) \<times> 's"
  st_Release :: "net_ip \<Rightarrow> 's \<Rightarrow> go_error option \<times> 's"
  st_ReleaseByID :: "string \<Rightarrow> 's \<Rightarrow> go_error option \<times> 's"

text \<open>
  What a store promises. \<open>used\<close> reads the reservations of a state (printed address to
  owner), \<open>lastr\<close> the last reserved address of each range, \<open>inv\<close> is the store's own
  invariant, \<open>owner\<close> is what the store records for a container, and \<open>ok\<close> says which range
  and container identifiers it can tell apart. A failed \<open>Reserve\<close> may or may not have recorded the address: the error may
  have come after the write.
\<close>

locale ip_store =
  fixes S :: "'s store"
    and used :: "'s \<Rightarrow> string \<rightharpoonup> string"
    and lastr :: "'s \<Rightarrow> string \<rightharpoonup> string"
    and inv :: "'s \<Rightarrow> bool"
    and owner :: "string \<Rightarrow> string"
    and ok :: "string \<Rightarrow> bool"
  assumes ok_Itoa: "ok (Itoa (int n))"
    and lock_inv: "inv s \<Longrightarrow> inv (snd (st_Lock S s))"
    and unlock_inv: "inv s \<Longrightarrow> inv (snd (st_Unlock S s))"
    and unlock_used: "inv s \<Longrightarrow> used (snd (st_Unlock S s)) = used s"
    and unlock_last: "inv s \<Longrightarrow> lastr (snd (st_Unlock S s)) = lastr s"
    and reserve_inv: "inv s \<Longrightarrow> ok cid \<and> ok rid \<Longrightarrow> inv (snd (st_Reserve S cid ip rid s))"
    and reserve_True: "inv s \<Longrightarrow> ok cid \<and> ok rid \<Longrightarrow> st_Reserve S cid ip rid s = (Inr True, s') \<Longrightarrow>
      used s (ip_String ip) = None \<and> used s' = (used s)(ip_String ip \<mapsto> owner cid) \<and>
      lastr s' = (lastr s)(rid \<mapsto> ip_String ip)"
    and reserve_False: "inv s \<Longrightarrow> st_Reserve S cid ip rid s = (Inr False, s') \<Longrightarrow>
      used s (ip_String ip) \<noteq> None \<and> used s' = used s \<and> lastr s' = lastr s"
    and reserve_error: "inv s \<Longrightarrow> ok cid \<and> ok rid \<Longrightarrow> st_Reserve S cid ip rid s = (Inl e, s') \<Longrightarrow>
      used s' = used s \<or> used s (ip_String ip) = None \<and> used s' = (used s)(ip_String ip \<mapsto> owner cid)"
    and last_inv: "inv s \<Longrightarrow> inv (snd (st_LastReservedIP S rid s))"
    and last_same: "inv s \<Longrightarrow> used (snd (st_LastReservedIP S rid s)) = used s \<and>
      lastr (snd (st_LastReservedIP S rid s)) = lastr s"
    and last_value: "inv s \<Longrightarrow> ok rid \<Longrightarrow> st_LastReservedIP S rid s = (Inr ip, s') \<Longrightarrow>
      \<exists>v. lastr s rid = Some v \<and> ip = ParseIP v"
    and release_inv: "inv s \<Longrightarrow> inv (snd (st_ReleaseByID S cid s))"
    and release_ok: "inv s \<Longrightarrow> ok cid \<Longrightarrow> st_ReleaseByID S cid s = (None, s') \<Longrightarrow>
      used s' = (\<lambda>k. if used s k = Some (owner cid) then None else used s k)"
    and release_error: "inv s \<Longrightarrow> st_ReleaseByID S cid s = (Some e, s') \<Longrightarrow>
      \<forall>k. used s' k = used s k \<or> used s k = Some (owner cid) \<and> used s' k = None"
begin

text \<open>No operation takes an address away from another container.\<close>

lemma reserve_keeps:
  assumes "inv s" "ok cid \<and> ok rid" "used s k = Some cid'"
  shows "used (snd (st_Reserve S cid ip rid s)) k = Some cid'"
proof -
  obtain r s' where r: "st_Reserve S cid ip rid s = (r, s')"
    by (cases "st_Reserve S cid ip rid s")
  consider e where "r = Inl e" | "r = Inr True" | "r = Inr False"
    by (cases r) auto
  then show ?thesis
    using assms r reserve_True [of s cid rid ip s'] reserve_False [of s cid ip rid s']
      reserve_error [of s cid rid ip _ s']
    by cases fastforce+
qed

lemma release_keeps:
  assumes "inv s" "ok cid" "used s k = Some cid'" "cid' \<noteq> owner cid"
  shows "used (snd (st_ReleaseByID S cid s)) k = Some cid'"
proof -
  obtain r s' where r: "st_ReleaseByID S cid s = (r, s')"
    by (cases "st_ReleaseByID S cid s")
  then show ?thesis
    using assms release_ok [of s cid s'] release_error [of s cid _ s']
    by (cases r) (auto, metis option.inject)
qed

end

end
