(* ===== verification/Allocator.thy ===== *)
theory Allocator
  imports Iter Store CniResult
begin

text \<open>
  The allocator of \<open>backend/allocator/allocator.go\<close>: it walks a range set round-robin and
  reserves the first address the store grants. A call that does not return is \<open>None\<close>.
\<close>

record ip_allocator =
  al_rangeset :: range_set
  al_rangeID :: string

section \<open>allocator.go\<close>

definition NewIPAllocator :: "range_set \<Rightarrow> int \<Rightarrow> ip_allocator" where
  "NewIPAllocator s n = \<lparr>al_rangeset = s, al_rangeID = Itoa n\<rparr>"

text \<open>
  \<open>GetIter\<close>: an error of \<open>LastReservedIP\<close> is at most logged. On an empty range set the
  code indexes out of range and panics.
\<close>

fun find_range :: "net_ip \<Rightarrow> nat \<Rightarrow> range_set \<Rightarrow> nat option" where
  "find_range a i [] = None"
| "find_range a i (r # rs) = (if Range_Contains r a then Some i else find_range a (i + 1) rs)"

definition GetIter :: "'s store \<Rightarrow> ip_allocator \<Rightarrow> 's \<Rightarrow> range_iter outcome \<times> 's" where
  "GetIter S a s =
     (let iter = \<lparr>rangeset = al_rangeset a, rangeIdx = 0, cur = [], startIP = [], startRange = 0\<rparr>;
          (res, s) = st_LastReservedIP S (al_rangeID a) s;
          lastReservedIP = (case res of Inl e \<Rightarrow> [] | Inr ip \<Rightarrow> ip);
          startFromLast = (lastReservedIP \<noteq> [] \<and> RangeSet_Contains (al_rangeset a) lastReservedIP)
      in if startFromLast then
           (case find_range lastReservedIP 0 (al_rangeset a) of
              Some i \<Rightarrow> (Ret (iter\<lparr>rangeIdx := i, startRange := i, cur := lastReservedIP\<rparr>), s)
            | None \<Rightarrow> (Ret iter, s))
         else if al_rangeset a = [] then (Panic ''index out of range'', s)
         else (Ret (iter\<lparr>startIP := RangeStart (hd (al_rangeset a))\<rparr>), s))"

text \<open>The loop of \<open>Get\<close> over the addresses of the iterator.\<close>

partial_function (option) get_loop ::
  "'s store \<Rightarrow> string \<Rightarrow> string \<Rightarrow> range_iter \<Rightarrow> 's \<Rightarrow>
    ((go_error + (ip_net \<times> net_ip) option) \<times> 's) option" where
  "get_loop S cid rid iter s =
     Option.bind (iter_Next iter) (\<lambda>(iter, res).
       case res of
         None \<Rightarrow> Some (Inr None, s)
       | Some (n, gw) \<Rightarrow>
           (case st_Reserve S cid (IP n) rid s of (r, s) \<Rightarrow>
              (case r of
                 Inl e \<Rightarrow> Some (Inl e, s)
               | Inr reserved \<Rightarrow>
                   if reserved then Some (Inr (Some (n, gw)), s)
                   else get_loop S cid rid iter s)))"

text \<open>The end of \<open>Get\<close>: the result for the reserved address, or the error if there is none.\<close>

definition get_finish :: "ip_allocator \<Rightarrow> (ip_net \<times> net_ip) option \<Rightarrow> ip_config outcome" where
  "get_finish a res =
     (case res of
        None \<Rightarrow> Fail (Msg (''no IP addresses available in range set: '' @ RangeSet_String (al_rangeset a)))
      | Some (reservedIP, gw) \<Rightarrow>
          Ret \<lparr>Version = (if To4 (IP reservedIP) = [] then ''6'' else ''4''), Interface = None,
               Address = reservedIP, ConfGateway = gw\<rparr>)"

text \<open>The branch of \<open>Get\<close> for a requested address.\<close>

definition get_requested ::
  "'s store \<Rightarrow> ip_allocator \<Rightarrow> string \<Rightarrow> net_ip \<Rightarrow> 's \<Rightarrow> ip_config outcome \<times> 's" where
  "get_requested S a cid requestedIP s =
     (case canonicalizeIP requestedIP of
        Inl e \<Rightarrow> (Fail e, s)
      | Inr requestedIP \<Rightarrow>
          (case RangeSet_RangeFor (al_rangeset a) requestedIP of
             Inl e \<Rightarrow> (Fail e, s)
           | Inr r \<Rightarrow>
               if ip_Equal requestedIP (Gateway r)
               then (Fail (Msg (''requested ip '' @ ip_String requestedIP @ '' is subnet's gateway'')), s)
               else (case st_Reserve S cid requestedIP (al_rangeID a) s of (res, s) \<Rightarrow>
                 (case res of
                    Inl e \<Rightarrow> (Fail e, s)
                  | Inr reserved \<Rightarrow>
                      if \<not> reserved
                      then (Fail (Msg (''requested IP address '' @ ip_String requestedIP @
                              '' is not available in range set '' @ RangeSet_String (al_rangeset a))), s)
                      else (get_finish a (Some (\<lparr>IP = requestedIP, Mask = Mask (Subnet r)\<rparr>, Gateway r)), s)))))"

text \<open>
  The error of \<open>Lock\<close> is ignored. \<open>Unlock\<close> is deferred, so it runs after the result is
  computed, after a panic too.
\<close>

definition IPAllocator_Get ::
  "'s store \<Rightarrow> ip_allocator \<Rightarrow> string \<Rightarrow> net_ip \<Rightarrow> 's \<Rightarrow> (ip_config outcome \<times> 's) option" where
  "IPAllocator_Get S a cid requestedIP s =
     (let s = snd (st_Lock S s) in
      map_option (\<lambda>(res, s). (res, snd (st_Unlock S s)))
        (if requestedIP \<noteq> [] then Some (get_requested S a cid requestedIP s)
         else (case GetIter S a s of (it, s) \<Rightarrow>
           (case it of
              Fail e \<Rightarrow> Some (Fail e, s)
            | Panic m \<Rightarrow> Some (Panic m, s)
            | Ret iter \<Rightarrow>
                map_option (\<lambda>(res, s). (case res of Inl e \<Rightarrow> Fail e | Inr n \<Rightarrow> get_finish a n, s))
                  (get_loop S cid (al_rangeID a) iter s)))))"

definition IPAllocator_Release ::
  "'s store \<Rightarrow> ip_allocator \<Rightarrow> string \<Rightarrow> 's \<Rightarrow> go_error option \<times> 's" where
  "IPAllocator_Release S a cid s =
     (let s = snd (st_Lock S s); (e, s) = st_ReleaseByID S cid s in (e, snd (st_Unlock S s)))"

section \<open>A reference for the loop\<close>

text \<open>
  The addresses in the order the allocator tries them: the ring from the position after
  \<open>p\<close> round to \<open>p\<close> itself, or the whole ring from its beginning, without gateways; and
  the reference loop over such a list, which reserves the first address it can.
\<close>

definition order_after :: "range_set \<Rightarrow> pos \<Rightarrow> pos list" where
  "order_after rs p =
     tl (dropWhile (\<lambda>q. q \<noteq> p) (ring rs)) @ takeWhile (\<lambda>q. q \<noteq> p) (ring rs) @ [p]"

definition candidates :: "range_set \<Rightarrow> pos list \<Rightarrow> (ip_net \<times> net_ip) list" where
  "candidates rs ps = map (entry rs) (filter (\<lambda>q. \<not> is_gateway rs q) ps)"

fun reserve_first ::
  "'s store \<Rightarrow> string \<Rightarrow> string \<Rightarrow> (ip_net \<times> net_ip) list \<Rightarrow> 's \<Rightarrow>
    (go_error + (ip_net \<times> net_ip) option) \<times> 's" where
  "reserve_first S cid rid [] s = (Inr None, s)"
| "reserve_first S cid rid (e # es) s =
     (case st_Reserve S cid (IP (fst e)) rid s of
        (Inl err, s) \<Rightarrow> (Inl err, s)
      | (Inr True, s) \<Rightarrow> (Inr (Some e), s)
      | (Inr False, s) \<Rightarrow> reserve_first S cid rid es s)"

lemma get_loop_cong: "iter_Next i = iter_Next j \<Longrightarrow> get_loop S cid rid i s = get_loop S cid rid j s"
  by (subst (1 2) get_loop.simps) simp

text \<open>
  From any position of the round, the loop tries exactly the positions that are left.
\<close>

lemma get_loop_rest:
  assumes ok: "set_ok rs" and cyc: "cyc rs (b # us @ vs)" "distinct (b # us @ vs)"
    "\<forall>p\<in>set (b # us @ vs). is_pos rs p"
    and at: "at_pos rs i (last (b # us))" and st: "startIP i = addr_at rs b" "startRange i = fst b"
  shows "get_loop S cid rid i s = Some (reserve_first S cid rid (candidates rs vs) s)"
  using cyc at st
proof (induction vs arbitrary: us i s)
  case Nil
  obtain i' over where adv: "iter_advance i = (i', over)" by (cases "iter_advance i")
  have nx: "next_pos rs (last (b # us)) = b"
    using Nil.prems(1) by (simp add: cyc_def)
  have b: "is_pos rs b" using Nil.prems(3) by simp
  have "startIP i \<noteq> []"
    using Nil.prems(5) pos_props(6) [OF ok b] canonical_not_Nil by auto
  then have over
    using iter_advance_pos(5) [OF ok Nil.prems(4) adv] nx Nil.prems(5,6) by simp
  then have "iter_Next i = Some (i', None)"
    using iter_Next_unfold [OF ok Nil.prems(4) adv] by simp
  then show ?case
    by (subst get_loop.simps) (simp add: candidates_def)
next
  case (Cons v vs)
  obtain i' over where adv: "iter_advance i = (i', over)" by (cases "iter_advance i")
  have "successively (\<lambda>p q. q = next_pos rs p) ((b # us) @ v # vs)"
    using Cons.prems(1) by (simp add: cyc_def)
  then have nx: "next_pos rs (last (b # us)) = v"
    unfolding successively_append_iff by simp
  have b: "is_pos rs b" "is_pos rs v" "v \<noteq> b" using Cons.prems(2,3) by auto
  have ne: "startIP i \<noteq> []"
    using Cons.prems(5) pos_props(6) [OF ok b(1)] canonical_not_Nil by auto
  note ap = iter_advance_pos [OF ok Cons.prems(4) adv, unfolded nx]
  have "\<not> over"
    using ap(5) [OF ne] Cons.prems(5) b addr_at_inject [OF ok b(2,1)]
      ip_Equal_canonical [OF pos_props(6) [OF ok b(2)] pos_props(6) [OF ok b(1)]] by simp
  then have step: "iter_Next i = (if is_gateway rs v then iter_Next i' else Some (i', Some (entry rs v)))"
    using iter_Next_unfold [OF ok Cons.prems(4) adv] nx by simp
  have IH: "get_loop S cid rid i' s = Some (reserve_first S cid rid (candidates rs vs) s)" for s
    using Cons.prems ap ne by (intro Cons.IH [of "us @ [v]"]) auto
  show ?case
  proof (cases "is_gateway rs v")
    case True
    then have "get_loop S cid rid i s = get_loop S cid rid i' s"
      using step by (intro get_loop_cong) simp
    with IH True show ?thesis by (simp add: candidates_def)
  next
    case False
    have "get_loop S cid rid i s = Some (reserve_first S cid rid (entry rs v # candidates rs vs) s)"
      using step False IH
      by (subst get_loop.simps) (auto split: prod.splits sum.splits bool.splits)
    with False show ?thesis by (simp add: candidates_def)
  qed
qed

text \<open>The first move, from the beginning of the set and from a position.\<close>

lemma get_loop_fresh:
  assumes ok: "set_ok rs"
    and i: "i = \<lparr>rangeset = rs, rangeIdx = 0, cur = [], startIP = st, startRange = 0\<rparr>"
  shows "get_loop S cid rid i s = Some (reserve_first S cid rid (candidates rs (ring rs)) s)"
proof -
  obtain qs where ring: "ring rs = (0, lo (rs ! 0)) # qs"
    using ring_chain(1,2) [OF ok] by (cases "ring rs") auto
  let ?q = "(0, lo (rs ! 0))" and ?c = "addr_at rs (0, lo (rs ! 0))"
  have q: "is_pos rs ?q" and all: "\<forall>p\<in>set (?q # [] @ qs). is_pos rs p"
    using ring set_ring [of rs] by auto
  have rs0: "RangeStart (rs ! 0) = ?c"
    using RangeStart_addr_at [OF ok] q by (simp add: is_pos_def)
  define j where "j = i\<lparr>cur := ?c, startIP := ?c\<rparr>"
  have adv: "iter_advance i = (j, False)"
    by (simp add: iter_advance_def i j_def rs0 cur_range_def Let_def)
  have at: "at_pos rs j ?q"
    using q canonicalizeIP_id [OF pos_props(6) [OF ok q]] by (simp add: at_pos_def j_def i)
  have rest: "get_loop S cid rid j s = Some (reserve_first S cid rid (candidates rs qs) s)" for s
    using cyc_ring [OF ok] distinct_ring [of rs] all at ring
    by (intro get_loop_rest [OF ok, where b = "(0, lo (rs ! 0))" and us = "[]"]) (auto simp: j_def i)
  have "cur_range j = rs ! 0" by (simp add: cur_range_def j_def i)
  then have step: "iter_Next i = (if is_gateway rs ?q then iter_Next j else Some (j, Some (entry rs ?q)))"
    by (subst iter_Next.simps) (simp add: adv is_gateway_def entry_def j_def Let_def)
  show ?thesis
  proof (cases "is_gateway rs ?q")
    case True
    then have "get_loop S cid rid i s = get_loop S cid rid j s"
      using step by (intro get_loop_cong) simp
    with rest True ring show ?thesis by (simp add: candidates_def)
  next
    case False
    with step rest ring show ?thesis
      by (subst get_loop.simps) (auto simp: candidates_def split: prod.splits sum.splits bool.splits)
  qed
qed

lemma order_after_props:
  assumes ok: "set_ok rs" and p: "is_pos rs p"
  shows "cyc rs (order_after rs p)" "distinct (order_after rs p)"
    "set (order_after rs p) = set (ring rs)" "last (order_after rs p) = p"
    "hd (order_after rs p) = next_pos rs p"
proof -
  have "p \<in> set (ring rs)" using p by (simp add: set_ring)
  then obtain xs ys where r: "ring rs = xs @ p # ys" "p \<notin> set xs"
    by (metis split_list_first)
  have "takeWhile (\<lambda>q. q \<noteq> p) (ring rs) = xs" "dropWhile (\<lambda>q. q \<noteq> p) (ring rs) = p # ys"
    using r by (auto simp: takeWhile_append dropWhile_append)
  then have o: "order_after rs p = ys @ xs @ [p]"
    by (simp add: order_after_def)
  show "cyc rs (order_after rs p)"
    using cyc_rotate [of rs xs p ys] cyc_ring [OF ok] r by (simp add: o)
  then show "hd (order_after rs p) = next_pos rs p"
    by (simp add: cyc_def o)
  show "distinct (order_after rs p)"
    using distinct_ring [of rs] r by (auto simp: o)
  show "set (order_after rs p) = set (ring rs)" "last (order_after rs p) = p"
    using r by (auto simp: o)
qed

lemma get_loop_after:
  assumes ok: "set_ok rs" and at: "at_pos rs i p" and st: "startIP i = []" "startRange i = fst p"
    and same: "fst (next_pos rs p) = fst p"
  shows "get_loop S cid rid i s = Some (reserve_first S cid rid (candidates rs (order_after rs p)) s)"
proof -
  have p: "is_pos rs p" using at by (simp add: at_pos_def)
  note op = order_after_props [OF ok p]
  obtain i' over where adv: "iter_advance i = (i', over)" by (cases "iter_advance i")
  let ?q = "next_pos rs p"
  note ap = iter_advance_pos [OF ok at adv]
  obtain qs where o: "order_after rs p = ?q # qs"
    using op(1,5) by (cases "order_after rs p") (auto simp: cyc_def)
  have all: "\<forall>p\<in>set (?q # [] @ qs). is_pos rs p"
    using op(3) o by (auto simp: set_ring)
  have rest: "get_loop S cid rid i' s = Some (reserve_first S cid rid (candidates rs qs) s)" for s
    using op(1,2) o all ap(1-4) st same
    by (intro get_loop_rest [OF ok, where b = "next_pos rs p" and us = "[]"]) auto
  have step: "iter_Next i = (if is_gateway rs ?q then iter_Next i' else Some (i', Some (entry rs ?q)))"
    using iter_Next_unfold [OF ok at adv] ap(4) [OF st(1)] by simp
  show ?thesis
  proof (cases "is_gateway rs ?q")
    case True
    then have "get_loop S cid rid i s = get_loop S cid rid i' s"
      using step by (intro get_loop_cong) simp
    with rest True o show ?thesis by (simp add: candidates_def)
  next
    case False
    with step rest o show ?thesis
      by (subst get_loop.simps) (auto simp: candidates_def split: prod.splits sum.splits bool.splits)
  qed
qed

section \<open>The allocator is its reference\<close>

text \<open>
  The position of the last reserved address, when the range set still contains it, and the
  order in which \<open>Get\<close> then tries the addresses.
\<close>

definition last_pos :: "range_set \<Rightarrow> go_error + net_ip \<Rightarrow> pos option" where
  "last_pos rs res =
     (case res of
        Inl e \<Rightarrow> None
      | Inr ip \<Rightarrow> if ip \<noteq> [] \<and> RangeSet_Contains rs ip
                  then map_option (\<lambda>i. (i, nat (ipToInt ip))) (find_range ip 0 rs) else None)"

definition try_order :: "range_set \<Rightarrow> go_error + net_ip \<Rightarrow> pos list" where
  "try_order rs res = (case last_pos rs res of None \<Rightarrow> ring rs | Some p \<Rightarrow> order_after rs p)"

definition Get_reference ::
  "'s store \<Rightarrow> ip_allocator \<Rightarrow> string \<Rightarrow> 's \<Rightarrow> ip_config outcome \<times> 's" where
  "Get_reference S a cid s =
     (let s = snd (st_Lock S s);
          (last, s) = st_LastReservedIP S (al_rangeID a) s;
          (res, s) = reserve_first S cid (al_rangeID a)
            (candidates (al_rangeset a) (try_order (al_rangeset a) last)) s
      in (case res of Inl e \<Rightarrow> Fail e | Inr n \<Rightarrow> get_finish a n, snd (st_Unlock S s)))"

lemma find_range_Some:
  "find_range a k rs = Some i \<Longrightarrow> k \<le> i \<and> i - k < length rs \<and> Range_Contains (rs ! (i - k)) a"
proof (induction a k rs rule: find_range.induct)
  case (2 a k r rs)
  then show ?case
    by (cases "Range_Contains r a") (auto simp: Suc_diff_le nth_Cons' split: if_splits)
qed simp

lemma Range_Contains_canonicalize:
  "canonicalizeIP a = Inr c \<Longrightarrow> Range_Contains r a \<longleftrightarrow> Range_Contains r c"
  using canonicalizeIP_id [OF canonicalizeIP_Inr [of a c]] by (simp add: Range_Contains_def)

lemma last_pos_Some:
  assumes ok: "set_ok rs" and p: "last_pos rs (Inr ip) = Some p"
  shows "is_pos rs p" "canonicalizeIP ip = Inr (addr_at rs p)" "ip \<noteq> []"
    "RangeSet_Contains rs ip" "find_range ip 0 rs = Some (fst p)"
proof -
  obtain i where i: "find_range ip 0 rs = Some i" "p = (i, nat (ipToInt ip))"
    and ip: "ip \<noteq> []" "RangeSet_Contains rs ip"
    using p by (auto simp: last_pos_def split: if_splits)
  obtain c where c: "canonicalizeIP ip = Inr c"
    using ip(2) by (auto simp: RangeSet_Contains_iff)
  have can: "canonical c" using c by (rule canonicalizeIP_Inr)
  have k: "i < length rs" "Range_Contains (rs ! i) ip"
    using find_range_Some [OF i(1)] by auto
  have "Range_Contains (rs ! i) c"
    using k(2) Range_Contains_canonicalize [OF c] by simp
  then have b: "length c = fam (rs ! i)" "lo (rs ! i) \<le> be_nat c" "be_nat c \<le> hi (rs ! i)"
    using Range_Contains_ok [OF set_okD(1) [OF ok] can] k(1) by auto
  have n: "nat (ipToInt ip) = be_nat c"
    using ipToInt_canonicalize [OF c] ipToInt_canonical [OF can] by simp
  show "is_pos rs p"
    using k(1) b n by (simp add: is_pos_def i(2))
  have "length c = fam (hd rs)"
    using b(1) set_okD(2) [OF ok] k(1) by (metis nth_mem)
  then show "canonicalizeIP ip = Inr (addr_at rs p)"
    by (simp add: c addr_at_def i(2) n addr_bytes_be_nat)
  show "ip \<noteq> []" "RangeSet_Contains rs ip" "find_range ip 0 rs = Some (fst p)"
    using ip i by auto
qed

lemma last_pos_None_iff:
  assumes "last_pos rs res = None"
  shows "\<not> (case res of Inl e \<Rightarrow> [] | Inr ip \<Rightarrow> ip) \<noteq> [] \<or>
    \<not> RangeSet_Contains rs (case res of Inl e \<Rightarrow> [] | Inr ip \<Rightarrow> ip)"
proof (cases res)
  case (Inr ip)
  have "find_range ip k rs \<noteq> None" if "\<exists>r\<in>set rs. Range_Contains r ip" for k
    using that by (induction ip k rs rule: find_range.induct) auto
  moreover have "\<exists>r\<in>set rs. Range_Contains r ip" if "RangeSet_Contains rs ip"
    using that Range_Contains_canonicalize by (auto simp: RangeSet_Contains_iff)
  ultimately have "find_range ip 0 rs \<noteq> None" if "RangeSet_Contains rs ip"
    using that by blast
  then show ?thesis
    using assms Inr by (auto simp: last_pos_def split: if_splits)
qed simp

theorem IPAllocator_Get_reference:
  assumes ok: "set_ok (al_rangeset a)"
    and wrap: "\<And>p. last_pos (al_rangeset a) (fst (st_LastReservedIP S (al_rangeID a) (snd (st_Lock S s)))) = Some p
      \<Longrightarrow> fst (next_pos (al_rangeset a) p) = fst p"
  shows "IPAllocator_Get S a cid [] s = Some (Get_reference S a cid s)"
proof -
  let ?rs = "al_rangeset a"
  define s1 where "s1 = snd (st_Lock S s)"
  obtain last s2 where l: "st_LastReservedIP S (al_rangeID a) s1 = (last, s2)"
    by (cases "st_LastReservedIP S (al_rangeID a) s1")
  have ne: "?rs \<noteq> []" using ok unfolding set_ok_def by blast
  have "\<exists>iter. GetIter S a s1 = (Ret iter, s2) \<and>
    get_loop S cid (al_rangeID a) iter s2 =
      Some (reserve_first S cid (al_rangeID a) (candidates ?rs (try_order ?rs last)) s2)"
  proof (cases "last_pos ?rs last")
    case None
    then have "GetIter S a s1 = (Ret \<lparr>rangeset = ?rs, rangeIdx = 0, cur = [],
        startIP = RangeStart (hd ?rs), startRange = 0\<rparr>, s2)"
      using last_pos_None_iff [OF None] ne by (auto simp: GetIter_def l Let_def)
    moreover have "try_order ?rs last = ring ?rs" using None by (simp add: try_order_def)
    ultimately show ?thesis
      using get_loop_fresh [OF ok refl] by auto
  next
    case (Some p)
    then obtain ip where ip: "last = Inr ip" by (cases last) (auto simp: last_pos_def)
    note lp = last_pos_Some [OF ok Some [unfolded ip]]
    let ?i = "\<lparr>rangeset = ?rs, rangeIdx = fst p, cur = ip, startIP = [], startRange = fst p\<rparr>"
    have "GetIter S a s1 = (Ret ?i, s2)"
      using lp by (simp add: GetIter_def l ip Let_def)
    moreover have "at_pos ?rs ?i p" using lp by (simp add: at_pos_def)
    moreover have "fst (next_pos ?rs p) = fst p" using wrap Some l s1_def by simp
    ultimately show ?thesis
      using get_loop_after [OF ok, of ?i p] Some by (auto simp: try_order_def)
  qed
  then show ?thesis
    unfolding IPAllocator_Get_def Get_reference_def s1_def [symmetric]
    by (auto simp: l Let_def split: prod.splits)
qed

section \<open>What the iterator can return\<close>

definition visits :: "range_set \<Rightarrow> range_iter \<Rightarrow> bool" where
  "visits rs i \<longleftrightarrow> (\<exists>p. at_pos rs i p) \<or>
     rangeset i = rs \<and> rangeIdx i = 0 \<and> cur i = []"

text \<open>The network and gateway of an address of the set that is not a gateway.\<close>

definition offered :: "range_set \<Rightarrow> ip_net \<times> net_ip \<Rightarrow> bool" where
  "offered rs e \<longleftrightarrow> (\<exists>q. is_pos rs q \<and> \<not> is_gateway rs q \<and> e = entry rs q)"

lemma visits_advance:
  assumes ok: "set_ok rs" and v: "visits rs i" and adv: "iter_advance i = (i', over)"
  obtains q where "at_pos rs i' q" "cur i' = addr_at rs q"
proof -
  from v consider p where "at_pos rs i p" | "rangeset i = rs" "rangeIdx i = 0" "cur i = []"
    by (auto simp: visits_def)
  then show thesis
  proof cases
    case 1
    from iter_advance_pos(1,2) [OF ok 1 adv] show thesis by (rule that)
  next
    case 2
    let ?q = "(0, lo (rs ! 0))"
    have "?q \<in> set (ring rs)" using ring_chain(1,2) [OF ok] by (metis list.set_sel(1))
    then have q: "is_pos rs ?q" by (simp add: set_ring)
    have "RangeStart (rs ! 0) = addr_at rs ?q"
      using RangeStart_addr_at [OF ok] q by (simp add: is_pos_def)
    then have "i' = i\<lparr>cur := addr_at rs ?q, startIP := addr_at rs ?q\<rparr>"
      using adv 2 by (simp add: iter_advance_def cur_range_def Let_def)
    then show thesis
      using 2 q canonicalizeIP_id [OF pos_props(6) [OF ok q]]
      by (intro that [of ?q]) (simp_all add: at_pos_def)
  qed
qed

lemma iter_Next_visits:
  assumes ok: "set_ok rs" and v: "visits rs i" and nx: "iter_Next i = Some (i', res)"
  shows "visits rs i' \<and> (\<forall>e. res = Some e \<longrightarrow> offered rs e)"
proof -
  let ?P = "\<lambda>i (r :: range_iter \<times> (ip_net \<times> net_ip) option). visits rs i \<longrightarrow> (visits rs (fst r) \<and>
    (\<forall>e. snd r = Some e \<longrightarrow> offered rs e))"
  have "?P i (i', res)"
  proof (rule iter_Next.raw_induct [where P = ?P, OF _ nx])
    fix f i r
    assume IH: "\<And>i r. f i = Some r \<Longrightarrow> ?P i r"
      and eq: "(case iter_advance i of (i, over) \<Rightarrow> if over then Some (i, None)
        else let r = cur_range i in if ip_Equal (cur i) (Gateway r) then f i
          else Some (i, Some (\<lparr>IP = cur i, Mask = Mask (Subnet r)\<rparr>, Gateway r))) = Some r"
    show "?P i r"
    proof
      assume "visits rs i"
      obtain j over where adv: "iter_advance i = (j, over)" by (cases "iter_advance i")
      obtain q where q: "at_pos rs j q" "cur j = addr_at rs q"
        using visits_advance [OF ok \<open>visits rs i\<close> adv] .
      have j: "visits rs j" using q(1) unfolding visits_def by blast
      have cr: "cur_range j = rs ! fst q" "is_pos rs q" using q(1) by (auto simp: at_pos_def cur_range_def)
      have "(if over then Some (j, None) else if is_gateway rs q then f j
        else Some (j, Some (entry rs q))) = Some r"
        using eq unfolding adv prod.case Let_def cr(1) q(2) is_gateway_def entry_def .
      then consider "r = (j, None)"
        | "f j = Some r" | "r = (j, Some (entry rs q))" "\<not> is_gateway rs q"
        by (cases over; cases "is_gateway rs q") simp_all
      then show "visits rs (fst r) \<and>
        (\<forall>e. snd r = Some e \<longrightarrow> offered rs e)"
      proof cases
        case 1
        with j show ?thesis by simp
      next
        case 2
        from IH [OF 2] j show ?thesis by simp
      next
        case 3
        then have "offered rs (entry rs q)" using cr(2) unfolding offered_def by blast
        with 3 j show ?thesis by simp
      qed
    qed
  qed
  with v show ?thesis by simp
qed

lemma get_loop_visits:
  assumes ok: "set_ok rs" and v: "visits rs i"
    and r: "get_loop S cid rid i s = Some (Inr (Some e), s')"
  shows "offered rs e"
proof -
  let ?P = "\<lambda>S cid rid i s (r :: (go_error + (ip_net \<times> net_ip) option) \<times> 'a).
    visits rs i \<longrightarrow> (\<forall>e. fst r = Inr (Some e) \<longrightarrow> offered rs e)"
  have "?P S cid rid i s (Inr (Some e), s')"
  proof (rule get_loop.raw_induct [where P = ?P, OF _ r])
    fix f S cid rid i s r
    assume IH: "\<And>S cid rid i s r. f S cid rid i s = Some r \<Longrightarrow> ?P S cid rid i s r"
      and eq: "Option.bind (iter_Next i) (\<lambda>(iter, res). case res of None \<Rightarrow> Some (Inr None, s)
        | Some (n, gw) \<Rightarrow> (case st_Reserve S cid (IP n) rid s of (r, s) \<Rightarrow> (case r of Inl e \<Rightarrow> Some (Inl e, s)
          | Inr reserved \<Rightarrow> if reserved then Some (Inr (Some (n, gw)), s) else f S cid rid iter s))) = Some r"
    show "?P S cid rid i s r"
    proof
      assume v: "visits rs i"
      obtain j res where nx: "iter_Next i = Some (j, res)"
        using eq by (cases "iter_Next i") auto
      note nv = iter_Next_visits [OF ok v nx]
      show "\<forall>e. fst r = Inr (Some e) \<longrightarrow> offered rs e"
      proof (cases res)
        case None
        with eq nx show ?thesis by auto
      next
        case (Some e)
        then show ?thesis
          using eq nx nv IH by (auto split: prod.splits sum.splits if_splits)
      qed
    qed
  qed
  with v show ?thesis by simp
qed

lemma GetIter_visits:
  assumes ok: "set_ok (al_rangeset a)" and g: "GetIter S a s = (Ret i, s')"
  shows "visits (al_rangeset a) i"
proof -
  obtain res s2 where l: "st_LastReservedIP S (al_rangeID a) s = (res, s2)"
    by (cases "st_LastReservedIP S (al_rangeID a) s")
  show ?thesis
  proof (cases "last_pos (al_rangeset a) res")
    case None
    then show ?thesis
      using g last_pos_None_iff [OF None] ok
      by (auto simp: GetIter_def l Let_def visits_def set_ok_def split: if_splits)
  next
    case (Some p)
    then obtain ip where ip: "res = Inr ip" by (cases res) (auto simp: last_pos_def)
    note lp = last_pos_Some [OF ok Some [unfolded ip]]
    have "at_pos (al_rangeset a) i p"
      using g lp by (auto simp: GetIter_def l ip Let_def at_pos_def)
    then show ?thesis unfolding visits_def by blast
  qed
qed

section \<open>The allocator over a store that keeps its promises\<close>

definition key_of :: "ip_net \<times> net_ip \<Rightarrow> string" where
  "key_of e = ip_String (IP (fst e))"

context ip_store
begin

text \<open>What a granted address means for the reservations.\<close>

definition granted :: "string \<Rightarrow> string \<Rightarrow> string \<Rightarrow> 's \<Rightarrow> 's \<Rightarrow> bool" where
  "granted cid rid k s s' \<longleftrightarrow> inv s' \<and> used s k = None \<and> used s' = (used s)(k \<mapsto> owner cid) \<and>
     lastr s' = (lastr s)(rid \<mapsto> k)"

lemma reserve_granted:
  "inv s \<Longrightarrow> ok cid \<and> ok rid \<Longrightarrow> st_Reserve S cid ip rid s = (Inr True, s') \<Longrightarrow> granted cid rid (ip_String ip) s s'"
  using reserve_True [of s cid rid ip s'] reserve_inv [of s cid rid ip] by (simp add: granted_def)

text \<open>The state changes of a call that grants nothing: at most one failed write of its own.\<close>

definition own_only :: "string \<Rightarrow> 's \<Rightarrow> 's \<Rightarrow> bool" where
  "own_only cid s s' \<longleftrightarrow> inv s' \<and>
     (used s' = used s \<or> (\<exists>k. used s k = None \<and> used s' = (used s)(k \<mapsto> owner cid)))"

lemma reserve_first_granted:
  assumes "inv s" and rid: "ok cid \<and> ok rid" and "reserve_first S cid rid es s = (Inr (Some e), s')"
  shows "\<exists>es1 es2. es = es1 @ e # es2 \<and> granted cid rid (key_of e) s s' \<and>
    (\<forall>e1\<in>set es1. used s (key_of e1) \<noteq> None)"
  using assms(1,3)
proof (induction es arbitrary: s)
  case (Cons x xs)
  obtain r t where r: "st_Reserve S cid (IP (fst x)) rid s = (r, t)"
    by (cases "st_Reserve S cid (IP (fst x)) rid s")
  have t: "inv t" using reserve_inv [of s cid rid "IP (fst x)"] rid Cons.prems(1) r by simp
  consider err where "r = Inl err" | "r = Inr True" | "r = Inr False" by (cases r) auto
  then show ?case
  proof cases
    case 2
    with Cons.prems r have "e = x" "s' = t" by auto
    with 2 r Cons.prems(1) show ?thesis
      by (intro exI [of _ "[]"] exI [of _ xs]) (simp add: key_of_def reserve_granted rid)
  next
    case 3
    with Cons.prems r have "reserve_first S cid rid xs t = (Inr (Some e), s')" by auto
    then obtain es1 es2 where "xs = es1 @ e # es2" "granted cid rid (key_of e) t s'"
      "\<forall>e1\<in>set es1. used t (key_of e1) \<noteq> None"
      using Cons.IH [OF t] by blast
    moreover have "used s (key_of x) \<noteq> None" "used t = used s" "lastr t = lastr s"
      using reserve_False [OF Cons.prems(1)] r 3 by (auto simp: key_of_def)
    ultimately show ?thesis
      by (intro exI [of _ "x # es1"] exI [of _ es2]) (simp add: granted_def)
  qed (use Cons.prems r in auto)
qed simp

lemma reserve_first_exhausted:
  assumes "inv s" and rid: "ok cid \<and> ok rid" and "reserve_first S cid rid es s = (Inr None, s')"
  shows "inv s' \<and> used s' = used s \<and> lastr s' = lastr s \<and> (\<forall>e\<in>set es. used s (key_of e) \<noteq> None)"
  using assms(1,3)
proof (induction es arbitrary: s)
  case (Cons x xs)
  obtain r t where r: "st_Reserve S cid (IP (fst x)) rid s = (r, t)"
    by (cases "st_Reserve S cid (IP (fst x)) rid s")
  have t: "inv t" using reserve_inv [of s cid rid "IP (fst x)"] rid Cons.prems(1) r by simp
  from Cons.prems r have f: "r = Inr False" "reserve_first S cid rid xs t = (Inr None, s')"
    by (auto split: sum.splits bool.splits)
  with Cons.IH [OF t] reserve_False [OF Cons.prems(1)] r show ?case
    by (auto simp: key_of_def)
qed simp

text \<open>
  Any call of the loop that returns with an address, from any iterator state, returns one
  that was free and is now the container's, and changes nothing else.
\<close>

lemma get_loop_granted:
  assumes "get_loop S cid rid i s = Some (Inr (Some e), s')" "inv s" "ok cid \<and> ok rid"
  shows "granted cid rid (key_of e) s s'"
proof -
  let ?P = "\<lambda>S' cid rid i s (r :: (go_error + (ip_net \<times> net_ip) option) \<times> 's).
    S' = S \<longrightarrow> inv s \<longrightarrow> ok cid \<and> ok rid \<longrightarrow> (\<forall>e. fst r = Inr (Some e) \<longrightarrow> granted cid rid (key_of e) s (snd r))"
  have "?P S cid rid i s (Inr (Some e), s')"
  proof (rule get_loop.raw_induct [where P = ?P, OF _ assms(1)])
    fix f S' cid rid i s r
    assume IH: "\<And>S cid rid i s r. f S cid rid i s = Some r \<Longrightarrow> ?P S cid rid i s r"
      and eq: "Option.bind (iter_Next i) (\<lambda>(iter, res). case res of None \<Rightarrow> Some (Inr None, s)
        | Some (n, gw) \<Rightarrow> (case st_Reserve S' cid (IP n) rid s of (r, s) \<Rightarrow> (case r of Inl e \<Rightarrow> Some (Inl e, s)
          | Inr reserved \<Rightarrow> if reserved then Some (Inr (Some (n, gw)), s) else f S' cid rid iter s))) = Some r"
    show "?P S' cid rid i s r"
    proof (intro impI)
      assume S: "S' = S" and s: "inv s" and rid: "ok cid \<and> ok rid"
      obtain j res where nx: "iter_Next i = Some (j, res)"
        using eq by (cases "iter_Next i") auto
      show "\<forall>e. fst r = Inr (Some e) \<longrightarrow> granted cid rid (key_of e) s (snd r)"
      proof (cases res)
        case None
        with eq nx show ?thesis by auto
      next
        case (Some x)
        obtain n gw where x: "x = (n, gw)" by (cases x)
        obtain b t where b: "st_Reserve S cid (IP n) rid s = (b, t)"
          by (cases "st_Reserve S cid (IP n) rid s")
        have t: "inv t" using reserve_inv [of s cid rid "IP n"] rid s b by simp
        consider err where "b = Inl err" | "b = Inr True" | "b = Inr False" by (cases b) auto
        then show ?thesis
        proof cases
          case 1
          with eq nx Some x b S show ?thesis by auto
        next
          case 2
          then have "r = (Inr (Some x), t)" using eq nx Some x b S by simp
          with reserve_granted [OF s rid] b 2 x show ?thesis by (simp add: key_of_def)
        next
          case 3
          then have "f S cid rid j t = Some r" using eq nx Some x b S by simp
          moreover have "used t = used s" "lastr t = lastr s"
            using reserve_False [OF s] b 3 by auto
          ultimately show ?thesis
            using IH [of S cid rid j t r] t rid by (simp add: granted_def)
        qed
      qed
    qed
  qed
  with assms(2,3) show ?thesis by simp
qed

lemma GetIter_state:
  assumes "inv s" "GetIter S a s = (r, s')"
  shows "inv s' \<and> used s' = used s \<and> lastr s' = lastr s"
proof -
  have "s' = snd (st_LastReservedIP S (al_rangeID a) s)"
    using assms(2) by (auto simp: GetIter_def Let_def split: prod.splits if_splits option.splits)
  with last_inv [OF assms(1)] last_same [OF assms(1)] show ?thesis by simp
qed

lemma unlock_granted:
  "granted cid rid k s t \<Longrightarrow> granted cid rid k s (snd (st_Unlock S t))"
  by (simp add: granted_def unlock_inv unlock_used unlock_last)

text \<open>
  The result of \<open>Get\<close>, with or without a requested address: an address of the range set
  that is not its range's gateway, free after \<open>Lock\<close>, and recorded for the container.
\<close>

lemma Get_ok:
  assumes ok: "set_ok (al_rangeset a)" and s: "inv s"
    and g: "IPAllocator_Get S a cid req s = Some (Ret conf, s')" and rid: "ok cid \<and> ok (al_rangeID a)"
  shows "granted cid (al_rangeID a) (ip_String (IP (Address conf))) (snd (st_Lock S s)) s' \<and>
    (\<exists>r\<in>set (al_rangeset a). Range_Contains r (IP (Address conf)) \<and>
       Mask (Address conf) = Mask (Subnet r) \<and> ConfGateway conf = Gateway r \<and>
       \<not> ip_Equal (IP (Address conf)) (Gateway r)) \<and>
    (req \<noteq> [] \<longrightarrow> canonicalizeIP req = Inr (IP (Address conf)))"
proof -
  define s1 where "s1 = snd (st_Lock S s)"
  have s1: "inv s1" using lock_inv [OF s] by (simp add: s1_def)
  show ?thesis
  proof (cases "req = []")
    case False
    then obtain t where t: "get_requested S a cid req s1 = (Ret conf, t)" "s' = snd (st_Unlock S t)"
      using g by (auto simp: IPAllocator_Get_def s1_def Let_def split: prod.splits)
    obtain c where c: "canonicalizeIP req = Inr c"
      using t(1) by (auto simp: get_requested_def split: sum.splits)
    obtain r where r: "RangeSet_RangeFor (al_rangeset a) c = Inr r"
      using t(1) c by (auto simp: get_requested_def split: sum.splits)
    have gw: "\<not> ip_Equal c (Gateway r)"
      using t(1) c r by (auto simp: get_requested_def split: if_splits)
    obtain b where b: "st_Reserve S cid c (al_rangeID a) s1 = (Inr b, t)"
      using t(1) c r gw by (auto simp: get_requested_def split: prod.splits sum.splits if_splits)
    have "b" and conf: "Ret conf = get_finish a (Some (\<lparr>IP = c, Mask = Mask (Subnet r)\<rparr>, Gateway r))"
      using t(1) c r gw b by (auto simp: get_requested_def split: if_splits)
    then have addr: "Address conf = \<lparr>IP = c, Mask = Mask (Subnet r)\<rparr>" "ConfGateway conf = Gateway r"
      by (auto simp: get_finish_def)
    have "granted cid (al_rangeID a) (ip_String c) s1 s'"
      using unlock_granted reserve_granted [OF s1 rid] b \<open>b\<close> t(2) by simp
    moreover have "r \<in> set (al_rangeset a)" "Range_Contains r c"
      using RangeSet_RangeFor_Inr [OF r] canonicalizeIP_id [OF canonicalizeIP_Inr [OF c]] by auto
    ultimately show ?thesis
      using addr c gw False by (auto simp: s1_def)
  next
    case True
    obtain it t where it: "GetIter S a s1 = (it, t)" by (cases "GetIter S a s1")
    obtain i where i: "it = Ret i"
      using g True it by (cases it) (auto simp: IPAllocator_Get_def s1_def Let_def)
    obtain res u where u: "get_loop S cid (al_rangeID a) i t = Some (res, u)"
      and r: "Ret conf = (case res of Inl e \<Rightarrow> Fail e | Inr n \<Rightarrow> get_finish a n)" "s' = snd (st_Unlock S u)"
      using g True it i by (auto simp: IPAllocator_Get_def s1_def Let_def)
    obtain e where e: "res = Inr (Some e)"
      using r(1) by (auto simp: get_finish_def split: sum.splits option.splits)
    have conf: "Address conf = fst e" "ConfGateway conf = snd e"
      using r(1) e by (auto simp: get_finish_def split: prod.splits)
    have t: "inv t" "used t = used s1" "lastr t = lastr s1"
      using GetIter_state [OF s1 it] by auto
    have "granted cid (al_rangeID a) (key_of e) t s'"
      using unlock_granted get_loop_granted [OF u [unfolded e] t(1) rid] r(2) by simp
    then have gr: "granted cid (al_rangeID a) (ip_String (IP (Address conf))) s1 s'"
      using t by (simp add: granted_def key_of_def conf)
    have "offered (al_rangeset a) e"
      using get_loop_visits [OF ok GetIter_visits [OF ok it [unfolded i]] u [unfolded e]] .
    then obtain q where q: "is_pos (al_rangeset a) q" "\<not> is_gateway (al_rangeset a) q"
      "e = entry (al_rangeset a) q"
      unfolding offered_def by blast
    let ?r = "al_rangeset a ! fst q"
    have "?r \<in> set (al_rangeset a)" using q(1) by (simp add: is_pos_def)
    moreover have "Range_Contains ?r (addr_at (al_rangeset a) q)"
      using Range_Contains_ok [OF pos_props(1,6) [OF ok q(1)]] pos_props [OF ok q(1)] q(1)
      by (simp add: is_pos_def)
    ultimately show ?thesis
      using gr q True by (auto simp: conf entry_def is_gateway_def s1_def)
  qed
qed

text \<open>
  A call that fails for want of an address has seen every address of the set taken.
\<close>

lemma Get_exhausted:
  assumes ok: "set_ok (al_rangeset a)" and s: "inv s"
    and wrap: "\<And>p. last_pos (al_rangeset a) (fst (st_LastReservedIP S (al_rangeID a) (snd (st_Lock S s)))) = Some p
      \<Longrightarrow> fst (next_pos (al_rangeset a) p) = fst p"
    and rid: "ok cid \<and> ok (al_rangeID a)" and total: "\<And>ip rid t. inv t \<Longrightarrow> \<exists>b. fst (st_Reserve S cid ip rid t) = Inr b"
    and free: "is_pos (al_rangeset a) q" "\<not> is_gateway (al_rangeset a) q"
      "used (snd (st_Lock S s)) (ip_String (addr_at (al_rangeset a) q)) = None"
  shows "\<exists>conf s'. IPAllocator_Get S a cid [] s = Some (Ret conf, s')"
proof -
  let ?rs = "al_rangeset a"
  define s1 where "s1 = snd (st_Lock S s)"
  have s1: "inv s1" using lock_inv [OF s] by (simp add: s1_def)
  obtain lst s2 where l: "st_LastReservedIP S (al_rangeID a) s1 = (lst, s2)"
    by (cases "st_LastReservedIP S (al_rangeID a) s1")
  have s2: "inv s2" "used s2 = used s1"
    using last_inv [OF s1, of "al_rangeID a"] last_same [OF s1, of "al_rangeID a"] l by auto
  let ?es = "candidates ?rs (try_order ?rs lst)"
  obtain res s3 where r: "reserve_first S cid (al_rangeID a) ?es s2 = (res, s3)"
    by (cases "reserve_first S cid (al_rangeID a) ?es s2")
  have no_error: "\<exists>x. fst (reserve_first S cid rid es t) = Inr x" if "inv t" "ok cid \<and> ok rid" for rid es t
    using that(1)
  proof (induction es arbitrary: t)
    case (Cons e es)
    obtain b u where "st_Reserve S cid (IP (fst e)) rid t = (Inr b, u)"
      using total [OF Cons.prems, of "IP (fst e)" rid] by (metis prod.collapse)
    moreover from this have "inv u"
      using reserve_inv [OF Cons.prems that(2), of "IP (fst e)"] by simp
    ultimately show ?case using Cons.IH [of u] by (cases b) auto
  qed simp
  have "set (try_order ?rs lst) = set (ring ?rs)"
  proof (cases "last_pos ?rs lst")
    case (Some p)
    then obtain ip where "lst = Inr ip" by (cases lst) (auto simp: last_pos_def)
    with Some have "is_pos ?rs p" using last_pos_Some(1) [OF ok] by simp
    with Some show ?thesis using order_after_props(3) [OF ok] by (simp add: try_order_def)
  qed (simp add: try_order_def)
  then have "q \<in> set (try_order ?rs lst)"
    using free(1) by (simp add: set_ring)
  then have "entry ?rs q \<in> set ?es"
    using free(2) by (simp add: candidates_def)
  moreover have "used s2 (key_of (entry ?rs q)) = None"
    using free(3) s2 by (simp add: key_of_def entry_def s1_def)
  ultimately have "res \<noteq> Inr None"
    using reserve_first_exhausted [OF s2(1) rid] r by force
  moreover have "\<exists>x. res = Inr x" using no_error [OF s2(1) rid] r by (metis fst_conv)
  ultimately obtain n gw where "res = Inr (Some (n, gw))" by (metis option.exhaust prod.exhaust)
  then have "\<exists>conf s'. Get_reference S a cid s = (Ret conf, s')"
    using l r by (simp add: Get_reference_def s1_def [symmetric] get_finish_def Let_def)
  moreover have "IPAllocator_Get S a cid [] s = Some (Get_reference S a cid s)"
    by (rule IPAllocator_Get_reference [OF ok]) (rule wrap)
  ultimately show ?thesis by simp
qed

lemma Release_ok:
  assumes "inv s" "ok cid" "IPAllocator_Release S a cid s = (None, s')"
  shows "used s' = (\<lambda>k. if used (snd (st_Lock S s)) k = Some (owner cid) then None else used (snd (st_Lock S s)) k)"
proof -
  obtain e t where "st_ReleaseByID S cid (snd (st_Lock S s)) = (e, t)"
    by (cases "st_ReleaseByID S cid (snd (st_Lock S s))")
  moreover have "inv (snd (st_Lock S s))" using lock_inv assms(1) by simp
  ultimately show ?thesis
    using assms(2,3) release_ok [of "snd (st_Lock S s)" cid t] release_inv [of "snd (st_Lock S s)" cid]
    by (auto simp: IPAllocator_Release_def Let_def unlock_used)
qed

section \<open>A round that never ends\<close>

text \<open>
  When the last reserved address is the end of a range and the next range is another one,
  the end of the round is never recognised: the iterator remembers the old range's index
  with the new range's first address. If then every address is taken, \<open>Get\<close> does not
  return.
\<close>

lemma get_loop_diverges:
  assumes ok: "set_ok rs" and mismatch: "is_pos rs b" "fst b \<noteq> k"
    and taken: "\<And>t ip rid. inv t \<Longrightarrow> used t (ip_String ip) \<noteq> None \<Longrightarrow> fst (st_Reserve S cid ip rid t) = Inr False"
    and all: "\<And>q. is_pos rs q \<Longrightarrow> \<not> is_gateway rs q \<Longrightarrow> used s (ip_String (addr_at rs q)) \<noteq> None"
    and st: "inv s" "\<exists>p. at_pos rs i p" "startRange i = k" "startIP i = addr_at rs b" and rid: "ok cid \<and> ok rid"
  shows "get_loop S cid rid i s = None"
proof (rule ccontr)
  let ?I = "\<lambda>i. (\<exists>p. at_pos rs i p) \<and> startRange i = k \<and> startIP i = addr_at rs b"
  have adv: "\<not> over \<and> ?I j \<and> (\<exists>q. at_pos rs j q \<and> cur j = addr_at rs q)"
    if I: "?I i" and a: "iter_advance i = (j, over)" for i j over
  proof -
    obtain p where p: "at_pos rs i p" using I by blast
    note ap = iter_advance_pos [OF ok p a]
    have q: "is_pos rs (next_pos rs p)" using ap(1) by (simp add: at_pos_def)
    have "addr_at rs b \<noteq> []" using pos_props(6) [OF ok mismatch(1)] canonical_not_Nil by auto
    then have j: "startIP j = addr_at rs b"
      "over \<longleftrightarrow> fst (next_pos rs p) = k \<and> ip_Equal (addr_at rs (next_pos rs p)) (addr_at rs b)"
      using ap(5) I by auto
    have "ip_Equal (addr_at rs (next_pos rs p)) (addr_at rs b) \<longleftrightarrow> next_pos rs p = b"
      using ip_Equal_canonical [OF pos_props(6) [OF ok q] pos_props(6) [OF ok mismatch(1)]]
        addr_at_inject [OF ok q mismatch(1)] by simp
    then have "\<not> over" using j(2) mismatch(2) by auto
    moreover have "startRange j = k" using ap(3) I by simp
    ultimately show ?thesis using j(1) ap(1,2) by blast
  qed
  have nxt: "?I i \<longrightarrow> ?I (fst r) \<and> (\<exists>e. snd r = Some e \<and> offered rs e)" if "iter_Next i = Some r" for i r
  proof (rule iter_Next.raw_induct [where P = "\<lambda>i r. ?I i \<longrightarrow> ?I (fst r) \<and> (\<exists>e. snd r = Some e \<and> offered rs e)", OF _ that])
    fix f i r
    assume IH: "\<And>i r. f i = Some r \<Longrightarrow> ?I i \<longrightarrow> ?I (fst r) \<and> (\<exists>e. snd r = Some e \<and> offered rs e)"
      and eq: "(case iter_advance i of (i, over) \<Rightarrow> if over then Some (i, None)
        else let r = cur_range i in if ip_Equal (cur i) (Gateway r) then f i
          else Some (i, Some (\<lparr>IP = cur i, Mask = Mask (Subnet r)\<rparr>, Gateway r))) = Some r"
    show "?I i \<longrightarrow> ?I (fst r) \<and> (\<exists>e. snd r = Some e \<and> offered rs e)"
    proof
      assume I: "?I i"
      obtain j over where a: "iter_advance i = (j, over)" by (cases "iter_advance i")
      obtain q where j: "\<not> over" "?I j" "at_pos rs j q" "cur j = addr_at rs q"
        using adv [OF I a] by blast
      have cr: "cur_range j = rs ! fst q" "is_pos rs q" using j(3) by (auto simp: at_pos_def cur_range_def)
      have "(if is_gateway rs q then f j else Some (j, Some (entry rs q))) = Some r"
        using eq j(1) unfolding a prod.case Let_def cr(1) j(4) is_gateway_def entry_def by simp
      then consider "f j = Some r" | "r = (j, Some (entry rs q))" "\<not> is_gateway rs q"
        by (cases "is_gateway rs q") simp_all
      then show "?I (fst r) \<and> (\<exists>e. snd r = Some e \<and> offered rs e)"
      proof cases
        case 1
        from IH [OF 1] j(2) show ?thesis by simp
      next
        case 2
        then have "offered rs (entry rs q)" using cr(2) unfolding offered_def by blast
        with 2 j(2) show ?thesis by simp
      qed
    qed
  qed
  let ?T = "\<lambda>s. inv s \<and> (\<forall>e. offered rs e \<longrightarrow> used s (key_of e) \<noteq> None)"
  assume "get_loop S cid rid i s \<noteq> None"
  then obtain r where r: "get_loop S cid rid i s = Some r" by auto
  let ?P = "\<lambda>S' c rid i s (r :: (go_error + (ip_net \<times> net_ip) option) \<times> 's).
    \<not> (S' = S \<and> c = cid \<and> ok cid \<and> ok rid \<and> ?I i \<and> ?T s)"
  have "?P S cid rid i s r"
  proof (rule get_loop.raw_induct [where P = ?P, OF _ r])
    fix f S' c rid i s r
    assume IH: "\<And>S' c rid i s r. f S' c rid i s = Some r \<Longrightarrow> ?P S' c rid i s r"
      and eq: "Option.bind (iter_Next i) (\<lambda>(iter, res). case res of None \<Rightarrow> Some (Inr None, s)
        | Some (n, gw) \<Rightarrow> (case st_Reserve S' c (IP n) rid s of (r, s) \<Rightarrow> (case r of Inl e \<Rightarrow> Some (Inl e, s)
          | Inr reserved \<Rightarrow> if reserved then Some (Inr (Some (n, gw)), s) else f S' c rid iter s))) = Some r"
    show "?P S' c rid i s r"
    proof
      assume H: "S' = S \<and> c = cid \<and> ok cid \<and> ok rid \<and> ?I i \<and> ?T s"
      then have S: "S' = S" "c = cid" "ok cid \<and> ok rid" and I: "?I i" and T: "?T s" by blast+
      obtain j res where nx: "iter_Next i = Some (j, res)"
        using eq by (cases "iter_Next i") auto
      obtain e where e: "?I j" "res = Some e" "offered rs e"
        using nxt [OF nx] I by auto
      obtain n gw where x: "e = (n, gw)" by (cases e)
      obtain b t where b: "st_Reserve S cid (IP n) rid s = (b, t)"
        by (cases "st_Reserve S cid (IP n) rid s")
      have used: "used s (ip_String (IP n)) \<noteq> None"
        using T e(3) x by (auto simp: key_of_def)
      then have bF: "b = Inr False" using taken [of s "IP n" rid] T b by simp
      then have "f S cid rid j t = Some r"
        using eq nx e(2) x b S by simp
      moreover have "?T t"
        using T S(3) reserve_inv [of s cid rid "IP n"] reserve_False [of s cid "IP n" rid t] b bF by auto
      ultimately show False
        using IH [of S cid rid j t r] S(3) e(1) by blast
    qed
  qed
  moreover have "?T s"
    using st(1) all by (auto simp: offered_def key_of_def entry_def)
  ultimately show False
    using st rid by blast
qed

text \<open>The first step of a round that starts after the last address of a range.\<close>

lemma get_loop_diverges_start:
  assumes ok: "set_ok rs" and at: "at_pos rs i p" "startIP i = []" "startRange i = fst p"
    and mismatch: "fst (next_pos rs p) \<noteq> fst p"
    and taken: "\<And>t ip rid. inv t \<Longrightarrow> used t (ip_String ip) \<noteq> None \<Longrightarrow> fst (st_Reserve S cid ip rid t) = Inr False"
    and all: "\<And>q. is_pos rs q \<Longrightarrow> \<not> is_gateway rs q \<Longrightarrow> used s (ip_String (addr_at rs q)) \<noteq> None"
    and st: "inv s" and rid: "ok cid \<and> ok rid"
  shows "get_loop S cid rid i s = None"
proof -
  let ?q = "next_pos rs p"
  obtain j over where a: "iter_advance i = (j, over)" by (cases "iter_advance i")
  have j: "at_pos rs j ?q" "startRange j = fst p" "startIP j = addr_at rs ?q" "\<not> over"
    using iter_advance_pos [OF ok at(1) a] at(2,3) by simp_all
  have q: "is_pos rs ?q" using j(1) by (simp add: at_pos_def)
  have div: "get_loop S cid rid j t = None"
    if "inv t" "used t = used s" for t
  proof (rule get_loop_diverges [OF ok q mismatch _ _ that(1) _ j(2,3) rid])
    show "\<And>t ip rid. inv t \<Longrightarrow> used t (ip_String ip) \<noteq> None \<Longrightarrow> fst (st_Reserve S cid ip rid t) = Inr False"
      by (rule taken)
    show "\<And>q. is_pos rs q \<Longrightarrow> \<not> is_gateway rs q \<Longrightarrow> used t (ip_String (addr_at rs q)) \<noteq> None"
      unfolding that(2) by (rule all)
    show "\<exists>p. at_pos rs j p" using j(1) by blast
  qed
  show ?thesis
  proof (cases "is_gateway rs ?q")
    case True
    then have "iter_Next i = iter_Next j"
      using iter_Next_unfold [OF ok at(1) a] j(4) by simp
    then have "get_loop S cid rid i s = get_loop S cid rid j s" by (rule get_loop_cong)
    with div [OF st refl] show ?thesis by simp
  next
    case False
    then have nx: "iter_Next i = Some (j, Some (entry rs ?q))"
      using iter_Next_unfold [OF ok at(1) a] j(4) by simp
    let ?ip = "addr_at rs ?q"
    obtain r t where r: "st_Reserve S cid ?ip rid s = (r, t)" by (cases "st_Reserve S cid ?ip rid s")
    have rF: "r = Inr False" using taken [OF st all [OF q False], of rid] r by simp
    then have "inv t" "used t = used s"
      using reserve_inv [OF st rid, of ?ip] reserve_False [OF st] r by auto
    with div have "get_loop S cid rid j t = None" by blast
    with nx r rF show ?thesis
      by (subst get_loop.simps) (simp add: entry_def)
  qed
qed

lemma Get_never_returns:
  assumes ok: "set_ok (al_rangeset a)"
    and lst: "last_pos (al_rangeset a) (fst (st_LastReservedIP S (al_rangeID a) (snd (st_Lock S s)))) = Some p"
    and mismatch: "fst (next_pos (al_rangeset a) p) \<noteq> fst p"
    and taken: "\<And>t ip rid. inv t \<Longrightarrow> used t (ip_String ip) \<noteq> None \<Longrightarrow> fst (st_Reserve S cid ip rid t) = Inr False"
    and all: "\<And>q. is_pos (al_rangeset a) q \<Longrightarrow> \<not> is_gateway (al_rangeset a) q \<Longrightarrow>
      used (snd (st_Lock S s)) (ip_String (addr_at (al_rangeset a) q)) \<noteq> None"
    and st: "inv s" and rid: "ok cid \<and> ok (al_rangeID a)"
  shows "IPAllocator_Get S a cid [] s = None"
proof -
  let ?rs = "al_rangeset a"
  define s1 where "s1 = snd (st_Lock S s)"
  have s1: "inv s1" using lock_inv [OF st] by (simp add: s1_def)
  obtain r s2 where l: "st_LastReservedIP S (al_rangeID a) s1 = (r, s2)"
    by (cases "st_LastReservedIP S (al_rangeID a) s1")
  have s2: "inv s2" "used s2 = used s1"
    using last_inv [OF s1, of "al_rangeID a"] last_same [OF s1, of "al_rangeID a"] l by auto
  have lp: "last_pos ?rs r = Some p" using lst l by (simp add: s1_def)
  then obtain ip where ip: "r = Inr ip" by (cases r) (auto simp: last_pos_def)
  note pp = last_pos_Some [OF ok lp [unfolded ip]]
  let ?i = "\<lparr>rangeset = ?rs, rangeIdx = fst p, cur = ip, startIP = [], startRange = fst p\<rparr>"
  have g: "GetIter S a s1 = (Ret ?i, s2)"
    using pp by (simp add: GetIter_def l ip Let_def)
  have "at_pos ?rs ?i p" using pp by (simp add: at_pos_def)
  moreover have "used s2 (ip_String (addr_at ?rs q)) \<noteq> None" if "is_pos ?rs q" "\<not> is_gateway ?rs q" for q
    using all [OF that] s2 by (simp add: s1_def)
  ultimately have "get_loop S cid (al_rangeID a) ?i s2 = None"
    using get_loop_diverges_start [OF ok, of ?i p cid s2] mismatch taken s2(1) rid by simp
  with g show ?thesis by (simp add: IPAllocator_Get_def s1_def [symmetric] Let_def)
qed

end

end
