(* ===== verification/Etcd.thy ===== *)
theory Etcd
  imports Allocator "HOL-Library.AList"
begin

text \<open>
  The store on etcd (\<open>backend/etcd/backend.go\<close>, \<open>backend/etcd/utils.go\<close>). The etcd client
  library is not part of the repository: it is the record \<open>'e etcd\<close> of the calls the code
  makes, on the state \<open>'e\<close> of the cluster, and the locale \<open>etcd_client\<close> states the documented
  behaviour the code relies on. Keys attached to a lease may disappear between any two calls;
  the map \<open>durable\<close> of the other keys changes only as the calls say. The locale
  \<open>etcd_network\<close> shows that the operations of \<open>Store\<close> keep the promises of \<open>ip_store\<close>.
\<close>

section \<open>The client library\<close>

text \<open>
  \<open>ec_Get\<close> and \<open>ec_GetPrefix\<close> return the key-value pairs (\<open>resp.Kvs\<close>; \<open>resp.Count\<close> is
  their number); \<open>ec_PutIfAbsent\<close> is the transaction of \<open>Lock\<close> (put with a lease if the
  key has no create revision), with \<open>txnResp.Succeeded\<close>; \<open>ec_Sleep\<close> is \<open>time.Sleep\<close> in
  seconds, during which the rest of the cluster runs.
\<close>

record 'e etcd =
  ec_Get :: "string \<Rightarrow> 'e \<Rightarrow> (go_error + (string \<times> string) list) \<times> 'e"
  ec_GetPrefix :: "string \<Rightarrow> 'e \<Rightarrow> (go_error + (string \<times> string) list) \<times> 'e"
  ec_Put :: "string \<Rightarrow> string \<Rightarrow> 'e \<Rightarrow> go_error option \<times> 'e"
  ec_Delete :: "string \<Rightarrow> 'e \<Rightarrow> go_error option \<times> 'e"
  ec_Grant :: "int \<Rightarrow> 'e \<Rightarrow> (go_error + int) \<times> 'e"
  ec_PutIfAbsent :: "string \<Rightarrow> string \<Rightarrow> int \<Rightarrow> 'e \<Rightarrow> (go_error + bool) \<times> 'e"
  ec_Revoke :: "int \<Rightarrow> 'e \<Rightarrow> go_error option \<times> 'e"
  ec_Sleep :: "nat \<Rightarrow> 'e \<Rightarrow> 'e"

section \<open>backend/etcd/backend.go\<close>

text \<open>\<open>const ETCDPrefix\<close>\<close>

definition ETCDPrefix :: string where
  "ETCDPrefix = ''/etcd-cni/networks/''"

text \<open>
  The keys of a store with prefix \<open>P\<close>: one per used address, one per range for the last
  reserved address, and the lock.
\<close>

definition used_key :: "string \<Rightarrow> string \<Rightarrow> string" where
  "used_key P x = (P @ ''/used/'') @ x"

definition last_key :: "string \<Rightarrow> string \<Rightarrow> string" where
  "last_key P rid = P @ ''/lastReserved/'' @ rid"

definition lock_key :: "string \<Rightarrow> string" where
  "lock_key P = P @ ''/lock''"

definition etcd_Reserve ::
  "'e etcd \<Rightarrow> string \<Rightarrow> string \<Rightarrow> net_ip \<Rightarrow> string \<Rightarrow> 'e \<Rightarrow> (go_error + bool) \<times> 'e" where
  "etcd_Reserve E P cid ip rid e =
     (let key = used_key P (ip_String ip);
          (resp, e) = ec_Get E key e
      in case resp of Inl err \<Rightarrow> (Inl err, e)
         | Inr kvs \<Rightarrow>
             if length kvs > 0 then (Inr False, e)
             else (let (err, e) = ec_Put E key cid e
               in case err of Some err \<Rightarrow> (Inl err, e)
                  | None \<Rightarrow>
                      (let (err, e) = ec_Put E (last_key P rid) (ip_String ip) e
                       in case err of Some err \<Rightarrow> (Inl err, e) | None \<Rightarrow> (Inr True, e))))"

definition etcd_LastReservedIP ::
  "'e etcd \<Rightarrow> string \<Rightarrow> string \<Rightarrow> 'e \<Rightarrow> (go_error + net_ip) \<times> 'e" where
  "etcd_LastReservedIP E P rid e =
     (let (resp, e) = ec_Get E (last_key P rid) e
      in case resp of Inl err \<Rightarrow> (Inl err, e)
         | Inr [] \<Rightarrow> (Inl (Msg ''Can not find last reserved ip''), e)
         | Inr (kv # _) \<Rightarrow> (Inr (ParseIP (snd kv)), e))"

definition etcd_Release :: "'e etcd \<Rightarrow> string \<Rightarrow> net_ip \<Rightarrow> 'e \<Rightarrow> go_error option \<times> 'e" where
  "etcd_Release E P ip e = ec_Delete E (used_key P (ip_String ip)) e"

text \<open>The loop of \<open>ReleaseByID\<close> over the pairs found; it stops at the first error.\<close>

fun delete_owned ::
  "'e etcd \<Rightarrow> string \<Rightarrow> (string \<times> string) list \<Rightarrow> 'e \<Rightarrow> go_error option \<times> 'e" where
  "delete_owned E cid [] e = (None, e)"
| "delete_owned E cid ((k, v) # kvs) e =
     (if v = cid then
        (case ec_Delete E k e of
           (Some err, e) \<Rightarrow> (Some err, e)
         | (None, e) \<Rightarrow> delete_owned E cid kvs e)
      else delete_owned E cid kvs e)"

definition etcd_ReleaseByID :: "'e etcd \<Rightarrow> string \<Rightarrow> string \<Rightarrow> 'e \<Rightarrow> go_error option \<times> 'e" where
  "etcd_ReleaseByID E P cid e =
     (let (resp, e) = ec_GetPrefix E (used_key P []) e
      in case resp of Inl err \<Rightarrow> (Some err, e)
         | Inr kvs \<Rightarrow> if length kvs > 0 then delete_owned E cid kvs e else (None, e))"

definition etcd_Close :: "'e \<Rightarrow> go_error option \<times> 'e" where
  "etcd_Close e = (None, e)"

text \<open>The loop of \<open>Lock\<close> with \<open>n\<close> tries left.\<close>

fun lock_loop :: "'e etcd \<Rightarrow> string \<Rightarrow> nat \<Rightarrow> 'e \<Rightarrow> go_error option \<times> 'e" where
  "lock_loop E P 0 e = (Some (Msg ''Can not get lock''), e)"
| "lock_loop E P (Suc n) e =
     (case ec_Grant E 10 e of
        (Inl err, e) \<Rightarrow> (Some err, e)
      | (Inr leaseId, e) \<Rightarrow>
          (case ec_PutIfAbsent E (lock_key P) (Itoa leaseId) leaseId e of
             (Inl err, e) \<Rightarrow> (Some err, e)
           | (Inr True, e) \<Rightarrow> (None, e)
           | (Inr False, e) \<Rightarrow> lock_loop E P n (ec_Sleep E 2 e)))"

definition etcd_Lock :: "'e etcd \<Rightarrow> string \<Rightarrow> 'e \<Rightarrow> go_error option \<times> 'e" where
  "etcd_Lock E P e = lock_loop E P 20 e"

text \<open>The text of the error of \<open>strconv.ParseInt\<close> is left out, only its kind is kept.\<close>

definition etcd_Unlock :: "'e etcd \<Rightarrow> string \<Rightarrow> 'e \<Rightarrow> go_error option \<times> 'e" where
  "etcd_Unlock E P e =
     (let (resp, e) = ec_Get E (lock_key P) e
      in case resp of Inl err \<Rightarrow> (Some err, e)
         | Inr [] \<Rightarrow> (None, e)
         | Inr (kv # _) \<Rightarrow>
             (let (leaseId, bad) = Atoi (snd kv)
              in if bad then (Some (Msg ''strconv.ParseInt''), e)
                 else (None, snd (ec_Revoke E leaseId e))))"

text \<open>\<open>var _ backend.Store = &Store{}\<close>\<close>

definition etcd_store :: "'e etcd \<Rightarrow> string \<Rightarrow> 'e store" where
  "etcd_store E P =
     \<lparr>st_Lock = etcd_Lock E P, st_Unlock = etcd_Unlock E P, st_Close = etcd_Close,
      st_Reserve = etcd_Reserve E P, st_LastReservedIP = etcd_LastReservedIP E P,
      st_Release = etcd_Release E P, st_ReleaseByID = etcd_ReleaseByID E P\<rparr>"

text \<open>
  \<open>initStore\<close> writes the network's configuration and returns the key prefix; a failed write
  panics. \<open>New\<close> connects first (\<open>conn\<close> is the result of \<open>clientv3.New\<close>) and panics when
  that fails. The JSON text of the ranges (\<open>netConfigJson\<close>) is the argument \<open>netConfig\<close>: the
  code never reads it back.
\<close>

definition initStore :: "'e etcd \<Rightarrow> string \<Rightarrow> string \<Rightarrow> 'e \<Rightarrow> string outcome \<times> 'e" where
  "initStore E name netConfig e =
     (let key = ETCDPrefix @ name;
          (err, e) = ec_Put E key netConfig e
      in case err of Some err \<Rightarrow> (Panic (err_text err), e) | None \<Rightarrow> (Ret key, e))"

definition etcd_New ::
  "(go_error + 'e etcd) \<Rightarrow> string \<Rightarrow> string \<Rightarrow> 'e \<Rightarrow> 'e store outcome \<times> 'e" where
  "etcd_New conn name netConfig e =
     (case conn of Inl err \<Rightarrow> (Panic (err_text err), e)
      | Inr E \<Rightarrow>
          (case initStore E name netConfig e of
             (Ret etcdKeyPrefix, e) \<Rightarrow> (Ret (etcd_store E etcdKeyPrefix), e)
           | (Fail err, e) \<Rightarrow> (Ret (etcd_store E []), e)
           | (Panic m, e) \<Rightarrow> (Panic m, e)))"

section \<open>backend/etcd/utils.go\<close>

text \<open>
  The configuration passed to \<open>clientv3.New\<close>: end points, dial timeout in seconds, and the
  TLS files when the URL starts with \<open>https\<close>. Loading the files (\<open>tlsInfo.ClientConfig\<close>) and
  the connection itself are the arguments \<open>client_config\<close> and \<open>new\<close>.
\<close>

record etcd_conf =
  EtcdURL :: string
  EtcdCertFile :: string
  EtcdKeyFile :: string
  EtcdTrustedCAFileFile :: string

record 't client_conf =
  Endpoints :: "string list"
  DialTimeout :: nat
  TLS :: "'t option"

definition connectWithoutTLS :: "('t client_conf \<Rightarrow> go_error + 'c) \<Rightarrow> string \<Rightarrow> go_error + 'c" where
  "connectWithoutTLS new url =
     new \<lparr>Endpoints = split_on (CHR '','') url, DialTimeout = 5, TLS = None\<rparr>"

definition connectWithTLS ::
  "(string \<Rightarrow> string \<Rightarrow> string \<Rightarrow> go_error + 't) \<Rightarrow> ('t client_conf \<Rightarrow> go_error + 'c) \<Rightarrow>
   string \<Rightarrow> string \<Rightarrow> string \<Rightarrow> string \<Rightarrow> go_error + 'c" where
  "connectWithTLS client_config new url cert key trusted =
     (case client_config cert key trusted of
        Inl err \<Rightarrow> Inl err
      | Inr tlsConfig \<Rightarrow>
          new \<lparr>Endpoints = split_on (CHR '','') url, DialTimeout = 5, TLS = Some tlsConfig\<rparr>)"

definition connectStore ::
  "(string \<Rightarrow> string \<Rightarrow> string \<Rightarrow> go_error + 't) \<Rightarrow> ('t client_conf \<Rightarrow> go_error + 'c) \<Rightarrow>
   etcd_conf \<Rightarrow> go_error + 'c" where
  "connectStore client_config new c =
     (if has_prefix (EtcdURL c) ''https''
      then connectWithTLS client_config new (EtcdURL c) (EtcdCertFile c) (EtcdKeyFile c) (EtcdTrustedCAFileFile c)
      else connectWithoutTLS new (EtcdURL c))"

section \<open>What the client library promises\<close>

text \<open>
  \<open>kvs\<close> is the key space of the cluster and \<open>leased\<close> the lease a key is attached to.
\<close>

definition durable :: "('e \<Rightarrow> string \<rightharpoonup> string) \<Rightarrow> ('e \<Rightarrow> string \<rightharpoonup> int) \<Rightarrow> 'e \<Rightarrow> string \<rightharpoonup> string" where
  "durable kvs leased e = (\<lambda>k. if leased e k = None then kvs e k else None)"

text \<open>A lock key of some network whose name has no slash.\<close>

definition is_lock_key :: "string \<Rightarrow> bool" where
  "is_lock_key k \<longleftrightarrow> (\<exists>n. CHR ''/'' \<notin> set n \<and> k = lock_key (ETCDPrefix @ n))"

locale etcd_client =
  fixes E :: "'e etcd"
    and kvs :: "'e \<Rightarrow> string \<rightharpoonup> string"
    and leased :: "'e \<Rightarrow> string \<rightharpoonup> int"
  assumes get_keeps: "durable kvs leased (snd (ec_Get E k e)) = durable kvs leased e"
    and get_leases: "dom (leased (snd (ec_Get E k e))) \<subseteq> dom (leased e)"
    and get_value: "ec_Get E k e = (Inr l, e') \<Longrightarrow> leased e k = None \<Longrightarrow>
      l = (case kvs e k of None \<Rightarrow> [] | Some v \<Rightarrow> [(k, v)])"
    and prefix_keeps: "durable kvs leased (snd (ec_GetPrefix E k e)) = durable kvs leased e"
    and prefix_leases: "dom (leased (snd (ec_GetPrefix E k e))) \<subseteq> dom (leased e)"
    and prefix_value: "ec_GetPrefix E p e = (Inr l, e') \<Longrightarrow>
      \<forall>k. has_prefix k p \<longrightarrow> leased e k = None \<Longrightarrow>
      set l = {(k, v). has_prefix k p \<and> kvs e k = Some v}"
    and put_ok: "ec_Put E k v e = (None, e') \<Longrightarrow>
      durable kvs leased e' = (durable kvs leased e)(k \<mapsto> v) \<and> dom (leased e') \<subseteq> dom (leased e)"
    and put_error: "ec_Put E k v e = (Some err, e') \<Longrightarrow>
      (durable kvs leased e' = durable kvs leased e \<or>
       durable kvs leased e' = (durable kvs leased e)(k \<mapsto> v)) \<and> dom (leased e') \<subseteq> dom (leased e)"
    and delete_ok: "ec_Delete E k e = (None, e') \<Longrightarrow>
      durable kvs leased e' = (durable kvs leased e)(k := None) \<and> dom (leased e') \<subseteq> dom (leased e)"
    and delete_error: "ec_Delete E k e = (Some err, e') \<Longrightarrow>
      (durable kvs leased e' = durable kvs leased e \<or>
       durable kvs leased e' = (durable kvs leased e)(k := None)) \<and> dom (leased e') \<subseteq> dom (leased e)"
    and grant_keeps: "durable kvs leased (snd (ec_Grant E ttl e)) = durable kvs leased e"
    and grant_leases: "dom (leased (snd (ec_Grant E ttl e))) \<subseteq> dom (leased e)"
    and txn_leases: "dom (leased (snd (ec_PutIfAbsent E k v lid e))) \<subseteq> insert k (dom (leased e))"
    and txn_ok: "ec_PutIfAbsent E k v lid e = (Inr True, e') \<Longrightarrow>
      durable kvs leased e k = None \<and> kvs e' k = Some v \<and> leased e' k = Some lid"
    and revoke_keeps: "durable kvs leased (snd (ec_Revoke E lid e)) = durable kvs leased e"
    and revoke_leases: "dom (leased (snd (ec_Revoke E lid e))) \<subseteq> dom (leased e)"
    and sleep_leases: "k \<in> dom (leased (ec_Sleep E n e)) \<Longrightarrow> k \<in> dom (leased e) \<or> is_lock_key k"

section \<open>The store keeps its promises\<close>

definition etcd_inv :: "('e \<Rightarrow> string \<rightharpoonup> int) \<Rightarrow> string \<Rightarrow> 'e \<Rightarrow> bool" where
  "etcd_inv leased P e \<longleftrightarrow>
     (\<forall>x. leased e (used_key P x) = None \<and> leased e (last_key P x) = None)"

definition etcd_used ::
  "('e \<Rightarrow> string \<rightharpoonup> string) \<Rightarrow> ('e \<Rightarrow> string \<rightharpoonup> int) \<Rightarrow> string \<Rightarrow> 'e \<Rightarrow> string \<rightharpoonup> string" where
  "etcd_used kvs leased P e = (\<lambda>x. durable kvs leased e (used_key P x))"

definition etcd_last ::
  "('e \<Rightarrow> string \<rightharpoonup> string) \<Rightarrow> ('e \<Rightarrow> string \<rightharpoonup> int) \<Rightarrow> string \<Rightarrow> 'e \<Rightarrow> string \<rightharpoonup> string" where
  "etcd_last kvs leased P e = (\<lambda>x. durable kvs leased e (last_key P x))"

lemma key_simps [simp]:
  "used_key P x = used_key P y \<longleftrightarrow> x = y"
  "last_key P x = last_key P y \<longleftrightarrow> x = y"
  "used_key P x \<noteq> last_key P y" "last_key P x \<noteq> used_key P y"
  "used_key P x \<noteq> lock_key P" "last_key P x \<noteq> lock_key P"
  "has_prefix (used_key P x) (used_key P [])"
  by (simp_all add: used_key_def last_key_def lock_key_def has_prefix_def)

lemma has_prefix_used_key: "has_prefix k (used_key P []) \<longleftrightarrow> (\<exists>x. k = used_key P x)"
  by (auto simp: has_prefix_iff used_key_def)

lemma append_slash_inject:
  "CHR ''/'' \<notin> set m \<Longrightarrow> CHR ''/'' \<notin> set u \<Longrightarrow>
    n @ CHR ''/'' # u @ CHR ''/'' # x = m @ CHR ''/'' # v \<Longrightarrow> CHR ''/'' \<in> set v"
proof (induction n arbitrary: m)
  case Nil
  then show ?case by (cases m) auto
next
  case (Cons c n)
  then show ?case by (cases m) auto
qed

text \<open>No key of reservations is the lock of a network.\<close>

lemma not_lock_key:
  "\<not> is_lock_key (used_key (ETCDPrefix @ n) x)" "\<not> is_lock_key (last_key (ETCDPrefix @ n) x)"
  using append_slash_inject [of _ "''used''" n x "''lock''"]
    append_slash_inject [of _ "''lastReserved''" n x "''lock''"]
  by (auto simp: is_lock_key_def used_key_def last_key_def lock_key_def)

text \<open>The network \<open>name\<close> on a cluster.\<close>

locale etcd_network = etcd_client E kvs leased
  for E :: "'e etcd" and kvs :: "'e \<Rightarrow> string \<rightharpoonup> string" and leased :: "'e \<Rightarrow> string \<rightharpoonup> int" +
  fixes P name :: string
  assumes prefix: "P = ETCDPrefix @ name"
begin

lemma inv_mono: "etcd_inv leased P e \<Longrightarrow> dom (leased e') \<subseteq> dom (leased e) \<Longrightarrow> etcd_inv leased P e'"
  unfolding etcd_inv_def by blast

lemma inv_insert:
  "etcd_inv leased P e \<Longrightarrow> dom (leased e') \<subseteq> insert (lock_key P) (dom (leased e)) \<Longrightarrow> etcd_inv leased P e'"
  unfolding etcd_inv_def using key_simps(5,6) by blast

lemma inv_sleep: "etcd_inv leased P e \<Longrightarrow> etcd_inv leased P (ec_Sleep E n e)"
  unfolding etcd_inv_def prefix using sleep_leases not_lock_key by blast

lemma used_lookup: "etcd_inv leased P e \<Longrightarrow> kvs e (used_key P x) = etcd_used kvs leased P e x"
  by (simp add: etcd_inv_def etcd_used_def durable_def)

lemma last_lookup: "etcd_inv leased P e \<Longrightarrow> kvs e (last_key P x) = etcd_last kvs leased P e x"
  by (simp add: etcd_inv_def etcd_last_def durable_def)

lemma durable_views:
  "durable kvs leased e' = durable kvs leased e \<Longrightarrow>
    etcd_used kvs leased P e' = etcd_used kvs leased P e \<and> etcd_last kvs leased P e' = etcd_last kvs leased P e"
  "durable kvs leased e' = (durable kvs leased e)(used_key P x \<mapsto> v) \<Longrightarrow>
    etcd_used kvs leased P e' = (etcd_used kvs leased P e)(x \<mapsto> v) \<and>
    etcd_last kvs leased P e' = etcd_last kvs leased P e"
  "durable kvs leased e' = (durable kvs leased e)(used_key P x := None) \<Longrightarrow>
    etcd_used kvs leased P e' = (etcd_used kvs leased P e)(x := None) \<and>
    etcd_last kvs leased P e' = etcd_last kvs leased P e"
  "durable kvs leased e' = (durable kvs leased e)(last_key P x \<mapsto> v) \<Longrightarrow>
    etcd_used kvs leased P e' = etcd_used kvs leased P e \<and>
    etcd_last kvs leased P e' = (etcd_last kvs leased P e)(x \<mapsto> v)"
  by (simp_all add: etcd_used_def etcd_last_def fun_eq_iff)

lemma lock_loop_inv: "etcd_inv leased P e \<Longrightarrow> etcd_inv leased P (snd (lock_loop E P n e))"
proof (induction n arbitrary: e)
  case (Suc n)
  obtain r e1 where g: "ec_Grant E 10 e = (r, e1)" by (cases "ec_Grant E 10 e")
  have e1: "etcd_inv leased P e1"
    using inv_mono [OF Suc.prems] grant_leases [of 10 e] g by simp
  obtain lid where "r = Inr lid \<or> (\<exists>x. r = Inl x)" by (cases r) auto
  moreover obtain t e2 where t: "ec_PutIfAbsent E (lock_key P) (Itoa lid) lid e1 = (t, e2)"
    by (cases "ec_PutIfAbsent E (lock_key P) (Itoa lid) lid e1")
  moreover have e2: "etcd_inv leased P e2"
    using inv_insert [OF e1] txn_leases [of "lock_key P" "Itoa lid" lid e1] t by simp
  ultimately show ?case
    using e1 Suc.IH [OF inv_sleep [OF e2, of 2]] g
    by (auto split: sum.splits bool.splits)
qed simp

lemma unlock_durable:
  "durable kvs leased (snd (etcd_Unlock E P e)) = durable kvs leased e"
  "dom (leased (snd (etcd_Unlock E P e))) \<subseteq> dom (leased e)"
proof -
  obtain r e1 where g: "ec_Get E (lock_key P) e = (r, e1)" by (cases "ec_Get E (lock_key P) e")
  have d: "durable kvs leased e1 = durable kvs leased e" "dom (leased e1) \<subseteq> dom (leased e)"
    using get_keeps [of "lock_key P" e] get_leases [of "lock_key P" e] g by auto
  have "snd (etcd_Unlock E P e) = e1 \<or> (\<exists>lid. snd (etcd_Unlock E P e) = snd (ec_Revoke E lid e1))"
    by (auto simp: etcd_Unlock_def g Let_def split: sum.splits list.splits prod.splits)
  with d revoke_keeps revoke_leases
  show "durable kvs leased (snd (etcd_Unlock E P e)) = durable kvs leased e"
    "dom (leased (snd (etcd_Unlock E P e))) \<subseteq> dom (leased e)"
    by (metis, metis subset_trans)
qed

lemma reserve_cases:
  assumes i: "etcd_inv leased P e" and r: "etcd_Reserve E P cid ip rid e = (res, e')"
  shows "etcd_inv leased P e'"
    and "res = Inr True \<Longrightarrow> etcd_used kvs leased P e (ip_String ip) = None \<and>
      etcd_used kvs leased P e' = (etcd_used kvs leased P e)(ip_String ip \<mapsto> cid) \<and>
      etcd_last kvs leased P e' = (etcd_last kvs leased P e)(rid \<mapsto> ip_String ip)"
    and "res = Inr False \<Longrightarrow> etcd_used kvs leased P e (ip_String ip) \<noteq> None \<and>
      etcd_used kvs leased P e' = etcd_used kvs leased P e \<and>
      etcd_last kvs leased P e' = etcd_last kvs leased P e"
    and "res = Inl err \<Longrightarrow> etcd_used kvs leased P e' = etcd_used kvs leased P e \<or>
      etcd_used kvs leased P e (ip_String ip) = None \<and>
      etcd_used kvs leased P e' = (etcd_used kvs leased P e)(ip_String ip \<mapsto> cid)"
proof -
  let ?x = "ip_String ip" and ?k = "used_key P (ip_String ip)"
  obtain g e1 where g: "ec_Get E ?k e = (g, e1)" by (cases "ec_Get E ?k e")
  have d1: "durable kvs leased e1 = durable kvs leased e" and i1: "etcd_inv leased P e1"
    using get_keeps [of ?k e] inv_mono [OF i] get_leases [of ?k e] g by auto
  note v1 = durable_views(1) [OF d1]
  have lk: "leased e ?k = None" using i by (simp add: etcd_inv_def)
  obtain p e2 where p: "ec_Put E ?k cid e1 = (p, e2)" by (cases "ec_Put E ?k cid e1")
  have i2: "etcd_inv leased P e2"
    using put_ok [of ?k cid e1 e2] put_error [of ?k cid e1 _ e2] p inv_mono [OF i1] by (cases p) auto
  obtain q e3 where q: "ec_Put E (last_key P rid) ?x e2 = (q, e3)"
    by (cases "ec_Put E (last_key P rid) ?x e2")
  have i3: "etcd_inv leased P e3"
    using put_ok [of "last_key P rid" ?x e2 e3] put_error [of "last_key P rid" ?x e2 _ e3] q inv_mono [OF i2]
    by (cases q) auto
  have "(\<exists>err. g = Inl err \<and> res = Inl err \<and> e' = e1) \<or>
      (\<exists>l. g = Inr l \<and> l \<noteq> [] \<and> res = Inr False \<and> e' = e1) \<or>
      (\<exists>err. g = Inr [] \<and> p = Some err \<and> res = Inl err \<and> e' = e2) \<or>
      (\<exists>err. g = Inr [] \<and> p = None \<and> q = Some err \<and> res = Inl err \<and> e' = e3) \<or>
      (g = Inr [] \<and> p = None \<and> q = None \<and> res = Inr True \<and> e' = e3)"
    using r unfolding etcd_Reserve_def Let_def g p q prod.case
    by (auto simp: p q split: sum.splits option.splits if_splits)
  note c = this
  have free: "etcd_used kvs leased P e ?x = None" if "g = Inr []"
    using get_value [OF g [unfolded that] lk] used_lookup [OF i, of ?x] by (auto split: option.splits)
  have taken: "etcd_used kvs leased P e ?x \<noteq> None" if "g = Inr l" "l \<noteq> []" for l
    using get_value [OF g [unfolded that] lk] that used_lookup [OF i, of ?x] by (auto split: option.splits)
  have u2: "etcd_used kvs leased P e2 = (etcd_used kvs leased P e)(?x \<mapsto> cid)"
    "etcd_last kvs leased P e2 = etcd_last kvs leased P e" if "p = None"
    using put_ok [OF p [unfolded that]] durable_views(2) [of e2 e1 ?x cid] v1 by auto
  have u2e: "etcd_used kvs leased P e2 \<in> {etcd_used kvs leased P e, (etcd_used kvs leased P e)(?x \<mapsto> cid)}"
    if "p = Some err" for err
    using put_error [OF p [unfolded that]] durable_views(1,2) [of e2 e1] v1 by auto
  have u3: "etcd_used kvs leased P e3 = etcd_used kvs leased P e2"
    using put_ok [of "last_key P rid" ?x e2 e3] put_error [of "last_key P rid" ?x e2 _ e3] q
      durable_views(1,4) [of e3 e2] by (cases q) blast+
  have l3: "etcd_last kvs leased P e3 = (etcd_last kvs leased P e2)(rid \<mapsto> ?x)" if "q = None"
    using put_ok [OF q [unfolded that]] durable_views(4) [of e3 e2] by blast
  show "etcd_inv leased P e'" using c i1 i2 i3 by (elim disjE exE conjE) simp_all
  show "res = Inr True \<Longrightarrow> etcd_used kvs leased P e ?x = None \<and>
      etcd_used kvs leased P e' = (etcd_used kvs leased P e)(?x \<mapsto> cid) \<and>
      etcd_last kvs leased P e' = (etcd_last kvs leased P e)(rid \<mapsto> ?x)"
    using c free u2 u3 l3 by (elim disjE exE conjE) auto
  show "res = Inr False \<Longrightarrow> etcd_used kvs leased P e ?x \<noteq> None \<and>
      etcd_used kvs leased P e' = etcd_used kvs leased P e \<and> etcd_last kvs leased P e' = etcd_last kvs leased P e"
    using c taken v1 by (elim disjE exE conjE) auto
  show "res = Inl err \<Longrightarrow> etcd_used kvs leased P e' = etcd_used kvs leased P e \<or>
      etcd_used kvs leased P e ?x = None \<and> etcd_used kvs leased P e' = (etcd_used kvs leased P e)(?x \<mapsto> cid)"
    using c free u2 u2e u3 v1 by (elim disjE exE conjE) auto
qed

lemma last_cases:
  assumes i: "etcd_inv leased P e" and r: "etcd_LastReservedIP E P rid e = (res, e')"
  shows "etcd_inv leased P e' \<and> etcd_used kvs leased P e' = etcd_used kvs leased P e \<and>
      etcd_last kvs leased P e' = etcd_last kvs leased P e"
    and "res = Inr ip \<Longrightarrow> \<exists>v. etcd_last kvs leased P e rid = Some v \<and> ip = ParseIP v"
proof -
  let ?k = "last_key P rid"
  obtain g e1 where g: "ec_Get E ?k e = (g, e1)" by (cases "ec_Get E ?k e")
  have e': "e' = e1"
    using r by (auto simp: etcd_LastReservedIP_def g Let_def split: sum.splits list.splits)
  show "etcd_inv leased P e' \<and> etcd_used kvs leased P e' = etcd_used kvs leased P e \<and>
      etcd_last kvs leased P e' = etcd_last kvs leased P e"
    using get_keeps [of ?k e] inv_mono [OF i] get_leases [of ?k e] g durable_views(1) [of e1 e]
    by (auto simp: e')
  assume ip: "res = Inr ip"
  obtain kv l where l: "g = Inr (kv # l)" "ip = ParseIP (snd kv)"
    using r ip by (auto simp: etcd_LastReservedIP_def g Let_def split: sum.splits list.splits)
  have "leased e ?k = None" using i by (simp add: etcd_inv_def)
  from get_value [OF g [unfolded l(1)] this]
  show "\<exists>v. etcd_last kvs leased P e rid = Some v \<and> ip = ParseIP v"
    using l(2) last_lookup [OF i, of rid] by (auto split: option.splits)
qed

text \<open>
  The loop of \<open>ReleaseByID\<close>: on the keys named in the list and owned by the container, and on
  no others.
\<close>

lemma delete_owned_cases:
  assumes "delete_owned E cid l e = (r, e')"
  shows "dom (leased e') \<subseteq> dom (leased e) \<and>
    (r = None \<longrightarrow> durable kvs leased e' =
      (\<lambda>k. if (k, cid) \<in> set l then None else durable kvs leased e k)) \<and>
    (\<forall>k. durable kvs leased e' k = durable kvs leased e k \<or>
      (k, cid) \<in> set l \<and> durable kvs leased e' k = None)"
  using assms
proof (induction l arbitrary: e)
  case (Cons kv l)
  obtain k v where kv: "kv = (k, v)" by (cases kv)
  show ?case
  proof (cases "v = cid")
    case False
    then show ?thesis using Cons.prems Cons.IH [of e] by (simp add: kv)
  next
    case True
    obtain d e1 where d: "ec_Delete E k e = (d, e1)" by (cases "ec_Delete E k e")
    show ?thesis
    proof (cases d)
      case (Some err)
      then have "r = Some err" "e' = e1" using Cons.prems d True by (simp_all add: kv)
      with delete_error [OF d [unfolded Some]] True show ?thesis by (auto simp: kv split: if_split_asm)
    next
      case None
      then have rec: "delete_owned E cid l e1 = (r, e')" using Cons.prems d True by (simp add: kv)
      have d1: "durable kvs leased e1 = (durable kvs leased e)(k := None)"
        "dom (leased e1) \<subseteq> dom (leased e)" using delete_ok [OF d [unfolded None]] by auto
      show ?thesis
        using Cons.IH [OF rec] d1 True by (simp add: kv fun_eq_iff) (metis subset_trans)
    qed
  qed
qed (auto simp: fun_eq_iff)

lemma release_cases:
  assumes i: "etcd_inv leased P e" and r: "etcd_ReleaseByID E P cid e = (res, e')"
  shows "etcd_inv leased P e' \<and>
    (res = None \<longrightarrow> etcd_used kvs leased P e' =
      (\<lambda>k. if etcd_used kvs leased P e k = Some cid then None else etcd_used kvs leased P e k)) \<and>
    (\<forall>k. etcd_used kvs leased P e' k = etcd_used kvs leased P e k \<or>
      etcd_used kvs leased P e k = Some cid \<and> etcd_used kvs leased P e' k = None) \<and>
    etcd_last kvs leased P e' = etcd_last kvs leased P e"
proof -
  let ?p = "used_key P []"
  obtain g e1 where g: "ec_GetPrefix E ?p e = (g, e1)" by (cases "ec_GetPrefix E ?p e")
  have d1: "durable kvs leased e1 = durable kvs leased e" and i1: "etcd_inv leased P e1"
    using prefix_keeps [of ?p e] inv_mono [OF i] prefix_leases [of ?p e] g by auto
  show ?thesis
  proof (cases g)
    case (Inl err)
    then have "res = Some err" "e' = e1" using r by (simp_all add: etcd_ReleaseByID_def g)
    with i1 durable_views(1) [OF d1] show ?thesis by simp
  next
    case (Inr l)
    have un: "\<forall>k. has_prefix k ?p \<longrightarrow> leased e k = None"
      using i by (auto simp: has_prefix_used_key etcd_inv_def)
    have "set l = {(k, v). has_prefix k ?p \<and> kvs e k = Some v}"
      using prefix_value [OF g [unfolded Inr] un] .
    then have l: "(k, cid) \<in> set l \<longleftrightarrow> has_prefix k ?p \<and> durable kvs leased e k = Some cid" for k
      using un by (auto simp: durable_def)
    have "delete_owned E cid l e1 = (res, e')"
      using r by (cases l) (simp_all add: etcd_ReleaseByID_def g Inr)
    note d = delete_owned_cases [OF this, unfolded l d1]
    have up: "has_prefix (used_key P x) ?p" and lp: "\<not> has_prefix (last_key P x) ?p" for x
      using has_prefix_used_key key_simps(3) by auto
    have "etcd_inv leased P e'" using d i1 inv_mono by blast
    moreover have "etcd_last kvs leased P e' = etcd_last kvs leased P e"
      unfolding etcd_last_def using d lp by blast
    moreover have "etcd_used kvs leased P e' =
        (\<lambda>k. if etcd_used kvs leased P e k = Some cid then None else etcd_used kvs leased P e k)"
      if "res = None"
      using d that up by (simp add: etcd_used_def fun_eq_iff)
    moreover have "etcd_used kvs leased P e' k = etcd_used kvs leased P e k \<or>
        etcd_used kvs leased P e k = Some cid \<and> etcd_used kvs leased P e' k = None" for k
      unfolding etcd_used_def using d by blast
    ultimately show ?thesis by blast
  qed
qed

text \<open>A successful \<open>Lock\<close> leaves the lock key attached to a lease of this call.\<close>

lemma lock_loop_ok:
  "lock_loop E P n e = (None, e') \<Longrightarrow>
    \<exists>lid. kvs e' (lock_key P) = Some (Itoa lid) \<and> leased e' (lock_key P) = Some lid"
proof (induction n arbitrary: e)
  case (Suc n)
  obtain r e1 where g: "ec_Grant E 10 e = (r, e1)" by (cases "ec_Grant E 10 e")
  obtain lid where lid: "r = Inr lid" using Suc.prems g by (cases r) auto
  obtain t e2 where t: "ec_PutIfAbsent E (lock_key P) (Itoa lid) lid e1 = (t, e2)"
    by (cases "ec_PutIfAbsent E (lock_key P) (Itoa lid) lid e1")
  consider "t = Inr True" | "t = Inr False" | x where "t = Inl x" by (cases t) auto
  then show ?case
  proof cases
    case 1
    then have "e' = e2" using Suc.prems g lid t by simp
    with txn_ok [OF t [unfolded 1]] show ?thesis by blast
  next
    case 2
    with Suc.IH Suc.prems g lid t show ?thesis by simp
  next
    case 3
    with Suc.prems g lid t show ?thesis by simp
  qed
qed simp

end

sublocale etcd_network \<subseteq> ip_store "etcd_store E P" "etcd_used kvs leased P" "etcd_last kvs leased P"
  "etcd_inv leased P" "\<lambda>cid. cid" "\<lambda>_. True"
proof (unfold_locales, goal_cases)
  case (1 n)
  show ?case by simp
next
  case (2 s)
  then show ?case using lock_loop_inv by (simp add: etcd_store_def etcd_Lock_def)
next
  case (3 s)
  then show ?case using inv_mono [OF _ unlock_durable(2)] by (simp add: etcd_store_def)
next
  case (4 s)
  show ?case using durable_views(1) [OF unlock_durable(1)] by (simp add: etcd_store_def)
next
  case (5 s)
  show ?case using durable_views(1) [OF unlock_durable(1)] by (simp add: etcd_store_def)
next
  case (6 s cid ip rid)
  then show ?case using reserve_cases(1) [OF _ prod.collapse [symmetric]] by (simp add: etcd_store_def)
next
  case (7 s cid ip rid s')
  then show ?case using reserve_cases(2) by (simp add: etcd_store_def)
next
  case (8 s cid ip rid s')
  then show ?case using reserve_cases(3) by (simp add: etcd_store_def)
next
  case (9 s cid ip rid e s')
  then show ?case using reserve_cases(4) by (simp add: etcd_store_def)
next
  case (10 s rid)
  then show ?case using last_cases(1) [OF _ prod.collapse [symmetric]] by (simp add: etcd_store_def)
next
  case (11 s rid)
  then show ?case using last_cases(1) [OF _ prod.collapse [symmetric]] by (simp add: etcd_store_def)
next
  case (12 s rid ip s')
  then show ?case using last_cases(2) by (simp add: etcd_store_def)
next
  case (13 s cid)
  then show ?case using release_cases [OF _ prod.collapse [symmetric]] by (simp add: etcd_store_def)
next
  case (14 s cid s')
  then show ?case using release_cases [of s cid None s'] by (simp add: etcd_store_def)
next
  case (15 s cid e s')
  then show ?case using release_cases [of s cid "Some e" s'] by (simp add: etcd_store_def)
qed

context etcd_network begin

lemma is_store:
  "ip_store (etcd_store E P) (etcd_used kvs leased P) (etcd_last kvs leased P) (etcd_inv leased P) (\<lambda>cid. cid) (\<lambda>_. True)"
  by unfold_locales

end

section \<open>A cluster in memory\<close>

text \<open>
  One process, a cluster that never fails: the keys with their values and leases, and the
  next lease. The hypotheses of the properties that speak of \<open>etcd_client\<close> hold for it.
\<close>

record mem_etcd =
  m_keys :: "(string \<times> string \<times> int option) list"
  m_next :: int

definition mem_kvs :: "mem_etcd \<Rightarrow> string \<rightharpoonup> string" where
  "mem_kvs e k = map_option fst (map_of (m_keys e) k)"

definition mem_leased :: "mem_etcd \<Rightarrow> string \<rightharpoonup> int" where
  "mem_leased e k = Option.bind (map_of (m_keys e) k) snd"

definition mem_client :: "mem_etcd etcd" where
  "mem_client =
     \<lparr>ec_Get = \<lambda>k e. (Inr (case mem_kvs e k of None \<Rightarrow> [] | Some v \<Rightarrow> [(k, v)]), e),
      ec_GetPrefix = \<lambda>p e. (Inr (map (\<lambda>k. (k, the (mem_kvs e k)))
        (filter (\<lambda>k. has_prefix k p) (remdups (map fst (m_keys e))))), e),
      ec_Put = \<lambda>k v e. (None, e\<lparr>m_keys := AList.update k (v, None) (m_keys e)\<rparr>),
      ec_Delete = \<lambda>k e. (None, e\<lparr>m_keys := AList.delete k (m_keys e)\<rparr>),
      ec_Grant = \<lambda>ttl e. (Inr (m_next e), e\<lparr>m_next := m_next e + 1\<rparr>),
      ec_PutIfAbsent = \<lambda>k v lid e. (if mem_kvs e k \<noteq> None then (Inr False, e)
        else (Inr True, e\<lparr>m_keys := AList.update k (v, Some lid) (m_keys e)\<rparr>)),
      ec_Revoke = \<lambda>lid e. (None, e\<lparr>m_keys := filter (\<lambda>(k, _). mem_leased e k \<noteq> Some lid) (m_keys e)\<rparr>),
      ec_Sleep = \<lambda>n e. e\<rparr>"

lemma mem_updates:
  "mem_kvs (e\<lparr>m_keys := AList.update k (v, l) (m_keys e)\<rparr>) = (mem_kvs e)(k \<mapsto> v)"
  "mem_leased (e\<lparr>m_keys := AList.update k (v, l) (m_keys e)\<rparr>) = (mem_leased e)(k := l)"
  "mem_kvs (e\<lparr>m_keys := AList.delete k (m_keys e)\<rparr>) = (mem_kvs e)(k := None)"
  "mem_leased (e\<lparr>m_keys := AList.delete k (m_keys e)\<rparr>) = (mem_leased e)(k := None)"
  "mem_kvs (e\<lparr>m_next := n\<rparr>) = mem_kvs e" "mem_leased (e\<lparr>m_next := n\<rparr>) = mem_leased e"
  "mem_kvs (e\<lparr>m_keys := filter (\<lambda>(k, _). mem_leased e k \<noteq> Some lid) (m_keys e)\<rparr>) =
    (\<lambda>k. if mem_leased e k = Some lid then None else mem_kvs e k)"
  "mem_leased (e\<lparr>m_keys := filter (\<lambda>(k, _). mem_leased e k \<noteq> Some lid) (m_keys e)\<rparr>) =
    (\<lambda>k. if mem_leased e k = Some lid then None else mem_leased e k)"
  by (auto simp: fun_eq_iff mem_kvs_def mem_leased_def update_conv' delete_conv' map_of_filter_key)

lemma mem_kvs_key: "mem_kvs e k = Some v \<Longrightarrow> k \<in> fst ` set (m_keys e)"
  using map_of_SomeD by (force simp: mem_kvs_def)

lemma mem_leased_kvs: "mem_kvs e k = None \<Longrightarrow> mem_leased e k = None"
  by (simp add: mem_kvs_def mem_leased_def)

interpretation mem: etcd_client mem_client mem_kvs mem_leased
proof (unfold_locales, goal_cases)
  case (6 p e l e')
  have "the (mem_kvs e k) = v" "mem_kvs e k \<noteq> None" if "mem_kvs e k = Some v" for k v
    using that by auto
  then show ?case
    using 6 mem_kvs_key [of e] by (force simp: mem_client_def mem_kvs_def dom_map_of_conv_image_fst [symmetric])
qed (auto simp: mem_client_def mem_updates durable_def fun_eq_iff split: if_splits)

text \<open>The network named \<open>net\<close> on it.\<close>

definition mem_prefix :: string where
  "mem_prefix = ETCDPrefix @ ''net''"

interpretation mem_net: etcd_network mem_client mem_kvs mem_leased mem_prefix "''net''"
  by unfold_locales (simp add: mem_prefix_def)

definition mem_empty :: mem_etcd where
  "mem_empty = \<lparr>m_keys = [], m_next = 1\<rparr>"

end
