(* ===== verification/Config.thy ===== *)
theory Config
  imports Args RangeSets CniResult Etcd
begin

text \<open>
  The configuration of the plugin (\<open>backend/allocator/config.go\<close>): decoding, the requested
  addresses, and the validation of the ranges.
\<close>

section \<open>The types\<close>

text \<open>\<open>IPAMConfig\<close>; the embedded \<open>*Range\<close> is the field \<open>icRange\<close>.\<close>

record ipam_config =
  icRange :: "ip_range option"
  icName :: string
  icType :: string
  icRoutes :: "route list"
  icResolvConf :: string
  icKubeConfig :: string
  icRanges :: "range_set list"
  icIPArgs :: "net_ip list"
  icEtcdConfig :: "etcd_conf option"
  icGateway2 :: string

text \<open>\<open>Net\<close>; \<open>netArgs\<close> is \<open>args.cni.ips\<close>, with the two pointers on the way to it.\<close>

record net_conf =
  netName :: string
  netCNIVersion :: string
  netIPAM :: "ipam_config option"
  netIPRanges :: "range_set list"
  netArgs :: "net_ip list option option"

section \<open>Decoding\<close>

definition dec_range :: "json \<Rightarrow> go_error + ip_range" where
  "dec_range j =
     bind_sum (jmembers j) (\<lambda>kvs.
     bind_sum (dec_field dec_ip [] kvs ''rangeStart'') (\<lambda>s.
     bind_sum (dec_field dec_ip [] kvs ''rangeEnd'') (\<lambda>e.
     bind_sum (dec_field IPNet_UnmarshalJSON zero_net kvs ''subnet'') (\<lambda>n.
     bind_sum (dec_field dec_ip [] kvs ''gateway'') (\<lambda>g.
       Inr \<lparr>RangeStart = s, RangeEnd = e, Subnet = n, Gateway = g\<rparr>)))))"

definition dec_etcd_conf :: "json \<Rightarrow> go_error + etcd_conf" where
  "dec_etcd_conf j =
     bind_sum (jmembers j) (\<lambda>kvs.
     bind_sum (dec_field dec_string [] kvs ''etcdURL'') (\<lambda>u.
     bind_sum (dec_field dec_string [] kvs ''etcdCertFile'') (\<lambda>c.
     bind_sum (dec_field dec_string [] kvs ''etcdKeyFile'') (\<lambda>k.
     bind_sum (dec_field dec_string [] kvs ''etcdTrustedCAFileFile'') (\<lambda>t.
       Inr \<lparr>EtcdURL = u, EtcdCertFile = c, EtcdKeyFile = k, EtcdTrustedCAFileFile = t\<rparr>)))))"

text \<open>The embedded range is allocated when one of its members is present.\<close>

definition dec_embedded_range :: "json \<Rightarrow> (string \<times> json) list \<Rightarrow> go_error + ip_range option" where
  "dec_embedded_range j kvs =
     (if list_ex (\<lambda>f. jfield kvs f \<noteq> None) [''rangeStart'', ''rangeEnd'', ''subnet'', ''gateway'']
      then bind_sum (dec_range j) (\<lambda>r. Inr (Some r)) else Inr None)"

definition dec_ipam_config :: "json \<Rightarrow> go_error + ipam_config" where
  "dec_ipam_config j =
     bind_sum (jmembers j) (\<lambda>kvs.
     bind_sum (dec_embedded_range j kvs) (\<lambda>r.
     bind_sum (dec_field dec_string [] kvs ''Name'') (\<lambda>name.
     bind_sum (dec_field dec_string [] kvs ''type'') (\<lambda>ty.
     bind_sum (dec_field (dec_list dec_route) [] kvs ''routes'') (\<lambda>routes.
     bind_sum (dec_field dec_string [] kvs ''resolvConf'') (\<lambda>resolv.
     bind_sum (dec_field dec_string [] kvs ''kubeConfig'') (\<lambda>kube.
     bind_sum (dec_field (dec_list (dec_list dec_range)) [] kvs ''ranges'') (\<lambda>ranges.
     bind_sum (dec_field (dec_pointer dec_etcd_conf) None kvs ''etcdConfig'') (\<lambda>etcd.
     bind_sum (dec_field dec_string [] kvs ''gateway2'') (\<lambda>g2.
       Inr \<lparr>icRange = r, icName = name, icType = ty, icRoutes = routes, icResolvConf = resolv,
            icKubeConfig = kube, icRanges = ranges, icIPArgs = [], icEtcdConfig = etcd,
            icGateway2 = g2\<rparr>))))))))))"

text \<open>The two anonymous structs of \<open>Net\<close>.\<close>

definition dec_runtime_config :: "json \<Rightarrow> go_error + range_set list" where
  "dec_runtime_config j =
     bind_sum (jmembers j) (\<lambda>kvs. dec_field (dec_list (dec_list dec_range)) [] kvs ''ipRanges'')"

definition dec_ipam_args :: "json \<Rightarrow> go_error + net_ip list" where
  "dec_ipam_args j = bind_sum (jmembers j) (\<lambda>kvs. dec_field (dec_list dec_ip) [] kvs ''ips'')"

definition dec_net_args :: "json \<Rightarrow> go_error + net_ip list option" where
  "dec_net_args j =
     bind_sum (jmembers j) (\<lambda>kvs. dec_field (dec_pointer dec_ipam_args) None kvs ''cni'')"

definition dec_net_conf :: "json \<Rightarrow> go_error + net_conf" where
  "dec_net_conf j =
     bind_sum (jmembers j) (\<lambda>kvs.
     bind_sum (dec_field dec_string [] kvs ''name'') (\<lambda>name.
     bind_sum (dec_field dec_string [] kvs ''cniVersion'') (\<lambda>v.
     bind_sum (dec_field (dec_pointer dec_ipam_config) None kvs ''ipam'') (\<lambda>ipam.
     bind_sum (dec_field dec_runtime_config [] kvs ''runtimeConfig'') (\<lambda>rc.
     bind_sum (dec_field (dec_pointer dec_net_args) None kvs ''args'') (\<lambda>args.
       Inr \<lparr>netName = name, netCNIVersion = v, netIPAM = ipam, netIPRanges = rc, netArgs = args\<rparr>))))))"

section \<open>LoadIPAMConfig\<close>

definition IPAMEnvArgs :: container where
  "IPAMEnvArgs = CommonArgs @ [(''IP'', FIP [])]"

text \<open>The address in \<open>CNI_ARGS\<close>, if any.\<close>

definition env_ip :: "string \<Rightarrow> net_ip list outcome" where
  "env_ip envArgs =
     (if envArgs = [] then Ret []
      else case LoadArgs envArgs IPAMEnvArgs of
        (Fail err, _) \<Rightarrow> Fail err
      | (Panic m, _) \<Rightarrow> Panic m
      | (Ret _, e) \<Rightarrow> (case GetKeyField ''IP'' e of Some (FIP ip) \<Rightarrow> Ret (if ip \<noteq> [] then [ip] else []) | _ \<Rightarrow> Ret []))"

definition canon_args :: "net_ip list \<Rightarrow> go_error + net_ip list" where
  "canon_args ips =
     map_sum_list (\<lambda>ip. case canonicalizeIP ip of
        Inl err \<Rightarrow> Inl (Msg (''cannot understand ip: '' @ err_text err)) | Inr c \<Rightarrow> Inr c) ips"

text \<open>The ranges of the three sources: the runtime's, the old style single range, the list.\<close>

definition all_ranges :: "net_conf \<Rightarrow> ipam_config \<Rightarrow> range_set list" where
  "all_ranges n c =
     (let ranges = (case icRange c of
            Some r \<Rightarrow> if IP (Subnet r) \<noteq> [] then [r] # icRanges c else icRanges c
          | None \<Rightarrow> icRanges c)
      in if length (netIPRanges n) > 0 then netIPRanges n @ ranges else ranges)"

fun validate_sets :: "nat \<Rightarrow> range_set list \<Rightarrow> go_error + range_set list" where
  "validate_sets i [] = Inr []"
| "validate_sets i (s # ss) =
     (case RangeSet_Canonicalize s of
        Inl err \<Rightarrow> Inl (Msg (''invalid range set '' @ Itoa (int i) @ '': '' @ err_text err))
      | Inr s' \<Rightarrow> bind_sum (validate_sets (i + 1) ss) (\<lambda>ss'. Inr (s' # ss')))"

definition is_v4_set :: "range_set \<Rightarrow> bool" where
  "is_v4_set s \<longleftrightarrow> To4 (RangeStart (hd s)) \<noteq> []"

fun find_overlap :: "nat \<Rightarrow> range_set list \<Rightarrow> (nat \<times> nat) option" where
  "find_overlap i [] = None"
| "find_overlap i (p1 # ps) =
     (case find (\<lambda>j. RangeSet_Overlaps p1 (ps ! j)) [0..<length ps] of
        Some j \<Rightarrow> Some (i, i + j + 1)
      | None \<Rightarrow> find_overlap (i + 1) ps)"

definition validate_ranges :: "string \<Rightarrow> range_set list \<Rightarrow> go_error + range_set list" where
  "validate_ranges version ranges =
     (if ranges = [] then Inl (Msg ''no IP ranges specified'')
      else bind_sum (validate_sets 0 ranges) (\<lambda>ranges.
        let numV4 = length (filter is_v4_set ranges);
            numV6 = length (filter (\<lambda>s. \<not> is_v4_set s) ranges)
        in if (numV4 > 1 \<or> numV6 > 1) \<and> version \<in> set SupportedVersions020
           then Inl (Msg (''CNI version '' @ version @ '' does not support more than 1 address per family''))
           else (case find_overlap 0 ranges of
                   Some (i, j) \<Rightarrow> Inl (Msg (''range set '' @ Itoa (int i) @ '' overlaps with '' @ Itoa (int j)))
                 | None \<Rightarrow> Inr ranges)))"

definition LoadIPAMConfig :: "document \<Rightarrow> string \<Rightarrow> (ipam_config \<times> string) outcome" where
  "LoadIPAMConfig bytes envArgs =
     (case bind_sum bytes dec_net_conf of
        Inl err \<Rightarrow> Fail err
      | Inr n \<Rightarrow>
          (case netIPAM n of
             None \<Rightarrow> Fail (Msg ''IPAM config missing 'ipam' key'')
           | Some ipam \<Rightarrow>
               (case env_ip envArgs of
                  Fail err \<Rightarrow> Fail err
                | Panic m \<Rightarrow> Panic m
                | Ret fromEnv \<Rightarrow>
                    outcome_of
                      (bind_sum (canon_args (fromEnv @ (case netArgs n of Some (Some ips) \<Rightarrow> ips | _ \<Rightarrow> []))) (\<lambda>ips.
                       bind_sum (validate_ranges (netCNIVersion n) (all_ranges n ipam)) (\<lambda>ranges.
                         Inr (ipam\<lparr>icIPArgs := ips, icRange := None, icRanges := ranges, icName := netName n\<rparr>,
                              netCNIVersion n)))))))"

section \<open>Lemmas\<close>

lemma validate_sets_Inr:
  "validate_sets i ss = Inr ss' \<Longrightarrow> list_all2 (\<lambda>s s'. RangeSet_Canonicalize s = Inr s') ss ss'"
  by (induction i ss arbitrary: ss' rule: validate_sets.induct) (auto split: sum.splits)

lemma find_overlap_None:
  "find_overlap i ss = None \<longleftrightarrow> sorted_wrt (\<lambda>s p. \<not> RangeSet_Overlaps s p) ss"
  by (induction i ss rule: find_overlap.induct)
    (force simp: find_None_iff find_Some_iff in_set_conv_nth split: option.splits)+

lemma validate_ranges_Inr:
  assumes "validate_ranges v ranges = Inr ranges'"
  shows "ranges' \<noteq> []" "list_all2 (\<lambda>s s'. RangeSet_Canonicalize s = Inr s') ranges ranges'"
    and "sorted_wrt (\<lambda>s p. \<not> RangeSet_Overlaps s p) ranges'"
    and "v \<in> set SupportedVersions020 \<Longrightarrow>
      length (filter is_v4_set ranges') \<le> 1 \<and> length (filter (\<lambda>s. \<not> is_v4_set s) ranges') \<le> 1"
proof -
  have ne: "ranges \<noteq> []" and v: "validate_sets 0 ranges = Inr ranges'"
    and rest: "find_overlap 0 ranges' = None"
      "\<not> ((length (filter is_v4_set ranges') > 1 \<or> length (filter (\<lambda>s. \<not> is_v4_set s) ranges') > 1) \<and>
        v \<in> set SupportedVersions020)"
    using assms by (auto simp: validate_ranges_def Let_def split: if_splits option.splits)
  show l: "list_all2 (\<lambda>s s'. RangeSet_Canonicalize s = Inr s') ranges ranges'"
    using validate_sets_Inr [OF v] .
  show "ranges' \<noteq> []" using l ne by auto
  show "sorted_wrt (\<lambda>s p. \<not> RangeSet_Overlaps s p) ranges'"
    using rest(1) by (simp add: find_overlap_None)
  show "v \<in> set SupportedVersions020 \<Longrightarrow>
      length (filter is_v4_set ranges') \<le> 1 \<and> length (filter (\<lambda>s. \<not> is_v4_set s) ranges') \<le> 1"
    using rest(2) by auto
qed

lemma canon_args_Inr: "canon_args ips = Inr cs \<Longrightarrow> list_all2 (\<lambda>ip c. canonicalizeIP ip = Inr c) ips cs"
  by (auto simp: canon_args_def map_sum_list_Inr_iff elim!: list_all2_mono split: sum.splits)

lemma LoadIPAMConfig_Ret:
  assumes "LoadIPAMConfig bytes envArgs = Ret (c, v)"
  obtains n ipam e where "bind_sum bytes dec_net_conf = Inr n" "netIPAM n = Some ipam" "v = netCNIVersion n"
    "env_ip envArgs = Ret e"
    "canon_args (e @ (case netArgs n of Some (Some ips) \<Rightarrow> ips | _ \<Rightarrow> [])) = Inr (icIPArgs c)"
    "validate_ranges v (all_ranges n ipam) = Inr (icRanges c)"
    "c = ipam\<lparr>icIPArgs := icIPArgs c, icRange := None, icRanges := icRanges c, icName := netName n\<rparr>"
  using assms unfolding LoadIPAMConfig_def
  by (cases "bind_sum bytes dec_net_conf") (auto split: option.splits outcome.splits)

end
