(* ===== verification/Dns.thy ===== *)
theory Dns
  imports CniTypes
begin

text \<open>
  The parser of \<open>resolv.conf\<close> (\<open>lib/dns.go\<close>). Files are a function from names to contents;
  \<open>bufio.Scanner\<close> splits at newlines, drops a carriage return before them, and fails on a
  line that does not fit its buffer of 65536 bytes.
\<close>

definition max_token :: nat where "max_token = 65536"

definition drop_cr :: "string \<Rightarrow> string" where
  "drop_cr l = (if l \<noteq> [] \<and> last l = CHR 0x0D then butlast l else l)"

text \<open>The lines the scanner finds, and whether it stopped with an error.\<close>

definition raw_lines :: "string \<Rightarrow> string list" where
  "raw_lines s = (let ls = split_on (CHR 0x0A) s in if last ls = [] then butlast ls else ls)"

definition scan_lines :: "string \<Rightarrow> go_error + string list" where
  "scan_lines s =
     (let ls = raw_lines s in
      if list_ex (\<lambda>l. max_token \<le> length l) ls then Inl (Msg ''bufio.Scanner: token too long'')
      else Inr (map drop_cr ls))"

section \<open>parseResolvConf\<close>

definition resolv_line :: "dns_conf \<Rightarrow> string \<Rightarrow> dns_conf" where
  "resolv_line dns line =
     (let line = trim_space line in
      if line = [] \<or> hd line = CHR ''#'' \<or> hd line = CHR '';'' then dns
      else let fs = Prelude.fields line in
        if length fs < 2 then dns
        else if fs ! 0 = ''nameserver'' then dns\<lparr>Nameservers := Nameservers dns @ [fs ! 1]\<rparr>
        else if fs ! 0 = ''domain'' then dns\<lparr>Domain := fs ! 1\<rparr>
        else if fs ! 0 = ''search'' then dns\<lparr>Search := Search dns @ tl fs\<rparr>
        else if fs ! 0 = ''options'' then dns\<lparr>Options := Options dns @ tl fs\<rparr>
        else dns)"

definition parseResolvConf :: "(string \<Rightarrow> go_error + string) \<Rightarrow> string \<Rightarrow> go_error + dns_conf" where
  "parseResolvConf files filename =
     (case files filename of
        Inl err \<Rightarrow> Inl err
      | Inr s \<Rightarrow>
          (case scan_lines s of
             Inl err \<Rightarrow> Inl err
           | Inr ls \<Rightarrow> Inr (foldl resolv_line empty_dns ls)))"

section \<open>A file for given settings\<close>

text \<open>
  The printed form of settings: one \<open>nameserver\<close> line each, the domain, and the lists. A
  word is a nonempty string without white space.
\<close>

definition is_word :: "string \<Rightarrow> bool" where
  "is_word w \<longleftrightarrow> w \<noteq> [] \<and> (\<forall>c\<in>set w. \<not> is_space c)"

definition words_line :: "string \<Rightarrow> string list \<Rightarrow> string" where
  "words_line k ws = k @ concat (map (\<lambda>w. '' '' @ w) ws)"

definition resolv_lines :: "dns_conf \<Rightarrow> string list" where
  "resolv_lines d =
     map (\<lambda>n. words_line ''nameserver'' [n]) (Nameservers d) @
     (if Domain d = [] then [] else [words_line ''domain'' [Domain d]]) @
     (if Search d = [] then [] else [words_line ''search'' (Search d)]) @
     (if Options d = [] then [] else [words_line ''options'' (Options d)])"

definition resolv_text :: "dns_conf \<Rightarrow> string" where
  "resolv_text d = concat (map (\<lambda>l. l @ [CHR 0x0A]) (resolv_lines d))"

section \<open>Lemmas\<close>

lemma fields_words:
  "is_word k \<Longrightarrow> \<forall>w\<in>set ws. is_word w \<Longrightarrow> fields_aux acc (k @ concat (map (\<lambda>w. '' '' @ w) ws)) =
    (rev acc @ k) # ws"
proof (induction ws arbitrary: k acc)
  case Nil
  then show ?case
    using fields_aux_word [of k acc "[]"] by (auto simp: is_word_def)
next
  case (Cons w ws)
  have "fields_aux [] (w @ concat (map (\<lambda>w. '' '' @ w) ws)) = w # ws"
    using Cons.IH [of w "[]"] Cons.prems by simp
  moreover have "is_space (CHR '' '')" by (simp add: is_space_def)
  ultimately show ?case
    using fields_aux_word [of k acc "'' '' @ w @ concat (map (\<lambda>w. '' '' @ w) ws)"] Cons.prems
    by (auto simp: is_word_def)
qed

lemma fields_words_line:
  "is_word k \<Longrightarrow> \<forall>w\<in>set ws. is_word w \<Longrightarrow> Prelude.fields (words_line k ws) = k # ws"
  using fields_words [of k ws "[]"] by (simp add: Prelude.fields_def words_line_def)

lemma trim_space_id:
  "s \<noteq> [] \<Longrightarrow> \<not> is_space (hd s) \<Longrightarrow> \<not> is_space (last s) \<Longrightarrow> trim_space s = s"
  unfolding trim_space_def
  by (metis dropWhile_eq_self_iff hd_rev rev_is_Nil_conv rev_rev_ident)

lemma words_line_ends:
  "is_word k \<Longrightarrow> \<forall>w\<in>set ws. is_word w \<Longrightarrow>
    words_line k ws \<noteq> [] \<and> hd (words_line k ws) = hd k \<and> \<not> is_space (hd k) \<and> \<not> is_space (last (words_line k ws))"
proof (induction ws rule: rev_induct)
  case (snoc w ws)
  then show ?case by (auto simp: words_line_def is_word_def)
qed (auto simp: words_line_def is_word_def)

lemma resolv_line_words:
  assumes "is_word k" "\<forall>w\<in>set ws. is_word w" "ws \<noteq> []" "hd k \<noteq> CHR ''#''" "hd k \<noteq> CHR '';''"
  shows "resolv_line d (words_line k ws) =
    (if k = ''nameserver'' then d\<lparr>Nameservers := Nameservers d @ [hd ws]\<rparr>
     else if k = ''domain'' then d\<lparr>Domain := hd ws\<rparr>
     else if k = ''search'' then d\<lparr>Search := Search d @ ws\<rparr>
     else if k = ''options'' then d\<lparr>Options := Options d @ ws\<rparr> else d)"
proof -
  note e = words_line_ends [OF assms(1,2)]
  have "trim_space (words_line k ws) = words_line k ws" using e by (simp add: trim_space_id)
  moreover have "Prelude.fields (words_line k ws) = k # ws" using fields_words_line assms(1,2) by simp
  moreover have "\<not> length (k # ws) < 2" using assms(3) by (cases ws) auto
  moreover have "(k # ws) ! 1 = hd ws" using assms(3) by (cases ws) auto
  ultimately show ?thesis
    using e assms(4,5) by (simp add: resolv_line_def Let_def)
qed

lemma is_word_keys [simp]:
  "is_word ''nameserver''" "is_word ''domain''" "is_word ''search''" "is_word ''options''"
  by (auto simp: is_word_def is_space_def)

definition dns_ok :: "dns_conf \<Rightarrow> bool" where
  "dns_ok d \<longleftrightarrow> (\<forall>w\<in>set (Nameservers d @ Search d @ Options d). is_word w) \<and>
     (Domain d = [] \<or> is_word (Domain d))"

lemma foldl_nameservers:
  "\<forall>w\<in>set ns. is_word w \<Longrightarrow>
    foldl resolv_line d (map (\<lambda>n. words_line ''nameserver'' [n]) ns) = d\<lparr>Nameservers := Nameservers d @ ns\<rparr>"
  by (induction ns arbitrary: d) (auto simp: resolv_line_words)

lemma foldl_resolv_lines:
  assumes "dns_ok d" shows "foldl resolv_line empty_dns (resolv_lines d) = d"
proof -
  have "\<forall>w\<in>set (Nameservers d). is_word w" "\<forall>w\<in>set (Search d). is_word w" "\<forall>w\<in>set (Options d). is_word w"
    "Domain d \<noteq> [] \<Longrightarrow> is_word (Domain d)"
    using assms by (auto simp: dns_ok_def)
  then show ?thesis
    by (cases "Domain d = []"; cases "Search d = []"; cases "Options d = []")
      (simp_all add: resolv_lines_def foldl_nameservers resolv_line_words empty_dns_def)
qed

lemma raw_lines_concat:
  "\<forall>l\<in>set ls. CHR 0x0A \<notin> set l \<Longrightarrow> raw_lines (concat (map (\<lambda>l. l @ [CHR 0x0A]) ls)) = ls"
proof -
  assume a: "\<forall>l\<in>set ls. CHR 0x0A \<notin> set l"
  have "split_on (CHR 0x0A) (concat (map (\<lambda>l. l @ [CHR 0x0A]) ls)) = ls @ [[]]"
    using a by (induction ls) (auto simp: str_simps)
  then show ?thesis by (simp add: raw_lines_def)
qed

lemma words_line_chars:
  assumes "is_word k" "\<forall>w\<in>set ws. is_word w"
  shows "CHR 0x0A \<notin> set (words_line k ws)" "drop_cr (words_line k ws) = words_line k ws"
proof -
  show "CHR 0x0A \<notin> set (words_line k ws)"
    using assms by (auto simp: words_line_def is_word_def is_space_def)
  have "last (words_line k ws) \<noteq> CHR 0x0D"
    using words_line_ends [OF assms] by (auto simp: is_space_def)
  then show "drop_cr (words_line k ws) = words_line k ws" by (simp add: drop_cr_def)
qed

lemma scan_resolv_text:
  assumes "dns_ok d" "\<forall>l\<in>set (resolv_lines d). length l < max_token"
  shows "scan_lines (resolv_text d) = Inr (resolv_lines d)"
proof -
  have l: "CHR 0x0A \<notin> set l \<and> drop_cr l = l" if "l \<in> set (resolv_lines d)" for l
    using that assms(1) by (auto simp: resolv_lines_def dns_ok_def words_line_chars split: if_splits)
  then have "raw_lines (resolv_text d) = resolv_lines d"
    unfolding resolv_text_def by (intro raw_lines_concat) blast
  moreover have "map drop_cr (resolv_lines d) = resolv_lines d"
    using l by (simp add: map_idI)
  moreover have "\<not> list_ex (\<lambda>l. max_token \<le> length l) (resolv_lines d)"
    using assms(2) by (auto simp: list_ex_iff)
  ultimately show ?thesis by (simp add: scan_lines_def)
qed

text \<open>
  Round trip of \<open>parseResolvConf\<close>: the file that lists given name servers, domain, search
  and options, line by line, is parsed to exactly these settings, as long as the words contain
  no white space and each line fits the scanner's buffer.
\<close>

theorem parseResolvConf_text:
  assumes "files f = Inr (resolv_text d)" "dns_ok d" "\<forall>l\<in>set (resolv_lines d). length l < max_token"
  shows "parseResolvConf files f = Inr d"
  using assms by (simp add: parseResolvConf_def scan_resolv_text foldl_resolv_lines)

definition ex_dns :: dns_conf where
  "ex_dns = \<lparr>Nameservers = [''10.0.0.2'', ''10.0.0.3''], Domain = ''local'', Search = [''a'', ''b''], Options = []\<rparr>"

theorem parseResolvConf_text_witness:
  "parseResolvConf (\<lambda>f. Inr (resolv_text ex_dns)) ''/etc/resolv.conf'' = Inr ex_dns"
  by (rule parseResolvConf_text)
    (auto simp: ex_dns_def dns_ok_def is_word_def is_space_def resolv_lines_def words_line_def max_token_def)

end
