(* ===== verification/Version.thy ===== *)
theory Version
  imports Json CniResult
begin

text \<open>
  Versions of the CNI specification (\<open>cni/pkg/version\<close>): parsing and comparing them, the
  versions a plugin supports, and the check of a configuration against them.
\<close>

section \<open>plugin.go\<close>

text \<open>The method \<open>Encode\<close> writes JSON and is a parameter where it is used.\<close>

record plugin_info =
  PluginCNIVersion :: string
  PluginVersions :: "string list"

definition Current :: string where
  "Current = ''0.4.0''"

definition PluginSupports :: "string list \<Rightarrow> plugin_info outcome" where
  "PluginSupports supportedVersions =
     (if length supportedVersions < 1
      then Panic ''programmer error: you must support at least one version''
      else Ret \<lparr>PluginCNIVersion = Current, PluginVersions = supportedVersions\<rparr>)"

definition version_Legacy :: plugin_info where
  "version_Legacy = \<lparr>PluginCNIVersion = Current, PluginVersions = [''0.1.0'', ''0.2.0'']\<rparr>"

definition version_All :: plugin_info where
  "version_All = \<lparr>PluginCNIVersion = Current,
     PluginVersions = [''0.1.0'', ''0.2.0'', ''0.3.0'', ''0.3.1'', ''0.4.0'']\<rparr>"

definition dec_plugin_info :: "json \<Rightarrow> go_error + plugin_info" where
  "dec_plugin_info j =
     bind_sum (jmembers j) (\<lambda>kvs.
     bind_sum (dec_field dec_string [] kvs ''cniVersion'') (\<lambda>v.
     bind_sum (dec_field (dec_list dec_string) [] kvs ''supportedVersions'') (\<lambda>vs.
       Inr \<lparr>PluginCNIVersion = v, PluginVersions = vs\<rparr>)))"

definition PluginDecoder_Decode :: "document \<Rightarrow> plugin_info outcome" where
  "PluginDecoder_Decode jsonBytes =
     (case bind_sum jsonBytes dec_plugin_info of
        Inl err \<Rightarrow> Fail (Msg (''decoding version info: '' @ err_text err))
      | Inr info \<Rightarrow>
          if PluginCNIVersion info = [] then Fail (Msg ''decoding version info: missing field cniVersion'')
          else if length (PluginVersions info) = 0
          then (if PluginCNIVersion info = ''0.2.0'' then PluginSupports [''0.1.0'', ''0.2.0'']
                else Fail (Msg ''decoding version info: missing field supportedVersions''))
          else Ret info)"

text \<open>
  \<open>ParseVersion\<close>: one to three decimal numbers; the missing ones are 0. The texts of the
  errors of \<open>strconv.Atoi\<close> are left out.
\<close>

definition version_part :: "string \<Rightarrow> string list \<Rightarrow> nat \<Rightarrow> go_error + int" where
  "version_part what parts i =
     (if length parts \<le> i then Inr 0
      else let (n, bad) = Atoi (parts ! i) in
        if bad then Inl (Msg (''failed to convert '' @ what @ '' version part '' @ quote (parts ! i))) else Inr n)"

definition ParseVersion :: "string \<Rightarrow> go_error + (int \<times> int \<times> int)" where
  "ParseVersion version =
     (if version = [] then Inl (Msg (''invalid version '' @ quote version @ '': the version is empty''))
      else let parts = split_on (CHR ''.'') version in
        if length parts \<ge> 4 then Inl (Msg (''invalid version '' @ quote version @ '': too many parts''))
        else bind_sum (version_part ''major'' parts 0) (\<lambda>major.
             bind_sum (version_part ''minor'' parts 1) (\<lambda>minor.
             bind_sum (version_part ''micro'' parts 2) (\<lambda>micro. Inr (major, minor, micro)))))"

definition GreaterThanOrEqualTo :: "string \<Rightarrow> string \<Rightarrow> go_error + bool" where
  "GreaterThanOrEqualTo version otherVersion =
     bind_sum (ParseVersion version) (\<lambda>(firstMajor, firstMinor, firstMicro).
     bind_sum (ParseVersion otherVersion) (\<lambda>(secondMajor, secondMinor, secondMicro).
       Inr (if firstMajor > secondMajor then True
            else if firstMajor = secondMajor
            then (if firstMinor > secondMinor then True
                  else firstMinor = secondMinor \<and> firstMicro \<ge> secondMicro)
            else False)))"

section \<open>conf.go and reconcile.go\<close>

text \<open>A configuration without a version is one of 0.1.0.\<close>

definition dec_cni_version :: "json \<Rightarrow> go_error + string" where
  "dec_cni_version j = bind_sum (jmembers j) (\<lambda>kvs. dec_field dec_string [] kvs ''cniVersion'')"

definition ConfigDecoder_Decode :: "document \<Rightarrow> go_error + string" where
  "ConfigDecoder_Decode jsonBytes =
     (case bind_sum jsonBytes dec_cni_version of
        Inl err \<Rightarrow> Inl (Msg (''decoding version from network config: '' @ err_text err))
      | Inr v \<Rightarrow> if v = [] then Inr ''0.1.0'' else Inr v)"

text \<open>\<open>ErrorIncompatible\<close>, with its details, and \<open>Reconciler.CheckRaw\<close>.\<close>

record error_incompatible =
  eiConfig :: string
  eiSupported :: "string list"

definition ErrorIncompatible_Details :: "error_incompatible \<Rightarrow> string" where
  "ErrorIncompatible_Details e =
     ''config is '' @ quote (eiConfig e) @ '', plugin supports '' @ quote_list (eiSupported e)"

definition Reconciler_CheckRaw :: "string \<Rightarrow> string list \<Rightarrow> error_incompatible option" where
  "Reconciler_CheckRaw configVersion supportedVersions =
     (if configVersion \<in> set supportedVersions then None
      else Some \<lparr>eiConfig = configVersion, eiSupported = supportedVersions\<rparr>)"

definition Reconciler_Check :: "string \<Rightarrow> plugin_info \<Rightarrow> error_incompatible option" where
  "Reconciler_Check configVersion pluginInfo = Reconciler_CheckRaw configVersion (PluginVersions pluginInfo)"

section \<open>The order of versions\<close>

datatype semver = SemVer int int int

instantiation semver :: linorder
begin

fun less_eq_semver :: "semver \<Rightarrow> semver \<Rightarrow> bool" where
  "SemVer a b c \<le> SemVer a' b' c' \<longleftrightarrow> a < a' \<or> a = a' \<and> (b < b' \<or> b = b' \<and> c \<le> c')"

definition less_semver :: "semver \<Rightarrow> semver \<Rightarrow> bool" where
  "less_semver v w \<longleftrightarrow> v \<le> w \<and> \<not> w \<le> v"

instance
proof
  fix x y z :: semver
  show "x < y \<longleftrightarrow> x \<le> y \<and> \<not> y \<le> x" by (rule less_semver_def)
  show "x \<le> x" by (cases x) simp
  show "x \<le> y \<Longrightarrow> y \<le> z \<Longrightarrow> x \<le> z" by (cases x; cases y; cases z) auto
  show "x \<le> y \<Longrightarrow> y \<le> x \<Longrightarrow> x = y" by (cases x; cases y) auto
  show "x \<le> y \<or> y \<le> x" by (cases x; cases y) auto
qed

end

text \<open>The version a text denotes.\<close>

definition sem :: "string \<Rightarrow> semver option" where
  "sem s = (case ParseVersion s of Inl _ \<Rightarrow> None | Inr (a, b, c) \<Rightarrow> Some (SemVer a b c))"

lemma GreaterThanOrEqualTo_sem:
  "sem v = Some x \<Longrightarrow> sem w = Some y \<Longrightarrow> GreaterThanOrEqualTo v w = Inr (y \<le> x)"
  by (auto simp: sem_def GreaterThanOrEqualTo_def simp del: bind_sum_Inr_iff split: sum.splits if_splits)

lemma GreaterThanOrEqualTo_Inr:
  "GreaterThanOrEqualTo v w = Inr b \<longleftrightarrow> (\<exists>x y. sem v = Some x \<and> sem w = Some y \<and> b = (y \<le> x))"
proof
  assume g: "GreaterThanOrEqualTo v w = Inr b"
  then obtain x y where "sem v = Some x" "sem w = Some y"
    by (auto simp: GreaterThanOrEqualTo_def sem_def)
  with g GreaterThanOrEqualTo_sem show "\<exists>x y. sem v = Some x \<and> sem w = Some y \<and> b = (y \<le> x)"
    by fastforce
qed (auto simp: GreaterThanOrEqualTo_sem)

definition version_text :: "nat \<Rightarrow> nat \<Rightarrow> nat \<Rightarrow> string" where
  "version_text a b c = join ''.'' (map (\<lambda>n. Itoa (int n)) [a, b, c])"

lemma dot_not_digit: "CHR ''.'' \<notin> set (dec_nat n)"
  using dec_nat_digits [of "CHR ''.''" n] by (auto simp: is_digit_def)

lemma split_version_text: "split_on (CHR ''.'') (version_text a b c) = [dec_nat a, dec_nat b, dec_nat c]"
  by (simp add: version_text_def Itoa_def split_on_append_sep split_on_no_sep dot_not_digit)

text \<open>
  \<open>ParseVersion\<close> reads what is printed: three numbers in decimal with dots between them
  are parsed to themselves.
\<close>

theorem ParseVersion_text:
  assumes "int a \<le> max_int64" "int b \<le> max_int64" "int c \<le> max_int64"
  shows "ParseVersion (version_text a b c) = Inr (int a, int b, int c)"
proof -
  have "version_text a b c \<noteq> []" by (simp add: version_text_def Itoa_def)
  then show ?thesis
    using assms by (simp add: ParseVersion_def split_version_text version_part_def Atoi_dec_nat Let_def)
qed

theorem ParseVersion_text_witness: "ParseVersion (version_text 0 3 1) = Inr (0, 3, 1)"
  using ParseVersion_text [of 0 3 1] by (simp add: max_int64_def)

text \<open>
  \<open>GreaterThanOrEqualTo\<close> is a total preorder on the texts that are versions: any two are
  comparable, and it is transitive; it reports an error exactly when one of the two texts is
  not a version.
\<close>

theorem GreaterThanOrEqualTo_preorder:
  "((\<exists>e. GreaterThanOrEqualTo v w = Inl e) \<longleftrightarrow>
      (\<exists>e. ParseVersion v = Inl e) \<or> (\<exists>e. ParseVersion w = Inl e)) \<and>
    (GreaterThanOrEqualTo v w = Inr False \<longrightarrow> GreaterThanOrEqualTo w v = Inr True) \<and>
    (GreaterThanOrEqualTo u v = Inr True \<longrightarrow> GreaterThanOrEqualTo v w = Inr True \<longrightarrow>
      GreaterThanOrEqualTo u w = Inr True)"
proof (intro conjI impI)
  have n: "sem s = None \<longleftrightarrow> (\<exists>e. ParseVersion s = Inl e)" for s
    by (auto simp: sem_def split: sum.splits)
  have "(\<exists>e. r = Inl e) \<longleftrightarrow> \<not> (\<exists>b. r = Inr b)" for r :: "go_error + bool"
    by (cases r) auto
  then have "(\<exists>e. GreaterThanOrEqualTo v w = Inl e) \<longleftrightarrow> sem v = None \<or> sem w = None"
    using GreaterThanOrEqualTo_Inr [of v w] by (metis not_Some_eq)
  then show "(\<exists>e. GreaterThanOrEqualTo v w = Inl e) \<longleftrightarrow>
      (\<exists>e. ParseVersion v = Inl e) \<or> (\<exists>e. ParseVersion w = Inl e)"
    unfolding n .
  show "GreaterThanOrEqualTo w v = Inr True" if "GreaterThanOrEqualTo v w = Inr False"
    using that linear unfolding GreaterThanOrEqualTo_Inr by blast
  show "GreaterThanOrEqualTo u w = Inr True"
    if "GreaterThanOrEqualTo u v = Inr True" "GreaterThanOrEqualTo v w = Inr True"
    using that order_trans unfolding GreaterThanOrEqualTo_Inr by (metis option.inject)
qed

theorem GreaterThanOrEqualTo_preorder_witness:
  "GreaterThanOrEqualTo (version_text 0 4 0) (version_text 0 2 0) = Inr True"
proof -
  have "GreaterThanOrEqualTo (version_text 0 4 0) (version_text 0 3 1) = Inr True"
    "GreaterThanOrEqualTo (version_text 0 3 1) (version_text 0 2 0) = Inr True"
    using ParseVersion_text [of 0 4 0] ParseVersion_text [of 0 3 1] ParseVersion_text [of 0 2 0]
    by (simp_all add: GreaterThanOrEqualTo_def max_int64_def)
  then show ?thesis
    using GreaterThanOrEqualTo_preorder [of "version_text 0 3 1" "version_text 0 2 0" "version_text 0 4 0"]
    by blast
qed

end
