(* ===== verification/Skel.thy ===== *)
theory Skel
  imports Version
begin

text \<open>
  The skeleton of a plugin (\<open>cni/pkg/skel/skel.go\<close>) and the checks on names
  (\<open>cni/pkg/utils/utils.go\<close>): the arguments from the environment, the validation of the
  request, and the dispatch to the plugin's three commands. A command runs on a world \<open>'w\<close>;
  one that does not return is \<open>None\<close>.
\<close>

section \<open>utils.go\<close>

definition is_alnum :: "char \<Rightarrow> bool" where
  "is_alnum c \<longleftrightarrow> (let n = (of_char c :: nat) in
     48 \<le> n \<and> n \<le> 57 \<or> 65 \<le> n \<and> n \<le> 90 \<or> 97 \<le> n \<and> n \<le> 122)"

text \<open>The regular expression \<open>^[a-zA-Z0-9][a-zA-Z0-9_.\-]*$\<close>.\<close>

fun cniReg :: "string \<Rightarrow> bool" where
  "cniReg [] = False"
| "cniReg (c # cs) = (is_alnum c \<and> list_all (\<lambda>c. is_alnum c \<or> c \<in> {CHR ''_'', CHR ''.'', CHR ''-''}) cs)"

definition maxInterfaceNameLength :: nat where
  "maxInterfaceNameLength = 15"

definition ValidateContainerID :: "string \<Rightarrow> go_error option" where
  "ValidateContainerID containerID =
     (if containerID = [] then Some (NewError ErrUnknownContainer ''missing containerID'' [])
      else if \<not> cniReg containerID
      then Some (NewError ErrInvalidEnvironmentVariables ''invalid characters in containerID'' containerID)
      else None)"

definition ValidateNetworkName :: "string \<Rightarrow> go_error option" where
  "ValidateNetworkName networkName =
     (if networkName = [] then Some (NewError ErrInvalidNetworkConfig ''missing network name:'' [])
      else if \<not> cniReg networkName
      then Some (NewError ErrInvalidNetworkConfig ''invalid characters found in network name'' networkName)
      else None)"

definition ValidateInterfaceName :: "string \<Rightarrow> go_error option" where
  "ValidateInterfaceName ifName =
     (if length ifName = 0 then Some (NewError ErrInvalidEnvironmentVariables ''interface name is empty'' [])
      else if length ifName > maxInterfaceNameLength
      then Some (NewError ErrInvalidEnvironmentVariables ''interface name is too long''
        (''interface name should be less than '' @ Itoa (int (maxInterfaceNameLength + 1)) @ '' characters''))
      else if ifName = ''.'' \<or> ifName = ''..''
      then Some (NewError ErrInvalidEnvironmentVariables ''interface name is . or ..'' [])
      else if list_ex (\<lambda>r. r = CHR ''/'' \<or> r = CHR '':'' \<or> is_space r) ifName
      then Some (NewError ErrInvalidEnvironmentVariables
        ''interface name contains / or : or whitespace characters'' [])
      else None)"

section \<open>The dispatcher\<close>

record cmd_args =
  ContainerID :: string
  Netns :: string
  IfName :: string
  Args :: string
  Path :: string
  StdinData :: document

text \<open>
  \<open>Stdin\<close> is the result of reading it to its end; \<open>Encode\<close> is \<open>versionInfo.Encode(Stdout)\<close>
  and \<open>Stderr\<close> prints a line.
\<close>

record 'w dispatcher =
  Getenv :: "string \<Rightarrow> string"
  Stdin :: "go_error + document"
  Encode :: "plugin_info \<Rightarrow> 'w \<Rightarrow> go_error option \<times> 'w"
  Stderr :: "string \<Rightarrow> 'w \<Rightarrow> 'w"

type_synonym 'w command = "cmd_args \<Rightarrow> 'w \<Rightarrow> (unit outcome \<times> 'w) option"

text \<open>The commands for which a variable is required.\<close>

definition reqForCmd :: "string \<Rightarrow> string \<Rightarrow> bool" where
  "reqForCmd name cmd \<longleftrightarrow>
     (if name = ''CNI_NETNS'' then cmd \<in> {''ADD'', ''CHECK''}
      else if name = ''CNI_ARGS'' then False
      else cmd \<in> {''ADD'', ''CHECK'', ''DEL''})"

definition env_vars :: "string list" where
  "env_vars = [''CNI_COMMAND'', ''CNI_CONTAINERID'', ''CNI_NETNS'', ''CNI_IFNAME'', ''CNI_ARGS'', ''CNI_PATH'']"

text \<open>The empty document that replaces standard input for \<open>VERSION\<close>.\<close>

definition empty_document :: document where
  "empty_document = Inl (Msg ''unexpected end of JSON input'')"

definition getCmdArgsFromEnv :: "'w dispatcher \<Rightarrow> go_error + (string \<times> cmd_args)" where
  "getCmdArgsFromEnv t =
     (let cmd = Getenv t ''CNI_COMMAND'';
          argsMissing = filter (\<lambda>v. Getenv t v = [] \<and> (reqForCmd v cmd \<or> v = ''CNI_COMMAND'')) env_vars
      in if length argsMissing > 0
         then Inl (NewError ErrInvalidEnvironmentVariables
           (''required env variables ['' @ join '','' argsMissing @ ''] missing'') [])
         else (case (if cmd = ''VERSION'' then Inr empty_document else Stdin t) of
             Inl err \<Rightarrow> Inl (NewError ErrIOFailure (''error reading from stdin: '' @ err_text err) [])
           | Inr stdinData \<Rightarrow>
               Inr (cmd, \<lparr>ContainerID = Getenv t ''CNI_CONTAINERID'', Netns = Getenv t ''CNI_NETNS'',
                 IfName = Getenv t ''CNI_IFNAME'', Args = Getenv t ''CNI_ARGS'', Path = Getenv t ''CNI_PATH'',
                 StdinData = stdinData\<rparr>)))"

text \<open>An error that is a \<open>*types.Error\<close> is kept, any other is wrapped.\<close>

fun wrap_error :: "unit outcome \<Rightarrow> unit outcome" where
  "wrap_error (Ret x) = Ret x"
| "wrap_error (Fail (CniErr c m d)) = Fail (CniErr c m d)"
| "wrap_error (Fail err) = Fail (NewError ErrInternal (err_text err) [])"
| "wrap_error (Panic m) = Panic m"

definition checkVersionAndCall :: "cmd_args \<Rightarrow> plugin_info \<Rightarrow> 'w command \<Rightarrow> 'w \<Rightarrow> (unit outcome \<times> 'w) option" where
  "checkVersionAndCall cmdArgs pluginVersionInfo toCall w =
     (case ConfigDecoder_Decode (StdinData cmdArgs) of
        Inl err \<Rightarrow> Some (Fail (NewError ErrDecodingFailure (err_text err) []), w)
      | Inr configVersion \<Rightarrow>
          (case Reconciler_Check configVersion pluginVersionInfo of
             Some verErr \<Rightarrow>
               Some (Fail (NewError ErrIncompatibleCNIVersion ''incompatible CNI versions''
                 (ErrorIncompatible_Details verErr)), w)
           | None \<Rightarrow> map_option (\<lambda>(r, w). (wrap_error r, w)) (toCall cmdArgs w)))"

definition dec_name :: "json \<Rightarrow> go_error + string" where
  "dec_name j = bind_sum (jmembers j) (\<lambda>kvs. dec_field dec_string [] kvs ''name'')"

definition validateConfig :: "document \<Rightarrow> go_error option" where
  "validateConfig jsonBytes =
     (case bind_sum jsonBytes dec_name of
        Inl err \<Rightarrow> Some (NewError ErrDecodingFailure (''error unmarshall network config: '' @ err_text err) [])
      | Inr name \<Rightarrow>
          if name = [] then Some (NewError ErrInvalidNetworkConfig ''missing network name'' [])
          else ValidateNetworkName name)"

text \<open>The three validations before a command, in their order.\<close>

definition validateRequest :: "cmd_args \<Rightarrow> go_error option" where
  "validateRequest cmdArgs =
     (case validateConfig (StdinData cmdArgs) of
        Some err \<Rightarrow> Some err
      | None \<Rightarrow>
          (case ValidateContainerID (ContainerID cmdArgs) of
             Some err \<Rightarrow> Some err
           | None \<Rightarrow> ValidateInterfaceName (IfName cmdArgs)))"

text \<open>The loop of \<open>CHECK\<close> over the plugin's versions.\<close>

fun check_versions :: "string list \<Rightarrow> string \<Rightarrow> go_error + bool" where
  "check_versions [] configVersion = Inr False"
| "check_versions (pluginVersion # vs) configVersion =
     (case GreaterThanOrEqualTo pluginVersion configVersion of
        Inl err \<Rightarrow> Inl err
      | Inr gtet \<Rightarrow> if gtet then Inr True else check_versions vs configVersion)"

definition pluginCheck :: "'w command \<Rightarrow> plugin_info \<Rightarrow> cmd_args \<Rightarrow> 'w \<Rightarrow> (unit outcome \<times> 'w) option" where
  "pluginCheck cmdCheck versionInfo cmdArgs w =
     (case ConfigDecoder_Decode (StdinData cmdArgs) of
        Inl err \<Rightarrow> Some (Fail (NewError ErrDecodingFailure (err_text err) []), w)
      | Inr configVersion \<Rightarrow>
          (case GreaterThanOrEqualTo configVersion ''0.4.0'' of
             Inl err \<Rightarrow> Some (Fail (NewError ErrDecodingFailure (err_text err) []), w)
           | Inr False \<Rightarrow>
               Some (Fail (NewError ErrIncompatibleCNIVersion ''config version does not allow CHECK'' []), w)
           | Inr True \<Rightarrow>
               (case check_versions (PluginVersions versionInfo) configVersion of
                  Inl err \<Rightarrow> Some (Fail (NewError ErrDecodingFailure (err_text err) []), w)
                | Inr True \<Rightarrow> checkVersionAndCall cmdArgs versionInfo cmdCheck w
                | Inr False \<Rightarrow>
                    Some (Fail (NewError ErrIncompatibleCNIVersion ''plugin version does not allow CHECK'' []), w))))"

text \<open>The field \<open>Code\<close> of a \<open>*types.Error\<close>.\<close>

fun err_code :: "go_error \<Rightarrow> nat option" where
  "err_code (CniErr c m d) = Some c"
| "err_code _ = None"

definition pluginMain ::
  "'w dispatcher \<Rightarrow> 'w command \<Rightarrow> 'w command \<Rightarrow> 'w command \<Rightarrow> plugin_info \<Rightarrow> string \<Rightarrow> 'w \<Rightarrow>
    (unit outcome \<times> 'w) option" where
  "pluginMain t cmdAdd cmdCheck cmdDel versionInfo about w =
     (case getCmdArgsFromEnv t of
        Inl err \<Rightarrow>
          if err_code err = Some ErrInvalidEnvironmentVariables \<and> Getenv t ''CNI_COMMAND'' = [] \<and> about \<noteq> []
          then Some (Ret (), Stderr t about w)
          else Some (Fail err, w)
      | Inr (cmd, cmdArgs) \<Rightarrow>
          (case (if cmd \<noteq> ''VERSION'' then validateRequest cmdArgs else None) of
             Some err \<Rightarrow> Some (Fail err, w)
           | None \<Rightarrow>
               if cmd = ''ADD'' then checkVersionAndCall cmdArgs versionInfo cmdAdd w
               else if cmd = ''CHECK'' then pluginCheck cmdCheck versionInfo cmdArgs w
               else if cmd = ''DEL'' then checkVersionAndCall cmdArgs versionInfo cmdDel w
               else if cmd = ''VERSION''
               then (case Encode t versionInfo w of
                  (Some err, w) \<Rightarrow> Some (Fail (NewError ErrIOFailure (err_text err) []), w)
                | (None, w) \<Rightarrow> Some (Ret (), w))
               else Some (Fail (NewError ErrInvalidEnvironmentVariables (''unknown CNI_COMMAND: '' @ cmd) []), w)))"

section \<open>Lemmas\<close>

lemma ValidateContainerID_None: "ValidateContainerID c = None \<longleftrightarrow> cniReg c"
  by (cases c) (simp_all add: ValidateContainerID_def)

lemma ValidateNetworkName_None: "ValidateNetworkName n = None \<longleftrightarrow> cniReg n"
  by (cases n) (simp_all add: ValidateNetworkName_def)

text \<open>An interface name the kernel accepts.\<close>

definition ifname_ok :: "string \<Rightarrow> bool" where
  "ifname_ok s \<longleftrightarrow> 1 \<le> length s \<and> length s \<le> 15 \<and> s \<noteq> ''.'' \<and> s \<noteq> ''..'' \<and>
     CHR ''/'' \<notin> set s \<and> CHR '':'' \<notin> set s \<and> (\<forall>c\<in>set s. \<not> is_space c)"

lemma if_Some_None_iff: "(if P then Some x else y) = None \<longleftrightarrow> \<not> P \<and> y = None"
  by simp

lemma ValidateInterfaceName_None: "ValidateInterfaceName s = None \<longleftrightarrow> ifname_ok s"
proof -
  have "1 \<le> length s \<longleftrightarrow> length s \<noteq> 0" "length s \<le> 15 \<longleftrightarrow> \<not> length s > 15" by linarith+
  moreover have "list_ex (\<lambda>r. r = CHR ''/'' \<or> r = CHR '':'' \<or> is_space r) s \<longleftrightarrow>
      CHR ''/'' \<in> set s \<or> CHR '':'' \<in> set s \<or> (\<exists>c\<in>set s. is_space c)"
    unfolding list_ex_iff by blast
  ultimately show ?thesis
    unfolding ValidateInterfaceName_def ifname_ok_def maxInterfaceNameLength_def
    by (simp only: if_Some_None_iff) blast
qed

lemma validateConfig_None:
  "validateConfig d = None \<longleftrightarrow> (\<exists>n. bind_sum d dec_name = Inr n \<and> cniReg n)"
  by (cases "bind_sum d dec_name") (auto simp: validateConfig_def ValidateNetworkName_None simp del: bind_sum_Inr_iff)

lemma validateRequest_None:
  "validateRequest a = None \<longleftrightarrow>
    (\<exists>n. bind_sum (StdinData a) dec_name = Inr n \<and> cniReg n) \<and> cniReg (ContainerID a) \<and> ifname_ok (IfName a)"
proof -
  have "validateRequest a = None \<longleftrightarrow> validateConfig (StdinData a) = None \<and>
      ValidateContainerID (ContainerID a) = None \<and> ValidateInterfaceName (IfName a) = None"
    by (simp add: validateRequest_def split: option.split)
  then show ?thesis
    by (simp only: validateConfig_None ValidateContainerID_None ValidateInterfaceName_None)
qed

lemma Reconciler_Check_None: "Reconciler_Check v info = None \<longleftrightarrow> v \<in> set (PluginVersions info)"
  by (simp add: Reconciler_Check_def Reconciler_CheckRaw_def)

text \<open>A command is called, with its result wrapped, or the world is as before.\<close>

lemma checkVersionAndCall_cases:
  "(\<exists>e. checkVersionAndCall a info f w = Some (Fail e, w)) \<or>
   (\<exists>v. ConfigDecoder_Decode (StdinData a) = Inr v \<and> v \<in> set (PluginVersions info) \<and>
      checkVersionAndCall a info f w = map_option (\<lambda>(r, w). (wrap_error r, w)) (f a w))"
  unfolding checkVersionAndCall_def
  by (auto simp: Reconciler_Check_None split: sum.splits option.splits)

lemma pluginCheck_cases:
  "(\<exists>e. pluginCheck f info a w = Some (Fail e, w)) \<or>
   (\<exists>v. ConfigDecoder_Decode (StdinData a) = Inr v \<and> GreaterThanOrEqualTo v ''0.4.0'' = Inr True \<and>
      pluginCheck f info a w = checkVersionAndCall a info f w)"
proof (cases "ConfigDecoder_Decode (StdinData a)")
  case (Inr v)
  then show ?thesis
    by (cases "GreaterThanOrEqualTo v ''0.4.0''"; cases "check_versions (PluginVersions info) v")
      (simp_all add: pluginCheck_def split: bool.split)
qed (simp add: pluginCheck_def)

lemma cniReg_chars: "cniReg s \<Longrightarrow> c \<in> set s \<Longrightarrow> is_alnum c \<or> c \<in> {CHR ''_'', CHR ''.'', CHR ''-''}"
  by (cases s) (auto simp: list_all_iff)

lemma cniReg_no_slash: "cniReg s \<Longrightarrow> CHR ''/'' \<notin> set s"
  using cniReg_chars [of s "CHR ''/''"] by (auto simp: is_alnum_def)

lemma getCmdArgsFromEnv_Inr:
  assumes "getCmdArgsFromEnv t = Inr (cmd, a)"
  shows "cmd = Getenv t ''CNI_COMMAND''" "ContainerID a = Getenv t ''CNI_CONTAINERID''"
    "IfName a = Getenv t ''CNI_IFNAME''" "Netns a = Getenv t ''CNI_NETNS''" "Path a = Getenv t ''CNI_PATH''"
    "cmd \<in> {''ADD'', ''CHECK''} \<Longrightarrow> Netns a \<noteq> []" "cmd \<in> {''ADD'', ''CHECK'', ''DEL''} \<Longrightarrow> Path a \<noteq> []"
proof -
  have m: "filter (\<lambda>v. Getenv t v = [] \<and> (reqForCmd v (Getenv t ''CNI_COMMAND'') \<or> v = ''CNI_COMMAND'')) env_vars = []"
    and a: "cmd = Getenv t ''CNI_COMMAND''" "ContainerID a = Getenv t ''CNI_CONTAINERID''"
      "IfName a = Getenv t ''CNI_IFNAME''" "Netns a = Getenv t ''CNI_NETNS''" "Path a = Getenv t ''CNI_PATH''"
    using assms by (auto simp: getCmdArgsFromEnv_def Let_def split: if_splits sum.splits)
  have n: "Getenv t v = [] \<Longrightarrow> v \<in> set env_vars \<Longrightarrow> \<not> reqForCmd v (Getenv t ''CNI_COMMAND'')" for v
    using m by (auto simp: filter_empty_conv)
  show "cmd = Getenv t ''CNI_COMMAND''" "ContainerID a = Getenv t ''CNI_CONTAINERID''"
    "IfName a = Getenv t ''CNI_IFNAME''" "Netns a = Getenv t ''CNI_NETNS''" "Path a = Getenv t ''CNI_PATH''"
    by (fact a)+
  show "cmd \<in> {''ADD'', ''CHECK''} \<Longrightarrow> Netns a \<noteq> []"
    using n [of "''CNI_NETNS''"] a by (auto simp: env_vars_def reqForCmd_def)
  show "cmd \<in> {''ADD'', ''CHECK'', ''DEL''} \<Longrightarrow> Path a \<noteq> []"
    using n [of "''CNI_PATH''"] a by (auto simp: env_vars_def reqForCmd_def)
qed

section \<open>Properties\<close>

text \<open>A request: its command, and a configuration of version 0.4.0 for the network \<open>net\<close>.\<close>

definition ex_dispatcher :: "string \<Rightarrow> nat dispatcher" where
  "ex_dispatcher cmd =
     \<lparr>Getenv = \<lambda>v. if v = ''CNI_COMMAND'' then cmd else if v = ''CNI_IFNAME'' then ''eth0'' else ''x1'',
      Stdin = Inr (Inr (JObj [(''cniVersion'', JStr ''0.4.0''), (''name'', JStr ''net'')])),
      Encode = \<lambda>i w. (None, w), Stderr = \<lambda>s w. w\<rparr>"

definition ex_command :: "nat command" where
  "ex_command a w = Some (Ret (), w + 1)"

text \<open>
  C21. The gate of ADD: the skeleton calls the plugin's ADD command only when the network name
  and the container ID match the pattern of the specification, the interface name is one the
  kernel accepts, network namespace and path are given, and the plugin supports the version of
  the configuration; the result is then that of the command, with its error wrapped. Otherwise
  it reports an error and nothing has happened.
\<close>

theorem pluginMain_ADD_gate:
  assumes "Getenv t ''CNI_COMMAND'' = ''ADD''"
  shows "(\<exists>e. pluginMain t cmdAdd cmdCheck cmdDel info about w = Some (Fail e, w)) \<or>
    (\<exists>a n v. getCmdArgsFromEnv t = Inr (''ADD'', a) \<and>
      bind_sum (StdinData a) dec_name = Inr n \<and> cniReg n \<and> cniReg (ContainerID a) \<and> ifname_ok (IfName a) \<and>
      Netns a \<noteq> [] \<and> Path a \<noteq> [] \<and>
      ConfigDecoder_Decode (StdinData a) = Inr v \<and> v \<in> set (PluginVersions info) \<and>
      pluginMain t cmdAdd cmdCheck cmdDel info about w =
        map_option (\<lambda>(r, w). (wrap_error r, w)) (cmdAdd a w))"
proof (cases "getCmdArgsFromEnv t")
  case (Inl err)
  then show ?thesis using assms by (simp add: pluginMain_def)
next
  case (Inr ca)
  obtain cmd a where ca: "ca = (cmd, a)" by (cases ca)
  note env = getCmdArgsFromEnv_Inr [OF Inr [unfolded ca]]
  have cmd: "cmd = ''ADD''" using env(1) assms by simp
  show ?thesis
  proof (cases "validateRequest a")
    case (Some e)
    then show ?thesis using Inr ca cmd by (simp add: pluginMain_def)
  next
    case None
    then have "pluginMain t cmdAdd cmdCheck cmdDel info about w = checkVersionAndCall a info cmdAdd w"
      using Inr ca cmd by (simp add: pluginMain_def)
    then show ?thesis
      using checkVersionAndCall_cases [of a info cmdAdd w] None [unfolded validateRequest_None] Inr ca cmd env(6,7)
      by (auto simp del: bind_sum_Inr_iff)
  qed
qed

theorem pluginMain_ADD_gate_witness:
  "\<exists>a. getCmdArgsFromEnv (ex_dispatcher ''ADD'') = Inr (''ADD'', a) \<and> cniReg (ContainerID a) \<and>
    pluginMain (ex_dispatcher ''ADD'') ex_command ex_command ex_command version_All [] 0 = Some (Ret (), 1)"
proof -
  have r: "pluginMain (ex_dispatcher ''ADD'') ex_command ex_command ex_command version_All [] 0 = Some (Ret (), 1)"
    by code_simp
  have "Getenv (ex_dispatcher ''ADD'') ''CNI_COMMAND'' = ''ADD''" by (simp add: ex_dispatcher_def)
  from pluginMain_ADD_gate [OF this, of ex_command ex_command ex_command version_All "[]" 0] r
  show ?thesis by auto
qed

text \<open>
  With the versions of this plugin (\<open>version.All\<close>), CHECK is called for configurations
  of version 0.4.0 and no other.
\<close>

theorem pluginMain_CHECK_version:
  assumes "Getenv t ''CNI_COMMAND'' = ''CHECK''"
  shows "(\<exists>e. pluginMain t cmdAdd cmdCheck cmdDel version_All about w = Some (Fail e, w)) \<or>
    (\<exists>a. getCmdArgsFromEnv t = Inr (''CHECK'', a) \<and> ConfigDecoder_Decode (StdinData a) = Inr ''0.4.0'' \<and>
      pluginMain t cmdAdd cmdCheck cmdDel version_All about w =
        map_option (\<lambda>(r, w). (wrap_error r, w)) (cmdCheck a w))"
proof (cases "getCmdArgsFromEnv t")
  case (Inl err)
  then show ?thesis using assms by (simp add: pluginMain_def)
next
  case (Inr ca)
  obtain cmd a where ca: "ca = (cmd, a)" by (cases ca)
  have cmd: "cmd = ''CHECK''" using getCmdArgsFromEnv_Inr(1) [OF Inr [unfolded ca]] assms by simp
  show ?thesis
  proof (cases "validateRequest a")
    case (Some e)
    then show ?thesis using Inr ca cmd by (simp add: pluginMain_def)
  next
    case None
    then have p: "pluginMain t cmdAdd cmdCheck cmdDel version_All about w = pluginCheck cmdCheck version_All a w"
      using Inr ca cmd by (simp add: pluginMain_def)
    have old: "GreaterThanOrEqualTo v ''0.4.0'' = Inr False" if "v \<in> {''0.1.0'', ''0.2.0'', ''0.3.0'', ''0.3.1''}" for v
      using that by (elim insertE emptyE; simp; code_simp)
    consider e where "pluginCheck cmdCheck version_All a w = Some (Fail e, w)"
      | v where "ConfigDecoder_Decode (StdinData a) = Inr v" "GreaterThanOrEqualTo v ''0.4.0'' = Inr True"
          "pluginCheck cmdCheck version_All a w = checkVersionAndCall a version_All cmdCheck w"
      using pluginCheck_cases [of cmdCheck version_All a w] by blast
    then show ?thesis
    proof cases
      case (2 v)
      with checkVersionAndCall_cases [of a version_All cmdCheck w] old [of v]
      show ?thesis using p Inr ca cmd by (auto simp: version_All_def)
    next
      case (1 e)
      then show ?thesis using p by simp
    qed
  qed
qed

theorem pluginMain_CHECK_version_witness:
  "\<exists>a. getCmdArgsFromEnv (ex_dispatcher ''CHECK'') = Inr (''CHECK'', a) \<and>
    ConfigDecoder_Decode (StdinData a) = Inr ''0.4.0'' \<and>
    pluginMain (ex_dispatcher ''CHECK'') ex_command ex_command ex_command version_All [] 0 = Some (Ret (), 1)"
proof -
  have r: "pluginMain (ex_dispatcher ''CHECK'') ex_command ex_command ex_command version_All [] 0 = Some (Ret (), 1)"
    by code_simp
  have "Getenv (ex_dispatcher ''CHECK'') ''CNI_COMMAND'' = ''CHECK''" by (simp add: ex_dispatcher_def)
  from pluginMain_CHECK_version [OF this, of ex_command ex_command ex_command "[]" 0] r
  show ?thesis by auto
qed

end
