(* ===== verification/Kipam.thy ===== *)
theory Kipam
  imports Config Dns Skel
begin

text \<open>
  The plugin's commands (\<open>lib/cni.go\<close>, \<open>lib/k8s.go\<close>, \<open>kube-ipam.go\<close>). The log is left out.
  What the code reaches outside itself is the record \<open>node\<close>: files, the Kubernetes client
  library, the etcd client library, and the order in which Go iterates over a map.
\<close>

section \<open>The node\<close>

text \<open>
  \<open>nd_order i l\<close> is the order in which the \<open>i\<close>-th iteration over the map with the entries
  \<open>l\<close> visits them; \<open>nd_marshal\<close> is \<open>json.Marshal\<close> on the ranges.
\<close>

record ('e, 't, 'r, 'c) node =
  nd_ReadFile :: "string \<Rightarrow> go_error + string"
  nd_RESTConfig :: "string \<Rightarrow> go_error + 'r"
  nd_NewForConfig :: "'r \<Rightarrow> go_error + 'c"
  nd_GetPod :: "'c \<Rightarrow> string \<Rightarrow> string \<Rightarrow> go_error + (string \<rightharpoonup> string)"
  nd_ClientConfig :: "string \<Rightarrow> string \<Rightarrow> string \<Rightarrow> go_error + 't"
  nd_etcdNew :: "'t client_conf \<Rightarrow> go_error + 'e etcd"
  nd_marshal :: "range_set list \<Rightarrow> string"
  nd_order :: "nat \<Rightarrow> (string \<times> net_ip) list \<Rightarrow> (string \<times> net_ip) list"

section \<open>lib/k8s.go\<close>

definition K8sArgs :: container where
  "K8sArgs = CommonArgs @ [(''IP'', FIP []), (''K8S_POD_NAME'', FStr []), (''K8S_POD_NAMESPACE'', FStr []),
     (''K8S_POD_INFRA_CONTAINER_ID'', FStr [])]"

definition NewClient :: "('e, 't, 'r, 'c) node \<Rightarrow> string \<Rightarrow> go_error + 'c" where
  "NewClient nd kubeCfg =
     bind_sum (nd_ReadFile nd kubeCfg) (\<lambda>kubeconfig.
     bind_sum (nd_RESTConfig nd kubeconfig) (nd_NewForConfig nd))"

definition GetPodInfo :: "('e, 't, 'r, 'c) node \<Rightarrow> 'c \<Rightarrow> string \<Rightarrow> string \<Rightarrow> go_error + (string \<rightharpoonup> string)" where
  "GetPodInfo nd client podName podNamespace = nd_GetPod nd client podNamespace podName"

section \<open>lib/cni.go\<close>

definition static_ipv4_annotation :: string where "static_ipv4_annotation = ''kube-ipam.ip''"
definition static_netmask_annotation :: string where "static_netmask_annotation = ''kube-ipam.netmask''"
definition static_gateway_annotation :: string where "static_gateway_annotation = ''kube-ipam.gateway''"

text \<open>A string field of an argument struct, and a lookup in a Go map of strings.\<close>

definition str_field :: "string \<Rightarrow> container \<Rightarrow> string" where
  "str_field k v = (case GetKeyField k v of Some (FStr s) \<Rightarrow> s | _ \<Rightarrow> [])"

definition lookup :: "(string \<rightharpoonup> string) \<Rightarrow> string \<Rightarrow> string" where
  "lookup m k = (case m k of None \<Rightarrow> [] | Some v \<Rightarrow> v)"

text \<open>An error of \<open>GetPodInfo\<close> is dropped: the annotations are then the nil map.\<close>

definition LoadIPFromPodAnnotation ::
  "('e, 't, 'r, 'c) node \<Rightarrow> string \<Rightarrow> string \<Rightarrow> (string \<times> string \<times> string) outcome" where
  "LoadIPFromPodAnnotation nd args kubeCfg =
     (case LoadArgs args K8sArgs of
        (Fail err, _) \<Rightarrow> Fail err
      | (Panic m, _) \<Rightarrow> Panic m
      | (Ret _, k8sArgs) \<Rightarrow>
          (case NewClient nd kubeCfg of
             Inl err \<Rightarrow> Fail err
           | Inr client \<Rightarrow>
               (let annotations =
                  (case GetPodInfo nd client (str_field ''K8S_POD_NAME'' k8sArgs)
                      (str_field ''K8S_POD_NAMESPACE'' k8sArgs) of
                     Inl err \<Rightarrow> Map.empty | Inr m \<Rightarrow> m)
                in Ret (lookup annotations static_ipv4_annotation, lookup annotations static_netmask_annotation,
                        lookup annotations static_gateway_annotation))))"

subsection \<open>Fixed addresses\<close>

text \<open>
  Netmask parts are numbers whose errors are ignored, cut to a byte; fewer than four parts are
  an index out of range.
\<close>

definition fixed_ips :: "string \<Rightarrow> string \<Rightarrow> string \<Rightarrow> ip_config list outcome" where
  "fixed_ips podIp podNetmask podGateway =
     (let podIpArray = split_on (CHR '','') podIp;
          podNetmaskArray = split_on (CHR ''.'') podNetmask;
          part = (\<lambda>i. word_of_int (fst (Atoi (podNetmaskArray ! i))) :: byte)
      in if length podNetmaskArray < 4 then Panic ''index out of range''
         else Ret (map (\<lambda>s. \<lparr>Version = ''4'', Interface = None,
                  Address = \<lparr>IP = ParseIP s, Mask = [part 0, part 1, part 2, part 3]\<rparr>,
                  ConfGateway = ParseIP podGateway\<rparr>) podIpArray))"

subsection \<open>Random addresses\<close>

text \<open>The map of the requested addresses, as the list of its entries.\<close>

definition requested_ips :: "net_ip list \<Rightarrow> (string \<times> net_ip) list" where
  "requested_ips ips = foldl (\<lambda>m ip. AList.update (ip_String ip) ip m) [] ips"

text \<open>Give back what the allocators have allocated, ignoring errors.\<close>

fun release_allocs :: "'s store \<Rightarrow> string \<Rightarrow> ip_allocator list \<Rightarrow> 's \<Rightarrow> 's" where
  "release_allocs S cid [] s = s"
| "release_allocs S cid (a # as) s = release_allocs S cid as (snd (IPAllocator_Release S a cid s))"

text \<open>
  The loop over the range sets, from index \<open>idx\<close> on: the requested addresses that are left,
  the allocators used and the addresses allocated so far.
\<close>

fun alloc_ranges ::
  "'s store \<Rightarrow> (nat \<Rightarrow> (string \<times> net_ip) list \<Rightarrow> (string \<times> net_ip) list) \<Rightarrow> string \<Rightarrow> nat \<Rightarrow>
    range_set list \<Rightarrow> (string \<times> net_ip) list \<Rightarrow> ip_allocator list \<Rightarrow> ip_config list \<Rightarrow> 's \<Rightarrow>
    (ip_config list outcome \<times> 's) option" where
  "alloc_ranges S order cid idx [] requestedIPs allocs ips s =
     (if length requestedIPs \<noteq> 0 then
        Some (Fail (Msg (''failed to allocate all requested IPs:'' @
                concat (map (\<lambda>(k, ip). '' '' @ ip_String ip) (order idx requestedIPs)))),
              release_allocs S cid allocs s)
      else Some (Ret ips, s))"
| "alloc_ranges S order cid idx (rs # rest) requestedIPs allocs ips s =
     (let allocator = NewIPAllocator rs (int idx);
          found = find (\<lambda>(k, ip). RangeSet_Contains rs ip) (order idx requestedIPs);
          requestedIP = (case found of None \<Rightarrow> [] | Some (k, ip) \<Rightarrow> ip);
          requestedIPs = (case found of None \<Rightarrow> requestedIPs | Some (k, ip) \<Rightarrow> AList.delete k requestedIPs)
      in case IPAllocator_Get S allocator cid requestedIP s of
           None \<Rightarrow> None
         | Some (Panic m, s) \<Rightarrow> Some (Panic m, s)
         | Some (Fail err, s) \<Rightarrow>
             Some (Fail (Msg (''failed to allocate for range '' @ Itoa (int idx) @ '': '' @ err_text err)),
                   release_allocs S cid allocs s)
         | Some (Ret ipConf, s) \<Rightarrow>
             alloc_ranges S order cid (idx + 1) rest requestedIPs (allocs @ [allocator]) (ips @ [ipConf]) s)"

subsection \<open>The commands\<close>

text \<open>\<open>etcd.New\<close> for a configuration; a missing \<open>etcdConfig\<close> is a nil pointer.\<close>

definition open_store ::
  "('e, 't, 'r, 'c) node \<Rightarrow> ipam_config \<Rightarrow> 'e \<Rightarrow> 'e store outcome \<times> 'e" where
  "open_store nd ipamConf e =
     (case icEtcdConfig ipamConf of
        None \<Rightarrow> (Panic ''invalid memory address or nil pointer dereference'', e)
      | Some c \<Rightarrow> etcd_New (connectStore (nd_ClientConfig nd) (nd_etcdNew nd) c) (icName ipamConf)
                   (nd_marshal nd (icRanges ipamConf)) e)"

definition kube_config :: "ipam_config \<Rightarrow> string" where
  "kube_config ipamConf =
     (if icKubeConfig ipamConf \<noteq> [] then icKubeConfig ipamConf else ''/etc/kubernetes/pki/kubectl.kubeconfig'')"

text \<open>\<open>types.PrintResult\<close>: the result as printed.\<close>

definition PrintResult :: "cni_result \<Rightarrow> string \<Rightarrow> go_error + cni_result" where
  "PrintResult result version = GetAsVersion result version"

definition finish_add :: "ipam_config \<Rightarrow> string \<Rightarrow> dns_conf \<Rightarrow> ip_config list \<Rightarrow> cni_result outcome" where
  "finish_add ipamConf confVersion dns ips =
     outcome_of (PrintResult
       (RCur \<lparr>CNIVersion = [], Interfaces = [], IPs = ips, Routes = icRoutes ipamConf, DNS = dns\<rparr>) confVersion)"

definition load_dns :: "('e, 't, 'r, 'c) node \<Rightarrow> ipam_config \<Rightarrow> go_error + dns_conf" where
  "load_dns nd ipamConf =
     (if icResolvConf ipamConf \<noteq> [] then parseResolvConf (nd_ReadFile nd) (icResolvConf ipamConf)
      else Inr empty_dns)"

text \<open>An error of \<open>LoadIPFromPodAnnotation\<close> is only logged.\<close>

definition CmdAdd ::
  "('e, 't, 'r, 'c) node \<Rightarrow> cmd_args \<Rightarrow> 'e \<Rightarrow> (cni_result outcome \<times> 'e) option" where
  "CmdAdd nd args e =
     (case LoadIPAMConfig (StdinData args) (Args args) of
        Fail err \<Rightarrow> Some (Fail err, e)
      | Panic m \<Rightarrow> Some (Panic m, e)
      | Ret (ipamConf, confVersion) \<Rightarrow>
          (case LoadIPFromPodAnnotation nd (Args args) (kube_config ipamConf) of
             Panic m \<Rightarrow> Some (Panic m, e)
           | ann \<Rightarrow>
               (let (podIp, podNetmask, podGateway) = (case ann of Ret x \<Rightarrow> x | _ \<Rightarrow> ([], [], []))
                in case load_dns nd ipamConf of
                  Inl err \<Rightarrow> Some (Fail err, e)
                | Inr dns \<Rightarrow>
                    (case open_store nd ipamConf e of
                       (Fail err, e) \<Rightarrow> Some (Fail err, e)
                     | (Panic m, e) \<Rightarrow> Some (Panic m, e)
                     | (Ret S, e) \<Rightarrow>
                         map_option (\<lambda>(ips, e). (case ips of
                              Fail err \<Rightarrow> Fail err | Panic m \<Rightarrow> Panic m
                            | Ret ips \<Rightarrow> finish_add ipamConf confVersion dns ips, e))
                           (if podIp \<noteq> [] then Some (fixed_ips podIp podNetmask podGateway, e)
                            else alloc_ranges S (nd_order nd) (ContainerID args) 0 (icRanges ipamConf)
                                   (requested_ips (icIPArgs ipamConf)) [] [] e)))))"

text \<open>The loop of \<open>CmdDel\<close>: every range set is tried, the errors are collected.\<close>

fun release_sets :: "'s store \<Rightarrow> string \<Rightarrow> nat \<Rightarrow> range_set list \<Rightarrow> 's \<Rightarrow> string list \<times> 's" where
  "release_sets S cid idx [] s = ([], s)"
| "release_sets S cid idx (rs # rest) s =
     (case IPAllocator_Release S (NewIPAllocator rs (int idx)) cid s of
        (err, s) \<Rightarrow>
          (case release_sets S cid (idx + 1) rest s of
             (errors, s) \<Rightarrow> ((case err of None \<Rightarrow> [] | Some e \<Rightarrow> [err_text e]) @ errors, s)))"

definition CmdDel :: "('e, 't, 'r, 'c) node \<Rightarrow> cmd_args \<Rightarrow> 'e \<Rightarrow> unit outcome \<times> 'e" where
  "CmdDel nd args e =
     (case LoadIPAMConfig (StdinData args) (Args args) of
        Fail err \<Rightarrow> (Fail err, e)
      | Panic m \<Rightarrow> (Panic m, e)
      | Ret (ipamConf, _) \<Rightarrow>
          (case open_store nd ipamConf e of
             (Fail err, e) \<Rightarrow> (Fail err, e)
           | (Panic m, e) \<Rightarrow> (Panic m, e)
           | (Ret S, e) \<Rightarrow>
               (case release_sets S (ContainerID args) 0 (icRanges ipamConf) e of
                  (errors, e) \<Rightarrow> (if errors \<noteq> [] then Fail (Msg (join '';'' errors)) else Ret (), e))))"

definition CmdCheck :: "cmd_args \<Rightarrow> unit outcome" where
  "CmdCheck args =
     (case LoadIPAMConfig (StdinData args) (Args args) of
        Fail err \<Rightarrow> Fail err | Panic m \<Rightarrow> Panic m | Ret _ \<Rightarrow> Ret ())"

section \<open>kube-ipam.go\<close>

text \<open>\<open>buildversion.go\<close>; the linker may set another version.\<close>

definition BuildVersion :: string where "BuildVersion = ''version unknown''"

definition BuildString :: "string \<Rightarrow> string \<Rightarrow> string" where
  "BuildString pluginName version = ''CNI '' @ pluginName @ '' plugin '' @ version"

text \<open>
  The plugin: the world is the cluster and the results printed. An error that \<open>PluginMain\<close>
  reports, it prints and exits with status 1.
\<close>

definition kube_ipam ::
  "('e, 't, 'r, 'c) node \<Rightarrow> ('e \<times> cni_result list) dispatcher \<Rightarrow> 'e \<times> cni_result list \<Rightarrow>
    (unit outcome \<times> 'e \<times> cni_result list) option" where
  "kube_ipam nd t w =
     pluginMain t
       (\<lambda>args (e, out). map_option (\<lambda>(r, e). case r of
            Ret x \<Rightarrow> (Ret (), e, out @ [x]) | Fail err \<Rightarrow> (Fail err, e, out) | Panic m \<Rightarrow> (Panic m, e, out))
          (CmdAdd nd args e))
       (\<lambda>args w. Some (CmdCheck args, w))
       (\<lambda>args (e, out). case CmdDel nd args e of (r, e) \<Rightarrow> Some (r, e, out))
       version_All (BuildString ''kube-ipam'' BuildVersion) w"

end
