(* ===== verification/Properties_Alloc.thy ===== *)
theory Properties_Alloc
  imports Etcd Properties_Ranges
begin

text \<open>
  The properties of the allocator on the etcd store, and the behaviour of its lock.
\<close>

section \<open>The cluster in memory\<close>

lemma etcd_store_simps [simp]:
  "st_Lock (etcd_store E P) = etcd_Lock E P" "st_Unlock (etcd_store E P) = etcd_Unlock E P"
  "st_Close (etcd_store E P) = etcd_Close" "st_Reserve (etcd_store E P) = etcd_Reserve E P"
  "st_LastReservedIP (etcd_store E P) = etcd_LastReservedIP E P"
  "st_Release (etcd_store E P) = etcd_Release E P" "st_ReleaseByID (etcd_store E P) = etcd_ReleaseByID E P"
  by (simp_all add: etcd_store_def)

lemma mem_client_simps [simp]:
  "ec_Get mem_client k e = (Inr (case mem_kvs e k of None \<Rightarrow> [] | Some v \<Rightarrow> [(k, v)]), e)"
  "ec_Put mem_client k v e = (None, e\<lparr>m_keys := AList.update k (v, None) (m_keys e)\<rparr>)"
  "ec_Delete mem_client k e = (None, e\<lparr>m_keys := AList.delete k (m_keys e)\<rparr>)"
  "ec_Grant mem_client ttl e = (Inr (m_next e), e\<lparr>m_next := m_next e + 1\<rparr>)"
  "ec_PutIfAbsent mem_client k v lid e = (if mem_kvs e k \<noteq> None then (Inr False, e)
     else (Inr True, e\<lparr>m_keys := AList.update k (v, Some lid) (m_keys e)\<rparr>))"
  "ec_Revoke mem_client lid e =
     (None, e\<lparr>m_keys := filter (\<lambda>(k, _). mem_leased e k \<noteq> Some lid) (m_keys e)\<rparr>)"
  "ec_Sleep mem_client n e = e"
  by (simp_all add: mem_client_def)

lemma mem_Reserve_total: "\<exists>b. fst (etcd_Reserve mem_client P cid ip rid e) = Inr b"
  by (auto simp: etcd_Reserve_def Let_def split: option.splits)

lemma mem_GetPrefix: "\<exists>l. ec_GetPrefix mem_client p e = (Inr l, e)"
  by (simp add: mem_client_def)

abbreviation "mem_used \<equiv> etcd_used mem_kvs mem_leased mem_prefix"
abbreviation "mem_last \<equiv> etcd_last mem_kvs mem_leased mem_prefix"
abbreviation "mem_inv \<equiv> etcd_inv mem_leased mem_prefix"
abbreviation "mem_store \<equiv> etcd_store mem_client mem_prefix"

lemma mem_views_next:
  "mem_used (e\<lparr>m_next := n\<rparr>) = mem_used e" "mem_last (e\<lparr>m_next := n\<rparr>) = mem_last e"
  unfolding etcd_used_def etcd_last_def durable_def mem_updates by (rule refl)+

lemma mem_views_lock:
  "mem_used (e\<lparr>m_keys := AList.update (lock_key mem_prefix) (v, l) (m_keys e)\<rparr>) = mem_used e"
  "mem_last (e\<lparr>m_keys := AList.update (lock_key mem_prefix) (v, l) (m_keys e)\<rparr>) = mem_last e"
  unfolding etcd_used_def etcd_last_def durable_def mem_updates by (simp_all cong: if_cong)

lemma mem_lock_loop_views:
  "mem_used (snd (lock_loop mem_client mem_prefix n e)) = mem_used e \<and>
   mem_last (snd (lock_loop mem_client mem_prefix n e)) = mem_last e"
proof (induction n arbitrary: e)
  case (Suc n)
  show ?case
    using Suc mem_views_lock [where e = "e\<lparr>m_next := m_next e + 1\<rparr>"] by (simp add: mem_views_next)
qed simp

lemma mem_Lock_views:
  "mem_used (snd (etcd_Lock mem_client mem_prefix e)) = mem_used e"
  "mem_last (snd (etcd_Lock mem_client mem_prefix e)) = mem_last e"
  using mem_lock_loop_views by (simp_all add: etcd_Lock_def)

lemma mem_empty_views [simp]:
  "mem_inv mem_empty" "mem_used mem_empty = Map.empty" "mem_last mem_empty = Map.empty"
  by (simp_all add: mem_empty_def etcd_inv_def etcd_used_def etcd_last_def durable_def mem_kvs_def
      mem_leased_def fun_eq_iff)

lemma next_pos_single: "length rs = 1 \<Longrightarrow> is_pos rs p \<Longrightarrow> fst (next_pos rs p) = fst p"
  by (auto simp: next_pos_def is_pos_def Let_def)

lemma last_pos_single:
  assumes "set_ok [r]" "last_pos [r] res = Some p"
  shows "fst (next_pos [r] p) = fst p"
proof -
  obtain ip where "res = Inr ip" using assms(2) by (cases res) (auto simp: last_pos_def)
  then have "is_pos [r] p" using last_pos_Some(1) [OF assms(1)] assms(2) by simp
  then show ?thesis by (simp add: next_pos_single)
qed

text \<open>On an empty cluster there is an address to allocate.\<close>

definition alloc24 :: ip_allocator where
  "alloc24 = NewIPAllocator [range24] 0"

lemma alloc24_simps [simp]: "al_rangeset alloc24 = [range24]"
  by (simp add: alloc24_def NewIPAllocator_def)

lemma ex_pos: "is_pos [range24] (0, 167838210)" "\<not> is_gateway [range24] (0, 167838210)"
proof -
  have a: "addr_at [range24] (0, 167838210) = [10,1,2,2]"
    using addr_bytes_be_nat [of "[10,1,2,2]" 4] by (simp add: addr_at_def ex_fam)
  have "Gateway range24 = [10,1,2,1]" by (simp add: range24_def)
  then show "\<not> is_gateway [range24] (0, 167838210)"
    by (simp add: is_gateway_def a ip_Equal_canonical canonical_def)
  show "is_pos [range24] (0, 167838210)"
    by (simp add: is_pos_def lo_def hi_def) (simp add: range24_def)
qed

lemma ex_Get: "\<exists>conf s'. IPAllocator_Get mem_store alloc24 ''c1'' [] mem_empty = Some (Ret conf, s')"
  by (rule mem_net.Get_exhausted [OF _ _ _ _ _ ex_pos [folded alloc24_simps]])
    (simp_all add: mem_Reserve_total last_pos_single [OF ex_set_ok(1)] mem_Lock_views)

section \<open>Allocation\<close>

text \<open>
  C5. Round robin. \<open>Get\<close> without a requested address is the reference search
  \<open>Get_reference\<close>: lock, read the last reserved address, try every address that is not a
  gateway once, in cyclic order from the one after the last reserved (or from the beginning),
  reserve the first that is free, unlock. In particular it returns. The hypothesis excludes
  the case of \<open>Get_diverges_after_range_end\<close>, a last reserved address at the end of a range that is followed by another.
\<close>

theorem Get_round_robin:
  assumes "set_ok (al_rangeset a)"
    and "\<And>p. last_pos (al_rangeset a) (fst (st_LastReservedIP S (al_rangeID a) (snd (st_Lock S s)))) = Some p
      \<Longrightarrow> fst (next_pos (al_rangeset a) p) = fst p"
  shows "IPAllocator_Get S a cid [] s = Some (Get_reference S a cid s)"
  by (rule IPAllocator_Get_reference [OF assms(1)]) (rule assms(2))

theorem Get_round_robin_witness:
  "IPAllocator_Get mem_store alloc24 ''c1'' [] mem_empty =
    Some (Get_reference mem_store alloc24 ''c1'' mem_empty)"
  by (rule Get_round_robin) (simp_all add: last_pos_single [OF ex_set_ok(1)])

text \<open>
  C4. What \<open>Get\<close> returns, with or without a requested address, on any etcd cluster: an address
  of one of the ranges with that range's mask and gateway, which is not the gateway and was not
  reserved after \<open>Lock\<close>; afterwards it is reserved for the container and is the last reserved
  address, and no other reservation of the network has changed. A requested address is the
  one returned.
\<close>

theorem Get_grants_free_address:
  assumes "etcd_network E kvs leased P name" "set_ok (al_rangeset a)" "etcd_inv leased P s"
    and "IPAllocator_Get (etcd_store E P) a cid req s = Some (Ret conf, s')"
  shows "(let ip = IP (Address conf); s1 = snd (etcd_Lock E P s) in
    etcd_used kvs leased P s1 (ip_String ip) = None \<and>
    etcd_used kvs leased P s' = (etcd_used kvs leased P s1)(ip_String ip \<mapsto> cid) \<and>
    etcd_last kvs leased P s' = (etcd_last kvs leased P s1)(al_rangeID a \<mapsto> ip_String ip) \<and>
    (\<exists>r\<in>set (al_rangeset a). Range_Contains r ip \<and> Mask (Address conf) = Mask (Subnet r) \<and>
      ConfGateway conf = Gateway r \<and> \<not> ip_Equal ip (Gateway r)) \<and>
    (req \<noteq> [] \<longrightarrow> canonicalizeIP req = Inr ip))"
proof -
  note st = etcd_network.is_store [OF assms(1)]
  show ?thesis
    using ip_store.Get_ok [OF st assms(2-4)] by (simp add: ip_store.granted_def [OF st] Let_def)
qed

theorem Get_grants_free_address_witness:
  "\<exists>conf s'. IPAllocator_Get mem_store alloc24 ''c1'' [] mem_empty = Some (Ret conf, s') \<and>
    mem_used s' = [ip_String (IP (Address conf)) \<mapsto> ''c1''] \<and>
    Range_Contains range24 (IP (Address conf))"
proof -
  obtain conf s' where g: "IPAllocator_Get mem_store alloc24 ''c1'' [] mem_empty = Some (Ret conf, s')"
    using ex_Get by blast
  show ?thesis
    using Get_grants_free_address [OF mem_net.etcd_network_axioms _ _ g] g
    by (simp add: mem_Lock_views Let_def)
qed




text \<open>The set of \<open>range_a\<close> and \<open>range_b\<close> with all four addresses taken.\<close>

definition alloc_ab :: ip_allocator where
  "alloc_ab = NewIPAllocator [range_a, range_b] 0"

definition mem_full :: mem_etcd where
  "mem_full =
     \<lparr>m_keys = (last_key mem_prefix (al_rangeID alloc_ab), (ip_String [10,1,2,11], None)) #
        map (\<lambda>b. (used_key mem_prefix (ip_String [10,1,2,b]), (''c0'', None))) [10,11,20,21], m_next = 1\<rparr>"

lemma mem_full_views:
  "mem_inv mem_full" "mem_last mem_full (al_rangeID alloc_ab) = Some (ip_String [10,1,2,11])"
  "b \<in> {10,11,20,21} \<Longrightarrow> mem_used mem_full (ip_String [10,1,2,b]) \<noteq> None"
  by (auto simp: mem_full_def etcd_inv_def etcd_used_def etcd_last_def durable_def mem_kvs_def mem_leased_def)

lemma four_addresses:
  "length x = 4 \<Longrightarrow> be_nat [10,1,2,b] \<le> be_nat x \<Longrightarrow> be_nat x \<le> be_nat [10,1,2,b + 1] \<Longrightarrow>
    unat b < 255 \<Longrightarrow> x = [10,1,2,b] \<or> x = [10,1,2,b + 1]"
proof -
  assume a: "length x = 4" "be_nat [10,1,2,b] \<le> be_nat x" "be_nat x \<le> be_nat [10,1,2,b + 1]" "unat b < 255"
  have "unat (b + 1) = unat b + 1" using a(4) by (simp add: unat_word_ariths)
  then have "be_nat x = be_nat [10,1,2,b] \<or> be_nat x = be_nat [10,1,2,b + 1]" using a by auto
  moreover have "length x = length [10,1,2,b]" "length x = length [10,1,2,b + 1]" using a(1) by simp_all
  ultimately show ?thesis using be_nat_inject by blast
qed

lemma ex_last_pos:
  "last_pos [range_a, range_b] (Inr (ParseIP (ip_String [10,1,2,11]))) =
    Some (0, be_nat (RangeEnd ([range_a, range_b] ! 0)))"
proof -
  let ?ip = "ParseIP (ip_String [10,1,2,11])"
  have ip: "?ip = v4InV6Prefix @ [10,1,2,11]" by (simp add: ParseIP_String_v4)
  have c: "canonicalizeIP ?ip = Inr [10,1,2,11]"
    unfolding ip by (simp add: canonicalizeIP_def To4_def v4InV6Prefix_def)
  have k: "canonical [10,1,2,11]" by (simp add: canonical_def)
  have "Range_Contains range_a [10,1,2,11]"
    by (subst Range_Contains_ok) (simp_all add: ex_fam lo_def hi_def canonical_def, simp_all add: range_a_def)
  then have r: "Range_Contains range_a ?ip"
    using Range_Contains_canonicalize [OF c] by simp
  then have "RangeSet_Contains [range_a, range_b] ?ip"
    using c Range_Contains_canonicalize [OF c] by (auto simp: RangeSet_Contains_iff)
  moreover have "?ip \<noteq> []" unfolding ip by simp
  moreover have "nat (ipToInt ?ip) = be_nat [10,1,2,11]"
    using ipToInt_canonicalize [OF c] ipToInt_canonical [OF k] by simp
  moreover have "RangeEnd range_a = [10,1,2,11]" by (simp add: range_a_def)
  ultimately show ?thesis using r by (simp add: last_pos_def)
qed




section \<open>The lock\<close>

text \<open>One unsuccessful try of \<open>Lock\<close>: a lease, the transaction, two seconds of sleep.\<close>

definition lock_try :: "'e etcd \<Rightarrow> string \<Rightarrow> 'e \<Rightarrow> 'e" where
  "lock_try E P e =
     (case ec_Grant E 10 e of (r, e) \<Rightarrow>
        let lid = (case r of Inl _ \<Rightarrow> 0 | Inr l \<Rightarrow> l) in
        ec_Sleep E 2 (snd (ec_PutIfAbsent E (lock_key P) (Itoa lid) lid e)))"

text \<open>
  \<open>Lock\<close> gives up: when the lock key exists at every try, it makes exactly twenty tries,
  two seconds apart, and then reports an error; each try leaves one lease behind.
\<close>

theorem Lock_gives_up:
  assumes "\<And>e. \<exists>lid. fst (ec_Grant E 10 e) = Inr lid"
    and "\<And>v lid e. fst (ec_PutIfAbsent E (lock_key P) v lid e) = Inr False"
  shows "etcd_Lock E P e = (Some (Msg ''Can not get lock''), (lock_try E P ^^ 20) e)"
proof -
  have step: "lock_loop E P (Suc n) e = lock_loop E P n (lock_try E P e)" for n e
  proof -
    obtain lid e1 where g: "ec_Grant E 10 e = (Inr lid, e1)"
      using assms(1) [of e] by (metis prod.collapse)
    obtain e2 where t: "ec_PutIfAbsent E (lock_key P) (Itoa lid) lid e1 = (Inr False, e2)"
      using assms(2) by (metis prod.collapse)
    show ?thesis by (simp add: lock_try_def g t)
  qed
  have "lock_loop E P n e = (Some (Msg ''Can not get lock''), (lock_try E P ^^ n) e)" for n
    by (induction n arbitrary: e) (simp_all add: step funpow_swap1 del: lock_loop.simps(2))
  then show ?thesis by (simp only: etcd_Lock_def)
qed

text \<open>A cluster in which every transaction on the lock key fails.\<close>

theorem Lock_gives_up_witness:
  "etcd_Lock (mem_client\<lparr>ec_PutIfAbsent := \<lambda>k v lid e. (Inr False, e)\<rparr>) mem_prefix mem_empty =
    (Some (Msg ''Can not get lock''),
     (lock_try (mem_client\<lparr>ec_PutIfAbsent := \<lambda>k v lid e. (Inr False, e)\<rparr>) mem_prefix ^^ 20) mem_empty)"
  by (rule Lock_gives_up) (simp_all add: mem_client_def)

text \<open>The lock of the network is held by lease 1 of another process.\<close>

definition mem_held :: mem_etcd where
  "mem_held = \<lparr>m_keys = [(lock_key mem_prefix, (Itoa 1, Some 1))], m_next = 2\<rparr>"

lemma mem_held_views: "mem_inv mem_held" "mem_used mem_held = Map.empty"
  by (auto simp: mem_held_def etcd_inv_def etcd_used_def durable_def mem_kvs_def mem_leased_def fun_eq_iff)

lemma mem_held_lock:
  "mem_kvs e (lock_key mem_prefix) = Some v \<Longrightarrow> mem_leased e (lock_key mem_prefix) = l \<Longrightarrow>
    fst (lock_loop mem_client mem_prefix n e) = Some (Msg ''Can not get lock'') \<and>
    mem_kvs (snd (lock_loop mem_client mem_prefix n e)) (lock_key mem_prefix) = Some v \<and>
    mem_leased (snd (lock_loop mem_client mem_prefix n e)) (lock_key mem_prefix) = l"
  by (induction n arbitrary: e) (simp_all add: mem_updates)

text \<open>What the process that could not lock does to the lock key.\<close>

definition lock_view :: "mem_etcd \<Rightarrow> string option \<times> int option" where
  "lock_view e = (mem_kvs e (lock_key mem_prefix), mem_leased e (lock_key mem_prefix))"

lemma mem_raw_updates:
  "mem_kvs (e\<lparr>m_keys := AList.update k (v, l) ks\<rparr>) x = (if x = k then Some v else mem_kvs (e\<lparr>m_keys := ks\<rparr>) x)"
  "mem_leased (e\<lparr>m_keys := AList.update k (v, l) ks\<rparr>) x = (if x = k then l else mem_leased (e\<lparr>m_keys := ks\<rparr>) x)"
  by (auto simp: mem_kvs_def mem_leased_def update_conv')

lemma lock_view_Reserve: "lock_view (snd (etcd_Reserve mem_client mem_prefix cid ip rid e)) = lock_view e"
  using key_simps(5,6) [of mem_prefix, symmetric]
  by (simp add: etcd_Reserve_def Let_def lock_view_def mem_raw_updates split: option.splits)

lemma lock_view_reserve_first:
  "lock_view (snd (reserve_first mem_store cid rid es e)) = lock_view e"
proof (induction es arbitrary: e)
  case (Cons x es)
  obtain r t where "etcd_Reserve mem_client mem_prefix cid (IP (fst x)) rid e = (r, t)"
    by (cases "etcd_Reserve mem_client mem_prefix cid (IP (fst x)) rid e")
  moreover from this have "lock_view t = lock_view e"
    using lock_view_Reserve [of cid "IP (fst x)" rid e] by simp
  ultimately show ?case using Cons.IH by (auto split: sum.splits bool.splits)
qed simp

lemma lock_view_Unlock:
  "lock_view e = (Some (Itoa lid), Some lid) \<Longrightarrow> Atoi (Itoa lid) = (lid, False) \<Longrightarrow>
    lock_view (snd (etcd_Unlock mem_client mem_prefix e)) = (None, None)"
  by (simp add: lock_view_def etcd_Unlock_def mem_updates)


end
