(* ===== verification/Addr_Text.thy ===== *)
theory Addr_Text
  imports Json Cidr
begin

text \<open>
  Networks and routes survive printing and parsing: the texts of \<open>net.IPNet\<close> and their JSON
  form in \<open>cni/pkg/types/types.go\<close>.
\<close>

section \<open>CIDR texts\<close>

lemma parse_cidr_text:
  assumes ip: "length ip = 4" and k: "k \<le> 32"
  shows "net_ParseCIDR (ip_String ip @ ''/'' @ Itoa (int k)) =
    Inr (v4InV6Prefix @ ip, \<lparr>IP = ip_Mask (v4InV6Prefix @ ip) (cidr_bytes 4 k), Mask = cidr_bytes 4 k\<rparr>)"
proof -
  have s: "ip_String ip = dotted ip" using ip by (auto simp: ip_String_def)
  obtain a b c d where p: "ip = [a, b, c, d]" using ip by (auto simp: length4_conv)
  have "CHR ''/'' \<notin> set (dotted ip)"
    using dec_nat_digits [of "CHR ''/''"] by (auto simp: p dotted_Cons dot_tail_def is_digit_def)
  then have t: "takeWhile (\<lambda>c. c \<noteq> CHR ''/'') (dotted ip @ ''/'' @ Itoa (int k)) = dotted ip"
    "dropWhile (\<lambda>c. c \<noteq> CHR ''/'') (dotted ip @ ''/'' @ Itoa (int k)) = ''/'' @ Itoa (int k)"
    by (simp_all add: takeWhile_append dropWhile_append)
  have "parse_parts 4 True (dotted ip) = Some ip"
    using parse_parts_dotted [of "[b, c, d]" 3 a] by (simp add: p)
  then have p4: "parseIPv4 (dotted ip) = v4InV6Prefix @ ip" by (simp add: parseIPv4_def)
  have ne: "ip \<noteq> []" using ip by auto
  have d: "dtoi (dec_nat k) = (k, length (dec_nat k), True)"
    using dtoi_dec_nat [of k "[]"] k by simp
  have m: "CIDRMask (int k) 32 = cidr_bytes 4 k" using k by (simp add: CIDRMask_def)
  show ?thesis
    unfolding net_ParseCIDR_def s t Let_def p4
    using ne k by (simp add: Itoa_def d m)
qed

text \<open>A network in the form the code prints: four bytes and a CIDR mask.\<close>

definition net4_ok :: "ip_net \<Rightarrow> bool" where
  "net4_ok n \<longleftrightarrow> length (IP n) = 4 \<and> (\<exists>k\<le>32. Mask n = cidr_bytes 4 k)"

lemma simpleMaskLength_bytes: "k \<le> 32 \<Longrightarrow> simpleMaskLength (cidr_bytes 4 k) = int k"
proof -
  have "list_all (\<lambda>k. simpleMaskLength (cidr_bytes 4 k) = int k) [0..<33]"
    by code_simp
  moreover assume "k \<le> 32"
  ultimately show ?thesis by (auto simp: list_all_iff)
qed

lemma types_ParseCIDR_String:
  assumes "net4_ok n"
  shows "types_ParseCIDR (IPNet_String n) = Inr (n\<lparr>IP := v4InV6Prefix @ IP n\<rparr>)"
proof -
  obtain k where k: "length (IP n) = 4" "k \<le> 32" "Mask n = cidr_bytes 4 k"
    using assms by (auto simp: net4_ok_def)
  have ne: "IP n \<noteq> []" "cidr_bytes 4 k \<noteq> []" using k(1) length_cidr_bytes [of 4 k] by (auto simp del: length_cidr_bytes)
  have nn: "networkNumberAndMask n = (IP n, cidr_bytes 4 k)"
    using k ne by (simp add: networkNumberAndMask_def Let_def)
  then have "IPNet_String n = ip_String (IP n) @ ''/'' @ Itoa (int k)"
    using ne simpleMaskLength_bytes [OF k(2)] by (simp add: IPNet_String_def)
  then show ?thesis
    using parse_cidr_text [OF k(1,2)] k(3) by (simp add: types_ParseCIDR_def)
qed

section \<open>Routes\<close>

lemma dec_ip_String: "length ip = 4 \<Longrightarrow> IP_UnmarshalText (ip_String ip) = Inr (v4InV6Prefix @ ip)"
proof -
  assume l: "length ip = 4"
  then have "ip \<noteq> []" by auto
  moreover have "ip_String ip \<noteq> []"
    using l by (auto simp: ip_String_def dotted_Cons length4_conv)
  ultimately show ?thesis using ParseIP_String_v4 [OF l] by (simp add: IP_UnmarshalText_def)
qed

text \<open>
  Round trip of a route through JSON: what \<open>Route.MarshalJSON\<close> writes for an IPv4 route,
  \<open>Route.UnmarshalJSON\<close> reads back, with the same mask and the same addresses in their
  16-byte form; a missing gateway stays missing.
\<close>

theorem Route_JSON_roundtrip:
  assumes "length (IP (Dst r)) = 4" "\<exists>k\<le>32. Mask (Dst r) = cidr_bytes 4 k" "GW r = [] \<or> length (GW r) = 4"
  shows "Route_UnmarshalJSON (Route_MarshalJSON r) =
    Inr \<lparr>Dst = (Dst r)\<lparr>IP := v4InV6Prefix @ IP (Dst r)\<rparr>, GW = (if GW r = [] then [] else v4InV6Prefix @ GW r)\<rparr>"
proof -
  have d: "types_ParseCIDR (IPNet_String (Dst r)) = Inr ((Dst r)\<lparr>IP := v4InV6Prefix @ IP (Dst r)\<rparr>)"
    using assms(1,2) by (intro types_ParseCIDR_String) (simp add: net4_ok_def)
  have k: "to_lower ''gw'' = ''gw''" "to_lower ''dst'' = ''dst''" by code_simp+
  have f: "jfield [(''dst'', x)] ''dst'' = Some x" "jfield [(''dst'', x)] ''gw'' = None"
    "jfield [(''dst'', x), (''gw'', y)] ''dst'' = Some x" "jfield [(''dst'', x), (''gw'', y)] ''gw'' = Some y" for x y
    by (simp_all add: jfield_def k)
  show ?thesis
    using assms(3) dec_ip_String [of "GW r"] d
    by (cases "GW r = []") (simp_all add: Route_MarshalJSON_def Route_UnmarshalJSON_def IPNet_MarshalJSON_def
        IPNet_UnmarshalJSON_def f)
qed

definition ex_route :: route where
  "ex_route = \<lparr>Dst = \<lparr>IP = [0,0,0,0], Mask = [0,0,0,0]\<rparr>, GW = [10,1,2,1]\<rparr>"

theorem Route_JSON_roundtrip_witness:
  "Route_UnmarshalJSON (Route_MarshalJSON ex_route) =
    Inr \<lparr>Dst = \<lparr>IP = v4InV6Prefix @ [0,0,0,0], Mask = [0,0,0,0]\<rparr>, GW = v4InV6Prefix @ [10,1,2,1]\<rparr>"
proof -
  have "cidr_bytes 4 0 = [0,0,0,0]" by code_simp
  then have "\<exists>k\<le>32. Mask (Dst ex_route) = cidr_bytes 4 k" by (intro exI [of _ 0]) (simp add: ex_route_def)
  with Route_JSON_roundtrip [of ex_route] show ?thesis by (simp add: ex_route_def)
qed

end
