(* ===== verification/Properties_Kipam.thy ===== *)
theory Properties_Kipam
  imports Kipam Properties_Alloc Addr_Text
begin

text \<open>
  The properties of the plugin's commands: what ADD allocates and gives back, what DEL
  releases, and how the configuration and the fixed addresses are handled.
\<close>

section \<open>Requested addresses\<close>

text \<open>An address configuration that comes from a range set.\<close>

definition conf_from :: "range_set \<Rightarrow> ip_config \<Rightarrow> bool" where
  "conf_from rs c \<longleftrightarrow> (\<exists>r\<in>set rs. Range_Contains r (IP (Address c)) \<and> Mask (Address c) = Mask (Subnet r) \<and>
     ConfGateway c = Gateway r \<and> \<not> ip_Equal (IP (Address c)) (Gateway r))"

definition conf_key :: "ip_config \<Rightarrow> string" where
  "conf_key c = ip_String (IP (Address c))"

lemma fst_requested: "distinct (map fst m) \<Longrightarrow> distinct (map fst (foldl (\<lambda>m ip. AList.update (f ip) ip m) m ips))"
  by (induction ips arbitrary: m) (auto simp: distinct_update)

lemma distinct_requested: "distinct (map fst (requested_ips ips))"
  by (simp add: requested_ips_def fst_requested)

lemma set_AList_delete: "set (AList.delete k m) = {(k', v) \<in> set m. k' \<noteq> k}"
  by (auto simp: AList.delete_eq)

lemma canonicalizeIP_not_Nil: "canonicalizeIP ip = Inr c \<Longrightarrow> ip \<noteq> []"
  by (auto simp: canonicalizeIP_def To4_def To16_def)

lemma find_Some_in_set: "find P xs = Some x \<Longrightarrow> x \<in> set xs \<and> P x"
  by (auto simp: find_Some_iff)

lemma set_AList_update: "set (AList.update k v m) \<subseteq> insert (k, v) (set m)"
  by (induction m) auto

lemma requested_entries:
  "(\<forall>(k, v)\<in>set m. k = ip_String v \<and> v \<in> A) \<Longrightarrow> set ips \<subseteq> A \<Longrightarrow>
    (\<forall>(k, v)\<in>set (foldl (\<lambda>m ip. AList.update (ip_String ip) ip m) m ips). k = ip_String v \<and> v \<in> A) \<and>
    fst ` set (foldl (\<lambda>m ip. AList.update (ip_String ip) ip m) m ips) = fst ` set m \<union> ip_String ` set ips"
proof (induction ips arbitrary: m)
  case (Cons ip ips)
  have u: "fst ` set (AList.update (ip_String ip) ip m) = insert (ip_String ip) (fst ` set m)"
    by (simp add: dom_update)
  have "\<forall>(k, v)\<in>set (AList.update (ip_String ip) ip m). k = ip_String v \<and> v \<in> A"
  proof
    fix kv assume "kv \<in> set (AList.update (ip_String ip) ip m)"
    then have "kv = (ip_String ip, ip) \<or> kv \<in> set m" using set_AList_update by fast
    then show "case kv of (k, v) \<Rightarrow> k = ip_String v \<and> v \<in> A" using Cons.prems by (elim disjE) auto
  qed
  with Cons.IH [OF this] Cons.prems(2) show ?case by (auto simp: u)
qed simp

lemma requested_ips_entry:
  assumes "ip \<in> set ips"
  obtains ip' where "(ip_String ip, ip') \<in> set (requested_ips ips)" "ip' \<in> set ips" "ip_String ip' = ip_String ip"
proof -
  note r = requested_entries [of "[]" "set ips" ips]
  have "ip_String ip \<in> fst ` set (requested_ips ips)"
    using r assms by (auto simp: requested_ips_def)
  then obtain ip' where i: "(ip_String ip, ip') \<in> set (requested_ips ips)" by force
  then have "ip_String ip = ip_String ip' \<and> ip' \<in> set ips"
    using r by (auto simp: requested_ips_def)
  with i that show ?thesis by simp
qed

section \<open>The loops over a store\<close>

context ip_store begin

lemma release_keeps_inv: "inv s \<Longrightarrow> inv (snd (IPAllocator_Release S a cid s))"
  using lock_inv [of s] release_inv [of "snd (st_Lock S s)" cid] unlock_inv
  by (auto simp: IPAllocator_Release_def split: prod.splits)

lemma release_allocs_inv: "inv s \<Longrightarrow> inv (release_allocs S cid as s)"
  by (induction as arbitrary: s) (auto simp: release_keeps_inv)

text \<open>After a release without an error the container has no address.\<close>

lemma release_none_left:
  assumes "inv s" "ok cid" "IPAllocator_Release S a cid s = (None, s')"
  shows "used s' k \<noteq> Some (owner cid)"
  unfolding Release_ok [OF assms] by simp

lemma release_allocs_none_left:
  assumes "inv s" "as \<noteq> []" "ok cid" "\<And>t. inv t \<Longrightarrow> fst (st_ReleaseByID S cid t) = None"
  shows "used (release_allocs S cid as s) k \<noteq> Some (owner cid)"
  using assms(1,2)
proof (induction as arbitrary: s)
  case (Cons a as)
  show ?case
  proof (cases "as = []")
    case True
    have "fst (IPAllocator_Release S a cid s) = None"
      using assms(4) [OF lock_inv [OF Cons.prems(1)]] by (simp add: IPAllocator_Release_def case_prod_beta Let_def)
    then have "IPAllocator_Release S a cid s = (None, snd (IPAllocator_Release S a cid s))" by (metis prod.collapse)
    from release_none_left [OF Cons.prems(1) assms(3) this] True show ?thesis by simp
  next
    case False
    then show ?thesis using Cons.IH [OF release_keeps_inv [OF Cons.prems(1), of a]] by simp
  qed
qed simp

text \<open>
  What one call of \<open>Get\<close> adds to the addresses the container already holds, provided nobody
  takes those away while \<open>Lock\<close> waits.
\<close>

lemma Get_adds:
  assumes ok: "set_ok (al_rangeset a)" and s: "inv s"
    and keeps: "\<And>s k. inv s \<Longrightarrow> used s k = Some (owner cid) \<Longrightarrow> used (snd (st_Lock S s)) k = Some (owner cid)"
    and g: "IPAllocator_Get S a cid req s = Some (Ret c, s')" and rid: "ok cid \<and> ok (al_rangeID a)"
  shows "inv s' \<and> used s' (conf_key c) = Some (owner cid) \<and> conf_from (al_rangeset a) c \<and>
    (\<forall>k. used s k = Some (owner cid) \<longrightarrow> used s' k = Some (owner cid) \<and> k \<noteq> conf_key c) \<and>
    (req \<noteq> [] \<longrightarrow> canonicalizeIP req = Inr (IP (Address c)))"
proof -
  note g' = Get_ok [OF ok s g rid, unfolded granted_def]
  have "used s' k = Some (owner cid) \<and> k \<noteq> conf_key c" if "used s k = Some (owner cid)" for k
    using keeps [OF s that] g' by (auto simp: conf_key_def)
  moreover have "used s' (conf_key c) = Some (owner cid)" using g' by (simp add: conf_key_def)
  ultimately show ?thesis using g' unfolding conf_from_def by blast
qed

lemma alloc_ranges_ok:
  assumes order: "\<And>i l. set (order i l) = set l"
    and keeps: "\<And>s k. inv s \<Longrightarrow> used s k = Some (owner cid) \<Longrightarrow> used (snd (st_Lock S s)) k = Some (owner cid)"
    and cid: "ok cid" and "inv s" "\<forall>rs\<in>set sets. set_ok rs" "distinct (map fst req)"
    and "\<forall>c\<in>set ips. used s (conf_key c) = Some (owner cid)" "distinct (map conf_key ips)"
    and "alloc_ranges S order cid idx sets req allocs ips s = Some (Ret confs, s')"
  shows "\<exists>new. confs = ips @ new \<and> list_all2 conf_from sets new \<and> inv s' \<and> distinct (map conf_key confs) \<and>
    (\<forall>c\<in>set confs. used s' (conf_key c) = Some (owner cid)) \<and>
    (\<forall>(k, ip)\<in>set req. \<exists>c\<in>set new. canonicalizeIP ip = Inr (IP (Address c)))"
  using assms(4-)
proof (induction sets arbitrary: idx req allocs ips s)
  case Nil
  then show ?case by (auto split: if_splits)
next
  case (Cons rs sets)
  let ?a = "NewIPAllocator rs (int idx)"
  define found where "found = find (\<lambda>(k, ip). RangeSet_Contains rs ip) (order idx req)"
  define rip where "rip = (case found of None \<Rightarrow> [] | Some (k, ip) \<Rightarrow> ip)"
  define req' where "req' = (case found of None \<Rightarrow> req | Some (k, ip) \<Rightarrow> AList.delete k req)"
  obtain c t where g: "IPAllocator_Get S ?a cid rip s = Some (Ret c, t)"
    and rec: "alloc_ranges S order cid (idx + 1) sets req' (allocs @ [?a]) (ips @ [c]) t = Some (Ret confs, s')"
    using Cons.prems(6) unfolding alloc_ranges.simps Let_def found_def [symmetric] rip_def [symmetric]
      req'_def [symmetric]
    by (auto split: option.split_asm prod.split_asm outcome.split_asm)
  have a: "al_rangeset ?a = rs" by (simp add: NewIPAllocator_def)
  have rid: "ok cid \<and> ok (al_rangeID ?a)" using cid by (simp add: NewIPAllocator_def ok_Itoa)
  have rs: "set_ok (al_rangeset ?a)" using Cons.prems(2) by (simp add: a)
  note adds = Get_adds [OF rs Cons.prems(1) _ g rid, unfolded a]
  have add: "inv t \<and> used t (conf_key c) = Some (owner cid) \<and> conf_from rs c \<and>
    (\<forall>k. used s k = Some (owner cid) \<longrightarrow> used t k = Some (owner cid) \<and> k \<noteq> conf_key c) \<and>
    (rip \<noteq> [] \<longrightarrow> canonicalizeIP rip = Inr (IP (Address c)))"
    by (rule adds) (rule keeps)
  then have add: "inv t" "used t (conf_key c) = Some (owner cid)" "conf_from rs c"
    "\<And>k. used s k = Some (owner cid) \<Longrightarrow> used t k = Some (owner cid) \<and> k \<noteq> conf_key c"
    "rip \<noteq> [] \<Longrightarrow> canonicalizeIP rip = Inr (IP (Address c))"
    by blast+
  have dis: "distinct (map fst req')"
    using Cons.prems(3) by (auto simp: req'_def distinct_delete split: option.splits)
  have "distinct (map conf_key (ips @ [c]))"
    using Cons.prems(4,5) add(4) by fastforce
  moreover have "\<forall>d\<in>set (ips @ [c]). used t (conf_key d) = Some (owner cid)"
    using Cons.prems(4) add(2,4) by auto
  ultimately obtain new where new: "confs = (ips @ [c]) @ new" "list_all2 conf_from sets new" "inv s'"
    "distinct (map conf_key confs)" "\<forall>c\<in>set confs. used s' (conf_key c) = Some (owner cid)"
    "\<forall>(k, ip)\<in>set req'. \<exists>c\<in>set new. canonicalizeIP ip = Inr (IP (Address c))"
    using Cons.IH [OF add(1) _ dis _ _ rec] Cons.prems(2) by auto
  have "\<exists>d\<in>set (c # new). canonicalizeIP ip = Inr (IP (Address d))" if "(k, ip) \<in> set req" for k ip
  proof (cases "(k, ip) \<in> set req'")
    case True
    then show ?thesis using new(6) by auto
  next
    case False
    with that obtain ip' where f: "found = Some (k, ip')"
      by (auto simp: req'_def set_AList_delete split: option.splits)
    then have "(k, ip') \<in> set req" and con: "RangeSet_Contains rs ip'"
      using order [of idx req] find_Some_in_set [of _ "order idx req"] by (auto simp: found_def)
    then have "ip' = ip" using that Cons.prems(3) by (meson eq_key_imp_eq_value)
    moreover have "ip' \<noteq> []" using con canonicalizeIP_not_Nil by (auto simp: RangeSet_Contains_iff)
    ultimately show ?thesis using add(5) f by (simp add: rip_def)
  qed
  with new add(3) show ?case by (intro exI [of _ "c # new"]) auto
qed

lemma get_loop_inv:
  assumes "get_loop S cid rid i s = Some r" "inv s" "ok cid \<and> ok rid" shows "inv (snd r)"
proof -
  let ?P = "\<lambda>S' (c :: string) (rid :: string) (i :: range_iter) s
    (r :: (go_error + (ip_net \<times> net_ip) option) \<times> 's). S' = S \<longrightarrow> inv s \<longrightarrow> ok c \<and> ok rid \<longrightarrow> inv (snd r)"
  have "?P S cid rid i s r"
  proof (rule get_loop.raw_induct [where P = ?P, OF _ assms(1)])
    fix f S' c rid i s r
    assume IH: "\<And>S c rid i s r. f S c rid i s = Some r \<Longrightarrow> ?P S c rid i s r"
      and eq: "Option.bind (iter_Next i) (\<lambda>(iter, res). case res of None \<Rightarrow> Some (Inr None, s)
        | Some (n, gw) \<Rightarrow> (case st_Reserve S' c (IP n) rid s of (r, s) \<Rightarrow> (case r of Inl e \<Rightarrow> Some (Inl e, s)
          | Inr reserved \<Rightarrow> if reserved then Some (Inr (Some (n, gw)), s) else f S' c rid iter s))) = Some r"
    show "?P S' c rid i s r"
    proof (intro impI)
      assume S: "S' = S" and s: "inv s" and rid: "ok c \<and> ok rid"
      obtain j res where nx: "iter_Next i = Some (j, res)"
        using eq by (cases "iter_Next i") auto
      show "inv (snd r)"
      proof (cases res)
        case None
        with eq nx s show ?thesis by auto
      next
        case (Some x)
        obtain n gw where x: "x = (n, gw)" by (cases x)
        obtain b t where b: "st_Reserve S c (IP n) rid s = (b, t)"
          by (cases "st_Reserve S c (IP n) rid s")
        have t: "inv t" using reserve_inv [OF s rid, of "IP n"] b by simp
        have "snd r = t \<or> f S c rid j t = Some r"
          using eq nx Some x b S by (auto split: sum.splits if_splits)
        then show ?thesis using t rid IH [of S c rid j t r] by auto
      qed
    qed
  qed
  with assms show ?thesis by blast
qed

lemma Get_inv:
  assumes "inv s" "IPAllocator_Get S a cid req s = Some (r, s')" and rid: "ok cid \<and> ok (al_rangeID a)"
  shows "inv s'"
proof -
  have s1: "inv (snd (st_Lock S s))" using lock_inv [OF assms(1)] .
  have req: "inv (snd (get_requested S a cid req t))" if "inv t" for t
    using that reserve_inv [OF that rid]
    by (auto simp: get_requested_def split: sum.split prod.split) (metis snd_conv)+
  obtain t where t: "inv t" "s' = snd (st_Unlock S t)"
    using assms(2) req [OF s1] GetIter_state [OF s1] get_loop_inv [OF _ _ rid]
    unfolding IPAllocator_Get_def Let_def
    by (auto split: if_splits prod.splits outcome.splits) (metis snd_conv)+
  then show ?thesis using unlock_inv by simp
qed

lemma alloc_ranges_rollback:
  assumes "inv s" "\<And>t. inv t \<Longrightarrow> fst (st_ReleaseByID S cid t) = None" and ok: "ok cid"
    and "allocs \<noteq> []"
    and "alloc_ranges S order cid idx sets req allocs ips s = Some (Fail e, s')"
  shows "used s' k \<noteq> Some (owner cid)"
  using assms(1,4,5)
proof (induction sets arbitrary: idx req allocs ips s)
  case Nil
  then show ?case using release_allocs_none_left [OF _ _ ok assms(2)] by (auto split: if_splits)
next
  case (Cons rs sets)
  let ?a = "NewIPAllocator rs (int idx)"
  obtain req' rip r t where g: "IPAllocator_Get S ?a cid rip s = Some (r, t)"
    and rec: "(case r of Panic m \<Rightarrow> Some (Panic m, t)
       | Fail err \<Rightarrow> Some (Fail (Msg (''failed to allocate for range '' @ Itoa (int idx) @ '': '' @ err_text err)),
            release_allocs S cid allocs t)
       | Ret c \<Rightarrow> alloc_ranges S order cid (idx + 1) sets req' (allocs @ [?a]) (ips @ [c]) t) = Some (Fail e, s')"
    using Cons.prems(3) by (auto simp: Let_def split: option.splits prod.splits outcome.splits)
  have t: "inv t" using Get_inv [OF Cons.prems(1) g] ok by (simp add: NewIPAllocator_def ok_Itoa)
  show ?case
  proof (cases r)
    case (Ret c)
    then show ?thesis using Cons.IH [OF t _ rec [unfolded Ret outcome.case]] by simp
  next
    case (Fail err)
    then have "s' = release_allocs S cid allocs t" using rec by simp
    then show ?thesis using release_allocs_none_left [OF t Cons.prems(2) ok assms(2)] by simp
  qed (use rec in simp)
qed

text \<open>The loop of DEL without an error: the container's addresses are gone.\<close>

lemma release_sets_ok:
  assumes quiet: "\<And>t. inv t \<Longrightarrow> used (snd (st_Lock S t)) = used t"
    and ok: "ok cid" and "inv s" "release_sets S cid idx sets s = ([], s')" "sets \<noteq> []"
  shows "used s' = (\<lambda>k. if used s k = Some (owner cid) then None else used s k)"
  using assms(3-)
proof (induction sets arbitrary: idx s)
  case (Cons rs sets)
  obtain s1 where r: "IPAllocator_Release S (NewIPAllocator rs (int idx)) cid s = (None, s1)"
    and rec: "release_sets S cid (idx + 1) sets s1 = ([], s')"
    using Cons.prems(2) by (auto split: prod.splits option.splits)
  have s1: "inv s1" using release_keeps_inv [OF Cons.prems(1), of "NewIPAllocator rs (int idx)" cid] r by simp
  have u: "used s1 = (\<lambda>k. if used s k = Some (owner cid) then None else used s k)"
    unfolding Release_ok [OF Cons.prems(1) ok r] quiet [OF Cons.prems(1)] ..
  show ?case
  proof (cases "sets = []")
    case True
    then show ?thesis using rec u by simp
  next
    case False
    then show ?thesis using Cons.IH [OF s1 rec False] by (simp add: u fun_eq_iff)
  qed
qed simp

end

lemma delete_owned_mem: "fst (delete_owned mem_client cid l e) = None"
  by (induction mem_client cid l e rule: delete_owned.induct) auto

section \<open>A node and a request\<close>

text \<open>The configuration of the network \<open>net\<close> with the subnet \<open>10.1.2.0/24\<close>.\<close>

definition ex_net :: ip_net where
  "ex_net = \<lparr>IP = [10,1,2,0], Mask = [255,255,255,0]\<rparr>"

definition ex_document :: document where
  "ex_document = Inr (JObj [(''cniVersion'', JStr ''0.3.1''), (''name'', JStr ''net''),
     (''ipam'', JObj [(''subnet'', JStr (IPNet_String ex_net)), (''etcdConfig'', JObj [])])])"

definition ex_config :: ipam_config where
  "ex_config = \<lparr>icRange = None, icName = ''net'', icType = [], icRoutes = [], icResolvConf = [],
     icKubeConfig = [], icRanges = [[range24]], icIPArgs = [],
     icEtcdConfig = Some \<lparr>EtcdURL = [], EtcdCertFile = [], EtcdKeyFile = [], EtcdTrustedCAFileFile = []\<rparr>,
     icGateway2 = []\<rparr>"

lemma ex_lower: "map to_lower [''cniVersion'', ''name'', ''ipam'', ''subnet'', ''etcdConfig'', ''runtimeConfig'', ''args'',
    ''Name'', ''type'', ''routes'', ''resolvConf'', ''kubeConfig'', ''ranges'', ''gateway2'', ''rangeStart'',
    ''rangeEnd'', ''gateway'', ''etcdURL'', ''etcdCertFile'', ''etcdKeyFile'', ''etcdTrustedCAFileFile''] =
  [''cniversion'', ''name'', ''ipam'', ''subnet'', ''etcdconfig'', ''runtimeconfig'', ''args'',
    ''name'', ''type'', ''routes'', ''resolvconf'', ''kubeconfig'', ''ranges'', ''gateway2'', ''rangestart'',
    ''rangeend'', ''gateway'', ''etcdurl'', ''etcdcertfile'', ''etcdkeyfile'', ''etcdtrustedcafilefile'']"
  by code_simp

lemma ex_net_JSON: "IPNet_UnmarshalJSON (JStr (IPNet_String ex_net)) =
  Inr \<lparr>IP = v4InV6Prefix @ [10,1,2,0], Mask = [255,255,255,0]\<rparr>"
proof -
  have "cidr_bytes 4 24 = [255,255,255,0]" by code_simp
  then have "net4_ok ex_net" by (auto simp: net4_ok_def ex_net_def intro!: exI [of _ 24])
  from types_ParseCIDR_String [OF this] show ?thesis by (simp add: IPNet_UnmarshalJSON_def ex_net_def)
qed

lemma ex_decode: "bind_sum ex_document dec_net_conf = Inr
  \<lparr>netName = ''net'', netCNIVersion = ''0.3.1'',
   netIPAM = Some (ex_config\<lparr>icName := [], icRanges := [], icRange := Some (conf24\<lparr>Subnet := \<lparr>IP = v4InV6Prefix @ [10,1,2,0], Mask = [255,255,255,0]\<rparr>\<rparr>)\<rparr>),
   netIPRanges = [], netArgs = None\<rparr>"
  using ex_lower
  by (simp add: ex_document_def dec_net_conf_def dec_field_def jfield_Cons dec_ipam_config_def dec_embedded_range_def
      dec_range_def ex_net_JSON dec_etcd_conf_def ex_config_def conf24_def)

lemma ex_Canonicalize16:
  "Range_Canonicalize (conf24\<lparr>Subnet := \<lparr>IP = v4InV6Prefix @ [10,1,2,0], Mask = [255,255,255,0]\<rparr>\<rparr>) = Inr range24"
proof -
  have "canonicalizeIP (v4InV6Prefix @ [10,1,2,0]) = Inr [10,1,2,0]"
    by (simp add: canonicalizeIP_def To4_def v4InV6Prefix_def)
  moreover have "canonicalizeIP [10,1,2,0] = Inr [10,1,2,0]"
    by (simp add: canonicalizeIP_id canonical_def)
  ultimately show ?thesis
    using ex_Canonicalize by (simp add: Range_Canonicalize_def conf24_def)
qed

lemma ex_Load: "LoadIPAMConfig ex_document [] = Ret (ex_config, ''0.3.1'')"
proof -
  have s: "RangeSet_Canonicalize [conf24\<lparr>Subnet := \<lparr>IP = v4InV6Prefix @ [10,1,2,0], Mask = [255,255,255,0]\<rparr>\<rparr>] = Inr [range24]"
    by (simp add: RangeSet_Canonicalize_def ex_Canonicalize16)
  show ?thesis
    by (simp add: LoadIPAMConfig_def ex_decode env_ip_def canon_args_def all_ranges_def)
      (simp add: validate_ranges_def s SupportedVersions020_def ImplementedSpecVersion020_def, simp add: ex_config_def)
qed

text \<open>A node without Kubernetes, on the cluster in memory.\<close>

definition ex_node :: "(mem_etcd, unit, unit, unit) node" where
  "ex_node = \<lparr>nd_ReadFile = \<lambda>f. Inl (NotExist f), nd_RESTConfig = \<lambda>s. Inr (), nd_NewForConfig = \<lambda>r. Inr (),
     nd_GetPod = \<lambda>c ns n. Inr Map.empty, nd_ClientConfig = \<lambda>a b c. Inr (), nd_etcdNew = \<lambda>c. Inr mem_client,
     nd_marshal = \<lambda>rs. [], nd_order = \<lambda>i l. l\<rparr>"

definition ex_args :: cmd_args where
  "ex_args = \<lparr>ContainerID = ''c1'', Netns = ''ns'', IfName = ''eth0'', Args = [], Path = ''p'', StdinData = ex_document\<rparr>"

section \<open>Properties of ADD and DEL\<close>

text \<open>What a command finds in its configuration: the store on the etcd cluster it names.\<close>

definition connects :: "('e, 't, 'r, 'c) node \<Rightarrow> ipam_config \<Rightarrow> 'e etcd \<Rightarrow> bool" where
  "connects nd c E \<longleftrightarrow> (\<exists>ec. icEtcdConfig c = Some ec \<and>
     connectStore (nd_ClientConfig nd) (nd_etcdNew nd) ec = Inr E)"

lemma open_store_connects:
  assumes "connects nd c E"
  shows "open_store nd c e = (case ec_Put E (ETCDPrefix @ icName c) (nd_marshal nd (icRanges c)) e of
    (None, e) \<Rightarrow> (Ret (etcd_store E (ETCDPrefix @ icName c)), e) | (Some err, e) \<Rightarrow> (Panic (err_text err), e))"
  using assms by (auto simp: connects_def open_store_def etcd_New_def initStore_def Let_def split: prod.splits option.splits)

lemma config_key [simp]:
  "ETCDPrefix @ n \<noteq> used_key (ETCDPrefix @ n) x" "ETCDPrefix @ n \<noteq> last_key (ETCDPrefix @ n) x"
  "used_key (ETCDPrefix @ n) x \<noteq> ETCDPrefix @ n" "last_key (ETCDPrefix @ n) x \<noteq> ETCDPrefix @ n"
  by (auto simp: used_key_def last_key_def)

text \<open>Opening the store writes the configuration and touches no reservation.\<close>

lemma open_store_views:
  assumes n: "etcd_network E kvs leased (ETCDPrefix @ icName c) name" and cn: "connects nd c E"
    and i: "etcd_inv leased (ETCDPrefix @ icName c) e" and o: "open_store nd c e = (Ret S, e1)"
  shows "S = etcd_store E (ETCDPrefix @ icName c)" "etcd_inv leased (ETCDPrefix @ icName c) e1"
    "etcd_used kvs leased (ETCDPrefix @ icName c) e1 = etcd_used kvs leased (ETCDPrefix @ icName c) e"
    "etcd_last kvs leased (ETCDPrefix @ icName c) e1 = etcd_last kvs leased (ETCDPrefix @ icName c) e"
proof -
  let ?P = "ETCDPrefix @ icName c"
  have p: "ec_Put E ?P (nd_marshal nd (icRanges c)) e = (None, e1)" and S: "S = etcd_store E ?P"
    using o open_store_connects [OF cn, of e] by (auto split: prod.splits option.splits)
  have d: "durable kvs leased e1 = (durable kvs leased e)(?P \<mapsto> nd_marshal nd (icRanges c))"
    "dom (leased e1) \<subseteq> dom (leased e)"
    using etcd_client.put_ok [OF etcd_network.axioms(1) [OF n] p] by auto
  show "S = etcd_store E ?P" by (fact S)
  show "etcd_inv leased ?P e1" using i d(2) unfolding etcd_inv_def by blast
  show "etcd_used kvs leased ?P e1 = etcd_used kvs leased ?P e" "etcd_last kvs leased ?P e1 = etcd_last kvs leased ?P e"
    using d(1) by (simp_all add: etcd_used_def etcd_last_def fun_eq_iff)
qed

lemma LoadIPAMConfig_canonical:
  assumes "LoadIPAMConfig bytes envArgs = Ret (c, v)" shows "\<forall>ip\<in>set (icIPArgs c). canonical ip"
proof -
  obtain ips where "canon_args ips = Inr (icIPArgs c)"
    using LoadIPAMConfig_Ret [OF assms] by metis
  from canon_args_Inr [OF this] show ?thesis
    using canonicalizeIP_Inr by (fastforce simp: list_all2_conv_all_nth in_set_conv_nth)
qed

text \<open>The steps of ADD when no address is fixed.\<close>

lemma CmdAdd_random_steps:
  assumes "LoadIPAMConfig (StdinData args) (Args args) = Ret (c, v)"
    and "LoadIPFromPodAnnotation nd (Args args) (kube_config c) = Ret ([], m, g) \<or>
      (\<exists>err. LoadIPFromPodAnnotation nd (Args args) (kube_config c) = Fail err)"
    and "CmdAdd nd args e = Some (Ret res, e')" and cn: "connects nd c E"
  shows "\<exists>dns e1 confs. open_store nd c e = (Ret (etcd_store E (ETCDPrefix @ icName c)), e1) \<and>
    alloc_ranges (etcd_store E (ETCDPrefix @ icName c)) (nd_order nd) (ContainerID args) 0 (icRanges c)
      (requested_ips (icIPArgs c)) [] [] e1 = Some (Ret confs, e') \<and> finish_add c v dns confs = Ret res"
proof -
  define rest where "rest = (case load_dns nd c of
      Inl err \<Rightarrow> Some (Fail err, e)
    | Inr dns \<Rightarrow> (case open_store nd c e of
        (Fail err, e) \<Rightarrow> Some (Fail err, e)
      | (Panic m, e) \<Rightarrow> Some (Panic m, e)
      | (Ret S, e) \<Rightarrow> map_option (\<lambda>(ips, e). (case ips of
            Fail err \<Rightarrow> Fail err | Panic m \<Rightarrow> Panic m | Ret ips \<Rightarrow> finish_add c v dns ips, e))
          (alloc_ranges S (nd_order nd) (ContainerID args) 0 (icRanges c) (requested_ips (icIPArgs c)) [] [] e)))"
  have "rest = Some (Ret res, e')"
    using assms(2,3) by (auto simp: CmdAdd_def assms(1) rest_def Let_def
        cong: sum.case_cong outcome.case_cong prod.case_cong)
  moreover obtain dns where "load_dns nd c = Inr dns"
    using calculation by (cases "load_dns nd c") (auto simp: rest_def)
  moreover obtain e1 where "open_store nd c e = (Ret (etcd_store E (ETCDPrefix @ icName c)), e1)"
    using calculation by (auto simp: rest_def open_store_connects [OF cn] split: prod.splits option.splits)
  ultimately obtain ips where o: "open_store nd c e = (Ret (etcd_store E (ETCDPrefix @ icName c)), e1)"
    and "alloc_ranges (etcd_store E (ETCDPrefix @ icName c)) (nd_order nd) (ContainerID args) 0 (icRanges c)
      (requested_ips (icIPArgs c)) [] [] e1 = Some (ips, e')"
    and "(case ips of Fail err \<Rightarrow> Fail err | Panic m \<Rightarrow> Panic m | Ret ips \<Rightarrow> finish_add c v dns ips) = Ret res"
    by (auto simp: rest_def)
  then show ?thesis by (cases ips) auto
qed

text \<open>
  C1. ADD without a fixed address allocates one address per range set: when it succeeds, each
  address of the result comes from its range set (and is not the gateway), no two are equal,
  all are reserved for the container in etcd, and every requested address is among them. It is
  supposed that nobody releases the container's addresses while ADD waits for the lock.
\<close>

theorem CmdAdd_allocates:
  assumes "LoadIPAMConfig (StdinData args) (Args args) = Ret (c, v)"
    and "LoadIPFromPodAnnotation nd (Args args) (kube_config c) = Ret ([], m, g) \<or>
      (\<exists>err. LoadIPFromPodAnnotation nd (Args args) (kube_config c) = Fail err)"
    and "connects nd c E" "etcd_network E kvs leased P name" "P = ETCDPrefix @ icName c"
    and "etcd_inv leased P e" "\<forall>rs\<in>set (icRanges c). set_ok rs" "\<And>i l. set (nd_order nd i l) = set l"
    and "\<And>t k. etcd_inv leased P t \<Longrightarrow> etcd_used kvs leased P t k = Some (ContainerID args) \<Longrightarrow>
      etcd_used kvs leased P (snd (etcd_Lock E P t)) k = Some (ContainerID args)"
    and "CmdAdd nd args e = Some (Ret res, e')"
  shows "\<exists>dns confs. GetAsVersion (RCur \<lparr>CNIVersion = [], Interfaces = [], IPs = confs, Routes = icRoutes c, DNS = dns\<rparr>) v = Inr res \<and>
    list_all2 conf_from (icRanges c) confs \<and> distinct (map conf_key confs) \<and>
    (\<forall>d\<in>set confs. etcd_used kvs leased P e' (conf_key d) = Some (ContainerID args)) \<and>
    (\<forall>ip\<in>set (icIPArgs c). \<exists>d\<in>set confs. ip_String (IP (Address d)) = ip_String ip)"
proof -
  let ?req = "requested_ips (icIPArgs c)"
  obtain dns e1 confs where st: "open_store nd c e = (Ret (etcd_store E P), e1)"
    and al: "alloc_ranges (etcd_store E P) (nd_order nd) (ContainerID args) 0 (icRanges c) ?req [] [] e1 = Some (Ret confs, e')"
    and fin: "finish_add c v dns confs = Ret res"
    using CmdAdd_random_steps [OF assms(1,2,10) assms(3)] unfolding assms(5) by metis
  have n: "etcd_network E kvs leased (ETCDPrefix @ icName c) name" using assms(4,5) by simp
  have i1: "etcd_inv leased P e1"
    using open_store_views(2) [OF n assms(3), of e "etcd_store E P" e1] assms(5,6) st by simp
  note store = etcd_network.is_store [OF assms(4)]
  have "\<exists>new. confs = [] @ new \<and> list_all2 conf_from (icRanges c) new \<and> etcd_inv leased P e' \<and> distinct (map conf_key confs) \<and>
    (\<forall>d\<in>set confs. etcd_used kvs leased P e' (conf_key d) = Some (ContainerID args)) \<and>
    (\<forall>(k, ip)\<in>set ?req. \<exists>d\<in>set new. canonicalizeIP ip = Inr (IP (Address d)))"
    by (rule ip_store.alloc_ranges_ok [OF store _ _ TrueI i1 assms(7) distinct_requested _ _ al])
      (use assms(8,9) in simp_all)
  then have r: "list_all2 conf_from (icRanges c) confs" "distinct (map conf_key confs)"
    "\<forall>d\<in>set confs. etcd_used kvs leased P e' (conf_key d) = Some (ContainerID args)"
    "\<forall>(k, ip)\<in>set ?req. \<exists>d\<in>set confs. canonicalizeIP ip = Inr (IP (Address d))"
    by auto
  have "\<exists>d\<in>set confs. ip_String (IP (Address d)) = ip_String ip" if ip: "ip \<in> set (icIPArgs c)" for ip
  proof -
    obtain ip' where ip': "(ip_String ip, ip') \<in> set ?req" "ip' \<in> set (icIPArgs c)" "ip_String ip' = ip_String ip"
      using requested_ips_entry [OF ip] by blast
    have "canonical ip'" using LoadIPAMConfig_canonical [OF assms(1)] ip'(2) by blast
    then have "canonicalizeIP ip' = Inr ip'" by (rule canonicalizeIP_id)
    with r(4) ip' show ?thesis by fastforce
  qed
  moreover have "GetAsVersion (RCur \<lparr>CNIVersion = [], Interfaces = [], IPs = confs, Routes = icRoutes c, DNS = dns\<rparr>) v = Inr res"
    using fin by (simp add: finish_add_def PrintResult_def)
  ultimately show ?thesis using r(1-3) by blast
qed

lemma ex_connects: "connects ex_node ex_config mem_client"
  by (simp add: connects_def ex_config_def ex_node_def connectStore_def connectWithoutTLS_def has_prefix_def)

lemma ex_prefix: "ETCDPrefix @ icName ex_config = mem_prefix"
  by (simp add: ex_config_def mem_prefix_def)

lemma ex_network: "etcd_network mem_client mem_kvs mem_leased mem_prefix ''net''"
  by (rule mem_net.etcd_network_axioms)

lemma mem_Get_exists:
  assumes "mem_inv e" "mem_used e = Map.empty"
  shows "\<exists>conf s'. IPAllocator_Get mem_store alloc24 cid [] e = Some (Ret conf, s')"
  by (rule mem_net.Get_exhausted [OF _ assms(1) _ _ _ ex_pos [folded alloc24_simps]])
    (simp_all add: mem_Reserve_total last_pos_single [OF ex_set_ok(1)] mem_Lock_views assms(2))

definition ex_opened :: mem_etcd where
  "ex_opened = mem_empty\<lparr>m_keys := AList.update mem_prefix ([], None) (m_keys mem_empty)\<rparr>"

lemma ex_open: "open_store ex_node ex_config mem_empty = (Ret mem_store, ex_opened)"
  using open_store_connects [OF ex_connects, of mem_empty] by (simp add: ex_prefix ex_opened_def ex_node_def)

lemma ex_opened_views: "mem_inv ex_opened" "mem_used ex_opened = Map.empty"
  using open_store_views [OF ex_network [folded ex_prefix] ex_connects, of mem_empty mem_store ex_opened] ex_open
  by (simp_all add: ex_prefix)

lemma ex_annotation: "LoadIPFromPodAnnotation ex_node [] f = Fail (NotExist f)"
  by (simp add: LoadIPFromPodAnnotation_def LoadArgs_def NewClient_def ex_node_def)

lemma ex_CmdAdd: "\<exists>res e'. CmdAdd ex_node ex_args mem_empty = Some (Ret res, e')"
proof -
  obtain conf s' where g: "IPAllocator_Get mem_store alloc24 ''c1'' [] ex_opened = Some (Ret conf, s')"
    using mem_Get_exists [OF ex_opened_views] by blast
  have f: "\<exists>r. finish_add ex_config ''0.3.1'' d ips = Ret r" for d ips
    by (simp add: finish_add_def PrintResult_def GetAsVersionCur_def)
  have sel: "icRanges ex_config = [[range24]]" "icIPArgs ex_config = []" "icResolvConf ex_config = []"
    "StdinData ex_args = ex_document" "Args ex_args = []" "ContainerID ex_args = ''c1''"
    by (simp_all add: ex_config_def ex_args_def)
  have "alloc_ranges mem_store (nd_order ex_node) ''c1'' 0 [[range24]] [] [] [] ex_opened = Some (Ret [conf], s')"
    using g by (simp add: Let_def ex_node_def alloc24_def)
  then show ?thesis
    using f [of empty_dns "[conf]"]
    by (auto simp: CmdAdd_def sel ex_Load ex_annotation load_dns_def ex_open requested_ips_def)
qed

theorem CmdAdd_allocates_witness:
  "\<exists>res e' confs. CmdAdd ex_node ex_args mem_empty = Some (Ret res, e') \<and>
    list_all2 conf_from [[range24]] confs \<and> map (mem_used e') (map conf_key confs) = [Some ''c1'']"
proof -
  obtain res e' where r: "CmdAdd ex_node ex_args mem_empty = Some (Ret res, e')" using ex_CmdAdd by blast
  have sel: "icRanges ex_config = [[range24]]" "ContainerID ex_args = ''c1''"
    by (simp_all add: ex_config_def ex_args_def)
  have "LoadIPAMConfig (StdinData ex_args) (Args ex_args) = Ret (ex_config, ''0.3.1'')"
    by (simp add: ex_args_def ex_Load)
  moreover have "LoadIPFromPodAnnotation ex_node (Args ex_args) (kube_config ex_config) = Fail (NotExist (kube_config ex_config))"
    by (simp add: ex_args_def ex_annotation)
  ultimately obtain confs where c: "list_all2 conf_from [[range24]] confs"
    "\<forall>d\<in>set confs. mem_used e' (conf_key d) = Some ''c1''"
    using CmdAdd_allocates [of ex_args ex_config "''0.3.1''" ex_node, OF _ _ ex_connects ex_network ex_prefix [symmetric]
        mem_empty_views(1) _ _ _ r] sel
    by (auto simp: mem_Lock_views ex_node_def)
  then have "length confs = 1" using list_all2_lengthD by fastforce
  then obtain d where "confs = [d]" by (auto simp: length_Suc_conv)
  with c r show ?thesis by (intro exI [of _ res] exI [of _ e'] exI [of _ confs]) auto
qed


text \<open>
  C3. ADD rolls back: when the loop over the range sets fails after it has allocated an
  address, be it because a later set is exhausted or because a requested address fits no set,
  the container holds no address afterwards (provided the release meets no etcd error).
\<close>

theorem ADD_rollback:
  assumes "etcd_network E kvs leased P name" "etcd_inv leased P e" "allocs \<noteq> []"
    and "\<And>t. etcd_inv leased P t \<Longrightarrow> fst (etcd_ReleaseByID E P cid t) = None"
    and "alloc_ranges (etcd_store E P) order cid idx sets req allocs ips e = Some (Fail err, e')"
  shows "etcd_used kvs leased P e' k \<noteq> Some cid"
  by (rule ip_store.alloc_ranges_rollback [OF etcd_network.is_store [OF assms(1)] assms(2) _ TrueI assms(3,5)])
    (simp add: assms(4))

theorem ADD_rollback_witness:
  "\<exists>err e'. alloc_ranges mem_store (\<lambda>i l. l) ''c0'' 1 [] [(''x'', [10,9,9,9])] [alloc_ab] [] mem_full = Some (Fail err, e') \<and>
    mem_used mem_full (ip_String [10,1,2,11]) = Some ''c0'' \<and> mem_used e' (ip_String [10,1,2,11]) \<noteq> Some ''c0''"
proof -
  have "fst (etcd_ReleaseByID mem_client P c e) = None" for P c e
    using mem_GetPrefix [of "used_key P []" e] delete_owned_mem by (auto simp: etcd_ReleaseByID_def)
  moreover obtain err e' where r: "alloc_ranges mem_store (\<lambda>i l. l) ''c0'' 1 [] [(''x'', [10,9,9,9])] [alloc_ab] [] mem_full = Some (Fail err, e')"
    by simp
  moreover have "mem_used mem_full (ip_String [10,1,2,11]) = Some ''c0''"
    by (auto simp: mem_full_def etcd_used_def durable_def mem_kvs_def mem_leased_def)
  ultimately show ?thesis
    using ADD_rollback [OF mem_net.etcd_network_axioms mem_full_views(1) _ _ r] by auto
qed


lemma LoadIPAMConfig_ranges: "LoadIPAMConfig bytes envArgs = Ret (c, v) \<Longrightarrow> icRanges c \<noteq> []"
  using validate_ranges_Inr(1) by (metis LoadIPAMConfig_Ret)

text \<open>
  C2. DEL gives back everything the container holds in its network and nothing else: when it
  succeeds, exactly the container's reservations are gone. It is supposed that the
  reservations do not change while DEL waits for the lock.
\<close>

theorem CmdDel_releases:
  assumes "LoadIPAMConfig (StdinData args) (Args args) = Ret (c, v)" "connects nd c E"
    and "etcd_network E kvs leased P name" "P = ETCDPrefix @ icName c" "etcd_inv leased P e"
    and "\<And>t. etcd_inv leased P t \<Longrightarrow> etcd_used kvs leased P (snd (etcd_Lock E P t)) = etcd_used kvs leased P t"
    and "CmdDel nd args e = (Ret (), e')"
  shows "etcd_used kvs leased P e' = (\<lambda>k. if etcd_used kvs leased P e k = Some (ContainerID args)
    then None else etcd_used kvs leased P e k)"
proof -
  have n: "etcd_network E kvs leased (ETCDPrefix @ icName c) name" using assms(3,4) by simp
  obtain S e1 where o: "open_store nd c e = (Ret S, e1)"
    using assms(7) by (auto simp: CmdDel_def assms(1) split: prod.splits outcome.splits)
  note v = open_store_views [OF n assms(2) _ o, folded assms(4), OF assms(5)]
  have r: "release_sets (etcd_store E P) (ContainerID args) 0 (icRanges c) e1 = ([], e')"
    using assms(7) v(1) by (auto simp: CmdDel_def assms(1) o split: prod.splits if_splits)
  have "etcd_used kvs leased P e' = (\<lambda>k. if etcd_used kvs leased P e1 k = Some (ContainerID args)
      then None else etcd_used kvs leased P e1 k)"
    by (rule ip_store.release_sets_ok [OF etcd_network.is_store [OF assms(3)] _ TrueI v(2) r
          LoadIPAMConfig_ranges [OF assms(1)]]) (simp add: assms(6))
  then show ?thesis unfolding v(3) .
qed

theorem CmdDel_releases_witness:
  "\<exists>e'. CmdDel ex_node ex_args mem_empty = (Ret (), e') \<and> mem_used e' = Map.empty"
proof -
  have rel: "fst (etcd_ReleaseByID mem_client P c e) = None" for P c e
    using mem_GetPrefix [of "used_key P []" e] delete_owned_mem by (auto simp: etcd_ReleaseByID_def)
  have "fst (release_sets mem_store ''c1'' 0 [[range24]] ex_opened) = []"
    by (simp add: IPAllocator_Release_def Let_def case_prod_beta rel)
  then obtain e' where e': "release_sets mem_store ''c1'' 0 [[range24]] ex_opened = ([], e')"
    by (metis prod.collapse)
  have l: "LoadIPAMConfig (StdinData ex_args) (Args ex_args) = Ret (ex_config, ''0.3.1'')"
    by (simp add: ex_args_def ex_Load)
  have "icRanges ex_config = [[range24]]" "ContainerID ex_args = ''c1''" by (simp_all add: ex_config_def ex_args_def)
  then have d: "CmdDel ex_node ex_args mem_empty = (Ret (), e')"
    by (simp add: CmdDel_def l ex_open e' del: release_sets.simps)
  have "mem_used e' = Map.empty"
    using CmdDel_releases [OF l ex_connects ex_network ex_prefix [symmetric] mem_empty_views(1) _ d]
    by (simp add: mem_Lock_views fun_eq_iff)
  with d show ?thesis by blast
qed

text \<open>
  C20. A fixed address in the pod's annotations is returned as it is and never reserved: ADD
  answers with the annotated addresses, whatever the range sets and the reservations are, and
  leaves the reservations and the last reserved addresses unchanged.
\<close>

theorem CmdAdd_fixed:
  assumes "LoadIPAMConfig (StdinData args) (Args args) = Ret (c, v)" "connects nd c E"
    and "etcd_network E kvs leased P name" "P = ETCDPrefix @ icName c" "etcd_inv leased P e"
    and "LoadIPFromPodAnnotation nd (Args args) (kube_config c) = Ret (ips, m, g)" "ips \<noteq> []"
    and "CmdAdd nd args e = Some (Ret res, e')"
  shows "etcd_used kvs leased P e' = etcd_used kvs leased P e \<and> etcd_last kvs leased P e' = etcd_last kvs leased P e \<and>
    (\<exists>dns confs. GetAsVersion (RCur \<lparr>CNIVersion = [], Interfaces = [], IPs = confs, Routes = icRoutes c, DNS = dns\<rparr>) v = Inr res \<and>
      map (\<lambda>d. IP (Address d)) confs = map ParseIP (split_on (CHR '','') ips) \<and>
      (\<forall>d\<in>set confs. ConfGateway d = ParseIP g \<and> length (Mask (Address d)) = 4))"
proof -
  have n: "etcd_network E kvs leased (ETCDPrefix @ icName c) name" using assms(3,4) by simp
  obtain dns S confs where o: "open_store nd c e = (Ret S, e')" and f: "fixed_ips ips m g = Ret confs"
    and fin: "finish_add c v dns confs = Ret res"
    using assms(8) by (auto simp: CmdAdd_def assms(1,6,7) split: sum.splits prod.splits outcome.splits)
  have "map (\<lambda>d. IP (Address d)) confs = map ParseIP (split_on (CHR '','') ips) \<and>
      (\<forall>d\<in>set confs. ConfGateway d = ParseIP g \<and> length (Mask (Address d)) = 4)"
    using f by (auto simp: fixed_ips_def Let_def split: if_splits)
  moreover have "GetAsVersion (RCur \<lparr>CNIVersion = [], Interfaces = [], IPs = confs, Routes = icRoutes c, DNS = dns\<rparr>) v = Inr res"
    using fin by (simp add: finish_add_def PrintResult_def)
  ultimately show ?thesis
    using open_store_views(3,4) [OF n assms(2) _ o, folded assms(4), OF assms(5)] by blast
qed

text \<open>The node with Kubernetes, whose pod has a fixed address and the netmask \<open>m\<close>.\<close>

definition k8s_node :: "string \<Rightarrow> (mem_etcd, unit, unit, unit) node" where
  "k8s_node m = ex_node\<lparr>nd_ReadFile := \<lambda>f. Inr [], nd_GetPod := \<lambda>c ns n. Inr
     [static_ipv4_annotation \<mapsto> ''10.1.2.9'', static_netmask_annotation \<mapsto> m, static_gateway_annotation \<mapsto> ''10.1.2.1'']\<rparr>"

lemma k8s_annotation: "LoadIPFromPodAnnotation (k8s_node m) [] f = Ret (''10.1.2.9'', m, ''10.1.2.1'')"
  by (simp add: LoadIPFromPodAnnotation_def LoadArgs_def NewClient_def k8s_node_def ex_node_def GetPodInfo_def
      lookup_def static_ipv4_annotation_def static_netmask_annotation_def static_gateway_annotation_def)

lemma k8s_connects: "connects (k8s_node m) ex_config mem_client"
  using ex_connects by (simp add: connects_def k8s_node_def)

lemma k8s_open: "open_store (k8s_node m) ex_config mem_empty = (Ret mem_store, ex_opened)"
  using open_store_connects [OF k8s_connects, of m mem_empty]
  by (simp add: ex_prefix ex_opened_def k8s_node_def ex_node_def)

lemma ex_Load_args: "LoadIPAMConfig (StdinData ex_args) (Args ex_args) = Ret (ex_config, ''0.3.1'')"
  by (simp add: ex_args_def ex_Load)

lemma ex_no_resolv: "icResolvConf ex_config = []" by (simp add: ex_config_def)

theorem CmdAdd_fixed_witness:
  "\<exists>res e'. CmdAdd (k8s_node ''255.255.255.0'') ex_args mem_empty = Some (Ret res, e') \<and> mem_used e' = Map.empty"
proof -
  have a: "LoadIPFromPodAnnotation (k8s_node ''255.255.255.0'') (Args ex_args) (kube_config ex_config) =
      Ret (''10.1.2.9'', ''255.255.255.0'', ''10.1.2.1'')" by (simp add: ex_args_def k8s_annotation)
  have f: "\<exists>r. finish_add ex_config ''0.3.1'' d ips = Ret r" for d ips
    by (simp add: finish_add_def PrintResult_def GetAsVersionCur_def)
  obtain confs where "fixed_ips ''10.1.2.9'' ''255.255.255.0'' ''10.1.2.1'' = Ret confs"
    by (simp add: fixed_ips_def Let_def)
  then obtain res where c: "CmdAdd (k8s_node ''255.255.255.0'') ex_args mem_empty = Some (Ret res, ex_opened)"
    using f [of empty_dns confs] by (auto simp: CmdAdd_def ex_Load_args a k8s_open load_dns_def ex_no_resolv)
  have "mem_used ex_opened = Map.empty"
    using CmdAdd_fixed [OF ex_Load_args k8s_connects ex_network ex_prefix [symmetric] mem_empty_views(1) a _ c] by simp
  with c show ?thesis by blast
qed

text \<open>
  A fixed address without a full netmask crashes ADD: when the pod has an address
  annotation and its netmask annotation (perhaps missing) has fewer than four parts, ADD panics
  with an index out of range, after it has opened the store.
\<close>

theorem CmdAdd_netmask_panic:
  assumes "LoadIPAMConfig (StdinData args) (Args args) = Ret (c, v)"
    and "LoadIPFromPodAnnotation nd (Args args) (kube_config c) = Ret (ips, m, g)" "ips \<noteq> []"
    and "length (split_on (CHR ''.'') m) < 4"
    and "load_dns nd c = Inr dns" "open_store nd c e = (Ret S, e1)"
  shows "CmdAdd nd args e = Some (Panic ''index out of range'', e1)"
  using assms by (simp add: CmdAdd_def fixed_ips_def Let_def)

theorem CmdAdd_netmask_panic_witness:
  "CmdAdd (k8s_node []) ex_args mem_empty = Some (Panic ''index out of range'', ex_opened)"
  by (rule CmdAdd_netmask_panic [where ips = "''10.1.2.9''" and m = "[]" and g = "''10.1.2.1''" and dns = empty_dns,
        OF ex_Load_args _ _ _ _ k8s_open])
    (simp_all add: ex_args_def k8s_annotation load_dns_def ex_no_resolv)

end
