(* ===== verification/Paths.thy ===== *)
theory Paths
  imports Prelude
begin

text \<open>
  What the program uses of Go's \<open>path/filepath\<close> on Unix, and the environment of a process as
  the list of its \<open>key=value\<close> entries.
\<close>

section \<open>path/filepath\<close>

text \<open>
  The loop of \<open>Clean\<close> over the elements of a path: \<open>out\<close> is the result so far, last element
  first.
\<close>

fun clean_parts :: "bool \<Rightarrow> string list \<Rightarrow> string list \<Rightarrow> string list" where
  "clean_parts rooted out [] = rev out"
| "clean_parts rooted out (p # ps) =
     (if p = [] \<or> p = ''.'' then clean_parts rooted out ps
      else if p = ''..'' then
        (if out \<noteq> [] \<and> hd out \<noteq> ''..'' then clean_parts rooted (tl out) ps
         else if rooted then clean_parts rooted out ps
         else clean_parts rooted (p # out) ps)
      else clean_parts rooted (p # out) ps)"

definition filepath_Clean :: "string \<Rightarrow> string" where
  "filepath_Clean path =
     (let rooted = (path \<noteq> [] \<and> hd path = CHR ''/'');
          out = (if rooted then ''/'' else []) @ join ''/'' (clean_parts rooted [] (split_on (CHR ''/'') path))
      in if out = [] then ''.'' else out)"

definition filepath_Join :: "string list \<Rightarrow> string" where
  "filepath_Join elem =
     (case dropWhile (\<lambda>e. e = []) elem of [] \<Rightarrow> [] | es \<Rightarrow> filepath_Clean (join ''/'' es))"

text \<open>The part of a string after the last \<open>c\<close>, and the part up to and with it.\<close>

definition after_last :: "char \<Rightarrow> string \<Rightarrow> string" where
  "after_last c s = rev (takeWhile (\<lambda>x. x \<noteq> c) (rev s))"

definition upto_last :: "char \<Rightarrow> string \<Rightarrow> string" where
  "upto_last c s = rev (dropWhile (\<lambda>x. x \<noteq> c) (rev s))"

definition filepath_Dir :: "string \<Rightarrow> string" where
  "filepath_Dir path = filepath_Clean (upto_last (CHR ''/'') path)"

definition filepath_Base :: "string \<Rightarrow> string" where
  "filepath_Base path =
     (if path = [] then ''.''
      else let p = rev (dropWhile (\<lambda>c. c = CHR ''/'') (rev path)) in
        if p = [] then ''/'' else after_last (CHR ''/'') p)"

text \<open>\<open>Ext\<close>: from the last dot of the last element on; empty without a dot.\<close>

definition filepath_Ext :: "string \<Rightarrow> string" where
  "filepath_Ext path =
     (let name = after_last (CHR ''/'') path in
      if CHR ''.'' \<in> set name then CHR ''.'' # after_last (CHR ''.'') name else [])"

definition filepath_SplitList :: "string \<Rightarrow> string list" where
  "filepath_SplitList path = (if path = [] then [] else split_on (CHR '':'') path)"

section \<open>strings.Index, strings.Contains and the environment\<close>

fun contains_sub :: "string \<Rightarrow> string \<Rightarrow> bool" where
  "contains_sub [] sub = (sub = [])"
| "contains_sub (c # cs) sub = (has_prefix (c # cs) sub \<or> contains_sub cs sub)"

text \<open>An entry of the environment at its first \<open>=\<close>: key and value.\<close>

fun split_env :: "string \<Rightarrow> (string \<times> string) option" where
  "split_env [] = None"
| "split_env (c # cs) =
     (if c = CHR ''='' then Some ([], cs)
      else map_option (\<lambda>(k, v). (c # k, v)) (split_env cs))"

text \<open>
  \<open>os.Getenv\<close> of a process started with the entries \<open>env\<close>: \<open>os/exec\<close> passes the last entry of
  a key.
\<close>

definition env_lookup :: "string list \<Rightarrow> string \<Rightarrow> string" where
  "env_lookup env key =
     (case find (\<lambda>e. map_option fst (split_env e) = Some key) (rev env) of
        None \<Rightarrow> [] | Some e \<Rightarrow> (case split_env e of Some (k, v) \<Rightarrow> v | None \<Rightarrow> []))"

section \<open>Lemmas\<close>

lemma split_env_append: "CHR ''='' \<notin> set k \<Longrightarrow> split_env (k @ ''='' @ v) = Some (k, v)"
  by (induction k) auto

lemma split_env_Some: "split_env e = Some (k, v) \<longleftrightarrow> e = k @ ''='' @ v \<and> CHR ''='' \<notin> set k"
proof (induction e arbitrary: k)
  case (Cons c e)
  show ?case by (cases k) (auto simp: Cons.IH)
qed simp

lemma split_env_None: "split_env e = None \<longleftrightarrow> CHR ''='' \<notin> set e"
  by (induction e) auto

section \<open>Clean paths\<close>

lemma split_on_append: "split_on c (xs @ c # ys) = split_on c xs @ split_on c ys"
proof (induction xs)
  case (Cons x xs)
  show ?case by (cases "split_on c xs") (auto simp: Cons.IH)
qed simp

lemma join_snoc: "ws \<noteq> [] \<Longrightarrow> join sep (ws @ [w]) = join sep ws @ sep @ w"
  by (induction sep ws rule: join.induct) auto

text \<open>The elements of a clean path: parent steps, only at the front of a relative path, then names.\<close>

definition path_name :: "string \<Rightarrow> bool" where
  "path_name n \<longleftrightarrow> n \<notin> {[], ''.'', ''..''} \<and> CHR ''/'' \<notin> set n"

fun clean_list :: "bool \<Rightarrow> string list \<Rightarrow> bool" where
  "clean_list rooted [] = True"
| "clean_list rooted (q # qs) =
     (if q = ''..'' then \<not> rooted \<and> clean_list rooted qs else list_all path_name (q # qs))"

lemma clean_list_snoc:
  "clean_list rooted (qs @ [n]) \<longleftrightarrow>
    clean_list rooted qs \<and> (if n = ''..'' then \<not> rooted \<and> set qs \<subseteq> {''..''} else path_name n)"
  by (induction rooted qs rule: clean_list.induct) (auto simp: path_name_def)

lemma clean_list_snoc2:
  "clean_list rooted (qs @ [a, n]) \<longleftrightarrow>
    clean_list rooted (qs @ [a]) \<and> (if n = ''..'' then \<not> rooted \<and> a = ''..'' \<and> set qs \<subseteq> {''..''} else path_name n)"
  using clean_list_snoc [of rooted "qs @ [a]" n] by auto

lemma clean_parts_clean:
  "clean_list rooted (rev out) \<Longrightarrow> \<forall>p\<in>set ps. CHR ''/'' \<notin> set p \<Longrightarrow> clean_list rooted (clean_parts rooted out ps)"
proof (induction rooted out ps rule: clean_parts.induct)
  case (2 rooted out p ps)
  then show ?case
    by (cases out) (auto simp: clean_list_snoc clean_list_snoc2 path_name_def split: if_splits)
qed simp

lemma clean_list_parent: "clean_list rooted (xs @ ''..'' # qs) \<Longrightarrow> \<not> rooted \<and> set xs \<subseteq> {''..''}"
  by (induction rooted xs rule: clean_list.induct) (auto simp: path_name_def split: if_splits)

lemma clean_list_element: "clean_list rooted (xs @ q # qs) \<Longrightarrow> q = ''..'' \<or> path_name q"
  by (induction rooted xs rule: clean_list.induct) (auto split: if_splits)

lemma clean_parts_id: "clean_list rooted (rev out @ qs) \<Longrightarrow> clean_parts rooted out qs = rev out @ qs"
proof (induction qs arbitrary: out)
  case (Cons q qs)
  have q: "q = ''..'' \<or> path_name q" using clean_list_element [OF Cons.prems] .
  have p: "\<not> rooted \<and> (out = [] \<or> hd out = ''..'')" if "q = ''..''"
    using clean_list_parent [of rooted "rev out" qs] Cons.prems that by (cases out) auto
  have "clean_parts rooted (q # out) qs = rev (q # out) @ qs"
    using Cons by (intro Cons.IH) simp
  with q p show ?case by (auto simp: path_name_def)
qed simp

text \<open>A clean directory, and the path of a name in it.\<close>

definition clean_dir :: "string \<Rightarrow> bool" where
  "clean_dir d \<longleftrightarrow> (\<exists>rooted qs. qs \<noteq> [] \<and> clean_list rooted qs \<and> d = (if rooted then ''/'' else []) @ join ''/'' qs)"

lemma clean_list_elements: "clean_list rooted qs \<Longrightarrow> q \<in> set qs \<Longrightarrow> q \<noteq> [] \<and> CHR ''/'' \<notin> set q"
  by (drule split_list) (auto simp: path_name_def dest!: clean_list_element)

lemma Join_name:
  assumes "clean_dir d" "path_name n"
  shows "filepath_Join [d, n] = d @ ''/'' @ n"
proof -
  obtain rooted qs where qs: "qs \<noteq> []" "clean_list rooted qs"
    and d: "d = (if rooted then ''/'' else []) @ join ''/'' qs"
    using assms(1) by (auto simp: clean_dir_def)
  obtain q rs where q: "qs = q # rs" using qs(1) by (cases qs) auto
  have el: "\<forall>q\<in>set qs. q \<noteq> [] \<and> CHR ''/'' \<notin> set q" using clean_list_elements [OF qs(2)] by blast
  then have "join ''/'' qs \<noteq> [] \<and> hd (join ''/'' qs) \<noteq> CHR ''/''"
    using q by (cases rs; cases q) auto
  then have r: "d \<noteq> []" "hd d = CHR ''/'' \<longleftrightarrow> rooted" by (auto simp: d)
  have "split_on (CHR ''/'') (d @ CHR ''/'' # n) = (if rooted then [[]] else []) @ qs @ [n]"
    using split_on_append [of "CHR ''/''" d n] split_on_join [OF qs(1), of "CHR ''/''"] el assms(2)
    by (auto simp: d split_on_no_sep path_name_def)
  moreover have "clean_parts rooted [] (qs @ [n]) = qs @ [n]"
    using clean_parts_id [of rooted "[]" "qs @ [n]"] qs(2) assms(2) by (auto simp: clean_list_snoc path_name_def)
  ultimately have "clean_parts rooted [] (split_on (CHR ''/'') (d @ CHR ''/'' # n)) = qs @ [n]" by auto
  then show ?thesis
    using r assms(2) join_snoc [OF qs(1), of "''/''" n] d
    by (auto simp: filepath_Join_def filepath_Clean_def path_name_def Let_def)
qed

lemma clean_dir_Join:
  assumes "d \<noteq> []" "path_name n" shows "clean_dir (filepath_Join [d, n])"
proof -
  define rooted where "rooted = (hd d = CHR ''/'')"
  let ?ps = "split_on (CHR ''/'') (d @ CHR ''/'' # n)"
  define qs where "qs = clean_parts rooted [] ?ps"
  have n: "CHR ''/'' \<notin> set n" using assms(2) by (simp add: path_name_def)
  have "clean_list rooted qs"
    unfolding qs_def using split_on_parts by (intro clean_parts_clean) auto
  moreover have "clean_parts rooted out (ps @ [n]) \<noteq> []" for ps out
    using assms(2) by (induction rooted out ps rule: clean_parts.induct) (auto simp: path_name_def)
  then have "qs \<noteq> []" by (simp add: qs_def split_on_append split_on_no_sep [OF n])
  moreover have "join ''/'' qs \<noteq> []"
    using \<open>qs \<noteq> []\<close> clean_list_elements [OF \<open>clean_list rooted qs\<close>] by (cases qs; cases "tl qs") auto
  ultimately show ?thesis
    using assms unfolding clean_dir_def
    by (intro exI [of _ rooted] exI [of _ qs])
      (auto simp: filepath_Join_def filepath_Clean_def rooted_def qs_def path_name_def Let_def)
qed

end
