(* ===== verification/Disk.thy ===== *)
theory Disk
  imports Allocator Paths "HOL-Library.AList" "HOL-Library.Char_ord" "HOL-Library.List_Lexorder"
begin

text \<open>
  The store of the plugin \<open>host-local\<close>
  (\<open>plugins/plugins/ipam/host-local/backend/disk/backend.go\<close> and \<open>lock.go\<close>): one file per
  reserved address in the directory of the network, with the container and the interface as its
  contents, and one file per range set with the last reserved address. The locale \<open>disk_dir\<close>
  shows that on a file system without faults its operations keep the promises of \<open>ip_store\<close>.
\<close>

section \<open>The file system\<close>

text \<open>
  The regular files by path; \<open>os_fault op path\<close> is the error that the operation meets on the
  path, if any. A failed operation changes nothing. Directories are implicit.
\<close>

record os_state =
  os_files :: "(string \<times> string) list"
  os_fault :: "string \<Rightarrow> string \<Rightarrow> go_error option"

definition os_put :: "string \<Rightarrow> string \<Rightarrow> os_state \<Rightarrow> os_state" where
  "os_put path data s = s\<lparr>os_files := AList.update path data (os_files s)\<rparr>"

definition os_MkdirAll :: "string \<Rightarrow> os_state \<Rightarrow> go_error option" where
  "os_MkdirAll path s =
     (case os_fault s ''mkdir'' path of
        Some err \<Rightarrow> Some err
      | None \<Rightarrow> if map_of (os_files s) path \<noteq> None then Some (Msg ''not a directory'') else None)"

text \<open>\<open>os.Stat\<close> of a directory or file, and \<open>IsDir\<close> of the answer.\<close>

definition os_Stat_IsDir :: "string \<Rightarrow> os_state \<Rightarrow> go_error + bool" where
  "os_Stat_IsDir path s =
     (case os_fault s ''stat'' path of
        Some err \<Rightarrow> Inl err | None \<Rightarrow> Inr (map_of (os_files s) path = None))"

text \<open>\<open>os.OpenFile\<close> with \<open>O_RDWR|O_EXCL|O_CREATE\<close>, and the operations on the file it opened.\<close>

definition os_OpenFile_EXCL :: "string \<Rightarrow> os_state \<Rightarrow> go_error option \<times> os_state" where
  "os_OpenFile_EXCL path s =
     (case os_fault s ''open'' path of
        Some err \<Rightarrow> (Some err, s)
      | None \<Rightarrow> if map_of (os_files s) path \<noteq> None then (Some (Exist ''file exists''), s)
               else (None, os_put path [] s))"

definition file_WriteString :: "string \<Rightarrow> string \<Rightarrow> os_state \<Rightarrow> go_error option \<times> os_state" where
  "file_WriteString path data s =
     (case os_fault s ''write'' path of Some err \<Rightarrow> (Some err, s) | None \<Rightarrow> (None, os_put path data s))"

definition file_Close :: "string \<Rightarrow> os_state \<Rightarrow> go_error option" where
  "file_Close path s = os_fault s ''close'' path"

definition os_Remove :: "string \<Rightarrow> os_state \<Rightarrow> go_error option \<times> os_state" where
  "os_Remove path s =
     (case os_fault s ''remove'' path of
        Some err \<Rightarrow> (Some err, s)
      | None \<Rightarrow> if map_of (os_files s) path = None then (Some (NotExist ''no such file or directory''), s)
               else (None, s\<lparr>os_files := AList.delete path (os_files s)\<rparr>))"

definition ioutil_ReadFile :: "string \<Rightarrow> os_state \<Rightarrow> go_error + string" where
  "ioutil_ReadFile path s =
     (case os_fault s ''read'' path of
        Some err \<Rightarrow> Inl err
      | None \<Rightarrow> (case map_of (os_files s) path of
                   None \<Rightarrow> Inl (NotExist ''no such file or directory'') | Some data \<Rightarrow> Inr data))"

definition ioutil_WriteFile :: "string \<Rightarrow> string \<Rightarrow> os_state \<Rightarrow> go_error option \<times> os_state" where
  "ioutil_WriteFile path data s =
     (case os_fault s ''open'' path of
        Some err \<Rightarrow> (Some err, s)
      | None \<Rightarrow> (case os_fault s ''write'' path of
                   Some err \<Rightarrow> (Some err, os_put path [] s) | None \<Rightarrow> (None, os_put path data s)))"

text \<open>
  The files \<open>filepath.Walk\<close> visits, in lexical order of the elements of their paths; one that
  cannot be looked at is passed to the callback with an error.
\<close>

definition under_dir :: "string \<Rightarrow> string \<Rightarrow> bool" where
  "under_dir root path \<longleftrightarrow> has_prefix path (root @ ''/'')"

definition walk_files :: "string \<Rightarrow> os_state \<Rightarrow> string list" where
  "walk_files root s =
     sort_key (split_on (CHR ''/''))
       (filter (\<lambda>p. under_dir root p \<and> os_fault s ''walk'' p = None) (map fst (os_files s)))"

section \<open>lock.go\<close>

text \<open>
  \<open>filemutex.FileMutex\<close> is a library: its operations on the system; \<open>filemutex.New\<close> is the
  argument \<open>new\<close>.
\<close>

record file_mutex =
  fm_Lock :: "os_state \<Rightarrow> go_error option \<times> os_state"
  fm_Unlock :: "os_state \<Rightarrow> go_error option \<times> os_state"
  fm_Close :: "os_state \<Rightarrow> go_error option \<times> os_state"

type_synonym new_mutex = "string \<Rightarrow> os_state \<Rightarrow> (go_error + file_mutex) \<times> os_state"

definition NewFileLock :: "new_mutex \<Rightarrow> string \<Rightarrow> os_state \<Rightarrow> (go_error + file_mutex) \<times> os_state" where
  "NewFileLock new lockPath s =
     (case os_Stat_IsDir lockPath s of
        Inl err \<Rightarrow> (Inl err, s)
      | Inr isDir \<Rightarrow> new (if isDir then filepath_Join [lockPath, ''lock''] else lockPath) s)"

section \<open>backend.go\<close>

definition lastIPFilePrefix :: string where "lastIPFilePrefix = ''last_reserved_ip.''"
definition LineBreak :: string where "LineBreak = [CHR 0x0D, CHR 0x0A]"
definition defaultDataDir :: string where "defaultDataDir = ''/var/lib/cni/networks''"

text \<open>\<open>Store\<close>: the embedded lock and the directory.\<close>

record disk =
  dkLock :: file_mutex
  dataDir :: string

text \<open>\<open>runtime.GOOS\<close> of the build.\<close>

definition GOOS :: string where "GOOS = ''linux''"

definition GetEscapedPath :: "string \<Rightarrow> string \<Rightarrow> string" where
  "GetEscapedPath dir fname =
     filepath_Join [dir,
       if GOOS = ''windows'' then map (\<lambda>c. if c = CHR '':'' then CHR ''_'' else c) fname else fname]"

definition disk_New :: "new_mutex \<Rightarrow> string \<Rightarrow> string \<Rightarrow> os_state \<Rightarrow> (go_error + disk) \<times> os_state" where
  "disk_New new network dir0 s =
     (let dir0 = (if dir0 = [] then defaultDataDir else dir0);
          dir = filepath_Join [dir0, network]
      in case os_MkdirAll dir s of
           Some err \<Rightarrow> (Inl err, s)
         | None \<Rightarrow>
             (case NewFileLock new dir s of
                (Inl err, s) \<Rightarrow> (Inl err, s)
              | (Inr lk, s) \<Rightarrow> (Inr \<lparr>dkLock = lk, dataDir = dir\<rparr>, s)))"

text \<open>The contents of the file of a reservation.\<close>

definition disk_owner :: "string \<Rightarrow> string \<Rightarrow> string" where
  "disk_owner ifname cid = trim_space cid @ LineBreak @ ifname"

definition disk_Reserve ::
  "disk \<Rightarrow> string \<Rightarrow> string \<Rightarrow> net_ip \<Rightarrow> string \<Rightarrow> os_state \<Rightarrow> (go_error + bool) \<times> os_state" where
  "disk_Reserve D cid ifname ip rangeID s =
     (let fname = GetEscapedPath (dataDir D) (ip_String ip) in
      case os_OpenFile_EXCL fname s of
        (Some (Exist _), s) \<Rightarrow> (Inr False, s)
      | (Some err, s) \<Rightarrow> (Inl err, s)
      | (None, s) \<Rightarrow>
          (case file_WriteString fname (disk_owner ifname cid) s of
             (Some err, s) \<Rightarrow> (Inl err, snd (os_Remove fname s))
           | (None, s) \<Rightarrow>
               (case file_Close fname s of
                  Some err \<Rightarrow> (Inl err, snd (os_Remove fname s))
                | None \<Rightarrow>
                    (case ioutil_WriteFile (GetEscapedPath (dataDir D) (lastIPFilePrefix @ rangeID)) (ip_String ip) s of
                       (Some err, s) \<Rightarrow> (Inl err, s)
                     | (None, s) \<Rightarrow> (Inr True, s)))))"

definition disk_LastReservedIP :: "disk \<Rightarrow> string \<Rightarrow> os_state \<Rightarrow> go_error + net_ip" where
  "disk_LastReservedIP D rangeID s =
     bind_sum (ioutil_ReadFile (GetEscapedPath (dataDir D) (lastIPFilePrefix @ rangeID)) s) (\<lambda>data. Inr (ParseIP data))"

definition disk_Release :: "disk \<Rightarrow> net_ip \<Rightarrow> os_state \<Rightarrow> go_error option \<times> os_state" where
  "disk_Release D ip s = os_Remove (GetEscapedPath (dataDir D) (ip_String ip)) s"

text \<open>
  The callbacks of \<open>Walk\<close> return no error, so neither does \<open>Walk\<close>: only the flag is left of
  \<open>FindByKey\<close> and \<open>ReleaseByKey\<close>. The first is the test of a file.
\<close>

definition file_matches :: "string \<Rightarrow> os_state \<Rightarrow> string \<Rightarrow> bool" where
  "file_matches match s path =
     (case ioutil_ReadFile path s of Inl err \<Rightarrow> False | Inr data \<Rightarrow> trim_space data = match)"

definition disk_FindByKey :: "disk \<Rightarrow> string \<Rightarrow> os_state \<Rightarrow> bool" where
  "disk_FindByKey D match s = list_ex (file_matches match s) (walk_files (dataDir D) s)"

text \<open>\<open>Lock\<close> and the deferred \<open>Unlock\<close> may change the state, their errors are ignored.\<close>

definition disk_FindByID :: "disk \<Rightarrow> string \<Rightarrow> string \<Rightarrow> os_state \<Rightarrow> bool \<times> os_state" where
  "disk_FindByID D cid ifname s =
     (let s = snd (fm_Lock (dkLock D) s);
          found = (disk_FindByKey D (disk_owner ifname cid) s \<or> disk_FindByKey D (trim_space cid) s)
      in (found, snd (fm_Unlock (dkLock D) s)))"

fun release_files :: "string \<Rightarrow> string list \<Rightarrow> os_state \<Rightarrow> bool \<times> os_state" where
  "release_files match [] s = (False, s)"
| "release_files match (p # ps) s =
     (if file_matches match s p then
        (case os_Remove p s of
           (Some err, s) \<Rightarrow> release_files match ps s
         | (None, s) \<Rightarrow> (True, snd (release_files match ps s)))
      else release_files match ps s)"

definition disk_ReleaseByKey :: "disk \<Rightarrow> string \<Rightarrow> os_state \<Rightarrow> bool \<times> os_state" where
  "disk_ReleaseByKey D match s = release_files match (walk_files (dataDir D) s) s"

definition disk_ReleaseByID :: "disk \<Rightarrow> string \<Rightarrow> string \<Rightarrow> os_state \<Rightarrow> go_error option \<times> os_state" where
  "disk_ReleaseByID D cid ifname s =
     (case disk_ReleaseByKey D (disk_owner ifname cid) s of
        (found, s) \<Rightarrow> (None, if found then s else snd (disk_ReleaseByKey D (trim_space cid) s)))"

text \<open>The last element of a path (\<open>filepath.Split\<close>) is the name of its file.\<close>

definition disk_GetByID :: "disk \<Rightarrow> string \<Rightarrow> string \<Rightarrow> os_state \<Rightarrow> net_ip list" where
  "disk_GetByID D cid ifname s =
     filter (\<lambda>ip. ip \<noteq> []) (map (\<lambda>p. ParseIP (after_last (CHR ''/'') p))
       (filter (\<lambda>p. file_matches (disk_owner ifname cid) s p \<or> file_matches (trim_space cid) s p)
         (walk_files (dataDir D) s)))"

text \<open>\<open>var _ backend.Store = &Store{}\<close>, for the requests of one interface.\<close>

definition disk_store :: "disk \<Rightarrow> string \<Rightarrow> os_state store" where
  "disk_store D ifname =
     \<lparr>st_Lock = fm_Lock (dkLock D), st_Unlock = fm_Unlock (dkLock D), st_Close = fm_Close (dkLock D),
      st_Reserve = (\<lambda>cid. disk_Reserve D cid ifname),
      st_LastReservedIP = (\<lambda>rid s. (disk_LastReservedIP D rid s, s)),
      st_Release = disk_Release D,
      st_ReleaseByID = (\<lambda>cid. disk_ReleaseByID D cid ifname)\<rparr>"

section \<open>Printed addresses as file names\<close>

lemma hex_char_ne: "n < 16 \<Longrightarrow> hex_char n \<notin> {CHR ''/'', CHR ''.'', CHR ''l''}"
proof -
  have "\<forall>n<16. hex_char n \<notin> {CHR ''/'', CHR ''.'', CHR ''l''}" by code_simp
  then show "n < 16 \<Longrightarrow> ?thesis" by blast
qed

lemma hex_nat_chars: "c \<in> set (hex_nat n) \<Longrightarrow> c \<notin> {CHR ''/'', CHR ''.'', CHR ''l''}"
proof (induction n rule: hex_nat.induct)
  case (1 n)
  then show ?case
    using hex_char_ne [of "n mod 16"] hex_char_ne [of n]
    by (subst (asm) (2) hex_nat.simps) (auto split: if_splits)
qed

lemma hex_nat_not_Nil: "hex_nat n \<noteq> []"
  by (subst hex_nat.simps) simp

lemma print_groups_chars: "c \<in> set (print_groups k gs i e0 e1) \<Longrightarrow> c \<notin> {CHR ''/'', CHR ''.'', CHR ''l''}"
  by (induction k gs i e0 e1 rule: print_groups.induct) (auto split: if_splits dest: hex_nat_chars)

lemma groups_not_Nil: "2 \<le> length xs \<Longrightarrow> groups xs \<noteq> []"
  by (cases xs; cases "tl xs") auto

lemma join_chars: "c \<in> set (join sep ws) \<Longrightarrow> c \<in> set sep \<or> (\<exists>w\<in>set ws. c \<in> set w)"
  by (induction sep ws rule: join.induct) auto

lemma digit_ne: "is_digit c \<Longrightarrow> c \<notin> {CHR ''/'', CHR ''.'', CHR ''l''}"
  by (auto simp: is_digit_def)

lemma dotted_chars:
  assumes "length p = 4"
  shows "dotted p \<noteq> [] \<and> is_digit (hd (dotted p)) \<and> CHR ''/'' \<notin> set (dotted p)"
proof -
  obtain b q where p: "p = b # q" using assms by (cases p) auto
  have "dec_nat (unat b) \<noteq> []" "is_digit (hd (dec_nat (unat b)))" by (simp_all add: hd_dec_nat)
  then show ?thesis
    using dec_nat_digits digit_ne
    by (auto simp: p dotted_Cons dot_tail_def split: if_splits)
qed

lemma ip_String_chars:
  "ip_String ip \<noteq> [] \<and> hd (ip_String ip) \<notin> {CHR ''l'', CHR ''.''} \<and> CHR ''/'' \<notin> set (ip_String ip)"
proof -
  consider "ip = []" | "To4 ip \<noteq> []" | "ip \<noteq> []" "To4 ip = []" "length ip \<noteq> 16" | "To4 ip = []" "length ip = 16"
    by blast
  then show ?thesis
  proof cases
    case 2
    then have "length (To4 ip) = 4" using To4_cases by blast
    from dotted_chars [OF this] 2 digit_ne show ?thesis by (auto simp: ip_String_def To4_def split: if_splits)
  next
    case 3
    have "unat (b :: byte) div 16 < 16" for b using unat_byte [of b] by (simp add: less_mult_imp_div_less)
    then have "c \<noteq> CHR ''/''" if "c \<in> set (hex_byte b)" for b c
      using that hex_char_ne [of "unat b div 16"] hex_char_ne [of "unat b mod 16"]
      by (auto simp: hex_byte_def)
    with 3 show ?thesis by (auto simp: ip_String_def)
  next
    case 4
    then have "groups ip \<noteq> []" "ip \<noteq> []" by (auto intro!: groups_not_Nil)
    then have g: "print_groups 9 (groups ip) 0 e0 e1 \<noteq> []" for e0 e1
      using hex_nat_not_Nil by (simp add: eval_nat_numeral)
    have "hd (print_groups 9 (groups ip) 0 e0 e1) \<notin> {CHR ''l'', CHR ''.''} \<and>
        CHR ''/'' \<notin> set (print_groups 9 (groups ip) 0 e0 e1)" for e0 e1
      using print_groups_chars [OF list.set_sel(1) [OF g]] print_groups_chars by blast
    with g 4 \<open>ip \<noteq> []\<close> show ?thesis by (simp add: ip_String_def Let_def)
  qed (simp add: ip_String_def)
qed

section \<open>The store keeps its promises\<close>

text \<open>
  The names of reservations are those of printed addresses: neither the lock file nor a file of
  a last reserved address. Identifiers are words that can be part of a file name.
\<close>

definition used_name :: "string \<Rightarrow> bool" where
  "used_name k \<longleftrightarrow> path_name k \<and> k \<noteq> ''lock'' \<and> \<not> has_prefix k lastIPFilePrefix"

definition word :: "string \<Rightarrow> bool" where
  "word x \<longleftrightarrow> x \<noteq> [] \<and> (\<forall>c\<in>set x. \<not> is_space c)"

definition disk_id :: "string \<Rightarrow> bool" where
  "disk_id x \<longleftrightarrow> word x \<and> CHR ''/'' \<notin> set x"

definition disk_file :: "disk \<Rightarrow> os_state \<Rightarrow> string \<rightharpoonup> string" where
  "disk_file D s k = map_of (os_files s) (dataDir D @ ''/'' @ k)"

definition disk_used :: "disk \<Rightarrow> os_state \<Rightarrow> string \<rightharpoonup> string" where
  "disk_used D s k = (if used_name k then disk_file D s k else None)"

definition disk_last :: "disk \<Rightarrow> os_state \<Rightarrow> string \<rightharpoonup> string" where
  "disk_last D s rid = (if disk_id rid then disk_file D s (lastIPFilePrefix @ rid) else None)"

definition reservation :: "string \<Rightarrow> bool" where
  "reservation c \<longleftrightarrow> (\<exists>cid ifname. word cid \<and> word ifname \<and> c = cid @ LineBreak @ ifname)"

definition disk_inv :: "disk \<Rightarrow> os_state \<Rightarrow> bool" where
  "disk_inv D s \<longleftrightarrow> os_fault s = (\<lambda>_ _. None) \<and> distinct (map fst (os_files s)) \<and>
     dataDir D \<notin> fst ` set (os_files s) \<and> (\<forall>k c. disk_used D s k = Some c \<longrightarrow> reservation c)"

lemma ip_used_name: "used_name (ip_String ip)"
  using ip_String_chars [of ip]
  by (cases "ip_String ip") (auto simp: used_name_def path_name_def has_prefix_def lastIPFilePrefix_def)

lemma ip_not_last: "ip_String ip \<noteq> lastIPFilePrefix @ x" "lastIPFilePrefix @ x \<noteq> ip_String ip"
  using ip_used_name [of ip] has_prefix_append [of lastIPFilePrefix x] by (metis used_name_def)+

lemma map_of_filter_distinct:
  assumes "distinct (map fst fs)"
  shows "map_of (filter P fs) k = Option.bind (map_of fs k) (\<lambda>data. if P (k, data) then Some data else None)"
  using assms by (induction fs) (auto split: Option.bind_splits simp: map_of_eq_None_iff)

lemma last_name: "disk_id rid \<Longrightarrow> path_name (lastIPFilePrefix @ rid) \<and> \<not> used_name (lastIPFilePrefix @ rid)"
  by (auto simp: used_name_def path_name_def lastIPFilePrefix_def has_prefix_def disk_id_def)

lemma dropWhile_hd: "\<not> P (hd x) \<Longrightarrow> dropWhile P x = x"
  by (cases x) auto

lemma trim_space_ends: "\<not> is_space (hd x) \<Longrightarrow> \<not> is_space (last x) \<Longrightarrow> trim_space x = x"
  by (simp add: trim_space_def dropWhile_hd hd_rev)

lemma trim_word: "word x \<Longrightarrow> trim_space x = x"
  by (rule trim_space_ends) (auto simp: word_def)

lemma trim_reservation: "reservation c \<Longrightarrow> trim_space c = c"
  by (rule trim_space_ends) (auto simp: reservation_def word_def)

lemma reservation_not_word: "reservation c \<Longrightarrow> \<not> word c"
proof -
  have "CHR 0x0D \<in> set LineBreak" "is_space (CHR 0x0D)" by (simp_all add: LineBreak_def is_space_def)
  then show "reservation c \<Longrightarrow> \<not> word c" by (auto simp: reservation_def word_def)
qed

lemma map_of_put [simp]: "map_of (os_files (os_put p d s)) = (map_of (os_files s))(p \<mapsto> d)"
  by (simp add: os_put_def update_conv')

lemma os_put_fault [simp]: "os_fault (os_put p d s) = os_fault s"
  by (simp add: os_put_def)

lemma distinct_put: "distinct (map fst (os_files s)) \<Longrightarrow> distinct (map fst (os_files (os_put p d s)))"
  by (simp add: os_put_def distinct_update)

text \<open>What a release removes, on a file system without faults.\<close>

definition keep_file :: "string \<Rightarrow> string set \<Rightarrow> string \<times> string \<Rightarrow> bool" where
  "keep_file match ps f \<longleftrightarrow> \<not> (fst f \<in> ps \<and> trim_space (snd f) = match)"

lemma file_matches_iff:
  "os_fault s = (\<lambda>_ _. None) \<Longrightarrow>
    file_matches match s p \<longleftrightarrow> (\<exists>c. map_of (os_files s) p = Some c \<and> trim_space c = match)"
  by (auto simp: file_matches_def ioutil_ReadFile_def split: option.splits)

lemma release_files_spec:
  "os_fault s = (\<lambda>_ _. None) \<Longrightarrow> distinct (map fst (os_files s)) \<Longrightarrow>
    release_files match ps s =
      (\<exists>f\<in>set (os_files s). \<not> keep_file match (set ps) f,
       s\<lparr>os_files := filter (keep_file match (set ps)) (os_files s)\<rparr>)"
proof (induction match ps s rule: release_files.induct)
  case (1 match s)
  then show ?case by (simp add: keep_file_def)
next
  case (2 match p ps s)
  let ?fs = "os_files s"
  have keep: "filter (keep_file match (set ps)) (AList.delete p ?fs) = filter (keep_file match (set (p # ps))) ?fs"
    if m: "file_matches match s p"
  proof -
    obtain c where c: "map_of ?fs p = Some c" "trim_space c = match"
      using m by (auto simp: file_matches_iff [OF "2.prems"(1)])
    have "v = c" if "(p, v) \<in> set ?fs" for v
      using map_of_is_SomeI [OF "2.prems"(2) that] c(1) by simp
    then have "(p \<noteq> fst f \<and> keep_file match (set ps) f) = keep_file match (set (p # ps)) f" if "f \<in> set ?fs" for f
      using that c(2) by (cases f) (auto simp: keep_file_def)
    then show ?thesis
      unfolding AList.delete_eq filter_filter case_prod_beta by (intro filter_cong) auto
  qed
  show ?case
  proof (cases "file_matches match s p")
    case True
    then obtain c where c: "map_of ?fs p = Some c" "trim_space c = match"
      using file_matches_iff [OF "2.prems"(1)] by blast
    define t where "t = s\<lparr>os_files := AList.delete p ?fs\<rparr>"
    have r: "os_Remove p s = (None, t)" using "2.prems"(1) c by (simp add: os_Remove_def t_def)
    have "release_files match ps t = (\<exists>f\<in>set (os_files t). \<not> keep_file match (set ps) f,
        t\<lparr>os_files := filter (keep_file match (set ps)) (os_files t)\<rparr>)"
      using "2.IH"(1) [OF True r [symmetric] refl] "2.prems" by (simp add: t_def distinct_delete)
    moreover have "\<exists>f\<in>set ?fs. \<not> keep_file match (set (p # ps)) f"
      using c map_of_SomeD [OF c(1)] by (force simp: keep_file_def)
    ultimately show ?thesis
      using True r keep [OF True] by (simp add: t_def del: list.set)
  next
    case False
    have "keep_file match (set (p # ps)) f = keep_file match (set ps) f" if "f \<in> set ?fs" for f
      using that "2.prems"(2) False [unfolded file_matches_iff [OF "2.prems"(1)]] map_of_is_SomeI [of ?fs "fst f" "snd f"]
      by (cases f) (auto simp: keep_file_def)
    then have "filter (keep_file match (set (p # ps))) ?fs = filter (keep_file match (set ps)) ?fs"
      "(\<exists>f\<in>set ?fs. \<not> keep_file match (set (p # ps)) f) = (\<exists>f\<in>set ?fs. \<not> keep_file match (set ps) f)"
      by (auto intro: filter_cong)
    with "2.IH"(3) [OF False "2.prems"] False show ?thesis by (simp del: list.set)
  qed
qed

text \<open>
  A store in a clean directory, for one interface. \<open>Lock\<close> may let other processes run, which
  keep the invariant; \<open>Unlock\<close> changes no file.
\<close>

locale disk_dir =
  fixes D :: disk and ifname :: string
  assumes dir: "clean_dir (dataDir D)"
    and ifname: "word ifname"
    and lock_keeps: "disk_inv D s \<Longrightarrow> disk_inv D (snd (fm_Lock (dkLock D) s))"
    and unlock_same: "disk_inv D s \<Longrightarrow> snd (fm_Unlock (dkLock D) s) = s"
begin

lemma path_of: "path_name k \<Longrightarrow> GetEscapedPath (dataDir D) k = dataDir D @ ''/'' @ k"
  by (simp add: GetEscapedPath_def GOOS_def Join_name [OF dir])

lemma no_fault: "disk_inv D s \<Longrightarrow> os_fault s = (\<lambda>_ _. None)"
  by (simp add: disk_inv_def)

lemma ip_path: "GetEscapedPath (dataDir D) (ip_String ip) = dataDir D @ ''/'' @ ip_String ip"
  using ip_used_name by (simp add: path_of used_name_def)

lemma used_ip: "disk_used D s (ip_String ip) = disk_file D s (ip_String ip)"
  by (simp add: disk_used_def ip_used_name)

text \<open>The state after a successful \<open>Reserve\<close>.\<close>

definition reserved :: "string \<Rightarrow> net_ip \<Rightarrow> string \<Rightarrow> os_state \<Rightarrow> os_state" where
  "reserved cid ip rid s =
     os_put (dataDir D @ ''/'' @ lastIPFilePrefix @ rid) (ip_String ip)
       (os_put (dataDir D @ ''/'' @ ip_String ip) (disk_owner ifname cid)
         (os_put (dataDir D @ ''/'' @ ip_String ip) [] s))"

lemma Reserve_spec:
  assumes "disk_inv D s" "disk_id rid"
  shows "disk_Reserve D cid ifname ip rid s =
    (if disk_used D s (ip_String ip) \<noteq> None then (Inr False, s) else (Inr True, reserved cid ip rid s))"
  using assms last_name [OF assms(2)]
  by (auto simp: disk_Reserve_def ip_path path_of used_ip disk_file_def no_fault os_OpenFile_EXCL_def
      file_WriteString_def file_Close_def ioutil_WriteFile_def reserved_def Let_def)

lemma Reserve_False:
  assumes "disk_inv D s" "disk_Reserve D cid ifname ip rid s = (Inr False, s')"
  shows "disk_used D s (ip_String ip) \<noteq> None \<and> s' = s"
  using assms
  by (auto simp: disk_Reserve_def ip_path used_ip disk_file_def no_fault os_OpenFile_EXCL_def
      file_WriteString_def file_Close_def ioutil_WriteFile_def Let_def split: if_splits)

lemma reserved_views:
  assumes "disk_id rid"
  shows "disk_used D (reserved cid ip rid s) = (disk_used D s)(ip_String ip \<mapsto> disk_owner ifname cid)"
    and "disk_last D (reserved cid ip rid s) = (disk_last D s)(rid \<mapsto> ip_String ip)"
  using last_name ip_used_name [of ip] assms
  by (auto simp: ip_not_last disk_used_def disk_last_def disk_file_def reserved_def fun_eq_iff)

lemma reserved_inv:
  assumes "disk_inv D s" "disk_id cid" "disk_id rid"
  shows "disk_inv D (reserved cid ip rid s)"
proof -
  have "reservation (disk_owner ifname cid)"
    using assms(2) ifname trim_word unfolding reservation_def disk_owner_def disk_id_def by metis
  moreover have "os_fault (reserved cid ip rid s) = (\<lambda>_ _. None)"
    "distinct (map fst (os_files (reserved cid ip rid s)))" "dataDir D \<notin> fst ` set (os_files (reserved cid ip rid s))"
    using assms(1) by (simp_all add: disk_inv_def distinct_update reserved_def os_put_def dom_update)
  ultimately show ?thesis
    using assms(1) by (simp add: disk_inv_def reserved_views [OF assms(3)])
qed

text \<open>The state after the files with certain contents have been removed.\<close>

definition released :: "string \<Rightarrow> os_state \<Rightarrow> os_state" where
  "released match s = s\<lparr>os_files :=
     filter (\<lambda>f. \<not> (under_dir (dataDir D) (fst f) \<and> trim_space (snd f) = match)) (os_files s)\<rparr>"

lemma set_walk: "os_fault s = (\<lambda>_ _. None) \<Longrightarrow>
    set (walk_files (dataDir D) s) = {p. under_dir (dataDir D) p \<and> p \<in> fst ` set (os_files s)}"
  by (auto simp: walk_files_def)

lemma ReleaseByKey_spec:
  assumes "disk_inv D s"
  shows "snd (disk_ReleaseByKey D match s) = released match s"
    and "fst (disk_ReleaseByKey D match s) \<longleftrightarrow>
      (\<exists>f\<in>set (os_files s). under_dir (dataDir D) (fst f) \<and> trim_space (snd f) = match)"
proof -
  have s: "os_fault s = (\<lambda>_ _. None)" "distinct (map fst (os_files s))"
    using assms by (auto simp: disk_inv_def)
  have k: "keep_file match (set (walk_files (dataDir D) s)) f \<longleftrightarrow>
      \<not> (under_dir (dataDir D) (fst f) \<and> trim_space (snd f) = match)" if "f \<in> set (os_files s)" for f
    using that by (auto simp: keep_file_def set_walk [OF s(1)])
  show "snd (disk_ReleaseByKey D match s) = released match s"
    using k by (simp add: disk_ReleaseByKey_def release_files_spec [OF s] released_def cong: filter_cong)
  show "fst (disk_ReleaseByKey D match s) \<longleftrightarrow>
      (\<exists>f\<in>set (os_files s). under_dir (dataDir D) (fst f) \<and> trim_space (snd f) = match)"
    using k by (simp add: disk_ReleaseByKey_def release_files_spec [OF s])
qed

lemma released_used:
  assumes "disk_inv D s"
  shows "disk_used D (released match s) = (\<lambda>k. if disk_used D s k = Some match then None else disk_used D s k)"
proof
  fix k
  let ?p = "dataDir D @ ''/'' @ k"
  have m: "map_of (os_files (released match s)) ?p =
      (case map_of (os_files s) ?p of None \<Rightarrow> None | Some c \<Rightarrow> if trim_space c = match then None else Some c)"
    using assms by (auto simp: disk_inv_def released_def map_of_filter_distinct under_dir_def has_prefix_iff
        split: option.splits)
  have "trim_space c = c" if "disk_used D s k = Some c" for c
    using that assms trim_reservation unfolding disk_inv_def by blast
  then show "disk_used D (released match s) k = (if disk_used D s k = Some match then None else disk_used D s k)"
    using m by (auto simp: disk_used_def disk_file_def split: option.splits)
qed

lemma released_inv: "disk_inv D s \<Longrightarrow> disk_inv D (released match s)"
  using released_used [of s match]
  by (auto simp: disk_inv_def released_def distinct_map_filter split: if_splits)

text \<open>A release removes exactly the reservations of the container on the interface.\<close>

lemma ReleaseByID_spec:
  assumes "disk_inv D s" "disk_ReleaseByID D cid ifname s = (res, s')"
  shows "res = None" "disk_inv D s'"
    "disk_id cid \<Longrightarrow> disk_used D s' =
      (\<lambda>k. if disk_used D s k = Some (disk_owner ifname cid) then None else disk_used D s k)"
proof -
  let ?s1 = "released (disk_owner ifname cid) s" and ?s2 = "released (trim_space cid) (released (disk_owner ifname cid) s)"
  have i1: "disk_inv D ?s1" by (rule released_inv [OF assms(1)])
  have s': "res = None" "s' = ?s1 \<or> s' = ?s2"
    using assms(2) ReleaseByKey_spec(1) [OF assms(1)] ReleaseByKey_spec(1) [OF i1]
    by (auto simp: disk_ReleaseByID_def case_prod_beta split: if_splits)
  then show "res = None" "disk_inv D s'" using i1 released_inv [OF i1] by auto
  assume "disk_id cid"
  then have "word (trim_space cid)" using trim_word by (simp add: disk_id_def)
  then have "disk_used D ?s1 k \<noteq> Some (trim_space cid)" for k
    using i1 reservation_not_word unfolding disk_inv_def by blast
  then have "disk_used D ?s2 = disk_used D ?s1" by (simp add: released_used [OF i1])
  with s'(2) show "disk_used D s' =
      (\<lambda>k. if disk_used D s k = Some (disk_owner ifname cid) then None else disk_used D s k)"
    using released_used [OF assms(1)] by metis
qed

end

sublocale disk_dir \<subseteq> ip_store "disk_store D ifname" "disk_used D" "disk_last D" "disk_inv D"
  "disk_owner ifname" disk_id
proof (unfold_locales, goal_cases)
  case (1 n)
  have "c \<noteq> CHR ''/'' \<and> \<not> is_space c" if "is_digit c" for c
    using that by (auto simp: is_digit_def is_space_def)
  then show ?case
    using dec_nat_digits [of _ n] by (auto simp: disk_id_def word_def Itoa_def)
next
  case (12 s rid ip s')
  then show ?case
    using last_name [of rid]
    by (auto simp: disk_store_def disk_LastReservedIP_def ioutil_ReadFile_def no_fault path_of disk_last_def
        disk_file_def split: option.splits)
next
  case (8 s cid ip rid s')
  then show ?case using Reserve_False [of s cid ip rid s'] by (auto simp: disk_store_def)
next
  case (13 s cid)
  then show ?case using ReleaseByID_spec(2) [OF _ prod.collapse [symmetric]] by (simp add: disk_store_def)
next
  case (15 s cid e s')
  then show ?case using ReleaseByID_spec(1) [of s cid "Some e" s'] by (simp add: disk_store_def)
qed (auto simp: disk_store_def lock_keeps unlock_same Reserve_spec reserved_views reserved_inv ReleaseByID_spec split: if_splits)

context disk_dir begin

lemma is_store: "ip_store (disk_store D ifname) (disk_used D) (disk_last D) (disk_inv D) (disk_owner ifname) disk_id"
  by unfold_locales

end

section \<open>A directory nobody else uses\<close>

definition free_mutex :: file_mutex where
  "free_mutex = \<lparr>fm_Lock = (\<lambda>s. (None, s)), fm_Unlock = (\<lambda>s. (None, s)), fm_Close = (\<lambda>s. (None, s))\<rparr>"

definition net_disk :: disk where
  "net_disk = \<lparr>dkLock = free_mutex, dataDir = ''/var/lib/cni/networks/net''\<rparr>"

definition empty_os :: os_state where
  "empty_os = \<lparr>os_files = [], os_fault = (\<lambda>_ _. None)\<rparr>"

lemma clean_net: "clean_dir (dataDir net_disk)"
proof -
  have "dataDir net_disk = (if True then ''/'' else []) @ join ''/'' [''var'', ''lib'', ''cni'', ''networks'', ''net'']"
    by (simp add: net_disk_def)
  moreover have "clean_list True [''var'', ''lib'', ''cni'', ''networks'', ''net'']"
    by (simp add: path_name_def)
  ultimately show ?thesis unfolding clean_dir_def by blast
qed

interpretation net_disk: disk_dir net_disk "''eth0''"
  by unfold_locales (rule clean_net, simp add: word_def is_space_def, simp_all add: net_disk_def free_mutex_def)

lemma empty_os_inv: "disk_inv net_disk empty_os" "disk_used net_disk empty_os = Map.empty"
  by (simp_all add: disk_inv_def disk_used_def disk_file_def empty_os_def fun_eq_iff)

end
