(* ===== verification/HostLocal.thy ===== *)
theory HostLocal
  imports Disk Kipam
begin

text \<open>
  The plugin \<open>host-local\<close> (\<open>plugins/plugins/ipam/host-local\<close>): its own rules for ranges
  (\<open>backend/allocator/range.go\<close>, \<open>range_set.go\<close>), its configuration (\<open>config.go\<close>), its
  allocator (\<open>allocator.go\<close>), which refuses a second address of a range set to the same
  container, and its commands (\<open>main.go\<close>) over the store on disk. What the two allocators of
  the repository share line by line, the membership and overlap tests, the iterator, the branch
  for a requested address and the end of \<open>Get\<close>, is shared here too.
\<close>

section \<open>range.go and range_set.go\<close>

text \<open>The gateway is only put in canonical form; it may lie outside the subnet.\<close>

definition hl_fill_gateway :: "ip_range \<Rightarrow> go_error + ip_range" where
  "hl_fill_gateway r =
     (if Gateway r = [] then Inr (r\<lparr>Gateway := NextIP (IP (Subnet r))\<rparr>)
      else bind_sum (canonicalizeIP (Gateway r)) (\<lambda>g. Inr (r\<lparr>Gateway := g\<rparr>)))"

definition hl_Range_Canonicalize :: "ip_range \<Rightarrow> go_error + ip_range" where
  "hl_Range_Canonicalize r =
     bind_sum (canonicalizeIP (IP (Subnet r))) (\<lambda>ip.
       let r = r\<lparr>Subnet := (Subnet r)\<lparr>IP := ip\<rparr>\<rparr>;
           networkIP = ip_Mask (IP (Subnet r)) (Mask (Subnet r))
       in case Mask_Size (Mask (Subnet r)) of (ones, masklen) \<Rightarrow>
         if ones > masklen - 2
         then Inl (Msg (''Network '' @ IPNet_String (Subnet r) @ '' too small to allocate from''))
         else if length (IP (Subnet r)) \<noteq> length (Mask (Subnet r))
         then Inl (Msg ''IPNet IP and Mask version mismatch'')
         else if \<not> ip_Equal (IP (Subnet r)) networkIP
         then Inl (Msg (''Network has host bits set. For a subnet mask of length '' @ Itoa ones @
                '' the network address is '' @ ip_String networkIP))
         else bind_sum (hl_fill_gateway r) (\<lambda>r. bind_sum (fill_start r) fill_end))"

fun hl_canon_ranges :: "nat option \<Rightarrow> range_set \<Rightarrow> go_error + range_set" where
  "hl_canon_ranges f [] = Inr []"
| "hl_canon_ranges f (r # rs) =
     (case hl_Range_Canonicalize r of
        Inl e \<Rightarrow> Inl e
      | Inr r' \<Rightarrow>
          if f \<noteq> None \<and> f \<noteq> Some (length (RangeStart r')) then Inl (Msg ''mixed address families'')
          else bind_sum (hl_canon_ranges (Some (length (RangeStart r'))) rs) (\<lambda>rs'. Inr (r' # rs')))"

definition hl_RangeSet_Canonicalize :: "range_set \<Rightarrow> go_error + range_set" where
  "hl_RangeSet_Canonicalize s =
     (if s = [] then Inl (Msg ''empty range set'')
      else bind_sum (hl_canon_ranges None s) (\<lambda>s'.
        case check_overlaps s' of Some e \<Rightarrow> Inl e | None \<Rightarrow> Inr s'))"

section \<open>config.go\<close>

record hl_config =
  hlRange :: "ip_range option"
  hlName :: string
  hlType :: string
  hlRoutes :: "route list"
  hlDataDir :: string
  hlResolvConf :: string
  hlRanges :: "range_set list"
  hlIPArgs :: "net_ip list"

record hl_net =
  hnName :: string
  hnCNIVersion :: string
  hnIPAM :: "hl_config option"
  hnIPRanges :: "range_set list"
  hnArgs :: "net_ip list option option"

definition dec_hl_config :: "json \<Rightarrow> go_error + hl_config" where
  "dec_hl_config j =
     bind_sum (jmembers j) (\<lambda>kvs.
     bind_sum (dec_embedded_range j kvs) (\<lambda>r.
     bind_sum (dec_field dec_string [] kvs ''Name'') (\<lambda>name.
     bind_sum (dec_field dec_string [] kvs ''type'') (\<lambda>ty.
     bind_sum (dec_field (dec_list dec_route) [] kvs ''routes'') (\<lambda>routes.
     bind_sum (dec_field dec_string [] kvs ''dataDir'') (\<lambda>dir.
     bind_sum (dec_field dec_string [] kvs ''resolvConf'') (\<lambda>resolv.
     bind_sum (dec_field (dec_list (dec_list dec_range)) [] kvs ''ranges'') (\<lambda>ranges.
       Inr \<lparr>hlRange = r, hlName = name, hlType = ty, hlRoutes = routes, hlDataDir = dir,
            hlResolvConf = resolv, hlRanges = ranges, hlIPArgs = []\<rparr>))))))))"

definition dec_hl_net :: "json \<Rightarrow> go_error + hl_net" where
  "dec_hl_net j =
     bind_sum (jmembers j) (\<lambda>kvs.
     bind_sum (dec_field dec_string [] kvs ''name'') (\<lambda>name.
     bind_sum (dec_field dec_string [] kvs ''cniVersion'') (\<lambda>v.
     bind_sum (dec_field (dec_pointer dec_hl_config) None kvs ''ipam'') (\<lambda>ipam.
     bind_sum (dec_field dec_runtime_config [] kvs ''runtimeConfig'') (\<lambda>rc.
     bind_sum (dec_field (dec_pointer dec_net_args) None kvs ''args'') (\<lambda>args.
       Inr \<lparr>hnName = name, hnCNIVersion = v, hnIPAM = ipam, hnIPRanges = rc, hnArgs = args\<rparr>))))))"

text \<open>The ranges of the three sources: the runtime's, the old style single range, the list.\<close>

definition hl_all_ranges :: "hl_net \<Rightarrow> hl_config \<Rightarrow> range_set list" where
  "hl_all_ranges n c =
     (let ranges = (case hlRange c of
            Some r \<Rightarrow> if IP (Subnet r) \<noteq> [] then [r] # hlRanges c else hlRanges c
          | None \<Rightarrow> hlRanges c)
      in if length (hnIPRanges n) > 0 then hnIPRanges n @ ranges else ranges)"

fun hl_validate_sets :: "nat \<Rightarrow> range_set list \<Rightarrow> go_error + range_set list" where
  "hl_validate_sets i [] = Inr []"
| "hl_validate_sets i (s # ss) =
     (case hl_RangeSet_Canonicalize s of
        Inl err \<Rightarrow> Inl (Msg (''invalid range set '' @ Itoa (int i) @ '': '' @ err_text err))
      | Inr s' \<Rightarrow> bind_sum (hl_validate_sets (i + 1) ss) (\<lambda>ss'. Inr (s' # ss')))"

definition hl_validate_ranges :: "string \<Rightarrow> range_set list \<Rightarrow> go_error + range_set list" where
  "hl_validate_ranges version ranges =
     (if ranges = [] then Inl (Msg ''no IP ranges specified'')
      else bind_sum (hl_validate_sets 0 ranges) (\<lambda>ranges.
        let numV4 = length (filter is_v4_set ranges);
            numV6 = length (filter (\<lambda>s. \<not> is_v4_set s) ranges)
        in if (numV4 > 1 \<or> numV6 > 1) \<and> version \<in> set SupportedVersions020
           then Inl (Msg (''CNI version '' @ version @ '' does not support more than 1 address per family''))
           else (case find_overlap 0 ranges of
                   Some (i, j) \<Rightarrow> Inl (Msg (''range set '' @ Itoa (int i) @ '' overlaps with '' @ Itoa (int j)))
                 | None \<Rightarrow> Inr ranges)))"

definition hl_LoadIPAMConfig :: "document \<Rightarrow> string \<Rightarrow> (hl_config \<times> string) outcome" where
  "hl_LoadIPAMConfig bytes envArgs =
     (case bind_sum bytes dec_hl_net of
        Inl err \<Rightarrow> Fail err
      | Inr n \<Rightarrow>
          (case hnIPAM n of
             None \<Rightarrow> Fail (Msg (''IPAM config missing '' @ squote ''ipam'' @ '' key''))
           | Some ipam \<Rightarrow>
               (case env_ip envArgs of
                  Fail err \<Rightarrow> Fail err
                | Panic m \<Rightarrow> Panic m
                | Ret fromEnv \<Rightarrow>
                    outcome_of
                      (bind_sum (canon_args (fromEnv @ (case hnArgs n of Some (Some ips) \<Rightarrow> ips | _ \<Rightarrow> []))) (\<lambda>ips.
                       bind_sum (hl_validate_ranges (hnCNIVersion n) (hl_all_ranges n ipam)) (\<lambda>ranges.
                         Inr (ipam\<lparr>hlIPArgs := ips, hlRange := None, hlRanges := ranges, hlName := hnName n\<rparr>,
                              hnCNIVersion n)))))))"

section \<open>allocator.go\<close>

text \<open>
  \<open>Get\<close>: without a requested address it first looks for an address of the range set that the
  container already has on this interface.
\<close>

definition duplicate :: "disk \<Rightarrow> ip_allocator \<Rightarrow> string \<Rightarrow> string \<Rightarrow> os_state \<Rightarrow> net_ip option" where
  "duplicate D a cid ifname s =
     find (\<lambda>ip. case RangeSet_RangeFor (al_rangeset a) ip of Inl _ \<Rightarrow> False | Inr _ \<Rightarrow> True)
       (disk_GetByID D cid ifname s)"

definition hl_Get ::
  "disk \<Rightarrow> ip_allocator \<Rightarrow> string \<Rightarrow> string \<Rightarrow> net_ip \<Rightarrow> os_state \<Rightarrow> (ip_config outcome \<times> os_state) option" where
  "hl_Get D a cid ifname requestedIP s =
     (let S = disk_store D ifname; s = snd (st_Lock S s) in
      map_option (\<lambda>(res, s). (res, snd (st_Unlock S s)))
        (if requestedIP \<noteq> [] then Some (get_requested S a cid requestedIP s)
         else (case duplicate D a cid ifname s of
           Some ip \<Rightarrow> Some (Fail (Msg (ip_String ip @ '' has been allocated to '' @ cid @
                        '', duplicate allocation is not allowed'')), s)
         | None \<Rightarrow> (case GetIter S a s of (it, s) \<Rightarrow>
             (case it of
                Fail e \<Rightarrow> Some (Fail e, s)
              | Panic m \<Rightarrow> Some (Panic m, s)
              | Ret iter \<Rightarrow>
                  map_option (\<lambda>(res, s). (case res of Inl e \<Rightarrow> Fail e | Inr n \<Rightarrow> get_finish a n, s))
                    (get_loop S cid (al_rangeID a) iter s))))))"

definition hl_Release :: "disk \<Rightarrow> ip_allocator \<Rightarrow> string \<Rightarrow> string \<Rightarrow> os_state \<Rightarrow> go_error option \<times> os_state" where
  "hl_Release D a cid ifname s = IPAllocator_Release (disk_store D ifname) a cid s"

section \<open>main.go\<close>

text \<open>
  The loop of \<open>cmdAdd\<close> over the range sets, from index \<open>idx\<close> on; \<open>order\<close> is the order in
  which Go visits the map of the requested addresses.
\<close>

fun hl_alloc_ranges ::
  "disk \<Rightarrow> (nat \<Rightarrow> (string \<times> net_ip) list \<Rightarrow> (string \<times> net_ip) list) \<Rightarrow> string \<Rightarrow> string \<Rightarrow> nat \<Rightarrow>
    range_set list \<Rightarrow> (string \<times> net_ip) list \<Rightarrow> ip_allocator list \<Rightarrow> ip_config list \<Rightarrow> os_state \<Rightarrow>
    (ip_config list outcome \<times> os_state) option" where
  "hl_alloc_ranges D order cid ifname idx [] requestedIPs allocs ips s =
     (if length requestedIPs \<noteq> 0 then
        Some (Fail (Msg (''failed to allocate all requested IPs:'' @
                concat (map (\<lambda>(k, ip). '' '' @ ip_String ip) (order idx requestedIPs)))),
              release_allocs (disk_store D ifname) cid allocs s)
      else Some (Ret ips, s))"
| "hl_alloc_ranges D order cid ifname idx (rs # rest) requestedIPs allocs ips s =
     (let allocator = NewIPAllocator rs (int idx);
          found = find (\<lambda>(k, ip). RangeSet_Contains rs ip) (order idx requestedIPs);
          requestedIP = (case found of None \<Rightarrow> [] | Some (k, ip) \<Rightarrow> ip);
          requestedIPs = (case found of None \<Rightarrow> requestedIPs | Some (k, ip) \<Rightarrow> AList.delete k requestedIPs)
      in case hl_Get D allocator cid ifname requestedIP s of
           None \<Rightarrow> None
         | Some (Panic m, s) \<Rightarrow> Some (Panic m, s)
         | Some (Fail err, s) \<Rightarrow>
             Some (Fail (Msg (''failed to allocate for range '' @ Itoa (int idx) @ '': '' @ err_text err)),
                   release_allocs (disk_store D ifname) cid allocs s)
         | Some (Ret ipConf, s) \<Rightarrow>
             hl_alloc_ranges D order cid ifname (idx + 1) rest requestedIPs (allocs @ [allocator])
               (ips @ [ipConf]) s)"

definition hl_load_dns :: "hl_config \<Rightarrow> os_state \<Rightarrow> go_error + dns_conf" where
  "hl_load_dns ipamConf s =
     (if hlResolvConf ipamConf \<noteq> [] then parseResolvConf (\<lambda>p. ioutil_ReadFile p s) (hlResolvConf ipamConf)
      else Inr empty_dns)"

definition hl_finish_add :: "hl_config \<Rightarrow> string \<Rightarrow> dns_conf \<Rightarrow> ip_config list \<Rightarrow> cni_result outcome" where
  "hl_finish_add ipamConf confVersion dns ips =
     outcome_of (PrintResult
       (RCur \<lparr>CNIVersion = [], Interfaces = [], IPs = ips, Routes = hlRoutes ipamConf, DNS = dns\<rparr>) confVersion)"

text \<open>The deferred \<open>Close\<close> of the store runs whatever the commands return.\<close>

definition hl_cmdAdd ::
  "new_mutex \<Rightarrow> (nat \<Rightarrow> (string \<times> net_ip) list \<Rightarrow> (string \<times> net_ip) list) \<Rightarrow> cmd_args \<Rightarrow> os_state \<Rightarrow>
    (cni_result outcome \<times> os_state) option" where
  "hl_cmdAdd new order args s =
     (case hl_LoadIPAMConfig (StdinData args) (Args args) of
        Fail err \<Rightarrow> Some (Fail err, s)
      | Panic m \<Rightarrow> Some (Panic m, s)
      | Ret (ipamConf, confVersion) \<Rightarrow>
          (case hl_load_dns ipamConf s of
             Inl err \<Rightarrow> Some (Fail err, s)
           | Inr dns \<Rightarrow>
               (case disk_New new (hlName ipamConf) (hlDataDir ipamConf) s of
                  (Inl err, s) \<Rightarrow> Some (Fail err, s)
                | (Inr D, s) \<Rightarrow>
                    map_option (\<lambda>(ips, s). (case ips of
                         Fail err \<Rightarrow> Fail err | Panic m \<Rightarrow> Panic m
                       | Ret ips \<Rightarrow> hl_finish_add ipamConf confVersion dns ips, snd (fm_Close (dkLock D) s)))
                      (hl_alloc_ranges D order (ContainerID args) (IfName args) 0 (hlRanges ipamConf)
                        (requested_ips (hlIPArgs ipamConf)) [] [] s))))"

definition hl_cmdDel :: "new_mutex \<Rightarrow> cmd_args \<Rightarrow> os_state \<Rightarrow> unit outcome \<times> os_state" where
  "hl_cmdDel new args s =
     (case hl_LoadIPAMConfig (StdinData args) (Args args) of
        Fail err \<Rightarrow> (Fail err, s)
      | Panic m \<Rightarrow> (Panic m, s)
      | Ret (ipamConf, _) \<Rightarrow>
          (case disk_New new (hlName ipamConf) (hlDataDir ipamConf) s of
             (Inl err, s) \<Rightarrow> (Fail err, s)
           | (Inr D, s) \<Rightarrow>
               (case release_sets (disk_store D (IfName args)) (ContainerID args) 0 (hlRanges ipamConf) s of
                  (errors, s) \<Rightarrow>
                    (if errors \<noteq> [] then Fail (Msg (join '';'' errors)) else Ret (), snd (fm_Close (dkLock D) s)))))"

definition hl_cmdCheck :: "new_mutex \<Rightarrow> cmd_args \<Rightarrow> os_state \<Rightarrow> unit outcome \<times> os_state" where
  "hl_cmdCheck new args s =
     (case hl_LoadIPAMConfig (StdinData args) (Args args) of
        Fail err \<Rightarrow> (Fail err, s)
      | Panic m \<Rightarrow> (Panic m, s)
      | Ret (ipamConf, _) \<Rightarrow>
          (case disk_New new (hlName ipamConf) (hlDataDir ipamConf) s of
             (Inl err, s) \<Rightarrow> (Fail err, s)
           | (Inr D, s) \<Rightarrow>
               (case disk_FindByID D (ContainerID args) (IfName args) s of
                  (containerIpFound, s) \<Rightarrow>
                    (if \<not> containerIpFound
                     then Fail (Msg (''host-local: Failed to find address added by container '' @ ContainerID args))
                     else Ret (), snd (fm_Close (dkLock D) s)))))"

text \<open>The plugin, with the results it prints.\<close>

definition host_local ::
  "new_mutex \<Rightarrow> (nat \<Rightarrow> (string \<times> net_ip) list \<Rightarrow> (string \<times> net_ip) list) \<Rightarrow>
    (os_state \<times> cni_result list) dispatcher \<Rightarrow> os_state \<times> cni_result list \<Rightarrow>
    (unit outcome \<times> os_state \<times> cni_result list) option" where
  "host_local new order t w =
     pluginMain t
       (\<lambda>args (s, out). map_option (\<lambda>(r, s). case r of
            Ret x \<Rightarrow> (Ret (), s, out @ [x]) | Fail err \<Rightarrow> (Fail err, s, out) | Panic m \<Rightarrow> (Panic m, s, out))
          (hl_cmdAdd new order args s))
       (\<lambda>args (s, out). case hl_cmdCheck new args s of (r, s) \<Rightarrow> Some (r, s, out))
       (\<lambda>args (s, out). case hl_cmdDel new args s of (r, s) \<Rightarrow> Some (r, s, out))
       version_All (BuildString ''host-local'' BuildVersion) w"

end
