(* ===== verification/Properties_HostLocal.thy ===== *)
theory Properties_HostLocal
  imports HostLocal Properties_Kipam Properties_Ranges
begin

text \<open>
  The properties of \<open>host-local\<close>: what its configuration guarantees, what its store on disk
  implements, and what ADD, CHECK and DEL do to the reservations.
\<close>

section \<open>Ranges\<close>

text \<open>
  Apart from the gateway, the rules of \<open>host-local\<close> for a range are those of \<open>kube-ipam\<close> on a
  subnet without host bits.
\<close>

lemma Range_Contains_gateway:
  "Range_Contains (r\<lparr>Gateway := g, RangeStart := s\<rparr>) a = Range_Contains (r\<lparr>RangeStart := s\<rparr>) a"
  "Range_Contains (r\<lparr>Gateway := g, RangeEnd := e\<rparr>) a = Range_Contains (r\<lparr>RangeEnd := e\<rparr>) a"
  by (cases "canonicalizeIP a"; simp add: Range_Contains_def)+

lemma fill_gateway_free:
  "fill_start (r\<lparr>Gateway := g\<rparr>) = map_sum id (\<lambda>r. r\<lparr>Gateway := g\<rparr>) (fill_start r)"
  "fill_end (r\<lparr>Gateway := g\<rparr>) = map_sum id (\<lambda>r. r\<lparr>Gateway := g\<rparr>) (fill_end r)"
  by (cases "canonicalizeIP (RangeStart r)"; simp add: fill_start_def Let_def Range_Contains_gateway)
    (cases "canonicalizeIP (RangeEnd r)"; simp add: fill_end_def Let_def Range_Contains_gateway)

lemma hl_Range_Canonicalize_Inr:
  assumes "hl_Range_Canonicalize r = Inr r'"
  shows "Range_Canonicalize (r\<lparr>Gateway := []\<rparr>) = Inr (r'\<lparr>Gateway := NextIP (IP (Subnet r'))\<rparr>)"
    and "ip_Equal (IP (Subnet r')) (ip_Mask (IP (Subnet r')) (Mask (Subnet r')))"
proof -
  obtain ip where ip: "canonicalizeIP (IP (Subnet r)) = Inr ip"
    using assms by (auto simp: hl_Range_Canonicalize_def)
  obtain ones bits where sz: "Mask_Size (Mask (Subnet r)) = (ones, bits)"
    by (cases "Mask_Size (Mask (Subnet r))")
  define r0 where "r0 = r\<lparr>Subnet := (Subnet r)\<lparr>IP := ip\<rparr>\<rparr>"
  have size: "\<not> ones > bits - 2" "length ip = length (Mask (Subnet r))" "ip_Equal ip (ip_Mask ip (Mask (Subnet r)))"
    and "bind_sum (hl_fill_gateway r0) (\<lambda>r. bind_sum (fill_start r) fill_end) = Inr r'"
    using assms ip sz by (auto simp: hl_Range_Canonicalize_def r0_def Let_def split: if_splits)
  then obtain r1 r2 where f: "hl_fill_gateway r0 = Inr r1" "fill_start r1 = Inr r2" "fill_end r2 = Inr r'"
    by auto
  obtain g where r1: "r1 = r0\<lparr>Gateway := g\<rparr>"
    using f(1) by (auto simp: hl_fill_gateway_def split: if_splits)
  obtain s e where r2: "r2 = r1\<lparr>RangeStart := s\<rparr>" and r': "r' = r2\<lparr>RangeEnd := e\<rparr>"
    using fill_start_Inr [OF f(2)] fill_end_Inr [OF f(3)] by blast
  have sub: "Subnet r' = (Subnet r)\<lparr>IP := ip\<rparr>"
    by (simp add: r1 r2 r' r0_def)
  then show "ip_Equal (IP (Subnet r')) (ip_Mask (IP (Subnet r')) (Mask (Subnet r')))"
    using size(3) by simp
  let ?k = "NextIP ip"
  have "fill_start (r1\<lparr>Gateway := ?k\<rparr>) = Inr (r2\<lparr>Gateway := ?k\<rparr>)" "fill_end (r2\<lparr>Gateway := ?k\<rparr>) = Inr (r'\<lparr>Gateway := ?k\<rparr>)"
    using f(2,3) by (simp_all add: fill_gateway_free)
  then show "Range_Canonicalize (r\<lparr>Gateway := []\<rparr>) = Inr (r'\<lparr>Gateway := NextIP (IP (Subnet r'))\<rparr>)"
    using size(1,2) by (simp add: Range_Canonicalize_def ip sz Let_def fill_gateway_def sub r1 r0_def)
qed

lemma range_ok_gateway: "range_ok (r\<lparr>Gateway := g\<rparr>) = range_ok r"
  by (simp add: range_ok_def fam_def lo_def hi_def)

lemma hl_Range_Canonicalize_ok:
  assumes "hl_Range_Canonicalize r = Inr r'"
    and "hd (IP (Subnet r')) \<noteq> 0" "hd (RangeStart r') \<noteq> 0"
    and "RangeEnd r = [] \<Longrightarrow> RangeStart r \<noteq> [] \<Longrightarrow> lo r' \<le> be_nat (lastIP (Subnet r'))"
  shows "range_ok r'"
proof -
  let ?k = "r'\<lparr>Gateway := NextIP (IP (Subnet r'))\<rparr>"
  note k = hl_Range_Canonicalize_Inr [OF assms(1)]
  have "net_ok (Subnet r')" using Range_Canonicalize_Inr(3) [OF k(1)] by simp
  then have "length (ip_Mask (IP (Subnet r')) (Mask (Subnet r'))) = length (IP (Subnet r'))"
    using Network_IP [of "Subnet r'"] by (simp add: Network_def net_ok_def)
  then have "IP (Network (Subnet r')) = IP (Subnet r')"
    using k(2) by (simp add: ip_Equal_same_length Network_def)
  then have "range_ok ?k"
    using assms by (intro Range_Canonicalize_ok [OF k(1)]) (auto simp: lo_def)
  then show ?thesis by (simp add: range_ok_gateway)
qed

section \<open>The configuration\<close>

lemma list_all2_right: "list_all2 P xs ys \<Longrightarrow> y \<in> set ys \<Longrightarrow> \<exists>x\<in>set xs. P x y"
  by (induction rule: list_all2_induct) auto

lemma hl_canon_ranges_Inr:
  "hl_canon_ranges f s = Inr s' \<Longrightarrow> list_all2 (\<lambda>r r'. hl_Range_Canonicalize r = Inr r') s s' \<and>
     (\<forall>r\<in>set s'. case f of None \<Rightarrow> fam r = fam (hd s') | Some l \<Rightarrow> fam r = l)"
proof (induction f s arbitrary: s' rule: hl_canon_ranges.induct)
  case (2 f r rs)
  obtain r' where r': "hl_Range_Canonicalize r = Inr r'"
    using "2.prems" by (cases "hl_Range_Canonicalize r") auto
  then have f: "f = None \<or> f = Some (fam r')"
    using "2.prems" by (auto simp: fam_def split: if_splits)
  then have *: "\<not> (f \<noteq> None \<and> f \<noteq> Some (length (RangeStart r')))"
    by (auto simp: fam_def)
  with "2.prems" r' obtain rs' where s': "s' = r' # rs'"
    and "hl_canon_ranges (Some (length (RangeStart r'))) rs = Inr rs'"
    by auto
  then have IH: "list_all2 (\<lambda>r r'. hl_Range_Canonicalize r = Inr r') rs rs'" "\<forall>r\<in>set rs'. fam r = fam r'"
    using "2.IH" [OF r' *] by (auto simp: fam_def)
  with r' s' f show ?case by (auto split: option.splits)
qed simp

text \<open>The leading bytes that the arithmetic of the code needs, and the order of the two ends.\<close>

definition plain_range :: "ip_range \<Rightarrow> bool" where
  "plain_range r \<longleftrightarrow> hd (IP (Subnet r)) \<noteq> 0 \<and> hd (RangeStart r) \<noteq> 0 \<and> be_nat (RangeStart r) \<le> be_nat (RangeEnd r)"

lemma hl_RangeSet_Canonicalize_ok:
  assumes "hl_RangeSet_Canonicalize s = Inr s'" "\<forall>r\<in>set s'. plain_range r"
  shows "set_ok s'"
proof -
  have ne: "s \<noteq> []" and c: "hl_canon_ranges None s = Inr s'" and o: "check_overlaps s' = None"
    using assms(1) by (auto simp: hl_RangeSet_Canonicalize_def split: if_splits option.splits)
  note l = hl_canon_ranges_Inr [OF c]
  have "range_ok r'" if "r' \<in> set s'" for r'
  proof -
    obtain r where r: "hl_Range_Canonicalize r = Inr r'"
      using list_all2_right [OF conjunct1 [OF l] \<open>r' \<in> set s'\<close>] by blast
    have "lo r' \<le> be_nat (lastIP (Subnet r'))" if "RangeEnd r = []"
      using fill_end_Inr [OF Range_Canonicalize_Inr(7) [OF hl_Range_Canonicalize_Inr(1) [OF r]]] that assms(2) \<open>r' \<in> set s'\<close>
      by (cases r') (auto simp: plain_range_def lo_def)
    then show ?thesis
      using assms(2) \<open>r' \<in> set s'\<close> by (intro hl_Range_Canonicalize_ok [OF r]) (auto simp: plain_range_def)
  qed
  moreover have "s' \<noteq> []" using l ne by auto
  moreover have "\<forall>r\<in>set s'. fam r = fam (hd s')" using l by simp
  moreover have "sorted_wrt (\<lambda>r r1. \<not> Range_Overlaps r r1) s'" using o by (simp only: check_overlaps_None)
  ultimately show ?thesis unfolding set_ok_def by blast
qed

lemma hl_validate_sets_Inr:
  "hl_validate_sets i ss = Inr ss' \<Longrightarrow> list_all2 (\<lambda>s s'. hl_RangeSet_Canonicalize s = Inr s') ss ss'"
  by (induction i ss arbitrary: ss' rule: hl_validate_sets.induct) (auto split: sum.splits)

lemma hl_validate_ranges_Inr:
  assumes "hl_validate_ranges v ranges = Inr ranges'"
  shows "ranges' \<noteq> []" "list_all2 (\<lambda>s s'. hl_RangeSet_Canonicalize s = Inr s') ranges ranges'"
    and "sorted_wrt (\<lambda>s p. \<not> RangeSet_Overlaps s p) ranges'"
    and "v \<in> set SupportedVersions020 \<Longrightarrow>
      length (filter is_v4_set ranges') \<le> 1 \<and> length (filter (\<lambda>s. \<not> is_v4_set s) ranges') \<le> 1"
proof -
  have ne: "ranges \<noteq> []" and v: "hl_validate_sets 0 ranges = Inr ranges'"
    and rest: "find_overlap 0 ranges' = None"
      "\<not> ((length (filter is_v4_set ranges') > 1 \<or> length (filter (\<lambda>s. \<not> is_v4_set s) ranges') > 1) \<and>
        v \<in> set SupportedVersions020)"
    using assms by (auto simp: hl_validate_ranges_def Let_def split: if_splits option.splits)
  show l: "list_all2 (\<lambda>s s'. hl_RangeSet_Canonicalize s = Inr s') ranges ranges'"
    using hl_validate_sets_Inr [OF v] .
  then show "ranges' \<noteq> []" using ne by auto
  show "sorted_wrt (\<lambda>s p. \<not> RangeSet_Overlaps s p) ranges'"
    using rest(1) by (simp add: find_overlap_None)
  show "v \<in> set SupportedVersions020 \<Longrightarrow>
      length (filter is_v4_set ranges') \<le> 1 \<and> length (filter (\<lambda>s. \<not> is_v4_set s) ranges') \<le> 1"
    using rest(2) by auto
qed

lemma hl_LoadIPAMConfig_Ret:
  assumes "hl_LoadIPAMConfig bytes envArgs = Ret (c, v)"
  obtains ranges args where "hl_validate_ranges v ranges = Inr (hlRanges c)" "canon_args args = Inr (hlIPArgs c)"
  using assms unfolding hl_LoadIPAMConfig_def
  by (cases "bind_sum bytes dec_hl_net") (auto split: option.splits outcome.splits)

text \<open>Range sets in normal form that do not overlap have no address in common.\<close>

lemma sets_disjoint:
  assumes "\<forall>rs\<in>set sets. set_ok rs" "sorted_wrt (\<lambda>s p. \<not> RangeSet_Overlaps s p) sets"
    and "i < j" "j < length sets" "RangeSet_Contains (sets ! i) a"
  shows "\<not> RangeSet_Contains (sets ! j) a"
proof
  assume "RangeSet_Contains (sets ! j) a"
  then obtain c r s where c: "canonicalizeIP a = Inr c" and r: "r \<in> set (sets ! i)" "Range_Contains r c"
    and s: "s \<in> set (sets ! j)" "Range_Contains s c"
    using assms(5) by (auto simp: RangeSet_Contains_iff)
  have "sets ! i \<in> set sets" "sets ! j \<in> set sets" using assms(3,4) by simp_all
  then have ok: "range_ok r" "range_ok s" using assms(1) set_okD(1) r(1) s(1) by blast+
  then have "Range_Overlaps r s"
    using Range_Contains_ok [OF ok(1) canonicalizeIP_Inr [OF c]] Range_Contains_ok [OF ok(2) canonicalizeIP_Inr [OF c]] r(2) s(2)
    by (auto simp: Range_Overlaps_ok)
  then have "RangeSet_Overlaps (sets ! i) (sets ! j)"
    using r(1) s(1) by (auto simp: RangeSet_Overlaps_iff)
  then show False
    using sorted_wrt_nth_less [OF assms(2-4)] by simp
qed


section \<open>Allocation as a transaction\<close>

context ip_store begin

text \<open>On a store whose \<open>Reserve\<close> meets no error, a call of \<open>Get\<close> that fails reserves nothing.\<close>

definition sure :: "string \<Rightarrow> bool" where
  "sure cid \<longleftrightarrow> ok cid \<and> (\<forall>t ip rid e. inv t \<longrightarrow> ok rid \<longrightarrow> fst (st_Reserve S cid ip rid t) \<noteq> Inl e) \<and>
     (\<forall>t. inv t \<longrightarrow> used (snd (st_Lock S t)) = used t) \<and>
     (\<forall>t. inv t \<longrightarrow> fst (st_ReleaseByID S cid t) = None)"

lemma get_loop_failed:
  assumes "get_loop S cid rid i s = Some (r, s')" "inv s" "sure cid" "ok rid" "\<forall>e. r \<noteq> Inr (Some e)"
  shows "used s' = used s"
proof -
  let ?P = "\<lambda>S' c rid (i :: range_iter) s (r :: (go_error + (ip_net \<times> net_ip) option) \<times> 's).
    S' = S \<longrightarrow> inv s \<longrightarrow> sure c \<longrightarrow> ok rid \<longrightarrow> (\<forall>e. fst r \<noteq> Inr (Some e)) \<longrightarrow> used (snd r) = used s"
  have "?P S cid rid i s (r, s')"
  proof (rule get_loop.raw_induct [where P = ?P, OF _ assms(1)])
    fix f S' c rid i s r
    assume IH: "\<And>S c rid i s r. f S c rid i s = Some r \<Longrightarrow> ?P S c rid i s r"
      and eq: "Option.bind (iter_Next i) (\<lambda>(iter, res). case res of None \<Rightarrow> Some (Inr None, s)
        | Some (n, gw) \<Rightarrow> (case st_Reserve S' c (IP n) rid s of (r, s) \<Rightarrow> (case r of Inl e \<Rightarrow> Some (Inl e, s)
          | Inr reserved \<Rightarrow> if reserved then Some (Inr (Some (n, gw)), s) else f S' c rid iter s))) = Some r"
    show "?P S' c rid i s r"
    proof (intro impI)
      assume S: "S' = S" and s: "inv s" and c: "sure c" "ok rid" and r: "\<forall>e. fst r \<noteq> Inr (Some e)"
      obtain j res where nx: "iter_Next i = Some (j, res)"
        using eq by (cases "iter_Next i") auto
      show "used (snd r) = used s"
      proof (cases res)
        case None
        with eq nx show ?thesis by auto
      next
        case (Some x)
        obtain n gw where x: "x = (n, gw)" by (cases x)
        obtain b t where b: "st_Reserve S c (IP n) rid s = (b, t)" by (cases "st_Reserve S c (IP n) rid s")
        have "b \<noteq> Inl e" for e using c s b unfolding sure_def by (metis fst_conv)
        then obtain v where v: "b = Inr v" by (cases b) auto
        then have v: "b = Inr False" "f S c rid j t = Some r" using eq nx Some x b S r by (auto split: if_splits)
        then have "used t = used s" using reserve_False [OF s] b by simp
        moreover have "inv t" using reserve_inv [OF s, of c rid "IP n"] b c by (simp add: sure_def)
        ultimately show ?thesis using IH [OF v(2)] c r by simp
      qed
    qed
  qed
  with assms show ?thesis by simp
qed

lemma Get_failed:
  assumes "inv s" "sure cid" "ok (al_rangeID a)" "IPAllocator_Get S a cid req s = Some (Fail e, s')"
  shows "used s' = used s"
proof -
  let ?s1 = "snd (st_Lock S s)"
  have s1: "inv ?s1" "used ?s1 = used s" using lock_inv assms(1,2) by (auto simp: sure_def)
  have inv: "inv t" if "st_Reserve S cid ip (al_rangeID a) ?s1 = (b, t)" for ip b t
    using reserve_inv [OF s1(1), of cid "al_rangeID a" ip] that assms(2,3) by (simp add: sure_def)
  have "\<exists>t. inv t \<and> used t = used s \<and> s' = snd (st_Unlock S t)"
  proof (cases "req = []")
    case False
    then obtain t where t: "get_requested S a cid req ?s1 = (Fail e, t)" "s' = snd (st_Unlock S t)"
      using assms(4) by (auto simp: IPAllocator_Get_def Let_def split: prod.splits)
    have "inv t \<and> used t = used ?s1"
      using t(1) s1(1) inv reserve_False [OF s1(1)] assms(2,3) unfolding get_requested_def sure_def get_finish_def
      by (auto split: sum.splits if_splits prod.splits) (metis fst_conv s1(1))+
    with t s1 show ?thesis by auto
  next
    case True
    obtain it t where it: "GetIter S a ?s1 = (it, t)" by (cases "GetIter S a ?s1")
    note st = GetIter_state [OF s1(1) it]
    have "it \<noteq> Fail x" for x
      using it by (auto simp: GetIter_def Let_def split: prod.splits if_splits option.splits)
    then obtain i where i: "it = Ret i"
      using assms(4) True it by (cases it) (auto simp: IPAllocator_Get_def Let_def)
    obtain r u where u: "get_loop S cid (al_rangeID a) i t = Some (r, u)" "s' = snd (st_Unlock S u)"
      and r: "(case r of Inl e \<Rightarrow> Fail e | Inr n \<Rightarrow> get_finish a n) = Fail e"
      using assms(4) True it i by (auto simp: IPAllocator_Get_def Let_def)
    have "\<forall>e. r \<noteq> Inr (Some e)" using r by (auto simp: get_finish_def)
    then have "used u = used t" using get_loop_failed [OF u(1) _ assms(2,3)] st by simp
    moreover have "inv u" using get_loop_inv [OF u(1)] st assms(2,3) by (simp add: sure_def)
    ultimately show ?thesis using st u(2) s1(2) by auto
  qed
  then show ?thesis using unlock_used by auto
qed

lemma Get_no_panic:
  assumes "set_ok (al_rangeset a)" "IPAllocator_Get S a cid req s = Some (r, s')"
  shows "r \<noteq> Panic m"
proof -
  have ne: "al_rangeset a \<noteq> []" using assms(1) unfolding set_ok_def by blast
  have it: "it \<noteq> Panic m" if "GetIter S a t = (it, u)" for it t u
    using ne that by (auto simp: GetIter_def Let_def split: prod.splits if_splits option.splits)
  have req: "x \<noteq> Panic m" if "get_requested S a cid req t = (x, u)" for x t u
    using that by (auto simp: get_requested_def get_finish_def split: sum.splits prod.splits if_splits)
  have fin: "get_finish a n \<noteq> Panic m" for n
    by (auto simp: get_finish_def split: option.splits)
  show ?thesis
  proof (cases "req = []")
    case False
    with assms(2) req show ?thesis by (auto simp: IPAllocator_Get_def Let_def split: prod.splits)
  next
    case True
    obtain i t where g: "GetIter S a (snd (st_Lock S s)) = (i, t)" by (cases "GetIter S a (snd (st_Lock S s))")
    show ?thesis
      using assms(2) True g it [OF g] fin
      by (cases i) (auto simp: IPAllocator_Get_def Let_def split: sum.splits, metis sum.exhaust)
  qed
qed

lemma release_allocs_spec:
  assumes "inv s" "sure cid" "as \<noteq> []"
  shows "used (release_allocs S cid as s) = (\<lambda>k. if used s k = Some (owner cid) then None else used s k)"
  using assms(1,3)
proof (induction as arbitrary: s)
  case (Cons a as)
  let ?t = "snd (IPAllocator_Release S a cid s)"
  have "fst (st_ReleaseByID S cid (snd (st_Lock S s))) = None"
    using assms(2) lock_inv [OF Cons.prems(1)] by (simp add: sure_def)
  then have "IPAllocator_Release S a cid s = (None, ?t)"
    by (simp add: IPAllocator_Release_def Let_def case_prod_beta)
  then have t: "used ?t = (\<lambda>k. if used s k = Some (owner cid) then None else used s k)"
    using Release_ok [of s cid a ?t] Cons.prems(1) assms(2) by (auto simp: sure_def fun_eq_iff)
  show ?case
    using Cons.IH [OF release_keeps_inv [OF Cons.prems(1), of a cid]] t
    by (cases "as = []") (simp_all add: fun_eq_iff)
qed simp

end

section \<open>The allocator on disk\<close>

lemma disk_store_simps [simp]:
  "st_Lock (disk_store D i) = fm_Lock (dkLock D)" "st_Unlock (disk_store D i) = fm_Unlock (dkLock D)"
  "st_Reserve (disk_store D i) = (\<lambda>cid. disk_Reserve D cid i)"
  "st_ReleaseByID (disk_store D i) = (\<lambda>cid. disk_ReleaseByID D cid i)"
  by (simp_all add: disk_store_def)

lemma hl_Get_cases:
  "hl_Get D a cid ifname req s =
    (case (if req = [] then duplicate D a cid ifname (snd (fm_Lock (dkLock D) s)) else None) of
       Some ip \<Rightarrow> Some (Fail (Msg (ip_String ip @ '' has been allocated to '' @ cid @
           '', duplicate allocation is not allowed'')), snd (fm_Unlock (dkLock D) (snd (fm_Lock (dkLock D) s))))
     | None \<Rightarrow> IPAllocator_Get (disk_store D ifname) a cid req s)"
  by (simp add: hl_Get_def IPAllocator_Get_def disk_store_def Let_def split: option.split)

lemma requested_left:
  assumes order: "\<And>i l. set (order i l) = set l" and "distinct (map fst req)"
    and found: "find (\<lambda>(k, ip). RangeSet_Contains rs ip) (order idx req) = found"
    and left: "(case found of None \<Rightarrow> req | Some (k, ip) \<Rightarrow> AList.delete k req) = req'"
    and "(k, ip) \<in> set req"
  shows "(k, ip) \<in> set req' \<or> found = Some (k, ip) \<and> ip \<noteq> []"
proof (cases "(k, ip) \<in> set req'")
  case False
  with assms(5) left obtain ip' where f: "found = Some (k, ip')"
    by (auto simp: set_AList_delete split: option.splits)
  then have "(k, ip') \<in> set req" and con: "RangeSet_Contains rs ip'"
    using order [of idx req] find_Some_in_set [of _ "order idx req"] found by auto
  then have "ip' = ip" using assms(2,5) by (meson eq_key_imp_eq_value)
  moreover have "ip' \<noteq> []" using con canonicalizeIP_not_Nil by (auto simp: RangeSet_Contains_iff)
  ultimately show ?thesis using f by simp
qed simp

context disk_dir begin

text \<open>What one pass over the range sets does to the table of reservations.\<close>

definition taken :: "string \<Rightarrow> ip_config list \<Rightarrow> (string \<rightharpoonup> string) \<Rightarrow> (string \<rightharpoonup> string)" where
  "taken cid cs u = (\<lambda>k. if k \<in> conf_key ` set cs then Some (disk_owner ifname cid) else u k)"

definition given_back :: "string \<Rightarrow> (string \<rightharpoonup> string) \<Rightarrow> (string \<rightharpoonup> string)" where
  "given_back cid u = (\<lambda>k. if u k = Some (disk_owner ifname cid) then None else u k)"

lemma given_back_taken:
  "\<forall>d\<in>set cs. u (conf_key d) = None \<Longrightarrow> given_back cid (taken cid cs u) = given_back cid u"
  by (auto simp: given_back_def taken_def fun_eq_iff)

lemma disk_sure:
  "disk_id cid \<Longrightarrow> (\<And>t. disk_inv D t \<Longrightarrow> disk_used D (snd (fm_Lock (dkLock D) t)) = disk_used D t) \<Longrightarrow> sure cid"
  using ReleaseByID_spec(1) [OF _ prod.collapse [symmetric]]
  by (auto simp: sure_def Reserve_spec)

lemma hl_Get_step:
  assumes "sure cid" "disk_inv D s" "set_ok (al_rangeset a)" "disk_id (al_rangeID a)"
    "hl_Get D a cid ifname req s = Some (r, s')"
  shows "disk_inv D s' \<and> r \<noteq> Panic m \<and> (\<forall>e. r = Fail e \<longrightarrow> disk_used D s' = disk_used D s) \<and>
    (\<forall>c. r = Ret c \<longrightarrow> disk_used D s (conf_key c) = None \<and> disk_used D s' = taken cid [c] (disk_used D s) \<and>
       conf_from (al_rangeset a) c \<and> (req \<noteq> [] \<longrightarrow> canonicalizeIP req = Inr (IP (Address c))))"
proof (cases "if req = [] then duplicate D a cid ifname (snd (fm_Lock (dkLock D) s)) else None")
  case (Some ip)
  then have "s' = snd (fm_Lock (dkLock D) s)" "\<exists>e. r = Fail e"
    using assms(5) unlock_same [OF lock_keeps [OF assms(2)]] by (auto simp: hl_Get_cases)
  moreover have "disk_used D (snd (fm_Lock (dkLock D) s)) = disk_used D s"
    using assms(1,2) by (simp add: sure_def)
  ultimately show ?thesis using lock_keeps [OF assms(2)] by auto
next
  case None
  then have g: "IPAllocator_Get (disk_store D ifname) a cid req s = Some (r, s')"
    using assms(5) by (simp add: hl_Get_cases)
  have id: "disk_id cid \<and> disk_id (al_rangeID a)" using assms(1,4) by (simp add: sure_def)
  have lk: "disk_used D (snd (fm_Lock (dkLock D) s)) = disk_used D s"
    using assms(1,2) by (simp add: sure_def)
  have "disk_used D s' = disk_used D s" if "r = Fail e" for e
    using Get_failed [OF assms(2,1,4)] g that by simp
  moreover have "disk_used D s (conf_key c) = None \<and> disk_used D s' = taken cid [c] (disk_used D s) \<and>
       conf_from (al_rangeset a) c \<and> (req \<noteq> [] \<longrightarrow> canonicalizeIP req = Inr (IP (Address c)))" if "r = Ret c" for c
    using Get_ok [OF assms(3,2) g [unfolded that] id]
    by (auto simp: granted_def lk conf_key_def conf_from_def taken_def fun_eq_iff)
  ultimately show ?thesis
    using Get_inv [OF assms(2) g id] Get_no_panic [OF assms(3) g] by blast
qed

lemma hl_alloc_spec:
  assumes sure: "sure cid" and order: "\<And>i l. set (order i l) = set l"
    and "disk_inv D s" "\<forall>rs\<in>set sets. set_ok rs" "distinct (map fst req)"
    and "hl_alloc_ranges D order cid ifname idx sets req allocs ips s = Some (r, s')"
  shows "disk_inv D s' \<and> (case r of
      Panic m \<Rightarrow> False
    | Fail e \<Rightarrow> allocs = [] \<and> disk_used D s' = disk_used D s \<or> disk_used D s' = given_back cid (disk_used D s)
    | Ret confs \<Rightarrow> (\<exists>new. confs = ips @ new \<and> list_all2 conf_from sets new \<and> distinct (map conf_key new) \<and>
        (\<forall>d\<in>set new. disk_used D s (conf_key d) = None) \<and> disk_used D s' = taken cid new (disk_used D s) \<and>
        (\<forall>(k, ip)\<in>set req. \<exists>c\<in>set new. canonicalizeIP ip = Inr (IP (Address c)))))"
  using assms(3-)
proof (induction sets arbitrary: idx req allocs ips s)
  case Nil
  show ?case
  proof (cases "req = []")
    case True
    with Nil show ?thesis by (auto simp: taken_def)
  next
    case False
    then have r: "\<exists>e. r = Fail e" "s' = release_allocs (disk_store D ifname) cid allocs s"
      using Nil.prems(4) by auto
    have "disk_inv D s'" using release_allocs_inv [OF Nil.prems(1)] r(2) by simp
    moreover have "disk_used D s' = given_back cid (disk_used D s)" if "allocs \<noteq> []"
      using release_allocs_spec [OF Nil.prems(1) sure that] r(2) by (simp add: given_back_def)
    moreover have "s' = s" if "allocs = []" using r(2) that by simp
    ultimately show ?thesis using r(1) by (cases "allocs = []") auto
  qed
next
  case (Cons rs sets)
  let ?a = "NewIPAllocator rs (int idx)"
  define found where "found = find (\<lambda>(k, ip). RangeSet_Contains rs ip) (order idx req)"
  define rip where "rip = (case found of None \<Rightarrow> [] | Some (k, ip) \<Rightarrow> ip)"
  define req' where "req' = (case found of None \<Rightarrow> req | Some (k, ip) \<Rightarrow> AList.delete k req)"
  obtain g t where g: "hl_Get D ?a cid ifname rip s = Some (g, t)"
    and rec: "(case g of Panic m \<Rightarrow> Some (Panic m, t)
       | Fail err \<Rightarrow> Some (Fail (Msg (''failed to allocate for range '' @ Itoa (int idx) @ '': '' @ err_text err)),
            release_allocs (disk_store D ifname) cid allocs t)
       | Ret c \<Rightarrow> hl_alloc_ranges D order cid ifname (idx + 1) sets req' (allocs @ [?a]) (ips @ [c]) t) = Some (r, s')"
    using Cons.prems(4) unfolding hl_alloc_ranges.simps Let_def found_def [symmetric] rip_def [symmetric] req'_def [symmetric]
    by (auto split: option.split_asm prod.split_asm outcome.split_asm)
  have a: "al_rangeset ?a = rs" "disk_id (al_rangeID ?a)" "set_ok (al_rangeset ?a)"
    using Cons.prems(2) ok_Itoa by (simp_all add: NewIPAllocator_def)
  note step = hl_Get_step [OF sure Cons.prems(1) a(3,2) g, unfolded a(1)]
  show ?case
  proof (cases g)
    case (Fail err)
    then have r: "\<exists>e. r = Fail e" "s' = release_allocs (disk_store D ifname) cid allocs t" using rec by auto
    have t: "disk_inv D t" "disk_used D t = disk_used D s" using step Fail by auto
    have "disk_used D s' = given_back cid (disk_used D s)" if "allocs \<noteq> []"
      using release_allocs_spec [OF t(1) sure that] r(2) t(2) by (auto simp: given_back_def fun_eq_iff)
    moreover have "s' = t" if "allocs = []" using r(2) that by simp
    ultimately show ?thesis using r(1) t release_allocs_inv [OF t(1)] r(2) by (cases "allocs = []") auto
  next
    case (Ret c)
    have t: "disk_inv D t" "disk_used D s (conf_key c) = None" "disk_used D t = taken cid [c] (disk_used D s)"
      "conf_from rs c" "rip \<noteq> [] \<Longrightarrow> canonicalizeIP rip = Inr (IP (Address c))"
      using step Ret by auto
    have dis: "distinct (map fst req')"
      using Cons.prems(3) by (auto simp: req'_def distinct_delete split: option.splits)
    have ih: "disk_inv D s' \<and> (case r of
      Panic m \<Rightarrow> False
    | Fail e \<Rightarrow> allocs @ [?a] = [] \<and> disk_used D s' = disk_used D t \<or> disk_used D s' = given_back cid (disk_used D t)
    | Ret confs \<Rightarrow> (\<exists>new. confs = (ips @ [c]) @ new \<and> list_all2 conf_from sets new \<and> distinct (map conf_key new) \<and>
        (\<forall>d\<in>set new. disk_used D t (conf_key d) = None) \<and> disk_used D s' = taken cid new (disk_used D t) \<and>
        (\<forall>(k, ip)\<in>set req'. \<exists>c\<in>set new. canonicalizeIP ip = Inr (IP (Address c)))))"
      using rec Cons.prems(2) unfolding Ret outcome.case by (intro Cons.IH [OF t(1) _ dis]) auto
    show ?thesis
    proof (cases r)
      case (Fail e)
      with ih t given_back_taken [of "[c]" "disk_used D s" cid] show ?thesis by auto
    next
      case R: (Ret confs)
      then obtain new where new: "confs = (ips @ [c]) @ new" "list_all2 conf_from sets new" "distinct (map conf_key new)"
        "\<forall>d\<in>set new. disk_used D t (conf_key d) = None" "disk_used D s' = taken cid new (disk_used D t)"
        "\<forall>(k, ip)\<in>set req'. \<exists>c\<in>set new. canonicalizeIP ip = Inr (IP (Address c))"
        using ih by auto
      have free: "\<forall>d\<in>set new. conf_key d \<noteq> conf_key c \<and> disk_used D s (conf_key d) = None"
        using new(4) by (auto simp: t(3) taken_def split: if_splits)
      have "\<exists>d\<in>set (c # new). canonicalizeIP ip = Inr (IP (Address d))" if "(k, ip) \<in> set req" for k ip
        using requested_left [of order req rs idx, OF order Cons.prems(3) found_def [symmetric] req'_def [symmetric] that] new(6) t(5)
        by (auto simp: rip_def)
      moreover have "disk_used D s' = taken cid (c # new) (disk_used D s)"
        by (auto simp: new(5) t(3) taken_def fun_eq_iff)
      ultimately show ?thesis
        using R ih new(1-3) free t(2,4) by (auto intro!: exI [of _ "c # new"])
    qed (use ih in simp)
  qed (use step in simp)
qed

end

context ip_store begin

lemma release_sets_inv: "inv s \<Longrightarrow> inv (snd (release_sets S cid idx sets s))"
  by (induction sets arbitrary: idx s) (auto simp: case_prod_beta release_keeps_inv)

lemma release_sets_no_error:
  "inv s \<Longrightarrow> sure cid \<Longrightarrow> fst (release_sets S cid idx sets s) = []"
proof (induction sets arbitrary: idx s)
  case (Cons rs sets)
  let ?r = "IPAllocator_Release S (NewIPAllocator rs (int idx)) cid s"
  have "fst ?r = None"
    using Cons.prems lock_inv by (simp add: IPAllocator_Release_def Let_def case_prod_beta sure_def)
  with Cons.IH [OF release_keeps_inv [OF Cons.prems(1)] Cons.prems(2)] show ?case
    by (simp add: case_prod_beta)
qed simp

end

section \<open>The commands\<close>

text \<open>
  The plugin opens the directory \<open>D\<close> for the configuration, whatever the state; and nobody
  changes a reservation while it waits for the lock or when it closes the store.
\<close>

definition opens :: "new_mutex \<Rightarrow> hl_config \<Rightarrow> disk \<Rightarrow> bool" where
  "opens new c D \<longleftrightarrow> (\<forall>t. disk_inv D t \<longrightarrow> (\<exists>t'. disk_New new (hlName c) (hlDataDir c) t = (Inr D, t') \<and>
     disk_inv D t' \<and> disk_used D t' = disk_used D t))"

definition calm :: "disk \<Rightarrow> bool" where
  "calm D \<longleftrightarrow> (\<forall>t. disk_inv D t \<longrightarrow> disk_used D (snd (fm_Lock (dkLock D) t)) = disk_used D t \<and>
     disk_inv D (snd (fm_Close (dkLock D) t)) \<and> disk_used D (snd (fm_Close (dkLock D) t)) = disk_used D t)"

lemma hl_ranges: "hl_LoadIPAMConfig bytes envArgs = Ret (c, v) \<Longrightarrow> hlRanges c \<noteq> []"
  by (metis hl_LoadIPAMConfig_Ret hl_validate_ranges_Inr(1))

lemma hl_args_canonical:
  "hl_LoadIPAMConfig bytes envArgs = Ret (c, v) \<Longrightarrow> ip \<in> set (hlIPArgs c) \<Longrightarrow> canonical ip"
  using list_all2_right [OF canon_args_Inr] canonicalizeIP_Inr by (metis hl_LoadIPAMConfig_Ret)

context disk_dir begin

lemma cmdAdd_steps:
  assumes "hl_LoadIPAMConfig (StdinData args) (Args args) = Ret (c, v)" "opens new c D" "calm D" "disk_inv D s"
    "hl_cmdAdd new order args s = Some (Ret res, s')"
  obtains dns t u confs where "disk_inv D t" "disk_used D t = disk_used D s"
    "hl_alloc_ranges D order (ContainerID args) (IfName args) 0 (hlRanges c) (requested_ips (hlIPArgs c)) [] [] t = Some (Ret confs, u)"
    "s' = snd (fm_Close (dkLock D) u)"
    "GetAsVersion (RCur \<lparr>CNIVersion = [], Interfaces = [], IPs = confs, Routes = hlRoutes c, DNS = dns\<rparr>) v = Inr res"
proof -
  obtain t where t: "disk_New new (hlName c) (hlDataDir c) s = (Inr D, t)" "disk_inv D t" "disk_used D t = disk_used D s"
    using assms(2,4) unfolding opens_def by blast
  obtain dns where dns: "hl_load_dns c s = Inr dns"
    using assms(5) by (auto simp: hl_cmdAdd_def assms(1) split: sum.splits)
  obtain r u where r: "hl_alloc_ranges D order (ContainerID args) (IfName args) 0 (hlRanges c)
      (requested_ips (hlIPArgs c)) [] [] t = Some (r, u)" "s' = snd (fm_Close (dkLock D) u)"
    and fin: "(case r of Fail err \<Rightarrow> Fail err | Panic m \<Rightarrow> Panic m | Ret ips \<Rightarrow> hl_finish_add c v dns ips) = Ret res"
    using assms(5) by (auto simp: hl_cmdAdd_def assms(1) dns t(1))
  obtain confs where "r = Ret confs" "hl_finish_add c v dns confs = Ret res"
    using fin by (cases r) auto
  with that t(2,3) r show thesis by (simp add: hl_finish_add_def PrintResult_def)
qed

lemma used_found:
  assumes "disk_inv D s" "disk_used D s k = Some (disk_owner ifname cid)"
  shows "file_matches (disk_owner ifname cid) s (dataDir D @ ''/'' @ k)"
    "dataDir D @ ''/'' @ k \<in> set (walk_files (dataDir D) s)" "CHR ''/'' \<notin> set k"
proof -
  have m: "map_of (os_files s) (dataDir D @ ''/'' @ k) = Some (disk_owner ifname cid)" and n: "used_name k"
    using assms(2) by (auto simp: disk_used_def disk_file_def split: if_splits)
  have "trim_space (disk_owner ifname cid) = disk_owner ifname cid"
    using assms trim_reservation unfolding disk_inv_def by blast
  with m show "file_matches (disk_owner ifname cid) s (dataDir D @ ''/'' @ k)"
    by (simp add: file_matches_iff no_fault [OF assms(1)])
  show "dataDir D @ ''/'' @ k \<in> set (walk_files (dataDir D) s)"
    using map_of_SomeD [OF m] has_prefix_append [of "dataDir D @ ''/''" k]
    by (force simp: set_walk [OF no_fault [OF assms(1)]] under_dir_def)
  show "CHR ''/'' \<notin> set k" using n by (simp add: used_name_def path_name_def)
qed

lemma FindByID_found:
  assumes "disk_inv D s" "calm D" "disk_used D s k = Some (disk_owner ifname cid)"
  shows "fst (disk_FindByID D cid ifname s)"
proof -
  have "disk_used D (snd (fm_Lock (dkLock D) s)) k = Some (disk_owner ifname cid)"
    using assms by (simp add: calm_def)
  from used_found [OF lock_keeps [OF assms(1)] this] show ?thesis
    by (auto simp: disk_FindByID_def disk_FindByKey_def list_ex_iff Let_def)
qed

text \<open>ADD and DEL on the table of reservations.\<close>

lemma cmdAdd_spec:
  assumes load: "hl_LoadIPAMConfig (StdinData args) (Args args) = Ret (c, v)" and "opens new c D" "calm D" "disk_inv D s"
    and id: "disk_id (ContainerID args)" and ifn: "IfName args = ifname"
    and sets: "\<forall>rs\<in>set (hlRanges c). set_ok rs" and order: "\<And>i l. set (order i l) = set l"
    and add: "hl_cmdAdd new order args s = Some (Ret res, s')"
  shows "disk_inv D s' \<and> (\<exists>dns confs.
    GetAsVersion (RCur \<lparr>CNIVersion = [], Interfaces = [], IPs = confs, Routes = hlRoutes c, DNS = dns\<rparr>) v = Inr res \<and>
    list_all2 conf_from (hlRanges c) confs \<and> distinct (map conf_key confs) \<and>
    (\<forall>d\<in>set confs. disk_used D s (conf_key d) = None) \<and>
    disk_used D s' = taken (ContainerID args) confs (disk_used D s) \<and>
    (\<forall>ip\<in>set (hlIPArgs c). \<exists>d\<in>set confs. ip_String (IP (Address d)) = ip_String ip))"
proof -
  let ?req = "requested_ips (hlIPArgs c)"
  obtain dns t u confs where t: "disk_inv D t" "disk_used D t = disk_used D s"
    and al: "hl_alloc_ranges D order (ContainerID args) (IfName args) 0 (hlRanges c) ?req [] [] t = Some (Ret confs, u)"
    and fin: "s' = snd (fm_Close (dkLock D) u)"
      "GetAsVersion (RCur \<lparr>CNIVersion = [], Interfaces = [], IPs = confs, Routes = hlRoutes c, DNS = dns\<rparr>) v = Inr res"
    using cmdAdd_steps [OF load assms(2-4) add] .
  have "sure (ContainerID args)" using disk_sure [OF id] assms(3) by (simp add: calm_def)
  from hl_alloc_spec [OF this order t(1) sets distinct_requested al [unfolded ifn]] t(2)
  have u: "disk_inv D u" "list_all2 conf_from (hlRanges c) confs" "distinct (map conf_key confs)"
    "\<forall>d\<in>set confs. disk_used D s (conf_key d) = None" "disk_used D u = taken (ContainerID args) confs (disk_used D s)"
    "\<forall>(k, ip)\<in>set ?req. \<exists>c\<in>set confs. canonicalizeIP ip = Inr (IP (Address c))"
    by auto
  have "\<exists>d\<in>set confs. ip_String (IP (Address d)) = ip_String ip" if ip: "ip \<in> set (hlIPArgs c)" for ip
  proof -
    obtain ip' where ip': "(ip_String ip, ip') \<in> set ?req" "ip' \<in> set (hlIPArgs c)" "ip_String ip' = ip_String ip"
      using requested_ips_entry [OF ip] by blast
    have "canonicalizeIP ip' = Inr ip'" using hl_args_canonical [OF load ip'(2)] by (rule canonicalizeIP_id)
    with u(6) ip' show ?thesis by fastforce
  qed
  moreover have "disk_inv D s'" "disk_used D s' = disk_used D u" using u(1) assms(3) fin(1) by (simp_all add: calm_def)
  ultimately show ?thesis using u fin(2) by auto
qed

lemma cmdDel_spec:
  assumes load: "hl_LoadIPAMConfig (StdinData args) (Args args) = Ret (c, v)" and "opens new c D" "calm D" "disk_inv D s"
    and id: "disk_id (ContainerID args)" and ifn: "IfName args = ifname"
  shows "fst (hl_cmdDel new args s) = Ret ()"
    and "disk_used D (snd (hl_cmdDel new args s)) = given_back (ContainerID args) (disk_used D s)"
proof -
  obtain t where t: "disk_New new (hlName c) (hlDataDir c) s = (Inr D, t)" "disk_inv D t" "disk_used D t = disk_used D s"
    using assms(2,4) unfolding opens_def by blast
  have sure: "sure (ContainerID args)" using disk_sure [OF id] assms(3) by (simp add: calm_def)
  obtain u where u: "release_sets (disk_store D ifname) (ContainerID args) 0 (hlRanges c) t = ([], u)"
    using release_sets_no_error [OF t(2) sure] by (metis prod.collapse)
  show "fst (hl_cmdDel new args s) = Ret ()"
    by (simp add: hl_cmdDel_def load t(1) ifn u)
  have "disk_used D u = given_back (ContainerID args) (disk_used D t)"
    unfolding given_back_def using assms(3)
    by (intro release_sets_ok [OF _ id t(2) u hl_ranges [OF load]]) (simp add: calm_def)
  moreover have "disk_inv D u"
    using release_sets_inv [OF t(2)] u by (metis snd_conv)
  ultimately show "disk_used D (snd (hl_cmdDel new args s)) = given_back (ContainerID args) (disk_used D s)"
    using assms(3) by (simp add: hl_cmdDel_def load t(1,3) ifn u calm_def)
qed

lemma cmdCheck_found:
  assumes load: "hl_LoadIPAMConfig (StdinData args) (Args args) = Ret (c, v)" and "opens new c D" "calm D" "disk_inv D s"
    and ifn: "IfName args = ifname" and "disk_used D s k = Some (disk_owner ifname (ContainerID args))"
  shows "fst (hl_cmdCheck new args s) = Ret ()"
proof -
  obtain t where t: "disk_New new (hlName c) (hlDataDir c) s = (Inr D, t)" "disk_inv D t" "disk_used D t = disk_used D s"
    using assms(2,4) unfolding opens_def by blast
  have "fst (disk_FindByID D (ContainerID args) ifname t)"
    using t(3) assms(6) by (intro FindByID_found [OF t(2) assms(3)]) simp
  then show ?thesis by (simp add: hl_cmdCheck_def load t(1) ifn case_prod_beta)
qed

end




section \<open>The store implements a table\<close>

text \<open>The abstract table of reservations: printed addresses with their owners.\<close>

definition spec_Reserve :: "string \<Rightarrow> string \<Rightarrow> (string \<rightharpoonup> string) \<Rightarrow> bool \<times> (string \<rightharpoonup> string)" where
  "spec_Reserve own k u = (if u k = None then (True, u(k \<mapsto> own)) else (False, u))"

definition spec_Release :: "string \<Rightarrow> (string \<rightharpoonup> string) \<Rightarrow> bool \<times> (string \<rightharpoonup> string)" where
  "spec_Release k u = (u k \<noteq> None, u(k := None))"

definition spec_ReleaseAll :: "string \<Rightarrow> (string \<rightharpoonup> string) \<Rightarrow> (string \<rightharpoonup> string)" where
  "spec_ReleaseAll own u = (\<lambda>k. if u k = Some own then None else u k)"

context disk_dir begin

lemma Release_spec:
  assumes "disk_inv D s"
  shows "disk_Release D ip s = (if disk_used D s (ip_String ip) = None
      then (Some (NotExist ''no such file or directory''), s)
      else (None, s\<lparr>os_files := AList.delete (dataDir D @ ''/'' @ ip_String ip) (os_files s)\<rparr>))"
  using no_fault [OF assms] by (simp add: disk_Release_def os_Remove_def ip_path used_ip disk_file_def)

lemma Release_used:
  assumes "disk_inv D s"
  shows "disk_used D (snd (disk_Release D ip s)) = (disk_used D s)(ip_String ip := None)"
  by (auto simp: Release_spec [OF assms] used_ip disk_used_def disk_file_def fun_eq_iff delete_conv')

lemma GetByID_member:
  assumes "disk_inv D s" "disk_used D s k = Some (disk_owner ifname cid)" "ParseIP k \<noteq> []"
  shows "ParseIP k \<in> set (disk_GetByID D cid ifname s)"
proof -
  note f = used_found [OF assms(1,2)]
  have "after_last (CHR ''/'') (dataDir D @ ''/'' @ k) = k"
    using f(3) by (simp add: after_last_def takeWhile_append)
  with f(1,2) assms(3) show ?thesis
    unfolding disk_GetByID_def by (auto intro!: image_eqI [of _ _ "dataDir D @ ''/'' @ k"])
qed

end



section \<open>A host and a request\<close>

definition free_new :: new_mutex where
  "free_new = (\<lambda>path s. (Inr free_mutex, s))"

definition hl_ex_config :: hl_config where
  "hl_ex_config = \<lparr>hlRange = None, hlName = ''net'', hlType = [], hlRoutes = [], hlDataDir = [], hlResolvConf = [],
     hlRanges = [[range24]], hlIPArgs = []\<rparr>"

lemma dataDir_lower: "to_lower ''dataDir'' = ''datadir''"
  by code_simp

lemma hl_ex_decode: "bind_sum ex_document dec_hl_net = Inr
  \<lparr>hnName = ''net'', hnCNIVersion = ''0.3.1'',
   hnIPAM = Some (hl_ex_config\<lparr>hlName := [], hlRanges := [], hlRange := Some (conf24\<lparr>Subnet := \<lparr>IP = v4InV6Prefix @ [10,1,2,0], Mask = [255,255,255,0]\<rparr>\<rparr>)\<rparr>),
   hnIPRanges = [], hnArgs = None\<rparr>"
  using ex_lower dataDir_lower
  by (simp add: ex_document_def dec_hl_net_def dec_field_def jfield_Cons dec_hl_config_def dec_embedded_range_def
      dec_range_def ex_net_JSON hl_ex_config_def conf24_def)

lemma hl_ex_Canonicalize:
  "hl_Range_Canonicalize (conf24\<lparr>Subnet := \<lparr>IP = v4InV6Prefix @ [10,1,2,0], Mask = [255,255,255,0]\<rparr>\<rparr>) = Inr range24"
proof -
  have "canonicalizeIP (v4InV6Prefix @ [10,1,2,0]) = Inr [10,1,2,0]"
    by (simp add: canonicalizeIP_def To4_def v4InV6Prefix_def)
  moreover have "NextIP [10,1,2,0] = [10,1,2,1]"
    using NextIP_props [of "[10,1,2,0]"] by (intro be_nat_inject) simp_all
  moreover have "lastIP \<lparr>IP = [10,1,2,0], Mask = [255,255,255,0]\<rparr> = [10,1,2,254]"
    by (simp add: lastIP_def To4_def)
  moreover have "ip_Equal [10,1,2,0] (ip_Mask [10,1,2,0] [255,255,255,0])" by code_simp
  ultimately show ?thesis
    by (simp add: hl_Range_Canonicalize_def conf24_def range24_def ex_Mask_Size hl_fill_gateway_def
        fill_start_def fill_end_def)
qed

lemma hl_ex_Load: "hl_LoadIPAMConfig ex_document [] = Ret (hl_ex_config, ''0.3.1'')"
proof -
  have s: "hl_RangeSet_Canonicalize [conf24\<lparr>Subnet := \<lparr>IP = v4InV6Prefix @ [10,1,2,0], Mask = [255,255,255,0]\<rparr>\<rparr>] = Inr [range24]"
    by (simp add: hl_RangeSet_Canonicalize_def hl_ex_Canonicalize)
  show ?thesis
    by (simp add: hl_LoadIPAMConfig_def hl_ex_decode env_ip_def canon_args_def hl_all_ranges_def)
      (simp add: hl_validate_ranges_def s SupportedVersions020_def ImplementedSpecVersion020_def, simp add: hl_ex_config_def)
qed

lemma net_calm: "calm net_disk"
  by (simp add: calm_def net_disk_def free_mutex_def)

lemma c1_id: "disk_id ''c1''" "disk_id ''0''"
  by (simp_all add: disk_id_def word_def is_space_def)

lemma free_New: "disk_inv net_disk t \<Longrightarrow> disk_New free_new ''net'' [] t = (Inr net_disk, t)"
proof -
  have "filepath_Join [''/var/lib/cni/networks'', ''net''] = ''/var/lib/cni/networks/net''" by code_simp
  then show "disk_inv net_disk t \<Longrightarrow> disk_New free_new ''net'' [] t = (Inr net_disk, t)"
    by (auto simp: disk_New_def defaultDataDir_def os_MkdirAll_def disk_inv_def NewFileLock_def os_Stat_IsDir_def
        free_new_def net_disk_def map_of_eq_None_iff Let_def split: option.splits)
qed

lemma free_opens: "opens free_new hl_ex_config net_disk"
  using free_New by (auto simp: opens_def hl_ex_config_def)

lemma hl_ex_sure: "ip_store.sure (disk_store net_disk ''eth0'') (disk_used net_disk) (disk_inv net_disk) disk_id ''c1''"
  using net_disk.disk_sure [OF c1_id(1)] net_calm by (simp add: calm_def)

lemma hl_ex_Get: "\<exists>conf s'. hl_Get net_disk alloc24 ''c1'' ''eth0'' [] empty_os = Some (Ret conf, s')"
proof -
  have lock: "fm_Lock (dkLock net_disk) t = (None, t)" for t
    by (simp add: net_disk_def free_mutex_def)
  have "Itoa 0 = ''0''" by code_simp
  then have id: "disk_id (al_rangeID alloc24)"
    using c1_id(2) by (simp add: alloc24_def NewIPAllocator_def)
  have total: "\<exists>b. fst (disk_Reserve net_disk ''c1'' ''eth0'' ip rid t) = Inr b" if "disk_inv net_disk t" for ip rid t
    using that
    by (auto simp: disk_Reserve_def os_OpenFile_EXCL_def os_put_def file_WriteString_def file_Close_def
        ioutil_WriteFile_def disk_inv_def Let_def)
  have "\<exists>conf s'. IPAllocator_Get (disk_store net_disk ''eth0'') alloc24 ''c1'' [] empty_os = Some (Ret conf, s')"
    by (rule net_disk.Get_exhausted [OF _ empty_os_inv(1) _ _ _ ex_pos [folded alloc24_simps]])
      (simp_all add: last_pos_single [OF ex_set_ok(1)] c1_id lock id total empty_os_inv(2))
  moreover have "duplicate net_disk alloc24 ''c1'' ''eth0'' empty_os = None"
    by (simp add: duplicate_def disk_GetByID_def walk_files_def empty_os_def)
  ultimately show ?thesis by (simp add: hl_Get_cases lock)
qed

lemma hl_ex_cmdAdd: "\<exists>res s'. hl_cmdAdd free_new (\<lambda>i l. l) ex_args empty_os = Some (Ret res, s')"
proof -
  obtain conf s' where g: "hl_Get net_disk alloc24 ''c1'' ''eth0'' [] empty_os = Some (Ret conf, s')"
    using hl_ex_Get by blast
  have f: "\<exists>r. hl_finish_add hl_ex_config ''0.3.1'' d ips = Ret r" for d ips
    by (simp add: hl_finish_add_def PrintResult_def GetAsVersionCur_def)
  have sel: "hlRanges hl_ex_config = [[range24]]" "hlIPArgs hl_ex_config = []" "hlResolvConf hl_ex_config = []"
    "hlName hl_ex_config = ''net''" "hlDataDir hl_ex_config = []" "IfName ex_args = ''eth0''"
    "StdinData ex_args = ex_document" "Args ex_args = []" "ContainerID ex_args = ''c1''"
    by (simp_all add: hl_ex_config_def ex_args_def)
  have "hl_alloc_ranges net_disk (\<lambda>i l. l) ''c1'' ''eth0'' 0 [[range24]] [] [] [] empty_os = Some (Ret [conf], s')"
    using g by (simp add: Let_def alloc24_def)
  then show ?thesis
    using f [of empty_dns "[conf]"]
    by (auto simp: hl_cmdAdd_def sel hl_ex_Load hl_load_dns_def free_New [OF empty_os_inv(1)] requested_ips_def)
qed


section \<open>The properties on this host\<close>

lemma ex_sel: "hlRanges hl_ex_config = [[range24]]" "IfName ex_args = ''eth0''" "ContainerID ex_args = ''c1''"
  "StdinData ex_args = ex_document" "Args ex_args = []"
  by (simp_all add: hl_ex_config_def ex_args_def)

lemmas ex_host = net_disk.disk_dir_axioms [folded ex_sel(2)] net_calm c1_id(1) [folded ex_sel(3)] empty_os_inv(1)
  hl_ex_Load [folded ex_sel(4,5)] free_opens







end
