(* ===== verification/ResultJson.thy ===== *)
theory ResultJson
  imports Version Addr_Text "HOL-Library.AList" "HOL-Library.Char_ord" "HOL-Library.List_Lexorder"
begin

text \<open>
  Results and network configurations as JSON: the encoders and decoders of
  \<open>cni/pkg/types/020/types.go\<close>, \<open>cni/pkg/types/current/types.go\<close> and \<open>NetConf\<close> of
  \<open>cni/pkg/types/types.go\<close>, and \<open>NewResult\<close> and \<open>ParsePrevResult\<close> of
  \<open>cni/pkg/version/version.go\<close>.

  A Go map from strings is an association list with distinct keys; \<open>json.Marshal\<close> writes its
  members in the order of their keys. The values inside a map are kept as they were read
  (\<open>encoding/json\<close> would write a number in another spelling).
\<close>

section \<open>Maps and numbers\<close>

type_synonym 'a go_map = "(string \<times> 'a) list"

fun dec_map :: "(json \<Rightarrow> go_error + 'a) \<Rightarrow> json \<Rightarrow> go_error + 'a go_map" where
  "dec_map d JNull = Inr []"
| "dec_map d (JObj kvs) =
     bind_sum (map_sum_list (\<lambda>(k, j). bind_sum (d j) (\<lambda>x. Inr (k, x))) kvs)
       (\<lambda>m. Inr (foldl (\<lambda>m (k, x). AList.update k x m) [] m))"
| "dec_map d _ = json_error"

definition marshal_map :: "json go_map \<Rightarrow> json" where
  "marshal_map m = JObj (sort_key fst m)"

fun dec_int :: "json \<Rightarrow> go_error + int" where
  "dec_int JNull = Inr 0"
| "dec_int (JNum s) = (let (n, bad) = Atoi s in if bad then json_error else Inr n)"
| "dec_int _ = json_error"

text \<open>A member that is written only if its value is not the empty one (\<open>omitempty\<close>).\<close>

definition member :: "bool \<Rightarrow> string \<Rightarrow> json \<Rightarrow> (string \<times> json) list" where
  "member present k j = (if present then [(k, j)] else [])"

section \<open>Encoding\<close>

definition JStrs :: "string list \<Rightarrow> json" where
  "JStrs ss = JArr (map JStr ss)"

definition DNS_JSON :: "dns_conf \<Rightarrow> json" where
  "DNS_JSON d = JObj (
     member (Nameservers d \<noteq> []) ''nameservers'' (JStrs (Nameservers d)) @
     member (Domain d \<noteq> []) ''domain'' (JStr (Domain d)) @
     member (Search d \<noteq> []) ''search'' (JStrs (Search d)) @
     member (Options d \<noteq> []) ''options'' (JStrs (Options d)))"

definition IPConfig_MarshalJSON :: "ip_config \<Rightarrow> json" where
  "IPConfig_MarshalJSON c = JObj (
     (''version'', JStr (Version c)) #
     (case Interface c of None \<Rightarrow> [] | Some i \<Rightarrow> [(''interface'', JNum (Itoa i))]) @
     (''address'', IPNet_MarshalJSON (Address c)) #
     member (ConfGateway c \<noteq> []) ''gateway'' (JStr (ip_String (ConfGateway c))))"

definition Interface_JSON :: "interface \<Rightarrow> json" where
  "Interface_JSON i = JObj (
     (''name'', JStr (Name i)) # member (Mac i \<noteq> []) ''mac'' (JStr (Mac i)) @
     member (Sandbox i \<noteq> []) ''sandbox'' (JStr (Sandbox i)))"

text \<open>The struct \<open>dns\<close> is written even when it is empty.\<close>

definition ResultCur_JSON :: "result_cur \<Rightarrow> json" where
  "ResultCur_JSON r = JObj (
     member (CNIVersion r \<noteq> []) ''cniVersion'' (JStr (CNIVersion r)) @
     member (Interfaces r \<noteq> []) ''interfaces'' (JArr (map Interface_JSON (Interfaces r))) @
     member (IPs r \<noteq> []) ''ips'' (JArr (map IPConfig_MarshalJSON (IPs r))) @
     member (Routes r \<noteq> []) ''routes'' (JArr (map Route_MarshalJSON (Routes r))) @
     [(''dns'', DNS_JSON (DNS r))])"

definition IPConfig020_MarshalJSON :: "ip_config020 \<Rightarrow> json" where
  "IPConfig020_MarshalJSON c = JObj (
     (''ip'', IPNet_MarshalJSON (IP020 c)) #
     member (Gateway020 c \<noteq> []) ''gateway'' (JStr (ip_String (Gateway020 c))) @
     member (Routes020 c \<noteq> []) ''routes'' (JArr (map Route_MarshalJSON (Routes020 c))))"

definition Result020_JSON :: "result020 \<Rightarrow> json" where
  "Result020_JSON r = JObj (
     member (CNIVersion020 r \<noteq> []) ''cniVersion'' (JStr (CNIVersion020 r)) @
     (case IP4 r of None \<Rightarrow> [] | Some c \<Rightarrow> [(''ip4'', IPConfig020_MarshalJSON c)]) @
     (case IP6 r of None \<Rightarrow> [] | Some c \<Rightarrow> [(''ip6'', IPConfig020_MarshalJSON c)]) @
     [(''dns'', DNS_JSON (DNS020 r))])"

text \<open>\<open>json.Marshal\<close> of a result, which is also what \<open>PrintTo\<close> writes.\<close>

fun Result_JSON :: "cni_result \<Rightarrow> json" where
  "Result_JSON (R020 r) = Result020_JSON r"
| "Result_JSON (RCur r) = ResultCur_JSON r"

definition Error_JSON :: "nat \<Rightarrow> string \<Rightarrow> string \<Rightarrow> json" where
  "Error_JSON code msg details = JObj (
     [(''code'', JNum (dec_nat code)), (''msg'', JStr msg)] @ member (details \<noteq> []) ''details'' (JStr details))"

section \<open>Decoding\<close>

definition dec_dns :: "json \<Rightarrow> go_error + dns_conf" where
  "dec_dns j =
     bind_sum (jmembers j) (\<lambda>kvs.
     bind_sum (dec_field (dec_list dec_string) [] kvs ''nameservers'') (\<lambda>ns.
     bind_sum (dec_field dec_string [] kvs ''domain'') (\<lambda>d.
     bind_sum (dec_field (dec_list dec_string) [] kvs ''search'') (\<lambda>s.
     bind_sum (dec_field (dec_list dec_string) [] kvs ''options'') (\<lambda>os.
       Inr \<lparr>Nameservers = ns, Domain = d, Search = s, Options = os\<rparr>)))))"

definition IPConfig_UnmarshalJSON :: "json \<Rightarrow> go_error + ip_config" where
  "IPConfig_UnmarshalJSON data =
     bind_sum (jmembers data) (\<lambda>kvs.
     bind_sum (dec_field dec_string [] kvs ''version'') (\<lambda>v.
     bind_sum (dec_field (dec_pointer dec_int) None kvs ''interface'') (\<lambda>i.
     bind_sum (dec_field IPNet_UnmarshalJSON zero_net kvs ''address'') (\<lambda>a.
     bind_sum (dec_field dec_ip [] kvs ''gateway'') (\<lambda>g.
       Inr \<lparr>Version = v, Interface = i, Address = a, ConfGateway = g\<rparr>)))))"

definition dec_interface :: "json \<Rightarrow> go_error + interface" where
  "dec_interface j =
     bind_sum (jmembers j) (\<lambda>kvs.
     bind_sum (dec_field dec_string [] kvs ''name'') (\<lambda>n.
     bind_sum (dec_field dec_string [] kvs ''mac'') (\<lambda>m.
     bind_sum (dec_field dec_string [] kvs ''sandbox'') (\<lambda>s.
       Inr \<lparr>Name = n, Mac = m, Sandbox = s\<rparr>))))"

text \<open>An element of a slice of pointers; \<open>null\<close>, a nil pointer, is not modelled.\<close>

definition not_null :: "(json \<Rightarrow> go_error + 'a) \<Rightarrow> json \<Rightarrow> go_error + 'a" where
  "not_null d j = (if j = JNull then json_error else d j)"

definition current_NewResult :: "document \<Rightarrow> go_error + cni_result" where
  "current_NewResult data =
     bind_sum data (\<lambda>j.
     bind_sum (jmembers j) (\<lambda>kvs.
     bind_sum (dec_field dec_string [] kvs ''cniVersion'') (\<lambda>v.
     bind_sum (dec_field (dec_list (not_null dec_interface)) [] kvs ''interfaces'') (\<lambda>ifs.
     bind_sum (dec_field (dec_list (not_null IPConfig_UnmarshalJSON)) [] kvs ''ips'') (\<lambda>ips.
     bind_sum (dec_field (dec_list dec_route) [] kvs ''routes'') (\<lambda>rts.
     bind_sum (dec_field dec_dns empty_dns kvs ''dns'') (\<lambda>dns.
       Inr (RCur \<lparr>CNIVersion = v, Interfaces = ifs, IPs = ips, Routes = rts, DNS = dns\<rparr>))))))))"

definition IPConfig020_UnmarshalJSON :: "json \<Rightarrow> go_error + ip_config020" where
  "IPConfig020_UnmarshalJSON data =
     bind_sum (jmembers data) (\<lambda>kvs.
     bind_sum (dec_field IPNet_UnmarshalJSON zero_net kvs ''ip'') (\<lambda>ip.
     bind_sum (dec_field dec_ip [] kvs ''gateway'') (\<lambda>g.
     bind_sum (dec_field (dec_list Route_UnmarshalJSON) [] kvs ''routes'') (\<lambda>rts.
       Inr \<lparr>IP020 = ip, Gateway020 = g, Routes020 = rts\<rparr>))))"

definition types020_NewResult :: "document \<Rightarrow> go_error + cni_result" where
  "types020_NewResult data =
     bind_sum data (\<lambda>j.
     bind_sum (jmembers j) (\<lambda>kvs.
     bind_sum (dec_field dec_string [] kvs ''cniVersion'') (\<lambda>v.
     bind_sum (dec_field (dec_pointer IPConfig020_UnmarshalJSON) None kvs ''ip4'') (\<lambda>ip4.
     bind_sum (dec_field (dec_pointer IPConfig020_UnmarshalJSON) None kvs ''ip6'') (\<lambda>ip6.
     bind_sum (dec_field dec_dns empty_dns kvs ''dns'') (\<lambda>dns.
       Inr (R020 \<lparr>CNIVersion020 = v, IP4 = ip4, IP6 = ip6, DNS020 = dns\<rparr>)))))))"

section \<open>version.go\<close>

definition resultFactories :: "(string list \<times> (document \<Rightarrow> go_error + cni_result)) list" where
  "resultFactories = [(SupportedVersions, current_NewResult), (SupportedVersions020, types020_NewResult)]"

definition version_NewResult :: "string \<Rightarrow> document \<Rightarrow> go_error + cni_result" where
  "version_NewResult version resultBytes =
     (case find (\<lambda>(vs, new). Reconciler_CheckRaw version vs = None) resultFactories of
        Some (vs, new) \<Rightarrow> new resultBytes
      | None \<Rightarrow> Inl (Msg (''unsupported CNI result version '' @ quote version)))"

text \<open>
  \<open>types.NetConf\<close>; of the field \<open>ipam\<close> its only member \<open>type\<close>. A map is \<open>None\<close> when it is nil.
\<close>

record netconf =
  confCNIVersion :: string
  confName :: string
  confType :: string
  confCapabilities :: "bool go_map"
  confIPAM :: string
  confDNS :: dns_conf
  confRawPrevResult :: "json go_map option"
  confPrevResult :: "cni_result option"

definition dec_ipam :: "json \<Rightarrow> go_error + string" where
  "dec_ipam j = bind_sum (jmembers j) (\<lambda>kvs. dec_field dec_string [] kvs ''type'')"

definition dec_netconf :: "json \<Rightarrow> go_error + netconf" where
  "dec_netconf j =
     bind_sum (jmembers j) (\<lambda>kvs.
     bind_sum (dec_field dec_string [] kvs ''cniVersion'') (\<lambda>v.
     bind_sum (dec_field dec_string [] kvs ''name'') (\<lambda>n.
     bind_sum (dec_field dec_string [] kvs ''type'') (\<lambda>t.
     bind_sum (dec_field (dec_map dec_bool) [] kvs ''capabilities'') (\<lambda>caps.
     bind_sum (dec_field dec_ipam [] kvs ''ipam'') (\<lambda>ipam.
     bind_sum (dec_field dec_dns empty_dns kvs ''dns'') (\<lambda>dns.
     bind_sum (dec_field (dec_pointer (dec_map Inr)) None kvs ''prevResult'') (\<lambda>prev.
       Inr \<lparr>confCNIVersion = v, confName = n, confType = t, confCapabilities = caps, confIPAM = ipam,
            confDNS = dns, confRawPrevResult = prev, confPrevResult = None\<rparr>))))))))"

definition ParsePrevResult :: "netconf \<Rightarrow> go_error + netconf" where
  "ParsePrevResult conf =
     (case confRawPrevResult conf of
        None \<Rightarrow> Inr conf
      | Some raw \<Rightarrow>
          (case version_NewResult (confCNIVersion conf) (Inr (marshal_map raw)) of
             Inl err \<Rightarrow> Inl (Msg (''could not parse prevResult: '' @ err_text err))
           | Inr r \<Rightarrow> Inr (conf\<lparr>confRawPrevResult := None, confPrevResult := Some r\<rparr>)))"

end
