(* ===== verification/LibConf.thy ===== *)
theory LibConf
  imports ResultJson Paths
begin

text \<open>
  Network configurations of the runtime library (\<open>cni/libcni/conf.go\<close>): reading them from
  files, lists of plugins, and the injection of values. The bytes of a configuration are the
  value they denote; the order of a directory is that of \<open>ReadDir\<close>.
\<close>

section \<open>Configurations\<close>

record network_config =
  Network :: netconf
  ConfBytes :: json

record network_config_list =
  listName :: string
  listCNIVersion :: string
  listDisableCheck :: bool
  listPlugins :: "network_config list"
  listBytes :: json

text \<open>The files: a directory as names with the flag \<open>IsDir\<close>, a file as a document.\<close>

record conf_fs =
  cf_ReadDir :: "string \<Rightarrow> go_error + (string \<times> bool) list"
  cf_ReadFile :: "string \<Rightarrow> go_error + document"

text \<open>
  \<open>ConfFromBytes\<close>; the document \<open>null\<close> makes the pointer to the configuration nil, and the
  access to its type panics.
\<close>

definition nil_pointer :: string where
  "nil_pointer = ''invalid memory address or nil pointer dereference''"

definition ConfFromBytes :: "document \<Rightarrow> network_config outcome" where
  "ConfFromBytes bytes =
     (case bytes of
        Inl err \<Rightarrow> Fail (Msg (''error parsing configuration: '' @ err_text err))
      | Inr j \<Rightarrow>
          if j = JNull then Panic nil_pointer
          else (case dec_netconf j of
             Inl err \<Rightarrow> Fail (Msg (''error parsing configuration: '' @ err_text err))
           | Inr net \<Rightarrow>
               if confType net = [] then Fail (Msg (''error parsing configuration: missing '' @ squote ''type''))
               else Ret \<lparr>Network = net, ConfBytes = j\<rparr>))"

definition ConfFromFile :: "conf_fs \<Rightarrow> string \<Rightarrow> network_config outcome" where
  "ConfFromFile fs filename =
     (case cf_ReadFile fs filename of
        Inl err \<Rightarrow> Fail (Msg (''error reading '' @ filename @ '': '' @ err_text err))
      | Inr bytes \<Rightarrow> ConfFromBytes bytes)"

text \<open>The verb \<open>%T\<close> on a decoded value.\<close>

fun json_type :: "json \<Rightarrow> string" where
  "json_type JNull = ''<nil>''"
| "json_type (JBool _) = ''bool''"
| "json_type (JNum _) = ''float64''"
| "json_type (JStr _) = ''string''"
| "json_type (JArr _) = ''[]interface {}''"
| "json_type (JObj _) = ''map[string]interface {}''"

definition list_error :: "string \<Rightarrow> 'a outcome" where
  "list_error m = Fail (Msg (''error parsing configuration list: '' @ m))"

text \<open>The loop over the plugins of a list.\<close>

fun conf_plugins :: "nat \<Rightarrow> json list \<Rightarrow> network_config list outcome" where
  "conf_plugins i [] = Ret []"
| "conf_plugins i (conf # plugins) =
     (case ConfFromBytes (Inr conf) of
        Fail err \<Rightarrow> Fail (Msg (''failed to parse plugin config '' @ Itoa (int i) @ '': '' @ err_text err))
      | Panic m \<Rightarrow> Panic m
      | Ret netConf \<Rightarrow> bind_out (conf_plugins (i + 1) plugins) (\<lambda>rest. Ret (netConf # rest)))"

text \<open>A member of the raw list that must be a string, or a boolean; \<open>z\<close> when it is missing.\<close>

definition raw_string :: "json go_map \<Rightarrow> string \<Rightarrow> string outcome" where
  "raw_string raw k =
     (case map_of raw k of
        None \<Rightarrow> Ret [] | Some (JStr s) \<Rightarrow> Ret s
      | Some j \<Rightarrow> list_error (''invalid '' @ k @ '' type '' @ json_type j))"

definition raw_bool :: "json go_map \<Rightarrow> string \<Rightarrow> bool outcome" where
  "raw_bool raw k =
     (case map_of raw k of
        None \<Rightarrow> Ret False | Some (JBool b) \<Rightarrow> Ret b
      | Some j \<Rightarrow> list_error (''invalid '' @ k @ '' type '' @ json_type j))"

definition ConfListFromBytes :: "document \<Rightarrow> network_config_list outcome" where
  "ConfListFromBytes bytes =
     (case bind_sum bytes (\<lambda>j. bind_sum (dec_map Inr j) (\<lambda>raw. Inr (j, raw))) of
        Inl err \<Rightarrow> list_error (err_text err)
      | Inr (j, rawList) \<Rightarrow>
          if map_of rawList ''name'' = None then list_error ''no name''
          else
            bind_out (raw_string rawList ''name'') (\<lambda>name.
            bind_out (raw_string rawList ''cniVersion'') (\<lambda>cniVersion.
            bind_out (raw_bool rawList ''disableCheck'') (\<lambda>disableCheck.
              (case map_of rawList ''plugins'' of
                 None \<Rightarrow> list_error (''no '' @ squote ''plugins'' @ '' key'')
               | Some (JArr plugins) \<Rightarrow>
                   if length plugins = 0 then list_error ''no plugins in list''
                   else bind_out (conf_plugins 0 plugins) (\<lambda>ps.
                     Ret \<lparr>listName = name, listCNIVersion = cniVersion, listDisableCheck = disableCheck,
                          listPlugins = ps, listBytes = j\<rparr>)
               | Some j \<Rightarrow> list_error (''invalid '' @ squote ''plugins'' @ '' type '' @ json_type j))))))"

definition ConfListFromFile :: "conf_fs \<Rightarrow> string \<Rightarrow> network_config_list outcome" where
  "ConfListFromFile fs filename =
     (case cf_ReadFile fs filename of
        Inl err \<Rightarrow> Fail (Msg (''error reading '' @ filename @ '': '' @ err_text err))
      | Inr bytes \<Rightarrow> ConfListFromBytes bytes)"

section \<open>Directories\<close>

fun is_not_exist :: "go_error \<Rightarrow> bool" where
  "is_not_exist (NotExist _) = True"
| "is_not_exist _ = False"

text \<open>A file is listed once for every extension it matches.\<close>

definition ConfFiles :: "conf_fs \<Rightarrow> string \<Rightarrow> string list \<Rightarrow> go_error + string list" where
  "ConfFiles fs dir extensions =
     (case cf_ReadDir fs dir of
        Inl err \<Rightarrow> if is_not_exist err then Inr [] else Inl err
      | Inr files \<Rightarrow>
          Inr (concat (map (\<lambda>(name, isDir).
            if isDir then []
            else map (\<lambda>ext. filepath_Join [dir, name]) (filter (\<lambda>ext. filepath_Ext name = ext) extensions)) files)))"

text \<open>The loop over the sorted files: the first configuration with the name.\<close>

fun find_conf :: "(string \<Rightarrow> 'a outcome) \<Rightarrow> ('a \<Rightarrow> string) \<Rightarrow> string \<Rightarrow> string list \<Rightarrow> 'a option outcome" where
  "find_conf load name_of name [] = Ret None"
| "find_conf load name_of name (confFile # files) =
     bind_out (load confFile) (\<lambda>conf.
       if name_of conf = name then Ret (Some conf) else find_conf load name_of name files)"

definition LoadConf :: "conf_fs \<Rightarrow> string \<Rightarrow> string \<Rightarrow> network_config outcome" where
  "LoadConf fs dir name =
     (case ConfFiles fs dir [''.conf'', ''.json''] of
        Inl err \<Rightarrow> Fail err
      | Inr files \<Rightarrow>
          if length files = 0 then Fail (NoConfigsFoundError dir)
          else bind_out (find_conf (ConfFromFile fs) (\<lambda>c. confName (Network c)) name (sort files)) (\<lambda>r.
            case r of Some conf \<Rightarrow> Ret conf | None \<Rightarrow> Fail (NotFoundError dir name)))"

section \<open>Injection\<close>

text \<open>
  The loop of \<open>InjectConf\<close> over the new values, in the order of Go's iteration; \<open>JNull\<close> is nil.
  A nil map (from the document \<open>null\<close>) cannot be assigned to.
\<close>

fun inject_values :: "json go_map \<Rightarrow> (string \<times> json) list \<Rightarrow> go_error + json go_map" where
  "inject_values config [] = Inr config"
| "inject_values config ((key, value) # newValues) =
     (if key = [] then Inl (Msg ''keys cannot be empty'')
      else if value = JNull then Inl (Msg (''key '' @ squote key @ '' value must not be nil''))
      else inject_values (AList.update key value config) newValues)"

definition InjectConf :: "network_config \<Rightarrow> (string \<times> json) list \<Rightarrow> network_config outcome" where
  "InjectConf original newValues =
     (if ConfBytes original = JNull then
        (case inject_values [] (take 1 newValues) of
           Inl err \<Rightarrow> Fail err
         | Inr _ \<Rightarrow> if newValues = [] then ConfFromBytes (Inr JNull) else Panic ''assignment to entry in nil map'')
      else
        (case dec_map Inr (ConfBytes original) of
           Inl err \<Rightarrow> Fail (Msg (''unmarshal existing network bytes: '' @ err_text err))
         | Inr config \<Rightarrow>
             (case inject_values config newValues of
                Inl err \<Rightarrow> Fail err
              | Inr config \<Rightarrow> ConfFromBytes (Inr (marshal_map config)))))"

definition ConfListFromConf :: "network_config \<Rightarrow> network_config_list outcome" where
  "ConfListFromConf original =
     (case dec_map Inr (ConfBytes original) of
        Inl err \<Rightarrow> Fail err
      | Inr rawConfig \<Rightarrow>
          ConfListFromBytes (Inr (marshal_map
            [(''name'', JStr (confName (Network original))),
             (''cniVersion'', JStr (confCNIVersion (Network original))),
             (''plugins'', JArr [if ConfBytes original = JNull then JNull else marshal_map rawConfig])])))"

definition LoadConfList :: "conf_fs \<Rightarrow> string \<Rightarrow> string \<Rightarrow> network_config_list outcome" where
  "LoadConfList fs dir name =
     (case ConfFiles fs dir [''.conflist''] of
        Inl err \<Rightarrow> Fail err
      | Inr files \<Rightarrow>
          bind_out (find_conf (ConfListFromFile fs) listName name (sort files)) (\<lambda>r.
            case r of
              Some conf \<Rightarrow> Ret conf
            | None \<Rightarrow>
                (case LoadConf fs dir name of
                   Panic m \<Rightarrow> Panic m
                 | Fail err \<Rightarrow>
                     if length files \<noteq> 0 \<and> (case err of NoConfigsFoundError _ \<Rightarrow> True | _ \<Rightarrow> False)
                     then Fail (NotFoundError dir name) else Fail err
                 | Ret singleConf \<Rightarrow> ConfListFromConf singleConf)))"

end
