(* ===== verification/Invoke.thy ===== *)
theory Invoke
  imports ResultJson Paths
begin

text \<open>
  Running plugins (\<open>cni/pkg/invoke\<close>): the environment a plugin gets, finding its file,
  running it and decoding its answer, and the delegation of one plugin to another. The context
  of a call is left out. The world \<open>'w\<close> is what the plugins act on; JSON texts are documents.
\<close>

section \<open>args.go\<close>

record invoke_args =
  argCommand :: string
  argContainerID :: string
  argNetNS :: string
  argPluginArgs :: "(string \<times> string) list"
  argPluginArgsStr :: string
  argIfName :: string
  argPath :: string

text \<open>The interface \<open>CNIArgs\<close> with its three implementations.\<close>

datatype cni_args = Inherited | PluginArgs invoke_args | DelegateArgs string

definition stringify :: "(string \<times> string) list \<Rightarrow> string" where
  "stringify pluginArgs = join '';'' (map (\<lambda>(k, v). join ''='' [k, v]) pluginArgs)"

text \<open>\<open>order\<close> is the order in which Go iterates over a map with the given entries.\<close>

definition dedupEnv :: "((string \<times> string) list \<Rightarrow> (string \<times> string) list) \<Rightarrow> string list \<Rightarrow> string list" where
  "dedupEnv order env =
     (let out = filter (\<lambda>kv. split_env kv = None) env;
          envMap = foldl (\<lambda>m kv. case split_env kv of None \<Rightarrow> m | Some (k, v) \<Rightarrow> AList.update k v m) [] env
      in out @ map (\<lambda>(k, v). k @ ''='' @ v) (order envMap))"

text \<open>The process: its environment, the iteration order, the default \<open>Exec\<close>.\<close>

record 'w exec =
  ex_ExecPlugin :: "string \<Rightarrow> document \<Rightarrow> string list \<Rightarrow> 'w \<Rightarrow> (go_error + document) \<times> 'w"
  ex_FindInPath :: "string \<Rightarrow> string list \<Rightarrow> 'w \<Rightarrow> go_error + string"
  ex_Decode :: "document \<Rightarrow> plugin_info outcome"

record 'w process =
  pr_Environ :: "string list"
  pr_order :: "(string \<times> string) list \<Rightarrow> (string \<times> string) list"
  pr_defaultExec :: "'w exec"

definition args_env :: "invoke_args \<Rightarrow> string list" where
  "args_env args =
     [''CNI_COMMAND='' @ argCommand args,
      ''CNI_CONTAINERID='' @ argContainerID args,
      ''CNI_NETNS='' @ argNetNS args,
      ''CNI_ARGS='' @ (if argPluginArgsStr args = [] then stringify (argPluginArgs args) else argPluginArgsStr args),
      ''CNI_IFNAME='' @ argIfName args,
      ''CNI_PATH='' @ argPath args]"

fun AsEnv :: "'w process \<Rightarrow> cni_args \<Rightarrow> string list" where
  "AsEnv p Inherited = []"
| "AsEnv p (PluginArgs args) = dedupEnv (pr_order p) (pr_Environ p @ args_env args)"
| "AsEnv p (DelegateArgs command) = dedupEnv (pr_order p) (pr_Environ p @ [''CNI_COMMAND='' @ command])"

section \<open>find.go and os_unix.go\<close>

definition ExecutableFileExtensions :: "string list" where
  "ExecutableFileExtensions = ['''']"

text \<open>\<open>stat f\<close> is whether \<open>os.Stat\<close> succeeds and finds a regular file.\<close>

definition FindInPath :: "(string \<Rightarrow> bool) \<Rightarrow> string \<Rightarrow> string list \<Rightarrow> go_error + string" where
  "FindInPath stat plugin paths =
     (if plugin = [] then Inl (Msg ''no plugin name provided'')
      else if length paths = 0 then Inl (Msg ''no paths provided'')
      else case find stat (concat (map (\<lambda>path. map (\<lambda>fe. filepath_Join [path, plugin] @ fe) ExecutableFileExtensions) paths)) of
          Some fullpath \<Rightarrow> Inr fullpath
        | None \<Rightarrow> Inl (Msg (''failed to find plugin '' @ quote plugin @ '' in path ['' @ join '' '' paths @ '']'')))"

section \<open>raw_exec.go\<close>

text \<open>
  A field of a struct whose decoding fails keeps its zero value, and the decoder goes on with
  the next one.
\<close>

definition dec_or :: "(json \<Rightarrow> go_error + 'a) \<Rightarrow> 'a \<Rightarrow> (string \<times> json) list \<Rightarrow> string \<Rightarrow> 'a" where
  "dec_or d z kvs name = (case dec_field d z kvs name of Inl _ \<Rightarrow> z | Inr x \<Rightarrow> x)"

text \<open>A field that had a value before the decoding keeps it when the member is \<open>null\<close>.\<close>

definition dec_string_or :: "string \<Rightarrow> json \<Rightarrow> go_error + string" where
  "dec_string_or z j = (if j = JNull then Inr z else dec_string j)"

fun dec_uint :: "json \<Rightarrow> go_error + nat" where
  "dec_uint j = bind_sum (dec_int j) (\<lambda>n. if n < 0 then json_error else Inr (nat n))"

definition pluginErr :: "(string \<Rightarrow> document) \<Rightarrow> string \<Rightarrow> string \<Rightarrow> string \<Rightarrow> go_error" where
  "pluginErr parse err stdout stderr =
     (if length stdout = 0 then
        (if length stderr = 0 then CniErr 0 (''netplugin failed with no error message: '' @ err) []
         else CniErr 0 (''netplugin failed: '' @ quote stderr) [])
      else
        (let diagnostic = (\<lambda>perr. ''netplugin failed but error parsing its diagnostic message '' @ quote stdout @
               '': '' @ err_text perr)
         in case bind_sum (parse stdout) jmembers of
              Inl perr \<Rightarrow> CniErr 0 (diagnostic perr) []
            | Inr kvs \<Rightarrow>
                (let code = dec_field dec_uint 0 kvs ''code''; msg = dec_field dec_string [] kvs ''msg'';
                     details = dec_field dec_string [] kvs ''details''
                 in case bind_sum code (\<lambda>_. bind_sum msg (\<lambda>_. details)) of
                      Inl perr \<Rightarrow> CniErr (dec_or dec_uint 0 kvs ''code'') (diagnostic perr) (dec_or dec_string [] kvs ''details'')
                    | Inr _ \<Rightarrow> CniErr (dec_or dec_uint 0 kvs ''code'') (dec_or dec_string [] kvs ''msg'')
                        (dec_or dec_string [] kvs ''details''))))"

text \<open>
  \<open>run\<close> is \<open>exec.Cmd.Run\<close>: the text of its error, if any, and what the plugin wrote to the two
  streams; \<open>parse\<close> is the JSON parser. The loop has \<open>n\<close> tries left; when none is left it falls
  through to the success. The copy to the caller's error stream and the second of sleep between
  two tries are left out.
\<close>

type_synonym 'w runner = "string \<Rightarrow> document \<Rightarrow> string list \<Rightarrow> 'w \<Rightarrow> (string option \<times> string \<times> string) \<times> 'w"

fun run_loop ::
  "'w runner \<Rightarrow> (string \<Rightarrow> document) \<Rightarrow> string \<Rightarrow> document \<Rightarrow> string list \<Rightarrow> nat \<Rightarrow> string \<Rightarrow> string \<Rightarrow> 'w \<Rightarrow>
    (go_error + document) \<times> 'w" where
  "run_loop run parse pluginPath stdinData environ 0 stdout stderr w = (Inr (parse stdout), w)"
| "run_loop run parse pluginPath stdinData environ (Suc n) stdout stderr w =
     (case run pluginPath stdinData environ w of
        ((err, out, errout), w) \<Rightarrow>
          (let stdout = stdout @ out; stderr = stderr @ errout in
           case err of
             None \<Rightarrow> (Inr (parse stdout), w)
           | Some err \<Rightarrow>
               if contains_sub err ''text file busy''
               then run_loop run parse pluginPath stdinData environ n stdout stderr w
               else (Inl (pluginErr parse err stdout stderr), w)))"

definition RawExec_ExecPlugin ::
  "'w runner \<Rightarrow> (string \<Rightarrow> document) \<Rightarrow> string \<Rightarrow> document \<Rightarrow> string list \<Rightarrow> 'w \<Rightarrow> (go_error + document) \<times> 'w" where
  "RawExec_ExecPlugin run parse pluginPath stdinData environ w =
     run_loop run parse pluginPath stdinData environ 6 [] [] w"

section \<open>exec.go\<close>

text \<open>\<open>DefaultExec\<close>: the plugins on disk.\<close>

definition DefaultExec :: "'w runner \<Rightarrow> (string \<Rightarrow> document) \<Rightarrow> ('w \<Rightarrow> string \<Rightarrow> bool) \<Rightarrow> 'w exec" where
  "DefaultExec run parse stat =
     \<lparr>ex_ExecPlugin = RawExec_ExecPlugin run parse, ex_FindInPath = (\<lambda>plugin paths w. FindInPath (stat w) plugin paths),
      ex_Decode = PluginDecoder_Decode\<rparr>"

text \<open>A nil \<open>Exec\<close> stands for the default one.\<close>

definition the_exec :: "'w process \<Rightarrow> 'w exec option \<Rightarrow> 'w exec" where
  "the_exec p exec = (case exec of None \<Rightarrow> pr_defaultExec p | Some e \<Rightarrow> e)"

definition ExecPluginWithResult ::
  "'w process \<Rightarrow> string \<Rightarrow> document \<Rightarrow> cni_args \<Rightarrow> 'w exec option \<Rightarrow> 'w \<Rightarrow> (go_error + cni_result) \<times> 'w" where
  "ExecPluginWithResult p pluginPath netconf args exec w =
     (case ex_ExecPlugin (the_exec p exec) pluginPath netconf (AsEnv p args) w of
        (Inl err, w) \<Rightarrow> (Inl err, w)
      | (Inr stdoutBytes, w) \<Rightarrow>
          (bind_sum (ConfigDecoder_Decode netconf) (\<lambda>confVersion. version_NewResult confVersion stdoutBytes), w))"

definition ExecPluginWithoutResult ::
  "'w process \<Rightarrow> string \<Rightarrow> document \<Rightarrow> cni_args \<Rightarrow> 'w exec option \<Rightarrow> 'w \<Rightarrow> go_error option \<times> 'w" where
  "ExecPluginWithoutResult p pluginPath netconf args exec w =
     (case ex_ExecPlugin (the_exec p exec) pluginPath netconf (AsEnv p args) w of
        (Inl err, w) \<Rightarrow> (Some err, w) | (Inr _, w) \<Rightarrow> (None, w))"

definition version_args :: invoke_args where
  "version_args = \<lparr>argCommand = ''VERSION'', argContainerID = [], argNetNS = ''dummy'', argPluginArgs = [],
     argPluginArgsStr = [], argIfName = ''dummy'', argPath = ''dummy''\<rparr>"

definition GetVersionInfo :: "'w process \<Rightarrow> string \<Rightarrow> 'w exec option \<Rightarrow> 'w \<Rightarrow> plugin_info outcome \<times> 'w" where
  "GetVersionInfo p pluginPath exec w =
     (let stdin = Inr (JObj [(''cniVersion'', JStr Current)]) in
      case ex_ExecPlugin (the_exec p exec) pluginPath stdin (AsEnv p (PluginArgs version_args)) w of
        (Inl err, w) \<Rightarrow>
          (if err_text err = ''unknown CNI_COMMAND: VERSION'' then PluginSupports [''0.1.0''] else Fail err, w)
      | (Inr stdoutBytes, w) \<Rightarrow> (ex_Decode (the_exec p exec) stdoutBytes, w))"

section \<open>delegate.go\<close>

definition delegateCommon :: "'w process \<Rightarrow> string \<Rightarrow> 'w exec option \<Rightarrow> 'w \<Rightarrow> go_error + (string \<times> 'w exec)" where
  "delegateCommon p delegatePlugin exec w =
     (let paths = filepath_SplitList (env_lookup (pr_Environ p) ''CNI_PATH'') in
      bind_sum (ex_FindInPath (the_exec p exec) delegatePlugin paths w) (\<lambda>pluginPath. Inr (pluginPath, the_exec p exec)))"

definition DelegateAdd ::
  "'w process \<Rightarrow> string \<Rightarrow> document \<Rightarrow> 'w exec option \<Rightarrow> 'w \<Rightarrow> (go_error + cni_result) \<times> 'w" where
  "DelegateAdd p delegatePlugin netconf exec w =
     (case delegateCommon p delegatePlugin exec w of
        Inl err \<Rightarrow> (Inl err, w)
      | Inr (pluginPath, realExec) \<Rightarrow>
          ExecPluginWithResult p pluginPath netconf (DelegateArgs ''ADD'') (Some realExec) w)"

definition delegate_simple ::
  "string \<Rightarrow> 'w process \<Rightarrow> string \<Rightarrow> document \<Rightarrow> 'w exec option \<Rightarrow> 'w \<Rightarrow> go_error option \<times> 'w" where
  "delegate_simple command p delegatePlugin netconf exec w =
     (case delegateCommon p delegatePlugin exec w of
        Inl err \<Rightarrow> (Some err, w)
      | Inr (pluginPath, realExec) \<Rightarrow>
          ExecPluginWithoutResult p pluginPath netconf (DelegateArgs command) (Some realExec) w)"

definition DelegateCheck :: "'w process \<Rightarrow> string \<Rightarrow> document \<Rightarrow> 'w exec option \<Rightarrow> 'w \<Rightarrow> go_error option \<times> 'w" where
  "DelegateCheck p delegatePlugin netconf exec w = delegate_simple ''CHECK'' p delegatePlugin netconf exec w"

definition DelegateDel :: "'w process \<Rightarrow> string \<Rightarrow> document \<Rightarrow> 'w exec option \<Rightarrow> 'w \<Rightarrow> go_error option \<times> 'w" where
  "DelegateDel p delegatePlugin netconf exec w = delegate_simple ''DEL'' p delegatePlugin netconf exec w"

end
