(* ===== verification/LibApi.thy ===== *)
theory LibApi
  imports LibConf Invoke Skel
begin

text \<open>
  The runtime library (\<open>cni/libcni/api.go\<close>): how a container runtime runs the plugins of a
  network one after the other, and the cache of their results. Contexts are left out. The
  world \<open>'w\<close> holds what the plugins act on and the files of the cache.
\<close>

section \<open>Parameters\<close>

text \<open>
  The process, the files of the cache (whose contents are JSON values), the encoding of bytes
  as base64 text, and the order in which Go iterates over the keys of a map.
\<close>

record 'w lib_env =
  le_process :: "'w process"
  le_MkdirAll :: "string \<Rightarrow> 'w \<Rightarrow> go_error option \<times> 'w"
  le_WriteFile :: "string \<Rightarrow> json \<Rightarrow> 'w \<Rightarrow> go_error option \<times> 'w"
  le_Remove :: "string \<Rightarrow> 'w \<Rightarrow> go_error option \<times> 'w"
  le_ReadFile :: "string \<Rightarrow> 'w \<Rightarrow> go_error + document"
  le_base64 :: "json \<Rightarrow> string"
  le_unbase64 :: "string \<Rightarrow> go_error + document"
  le_order :: "string list \<Rightarrow> string list"

definition default_CacheDir :: string where
  "default_CacheDir = ''/var/lib/cni''"

definition CNICacheV1 :: string where
  "CNICacheV1 = ''cniCacheV1''"

record runtime_conf =
  rtContainerID :: string
  rtNetNS :: string
  rtIfName :: string
  rtArgs :: "(string \<times> string) list"
  rtCapabilityArgs :: "json go_map"
  rtCacheDir :: string

record 'w cni_config =
  cniPath :: "string list"
  cniExec :: "'w exec option"
  cniCacheDir :: string

definition NewCNIConfigWithCacheDir :: "string list \<Rightarrow> string \<Rightarrow> 'w exec option \<Rightarrow> 'w cni_config" where
  "NewCNIConfigWithCacheDir path cacheDir exec = \<lparr>cniPath = path, cniExec = exec, cniCacheDir = cacheDir\<rparr>"

definition NewCNIConfig :: "string list \<Rightarrow> 'w exec option \<Rightarrow> 'w cni_config" where
  "NewCNIConfig path exec = NewCNIConfigWithCacheDir path [] exec"

section \<open>The configuration of one plugin\<close>

definition injectRuntimeConfig :: "network_config \<Rightarrow> runtime_conf \<Rightarrow> network_config outcome" where
  "injectRuntimeConfig orig rt =
     (let rc = concat (map (\<lambda>(capability, supported).
            if \<not> supported then []
            else case map_of (rtCapabilityArgs rt) capability of None \<Rightarrow> [] | Some data \<Rightarrow> [(capability, data)])
          (confCapabilities (Network orig)))
      in if length rc > 0 then InjectConf orig [(''runtimeConfig'', marshal_map rc)] else Ret orig)"

definition buildOneConfig ::
  "string \<Rightarrow> string \<Rightarrow> network_config \<Rightarrow> cni_result option \<Rightarrow> runtime_conf \<Rightarrow> network_config outcome" where
  "buildOneConfig name cniVersion orig prevResult rt =
     (let inject = [(''name'', JStr name), (''cniVersion'', JStr cniVersion)] @
            (case prevResult of None \<Rightarrow> [] | Some r \<Rightarrow> [(''prevResult'', Result_JSON r)])
      in bind_out (InjectConf orig inject) (\<lambda>orig. injectRuntimeConfig orig rt))"

text \<open>\<open>ensureExec\<close>: the default \<open>Exec\<close> when none was given.\<close>

definition ensureExec :: "'w lib_env \<Rightarrow> 'w cni_config \<Rightarrow> 'w exec" where
  "ensureExec env c = the_exec (le_process env) (cniExec c)"

section \<open>The cache\<close>

record cached_info =
  ciKind :: string
  ciContainerID :: string
  ciConfig :: "document option"
  ciIfName :: string
  ciNetworkName :: string
  ciCniArgs :: "(string \<times> string) list option"
  ciCapabilityArgs :: "json go_map"
  ciRawResult :: "json go_map option"

definition getCacheDir :: "'w cni_config \<Rightarrow> runtime_conf \<Rightarrow> string" where
  "getCacheDir c rt =
     (if cniCacheDir c \<noteq> [] then cniCacheDir c else if rtCacheDir rt \<noteq> [] then rtCacheDir rt else default_CacheDir)"

definition getCacheFilePath :: "'w cni_config \<Rightarrow> string \<Rightarrow> runtime_conf \<Rightarrow> go_error + string" where
  "getCacheFilePath c netName rt =
     (if netName = [] \<or> rtContainerID rt = [] \<or> rtIfName rt = []
      then Inl (Msg (''cache file path requires network name ('' @ quote netName @ ''), container ID ('' @
        quote (rtContainerID rt) @ ''), and interface name ('' @ quote (rtIfName rt) @ '')''))
      else Inr (filepath_Join [getCacheDir c rt, ''results'',
        netName @ ''-'' @ rtContainerID rt @ ''-'' @ rtIfName rt]))"

text \<open>\<open>json.Marshal\<close> and \<open>json.Unmarshal\<close> of \<open>cachedInfo\<close>.\<close>

definition cached_JSON :: "'w lib_env \<Rightarrow> json \<Rightarrow> string \<Rightarrow> runtime_conf \<Rightarrow> json go_map \<Rightarrow> json" where
  "cached_JSON env config netName rt rawResult = JObj (
     [(''kind'', JStr CNICacheV1), (''containerId'', JStr (rtContainerID rt)), (''config'', JStr (le_base64 env config)),
      (''ifName'', JStr (rtIfName rt)), (''networkName'', JStr netName)] @
     member (rtArgs rt \<noteq> []) ''cniArgs'' (JArr (map (\<lambda>(k, v). JArr [JStr k, JStr v]) (rtArgs rt))) @
     member (rtCapabilityArgs rt \<noteq> []) ''capabilityArgs'' (marshal_map (rtCapabilityArgs rt)) @
     member (rawResult \<noteq> []) ''result'' (marshal_map rawResult))"

fun dec_pair :: "json \<Rightarrow> go_error + (string \<times> string)" where
  "dec_pair JNull = Inr ([], [])"
| "dec_pair (JArr js) =
     bind_sum (map_sum_list dec_string (take 2 js)) (\<lambda>ss.
       Inr (if length ss > 0 then ss ! 0 else [], if length ss > 1 then ss ! 1 else []))"
| "dec_pair _ = json_error"

fun dec_bytes :: "'w lib_env \<Rightarrow> json \<Rightarrow> go_error + document option" where
  "dec_bytes env JNull = Inr None"
| "dec_bytes env (JStr s) = bind_sum (le_unbase64 env s) (\<lambda>d. Inr (Some d))"
| "dec_bytes env _ = json_error"

definition dec_cached :: "'w lib_env \<Rightarrow> json \<Rightarrow> go_error + cached_info" where
  "dec_cached env j =
     bind_sum (jmembers j) (\<lambda>kvs.
     bind_sum (dec_field dec_string [] kvs ''kind'') (\<lambda>kind.
     bind_sum (dec_field dec_string [] kvs ''containerId'') (\<lambda>cid.
     bind_sum (dec_field (dec_bytes env) None kvs ''config'') (\<lambda>config.
     bind_sum (dec_field dec_string [] kvs ''ifName'') (\<lambda>ifname.
     bind_sum (dec_field dec_string [] kvs ''networkName'') (\<lambda>netname.
     bind_sum (dec_field (dec_pointer (dec_list dec_pair)) None kvs ''cniArgs'') (\<lambda>args.
     bind_sum (dec_field (dec_map Inr) [] kvs ''capabilityArgs'') (\<lambda>caps.
     bind_sum (dec_field (dec_pointer (dec_map Inr)) None kvs ''result'') (\<lambda>result.
       Inr \<lparr>ciKind = kind, ciContainerID = cid, ciConfig = config, ciIfName = ifname, ciNetworkName = netname,
            ciCniArgs = args, ciCapabilityArgs = caps, ciRawResult = result\<rparr>)))))))))"

text \<open>A nil result is written as \<open>null\<close>, whose map is nil.\<close>

definition cacheAdd ::
  "'w lib_env \<Rightarrow> 'w cni_config \<Rightarrow> cni_result option \<Rightarrow> json \<Rightarrow> string \<Rightarrow> runtime_conf \<Rightarrow> 'w \<Rightarrow> go_error option \<times> 'w" where
  "cacheAdd env c result config netName rt w =
     (case dec_map Inr (case result of None \<Rightarrow> JNull | Some r \<Rightarrow> Result_JSON r) of
        Inl err \<Rightarrow> (Some err, w)
      | Inr rawResult \<Rightarrow>
          (case getCacheFilePath c netName rt of
             Inl err \<Rightarrow> (Some err, w)
           | Inr fname \<Rightarrow>
               (case le_MkdirAll env (filepath_Dir fname) w of
                  (Some err, w) \<Rightarrow> (Some err, w)
                | (None, w) \<Rightarrow> le_WriteFile env fname (cached_JSON env config netName rt rawResult) w)))"

definition cacheDel :: "'w lib_env \<Rightarrow> 'w cni_config \<Rightarrow> string \<Rightarrow> runtime_conf \<Rightarrow> 'w \<Rightarrow> go_error option \<times> 'w" where
  "cacheDel env c netName rt w =
     (case getCacheFilePath c netName rt of
        Inl err \<Rightarrow> (None, w) | Inr fname \<Rightarrow> le_Remove env fname w)"

definition getCachedConfig ::
  "'w lib_env \<Rightarrow> 'w cni_config \<Rightarrow> string \<Rightarrow> runtime_conf \<Rightarrow> 'w \<Rightarrow> go_error + (document option \<times> runtime_conf option)" where
  "getCachedConfig env c netName rt w =
     bind_sum (getCacheFilePath c netName rt) (\<lambda>fname.
       case le_ReadFile env fname w of
         Inl err \<Rightarrow> Inr (None, None)
       | Inr bytes \<Rightarrow>
           (case bind_sum bytes (dec_cached env) of
              Inl err \<Rightarrow> Inl (Msg (''failed to unmarshal cached network '' @ quote netName @ '' config: '' @ err_text err))
            | Inr unmarshaled \<Rightarrow>
                if ciKind unmarshaled \<noteq> CNICacheV1
                then Inl (Msg (''read cached network '' @ quote netName @ '' config has wrong kind: '' @ ciKind unmarshaled))
                else Inr (ciConfig unmarshaled, Some (rt\<lparr>
                  rtArgs := (case ciCniArgs unmarshaled of None \<Rightarrow> rtArgs rt | Some a \<Rightarrow> a),
                  rtCapabilityArgs := ciCapabilityArgs unmarshaled\<rparr>))))"

text \<open>The common end of the two readers: decode a result and convert it.\<close>

definition read_result :: "document \<Rightarrow> string \<Rightarrow> go_error + cni_result option" where
  "read_result bytes cniVersion =
     bind_sum (ConfigDecoder_Decode bytes) (\<lambda>resultCniVersion.
     bind_sum (version_NewResult resultCniVersion bytes) (\<lambda>result.
       case GetAsVersion result cniVersion of
         Inr r \<Rightarrow> Inr (Some r)
       | Inl err \<Rightarrow> if resultCniVersion \<noteq> cniVersion
           then Inl (Msg (''failed to convert cached result version '' @ quote resultCniVersion @ '' to config version '' @
             quote cniVersion @ '': '' @ err_text err))
           else Inl err))"

definition getLegacyCachedResult ::
  "'w lib_env \<Rightarrow> 'w cni_config \<Rightarrow> string \<Rightarrow> string \<Rightarrow> runtime_conf \<Rightarrow> 'w \<Rightarrow> go_error + cni_result option" where
  "getLegacyCachedResult env c netName cniVersion rt w =
     bind_sum (getCacheFilePath c netName rt) (\<lambda>fname.
       case le_ReadFile env fname w of Inl err \<Rightarrow> Inr None | Inr data \<Rightarrow> read_result data cniVersion)"

definition getCachedResult ::
  "'w lib_env \<Rightarrow> 'w cni_config \<Rightarrow> string \<Rightarrow> string \<Rightarrow> runtime_conf \<Rightarrow> 'w \<Rightarrow> go_error + cni_result option" where
  "getCachedResult env c netName cniVersion rt w =
     bind_sum (getCacheFilePath c netName rt) (\<lambda>fname.
       case le_ReadFile env fname w of
         Inl err \<Rightarrow> Inr None
       | Inr fdata \<Rightarrow>
           (case bind_sum fdata (dec_cached env) of
              Inl err \<Rightarrow> getLegacyCachedResult env c netName cniVersion rt w
            | Inr info \<Rightarrow>
                if ciKind info \<noteq> CNICacheV1 then getLegacyCachedResult env c netName cniVersion rt w
                else read_result (Inr (case ciRawResult info of None \<Rightarrow> JNull | Some m \<Rightarrow> marshal_map m)) cniVersion))"

definition GetNetworkListCachedResult ::
  "'w lib_env \<Rightarrow> 'w cni_config \<Rightarrow> network_config_list \<Rightarrow> runtime_conf \<Rightarrow> 'w \<Rightarrow> go_error + cni_result option" where
  "GetNetworkListCachedResult env c list rt w = getCachedResult env c (listName list) (listCNIVersion list) rt w"

definition GetNetworkCachedResult ::
  "'w lib_env \<Rightarrow> 'w cni_config \<Rightarrow> network_config \<Rightarrow> runtime_conf \<Rightarrow> 'w \<Rightarrow> go_error + cni_result option" where
  "GetNetworkCachedResult env c net rt w =
     getCachedResult env c (confName (Network net)) (confCNIVersion (Network net)) rt w"

definition GetNetworkListCachedConfig ::
  "'w lib_env \<Rightarrow> 'w cni_config \<Rightarrow> network_config_list \<Rightarrow> runtime_conf \<Rightarrow> 'w \<Rightarrow> go_error + (document option \<times> runtime_conf option)" where
  "GetNetworkListCachedConfig env c list rt w = getCachedConfig env c (listName list) rt w"

definition GetNetworkCachedConfig ::
  "'w lib_env \<Rightarrow> 'w cni_config \<Rightarrow> network_config \<Rightarrow> runtime_conf \<Rightarrow> 'w \<Rightarrow> go_error + (document option \<times> runtime_conf option)" where
  "GetNetworkCachedConfig env c net rt w = getCachedConfig env c (confName (Network net)) rt w"

section \<open>ADD, CHECK and DEL\<close>

definition runtime_args :: "'w cni_config \<Rightarrow> string \<Rightarrow> runtime_conf \<Rightarrow> invoke_args" where
  "runtime_args c action rt =
     \<lparr>argCommand = action, argContainerID = rtContainerID rt, argNetNS = rtNetNS rt, argPluginArgs = rtArgs rt,
      argPluginArgsStr = [], argIfName = rtIfName rt, argPath = join '':'' (cniPath c)\<rparr>"

definition addNetwork ::
  "'w lib_env \<Rightarrow> 'w cni_config \<Rightarrow> string \<Rightarrow> string \<Rightarrow> network_config \<Rightarrow> cni_result option \<Rightarrow> runtime_conf \<Rightarrow> 'w \<Rightarrow>
    cni_result outcome \<times> 'w" where
  "addNetwork env c name cniVersion net prevResult rt w =
     (case ex_FindInPath (ensureExec env c) (confType (Network net)) (cniPath c) w of
        Inl err \<Rightarrow> (Fail err, w)
      | Inr pluginPath \<Rightarrow>
          (case ValidateContainerID (rtContainerID rt) of
             Some err \<Rightarrow> (Fail err, w)
           | None \<Rightarrow>
               (case ValidateNetworkName name of
                  Some err \<Rightarrow> (Fail err, w)
                | None \<Rightarrow>
                    (case ValidateInterfaceName (rtIfName rt) of
                       Some err \<Rightarrow> (Fail err, w)
                     | None \<Rightarrow>
                         (case buildOneConfig name cniVersion net prevResult rt of
                            Fail err \<Rightarrow> (Fail err, w)
                          | Panic m \<Rightarrow> (Panic m, w)
                          | Ret newConf \<Rightarrow>
                              (case ExecPluginWithResult (le_process env) pluginPath (Inr (ConfBytes newConf))
                                  (PluginArgs (runtime_args c ''ADD'' rt)) (Some (ensureExec env c)) w of
                                 (r, w) \<Rightarrow> (outcome_of r, w)))))))"

text \<open>The loop over the plugins; each gets the result of the one before.\<close>

fun add_plugins ::
  "'w lib_env \<Rightarrow> 'w cni_config \<Rightarrow> string \<Rightarrow> string \<Rightarrow> network_config list \<Rightarrow> cni_result option \<Rightarrow> runtime_conf \<Rightarrow> 'w \<Rightarrow>
    cni_result option outcome \<times> 'w" where
  "add_plugins env c name cniVersion [] result rt w = (Ret result, w)"
| "add_plugins env c name cniVersion (net # nets) result rt w =
     (case addNetwork env c name cniVersion net result rt w of
        (Fail err, w) \<Rightarrow> (Fail err, w)
      | (Panic m, w) \<Rightarrow> (Panic m, w)
      | (Ret result, w) \<Rightarrow> add_plugins env c name cniVersion nets (Some result) rt w)"

text \<open>The end of \<open>AddNetworkList\<close> and \<open>AddNetwork\<close>: the result goes into the cache.\<close>

definition cache_result ::
  "'w lib_env \<Rightarrow> 'w cni_config \<Rightarrow> cni_result option \<Rightarrow> json \<Rightarrow> string \<Rightarrow> runtime_conf \<Rightarrow> 'w \<Rightarrow> cni_result option outcome \<times> 'w" where
  "cache_result env c result bytes name rt w =
     (case cacheAdd env c result bytes name rt w of
        (Some err, w) \<Rightarrow> (Fail (Msg (''failed to set network '' @ quote name @ '' cached result: '' @ err_text err)), w)
      | (None, w) \<Rightarrow> (Ret result, w))"

definition AddNetworkList ::
  "'w lib_env \<Rightarrow> 'w cni_config \<Rightarrow> network_config_list \<Rightarrow> runtime_conf \<Rightarrow> 'w \<Rightarrow> cni_result option outcome \<times> 'w" where
  "AddNetworkList env c list rt w =
     (case add_plugins env c (listName list) (listCNIVersion list) (listPlugins list) None rt w of
        (Fail err, w) \<Rightarrow> (Fail err, w)
      | (Panic m, w) \<Rightarrow> (Panic m, w)
      | (Ret result, w) \<Rightarrow> cache_result env c result (listBytes list) (listName list) rt w)"

definition AddNetwork ::
  "'w lib_env \<Rightarrow> 'w cni_config \<Rightarrow> network_config \<Rightarrow> runtime_conf \<Rightarrow> 'w \<Rightarrow> cni_result option outcome \<times> 'w" where
  "AddNetwork env c net rt w =
     (case addNetwork env c (confName (Network net)) (confCNIVersion (Network net)) net None rt w of
        (Fail err, w) \<Rightarrow> (Fail err, w)
      | (Panic m, w) \<Rightarrow> (Panic m, w)
      | (Ret result, w) \<Rightarrow> cache_result env c (Some result) (ConfBytes net) (confName (Network net)) rt w)"

text \<open>\<open>checkNetwork\<close> and \<open>delNetwork\<close> differ in the command only; neither validates the names.\<close>

definition run_without_result ::
  "string \<Rightarrow> 'w lib_env \<Rightarrow> 'w cni_config \<Rightarrow> string \<Rightarrow> string \<Rightarrow> network_config \<Rightarrow> cni_result option \<Rightarrow> runtime_conf \<Rightarrow> 'w \<Rightarrow>
    unit outcome \<times> 'w" where
  "run_without_result command env c name cniVersion net prevResult rt w =
     (case ex_FindInPath (ensureExec env c) (confType (Network net)) (cniPath c) w of
        Inl err \<Rightarrow> (Fail err, w)
      | Inr pluginPath \<Rightarrow>
          (case buildOneConfig name cniVersion net prevResult rt of
             Fail err \<Rightarrow> (Fail err, w)
           | Panic m \<Rightarrow> (Panic m, w)
           | Ret newConf \<Rightarrow>
               (case ExecPluginWithoutResult (le_process env) pluginPath (Inr (ConfBytes newConf))
                   (PluginArgs (runtime_args c command rt)) (Some (ensureExec env c)) w of
                  (Some err, w) \<Rightarrow> (Fail err, w) | (None, w) \<Rightarrow> (Ret (), w))))"

definition checkNetwork ::
  "'w lib_env \<Rightarrow> 'w cni_config \<Rightarrow> string \<Rightarrow> string \<Rightarrow> network_config \<Rightarrow> cni_result option \<Rightarrow> runtime_conf \<Rightarrow> 'w \<Rightarrow>
    unit outcome \<times> 'w" where
  "checkNetwork env c name cniVersion net prevResult rt w =
     run_without_result ''CHECK'' env c name cniVersion net prevResult rt w"

definition delNetwork ::
  "'w lib_env \<Rightarrow> 'w cni_config \<Rightarrow> string \<Rightarrow> string \<Rightarrow> network_config \<Rightarrow> cni_result option \<Rightarrow> runtime_conf \<Rightarrow> 'w \<Rightarrow>
    unit outcome \<times> 'w" where
  "delNetwork env c name cniVersion net prevResult rt w =
     run_without_result ''DEL'' env c name cniVersion net prevResult rt w"

text \<open>A loop over plugins that stops at the first error.\<close>

fun each_plugin :: "(network_config \<Rightarrow> 'w \<Rightarrow> unit outcome \<times> 'w) \<Rightarrow> network_config list \<Rightarrow> 'w \<Rightarrow> unit outcome \<times> 'w" where
  "each_plugin f [] w = (Ret (), w)"
| "each_plugin f (net # nets) w =
     (case f net w of (Ret _, w) \<Rightarrow> each_plugin f nets w | (r, w) \<Rightarrow> (r, w))"

definition no_check :: "string \<Rightarrow> go_error" where
  "no_check v = Msg (''configuration version '' @ quote v @ '' does not support the CHECK command'')"

definition cached_error :: "string \<Rightarrow> go_error \<Rightarrow> go_error" where
  "cached_error name err = Msg (''failed to get network '' @ quote name @ '' cached result: '' @ err_text err)"

definition CheckNetworkList ::
  "'w lib_env \<Rightarrow> 'w cni_config \<Rightarrow> network_config_list \<Rightarrow> runtime_conf \<Rightarrow> 'w \<Rightarrow> unit outcome \<times> 'w" where
  "CheckNetworkList env c list rt w =
     (case GreaterThanOrEqualTo (listCNIVersion list) ''0.4.0'' of
        Inl err \<Rightarrow> (Fail err, w)
      | Inr False \<Rightarrow> (Fail (no_check (listCNIVersion list)), w)
      | Inr True \<Rightarrow>
          if listDisableCheck list then (Ret (), w)
          else (case getCachedResult env c (listName list) (listCNIVersion list) rt w of
             Inl err \<Rightarrow> (Fail (cached_error (listName list) err), w)
           | Inr cachedResult \<Rightarrow>
               each_plugin (\<lambda>net. checkNetwork env c (listName list) (listCNIVersion list) net cachedResult rt)
                 (listPlugins list) w))"

definition CheckNetwork ::
  "'w lib_env \<Rightarrow> 'w cni_config \<Rightarrow> network_config \<Rightarrow> runtime_conf \<Rightarrow> 'w \<Rightarrow> unit outcome \<times> 'w" where
  "CheckNetwork env c net rt w =
     (let name = confName (Network net); v = confCNIVersion (Network net) in
      case GreaterThanOrEqualTo v ''0.4.0'' of
        Inl err \<Rightarrow> (Fail err, w)
      | Inr False \<Rightarrow> (Fail (no_check v), w)
      | Inr True \<Rightarrow>
          (case getCachedResult env c name v rt w of
             Inl err \<Rightarrow> (Fail (cached_error name err), w)
           | Inr cachedResult \<Rightarrow> checkNetwork env c name v net cachedResult rt w))"

text \<open>The result that DEL passes on, read from the cache from version 0.4.0 on.\<close>

definition del_result ::
  "'w lib_env \<Rightarrow> 'w cni_config \<Rightarrow> string \<Rightarrow> string \<Rightarrow> runtime_conf \<Rightarrow> 'w \<Rightarrow> go_error + cni_result option" where
  "del_result env c name v rt w =
     bind_sum (GreaterThanOrEqualTo v ''0.4.0'') (\<lambda>gtet.
       if gtet then (case getCachedResult env c name v rt w of
         Inl err \<Rightarrow> Inl (cached_error name err) | Inr r \<Rightarrow> Inr r)
       else Inr None)"

text \<open>DEL runs the plugins in the reverse order; the cache entry goes last.\<close>

definition DelNetworkList ::
  "'w lib_env \<Rightarrow> 'w cni_config \<Rightarrow> network_config_list \<Rightarrow> runtime_conf \<Rightarrow> 'w \<Rightarrow> unit outcome \<times> 'w" where
  "DelNetworkList env c list rt w =
     (case del_result env c (listName list) (listCNIVersion list) rt w of
        Inl err \<Rightarrow> (Fail err, w)
      | Inr cachedResult \<Rightarrow>
          (case each_plugin (\<lambda>net. delNetwork env c (listName list) (listCNIVersion list) net cachedResult rt)
              (rev (listPlugins list)) w of
             (Ret _, w) \<Rightarrow> (Ret (), snd (cacheDel env c (listName list) rt w))
           | (r, w) \<Rightarrow> (r, w)))"

definition DelNetwork ::
  "'w lib_env \<Rightarrow> 'w cni_config \<Rightarrow> network_config \<Rightarrow> runtime_conf \<Rightarrow> 'w \<Rightarrow> unit outcome \<times> 'w" where
  "DelNetwork env c net rt w =
     (let name = confName (Network net); v = confCNIVersion (Network net) in
      case del_result env c name v rt w of
        Inl err \<Rightarrow> (Fail err, w)
      | Inr cachedResult \<Rightarrow>
          (case delNetwork env c name v net cachedResult rt w of
             (Ret _, w) \<Rightarrow> (Ret (), snd (cacheDel env c name rt w))
           | (r, w) \<Rightarrow> (r, w)))"

section \<open>Validation\<close>

definition validatePlugin ::
  "'w lib_env \<Rightarrow> 'w cni_config \<Rightarrow> string \<Rightarrow> string \<Rightarrow> 'w \<Rightarrow> unit outcome \<times> 'w" where
  "validatePlugin env c pluginName expectedVersion w =
     (case ex_FindInPath (ensureExec env c) pluginName (cniPath c) w of
        Inl err \<Rightarrow> (Fail err, w)
      | Inr pluginPath \<Rightarrow>
          (let expectedVersion = (if expectedVersion = [] then ''0.1.0'' else expectedVersion) in
           case GetVersionInfo (le_process env) pluginPath (Some (ensureExec env c)) w of
             (Fail err, w) \<Rightarrow> (Fail err, w)
           | (Panic m, w) \<Rightarrow> (Panic m, w)
           | (Ret vi, w) \<Rightarrow>
               (if expectedVersion \<in> set (PluginVersions vi) then Ret ()
                else Fail (Msg (''plugin '' @ pluginName @ '' does not support config version '' @ quote expectedVersion)), w)))"

text \<open>The loop over the plugins: the errors and the enabled capabilities.\<close>

fun validate_plugins ::
  "'w lib_env \<Rightarrow> 'w cni_config \<Rightarrow> string \<Rightarrow> network_config list \<Rightarrow> 'w \<Rightarrow> (go_error list \<times> string list) outcome \<times> 'w" where
  "validate_plugins env c version [] w = (Ret ([], []), w)"
| "validate_plugins env c version (net # nets) w =
     (case validatePlugin env c (confType (Network net)) version w of
        (Panic m, w) \<Rightarrow> (Panic m, w)
      | (r, w) \<Rightarrow>
          (case validate_plugins env c version nets w of
             (rest, w) \<Rightarrow>
               (bind_out rest (\<lambda>(errs, caps). Ret ((case r of Fail err \<Rightarrow> [err] | _ \<Rightarrow> []) @ errs,
                  map fst (filter snd (confCapabilities (Network net))) @ caps)), w)))"

definition ValidateNetworkList ::
  "'w lib_env \<Rightarrow> 'w cni_config \<Rightarrow> network_config_list \<Rightarrow> 'w \<Rightarrow> string list outcome \<times> 'w" where
  "ValidateNetworkList env c list w =
     (case validate_plugins env c (listCNIVersion list) (listPlugins list) w of
        (r, w) \<Rightarrow>
          (bind_out r (\<lambda>(errs, caps).
             if length errs > 0 then Fail (Msg (''['' @ join '' '' (map err_text errs) @ '']''))
             else Ret (le_order env (remdups caps))), w))"

definition ValidateNetwork ::
  "'w lib_env \<Rightarrow> 'w cni_config \<Rightarrow> network_config \<Rightarrow> 'w \<Rightarrow> string list outcome \<times> 'w" where
  "ValidateNetwork env c net w =
     (let caps = le_order env (map fst (filter snd (confCapabilities (Network net)))) in
      case validatePlugin env c (confType (Network net)) (confCNIVersion (Network net)) w of
        (Ret _, w) \<Rightarrow> (Ret caps, w) | (Fail err, w) \<Rightarrow> (Fail err, w) | (Panic m, w) \<Rightarrow> (Panic m, w))"

definition lib_GetVersionInfo ::
  "'w lib_env \<Rightarrow> 'w cni_config \<Rightarrow> string \<Rightarrow> 'w \<Rightarrow> plugin_info outcome \<times> 'w" where
  "lib_GetVersionInfo env c pluginType w =
     (case ex_FindInPath (ensureExec env c) pluginType (cniPath c) w of
        Inl err \<Rightarrow> (Fail err, w)
      | Inr pluginPath \<Rightarrow> GetVersionInfo (le_process env) pluginPath (Some (ensureExec env c)) w)"

end
