(* ===== verification/Properties_Json.thy ===== *)
theory Properties_Json
  imports ResultJson
begin

text \<open>
  Properties of results: what a plugin prints, its caller reads back, and a result of the old
  format survives the conversion to the new one and back.
\<close>

section \<open>Reading what was written\<close>

lemma jfield_append:
  "jfield (xs @ ys) name = (case jfield ys name of Some j \<Rightarrow> Some j | None \<Rightarrow> jfield xs name)"
proof -
  have f: "find P (xs @ ys) = (case find P xs of Some x \<Rightarrow> Some x | None \<Rightarrow> find P ys)" for P and xs ys :: "'b list"
    by (induction xs) auto
  show ?thesis by (simp add: jfield_def f split: option.splits)
qed

lemma jfield_member: "jfield (member p k j) name = (if p \<and> to_lower k = to_lower name then Some j else None)"
  by (simp add: member_def jfield_def)

lemma json_names: "map to_lower [''nameservers'', ''domain'', ''search'', ''options'', ''version'', ''interface'',
    ''address'', ''gateway'', ''name'', ''mac'', ''sandbox'', ''cniVersion'', ''interfaces'', ''ips'', ''routes'', ''dns'',
    ''ip'', ''ip4'', ''ip6'', ''dst'', ''gw'', ''code'', ''msg'', ''details''] =
  [''nameservers'', ''domain'', ''search'', ''options'', ''version'', ''interface'',
    ''address'', ''gateway'', ''name'', ''mac'', ''sandbox'', ''cniversion'', ''interfaces'', ''ips'', ''routes'', ''dns'',
    ''ip'', ''ip4'', ''ip6'', ''dst'', ''gw'', ''code'', ''msg'', ''details'']"
  by code_simp

lemmas json_fields = dec_field_def jfield_append jfield_member jfield_Cons json_names [unfolded list.map list.inject simp_thms]

lemma map_sum_list_map: "(\<And>x. x \<in> set xs \<Longrightarrow> d (f x) = Inr x) \<Longrightarrow> map_sum_list d (map f xs) = Inr xs"
  by (induction xs) auto

lemma dec_JStrs [simp]: "dec_list dec_string (JStrs ss) = Inr ss"
  by (simp add: JStrs_def map_sum_list_map)

lemma dec_DNS_JSON [simp]: "dec_dns (DNS_JSON d) = Inr d"
proof (cases d)
  case (fields ns dom s os)
  show ?thesis
    by (cases "ns = []"; cases "dom = []"; cases "s = []"; cases "os = []")
      (simp_all add: fields dec_dns_def DNS_JSON_def json_fields)
qed

lemma dec_Interface_JSON [simp]: "not_null dec_interface (Interface_JSON i) = Inr i"
proof (cases i)
  case (fields n m s)
  show ?thesis
    by (cases "m = []"; cases "s = []")
      (simp_all add: fields not_null_def dec_interface_def Interface_JSON_def json_fields)
qed

text \<open>The addresses of a decoded IPv4 result: the nil address or 16 bytes, with a CIDR mask.\<close>

definition ip16_ok :: "net_ip \<Rightarrow> bool" where
  "ip16_ok ip \<longleftrightarrow> length ip = 16 \<and> take 12 ip = v4InV6Prefix"

definition net16_ok :: "ip_net \<Rightarrow> bool" where
  "net16_ok n \<longleftrightarrow> ip16_ok (IP n) \<and> (\<exists>k\<le>32. Mask n = cidr_bytes 4 k)"

definition ipconfig_ok :: "ip_config \<Rightarrow> bool" where
  "ipconfig_ok c \<longleftrightarrow> net16_ok (Address c) \<and> (ConfGateway c = [] \<or> ip16_ok (ConfGateway c)) \<and>
     (case Interface c of None \<Rightarrow> True | Some i \<Rightarrow> 0 \<le> i \<and> i \<le> max_int64)"

definition route_ok :: "route \<Rightarrow> bool" where
  "route_ok r \<longleftrightarrow> net16_ok (Dst r) \<and> (GW r = [] \<or> ip16_ok (GW r))"

lemma ip16_conv: "ip16_ok ip \<longleftrightarrow> (\<exists>q. length q = 4 \<and> ip = v4InV6Prefix @ q)"
proof
  assume "ip16_ok ip"
  then have "length (drop 12 ip) = 4" "ip = v4InV6Prefix @ drop 12 ip"
    using append_take_drop_id [of 12 ip] by (auto simp: ip16_ok_def)
  then show "\<exists>q. length q = 4 \<and> ip = v4InV6Prefix @ q" by blast
qed (auto simp: ip16_ok_def)

lemma To4_16: "length q = 4 \<Longrightarrow> To4 (v4InV6Prefix @ q) = q"
  by (simp add: To4_def v4InV6Prefix_def)

lemma ip_String_16: "length q = 4 \<Longrightarrow> ip_String (v4InV6Prefix @ q) = ip_String q"
  using To4_16 [of q] by (auto simp: ip_String_def To4_id v4InV6Prefix_def)

lemma dec_ip_16: "ip16_ok ip \<Longrightarrow> IP_UnmarshalText (ip_String ip) = Inr ip"
  by (auto simp: ip16_conv ip_String_16 dec_ip_String)

lemma IPNet_String_16:
  assumes "length q = 4" shows "IPNet_String \<lparr>IP = v4InV6Prefix @ q, Mask = m\<rparr> = IPNet_String \<lparr>IP = q, Mask = m\<rparr>"
proof -
  have "q \<noteq> []" using assms by auto
  then have "networkNumberAndMask \<lparr>IP = v4InV6Prefix @ q, Mask = m\<rparr> = networkNumberAndMask \<lparr>IP = q, Mask = m\<rparr>"
    using assms by (simp add: networkNumberAndMask_def To4_16 To4_id)
  then show ?thesis by (simp add: IPNet_String_def)
qed

lemma IPNet_JSON_16: "net16_ok n \<Longrightarrow> IPNet_UnmarshalJSON (IPNet_MarshalJSON n) = Inr n"
proof (cases n)
  case (fields ip m)
  assume "net16_ok n"
  then obtain q where q: "length q = 4" "ip = v4InV6Prefix @ q" and m: "\<exists>k\<le>32. m = cidr_bytes 4 k"
    by (auto simp: net16_ok_def ip16_conv fields)
  then have "types_ParseCIDR (IPNet_String \<lparr>IP = q, Mask = m\<rparr>) = Inr \<lparr>IP = v4InV6Prefix @ q, Mask = m\<rparr>"
    using types_ParseCIDR_String [of "\<lparr>IP = q, Mask = m\<rparr>"] by (simp add: net4_ok_def)
  then show ?thesis
    using q by (simp add: IPNet_UnmarshalJSON_def IPNet_MarshalJSON_def fields IPNet_String_16)
qed

lemma Route_JSON_16: "route_ok r \<Longrightarrow> Route_UnmarshalJSON (Route_MarshalJSON r) = Inr r"
  by (cases r; cases "GW r = []")
    (simp_all add: Route_UnmarshalJSON_def Route_MarshalJSON_def route_ok_def json_fields IPNet_JSON_16 dec_ip_16)

lemma dec_Itoa: "0 \<le> i \<Longrightarrow> i \<le> max_int64 \<Longrightarrow> dec_pointer dec_int (JNum (Itoa i)) = Inr (Some i)"
  by (simp add: Itoa_def Atoi_dec_nat)

lemma IPConfig_JSON_16: "ipconfig_ok c \<Longrightarrow> not_null IPConfig_UnmarshalJSON (IPConfig_MarshalJSON c) = Inr c"
  by (cases c; cases "Interface c"; cases "ConfGateway c = []")
    (simp_all add: not_null_def IPConfig_UnmarshalJSON_def IPConfig_MarshalJSON_def ipconfig_ok_def json_fields
      IPNet_JSON_16 dec_ip_16 dec_Itoa del: dec_pointer.simps)

definition result_ok :: "result_cur \<Rightarrow> bool" where
  "result_ok r \<longleftrightarrow> (\<forall>c\<in>set (IPs r). ipconfig_ok c) \<and> (\<forall>r\<in>set (Routes r). route_ok r)"

lemma dec_routes: "\<forall>r\<in>set rs. route_ok r \<Longrightarrow> map_sum_list dec_route (map Route_MarshalJSON rs) = Inr rs"
  by (rule map_sum_list_map) (simp add: dec_route_def Route_JSON_16, simp add: Route_MarshalJSON_def)

lemma NewResultFromResult_RCur: "NewResultFromResult (RCur r) = Inr (r\<lparr>CNIVersion := ImplementedSpecVersion\<rparr>)"
  by (simp add: NewResultFromResult_def resultConverters_def SupportedVersions020_def SupportedVersions_def
      ImplementedSpecVersion020_def ImplementedSpecVersion_def convertFrom030_def)

lemma Result_JSON_16: "result_ok r \<Longrightarrow> current_NewResult (Inr (ResultCur_JSON r)) = Inr (RCur r)"
proof (cases r)
  case (fields v ifs ips rts dns)
  assume r: "result_ok r"
  have "map_sum_list (not_null dec_interface) (map Interface_JSON ifs) = Inr ifs"
    by (simp add: map_sum_list_map)
  moreover have "map_sum_list (not_null IPConfig_UnmarshalJSON) (map IPConfig_MarshalJSON ips) = Inr ips"
    using r by (simp add: map_sum_list_map IPConfig_JSON_16 result_ok_def fields)
  moreover have "map_sum_list dec_route (map Route_MarshalJSON rts) = Inr rts"
    using r by (simp add: dec_routes result_ok_def fields)
  ultimately show ?thesis
    by (cases "v = []"; cases "ifs = []"; cases "ips = []"; cases "rts = []")
      (simp_all add: fields current_NewResult_def ResultCur_JSON_def json_fields)
qed


text \<open>
  C27. What a plugin prints, its caller reads back: a result of version 0.3.0 or later whose
  addresses are IPv4 (in the 16-byte form decoding gives) with CIDR masks is the same after
  encoding and \<open>NewResult\<close>.
\<close>

theorem Result_JSON_roundtrip:
  assumes "result_ok r" "CNIVersion r \<in> set SupportedVersions"
  shows "version_NewResult (CNIVersion r) (Inr (Result_JSON (RCur r))) = Inr (RCur r)"
proof -
  have "find (\<lambda>(vs, new). Reconciler_CheckRaw (CNIVersion r) vs = None) resultFactories =
      Some (SupportedVersions, current_NewResult)"
    using assms(2) by (simp add: resultFactories_def Reconciler_CheckRaw_def)
  then show ?thesis
    using Result_JSON_16 [OF assms(1)] by (simp add: version_NewResult_def)
qed

definition ex_result :: result_cur where
  "ex_result = \<lparr>CNIVersion = ''0.3.1'', Interfaces = [\<lparr>Name = ''eth0'', Mac = [], Sandbox = ''ns''\<rparr>],
     IPs = [\<lparr>Version = ''4'', Interface = Some 0, Address = \<lparr>IP = v4InV6Prefix @ [10,1,2,9], Mask = [255,0,0,0]\<rparr>,
       ConfGateway = v4InV6Prefix @ [10,1,2,1]\<rparr>],
     Routes = [\<lparr>Dst = \<lparr>IP = v4InV6Prefix @ [0,0,0,0], Mask = [0,0,0,0]\<rparr>, GW = []\<rparr>], DNS = empty_dns\<rparr>"

lemma ex_result_ok: "result_ok ex_result" "CNIVersion ex_result = ''0.3.1''"
proof -
  have "cidr_bytes 4 8 = [255,0,0,0]" "cidr_bytes 4 0 = [0,0,0,0]" by code_simp+
  then have "\<exists>k\<le>32. [255,0,0,0] = cidr_bytes 4 k" "\<exists>k\<le>32. [0,0,0,0] = cidr_bytes 4 k"
    by (intro exI [of _ 8], simp, intro exI [of _ 0], simp)
  then show "result_ok ex_result"
    by (simp add: result_ok_def ex_result_def ipconfig_ok_def route_ok_def net16_ok_def ip16_ok_def max_int64_def)
qed (simp add: ex_result_def)

theorem Result_JSON_roundtrip_witness:
  "version_NewResult ''0.3.1'' (Inr (ResultCur_JSON ex_result)) = Inr (RCur ex_result)"
  using Result_JSON_roundtrip [OF ex_result_ok(1)] by (simp add: ex_result_ok(2) SupportedVersions_def)

section \<open>The old format\<close>

lemma split_routes4:
  "\<forall>r\<in>set rs. To4 (IP (Dst r)) \<noteq> [] \<Longrightarrow> IP4 old = Some c \<Longrightarrow>
    split_routes (rs @ rest) old = split_routes rest (old\<lparr>IP4 := Some (c\<lparr>Routes020 := Routes020 c @ rs\<rparr>)\<rparr>)"
proof (induction rs arbitrary: old c)
  case Nil
  then show ?case by (cases old) simp
qed (simp add: Let_def add_route020_def)

lemma split_routes6:
  "\<forall>r\<in>set rs. To4 (IP (Dst r)) = [] \<Longrightarrow> IP6 old = Some c \<Longrightarrow>
    split_routes (rs @ rest) old = split_routes rest (old\<lparr>IP6 := Some (c\<lparr>Routes020 := Routes020 c @ rs\<rparr>)\<rparr>)"
proof (induction rs arbitrary: old c)
  case Nil
  then show ?case by (cases old) simp
qed (simp add: Let_def add_route020_def)

lemma GetResult020_R020: "GetResult020 (R020 r) = Inr (r\<lparr>CNIVersion020 := ''0.2.0''\<rparr>)"
  by (simp add: GetResult020_def GetAsVersion020_def SupportedVersions020_def ImplementedSpecVersion020_def)

lemma map_route_id: "map (\<lambda>r. \<lparr>Dst = Dst r, GW = GW r\<rparr>) rs = (rs :: route list)"
  by (induction rs) auto

text \<open>
  The conversion of an old result to the current format and back is the identity, but for
  the version: when it has an address, and the routes of each address are of its family,
  \<open>NewResultFromResult\<close> and \<open>convertTo020\<close> give it back with version 0.2.0.
\<close>

theorem convert020_roundtrip:
  assumes "IP4 r \<noteq> None \<or> IP6 r \<noteq> None"
    and "\<And>c x. IP4 r = Some c \<Longrightarrow> x \<in> set (Routes020 c) \<Longrightarrow> To4 (IP (Dst x)) \<noteq> []"
    and "\<And>c x. IP6 r = Some c \<Longrightarrow> x \<in> set (Routes020 c) \<Longrightarrow> To4 (IP (Dst x)) = []"
  shows "bind_sum (NewResultFromResult (R020 r)) convertTo020 = Inr (r\<lparr>CNIVersion020 := ''0.2.0''\<rparr>)"
proof (cases r)
  case (fields v ip4 ip6 dns)
  have f: "find (\<lambda>(vs, conv). result_Version (R020 r) \<in> set vs) resultConverters = Some (SupportedVersions020, convertFrom020)"
    by (simp add: resultConverters_def SupportedVersions020_def)
  have r4: "\<forall>x\<in>set (Routes020 c). To4 (IP (Dst x)) \<noteq> []" if "ip4 = Some c" for c
    using assms(2) that by (auto simp: fields)
  have r6: "\<forall>x\<in>set (Routes020 c). To4 (IP (Dst x)) = []" if "ip6 = Some c" for c
    using assms(3) that by (auto simp: fields)
  note n = split_routes4 [where rest = "[]", simplified] split_routes6 [where rest = "[]", simplified] split_routes4
  have from_old: "convertFrom020 (R020 r) = Inr \<lparr>CNIVersion = ImplementedSpecVersion, Interfaces = [],
      IPs = (case ip4 of None \<Rightarrow> [] | Some c \<Rightarrow> [\<lparr>Version = ''4'', Interface = None, Address = IP020 c, ConfGateway = Gateway020 c\<rparr>]) @
        (case ip6 of None \<Rightarrow> [] | Some c \<Rightarrow> [\<lparr>Version = ''6'', Interface = None, Address = IP020 c, ConfGateway = Gateway020 c\<rparr>]),
      Routes = (case ip4 of None \<Rightarrow> [] | Some c \<Rightarrow> Routes020 c) @ (case ip6 of None \<Rightarrow> [] | Some c \<Rightarrow> Routes020 c),
      DNS = dns\<rparr>"
    by (simp add: convertFrom020_def GetResult020_R020 fields Let_def map_route_id cong: option.case_cong)
  have "bind_sum (convertFrom020 (R020 r)) convertTo020 = Inr (r\<lparr>CNIVersion020 := ''0.2.0''\<rparr>)"
    unfolding from_old using assms(1) r4 r6
    by (cases ip4; cases ip6) (simp_all add: fields convertTo020_def n Let_def ImplementedSpecVersion020_def)
  moreover have "NewResultFromResult (R020 r) = convertFrom020 (R020 r)"
    unfolding NewResultFromResult_def f Let_def by simp
  ultimately show ?thesis by (simp only:)
qed

theorem convert020_roundtrip_witness:
  "bind_sum (NewResultFromResult (R020 \<lparr>CNIVersion020 = [], IP4 = Some \<lparr>IP020 = \<lparr>IP = [10,1,2,9], Mask = [255,0,0,0]\<rparr>,
      Gateway020 = [], Routes020 = [\<lparr>Dst = \<lparr>IP = [0,0,0,0], Mask = [0,0,0,0]\<rparr>, GW = []\<rparr>]\<rparr>, IP6 = None, DNS020 = empty_dns\<rparr>)) convertTo020 =
    Inr \<lparr>CNIVersion020 = ''0.2.0'', IP4 = Some \<lparr>IP020 = \<lparr>IP = [10,1,2,9], Mask = [255,0,0,0]\<rparr>,
      Gateway020 = [], Routes020 = [\<lparr>Dst = \<lparr>IP = [0,0,0,0], Mask = [0,0,0,0]\<rparr>, GW = []\<rparr>]\<rparr>, IP6 = None, DNS020 = empty_dns\<rparr>"
  by (subst convert020_roundtrip) (auto simp: To4_def)

end
