(* ===== verification/Properties_LibConf.thy ===== *)
theory Properties_LibConf
  imports LibApi Properties_Json "HOL-Library.Multiset"
begin

text \<open>
  Properties of the configuration a runtime passes to a plugin: which members \<open>buildOneConfig\<close>
  injects, and how a member in another letter case defeats the injection.
\<close>

section \<open>Maps\<close>

lemma update_new: "k \<notin> fst ` set m \<Longrightarrow> AList.update k v m = m @ [(k, v)]"
  by (induction m) auto

lemma fold_update:
  "distinct (map fst (m @ kvs)) \<Longrightarrow> foldl (\<lambda>m (k, x). AList.update k x m) m kvs = m @ kvs"
proof (induction kvs arbitrary: m)
  case (Cons kv kvs)
  obtain k x where kv: "kv = (k, x)" by (cases kv)
  have "k \<notin> fst ` set m" using Cons.prems by (auto simp: kv)
  then show ?case using Cons.IH [of "m @ [(k, x)]"] Cons.prems by (simp add: kv update_new)
qed simp

lemma fold_update_map_of:
  "map_of (foldl (\<lambda>m (k, x). AList.update k x m) m kvs) = map_of (rev kvs @ m)"
proof (induction kvs arbitrary: m)
  case (Cons kv kvs)
  then show ?case by (cases kv) (simp add: update_conv' map_add_def fun_eq_iff split: option.splits)
qed simp

lemma fold_update_distinct:
  "distinct (map fst m) \<Longrightarrow> distinct (map fst (foldl (\<lambda>m (k, x). AList.update k x m) m kvs))"
  by (induction kvs arbitrary: m) (auto simp: distinct_update)

lemma map_sum_list_Inr [simp]: "map_sum_list Inr kvs = Inr kvs"
  by (induction kvs) auto

lemma dec_map_Inr:
  "dec_map Inr (JObj kvs) = Inr (foldl (\<lambda>m (k, x). AList.update k x m) [] kvs)"
  by simp

lemma dec_map_distinct: "distinct (map fst kvs) \<Longrightarrow> dec_map Inr (JObj kvs) = Inr kvs"
  using fold_update [of "[]" kvs] by (simp add: dec_map_Inr del: dec_map.simps)

lemma dec_map_keys: "dec_map d j = Inr m \<Longrightarrow> distinct (map fst m)"
  by (cases "(d, j)" rule: dec_map.cases) (auto simp: fold_update_distinct json_error_def)

lemma sort_distinct:
  assumes "distinct (map fst m)"
  shows "distinct (map fst (sort_key fst m))" "map_of (sort_key fst m) = map_of m"
proof -
  have "mset (map fst (sort_key fst m)) = mset (map fst m)" by (simp only: mset_map mset_sort)
  then show d: "distinct (map fst (sort_key fst m))"
    using assms mset_eq_imp_distinct_iff by blast
  show "map_of (sort_key fst m) = map_of m" using map_of_inject_set [OF d assms] by simp
qed

lemma dec_marshal: "distinct (map fst m) \<Longrightarrow> dec_map Inr (marshal_map m) = Inr (sort_key fst m)"
  unfolding marshal_map_def by (rule dec_map_distinct) (rule sort_distinct)

section \<open>Injection\<close>

lemma inject_values_Inr:
  "inject_values m new = Inr m' \<Longrightarrow> distinct (map fst m) \<Longrightarrow>
    distinct (map fst m') \<and> map_of m' = map_of (rev new @ m)"
proof (induction m new rule: inject_values.induct)
  case (2 m k v new)
  then have "inject_values (AList.update k v m) new = Inr m'" by (auto split: if_splits)
  with 2 show ?case
    by (auto simp: distinct_update update_conv' map_add_def fun_eq_iff split: option.splits if_splits)
qed simp

lemma ConfFromBytes_Ret:
  "ConfFromBytes d = Ret conf \<Longrightarrow> \<exists>j. d = Inr j \<and> ConfBytes conf = j \<and> dec_netconf j = Inr (Network conf)"
  by (auto simp: ConfFromBytes_def split: sum.splits if_splits)

lemma InjectConf_Ret:
  assumes "InjectConf orig new = Ret conf" "ConfBytes orig = JObj kvs"
  shows "\<exists>m. ConfBytes conf = JObj m \<and> distinct (map fst m) \<and> sorted (map fst m) \<and> map_of m = map_of (rev new @ rev kvs) \<and>
    dec_netconf (JObj m) = Inr (Network conf)"
proof -
  let ?raw = "foldl (\<lambda>m (k, x). AList.update k x m) [] kvs"
  obtain m where m: "inject_values ?raw new = Inr m" "ConfFromBytes (Inr (marshal_map m)) = Ret conf"
    using assms dec_map_Inr [of kvs] by (auto simp: InjectConf_def split: sum.splits simp del: dec_map.simps)
  have d: "distinct (map fst m)" "map_of m = map_of (rev new @ rev kvs)"
    using inject_values_Inr [OF m(1)] fold_update_distinct [of "[]" kvs] fold_update_map_of [of "[]" kvs]
    by (simp_all add: map_add_def fun_eq_iff)
  have "sorted (map fst (sort_key fst m))" by simp
  then show ?thesis
    using ConfFromBytes_Ret [OF m(2)] sort_distinct [OF d(1)] d(2) by (auto simp: marshal_map_def)
qed

text \<open>A field is not changed by members whose names differ from its own in more than the case.\<close>

lemma jfield_filter: "jfield kvs n = jfield (filter (\<lambda>kv. to_lower (fst kv) = to_lower n) kvs) n"
proof -
  have "find P xs = find P (filter P xs)" for P and xs :: "(string \<times> json) list"
    by (induction xs) auto
  from this [of "\<lambda>(k, _). to_lower k = to_lower n" "rev kvs"] show ?thesis
    by (simp add: jfield_def rev_filter [symmetric] case_prod_unfold)
qed

text \<open>The capabilities for which the runtime has arguments.\<close>

definition capability_args :: "bool go_map \<Rightarrow> json go_map \<Rightarrow> json go_map" where
  "capability_args caps args = concat (map (\<lambda>(c, supported).
     if \<not> supported then [] else case map_of args c of None \<Rightarrow> [] | Some data \<Rightarrow> [(c, data)]) caps)"

lemma capability_args_keys: "fst ` set (capability_args caps args) \<subseteq> fst ` set caps"
  by (force simp: capability_args_def split: if_splits option.splits)

lemma map_of_capability_args:
  "distinct (map fst caps) \<Longrightarrow> distinct (map fst (capability_args caps args)) \<and> map_of (capability_args caps args) =
    (\<lambda>c. if map_of caps c = Some True then map_of args c else None)"
proof (induction caps)
  case Nil
  then show ?case by (simp add: capability_args_def fun_eq_iff)
next
  case (Cons x caps)
  obtain c b where x: "x = (c, b)" by (cases x)
  have cons: "capability_args ((c, b) # caps) args =
      (if \<not> b then [] else case map_of args c of None \<Rightarrow> [] | Some data \<Rightarrow> [(c, data)]) @ capability_args caps args"
    by (simp add: capability_args_def)
  have new: "c \<notin> fst ` set caps" using Cons.prems by (simp add: x)
  then have "c \<notin> fst ` set (capability_args caps args)" using capability_args_keys by blast
  moreover have "map_of caps c = None" using new by (simp add: map_of_eq_None_iff)
  ultimately show ?case
    using Cons by (auto simp: cons x fun_eq_iff split: option.splits)
qed

text \<open>A map in the order of its keys is determined by its values.\<close>

lemma map_of_nth: "distinct (map fst xs) \<Longrightarrow> i < length xs \<Longrightarrow> map_of xs (fst (xs ! i)) = Some (snd (xs ! i))"
  by (simp add: map_of_is_SomeI)

lemma list_of_map_of: "distinct (map fst xs) \<Longrightarrow> xs = map (\<lambda>k. (k, the (map_of xs k))) (map fst xs)"
  by (rule nth_equalityI) (auto simp: map_of_nth)

lemma sorted_map_unique:
  assumes "sorted (map fst xs)" "distinct (map fst xs)" "sorted (map fst ys)" "distinct (map fst ys)"
    and "map_of xs = map_of ys"
  shows "xs = ys"
proof -
  have "set (map fst xs) = set (map fst ys)" using assms(5) by (metis dom_map_of_conv_image_fst set_map)
  then have "map fst xs = map fst ys" using sorted_distinct_set_unique assms(1-4) by blast
  then show ?thesis using list_of_map_of [OF assms(2)] list_of_map_of [OF assms(4)] assms(5) by simp
qed

lemma jfield_same:
  assumes "sorted (map fst m)" "distinct (map fst m)" "sorted (map fst m')" "distinct (map fst m')"
    and "\<And>k. to_lower k = to_lower n \<Longrightarrow> map_of m k = map_of m' k"
  shows "jfield m n = jfield m' n"
proof -
  let ?P = "\<lambda>(k, _). to_lower k = to_lower n"
  have f: "sorted (map fst (filter ?P xs))" "distinct (map fst (filter ?P xs))"
    if "sorted (map fst xs)" "distinct (map fst xs)" for xs :: "(string \<times> json) list"
    using that sorted_filter [of fst xs] distinct_map_filter by auto
  have "map_of (filter ?P m) = map_of (filter ?P m')"
    using assms(5) by (auto simp: map_of_filter_key fun_eq_iff)
  then have "filter ?P m = filter ?P m'"
    using sorted_map_unique f assms(1-4) by blast
  then show ?thesis using jfield_filter [of m n] jfield_filter [of m' n] by (simp add: case_prod_unfold)
qed

lemma dec_netconf_caps: "dec_netconf (JObj m) = Inr n \<Longrightarrow>
    dec_field (dec_map dec_bool) [] m ''capabilities'' = Inr (confCapabilities n)"
  by (auto simp: dec_netconf_def)

lemma caps_distinct: "dec_netconf (JObj m) = Inr n \<Longrightarrow> distinct (map fst (confCapabilities n))"
  using dec_netconf_caps dec_map_keys by (fastforce simp: dec_field_def split: option.splits)

lemma buildOneConfig_sorted:
  assumes "buildOneConfig name version orig prev rt = Ret conf" "ConfBytes orig = JObj kvs"
  shows "\<exists>m rc. ConfBytes conf = JObj m \<and> distinct (map fst m) \<and> sorted (map fst m) \<and>
    map_of m = (map_of (rev kvs))(''name'' \<mapsto> JStr name, ''cniVersion'' \<mapsto> JStr version) ++
      (case prev of None \<Rightarrow> Map.empty | Some r \<Rightarrow> [''prevResult'' \<mapsto> Result_JSON r]) ++
      (if rc = [] then Map.empty else [''runtimeConfig'' \<mapsto> marshal_map rc]) \<and>
    map_of rc = (\<lambda>c. if map_of (confCapabilities (Network conf)) c = Some True then map_of (rtCapabilityArgs rt) c else None)"
proof -
  define new where "new = [(''name'', JStr name), (''cniVersion'', JStr version)] @
    (case prev of None \<Rightarrow> [] | Some r \<Rightarrow> [(''prevResult'', Result_JSON r)])"
  obtain mid where mid: "InjectConf orig new = Ret mid" "injectRuntimeConfig mid rt = Ret conf"
    using assms(1) by (auto simp: buildOneConfig_def new_def Let_def)
  obtain m where m: "ConfBytes mid = JObj m" "distinct (map fst m)" "sorted (map fst m)" "map_of m = map_of (rev new @ rev kvs)"
    "dec_netconf (JObj m) = Inr (Network mid)"
    using InjectConf_Ret [OF mid(1) assms(2)] by blast
  have base: "map_of m = (map_of (rev kvs))(''name'' \<mapsto> JStr name, ''cniVersion'' \<mapsto> JStr version) ++
      (case prev of None \<Rightarrow> Map.empty | Some r \<Rightarrow> [''prevResult'' \<mapsto> Result_JSON r])"
    unfolding m(4) new_def by (cases prev) (auto simp: fun_eq_iff map_add_def)
  define rc where "rc = capability_args (confCapabilities (Network mid)) (rtCapabilityArgs rt)"
  have rc: "map_of rc = (\<lambda>c. if map_of (confCapabilities (Network mid)) c = Some True then map_of (rtCapabilityArgs rt) c else None)"
    using map_of_capability_args [OF caps_distinct [OF m(5)]] by (simp add: rc_def)
  show ?thesis
  proof (cases "rc = []")
    case True
    then have "conf = mid" using mid(2) by (simp add: injectRuntimeConfig_def rc_def [unfolded capability_args_def])
    moreover have "map_of m = (map_of (rev kvs))(''name'' \<mapsto> JStr name, ''cniVersion'' \<mapsto> JStr version) ++
        (case prev of None \<Rightarrow> Map.empty | Some r \<Rightarrow> [''prevResult'' \<mapsto> Result_JSON r]) ++
        (if rc = [] then Map.empty else [''runtimeConfig'' \<mapsto> marshal_map rc])"
      using True base by simp
    ultimately show ?thesis using m(1-3) rc by blast
  next
    case False
    then have "InjectConf mid [(''runtimeConfig'', marshal_map rc)] = Ret conf"
      using mid(2) by (simp add: injectRuntimeConfig_def rc_def [unfolded capability_args_def])
    from InjectConf_Ret [OF this m(1)] obtain m' where m': "ConfBytes conf = JObj m'" "distinct (map fst m')"
      "sorted (map fst m')" "map_of m' = (map_of (rev m))(''runtimeConfig'' \<mapsto> marshal_map rc)"
      "dec_netconf (JObj m') = Inr (Network conf)" by auto
    have "map_of (rev m) = map_of m" using m(2) map_of_inject_set [of "rev m" m] by (simp add: rev_map [symmetric])
    then have u: "map_of m' = (map_of m)(''runtimeConfig'' \<mapsto> marshal_map rc)" using m'(4) by simp
    have "to_lower ''capabilities'' = ''capabilities''" "to_lower ''runtimeConfig'' = ''runtimeconfig''" by code_simp+
    then have "jfield m ''capabilities'' = jfield m' ''capabilities''"
      by (intro jfield_same m m') (auto simp: u)
    then have "confCapabilities (Network conf) = confCapabilities (Network mid)"
      using dec_netconf_caps [OF m(5)] dec_netconf_caps [OF m'(5)] by (simp add: dec_field_def)
    then have "map_of rc = (\<lambda>c. if map_of (confCapabilities (Network conf)) c = Some True then map_of (rtCapabilityArgs rt) c else None)"
      using rc by simp
    moreover have "map_of m' = (map_of (rev kvs))(''name'' \<mapsto> JStr name, ''cniVersion'' \<mapsto> JStr version) ++
        (case prev of None \<Rightarrow> Map.empty | Some r \<Rightarrow> [''prevResult'' \<mapsto> Result_JSON r]) ++
        (if rc = [] then Map.empty else [''runtimeConfig'' \<mapsto> marshal_map rc])"
      using False u base by simp
    ultimately show ?thesis using m'(1-3) by blast
  qed
qed


definition ex_orig :: network_config where
  "ex_orig = \<lparr>Network = \<lparr>confCNIVersion = [], confName = [], confType = ''portmap'',
     confCapabilities = [(''portMappings'', True), (''bandwidth'', False)], confIPAM = [], confDNS = empty_dns,
     confRawPrevResult = None, confPrevResult = None\<rparr>,
   ConfBytes = JObj [(''type'', JStr ''portmap''),
     (''capabilities'', JObj [(''portMappings'', JBool True), (''bandwidth'', JBool False)])]\<rparr>"

definition ex_rt :: runtime_conf where
  "ex_rt = \<lparr>rtContainerID = ''c1'', rtNetNS = ''ns'', rtIfName = ''eth0'', rtArgs = [],
     rtCapabilityArgs = [(''bandwidth'', JNum ''1''), (''portMappings'', JArr [])], rtCacheDir = []\<rparr>"

lemma ex_build: "case buildOneConfig ''net'' ''0.3.1'' ex_orig None ex_rt of Ret conf \<Rightarrow>
    confCapabilities (Network conf) = [(''portMappings'', True), (''bandwidth'', False)] | _ \<Rightarrow> False"
  by code_simp


section \<open>Letter case\<close>

lemma to_lower_char_le: "c \<le> to_lower_char c"
  by (auto simp: to_lower_char_def Let_def less_eq_char_def)

lemma to_lower_le: "k \<le> to_lower k"
  using to_lower_char_le by (induction k) (auto simp: to_lower_def order.order_iff_strict)

lemma jfield_last:
  "sorted (map fst m) \<Longrightarrow> distinct (map fst m) \<Longrightarrow> map_of m k = Some j \<Longrightarrow> to_lower k = to_lower n \<Longrightarrow>
    (\<And>k'. to_lower k' = to_lower n \<Longrightarrow> k' \<le> k) \<Longrightarrow> jfield m n = Some j"
proof (induction m rule: rev_induct)
  case (snoc x m)
  obtain k1 j1 where x: "x = (k1, j1)" by (cases x)
  have k1: "map_of m k1 = None" using snoc.prems(2) by (simp add: x map_of_eq_None_iff)
  show ?case
  proof (cases "to_lower k1 = to_lower n")
    case True
    have "k1 \<le> k" using snoc.prems(5) True by blast
    moreover have "k \<le> k1"
      using snoc.prems(1,3) by (auto simp: x sorted_append map_add_def split: option.splits if_splits dest!: map_of_SomeD)
    ultimately have "k = k1" by simp
    then show ?thesis using snoc.prems(3) k1 True by (auto simp: x jfield_snoc map_add_def split: if_splits)
  next
    case False
    then have "k \<noteq> k1" using snoc.prems(4) by auto
    then have "map_of m k = Some j" using snoc.prems(3) by (simp add: x map_add_def split: option.splits)
    then show ?thesis
      using snoc.IH snoc.prems(1,2,4,5) False by (simp add: x jfield_snoc sorted_append)
  qed
qed simp

text \<open>
  C25. The injected version can be defeated: when the original configuration has a member
  \<open>cniversion\<close> in small letters, the plugin decodes its value as the version, whatever version
  the runtime injects, because the member sorts after \<open>cniVersion\<close> and the decoder ignores the
  letter case.
\<close>

theorem cniVersion_defeated:
  assumes "buildOneConfig name version orig prev rt = Ret conf" "ConfBytes orig = JObj kvs"
    and "map_of (rev kvs) ''cniversion'' = Some (JStr v)" "v \<noteq> []"
  shows "ConfigDecoder_Decode (Inr (ConfBytes conf)) = Inr v"
proof -
  obtain m rc where m: "ConfBytes conf = JObj m" "distinct (map fst m)" "sorted (map fst m)"
    "map_of m = (map_of (rev kvs))(''name'' \<mapsto> JStr name, ''cniVersion'' \<mapsto> JStr version) ++
      (case prev of None \<Rightarrow> Map.empty | Some r \<Rightarrow> [''prevResult'' \<mapsto> Result_JSON r]) ++
      (if rc = [] then Map.empty else [''runtimeConfig'' \<mapsto> marshal_map rc])"
    using buildOneConfig_sorted [OF assms(1,2)] by blast
  have l: "to_lower ''cniVersion'' = ''cniversion''" "to_lower ''cniversion'' = ''cniversion''" by code_simp+
  have "map_of m ''cniversion'' = Some (JStr v)"
    using assms(3) by (cases prev) (simp_all add: m(4) map_add_def)
  then have "jfield m ''cniVersion'' = Some (JStr v)"
    using m(2,3) l to_lower_le by (intro jfield_last [where k = "''cniversion''"]) (auto, metis)
  then show ?thesis using assms(4) by (simp add: ConfigDecoder_Decode_def dec_cni_version_def m(1))
qed

definition variant_conf :: network_config where
  "variant_conf = ex_orig\<lparr>ConfBytes := JObj [(''type'', JStr ''portmap''), (''cniversion'', JStr ''0.1.0'')]\<rparr>"

theorem cniVersion_defeated_witness:
  "\<exists>conf. buildOneConfig ''net'' ''0.4.0'' variant_conf None ex_rt = Ret conf \<and>
    ConfigDecoder_Decode (Inr (ConfBytes conf)) = Inr ''0.1.0''"
proof -
  have "case buildOneConfig ''net'' ''0.4.0'' variant_conf None ex_rt of Ret conf \<Rightarrow> True | _ \<Rightarrow> False"
    by code_simp
  then obtain conf where c: "buildOneConfig ''net'' ''0.4.0'' variant_conf None ex_rt = Ret conf"
    by (auto split: outcome.splits)
  then have "ConfigDecoder_Decode (Inr (ConfBytes conf)) = Inr ''0.1.0''"
    by (rule cniVersion_defeated [where kvs = "[(''type'', JStr ''portmap''), (''cniversion'', JStr ''0.1.0'')]"])
      (simp_all add: variant_conf_def)
  with c show ?thesis by blast
qed

end
