(* ===== verification/Properties_Invoke.thy ===== *)
theory Properties_Invoke
  imports Invoke Skel Args "HOL-Library.Multiset"
begin

text \<open>
  Properties of running plugins: what the caller puts into the environment, the plugin's
  skeleton reads, and the arguments of \<open>CNI_ARGS\<close> reach the plugin's fields.
\<close>

section \<open>The environment\<close>

definition env_map :: "string list \<Rightarrow> (string \<times> string) list" where
  "env_map env = foldl (\<lambda>m kv. case split_env kv of None \<Rightarrow> m | Some (k, v) \<Rightarrow> AList.update k v m) [] env"

lemma env_map_snoc [simp]:
  "env_map [] = []"
  "env_map (env @ [e]) = (case split_env e of None \<Rightarrow> env_map env | Some (k, v) \<Rightarrow> AList.update k v (env_map env))"
  unfolding env_map_def by simp_all

lemma env_lookup_Nil [simp]: "env_lookup [] k = []"
  by (simp add: env_lookup_def)

lemma env_lookup_snoc [simp]:
  "env_lookup (env @ [e]) k =
    (case split_env e of None \<Rightarrow> env_lookup env k | Some (k', v) \<Rightarrow> if k' = k then v else env_lookup env k)"
  unfolding env_lookup_def by (cases "split_env e") auto

text \<open>\<open>AList.update\<close> keeps the keys distinct; a key of an entry has no \<open>=\<close>.\<close>

lemma env_map_props:
  "distinct (map fst (env_map env)) \<and> (\<forall>(k, v)\<in>set (env_map env). CHR ''='' \<notin> set k) \<and>
    env_lookup env k = (case map_of (env_map env) k of None \<Rightarrow> [] | Some v \<Rightarrow> v)"
proof (induction env rule: rev_induct)
  case (snoc e env)
  show ?case
  proof (cases "split_env e")
    case None
    then show ?thesis using snoc by simp
  next
    case (Some kv)
    obtain k' v where kv: "kv = (k', v)" by (cases kv)
    have k': "CHR ''='' \<notin> set k'" using Some kv by (simp add: split_env_Some)
    have "\<forall>x\<in>set (AList.update k' v (env_map env)). CHR ''='' \<notin> set (fst x)"
    proof
      fix x assume "x \<in> set (AList.update k' v (env_map env))"
      then have "fst x \<in> fst ` set (AList.update k' v (env_map env))" by simp
      then have "fst x = k' \<or> fst x \<in> fst ` set (env_map env)" by (auto simp: dom_update)
      then show "CHR ''='' \<notin> set (fst x)" using k' snoc by auto
    qed
    then show ?thesis
      using snoc Some kv by (auto simp: distinct_update update_conv' case_prod_beta)
  qed
qed simp

lemma env_lookup_none: "\<forall>e\<in>set xs. split_env e = None \<Longrightarrow> env_lookup (xs @ ys) k = env_lookup ys k"
proof (induction ys rule: rev_induct)
  case Nil
  then show ?case by (induction xs rule: rev_induct) auto
next
  case (snoc y ys)
  then show ?case
    unfolding append_assoc [symmetric] env_lookup_snoc by (simp split: option.split)
qed

lemma env_lookup_entries:
  "distinct (map fst l) \<Longrightarrow> \<forall>(k, v)\<in>set l. CHR ''='' \<notin> set k \<Longrightarrow>
    env_lookup (map (\<lambda>(k, v). k @ ''='' @ v) l) k = (case map_of l k of None \<Rightarrow> [] | Some v \<Rightarrow> v)"
proof (induction l rule: rev_induct)
  case (snoc x l)
  obtain k' v where x: "x = (k', v)" by (cases x)
  have k': "CHR ''='' \<notin> set k'" using snoc.prems(2) x by simp
  have "map_of l k' = None" using snoc.prems(1) x by (simp add: map_of_eq_None_iff)
  then show ?case
    using snoc split_env_append [OF k', of v] by (auto simp: x map_add_def split: option.splits)
qed simp

text \<open>An order in which Go iterates over the entries of a map.\<close>

definition map_order :: "((string \<times> string) list \<Rightarrow> (string \<times> string) list) \<Rightarrow> bool" where
  "map_order order \<longleftrightarrow> (\<forall>m. mset (order m) = mset m)"

lemma map_orderD:
  assumes "map_order order" "distinct (map fst m)"
  shows "set (order m) = set m" "distinct (map fst (order m))" "map_of (order m) = map_of m"
proof -
  have m: "mset (order m) = mset m" using assms(1) by (simp add: map_order_def)
  show s: "set (order m) = set m" using m by (metis set_mset_mset)
  have "mset (map fst (order m)) = mset (map fst m)" using m by simp
  then show d: "distinct (map fst (order m))" using assms(2) mset_eq_imp_distinct_iff by blast
  show "map_of (order m) = map_of m" using map_of_inject_set [OF d assms(2)] s by simp
qed

lemma env_lookup_dedup: "map_order order \<Longrightarrow> env_lookup (dedupEnv order env) k = env_lookup env k"
proof -
  assume o: "map_order order"
  note m = env_map_props [of env k]
  note om = map_orderD [OF o, of "env_map env"]
  have "env_lookup (dedupEnv order env) k = env_lookup (map (\<lambda>(k, v). k @ ''='' @ v) (order (env_map env))) k"
    unfolding dedupEnv_def Let_def env_map_def [symmetric] by (rule env_lookup_none) simp
  also have "\<dots> = (case map_of (env_map env) k of None \<Rightarrow> [] | Some v \<Rightarrow> v)"
    using env_lookup_entries [of "order (env_map env)" k] om m by simp
  finally show ?thesis using m by simp
qed

lemma env_lookup_args:
  assumes "map_order (pr_order p)"
  shows "env_lookup (AsEnv p (PluginArgs a)) ''CNI_COMMAND'' = argCommand a"
    "env_lookup (AsEnv p (PluginArgs a)) ''CNI_CONTAINERID'' = argContainerID a"
    "env_lookup (AsEnv p (PluginArgs a)) ''CNI_NETNS'' = argNetNS a"
    "env_lookup (AsEnv p (PluginArgs a)) ''CNI_ARGS'' =
      (if argPluginArgsStr a = [] then stringify (argPluginArgs a) else argPluginArgsStr a)"
    "env_lookup (AsEnv p (PluginArgs a)) ''CNI_IFNAME'' = argIfName a"
    "env_lookup (AsEnv p (PluginArgs a)) ''CNI_PATH'' = argPath a"
proof -
  let ?env = "(((((pr_Environ p @ [''CNI_COMMAND='' @ argCommand a]) @ [''CNI_CONTAINERID='' @ argContainerID a]) @
    [''CNI_NETNS='' @ argNetNS a]) @ [''CNI_ARGS='' @ (if argPluginArgsStr a = [] then stringify (argPluginArgs a)
      else argPluginArgsStr a)]) @ [''CNI_IFNAME='' @ argIfName a]) @ [''CNI_PATH='' @ argPath a]"
  have "env_lookup (AsEnv p (PluginArgs a)) k = env_lookup ?env k" for k
    using env_lookup_dedup [OF assms] by (simp add: args_env_def)
  then show "env_lookup (AsEnv p (PluginArgs a)) ''CNI_COMMAND'' = argCommand a"
    "env_lookup (AsEnv p (PluginArgs a)) ''CNI_CONTAINERID'' = argContainerID a"
    "env_lookup (AsEnv p (PluginArgs a)) ''CNI_NETNS'' = argNetNS a"
    "env_lookup (AsEnv p (PluginArgs a)) ''CNI_ARGS'' =
      (if argPluginArgsStr a = [] then stringify (argPluginArgs a) else argPluginArgsStr a)"
    "env_lookup (AsEnv p (PluginArgs a)) ''CNI_IFNAME'' = argIfName a"
    "env_lookup (AsEnv p (PluginArgs a)) ''CNI_PATH'' = argPath a"
    by (simp_all only: env_lookup_snoc) simp_all
qed

section \<open>Properties\<close>

text \<open>
  C26. The plugin's skeleton reads what the caller's runtime wrote: whatever the caller's own
  environment holds, the plugin started with the environment \<open>AsEnv\<close> of complete arguments
  finds exactly these arguments, with its standard input as the configuration.
\<close>

theorem plugin_reads_args:
  assumes "map_order (pr_order p)" "argCommand a \<in> {''ADD'', ''CHECK'', ''DEL''}"
    and "argContainerID a \<noteq> []" "argCommand a = ''DEL'' \<or> argNetNS a \<noteq> []" "argIfName a \<noteq> []" "argPath a \<noteq> []"
    and "Getenv t = env_lookup (AsEnv p (PluginArgs a))" "Stdin t = Inr d"
  shows "getCmdArgsFromEnv t = Inr (argCommand a, \<lparr>ContainerID = argContainerID a, Netns = argNetNS a,
    IfName = argIfName a, Args = (if argPluginArgsStr a = [] then stringify (argPluginArgs a) else argPluginArgsStr a),
    Path = argPath a, StdinData = d\<rparr>)"
proof -
  note g = env_lookup_args [OF assms(1), of a, folded assms(7)]
  have "filter (\<lambda>v. Getenv t v = [] \<and> (reqForCmd v (argCommand a) \<or> v = ''CNI_COMMAND'')) env_vars = []"
    using assms(2-6) by (auto simp: env_vars_def g reqForCmd_def)
  moreover have "argCommand a \<noteq> ''VERSION''" using assms(2) by auto
  ultimately show ?thesis
    unfolding getCmdArgsFromEnv_def Let_def g by (simp add: assms(8))
qed

definition ex_process :: "unit process" where
  "ex_process = \<lparr>pr_Environ = [''CNI_COMMAND=DEL'', ''HOME=/root''], pr_order = rev,
     pr_defaultExec = \<lparr>ex_ExecPlugin = (\<lambda>a b c w. (Inr (Inr JNull), w)), ex_FindInPath = (\<lambda>a b w. Inr a),
       ex_Decode = PluginDecoder_Decode\<rparr>\<rparr>"

definition ex_invoke_args :: invoke_args where
  "ex_invoke_args = \<lparr>argCommand = ''ADD'', argContainerID = ''c1'', argNetNS = ''ns'', argPluginArgs = [(''K'', ''v'')],
     argPluginArgsStr = [], argIfName = ''eth0'', argPath = ''/bin''\<rparr>"

theorem plugin_reads_args_witness:
  "getCmdArgsFromEnv \<lparr>Getenv = env_lookup (AsEnv ex_process (PluginArgs ex_invoke_args)), Stdin = Inr (Inr JNull),
      Encode = \<lambda>i w. (None, w), Stderr = \<lambda>s w. w\<rparr> =
    Inr (''ADD'', \<lparr>ContainerID = ''c1'', Netns = ''ns'', IfName = ''eth0'', Args = ''K=v'', Path = ''/bin'', StdinData = Inr JNull\<rparr>)"
  by (subst plugin_reads_args [where p = ex_process and a = ex_invoke_args and d = "Inr JNull"])
    (simp_all add: map_order_def ex_process_def, simp_all add: ex_invoke_args_def stringify_def)

text \<open>
  Arguments reach the fields of the plugin's struct: \<open>LoadArgs\<close> on the text that the
  caller's \<open>stringify\<close> makes of a list of pairs sets each named field to its value and leaves
  the others, provided neither names nor values contain a separator and all names are fields
  of text type.
\<close>

theorem LoadArgs_stringify:
  assumes "kvs \<noteq> []" "\<forall>kv\<in>set kvs. pair_ok kv" "\<forall>kv\<in>set kvs. \<exists>s. map_of v (fst kv) = Some (FStr s)"
    and "map_of v ''IgnoreUnknown'' = Some (FBool b)"
  shows "\<exists>v'. LoadArgs (stringify kvs) v = (Ret (), v') \<and>
    map_of v' = (map_of v)(map fst kvs [\<mapsto>] map (\<lambda>kv. FStr (snd kv)) kvs)"
proof -
  have t: "stringify kvs = args_text kvs" by (simp add: stringify_def args_text_def)
  obtain v' where v': "load_pairs (split_on (CHR '';'') (stringify kvs)) [] v = (Inr [], v')"
    "map_of v' = (map_of v)(map fst kvs [\<mapsto>] map (\<lambda>kv. FStr (snd kv)) kvs)"
    using load_pairs_strings [OF assms(2,3), of "[]"] split_args_text [OF assms(1,2)] by (auto simp: t)
  have "''IgnoreUnknown'' \<notin> set (map fst kvs)" using assms(3,4) by fastforce
  then have "map_of v' ''IgnoreUnknown'' = Some (FBool b)"
    using v'(2) assms(4) by (simp add: map_upds_apply_nontin)
  then show ?thesis
    using v' args_text_not_Nil [OF assms(1)] by (auto simp: LoadArgs_def t GetKeyField_def)
qed

definition ex_container :: container where
  "ex_container = CommonArgs @ [(''K8S_POD_NAME'', FStr []), (''K8S_POD_NAMESPACE'', FStr [])]"

theorem LoadArgs_stringify_witness:
  "\<exists>v'. LoadArgs ''K8S_POD_NAME=web;K8S_POD_NAMESPACE=default'' ex_container = (Ret (), v') \<and>
    map_of v' ''K8S_POD_NAME'' = Some (FStr ''web'') \<and> map_of v' ''K8S_POD_NAMESPACE'' = Some (FStr ''default'')"
proof -
  let ?kvs = "[(''K8S_POD_NAME'', ''web''), (''K8S_POD_NAMESPACE'', ''default'')]"
  have s: "stringify ?kvs = ''K8S_POD_NAME=web;K8S_POD_NAMESPACE=default''" by (simp add: stringify_def)
  have "\<forall>kv\<in>set ?kvs. pair_ok kv" by (simp add: pair_ok_def)
  moreover have "\<forall>kv\<in>set ?kvs. \<exists>x. map_of ex_container (fst kv) = Some (FStr x)"
    "map_of ex_container ''IgnoreUnknown'' = Some (FBool False)"
    by (simp_all add: ex_container_def CommonArgs_def)
  ultimately obtain v' where "LoadArgs (stringify ?kvs) ex_container = (Ret (), v')"
    "map_of v' = (map_of ex_container)(map fst ?kvs [\<mapsto>] map (\<lambda>kv. FStr (snd kv)) ?kvs)"
    using LoadArgs_stringify [of ?kvs ex_container False] by blast
  then show ?thesis unfolding s by (intro exI [of _ v']) simp
qed

text \<open>
  \<open>FindInPath\<close> finds the first match: it answers a file exactly when the file is the
  plugin in some directory of the path, exists, and no directory before has one.
\<close>

theorem FindInPath_first:
  "FindInPath stat plugin paths = Inr f \<longleftrightarrow> plugin \<noteq> [] \<and>
    (\<exists>i<length paths. f = filepath_Join [paths ! i, plugin] \<and> stat f \<and>
      (\<forall>j<i. \<not> stat (filepath_Join [paths ! j, plugin])))"
proof -
  let ?files = "map (\<lambda>path. filepath_Join [path, plugin]) paths"
  have c: "concat (map (\<lambda>path. map (\<lambda>fe. filepath_Join [path, plugin] @ fe) ExecutableFileExtensions) paths) = ?files"
    by (simp add: ExecutableFileExtensions_def concat_map_singleton)
  have "FindInPath stat plugin paths = Inr f \<longleftrightarrow> plugin \<noteq> [] \<and> find stat ?files = Some f"
    unfolding FindInPath_def c by (cases paths) (auto split: option.splits)
  then show ?thesis by (auto simp: find_Some_iff)
qed

theorem FindInPath_first_witness:
  "FindInPath (\<lambda>f. f \<in> {''/b/p'', ''/c/p''}) ''p'' [''/a'', ''/b'', ''/c''] = Inr ''/b/p''"
proof -
  have j: "filepath_Join [''/a'', ''p''] = ''/a/p''" "filepath_Join [''/b'', ''p''] = ''/b/p''" by code_simp+
  show ?thesis
    unfolding FindInPath_first by (intro conjI exI [of _ 1]) (simp_all add: j)
qed

text \<open>
  A plugin whose file stays busy counts as successful: when every attempt fails because
  the file is busy and nothing is printed, \<open>ExecPlugin\<close> reports success with empty output
  after the sixth attempt.
\<close>

theorem ExecPlugin_busy:
  assumes "\<And>w. \<exists>w'. run path stdin environ w = ((Some err, [], []), w')" "contains_sub err ''text file busy''"
  shows "fst (RawExec_ExecPlugin run parse path stdin environ w) = Inr (parse [])"
proof -
  have "fst (run_loop run parse path stdin environ n [] [] w) = Inr (parse [])" for n
  proof (induction n arbitrary: w)
    case (Suc n)
    obtain w' where "run path stdin environ w = ((Some err, [], []), w')" using assms(1) by blast
    then show ?case using Suc assms(2) by simp
  qed simp
  then show ?thesis by (simp add: RawExec_ExecPlugin_def)
qed

theorem ExecPlugin_busy_witness:
  "fst (RawExec_ExecPlugin (\<lambda>path stdin environ n. ((Some ''fork/exec x: text file busy'', [], []), n + 1))
    (\<lambda>s. if s = [] then empty_document else Inr JNull) ''x'' (Inr JNull) [] (0::nat)) = Inr empty_document"
  by (subst ExecPlugin_busy [where err = "''fork/exec x: text file busy''"]) (simp_all add: has_prefix_def)

end
