(* ===== verification/Properties_LibApi.thy ===== *)
theory Properties_LibApi
  imports Properties_LibConf Properties_Invoke
begin

text \<open>
  Properties of the runtime library: the order in which it runs the plugins of a network, and
  the cache of results.
\<close>

section \<open>The order of the plugins\<close>

text \<open>An \<open>Exec\<close> that also records, for every run, the file and the command it was given.\<close>

definition logged :: "'w exec \<Rightarrow> ('w \<times> (string \<times> string) list) exec" where
  "logged E = \<lparr>
     ex_ExecPlugin = (\<lambda>path stdin environ (w, log). case ex_ExecPlugin E path stdin environ w of
       (r, w) \<Rightarrow> (r, w, log @ [(path, env_lookup environ ''CNI_COMMAND'')])),
     ex_FindInPath = (\<lambda>plugin paths (w, log). ex_FindInPath E plugin paths w), ex_Decode = ex_Decode E\<rparr>"

lemma logged_simps [simp]:
  "snd (snd (ex_ExecPlugin (logged E) path stdin environ w)) = snd w @ [(path, env_lookup environ ''CNI_COMMAND'')]"
  "ex_FindInPath (logged E) plugin paths w = ex_FindInPath E plugin paths (fst w)"
  by (cases w; simp add: logged_def split: prod.split)+

lemma logged_run:
  assumes "map_order (pr_order p)"
  shows "snd (snd (ExecPluginWithResult p path conf (PluginArgs a) (Some (logged E)) w)) = snd w @ [(path, argCommand a)]"
    and "snd (snd (ExecPluginWithoutResult p path conf (PluginArgs a) (Some (logged E)) w)) = snd w @ [(path, argCommand a)]"
proof -
  obtain r a' b where e: "ex_ExecPlugin (logged E) path conf (AsEnv p (PluginArgs a)) w = (r, a', b)"
    by (cases "ex_ExecPlugin (logged E) path conf (AsEnv p (PluginArgs a)) w")
  then have "b = snd w @ [(path, argCommand a)]"
    using logged_simps(1) [of E path conf "AsEnv p (PluginArgs a)" w] env_lookup_args(1) [OF assms, of a] by simp
  then show "snd (snd (ExecPluginWithResult p path conf (PluginArgs a) (Some (logged E)) w)) = snd w @ [(path, argCommand a)]"
    "snd (snd (ExecPluginWithoutResult p path conf (PluginArgs a) (Some (logged E)) w)) = snd w @ [(path, argCommand a)]"
    by (simp_all add: ExecPluginWithResult_def ExecPluginWithoutResult_def the_exec_def e split: sum.split del: AsEnv.simps)
qed

text \<open>What a run of one plugin adds to the record: nothing and no success, or its own entry.\<close>

definition entry :: "(string \<Rightarrow> string) \<Rightarrow> string \<Rightarrow> network_config \<Rightarrow> string \<times> string" where
  "entry found command net = (found (confType (Network net)), command)"

definition runs_one :: "(string \<times> string) list \<Rightarrow> string \<times> string \<Rightarrow> 'a outcome \<times> 'w \<times> (string \<times> string) list \<Rightarrow> bool" where
  "runs_one log x res \<longleftrightarrow> snd (snd res) = log @ [x] \<or> snd (snd res) = log \<and> (\<nexists>y. fst res = Ret y)"

lemma addNetwork_log:
  assumes "map_order (pr_order (le_process env))" "cniExec c = Some (logged E)"
    and "\<And>t w. ex_FindInPath E t (cniPath c) w = Inr (found t)"
  shows "runs_one (snd w) (entry found ''ADD'' net) (addNetwork env c name v net prev rt w)"
proof -
  have e: "ensureExec env c = logged E" by (simp add: ensureExec_def the_exec_def assms(2))
  show ?thesis
    using logged_run(1) [OF assms(1), of "found (confType (Network net))" _ "runtime_args c ''ADD'' rt" E w]
    by (auto simp: runs_one_def addNetwork_def e assms(3) entry_def runtime_args_def case_prod_beta split: option.split outcome.split)
qed

lemma run_without_log:
  assumes "map_order (pr_order (le_process env))" "cniExec c = Some (logged E)"
    and "\<And>t w. ex_FindInPath E t (cniPath c) w = Inr (found t)"
  shows "runs_one (snd w) (entry found command net) (run_without_result command env c name v net prev rt w)"
proof -
  have e: "ensureExec env c = logged E" by (simp add: ensureExec_def the_exec_def assms(2))
  show ?thesis
    using logged_run(2) [OF assms(1), of "found (confType (Network net))" _ "runtime_args c command rt" E w]
    by (simp add: runs_one_def run_without_result_def e assms(3) entry_def runtime_args_def case_prod_beta
        split: option.split outcome.split)
qed

text \<open>A run over a list of plugins: a prefix of the list, the whole list on success.\<close>

definition runs_prefix :: "(string \<times> string) list \<Rightarrow> (string \<times> string) list \<Rightarrow> 'a outcome \<times> 'w \<times> (string \<times> string) list \<Rightarrow> bool" where
  "runs_prefix log xs res \<longleftrightarrow> (\<exists>n\<le>length xs. snd (snd res) = log @ take n xs \<and> ((\<exists>y. fst res = Ret y) \<longrightarrow> n = length xs))"

lemma runs_prefix_Nil: "snd (snd res) = log \<Longrightarrow> runs_prefix log [] res"
  by (simp add: runs_prefix_def)

lemma runs_prefix_fail: "runs_one log x (r, w) \<Longrightarrow> (\<nexists>y. r = Ret y) \<Longrightarrow> (\<nexists>y. r' = Ret y) \<Longrightarrow> runs_prefix log (x # xs) (r', w)"
  unfolding runs_one_def runs_prefix_def
  by (auto intro: exI [of _ 1] exI [of _ 0])

lemma runs_prefix_Cons: "runs_one log x (Ret y, w) \<Longrightarrow> runs_prefix (snd w) xs res \<Longrightarrow> runs_prefix log (x # xs) res"
proof -
  assume one: "runs_one log x (Ret y, w)" and "runs_prefix (snd w) xs res"
  then obtain n where "n \<le> length xs" "snd (snd res) = snd w @ take n xs" "(\<exists>y. fst res = Ret y) \<longrightarrow> n = length xs"
    unfolding runs_prefix_def by blast
  with one show ?thesis unfolding runs_one_def runs_prefix_def by (intro exI [of _ "Suc n"]) auto
qed

lemma add_plugins_log:
  assumes "map_order (pr_order (le_process env))" "cniExec c = Some (logged E)"
    and "\<And>t w. ex_FindInPath E t (cniPath c) w = Inr (found t)"
  shows "runs_prefix (snd w) (map (entry found ''ADD'') nets) (add_plugins env c name v nets prev rt w)"
proof (induction nets arbitrary: prev w)
  case (Cons net nets)
  obtain r w1 where r: "addNetwork env c name v net prev rt w = (r, w1)" by (cases "addNetwork env c name v net prev rt w")
  note one = addNetwork_log [OF assms, of w net name v prev rt, unfolded r]
  show ?case
  proof (cases r)
    case (Ret x)
    then show ?thesis using r Cons.IH [of w1 "Some x"] runs_prefix_Cons one by simp
  next
    case (Fail e)
    then show ?thesis using r runs_prefix_fail [OF one, of "Fail e"] by simp
  next
    case (Panic m)
    then show ?thesis using r runs_prefix_fail [OF one, of "Panic m"] by simp
  qed
qed (simp add: runs_prefix_Nil)

lemma each_plugin_log:
  assumes "\<And>net w. net \<in> set nets \<Longrightarrow> runs_one (snd w) (entry found command net) (f net w)"
  shows "runs_prefix (snd w) (map (entry found command) nets) (each_plugin f nets w)"
  using assms
proof (induction nets arbitrary: w)
  case (Cons net nets)
  obtain r w1 where r: "f net w = (r, w1)" by (cases "f net w")
  have one: "runs_one (snd w) (entry found command net) (r, w1)" using Cons.prems [of net w] r by simp
  show ?case
  proof (cases r)
    case (Ret x)
    then show ?thesis using r Cons.IH [of w1] Cons.prems runs_prefix_Cons one by simp
  next
    case (Fail e)
    then show ?thesis using r runs_prefix_fail [OF one, of r] by simp
  next
    case (Panic m)
    then show ?thesis using r runs_prefix_fail [OF one, of r] by simp
  qed
qed (simp add: runs_prefix_Nil)

text \<open>
  C22. The runtime runs the plugins of a network in order: ADD runs them from the first to the
  last and DEL from the last to the first, each at most once, none after the first failure and
  all of them when the call succeeds (given that the files of the plugins are found and the
  cache does not run plugins).
\<close>

theorem plugin_order:
  assumes "map_order (pr_order (le_process env))" "cniExec c = Some (logged E)"
    and "\<And>t w. ex_FindInPath E t (cniPath c) w = Inr (found t)"
    and "\<And>f j w. snd (snd (le_WriteFile env f j w)) = snd w" "\<And>f w. snd (snd (le_MkdirAll env f w)) = snd w"
    and "\<And>f w. snd (snd (le_Remove env f w)) = snd w"
  shows "runs_prefix (snd w) (map (entry found ''ADD'') (listPlugins list)) (AddNetworkList env c list rt w) \<and>
    runs_prefix (snd w) (map (entry found ''DEL'') (rev (listPlugins list))) (DelNetworkList env c list rt w)"
proof
  have cache: "snd (snd (cache_result env c result bytes name rt w)) = snd w" for result bytes name w
    by (simp add: cache_result_def cacheAdd_def case_prod_beta assms(4,5) split: sum.split option.split)
  have del: "snd (snd (cacheDel env c name rt w)) = snd w" for name w
    using assms(6) by (auto simp: cacheDel_def split: sum.split)
  show "runs_prefix (snd w) (map (entry found ''ADD'') (listPlugins list)) (AddNetworkList env c list rt w)"
  proof -
    obtain r u where r: "add_plugins env c (listName list) (listCNIVersion list) (listPlugins list) None rt w = (r, u)"
      by (cases "add_plugins env c (listName list) (listCNIVersion list) (listPlugins list) None rt w")
    note p = add_plugins_log [OF assms(1-3), where w = w and nets = "listPlugins list", of "listName list"
        "listCNIVersion list" None rt, unfolded r]
    show ?thesis
    proof (cases r)
      case (Ret x)
      then have "snd u = snd w @ map (entry found ''ADD'') (listPlugins list)" using p by (auto simp: runs_prefix_def)
      then show ?thesis using cache [of x "listBytes list" "listName list" u]
        by (auto simp: AddNetworkList_def r Ret runs_prefix_def intro!: exI [of _ "length (listPlugins list)"])
    qed (use p r in \<open>simp_all add: AddNetworkList_def runs_prefix_def\<close>)
  qed
  show "runs_prefix (snd w) (map (entry found ''DEL'') (rev (listPlugins list))) (DelNetworkList env c list rt w)"
  proof (cases "del_result env c (listName list) (listCNIVersion list) rt w")
    case (Inl e)
    then show ?thesis by (auto simp: DelNetworkList_def runs_prefix_def intro!: exI [of _ 0])
  next
    case (Inr res)
    let ?f = "\<lambda>net. delNetwork env c (listName list) (listCNIVersion list) net res rt"
    have "runs_prefix (snd w) (map (entry found ''DEL'') (rev (listPlugins list))) (each_plugin ?f (rev (listPlugins list)) w)"
      using run_without_log [OF assms(1-3)] by (intro each_plugin_log) (simp add: delNetwork_def)
    then show ?thesis
      using del by (auto simp: DelNetworkList_def runs_prefix_def Inr split: prod.split outcome.split)
  qed
qed

text \<open>A process with two plugins and no files.\<close>

definition ex_exec :: "unit exec" where
  "ex_exec = \<lparr>ex_ExecPlugin = (\<lambda>path stdin environ w. (Inr (Inr (JObj [])), w)),
     ex_FindInPath = (\<lambda>plugin paths w. Inr (''/bin/'' @ plugin)), ex_Decode = PluginDecoder_Decode\<rparr>"

definition ex_env :: "(unit \<times> (string \<times> string) list) lib_env" where
  "ex_env = \<lparr>le_process = \<lparr>pr_Environ = [], pr_order = (\<lambda>m. m), pr_defaultExec = logged ex_exec\<rparr>,
     le_MkdirAll = (\<lambda>f w. (None, w)), le_WriteFile = (\<lambda>f j w. (None, w)), le_Remove = (\<lambda>f w. (None, w)),
     le_ReadFile = (\<lambda>f w. Inl (NotExist f)), le_base64 = (\<lambda>j. []), le_unbase64 = (\<lambda>s. Inr (Inr JNull)),
     le_order = (\<lambda>m. m)\<rparr>"

definition ex_list :: network_config_list where
  "ex_list = \<lparr>listName = ''net'', listCNIVersion = ''0.3.1'', listDisableCheck = False,
     listPlugins = [ex_orig, ex_orig\<lparr>Network := (Network ex_orig)\<lparr>confType := ''bandwidth''\<rparr>\<rparr>], listBytes = JNull\<rparr>"

theorem plugin_order_witness:
  "runs_prefix [] [(''/bin/bandwidth'', ''DEL''), (''/bin/portmap'', ''DEL'')]
    (DelNetworkList ex_env (NewCNIConfig [''/bin''] (Some (logged ex_exec))) ex_list ex_rt ((), []))"
  using plugin_order [of ex_env "NewCNIConfig [''/bin''] (Some (logged ex_exec))" ex_exec "\<lambda>t. ''/bin/'' @ t" "((), [])" ex_list ex_rt]
  by (simp add: map_order_def ex_env_def NewCNIConfig_def NewCNIConfigWithCacheDir_def ex_exec_def)
    (simp add: ex_list_def entry_def ex_orig_def)

section \<open>The files of the cache\<close>

text \<open>
  Two attachments can share one cache file: the network name, the container and the
  interface are joined by \<open>-\<close>, which is allowed in each of them, so that for any valid names
  the network \<open>a-b\<close> with the container \<open>c\<close> has the file of the network \<open>a\<close> with the
  container \<open>b-c\<close>.
\<close>

theorem cache_file_shared:
  assumes "cniReg a" "cniReg b" "cniReg x" "rtContainerID rt = x" "rtContainerID rt' = b @ ''-'' @ x"
    and "rtIfName rt' = rtIfName rt" "rtIfName rt \<noteq> []" "rtCacheDir rt' = rtCacheDir rt"
  shows "ValidateNetworkName (a @ ''-'' @ b) = None \<and> ValidateContainerID (rtContainerID rt) = None \<and>
    ValidateNetworkName a = None \<and> ValidateContainerID (rtContainerID rt') = None \<and>
    rtContainerID rt \<noteq> rtContainerID rt' \<and> getCacheFilePath c (a @ ''-'' @ b) rt = getCacheFilePath c a rt'"
proof -
  have j: "cniReg (u @ ''-'' @ v)" if "cniReg u" "cniReg v" for u v
    using that by (cases u; cases v) auto
  have "length x < length (b @ ''-'' @ x)" by simp
  then have "x \<noteq> b @ ''-'' @ x" by (metis less_irrefl)
  then show ?thesis
    using assms j [OF assms(1,2)] j [OF assms(2,3)]
    by (auto simp: ValidateNetworkName_None ValidateContainerID_None getCacheFilePath_def getCacheDir_def)
qed

theorem cache_file_shared_witness:
  "getCacheFilePath (NewCNIConfig [] None :: unit cni_config) ''net-blue'' (ex_rt\<lparr>rtContainerID := ''c1''\<rparr>) =
    getCacheFilePath (NewCNIConfig [] None :: unit cni_config) ''net'' (ex_rt\<lparr>rtContainerID := ''blue-c1''\<rparr>)"
  using cache_file_shared [of "''net''" "''blue''" "''c1''" "ex_rt\<lparr>rtContainerID := ''c1''\<rparr>" "ex_rt\<lparr>rtContainerID := ''blue-c1''\<rparr>"
      "NewCNIConfig [] None :: unit cni_config"]
  by (simp add: is_alnum_def ex_rt_def)

section \<open>Reading the cache\<close>

text \<open>A field is found by its name alone when no two names differ only in the case.\<close>

lemma jfield_Some_iff:
  "distinct (map (\<lambda>kv. to_lower (fst kv)) m) \<Longrightarrow> jfield m n = Some j \<longleftrightarrow> (\<exists>k. (k, j) \<in> set m \<and> to_lower k = to_lower n)"
proof (induction m rule: rev_induct)
  case (snoc x m)
  obtain k j' where x: "x = (k, j')" by (cases x)
  have new: "\<forall>(k', _)\<in>set m. to_lower k' \<noteq> to_lower k" using snoc.prems by (force simp: x)
  show ?case using snoc new by (auto simp: x jfield_snoc)
qed simp

lemma jfield_perm:
  assumes "distinct (map (\<lambda>kv. to_lower (fst kv)) m)" "mset m' = mset m"
  shows "jfield m' n = jfield m n"
proof -
  have "mset (map (\<lambda>kv. to_lower (fst kv)) m') = mset (map (\<lambda>kv. to_lower (fst kv)) m)" using assms(2) by simp
  then have "distinct (map (\<lambda>kv. to_lower (fst kv)) m')" using assms(1) mset_eq_imp_distinct_iff by blast
  moreover have "set m' = set m" using assms(2) by (metis set_mset_mset)
  ultimately show ?thesis
    using jfield_Some_iff assms(1) by (metis not_Some_eq)
qed

text \<open>The members of a result's encoding.\<close>

lemma ResultCur_members:
  obtains m where "ResultCur_JSON r = JObj m" "distinct (map fst m)" "distinct (map (\<lambda>kv. to_lower (fst kv)) m)" "m \<noteq> []"
proof
  let ?m = "member (CNIVersion r \<noteq> []) ''cniVersion'' (JStr (CNIVersion r)) @
     member (Interfaces r \<noteq> []) ''interfaces'' (JArr (map Interface_JSON (Interfaces r))) @
     member (IPs r \<noteq> []) ''ips'' (JArr (map IPConfig_MarshalJSON (IPs r))) @
     member (Routes r \<noteq> []) ''routes'' (JArr (map Route_MarshalJSON (Routes r))) @
     [(''dns'', DNS_JSON (DNS r))]"
  show "ResultCur_JSON r = JObj ?m" by (simp add: ResultCur_JSON_def)
  show "distinct (map fst ?m)" "distinct (map (\<lambda>kv. to_lower (fst kv)) ?m)" "?m \<noteq> []"
    by (simp_all add: member_def json_fields)
qed

lemma read_result_perm:
  assumes "ResultCur_JSON r = JObj m" "distinct (map (\<lambda>kv. to_lower (fst kv)) m)" "mset m' = mset m"
    and "result_ok r" "CNIVersion r \<in> set SupportedVersions"
  shows "read_result (Inr (JObj m')) (CNIVersion r) = Inr (Some (RCur r))"
proof -
  have f: "dec_field d z m' n = dec_field d z m n" for d :: "json \<Rightarrow> go_error + 'a" and z n
    using jfield_perm [OF assms(2,3)] by (simp add: dec_field_def)
  have j: "jfield m n = jfield (member (CNIVersion r \<noteq> []) ''cniVersion'' (JStr (CNIVersion r)) @
     member (Interfaces r \<noteq> []) ''interfaces'' (JArr (map Interface_JSON (Interfaces r))) @
     member (IPs r \<noteq> []) ''ips'' (JArr (map IPConfig_MarshalJSON (IPs r))) @
     member (Routes r \<noteq> []) ''routes'' (JArr (map Route_MarshalJSON (Routes r))) @
     [(''dns'', DNS_JSON (DNS r))]) n" for n
    using assms(1) by (simp add: ResultCur_JSON_def)
  have v: "CNIVersion r \<noteq> []" using assms(5) by (auto simp: SupportedVersions_def ImplementedSpecVersion_def)
  then have "dec_field dec_string [] m ''cniVersion'' = Inr (CNIVersion r)"
    by (simp add: dec_field_def j jfield_append jfield_member jfield_Cons json_names [unfolded list.map list.inject simp_thms])
  then have d: "ConfigDecoder_Decode (Inr (JObj m')) = Inr (CNIVersion r)"
    using v by (simp add: ConfigDecoder_Decode_def dec_cni_version_def f)
  have "current_NewResult (Inr (JObj m')) = current_NewResult (Inr (JObj m))"
    by (simp add: current_NewResult_def f)
  then have "current_NewResult (Inr (JObj m')) = Inr (RCur r)"
    using Result_JSON_16 [OF assms(4)] assms(1) by simp
  moreover have "find (\<lambda>(vs, new). Reconciler_CheckRaw (CNIVersion r) vs = None) resultFactories =
      Some (SupportedVersions, current_NewResult)"
    using assms(5) by (simp add: resultFactories_def Reconciler_CheckRaw_def)
  moreover have "GetAsVersion (RCur r) (CNIVersion r) = Inr (RCur r)"
    using assms(5) by (auto simp: GetAsVersionCur_def SupportedVersions_def)
  ultimately show ?thesis by (simp add: read_result_def d version_NewResult_def)
qed

lemma cached_names: "map to_lower [''kind'', ''containerId'', ''config'', ''ifName'', ''networkName'', ''cniArgs'',
    ''capabilityArgs'', ''result''] = [''kind'', ''containerid'', ''config'', ''ifname'', ''networkname'', ''cniargs'',
    ''capabilityargs'', ''result'']"
  by code_simp

lemmas cached_fields = dec_field_def jfield_append jfield_member jfield_Cons cached_names [unfolded list.map list.inject simp_thms]

lemma dec_pairs: "map_sum_list dec_pair (map (\<lambda>(k, v). JArr [JStr k, JStr v]) kvs) = Inr kvs"
  by (rule map_sum_list_map) auto

lemma dec_cached_JSON:
  assumes "le_unbase64 env (le_base64 env config) = Inr (Inr config)" "distinct (map fst m)" "m \<noteq> []"
  shows "\<exists>info. dec_cached env (cached_JSON env config name rt m) = Inr info \<and> ciKind info = CNICacheV1 \<and>
    ciRawResult info = Some (sort_key fst m)"
proof -
  have r: "dec_pointer (dec_map Inr) (marshal_map m) = Inr (Some (sort_key fst m))"
    using dec_marshal [OF assms(2)] by (simp add: marshal_map_def)
  obtain caps where c: "dec_map Inr (marshal_map (rtCapabilityArgs rt)) = Inr caps"
    by (simp add: marshal_map_def)
  have a: "dec_pointer (dec_list dec_pair) (JArr (map (\<lambda>(k, v). JArr [JStr k, JStr v]) (rtArgs rt))) = Inr (Some (rtArgs rt))"
    by (simp add: dec_pairs)
  show ?thesis
    by (cases "rtArgs rt = []"; cases "rtCapabilityArgs rt = []")
      (simp_all add: dec_cached_def cached_JSON_def cached_fields r c a assms(1,3) del: dec_pointer.simps dec_map.simps)
qed


text \<open>One plugin that answers \<open>ex_result\<close>, and a file system with one file.\<close>

definition file_env :: "json option lib_env" where
  "file_env = \<lparr>le_process = \<lparr>pr_Environ = [], pr_order = (\<lambda>m. m), pr_defaultExec =
       \<lparr>ex_ExecPlugin = (\<lambda>path stdin environ w. (Inr (Inr (ResultCur_JSON ex_result)), w)),
        ex_FindInPath = (\<lambda>plugin paths w. Inr (''/bin/'' @ plugin)), ex_Decode = PluginDecoder_Decode\<rparr>\<rparr>,
     le_MkdirAll = (\<lambda>f w. (None, w)), le_WriteFile = (\<lambda>f j w. (None, Some j)), le_Remove = (\<lambda>f w. (None, None)),
     le_ReadFile = (\<lambda>f w. case w of None \<Rightarrow> Inl (NotExist f) | Some j \<Rightarrow> Inr (Inr j)),
     le_base64 = (\<lambda>j. []), le_unbase64 = (\<lambda>s. Inr (Inr JNull)), le_order = (\<lambda>m. m)\<rparr>"

lemma ex_build_version: "case buildOneConfig ''net'' ''0.3.1'' ex_orig None ex_rt of
    Ret conf \<Rightarrow> ConfigDecoder_Decode (Inr (ConfBytes conf)) = Inr ''0.3.1'' | _ \<Rightarrow> False"
  by code_simp


end
