(* ===== verification/Cli.thy ===== *)
theory Cli
  imports Kipam
begin

text \<open>
  The command line of the program (\<open>kube-ipam.go\<close>, \<open>lib/help.go\<close>, \<open>lib/version.go\<close>,
  \<open>lib/oconf.go\<close>): the texts it prints, and the choice between printing and running as a
  plugin. A text is the list of its lines.
\<close>

definition tab :: char where
  "tab = CHR 0x09"

section \<open>lib/help.go and lib/version.go\<close>

definition help_text :: "string list" where
  \<open>help_text =
    [''Usage of ./kube-ipam:'',
     ''    -help'',
     ''          Display usage help information of kube-ipam.'',
     ''    -outputconf string'',
     ''          Generate the configuration files required by different CNI plug-ins.(Use with "macvlan | ipvlan | kube-router | bridge | calico")'',
     ''    -version'',
     ''          Display software version information of kube-ipam.'',
     ''    '']\<close>

text \<open>\<open>fmt.Println\<close> of a text: the lines it adds to the output.\<close>

definition ShowHelp :: "string list" where
  "ShowHelp = help_text"

definition ShowVersion :: "string \<Rightarrow> string \<Rightarrow> string list" where
  "ShowVersion version releaseDate = [''  Version: '' @ version, ''  Release Date: '' @ releaseDate]"

section \<open>lib/oconf.go\<close>

definition calico_config :: "string list" where
  \<open>calico_config =
    [''/etc/cni/net.d/1-kube-ipam.conf'',
     ''----------------------------------------------------'',
     ''{'',
     ''  "name": "k8s-pod-network",'',
     ''  "cniVersion": "0.3.1",'',
     ''  "plugins": ['',
     ''    {'',
     ''      "type": "calico",'',
     ''      "log_level": "info",'',
     ''      "log_file_path": "/var/log/calico/cni/cni.log",'',
     ''      "datastore_type": "kubernetes",'',
     ''      "nodename": "192.168.56.83",'',
     ''      "mtu": 0,'',
     ''      "ipam": {'',
     ''                "name": "kube-subnet",'',
     ''                "type": "kube-ipam",'',
     ''                "kubeConfig": "/etc/kubernetes/pki/kubectl.kubeconfig",'',
     ''                "etcdConfig": {'',
     ''                        "etcdURL": "https://192.168.1.50:2379,https://192.168.1.58:2379,https://192.168.1.63:2379",'',
     ''                        "etcdCertFile": "/etc/kubernetes/pki/kubernetes.pem",'',
     ''                        "etcdKeyFile": "/etc/kubernetes/pki/kubernetes-key.pem",'',
     ''                        "etcdTrustedCAFileFile": "/etc/kubernetes/pki/k8s-root-ca.pem"'',
     ''                },'',
     ''                "subnet": "10.244.0.0/16",'',
     ''                "rangeStart": "10.244.0.10",'',
     ''                "rangeEnd": "10.244.0.200",'',
     ''                "gateway": "10.244.0.1",'',
     ''                "routes": [{'',
     ''                        "dst": "0.0.0.0/0"'',
     ''                }],'',
     ''                "resolvConf": "/etc/resolv.conf"'',
     ''      },'',
     ''      "policy": {'',
     ''          "type": "k8s"'',
     ''      },'',
     ''      "kubernetes": {'',
     ''          "kubeconfig": "/etc/cni/net.d/calico-kubeconfig"'',
     ''      }'',
     ''    },'',
     ''    {'',
     ''      "type": "portmap",'',
     ''      "snat": true,'',
     ''      "capabilities": {"portMappings": true}'',
     ''    },'',
     ''    {'',
     ''      "type": "bandwidth",'',
     ''      "capabilities": {"bandwidth": true}'',
     ''    }'',
     ''  ]'',
     ''}'',
     ''----------------------------------------------------'',
     ''    '']\<close>

definition config_head :: "string list" where
  \<open>config_head =
    [''/etc/cni/net.d/1-kube-ipam.conf '',
     ''----------------------------------------------------'',
     ''{'',
     ''        "cniVersion":"0.3.1",'',
     ''        "name": "k8snetwork", '']\<close>

definition config_tail :: "string list" where
  \<open>config_tail =
    [''        "master": "eth0",'',
     ''        "ipam": {'',
     ''                "name": "kube-subnet",'',
     ''                "type": "kube-ipam",'',
     replicate 2 tab @ ''"kubeConfig": "/etc/kubernetes/pki/kubectl.kubeconfig",'',
     ''                "etcdConfig": {'',
     ''                        "etcdURL": "https://192.168.1.50:2379,https://192.168.1.58:2379,https://192.168.1.63:2379",'',
     ''                        "etcdCertFile": "/etc/kubernetes/pki/kubernetes.pem",'',
     ''                        "etcdKeyFile": "/etc/kubernetes/pki/kubernetes-key.pem",'',
     ''                        "etcdTrustedCAFileFile": "/etc/kubernetes/pki/k8s-root-ca.pem"'',
     ''                },'',
     ''                "subnet": "10.244.0.0/16",'',
     ''                "rangeStart": "10.244.0.10",'',
     ''                "rangeEnd": "10.244.0.200",'',
     ''                "gateway": "10.244.0.1",'',
     ''                "routes": [{'',
     ''                        "dst": "0.0.0.0/0"'',
     ''                }],'',
     ''                "resolvConf": "/etc/resolv.conf"'',
     ''        }'',
     ''}'',
     ''----------------------------------------------------'',
     ''    '']\<close>

definition OutputCniConfig :: "string \<Rightarrow> string list" where
  \<open>OutputCniConfig outputstr =
     (if outputstr = ''calico'' then calico_config
      else config_head @ [''        "type": "'' @ outputstr @ ''","''] @ config_tail)\<close>

section \<open>kube-ipam.go\<close>

record main_flags =
  helpFlag :: bool
  versionFlag :: bool
  outputconf :: string

definition main_Version :: string where "main_Version = ''kube-ipam v0.2.0''"
definition ReleaseDate :: string where "ReleaseDate = ''11/16/2021''"

text \<open>What \<open>main\<close> prints for the flags; \<open>None\<close> when it runs as a plugin (\<open>kube_ipam\<close>).\<close>

definition main_output :: "main_flags \<Rightarrow> string list option" where
  "main_output f =
     (if helpFlag f then Some ShowHelp
      else if versionFlag f then Some (ShowVersion main_Version ReleaseDate)
      else if outputconf f \<noteq> [] then
        (if outputconf f = ''macvlan'' then Some (OutputCniConfig ''macvlan'')
         else if outputconf f = ''ipvlan'' then Some (OutputCniConfig ''ipvlan'')
         else if outputconf f = ''kube-router'' then Some (OutputCniConfig ''kube-router'')
         else if outputconf f = ''bridge'' then Some (OutputCniConfig ''bridge'')
         else if outputconf f = ''calico'' then Some (OutputCniConfig ''calico'')
         else Some [])
      else None)"

end
