(* ===== verification/Static.thy ===== *)
theory Static
  imports ResultJson Kipam
begin

text \<open>
  The plugin \<open>static\<close> (\<open>plugins/plugins/ipam/static/main.go\<close>): it answers with the addresses
  of its configuration, of \<open>CNI_ARGS\<close>, of the member \<open>args\<close> or of the runtime, and keeps nothing.
\<close>

section \<open>Configuration\<close>

record static_address =
  AddressStr :: string
  stGateway :: net_ip
  stAddress :: ip_net
  stVersion :: string

record static_config =
  scName :: string
  scType :: string
  scRoutes :: "route list"
  scAddresses :: "static_address list"
  scDNS :: dns_conf

record static_net =
  snName :: string
  snCNIVersion :: string
  snIPAM :: "static_config option"
  snIPs :: "string list"
  snArgs :: "string list option option"

text \<open>
  The fields \<open>Address\<close> and \<open>Version\<close> have no names in JSON of their own; what a member with that
  name would put there is overwritten when the addresses are validated.
\<close>

definition dec_static_address :: "json \<Rightarrow> go_error + static_address" where
  "dec_static_address j =
     bind_sum (jmembers j) (\<lambda>kvs.
     bind_sum (dec_field dec_string [] kvs ''address'') (\<lambda>a.
     bind_sum (dec_field dec_ip [] kvs ''gateway'') (\<lambda>g.
       Inr \<lparr>AddressStr = a, stGateway = g, stAddress = zero_net, stVersion = []\<rparr>)))"

definition dec_static_config :: "json \<Rightarrow> go_error + static_config" where
  "dec_static_config j =
     bind_sum (jmembers j) (\<lambda>kvs.
     bind_sum (dec_field dec_string [] kvs ''Name'') (\<lambda>n.
     bind_sum (dec_field dec_string [] kvs ''type'') (\<lambda>t.
     bind_sum (dec_field (dec_list dec_route) [] kvs ''routes'') (\<lambda>rts.
     bind_sum (dec_field (dec_list dec_static_address) [] kvs ''addresses'') (\<lambda>addrs.
     bind_sum (dec_field dec_dns empty_dns kvs ''dns'') (\<lambda>dns.
       Inr \<lparr>scName = n, scType = t, scRoutes = rts, scAddresses = addrs, scDNS = dns\<rparr>))))))"

definition dec_ips :: "json \<Rightarrow> go_error + string list" where
  "dec_ips j = bind_sum (jmembers j) (\<lambda>kvs. dec_field (dec_list dec_string) [] kvs ''ips'')"

definition dec_static_net :: "json \<Rightarrow> go_error + static_net" where
  "dec_static_net j =
     bind_sum (jmembers j) (\<lambda>kvs.
     bind_sum (dec_field dec_string [] kvs ''name'') (\<lambda>name.
     bind_sum (dec_field dec_string [] kvs ''cniVersion'') (\<lambda>v.
     bind_sum (dec_field (dec_pointer dec_static_config) None kvs ''ipam'') (\<lambda>ipam.
     bind_sum (dec_field dec_ips [] kvs ''runtimeConfig'') (\<lambda>rc.
     bind_sum (dec_field (dec_pointer (\<lambda>j. bind_sum (jmembers j) (\<lambda>kvs.
         dec_field (dec_pointer dec_ips) None kvs ''cni''))) None kvs ''args'') (\<lambda>args.
       Inr \<lparr>snName = name, snCNIVersion = v, snIPAM = ipam, snIPs = rc, snArgs = args\<rparr>))))))"

section \<open>LoadIPAMConfig\<close>

definition static_EnvArgs :: container where
  "static_EnvArgs = CommonArgs @ [(''IP'', FStr []), (''GATEWAY'', FStr [])]"

text \<open>A change of \<open>n.IPAM\<close>, a pointer that may be nil.\<close>

fun with_ipam :: "(static_config \<Rightarrow> static_config) \<Rightarrow> static_config option \<Rightarrow> static_config option outcome" where
  "with_ipam f None = Panic ''invalid memory address or nil pointer dereference''"
| "with_ipam f (Some c) = Ret (Some (f c))"

definition new_address :: "string \<Rightarrow> static_address" where
  "new_address s = \<lparr>AddressStr = s, stGateway = [], stAddress = zero_net, stVersion = []\<rparr>"

fun add_env_ips :: "string list \<Rightarrow> static_config option \<Rightarrow> static_config option outcome" where
  "add_env_ips [] ipam = Ret ipam"
| "add_env_ips (item # items) ipam =
     (let ipstr = trim_space item in
      case net_ParseCIDR ipstr of
        Inl err \<Rightarrow> Fail (Msg (''invalid CIDR '' @ ipstr @ '': '' @ err_text err))
      | Inr (ip, subnet) \<Rightarrow>
          bind_out (with_ipam (\<lambda>c. c\<lparr>scAddresses := scAddresses c @
              [(new_address ipstr)\<lparr>stAddress := \<lparr>IP = ip, Mask = Mask subnet\<rparr>\<rparr>]\<rparr>) ipam)
            (add_env_ips items))"

fun set_env_gateways :: "string list \<Rightarrow> static_config option \<Rightarrow> static_config option outcome" where
  "set_env_gateways [] ipam = Ret ipam"
| "set_env_gateways (item # items) ipam =
     (let gwip = ParseIP (trim_space item) in
      if gwip = [] then Fail (Msg (''invalid gateway address: '' @ item))
      else bind_out (with_ipam (\<lambda>c. c\<lparr>scAddresses :=
              map (\<lambda>a. if IPNet_Contains (stAddress a) gwip then a\<lparr>stGateway := gwip\<rparr> else a) (scAddresses c)\<rparr>) ipam)
            (set_env_gateways items))"

definition static_env :: "string \<Rightarrow> static_config option \<Rightarrow> static_config option outcome" where
  "static_env envArgs ipam =
     (if envArgs = [] then Ret ipam
      else case LoadArgs envArgs static_EnvArgs of
        (Fail err, _) \<Rightarrow> Fail err
      | (Panic m, _) \<Rightarrow> Panic m
      | (Ret _, e) \<Rightarrow>
          bind_out (if str_field ''IP'' e \<noteq> [] then add_env_ips (split_on (CHR '','') (str_field ''IP'' e)) ipam else Ret ipam)
            (\<lambda>ipam. if str_field ''GATEWAY'' e \<noteq> [] then set_env_gateways (split_on (CHR '','') (str_field ''GATEWAY'' e)) ipam
                     else Ret ipam))"

text \<open>Addresses of \<open>args\<close> and of the runtime replace the others.\<close>

definition overwrite_ips :: "string list \<Rightarrow> static_config option \<Rightarrow> static_config option outcome" where
  "overwrite_ips ips ipam =
     (if length ips \<noteq> 0 then with_ipam (\<lambda>c. c\<lparr>scAddresses := map new_address ips\<rparr>) ipam else Ret ipam)"

fun validate_addresses :: "nat \<Rightarrow> static_address list \<Rightarrow> go_error + static_address list" where
  "validate_addresses i [] = Inr []"
| "validate_addresses i (a # addrs) =
     (case net_ParseCIDR (AddressStr a) of
        Inl err \<Rightarrow> Inl (Msg (''invalid CIDR '' @ AddressStr a @ '': '' @ err_text err))
      | Inr (ip, addr) \<Rightarrow>
          (case canonicalizeIP ip of
             Inl err \<Rightarrow> Inl (Msg (''invalid address '' @ Itoa (int i) @ '': '' @ err_text err))
           | Inr ip \<Rightarrow>
               bind_sum (validate_addresses (i + 1) addrs) (\<lambda>addrs.
                 Inr (a\<lparr>stAddress := addr\<lparr>IP := ip\<rparr>, stVersion := (if To4 ip \<noteq> [] then ''4'' else ''6'')\<rparr> # addrs))))"

definition static_validate :: "string \<Rightarrow> static_config \<Rightarrow> static_config outcome" where
  "static_validate version c =
     (case validate_addresses 0 (scAddresses c) of
        Inl err \<Rightarrow> Fail err
      | Inr addrs \<Rightarrow>
          (let numV4 = length (filter (\<lambda>a. stVersion a = ''4'') addrs);
               numV6 = length (filter (\<lambda>a. stVersion a \<noteq> ''4'') addrs)
           in if (numV4 > 1 \<or> numV6 > 1) \<and> version \<in> set SupportedVersions020
              then Fail (Msg (''CNI version '' @ version @ '' does not support more than 1 address per family''))
              else Ret (c\<lparr>scAddresses := addrs\<rparr>)))"

definition static_LoadIPAMConfig :: "document \<Rightarrow> string \<Rightarrow> (static_config \<times> string) outcome" where
  "static_LoadIPAMConfig bytes envArgs =
     (case bind_sum bytes dec_static_net of
        Inl err \<Rightarrow> Fail err
      | Inr n \<Rightarrow>
          bind_out (static_env envArgs (snIPAM n)) (\<lambda>ipam.
          bind_out (overwrite_ips (case snArgs n of Some (Some ips) \<Rightarrow> ips | _ \<Rightarrow> []) ipam) (\<lambda>ipam.
          bind_out (overwrite_ips (snIPs n) ipam) (\<lambda>ipam.
          case ipam of
            None \<Rightarrow> Fail (Msg (''IPAM config missing '' @ squote ''ipam'' @ '' key''))
          | Some c \<Rightarrow> bind_out (static_validate (snCNIVersion n) c) (\<lambda>c. Ret (c\<lparr>scName := snName n\<rparr>, snCNIVersion n))))))"

section \<open>Commands\<close>

definition static_cmdAdd :: "cmd_args \<Rightarrow> cni_result outcome" where
  "static_cmdAdd args =
     bind_out (static_LoadIPAMConfig (StdinData args) (Args args)) (\<lambda>(c, confVersion).
       outcome_of (PrintResult (RCur
         \<lparr>CNIVersion = [], Interfaces = [],
          IPs = map (\<lambda>v. \<lparr>Version = stVersion v, Interface = None, Address = stAddress v, ConfGateway = stGateway v\<rparr>)
            (scAddresses c),
          Routes = scRoutes c, DNS = scDNS c\<rparr>) confVersion))"

definition static_cmdDel :: "cmd_args \<Rightarrow> unit outcome" where
  "static_cmdDel args = Ret ()"

definition static_loadNetConf :: "document \<Rightarrow> go_error + netconf \<times> string" where
  "static_loadNetConf bytes =
     (case bind_sum bytes dec_netconf of
        Inl err \<Rightarrow> Inl (Msg (''failed to load netconf: '' @ err_text err))
      | Inr n \<Rightarrow> Inr (n, confCNIVersion n))"

text \<open>The inner loop of CHECK stops at the first address of the result that is the configured one.\<close>

definition address_mismatch :: "result_cur \<Rightarrow> static_address \<Rightarrow> net_ip option" where
  "address_mismatch result a =
     (case find (\<lambda>ips. ip_Equal (IP (stAddress a)) (IP (Address ips))) (IPs result) of
        None \<Rightarrow> None
      | Some ips \<Rightarrow>
          if stGateway a = [] then None
          else if ip_Equal (stGateway a) (ConfGateway ips) then None
          else Some (IP (Address ips)))"

definition static_cmdCheck :: "cmd_args \<Rightarrow> unit outcome" where
  "static_cmdCheck args =
     bind_out (static_LoadIPAMConfig (StdinData args) (Args args)) (\<lambda>(c, _).
     bind_out (outcome_of (static_loadNetConf (StdinData args))) (\<lambda>(n, _).
     if confRawPrevResult n = None then Fail (Msg ''Required prevResult missing'')
     else bind_out (outcome_of (ParsePrevResult n)) (\<lambda>n.
       case confPrevResult n of
         None \<Rightarrow> Fail (Msg ''Required prevResult missing'')
       | Some prev \<Rightarrow>
           bind_out (outcome_of (NewResultFromResult prev)) (\<lambda>result.
             case find (\<lambda>a. address_mismatch result a \<noteq> None) (scAddresses c) of
               None \<Rightarrow> Ret ()
             | Some a \<Rightarrow>
                 (case address_mismatch result a of
                    None \<Rightarrow> Ret ()
                  | Some ip \<Rightarrow> Fail (Msg (''static: Failed to match addr '' @ ip_String ip @ '' on interface '' @ IfName args)))))))"

definition static_plugin :: "cni_result list dispatcher \<Rightarrow> cni_result list \<Rightarrow> (unit outcome \<times> cni_result list) option" where
  "static_plugin t out =
     pluginMain t
       (\<lambda>args out. Some (case static_cmdAdd args of
            Ret x \<Rightarrow> (Ret (), out @ [x]) | Fail err \<Rightarrow> (Fail err, out) | Panic m \<Rightarrow> (Panic m, out)))
       (\<lambda>args out. Some (static_cmdCheck args, out)) (\<lambda>args out. Some (static_cmdDel args, out))
       version_All (BuildString ''static'' BuildVersion) out"

section \<open>Properties\<close>

text \<open>The texts of the addresses that \<open>CNI_ARGS\<close> adds to a configuration.\<close>

definition env_texts :: "string \<Rightarrow> string list" where
  "env_texts envArgs =
     (let ip = str_field ''IP'' (snd (LoadArgs envArgs static_EnvArgs))
      in if envArgs = [] \<or> ip = [] then [] else map trim_space (split_on (CHR '','') ip))"

lemma add_env_ips_texts:
  "add_env_ips items (Some c) = Ret ipam \<Longrightarrow>
    \<exists>c'. ipam = Some c' \<and> map AddressStr (scAddresses c') = map AddressStr (scAddresses c) @ map trim_space items"
  by (induction items arbitrary: c) (force simp: Let_def new_address_def split: sum.splits)+

lemma set_env_gateways_texts:
  "set_env_gateways items (Some c) = Ret ipam \<Longrightarrow>
    \<exists>c'. ipam = Some c' \<and> map AddressStr (scAddresses c') = map AddressStr (scAddresses c)"
proof (induction items arbitrary: c)
  case (Cons item items)
  then show ?case
    by (auto simp: Let_def comp_def if_distrib [of AddressStr] split: if_splits cong: if_cong dest!: Cons.IH)
qed auto

lemma static_env_texts:
  assumes "static_env envArgs (Some c) = Ret ipam"
  shows "\<exists>c'. ipam = Some c' \<and> map AddressStr (scAddresses c') = map AddressStr (scAddresses c) @ env_texts envArgs"
proof (cases "envArgs = []")
  case False
  obtain r e where l: "LoadArgs envArgs static_EnvArgs = (r, e)" by (cases "LoadArgs envArgs static_EnvArgs")
  with assms False obtain i1 where
    1: "(if str_field ''IP'' e \<noteq> [] then add_env_ips (split_on (CHR '','') (str_field ''IP'' e)) (Some c) else Ret (Some c)) = Ret i1"
    and 2: "(if str_field ''GATEWAY'' e \<noteq> [] then set_env_gateways (split_on (CHR '','') (str_field ''GATEWAY'' e)) i1 else Ret i1) = Ret ipam"
    by (auto simp: static_env_def split: outcome.splits)
  have "\<exists>c1. i1 = Some c1 \<and> map AddressStr (scAddresses c1) = map AddressStr (scAddresses c) @ env_texts envArgs"
    using 1 add_env_ips_texts False l by (auto simp: env_texts_def split: if_splits)
  then show ?thesis using 2 set_env_gateways_texts by (force split: if_splits)
qed (use assms in \<open>auto simp: static_env_def env_texts_def\<close>)

text \<open>An address that has been validated.\<close>

definition address_ok :: "static_address \<Rightarrow> bool" where
  "address_ok a \<longleftrightarrow> canonical (IP (stAddress a)) \<and>
     stVersion a = (if length (IP (stAddress a)) = 4 then ''4'' else ''6'') \<and>
     (case net_ParseCIDR (AddressStr a) of Inl err \<Rightarrow> False
      | Inr (ip, net) \<Rightarrow> canonicalizeIP ip = Inr (IP (stAddress a)) \<and> Mask (stAddress a) = Mask net)"

lemma validate_addresses_Inr:
  "validate_addresses i as = Inr bs \<Longrightarrow> map AddressStr bs = map AddressStr as \<and> list_all address_ok bs"
proof (induction as arbitrary: i bs)
  case (Cons a as)
  obtain ip net ip' where p: "net_ParseCIDR (AddressStr a) = Inr (ip, net)" "canonicalizeIP ip = Inr ip'"
    using Cons.prems by (auto split: sum.splits)
  then obtain bs' where bs: "validate_addresses (i + 1) as = Inr bs'"
    "bs = a\<lparr>stAddress := net\<lparr>IP := ip'\<rparr>, stVersion := (if To4 ip' \<noteq> [] then ''4'' else ''6'')\<rparr> # bs'"
    using Cons.prems by auto
  have c: "canonical ip'" using canonicalizeIP_Inr [OF p(2)] by blast
  then have "(To4 ip' \<noteq> []) = (length ip' = 4)" using To4_cases [of ip'] by (auto simp: canonical_def)
  then show ?case using bs(2) Cons.IH [OF bs(1)] p c by (simp add: address_ok_def)
qed simp

text \<open>
  C35. What the configuration of \<open>static\<close> is worth once it is loaded: every address is the parse
  of its text, in canonical form and labelled with its family; the texts are those of the
  runtime, else those of \<open>args\<close>, else those of the configuration followed by those of
  \<open>CNI_ARGS\<close>; and for the old results there is at most one address per family.
\<close>

theorem static_addresses:
  assumes "bind_sum bytes dec_static_net = Inr n" "static_LoadIPAMConfig bytes envArgs = Ret (c, v)"
  shows "list_all address_ok (scAddresses c) \<and>
    (\<exists>c0. snIPAM n = Some c0 \<and> map AddressStr (scAddresses c) =
      (let own = map AddressStr (scAddresses c0) @ env_texts envArgs;
           args = (case snArgs n of Some (Some ips) \<Rightarrow> ips | _ \<Rightarrow> [])
       in if snIPs n \<noteq> [] then snIPs n else if args \<noteq> [] then args else own)) \<and>
    (v \<in> set SupportedVersions020 \<longrightarrow> length (filter (\<lambda>a. stVersion a = ''4'') (scAddresses c)) \<le> 1 \<and>
      length (filter (\<lambda>a. stVersion a \<noteq> ''4'') (scAddresses c)) \<le> 1)"
proof -
  let ?args = "case snArgs n of Some (Some ips) \<Rightarrow> ips | _ \<Rightarrow> []"
  obtain i1 i2 c3 c4 where 1: "static_env envArgs (snIPAM n) = Ret i1"
    and 2: "overwrite_ips ?args i1 = Ret i2" and 3: "overwrite_ips (snIPs n) i2 = Ret (Some c3)"
    and v: "static_validate (snCNIVersion n) c3 = Ret c4" "c = c4\<lparr>scName := snName n\<rparr>" "v = snCNIVersion n"
    using assms(2) unfolding static_LoadIPAMConfig_def assms(1) sum.case bind_out_Ret_iff
    by (auto split: option.splits)
  obtain addrs where 4: "validate_addresses 0 (scAddresses c3) = Inr addrs" "scAddresses c = addrs"
      "v \<in> set SupportedVersions020 \<longrightarrow> length (filter (\<lambda>a. stVersion a = ''4'') addrs) \<le> 1 \<and>
        length (filter (\<lambda>a. stVersion a \<noteq> ''4'') addrs) \<le> 1"
    using v by (auto simp: static_validate_def Let_def not_less split: sum.splits if_splits)
  have none: "snIPAM n \<noteq> None"
  proof
    assume "snIPAM n = None"
    moreover have "static_env envArgs None = Ret i \<Longrightarrow> i = None" for i
    proof -
      have "add_env_ips l None = Ret i \<Longrightarrow> i = None" "set_env_gateways l None = Ret i \<Longrightarrow> i = None" for l i
        by (cases l; auto simp: Let_def split: sum.splits if_splits)+
      then show "static_env envArgs None = Ret i \<Longrightarrow> i = None"
        by (auto simp: static_env_def split: if_splits outcome.splits prod.splits)
    qed
    ultimately have "i1 = None" using 1 by simp
    then have "i2 = None" using 2 by (simp add: overwrite_ips_def split: if_splits)
    then show False using 3 by (simp add: overwrite_ips_def split: if_splits)
  qed
  then obtain c0 where c0: "snIPAM n = Some c0" by blast
  obtain c1 where c1: "i1 = Some c1" "map AddressStr (scAddresses c1) = map AddressStr (scAddresses c0) @ env_texts envArgs"
    using static_env_texts [of envArgs c0 i1] 1 c0 by auto
  have new: "map AddressStr (map new_address l) = l" for l by (induction l) (auto simp: new_address_def)
  obtain c2 where c2: "i2 = Some c2" "map AddressStr (scAddresses c2) = (if ?args \<noteq> [] then ?args else map AddressStr (scAddresses c1))"
    using 2 c1(1) new [of ?args] by (auto simp: overwrite_ips_def simp del: map_map split: if_splits)
  have "map AddressStr (scAddresses c3) = (if snIPs n \<noteq> [] then snIPs n else map AddressStr (scAddresses c2))"
    using 3 c2(1) new [of "snIPs n"] by (auto simp: overwrite_ips_def simp del: map_map split: if_splits)
  then show ?thesis
    using validate_addresses_Inr [OF 4(1)] 4(2,3) c0 c1(2) c2(2) by (simp add: Let_def)
qed

definition ex_addr :: ip_net where
  "ex_addr = \<lparr>IP = [10,1,2,3], Mask = [255,255,255,0]\<rparr>"

definition ex_static :: document where
  "ex_static = Inr (JObj [(''name'', JStr ''net''),
     (''ipam'', JObj [(''addresses'', JArr [JObj [(''address'', JStr (IPNet_String ex_addr))]])])])"

lemma static_lower: "map to_lower [''cniVersion'', ''name'', ''ipam'', ''runtimeConfig'', ''args'', ''Name'', ''type'',
    ''routes'', ''addresses'', ''dns'', ''address'', ''gateway''] =
  [''cniversion'', ''name'', ''ipam'', ''runtimeconfig'', ''args'', ''name'', ''type'',
    ''routes'', ''addresses'', ''dns'', ''address'', ''gateway'']"
  by code_simp

definition ex_static_net :: static_net where
  "ex_static_net = \<lparr>snName = ''net'', snCNIVersion = [], snIPAM = Some \<lparr>scName = [], scType = [], scRoutes = [],
     scAddresses = [new_address (IPNet_String ex_addr)], scDNS = empty_dns\<rparr>, snIPs = [], snArgs = None\<rparr>"

lemma ex_static_decode: "bind_sum ex_static dec_static_net = Inr ex_static_net"
  using static_lower
  by (simp add: ex_static_def dec_static_net_def dec_field_def jfield_Cons dec_static_config_def dec_static_address_def
      ex_static_net_def new_address_def)

lemma ex_addr_parse: "net_ParseCIDR (IPNet_String ex_addr) = Inr (ip, net) \<Longrightarrow>
    ip = v4InV6Prefix @ [10,1,2,3] \<and> Mask net = [255,255,255,0]"
  "\<exists>ip net. net_ParseCIDR (IPNet_String ex_addr) = Inr (ip, net)"
proof -
  have "cidr_bytes 4 24 = [255,255,255,0]" by code_simp
  then have "net4_ok ex_addr" by (auto simp: net4_ok_def ex_addr_def intro!: exI [of _ 24])
  note p = types_ParseCIDR_String [OF this, unfolded types_ParseCIDR_def]
  show "net_ParseCIDR (IPNet_String ex_addr) = Inr (ip, net) \<Longrightarrow> ip = v4InV6Prefix @ [10,1,2,3] \<and> Mask net = [255,255,255,0]"
    using p by (cases net) (auto simp: ex_addr_def)
  show "\<exists>ip net. net_ParseCIDR (IPNet_String ex_addr) = Inr (ip, net)"
    using p by (auto split: sum.splits)
qed

lemma ex_static_Load: "\<exists>c. static_LoadIPAMConfig ex_static [] = Ret (c, [])"
proof -
  obtain ip net where p: "net_ParseCIDR (IPNet_String ex_addr) = Inr (ip, net)" using ex_addr_parse(2) by blast
  have "canonicalizeIP ip = Inr [10,1,2,3]"
    using ex_addr_parse(1) [OF p] by (simp add: canonicalizeIP_def To4_def v4InV6Prefix_def)
  then show ?thesis
    unfolding static_LoadIPAMConfig_def ex_static_decode
    using p by (simp add: ex_static_net_def static_env_def overwrite_ips_def static_validate_def new_address_def Let_def)
qed

theorem static_addresses_witness:
  "\<exists>c. static_LoadIPAMConfig ex_static [] = Ret (c, []) \<and> map AddressStr (scAddresses c) = [IPNet_String ex_addr] \<and>
    list_all address_ok (scAddresses c)"
proof -
  obtain c where c: "static_LoadIPAMConfig ex_static [] = Ret (c, [])" using ex_static_Load by blast
  from static_addresses [OF ex_static_decode c] c show ?thesis
    by (simp add: ex_static_net_def env_texts_def new_address_def)
qed

text \<open>Without the member \<open>ipam\<close>, addresses of the runtime end in a panic instead of the error.\<close>

lemma static_nil_ipam:
  assumes "bind_sum bytes dec_static_net = Inr n" "snIPAM n = None" "snIPs n \<noteq> []" "snArgs n = None"
  shows "\<exists>m. static_LoadIPAMConfig bytes [] = Panic m"
  unfolding static_LoadIPAMConfig_def assms(1) using assms(2-4) by (simp add: static_env_def overwrite_ips_def)

end
