(* ===== verification/Utils.thy ===== *)
theory Utils
  imports Skel Paths
begin

text \<open>
  Small packages the plugins share: \<open>plugins/pkg/errors/errors.go\<close>, the names of chains in
  \<open>plugins/pkg/utils/utils.go\<close> and the kernel variables of
  \<open>plugins/pkg/utils/sysctl/sysctl_linux.go\<close>.
\<close>

section \<open>errors.go\<close>

definition Annotate :: "go_error option \<Rightarrow> string \<Rightarrow> go_error option" where
  "Annotate err message = (case err of None \<Rightarrow> None | Some e \<Rightarrow> Some (Msg (message @ '': '' @ err_text e)))"

text \<open>\<open>format\<close> is \<open>fmt.Sprintf\<close>.\<close>

definition Annotatef :: "(string \<Rightarrow> 'a list \<Rightarrow> string) \<Rightarrow> go_error option \<Rightarrow> string \<Rightarrow> 'a list \<Rightarrow> go_error option" where
  "Annotatef format err message args =
     (case err of None \<Rightarrow> None | Some e \<Rightarrow> Some (Msg (format message args @ '': '' @ err_text e)))"

section \<open>utils.go\<close>

text \<open>\<open>sha512.Sum512\<close> in hexadecimal digits is a parameter.\<close>

type_synonym hash = "string \<Rightarrow> string"

definition maxChainLength :: nat where "maxChainLength = 28"
definition chainPrefix :: string where "chainPrefix = ''CNI-''"
definition MaxHashLen :: nat where "MaxHashLen = 64 * 2"

definition MustFormatHashWithPrefix :: "hash \<Rightarrow> nat \<Rightarrow> string \<Rightarrow> string \<Rightarrow> string outcome" where
  "MustFormatHashWithPrefix sha512 len prefix toHash =
     (if length prefix \<ge> len \<or> len > MaxHashLen then Panic ''invalid length''
      else Ret (take len (prefix @ sha512 toHash)))"

definition MustFormatChainNameWithPrefix :: "hash \<Rightarrow> string \<Rightarrow> string \<Rightarrow> string \<Rightarrow> string outcome" where
  "MustFormatChainNameWithPrefix sha512 name ident prefix =
     MustFormatHashWithPrefix sha512 maxChainLength (chainPrefix @ prefix) (name @ ident)"

definition FormatChainName :: "hash \<Rightarrow> string \<Rightarrow> string \<Rightarrow> string outcome" where
  "FormatChainName sha512 name ident = MustFormatChainNameWithPrefix sha512 name ident []"

definition FormatComment :: "string \<Rightarrow> string \<Rightarrow> string" where
  "FormatComment name ident = ''name: '' @ quote name @ '' id: '' @ quote ident"

lemma MustFormatHash_Ret:
  assumes "MustFormatHashWithPrefix sha512 len prefix x = Ret name" "length (sha512 x) = MaxHashLen"
  shows "length name = len \<and> has_prefix name prefix"
  using assms by (auto simp: MustFormatHashWithPrefix_def has_prefix_iff split: if_splits)

lemma MustFormatChainName_Ret:
  "length prefix < 24 \<Longrightarrow> MustFormatChainNameWithPrefix sha512 name ident prefix =
    Ret (take 28 (chainPrefix @ prefix @ sha512 (name @ ident)))"
  by (simp add: MustFormatChainNameWithPrefix_def MustFormatHashWithPrefix_def maxChainLength_def
      chainPrefix_def MaxHashLen_def)

section \<open>sysctl_linux.go\<close>

text \<open>Files that are read and written whole; \<open>'s\<close> is the host.\<close>

record 's sys_files =
  sf_ReadFile :: "string \<Rightarrow> 's \<Rightarrow> go_error + string"
  sf_WriteFile :: "string \<Rightarrow> string \<Rightarrow> 's \<Rightarrow> go_error option \<times> 's"

definition toNormalName :: "string \<Rightarrow> string" where
  "toNormalName name =
     (if find (\<lambda>c. c = CHR ''.'' \<or> c = CHR ''/'') name = Some (CHR ''.'')
      then map (\<lambda>c. if c = CHR ''.'' then CHR ''/'' else if c = CHR ''/'' then CHR ''.'' else c) name
      else name)"

definition sysctl_path :: "string \<Rightarrow> string" where
  "sysctl_path name = filepath_Clean (filepath_Join [''/proc/sys'', toNormalName name])"

text \<open>The last byte of the file, its newline, is cut off; an empty file has none.\<close>

definition getSysctl :: "'s sys_files \<Rightarrow> string \<Rightarrow> 's \<Rightarrow> string outcome" where
  "getSysctl F name s =
     (case sf_ReadFile F (sysctl_path name) s of
        Inl err \<Rightarrow> Fail err
      | Inr data \<Rightarrow> if data = [] then Panic ''slice bounds out of range'' else Ret (butlast data))"

definition setSysctl :: "'s sys_files \<Rightarrow> string \<Rightarrow> string \<Rightarrow> 's \<Rightarrow> string outcome \<times> 's" where
  "setSysctl F name value s =
     (case sf_WriteFile F (sysctl_path name) value s of
        (Some err, s) \<Rightarrow> (Fail err, s)
      | (None, s) \<Rightarrow> (getSysctl F name s, s))"

definition Sysctl :: "'s sys_files \<Rightarrow> string \<Rightarrow> string list \<Rightarrow> 's \<Rightarrow> string outcome \<times> 's" where
  "Sysctl F name params s =
     (case params of
        [] \<Rightarrow> (getSysctl F name s, s)
      | [value] \<Rightarrow> setSysctl F name value s
      | _ \<Rightarrow> (Fail (Msg ''unexcepted additional parameters''), s))"

end
