(* ===== verification/IpTables.thy ===== *)
theory IpTables
  imports Utils
begin

text \<open>
  Firewall rules: the idempotent operations of \<open>plugins/pkg/utils/iptables.go\<close> and the
  masquerading of \<open>plugins/pkg/ip/ipmasq_linux.go\<close>, over the library \<open>go-iptables\<close>, which is a
  parameter. The locale \<open>iptables\<close> states what the library documents of its operations; its
  instance is in \<open>IpTables_Mem\<close>.
\<close>

section \<open>The library\<close>

text \<open>
  A handle for one protocol family. Operations that change rules return an error, if any, and
  the host afterwards; rules are lists of arguments.
\<close>

record 's iptables =
  ipt_ListChains :: "string \<Rightarrow> 's \<Rightarrow> go_error + string list"
  ipt_List :: "string \<Rightarrow> string \<Rightarrow> 's \<Rightarrow> go_error + string list"
  ipt_Exists :: "string \<Rightarrow> string \<Rightarrow> string list \<Rightarrow> 's \<Rightarrow> go_error + bool"
  ipt_NewChain :: "string \<Rightarrow> string \<Rightarrow> 's \<Rightarrow> go_error option \<times> 's"
  ipt_ClearChain :: "string \<Rightarrow> string \<Rightarrow> 's \<Rightarrow> go_error option \<times> 's"
  ipt_DeleteChain :: "string \<Rightarrow> string \<Rightarrow> 's \<Rightarrow> go_error option \<times> 's"
  ipt_Insert :: "string \<Rightarrow> string \<Rightarrow> int \<Rightarrow> string list \<Rightarrow> 's \<Rightarrow> go_error option \<times> 's"
  ipt_Append :: "string \<Rightarrow> string \<Rightarrow> string list \<Rightarrow> 's \<Rightarrow> go_error option \<times> 's"
  ipt_AppendUnique :: "string \<Rightarrow> string \<Rightarrow> string list \<Rightarrow> 's \<Rightarrow> go_error option \<times> 's"
  ipt_Delete :: "string \<Rightarrow> string \<Rightarrow> string list \<Rightarrow> 's \<Rightarrow> go_error option \<times> 's"

text \<open>\<open>IsNotExist\<close> and \<open>ExitStatus\<close> of an error that is an \<open>*iptables.Error\<close>.\<close>

fun isNotExist :: "go_error \<Rightarrow> bool" where
  "isNotExist (IptablesError status missing m) = missing"
| "isNotExist _ = False"

fun exit_status :: "go_error \<Rightarrow> int option" where
  "exit_status (IptablesError status missing m) = Some status"
| "exit_status _ = None"

section \<open>iptables.go\<close>

text \<open>The functions refuse a nil handle; no caller passes one, and that branch is left out.\<close>

definition statusChainExists :: int where "statusChainExists = 1"

definition ChainExists :: "'s iptables \<Rightarrow> string \<Rightarrow> string \<Rightarrow> 's \<Rightarrow> go_error + bool" where
  "ChainExists ipt table chain s =
     (case ipt_ListChains ipt table s of
        Inl err \<Rightarrow> Inl err | Inr chs \<Rightarrow> Inr (list_ex (\<lambda>ch. ch = chain) chs))"

text \<open>An error of \<open>NewChain\<close> that is no \<open>*iptables.Error\<close> is not reported.\<close>

definition EnsureChain :: "'s iptables \<Rightarrow> string \<Rightarrow> string \<Rightarrow> 's \<Rightarrow> go_error option \<times> 's" where
  "EnsureChain ipt table chain s =
     (case ChainExists ipt table chain s of
        Inl err \<Rightarrow> (Some (Msg (''failed to list iptables chains: '' @ err_text err)), s)
      | Inr True \<Rightarrow> (None, s)
      | Inr False \<Rightarrow>
          (case ipt_NewChain ipt table chain s of
             (Some err, s) \<Rightarrow>
               (if exit_status err \<noteq> None \<and> exit_status err \<noteq> Some statusChainExists then Some err else None, s)
           | (None, s) \<Rightarrow> (None, s)))"

definition DeleteRule :: "'s iptables \<Rightarrow> string \<Rightarrow> string \<Rightarrow> string list \<Rightarrow> 's \<Rightarrow> go_error option \<times> 's" where
  "DeleteRule ipt table chain rulespec s =
     (case ipt_Delete ipt table chain rulespec s of
        (Some err, s) \<Rightarrow>
          (if isNotExist err then None
           else if exit_status err = Some 2 then None
           else Some (Msg (''Failed to delete referring rule '' @ table @ '' '' @ chain @ '': '' @ err_text err)), s)
      | (None, s) \<Rightarrow> (None, s))"

definition DeleteChain :: "'s iptables \<Rightarrow> string \<Rightarrow> string \<Rightarrow> 's \<Rightarrow> go_error option \<times> 's" where
  "DeleteChain ipt table chain s =
     (case ipt_DeleteChain ipt table chain s of
        (Some err, s) \<Rightarrow> (if isNotExist err then None else Some err, s)
      | (None, s) \<Rightarrow> (None, s))"

definition ClearChain :: "'s iptables \<Rightarrow> string \<Rightarrow> string \<Rightarrow> 's \<Rightarrow> go_error option \<times> 's" where
  "ClearChain ipt table chain s =
     (case ipt_ClearChain ipt table chain s of
        (Some err, s) \<Rightarrow> if isNotExist err then EnsureChain ipt table chain s else (Some err, s)
      | (None, s) \<Rightarrow> (None, s))"

section \<open>ipmasq_linux.go\<close>

text \<open>\<open>iptables.NewWithProtocol\<close>, with whether the protocol is IPv6.\<close>

type_synonym 's new_iptables = "bool \<Rightarrow> 's \<Rightarrow> go_error + 's iptables"

definition is_v6 :: "net_ip \<Rightarrow> bool" where
  "is_v6 ip \<longleftrightarrow> To4 ip = []"

definition locate_error :: "go_error \<Rightarrow> go_error" where
  "locate_error err = Msg (''failed to locate iptables: '' @ err_text err)"

text \<open>The next step of a sequence of operations each of which may fail.\<close>

definition then_ipt :: "go_error option \<times> 's \<Rightarrow> ('s \<Rightarrow> go_error option \<times> 's) \<Rightarrow> go_error option \<times> 's" where
  "then_ipt r f = (case r of (Some err, s) \<Rightarrow> (Some err, s) | (None, s) \<Rightarrow> f s)"

definition masq_comment :: "string \<Rightarrow> string list" where
  "masq_comment comment = [''-m'', ''comment'', ''--comment'', comment]"

definition SetupIPMasq :: "'s new_iptables \<Rightarrow> ip_net \<Rightarrow> string \<Rightarrow> string \<Rightarrow> 's \<Rightarrow> go_error option \<times> 's" where
  "SetupIPMasq new ipn chain comment s =
     (let isV6 = is_v6 (IP ipn);
          multicastNet = (if isV6 then ''ff00::/8'' else ''224.0.0.0/4'')
      in case new isV6 s of
        Inl err \<Rightarrow> (Some (locate_error err), s)
      | Inr ipt \<Rightarrow>
          (case ipt_ListChains ipt ''nat'' s of
             Inl err \<Rightarrow> (Some (Msg (''failed to list chains: '' @ err_text err)), s)
           | Inr chs \<Rightarrow>
               then_ipt (if list_ex (\<lambda>ch. ch = chain) chs then (None, s) else ipt_NewChain ipt ''nat'' chain s) (\<lambda>s.
               then_ipt (ipt_AppendUnique ipt ''nat'' chain
                  ([''-d'', IPNet_String ipn, ''-j'', ''ACCEPT''] @ masq_comment comment) s) (\<lambda>s.
               then_ipt (ipt_AppendUnique ipt ''nat'' chain
                  ([''!'', ''-d'', multicastNet, ''-j'', ''MASQUERADE''] @ masq_comment comment) s) (\<lambda>s.
               ipt_AppendUnique ipt ''nat'' ''POSTROUTING''
                  ([''-s'', ip_String (IP ipn), ''-j'', chain] @ masq_comment comment) s)))))"

text \<open>An operation whose object is missing already counts as done.\<close>

definition if_missing_ok :: "go_error option \<times> 's \<Rightarrow> go_error option \<times> 's" where
  "if_missing_ok r = (case r of (Some err, s) \<Rightarrow> (if isNotExist err then None else Some err, s) | (None, s) \<Rightarrow> (None, s))"

definition TeardownIPMasq :: "'s new_iptables \<Rightarrow> ip_net \<Rightarrow> string \<Rightarrow> string \<Rightarrow> 's \<Rightarrow> go_error option \<times> 's" where
  "TeardownIPMasq new ipn chain comment s =
     (case new (is_v6 (IP ipn)) s of
        Inl err \<Rightarrow> (Some (locate_error err), s)
      | Inr ipt \<Rightarrow>
          then_ipt (if_missing_ok (ipt_Delete ipt ''nat'' ''POSTROUTING''
             ([''-s'', ip_String (IP ipn), ''-j'', chain] @ masq_comment comment) s)) (\<lambda>s.
          then_ipt (if_missing_ok (ipt_Delete ipt ''nat'' ''POSTROUTING''
             ([''-s'', IPNet_String ipn, ''-j'', chain] @ masq_comment comment) s)) (\<lambda>s.
          then_ipt (if_missing_ok (ipt_ClearChain ipt ''nat'' chain s)) (\<lambda>s.
          if_missing_ok (ipt_DeleteChain ipt ''nat'' chain s)))))"

section \<open>Rule sets\<close>

text \<open>
  The rules of one family: the chains by table and name. \<open>add_unique\<close> and \<open>on_chain\<close> are the
  changes the plugins make, on this abstraction.
\<close>

type_synonym 'r ruleset = "string \<times> string \<rightharpoonup> 'r list"

definition add_unique :: "bool \<Rightarrow> 'r \<Rightarrow> 'r list \<Rightarrow> 'r list" where
  "add_unique front r rs = (if r \<in> set rs then rs else if front then r # rs else rs @ [r])"

definition on_chain :: "string \<times> string \<Rightarrow> ('r list \<Rightarrow> 'r list) \<Rightarrow> 'r ruleset \<Rightarrow> 'r ruleset" where
  "on_chain k f m = (case m k of None \<Rightarrow> m | Some rs \<Rightarrow> m(k \<mapsto> f rs))"

definition ensured :: "string \<times> string \<Rightarrow> 'r ruleset \<Rightarrow> 'r ruleset" where
  "ensured k m = (if m k = None then m(k \<mapsto> []) else m)"

lemma set_add_unique [simp]: "set (add_unique front r rs) = insert r (set rs)"
  by (auto simp: add_unique_def)

lemma add_unique_same [simp]: "r \<in> set rs \<Longrightarrow> add_unique front r rs = rs"
  by (simp add: add_unique_def)

lemma on_chain_apply: "on_chain k f m k' = (if k' = k then map_option f (m k) else m k')"
  by (auto simp: on_chain_def split: option.split)

lemma ensured_apply: "ensured k m k' = (if k' = k \<and> m k = None then Some [] else m k')"
  by (simp add: ensured_def)

lemma on_chain_upd: "m k = Some rs \<Longrightarrow> on_chain k f m = m(k \<mapsto> f rs)"
  by (simp add: on_chain_def)

section \<open>What the library promises\<close>

text \<open>
  \<open>rules s v6\<close> are the rules of a family on the host \<open>s\<close>. \<open>canon\<close> is the rule that a list of
  arguments denotes, \<open>show chain r\<close> the line that \<open>iptables -S\<close> prints for it, and \<open>parse\<close> the
  library \<open>shellwords\<close>. An operation that fails changes no rule; one that succeeds changes the
  rules of its own chain and family only. The printed line is a way to write the rule; it ends
  with the chain that the rule jumps to, when that is its last argument. Exit status 1 of
  \<open>NewChain\<close> means that the chain exists, an \<open>IsNotExist\<close> error that there is no such rule or
  chain, and, for a rule, so does exit status 2.
\<close>

locale iptables =
  fixes I :: "'s iptables" and v6 :: bool and rules :: "'s \<Rightarrow> bool \<Rightarrow> 'r ruleset"
    and canon :: "string list \<Rightarrow> 'r" and shown :: "string \<Rightarrow> 'r \<Rightarrow> string"
    and parse :: "string \<Rightarrow> go_error + string list"
  assumes ListChains: "ipt_ListChains I t s = Inr cs \<Longrightarrow> c \<in> set cs \<longleftrightarrow> rules s v6 (t, c) \<noteq> None"
    and List: "ipt_List I t c s = Inr lines \<Longrightarrow>
      \<exists>header rs. rules s v6 (t, c) = Some rs \<and> lines = header # map (shown c) rs"
    and Exists: "ipt_Exists I t c r s = Inr b \<Longrightarrow> b \<longleftrightarrow> (\<exists>rs. rules s v6 (t, c) = Some rs \<and> canon r \<in> set rs)"
    and NewChain: "ipt_NewChain I t c s = (None, s') \<Longrightarrow>
      rules s v6 (t, c) = None \<and> rules s' = (rules s)(v6 := (rules s v6)((t, c) \<mapsto> []))"
    and ClearChain: "ipt_ClearChain I t c s = (None, s') \<Longrightarrow> rules s' = (rules s)(v6 := (rules s v6)((t, c) \<mapsto> []))"
    and DeleteChain: "ipt_DeleteChain I t c s = (None, s') \<Longrightarrow> rules s' = (rules s)(v6 := (rules s v6)((t, c) := None))"
    and Insert: "ipt_Insert I t c 1 r s = (None, s') \<Longrightarrow>
      \<exists>rs. rules s v6 (t, c) = Some rs \<and> rules s' = (rules s)(v6 := (rules s v6)((t, c) \<mapsto> canon r # rs))"
    and Append: "ipt_Append I t c r s = (None, s') \<Longrightarrow>
      \<exists>rs. rules s v6 (t, c) = Some rs \<and> rules s' = (rules s)(v6 := (rules s v6)((t, c) \<mapsto> rs @ [canon r]))"
    and AppendUnique: "ipt_AppendUnique I t c r s = (None, s') \<Longrightarrow>
      \<exists>rs. rules s v6 (t, c) = Some rs \<and>
        rules s' = (rules s)(v6 := (rules s v6)((t, c) \<mapsto> add_unique False (canon r) rs))"
    and Delete: "ipt_Delete I t c r s = (None, s') \<Longrightarrow>
      \<exists>rs. rules s v6 (t, c) = Some rs \<and> canon r \<in> set rs \<and>
        rules s' = (rules s)(v6 := (rules s v6)((t, c) \<mapsto> remove1 (canon r) rs))"
    and failed: "ipt_NewChain I t c s = (Some e, s') \<or> ipt_ClearChain I t c s = (Some e, s') \<or>
      ipt_DeleteChain I t c s = (Some e, s') \<or> ipt_Insert I t c n r s = (Some e, s') \<or>
      ipt_Append I t c r s = (Some e, s') \<or> ipt_AppendUnique I t c r s = (Some e, s') \<or>
      ipt_Delete I t c r s = (Some e, s') \<Longrightarrow> rules s' = rules s"
    and NewChain_exists: "ipt_NewChain I t c s = (Some e, s') \<Longrightarrow>
      (\<exists>status. exit_status e = Some status) \<and> (exit_status e = Some statusChainExists \<longrightarrow> rules s v6 (t, c) \<noteq> None)"
    and chain_missing: "ipt_ClearChain I t c s = (Some e, s') \<or> ipt_DeleteChain I t c s = (Some e, s') \<Longrightarrow>
      isNotExist e \<Longrightarrow> rules s v6 (t, c) = None"
    and rule_missing: "ipt_Delete I t c r s = (Some e, s') \<Longrightarrow> isNotExist e \<or> exit_status e = Some 2 \<Longrightarrow>
      rules s v6 (t, c) = Some rs \<Longrightarrow> canon r \<notin> set rs"
    and parse_shown: "rules s v6 (t, c) = Some rs \<Longrightarrow> q \<in> set rs \<Longrightarrow>
      \<exists>spec. parse (shown c q) = Inr (''-A'' # c # spec) \<and> canon spec = q"
    and shown_jump: "name \<noteq> [] \<Longrightarrow> list_all (\<lambda>x. is_alnum x \<or> x = CHR ''-'') name \<Longrightarrow>
      has_suffix (shown c (canon (r @ [''-j'', name]))) (''-j '' @ name)"
begin

lemma ChainExists_Inr: "ChainExists I t c s = Inr b \<Longrightarrow> b \<longleftrightarrow> rules s v6 (t, c) \<noteq> None"
  using ListChains by (auto simp: ChainExists_def list_ex_iff split: sum.splits)

lemma EnsureChain_None:
  assumes "EnsureChain I t c s = (None, s')"
  shows "rules s' = (rules s)(v6 := ensured (t, c) (rules s v6))"
proof -
  obtain b where b: "ChainExists I t c s = Inr b"
    using assms by (auto simp: EnsureChain_def split: sum.splits)
  show ?thesis
  proof (cases b)
    case True
    then show ?thesis using assms b ChainExists_Inr [OF b] by (auto simp: EnsureChain_def ensured_def)
  next
    case False
    then have n: "rules s v6 (t, c) = None" using ChainExists_Inr [OF b] by simp
    obtain e s1 where e: "ipt_NewChain I t c s = (e, s1)" by (cases "ipt_NewChain I t c s")
    then have "s1 = s'" using assms b False by (auto simp: EnsureChain_def split: option.splits)
    moreover have "e = None"
      using NewChain_exists [of t c s] e n assms b False by (cases e) (auto simp: EnsureChain_def split: if_splits)
    ultimately show ?thesis using NewChain [of t c s s'] e n by (simp add: ensured_def)
  qed
qed

lemma DeleteRule_None:
  assumes "DeleteRule I t c r s = (None, s')" "rules s v6 (t, c) = Some rs" "canon r \<in> set rs"
  shows "rules s' = (rules s)(v6 := (rules s v6)((t, c) \<mapsto> remove1 (canon r) rs))"
proof -
  obtain e s1 where e: "ipt_Delete I t c r s = (e, s1)" by (cases "ipt_Delete I t c r s")
  then have "s1 = s'" using assms(1) by (auto simp: DeleteRule_def split: option.splits)
  moreover have "e = None"
    using rule_missing [of t c r s _ s1 rs] e assms by (cases e) (auto simp: DeleteRule_def split: if_splits)
  ultimately show ?thesis using Delete [of t c r s s'] e assms(2) by auto
qed

lemma DeleteChain_None:
  assumes "DeleteChain I t c s = (None, s')"
  shows "rules s' = (rules s)(v6 := (rules s v6)((t, c) := None))"
proof -
  obtain e s1 where e: "ipt_DeleteChain I t c s = (e, s1)" by (cases "ipt_DeleteChain I t c s")
  then have s1: "s1 = s'" using assms by (auto simp: DeleteChain_def split: option.splits)
  show ?thesis
  proof (cases e)
    case None
    then show ?thesis using DeleteChain [of t c s s'] e s1 by simp
  next
    case (Some err)
    then have "isNotExist err" using assms e by (simp add: DeleteChain_def split: if_splits)
    then have "rules s v6 (t, c) = None" using chain_missing [of t c s err s1] e Some by simp
    moreover have "rules s' = rules s" using failed [of t c s err s'] e Some s1 by blast
    ultimately show ?thesis by (simp add: fun_upd_idem)
  qed
qed

lemma ClearChain_None:
  assumes "ClearChain I t c s = (None, s')"
  shows "rules s' = (rules s)(v6 := (rules s v6)((t, c) \<mapsto> []))"
proof -
  obtain e s1 where e: "ipt_ClearChain I t c s = (e, s1)" by (cases "ipt_ClearChain I t c s")
  show ?thesis
  proof (cases e)
    case None
    then show ?thesis using ClearChain [of t c s s'] e assms by (simp add: ClearChain_def)
  next
    case (Some err)
    then have n: "isNotExist err" and s': "EnsureChain I t c s1 = (None, s')"
      using assms e by (simp_all add: ClearChain_def split: if_splits)
    have "rules s v6 (t, c) = None" using chain_missing [of t c s err s1] n e Some by simp
    moreover have "rules s1 = rules s" using failed [of t c s err s1] e Some by blast
    ultimately show ?thesis using EnsureChain_None [OF s'] by (simp add: ensured_def)
  qed
qed

end

end
