(* ===== verification/PortMap.thy ===== *)
theory PortMap
  imports IpTables ResultJson Kipam
begin

text \<open>
  The plugin \<open>portmap\<close> (\<open>plugins/plugins/meta/portmap\<close>): it forwards ports of the host to the
  container with rules of the table \<open>nat\<close>. \<open>chain.go\<close> sets up and tears down one chain with the
  rules that lead to it; \<open>portmap.go\<close> makes the chains; \<open>main.go\<close> has the commands.
\<close>

section \<open>utils.go\<close>

definition fmtIpPort :: "net_ip \<Rightarrow> int \<Rightarrow> string" where
  "fmtIpPort ip port =
     (if is_v6 ip then ''['' @ ip_String ip @ '']:'' @ Itoa port else ip_String ip @ '':'' @ Itoa port)"

definition localhostIP :: "bool \<Rightarrow> string" where
  "localhostIP isV6 = (if isV6 then ''::1'' else ''127.0.0.1'')"

record port_map_entry =
  HostPort :: int
  ContainerPort :: int
  Protocol :: string
  HostIP :: string

text \<open>A map of ports by protocol, in the order of the entries.\<close>

definition groupByProto :: "port_map_entry list \<Rightarrow> int list go_map" where
  "groupByProto entries =
     foldl (\<lambda>out e. case map_of out (Protocol e) of
         Some l \<Rightarrow> AList.update (Protocol e) (l @ [HostPort e]) out
       | None \<Rightarrow> AList.update (Protocol e) [HostPort e] out) [] entries"

fun split_ports :: "string list \<Rightarrow> int list \<Rightarrow> string list" where
  "split_ports acc [] = (if length acc > 0 then [join '','' acc] else [])"
| "split_ports acc (i # l) =
     (let acc = acc @ [Itoa i]
      in if length acc = 15 then join '','' acc # split_ports [] l else split_ports acc l)"

definition splitPortList :: "int list \<Rightarrow> string list" where
  "splitPortList l = split_ports [] l"

definition trimComment :: "string \<Rightarrow> string" where
  "trimComment val = (if length val \<le> 255 then val else take 253 val @ ''...'')"

section \<open>chain.go\<close>

record chain =
  ch_table :: string
  ch_name :: string
  entryChains :: "string list"
  entryRules :: "string list list"
  ch_rules :: "string list list"
  prependEntry :: bool

definition insertUnique :: "'s iptables \<Rightarrow> string \<Rightarrow> string \<Rightarrow> bool \<Rightarrow> string list \<Rightarrow> 's \<Rightarrow> go_error option \<times> 's" where
  "insertUnique ipt table chain prepend rule s =
     (case ipt_Exists ipt table chain rule s of
        Inl err \<Rightarrow> (Some err, s)
      | Inr True \<Rightarrow> (None, s)
      | Inr False \<Rightarrow>
          if prepend then ipt_Insert ipt table chain 1 rule s else ipt_Append ipt table chain rule s)"

text \<open>A loop that stops at the first error.\<close>

fun each :: "('a \<Rightarrow> 's \<Rightarrow> go_error option \<times> 's) \<Rightarrow> 'a list \<Rightarrow> 's \<Rightarrow> go_error option \<times> 's" where
  "each f [] s = (None, s)"
| "each f (x # xs) s = then_ipt (f x s) (each f xs)"

definition entry_rule :: "chain \<Rightarrow> string list \<Rightarrow> string list" where
  "entry_rule c rule = rule @ [''-j'', ch_name c]"

definition chain_setup :: "chain \<Rightarrow> 's iptables \<Rightarrow> 's \<Rightarrow> go_error option \<times> 's" where
  "chain_setup c ipt s =
     then_ipt (EnsureChain ipt (ch_table c) (ch_name c) s) (\<lambda>s.
     then_ipt (each (insertUnique ipt (ch_table c) (ch_name c) False) (ch_rules c) s) (\<lambda>s.
     each (\<lambda>entryChain. each (\<lambda>rule.
         insertUnique ipt (ch_table c) entryChain (prependEntry c) (entry_rule c rule)) (entryRules c))
       (entryChains c) s))"

text \<open>The rules of an entry chain, as listed; a parsed rule starts with \<open>-A\<close> and the chain.\<close>

type_synonym shellwords = "string \<Rightarrow> go_error + string list"

fun delete_entries :: "shellwords \<Rightarrow> chain \<Rightarrow> 's iptables \<Rightarrow> string \<Rightarrow> string list \<Rightarrow> 's \<Rightarrow> unit outcome \<times> 's" where
  "delete_entries parse c ipt entryChain [] s = (Ret (), s)"
| "delete_entries parse c ipt entryChain (entryChainRule # rest) s =
     (if has_suffix entryChainRule (''-j '' @ ch_name c) then
        (case parse entryChainRule of
           Inl err \<Rightarrow> (Fail (Msg (''error parsing iptables rule: '' @ entryChainRule @ '': '' @ err_text err)), s)
         | Inr chainParts \<Rightarrow>
             if length chainParts < 2 then (Panic ''slice bounds out of range'', s)
             else (case DeleteRule ipt (ch_table c) entryChain (drop 2 chainParts) s of
                     (Some err, s) \<Rightarrow> (Fail err, s)
                   | (None, s) \<Rightarrow> delete_entries parse c ipt entryChain rest s))
      else delete_entries parse c ipt entryChain rest s)"

fun unlink_chains :: "shellwords \<Rightarrow> chain \<Rightarrow> 's iptables \<Rightarrow> string list \<Rightarrow> 's \<Rightarrow> unit outcome \<times> 's" where
  "unlink_chains parse c ipt [] s = (Ret (), s)"
| "unlink_chains parse c ipt (entryChain # rest) s =
     (case ipt_List ipt (ch_table c) entryChain s of
        Inl err \<Rightarrow> unlink_chains parse c ipt rest s
      | Inr entryChainRules \<Rightarrow>
          if length entryChainRules < 1 then unlink_chains parse c ipt rest s
          else (case delete_entries parse c ipt entryChain (tl entryChainRules) s of
                  (Ret _, s) \<Rightarrow> unlink_chains parse c ipt rest s
                | (r, s) \<Rightarrow> (r, s)))"

definition err_outcome :: "go_error option \<times> 's \<Rightarrow> unit outcome \<times> 's" where
  "err_outcome r = (case r of (Some err, s) \<Rightarrow> (Fail err, s) | (None, s) \<Rightarrow> (Ret (), s))"

definition then_out :: "unit outcome \<times> 's \<Rightarrow> ('s \<Rightarrow> 'a outcome \<times> 's) \<Rightarrow> 'a outcome \<times> 's" where
  "then_out r f = (case r of (Ret _, s) \<Rightarrow> f s | (Fail err, s) \<Rightarrow> (Fail err, s) | (Panic m, s) \<Rightarrow> (Panic m, s))"

definition chain_teardown :: "shellwords \<Rightarrow> chain \<Rightarrow> 's iptables \<Rightarrow> 's \<Rightarrow> unit outcome \<times> 's" where
  "chain_teardown parse c ipt s =
     then_out (err_outcome (ClearChain ipt (ch_table c) (ch_name c) s)) (\<lambda>s.
     then_out (unlink_chains parse c ipt (entryChains c) s) (\<lambda>s.
     err_outcome (DeleteChain ipt (ch_table c) (ch_name c) s)))"

definition checkRule :: "'s iptables \<Rightarrow> string \<Rightarrow> string \<Rightarrow> string list \<Rightarrow> 's \<Rightarrow> bool" where
  "checkRule ipt table chain rule s = (case ipt_Exists ipt table chain rule s of Inl err \<Rightarrow> False | Inr b \<Rightarrow> b)"

text \<open>The texts of the errors print all the rules with \<open>%s\<close>, here joined by spaces.\<close>

definition not_found :: "string list list \<Rightarrow> string \<Rightarrow> string \<Rightarrow> go_error" where
  "not_found rules chain table = Msg (''rule ['' @
     join '' '' (map (\<lambda>r. ''['' @ join '' '' r @ '']'') rules) @ ''] in chain '' @ chain @ '' not found in table '' @ table)"

definition chain_check :: "chain \<Rightarrow> 's iptables \<Rightarrow> 's \<Rightarrow> go_error option" where
  "chain_check c ipt s =
     (case ChainExists ipt (ch_table c) (ch_name c) s of
        Inl err \<Rightarrow> Some err
      | Inr False \<Rightarrow> Some (Msg (''chain '' @ ch_name c @ '' not found in iptables table '' @ ch_table c))
      | Inr True \<Rightarrow>
          if list_ex (\<lambda>rule. \<not> checkRule ipt (ch_table c) (ch_name c) rule s) (rev (ch_rules c))
          then Some (not_found (ch_rules c) (ch_name c) (ch_table c))
          else (case find (\<lambda>entryChain. list_ex (\<lambda>rule.
                    \<not> checkRule ipt (ch_table c) entryChain (entry_rule c rule) s) (rev (entryRules c))) (entryChains c) of
                  Some entryChain \<Rightarrow> Some (not_found (entryRules c) entryChain (ch_table c))
                | None \<Rightarrow> None))"

section \<open>portmap.go: the chains\<close>

record port_map_conf =
  pmNet :: netconf
  SNAT :: "bool option"
  ConditionsV4 :: "string list option"
  ConditionsV6 :: "string list option"
  MarkMasqBit :: "int option"
  ExternalSetMarkChain :: "string option"
  PortMaps :: "port_map_entry list"
  pmContainerID :: string
  ContIPv4 :: ip_net
  ContIPv6 :: ip_net

definition TopLevelDNATChainName :: string where "TopLevelDNATChainName = ''CNI-HOSTPORT-DNAT''"
definition SetMarkChainName :: string where "SetMarkChainName = ''CNI-HOSTPORT-SETMARK''"
definition MarkMasqChainName :: string where "MarkMasqChainName = ''CNI-HOSTPORT-MASQ''"
definition OldTopLevelSNATChainName :: string where "OldTopLevelSNATChainName = ''CNI-HOSTPORT-SNAT''"

definition genToplevelDnatChain :: chain where
  "genToplevelDnatChain =
     \<lparr>ch_table = ''nat'', ch_name = TopLevelDNATChainName, entryChains = [''PREROUTING'', ''OUTPUT''],
      entryRules = [[''-m'', ''addrtype'', ''--dst-type'', ''LOCAL'']], ch_rules = [], prependEntry = False\<rparr>"

definition named_chain :: "hash \<Rightarrow> string \<Rightarrow> string \<Rightarrow> string \<Rightarrow> string \<Rightarrow> chain outcome" where
  "named_chain sha512 netwName containerID prefix topChain =
     bind_out (MustFormatChainNameWithPrefix sha512 netwName containerID prefix) (\<lambda>name.
       Ret \<lparr>ch_table = ''nat'', ch_name = name, entryChains = [topChain], entryRules = [], ch_rules = [], prependEntry = False\<rparr>)"

definition genDnatChain :: "hash \<Rightarrow> string \<Rightarrow> string \<Rightarrow> chain outcome" where
  "genDnatChain sha512 netwName containerID = named_chain sha512 netwName containerID ''DN-'' TopLevelDNATChainName"

definition genOldSnatChain :: "hash \<Rightarrow> string \<Rightarrow> string \<Rightarrow> chain outcome" where
  "genOldSnatChain sha512 netwName containerID = named_chain sha512 netwName containerID ''SN-'' OldTopLevelSNATChainName"

text \<open>\<open>1 << uint(markBit)\<close> for a bit up to 31, printed by \<open>%#x/%#x\<close>.\<close>

definition mark_def :: "int \<Rightarrow> string" where
  "mark_def markBit = (let v = ''0x'' @ hex_nat (2 ^ nat markBit) in v @ ''/'' @ v)"

definition genSetMarkChain :: "int \<Rightarrow> chain" where
  "genSetMarkChain markBit =
     \<lparr>ch_table = ''nat'', ch_name = SetMarkChainName, entryChains = [], entryRules = [],
      ch_rules = [[''-m'', ''comment'', ''--comment'', ''CNI portfwd masquerade mark'', ''-j'', ''MARK'',
                   ''--set-xmark'', mark_def markBit]],
      prependEntry = False\<rparr>"

definition genMarkMasqChain :: "int \<Rightarrow> chain" where
  "genMarkMasqChain markBit =
     \<lparr>ch_table = ''nat'', ch_name = MarkMasqChainName, entryChains = [''POSTROUTING''],
      entryRules = [[''-m'', ''comment'', ''--comment'', ''CNI portfwd requiring masquerade'']],
      ch_rules = [[''-m'', ''mark'', ''--mark'', mark_def markBit, ''-j'', ''MASQUERADE'']],
      prependEntry = True\<rparr>"

definition dnat_comment :: "port_map_conf \<Rightarrow> string" where
  "dnat_comment config =
     trimComment (''dnat name: '' @ [CHR 0x22] @ confName (pmNet config) @ [CHR 0x22] @
       '' id: '' @ [CHR 0x22] @ pmContainerID config @ [CHR 0x22])"

definition conditions :: "port_map_conf \<Rightarrow> bool \<Rightarrow> string list" where
  "conditions config isV6 =
     (case if isV6 then ConditionsV6 config else ConditionsV4 config of None \<Rightarrow> [] | Some cs \<Rightarrow> cs)"

definition dnat_entry_rules :: "port_map_conf \<Rightarrow> bool \<Rightarrow> string list list" where
  "dnat_entry_rules config isV6 =
     (let protoPorts = groupByProto (PortMaps config)
      in concat (map (\<lambda>proto. map (\<lambda>portSpec.
            [''-m'', ''comment'', ''--comment'', dnat_comment config, ''-m'', ''multiport'', ''-p'', proto,
             ''--destination-ports'', portSpec] @ conditions config isV6)
          (splitPortList (case map_of protoPorts proto of None \<Rightarrow> [] | Some l \<Rightarrow> l)))
        (sort (map fst protoPorts))))"

definition IPv4zero :: net_ip where "IPv4zero = v4InV6Prefix @ [0, 0, 0, 0]"
definition IPv6unspecified :: net_ip where "IPv6unspecified = replicate 16 0"

definition IsUnspecified :: "net_ip \<Rightarrow> bool" where
  "IsUnspecified ip \<longleftrightarrow> ip_Equal ip IPv4zero \<or> ip_Equal ip IPv6unspecified"

text \<open>
  The rules of one entry: mark hairpin traffic, mark local traffic (IPv4), forward. An entry with
  an address of the other family has none. \<open>*config.SNAT\<close> is never nil, see \<open>portmap_parseConfig\<close>.
\<close>

definition mark_chain_name :: "port_map_conf \<Rightarrow> string" where
  "mark_chain_name config =
     (case ExternalSetMarkChain config of Some name \<Rightarrow> name | None \<Rightarrow> SetMarkChainName)"

definition dnat_rules :: "port_map_conf \<Rightarrow> ip_net \<Rightarrow> port_map_entry \<Rightarrow> string list list" where
  "dnat_rules config containerNet pm =
     (let isV6 = is_v6 (IP containerNet);
          hostIP = ParseIP (HostIP pm);
          ruleBase = [''-p'', Protocol pm, ''--dport'', Itoa (HostPort pm)] @
            (if HostIP pm \<noteq> [] \<and> \<not> IsUnspecified hostIP then [''-d'', HostIP pm] else [])
      in if HostIP pm \<noteq> [] \<and> isV6 \<noteq> is_v6 hostIP then []
         else (if SNAT config = Some True then
                 [ruleBase @ [''-s'', IPNet_String containerNet, ''-j'', mark_chain_name config]] @
                 (if \<not> isV6 then [ruleBase @ [''-s'', ''127.0.0.1'', ''-j'', mark_chain_name config]] else [])
               else []) @
              [ruleBase @ [''-j'', ''DNAT'', ''--to-destination'', fmtIpPort (IP containerNet) (ContainerPort pm)]])"

definition fillDnatRules :: "chain \<Rightarrow> port_map_conf \<Rightarrow> ip_net \<Rightarrow> chain" where
  "fillDnatRules c config containerNet =
     c\<lparr>entryRules := entryRules c @ dnat_entry_rules config (is_v6 (IP containerNet)),
       ch_rules := concat (map (dnat_rules config containerNet) (PortMaps config))\<rparr>"

section \<open>portmap.go: forwarding\<close>

text \<open>What the plugin uses of the host; the routes and links are those of \<open>netlink\<close>.\<close>

record 's portmap_host =
  ph_iptables :: "'s new_iptables"
  ph_sha512 :: hash
  ph_parse :: shellwords
  ph_RouteGet :: "net_ip \<Rightarrow> 's \<Rightarrow> go_error + int list"
  ph_LinkByIndex :: "int \<Rightarrow> 's \<Rightarrow> go_error + string"
  ph_files :: "'s sys_files"

definition getRoutableHostIF :: "'s portmap_host \<Rightarrow> net_ip \<Rightarrow> 's \<Rightarrow> string" where
  "getRoutableHostIF H containerIP s =
     (case ph_RouteGet H containerIP s of
        Inl err \<Rightarrow> []
      | Inr routes \<Rightarrow>
          (case find (\<lambda>i. case ph_LinkByIndex H i s of Inl err \<Rightarrow> False | Inr name \<Rightarrow> True) routes of
             None \<Rightarrow> []
           | Some i \<Rightarrow> (case ph_LinkByIndex H i s of Inl err \<Rightarrow> [] | Inr name \<Rightarrow> name)))"

definition enableLocalnetRouting :: "'s portmap_host \<Rightarrow> string \<Rightarrow> 's \<Rightarrow> unit outcome \<times> 's" where
  "enableLocalnetRouting H ifName s =
     (case Sysctl (ph_files H) (''net.ipv4.conf.'' @ ifName @ ''.route_localnet'') [''1''] s of
        (r, s) \<Rightarrow> (bind_out r (\<lambda>_. Ret ()), s))"

fun wrap_fail :: "string \<Rightarrow> unit outcome \<times> 's \<Rightarrow> unit outcome \<times> 's" where
  "wrap_fail what (Fail err, s) = (Fail (Msg (what @ '': '' @ err_text err)), s)"
| "wrap_fail what (r, s) = (r, s)"

definition DefaultMarkBit :: int where "DefaultMarkBit = 13"

definition mark_bit :: "port_map_conf \<Rightarrow> int" where
  "mark_bit config = (case MarkMasqBit config of Some b \<Rightarrow> b | None \<Rightarrow> DefaultMarkBit)"

definition setup_masq :: "'s portmap_host \<Rightarrow> port_map_conf \<Rightarrow> ip_net \<Rightarrow> 's iptables \<Rightarrow> 's \<Rightarrow> unit outcome \<times> 's" where
  "setup_masq H config containerNet ipt s =
     then_out
       (if ExternalSetMarkChain config = None then
          then_out (wrap_fail (''unable to create chain '' @ SetMarkChainName)
            (err_outcome (chain_setup (genSetMarkChain (mark_bit config)) ipt s))) (\<lambda>s.
          wrap_fail (''unable to create chain '' @ SetMarkChainName)
            (err_outcome (chain_setup (genMarkMasqChain (mark_bit config)) ipt s)))
        else (Ret (), s)) (\<lambda>s.
     let hostIfName = getRoutableHostIF H (IP containerNet) s
     in if \<not> is_v6 (IP containerNet) \<and> hostIfName \<noteq> []
        then wrap_fail ''unable to enable route_localnet'' (enableLocalnetRouting H hostIfName s)
        else (Ret (), s))"

definition forwardPorts :: "'s portmap_host \<Rightarrow> port_map_conf \<Rightarrow> ip_net \<Rightarrow> 's \<Rightarrow> unit outcome \<times> 's" where
  "forwardPorts H config containerNet s =
     (case ph_iptables H (is_v6 (IP containerNet)) s of
        Inl err \<Rightarrow> (Fail (Msg (''failed to open iptables: '' @ err_text err)), s)
      | Inr ipt \<Rightarrow>
          then_out (if SNAT config = Some True then setup_masq H config containerNet ipt s else (Ret (), s)) (\<lambda>s.
          then_out (wrap_fail ''failed to create top-level DNAT chain''
            (err_outcome (chain_setup genToplevelDnatChain ipt s))) (\<lambda>s.
          case genDnatChain (ph_sha512 H) (confName (pmNet config)) (pmContainerID config) of
            Ret dnatChain \<Rightarrow> wrap_fail ''unable to setup DNAT''
              (err_outcome (chain_setup (fillDnatRules dnatChain config containerNet) ipt s))
          | Fail err \<Rightarrow> (Fail err, s)
          | Panic m \<Rightarrow> (Panic m, s))))"

text \<open>A handle that can be used, for each family.\<close>

definition maybeGetIptables :: "'s portmap_host \<Rightarrow> bool \<Rightarrow> 's \<Rightarrow> 's iptables option" where
  "maybeGetIptables H isV6 s =
     (case ph_iptables H isV6 s of
        Inl err \<Rightarrow> None
      | Inr ipt \<Rightarrow> (case ipt_List ipt ''nat'' ''OUTPUT'' s of Inl err \<Rightarrow> None | Inr _ \<Rightarrow> Some ipt))"

text \<open>
  The check of one family, and what follows it. Where the chain does not exist the code returns
  \<open>err\<close>, which is nil there.
\<close>

definition check_family :: "chain \<Rightarrow> string \<Rightarrow> 's iptables option \<Rightarrow> 's \<Rightarrow> unit outcome \<Rightarrow> unit outcome" where
  "check_family dnatChain family ipt s next =
     (case ipt of
        None \<Rightarrow> next
      | Some ipt \<Rightarrow>
          (case ChainExists ipt (ch_table dnatChain) (ch_name dnatChain) s of
             Inl err \<Rightarrow> Fail err
           | Inr False \<Rightarrow> Ret ()
           | Inr True \<Rightarrow>
               (case chain_check dnatChain ipt s of
                  Some err \<Rightarrow> Fail (Msg (''could not check '' @ family @ '' dnat: '' @ err_text err))
                | None \<Rightarrow> next)))"

definition no_iptables :: go_error where
  "no_iptables = Msg ''neither iptables nor ip6tables usable''"

definition checkPorts :: "'s portmap_host \<Rightarrow> port_map_conf \<Rightarrow> ip_net \<Rightarrow> 's \<Rightarrow> unit outcome" where
  "checkPorts H config containerNet s =
     bind_out (genDnatChain (ph_sha512 H) (confName (pmNet config)) (pmContainerID config)) (\<lambda>dnatChain.
       let dnatChain = fillDnatRules dnatChain config containerNet;
           ip4t = maybeGetIptables H False s;
           ip6t = maybeGetIptables H True s
       in case (ip4t, ip6t) of
            (None, None) \<Rightarrow> Fail no_iptables
          | _ \<Rightarrow> check_family dnatChain ''ipv4'' ip4t s (check_family dnatChain ''ipv6'' ip6t s (Ret ())))"

definition teardown_family ::
  "shellwords \<Rightarrow> chain \<Rightarrow> chain \<Rightarrow> string \<Rightarrow> 's iptables option \<Rightarrow> 's \<Rightarrow> unit outcome \<times> 's" where
  "teardown_family parse dnatChain oldSnatChain family ipt s =
     (case ipt of
        None \<Rightarrow> (Ret (), s)
      | Some ipt \<Rightarrow>
          then_out (wrap_fail (''could not teardown '' @ family @ '' dnat'') (chain_teardown parse dnatChain ipt s)) (\<lambda>s.
          case chain_teardown parse oldSnatChain ipt s of
            (Panic m, s) \<Rightarrow> (Panic m, s) | (_, s) \<Rightarrow> (Ret (), s)))"

definition unforwardPorts :: "'s portmap_host \<Rightarrow> port_map_conf \<Rightarrow> 's \<Rightarrow> unit outcome \<times> 's" where
  "unforwardPorts H config s =
     (case genDnatChain (ph_sha512 H) (confName (pmNet config)) (pmContainerID config) of
        Fail err \<Rightarrow> (Fail err, s) | Panic m \<Rightarrow> (Panic m, s)
      | Ret dnatChain \<Rightarrow>
     (case genOldSnatChain (ph_sha512 H) (confName (pmNet config)) (pmContainerID config) of
        Fail err \<Rightarrow> (Fail err, s) | Panic m \<Rightarrow> (Panic m, s)
      | Ret oldSnatChain \<Rightarrow>
          (let ip4t = maybeGetIptables H False s;
               ip6t = maybeGetIptables H True s
           in case (ip4t, ip6t) of
                (None, None) \<Rightarrow> (Fail no_iptables, s)
              | _ \<Rightarrow> then_out (teardown_family (ph_parse H) dnatChain oldSnatChain ''ipv4'' ip4t s)
                       (teardown_family (ph_parse H) dnatChain oldSnatChain ''ipv6'' ip6t))))"

section \<open>main.go\<close>

definition dec_port_map_entry :: "json \<Rightarrow> go_error + port_map_entry" where
  "dec_port_map_entry j =
     bind_sum (jmembers j) (\<lambda>kvs.
     bind_sum (dec_field dec_int 0 kvs ''hostPort'') (\<lambda>hp.
     bind_sum (dec_field dec_int 0 kvs ''containerPort'') (\<lambda>cp.
     bind_sum (dec_field dec_string [] kvs ''protocol'') (\<lambda>proto.
     bind_sum (dec_field dec_string [] kvs ''hostIP'') (\<lambda>ip.
       Inr \<lparr>HostPort = hp, ContainerPort = cp, Protocol = proto, HostIP = ip\<rparr>)))))"

definition dec_port_map_conf :: "json \<Rightarrow> go_error + port_map_conf" where
  "dec_port_map_conf j =
     bind_sum (dec_netconf j) (\<lambda>net.
     bind_sum (jmembers j) (\<lambda>kvs.
     bind_sum (dec_field (dec_pointer dec_bool) None kvs ''snat'') (\<lambda>snat.
     bind_sum (dec_field (dec_pointer (dec_list dec_string)) None kvs ''conditionsV4'') (\<lambda>c4.
     bind_sum (dec_field (dec_pointer (dec_list dec_string)) None kvs ''conditionsV6'') (\<lambda>c6.
     bind_sum (dec_field (dec_pointer dec_int) None kvs ''markMasqBit'') (\<lambda>bit.
     bind_sum (dec_field (dec_pointer dec_string) None kvs ''externalSetMarkChain'') (\<lambda>ext.
     bind_sum (dec_field (\<lambda>j. bind_sum (jmembers j) (\<lambda>kvs.
         dec_field (dec_list dec_port_map_entry) [] kvs ''portMappings'')) [] kvs ''runtimeConfig'') (\<lambda>maps.
       Inr \<lparr>pmNet = net, SNAT = snat, ConditionsV4 = c4, ConditionsV6 = c6, MarkMasqBit = bit,
            ExternalSetMarkChain = ext, PortMaps = maps, pmContainerID = [], ContIPv4 = zero_net,
            ContIPv6 = zero_net\<rparr>))))))))"

definition portmap_prevResult :: "netconf \<Rightarrow> go_error + netconf \<times> result_cur option" where
  "portmap_prevResult conf =
     (if confRawPrevResult conf = None then Inr (conf, None)
      else case ParsePrevResult conf of
        Inl err \<Rightarrow> Inl (Msg (''could not parse prevResult: '' @ err_text err))
      | Inr conf \<Rightarrow>
          (case confPrevResult conf of
             None \<Rightarrow> Inr (conf, None)
           | Some prev \<Rightarrow>
               (case NewResultFromResult prev of
                  Inl err \<Rightarrow> Inl (Msg (''could not convert result to current version: '' @ err_text err))
                | Inr result \<Rightarrow> Inr (conf, Some result))))"

definition invalid_port :: "port_map_entry \<Rightarrow> go_error option" where
  "invalid_port pm =
     (if ContainerPort pm \<le> 0 then Some (Msg (''Invalid container port number: '' @ Itoa (ContainerPort pm)))
      else if HostPort pm \<le> 0 then Some (Msg (''Invalid host port number: '' @ Itoa (HostPort pm)))
      else None)"

text \<open>The first address of each family, of an interface inside the sandbox when it names one.\<close>

definition cont_ip :: "result_cur \<Rightarrow> string \<Rightarrow> port_map_conf \<Rightarrow> ip_config \<Rightarrow> port_map_conf" where
  "cont_ip result ifName conf ip =
     (if Version ip = ''6'' \<and> IP (ContIPv6 conf) \<noteq> [] then conf
      else if Version ip = ''4'' \<and> IP (ContIPv4 conf) \<noteq> [] then conf
      else if (case Interface ip of
                 None \<Rightarrow> False
               | Some i \<Rightarrow> 0 \<le> i \<and> i < int (length (Interfaces result)) \<and>
                   (Name (Interfaces result ! nat i) \<noteq> ifName \<or> Sandbox (Interfaces result ! nat i) = [])) then conf
      else if Version ip = ''6'' then conf\<lparr>ContIPv6 := Address ip\<rparr>
      else if Version ip = ''4'' then conf\<lparr>ContIPv4 := Address ip\<rparr>
      else conf)"

definition portmap_parseConfig :: "document \<Rightarrow> string \<Rightarrow> go_error + port_map_conf \<times> result_cur option" where
  "portmap_parseConfig stdin ifName =
     (case bind_sum stdin dec_port_map_conf of
        Inl err \<Rightarrow> Inl (Msg (''failed to parse network configuration: '' @ err_text err))
      | Inr conf \<Rightarrow>
          bind_sum (portmap_prevResult (pmNet conf)) (\<lambda>(net, result).
            let conf = conf\<lparr>pmNet := net, SNAT := (if SNAT conf = None then Some True else SNAT conf)\<rparr>
            in if MarkMasqBit conf \<noteq> None \<and> ExternalSetMarkChain conf \<noteq> None
               then Inl (Msg ''Cannot specify externalSetMarkChain and markMasqBit'')
               else let conf = conf\<lparr>MarkMasqBit := Some (mark_bit conf)\<rparr>
               in if mark_bit conf < 0 \<or> mark_bit conf > 31
                  then Inl (Msg ''MasqMarkBit must be between 0 and 31'')
                  else (case find (\<lambda>pm. invalid_port pm \<noteq> None) (PortMaps conf) of
                    Some pm \<Rightarrow> (case invalid_port pm of Some err \<Rightarrow> Inl err | None \<Rightarrow> Inr (conf, result))
                  | None \<Rightarrow>
                      Inr (case result of None \<Rightarrow> conf | Some r \<Rightarrow> foldl (cont_ip r ifName) conf (IPs r), result))))"

definition both_families :: "(port_map_conf \<Rightarrow> ip_net \<Rightarrow> 's \<Rightarrow> unit outcome \<times> 's) \<Rightarrow> port_map_conf \<Rightarrow> 's \<Rightarrow> unit outcome \<times> 's" where
  "both_families f conf s =
     then_out (if IP (ContIPv4 conf) \<noteq> [] then f conf (ContIPv4 conf) s else (Ret (), s)) (\<lambda>s.
     if IP (ContIPv6 conf) \<noteq> [] then f conf (ContIPv6 conf) s else (Ret (), s))"

definition portmap_cmdAdd :: "'s portmap_host \<Rightarrow> cmd_args \<Rightarrow> 's \<Rightarrow> cni_result outcome \<times> 's" where
  "portmap_cmdAdd H args s =
     (case portmap_parseConfig (StdinData args) (IfName args) of
        Inl err \<Rightarrow> (Fail (Msg (''failed to parse config: '' @ err_text err)), s)
      | Inr (conf, _) \<Rightarrow>
          (case confPrevResult (pmNet conf) of
             None \<Rightarrow> (Fail (Msg ''must be called as chained plugin''), s)
           | Some prev \<Rightarrow>
               if length (PortMaps conf) = 0 then (outcome_of (PrintResult prev (confCNIVersion (pmNet conf))), s)
               else then_out (both_families (forwardPorts H) (conf\<lparr>pmContainerID := ContainerID args\<rparr>) s) (\<lambda>s.
                 (outcome_of (PrintResult prev (confCNIVersion (pmNet conf))), s))))"

definition portmap_cmdDel :: "'s portmap_host \<Rightarrow> cmd_args \<Rightarrow> 's \<Rightarrow> unit outcome \<times> 's" where
  "portmap_cmdDel H args s =
     (case portmap_parseConfig (StdinData args) (IfName args) of
        Inl err \<Rightarrow> (Fail (Msg (''failed to parse config: '' @ err_text err)), s)
      | Inr (conf, _) \<Rightarrow>
          if length (PortMaps conf) = 0 then (Ret (), s)
          else unforwardPorts H (conf\<lparr>pmContainerID := ContainerID args\<rparr>) s)"

definition portmap_cmdCheck :: "'s portmap_host \<Rightarrow> cmd_args \<Rightarrow> 's \<Rightarrow> unit outcome \<times> 's" where
  "portmap_cmdCheck H args s =
     (case portmap_parseConfig (StdinData args) (IfName args) of
        Inl err \<Rightarrow> (Fail err, s)
      | Inr (conf, None) \<Rightarrow> (Fail (Msg ''Required prevResult missing''), s)
      | Inr (conf, Some result) \<Rightarrow>
          if length (PortMaps conf) = 0 then (Ret (), s)
          else both_families (\<lambda>c n s. (checkPorts H c n s, s)) (conf\<lparr>pmContainerID := ContainerID args\<rparr>) s)"

text \<open>A plugin with its commands and the results that its ADD prints.\<close>

definition printing :: "('s \<Rightarrow> cni_result outcome \<times> 's) \<Rightarrow> 's \<times> cni_result list \<Rightarrow> unit outcome \<times> 's \<times> cni_result list" where
  "printing f = (\<lambda>(s, out). case f s of
     (Ret x, s) \<Rightarrow> (Ret (), s, out @ [x]) | (Fail err, s) \<Rightarrow> (Fail err, s, out) | (Panic m, s) \<Rightarrow> (Panic m, s, out))"

definition silent :: "('s \<Rightarrow> unit outcome \<times> 's) \<Rightarrow> 's \<times> cni_result list \<Rightarrow> unit outcome \<times> 's \<times> cni_result list" where
  "silent f = (\<lambda>(s, out). case f s of (r, s) \<Rightarrow> (r, s, out))"

definition portmap ::
  "'s portmap_host \<Rightarrow> ('s \<times> cni_result list) dispatcher \<Rightarrow> 's \<times> cni_result list \<Rightarrow>
    (unit outcome \<times> 's \<times> cni_result list) option" where
  "portmap H t w =
     pluginMain t (\<lambda>args w. Some (printing (portmap_cmdAdd H args) w)) (\<lambda>args w. Some (silent (portmap_cmdCheck H args) w))
       (\<lambda>args w. Some (silent (portmap_cmdDel H args) w)) version_All (BuildString ''portmap'' BuildVersion) w"

end
