(* ===== verification/IpTables_Mem.thy ===== *)
theory IpTables_Mem
  imports IpTables "HOL-Library.AList"
begin

text \<open>
  Rules kept in memory, with the commands of the library \<open>go-iptables\<close> on them: an instance of
  the interface \<open>iptables\<close>. Words of a printed rule are quoted as in a shell.
\<close>

section \<open>Words\<close>

definition plain_char :: "char \<Rightarrow> bool" where
  "plain_char c \<longleftrightarrow> c \<noteq> CHR '' '' \<and> c \<noteq> CHR 0x22 \<and> c \<noteq> CHR 0x5C"

definition escape :: "string \<Rightarrow> string" where
  "escape w = concat (map (\<lambda>c. if c = CHR 0x22 \<or> c = CHR 0x5C then [CHR 0x5C, c] else [c]) w)"

definition show_word :: "string \<Rightarrow> string" where
  "show_word w = (if w \<noteq> [] \<and> list_all plain_char w then w else CHR 0x22 # escape w @ [CHR 0x22])"

text \<open>The words of a line: inside quotes, after a backslash, in a word, and the word so far.\<close>

fun words :: "bool \<Rightarrow> bool \<Rightarrow> bool \<Rightarrow> string \<Rightarrow> string \<Rightarrow> string list" where
  "words quoted esc got acc [] = (if got then [acc] else [])"
| "words quoted esc got acc (c # cs) =
     (if esc then words quoted False True (acc @ [c]) cs
      else if c = CHR 0x5C then words quoted True True acc cs
      else if c = CHR 0x22 then words (\<not> quoted) False True acc cs
      else if c = CHR '' '' \<and> \<not> quoted then
        (if got then acc # words False False False [] cs else words False False False [] cs)
      else words quoted False True (acc @ [c]) cs)"

lemma words_plain:
  "list_all plain_char w \<Longrightarrow> words False False got acc (w @ cs) = words False False (got \<or> w \<noteq> []) (acc @ w) cs"
  by (induction w arbitrary: got acc) (auto simp: plain_char_def)

lemma words_escape: "words True False True acc (escape w @ cs) = words True False True (acc @ w) cs"
  by (induction w arbitrary: acc) (auto simp: escape_def)

lemma words_show_word: "words False False False [] (show_word w @ cs) = words False False True w cs"
  by (auto simp: show_word_def words_plain words_escape)

lemma words_line: "words False False False [] (join '' '' (map show_word ws)) = ws"
proof (induction ws rule: induct_list012)
  case (2 w)
  show ?case using words_show_word [of w "[]"] by simp
next
  case (3 v w ws)
  then show ?case using words_show_word [of v "CHR '' '' # join '' '' (map show_word (w # ws))"] by simp
qed simp

section \<open>The commands\<close>

type_synonym mem_rules = "((bool \<times> string \<times> string) \<times> string list list) list"

definition mem_ruleset :: "mem_rules \<Rightarrow> bool \<Rightarrow> string list ruleset" where
  "mem_ruleset s v6 = (\<lambda>(t, c). map_of s (v6, t, c))"

definition mem_line :: "string \<Rightarrow> string list \<Rightarrow> string" where
  "mem_line c r = join '' '' (map show_word ([''-A'', c] @ r))"

definition mem_parse :: "string \<Rightarrow> go_error + string list" where
  "mem_parse line = Inr (words False False False [] line)"

definition mem_missing :: go_error where
  "mem_missing = IptablesError 1 True ''No chain/target/match by that name.''"

definition mem_change :: "bool \<Rightarrow> string \<Rightarrow> string \<Rightarrow> (string list list \<Rightarrow> string list list) \<Rightarrow> mem_rules \<Rightarrow>
    go_error option \<times> mem_rules" where
  "mem_change v6 t c f s =
     (case map_of s (v6, t, c) of None \<Rightarrow> (Some mem_missing, s) | Some rs \<Rightarrow> (None, AList.update (v6, t, c) (f rs) s))"

definition mem_iptables :: "bool \<Rightarrow> mem_rules iptables" where
  "mem_iptables v6 =
     \<lparr>ipt_ListChains = (\<lambda>t s. Inr (map (\<lambda>((f, t, c), rs). c) (filter (\<lambda>((f, t', c), rs). f = v6 \<and> t' = t) s))),
      ipt_List = (\<lambda>t c s. case map_of s (v6, t, c) of
        None \<Rightarrow> Inl mem_missing | Some rs \<Rightarrow> Inr ((''-N '' @ c) # map (mem_line c) rs)),
      ipt_Exists = (\<lambda>t c r s. case map_of s (v6, t, c) of None \<Rightarrow> Inr False | Some rs \<Rightarrow> Inr (r \<in> set rs)),
      ipt_NewChain = (\<lambda>t c s. if map_of s (v6, t, c) = None then (None, AList.update (v6, t, c) [] s)
        else (Some (IptablesError 1 False ''Chain already exists.''), s)),
      ipt_ClearChain = (\<lambda>t c s. (None, AList.update (v6, t, c) [] s)),
      ipt_DeleteChain = (\<lambda>t c s. if map_of s (v6, t, c) = None then (Some mem_missing, s)
        else (None, AList.delete (v6, t, c) s)),
      ipt_Insert = (\<lambda>t c n r. mem_change v6 t c (\<lambda>rs. take (nat (n - 1)) rs @ [r] @ drop (nat (n - 1)) rs)),
      ipt_Append = (\<lambda>t c r. mem_change v6 t c (\<lambda>rs. rs @ [r])),
      ipt_AppendUnique = (\<lambda>t c r. mem_change v6 t c (add_unique False r)),
      ipt_Delete = (\<lambda>t c r s. case map_of s (v6, t, c) of
        None \<Rightarrow> (Some mem_missing, s)
      | Some rs \<Rightarrow> if r \<in> set rs then (None, AList.update (v6, t, c) (remove1 r rs) s)
          else (Some (IptablesError 1 True ''Bad rule (does a matching rule exist in that chain?).''), s))\<rparr>"

lemma mem_iptables_simps:
  "ipt_List (mem_iptables v6) t c s = (case map_of s (v6, t, c) of
      None \<Rightarrow> Inl mem_missing | Some rs \<Rightarrow> Inr ((''-N '' @ c) # map (mem_line c) rs))"
  "ipt_Exists (mem_iptables v6) t c r s = (case map_of s (v6, t, c) of None \<Rightarrow> Inr False | Some rs \<Rightarrow> Inr (r \<in> set rs))"
  "ipt_NewChain (mem_iptables v6) t c s = (if map_of s (v6, t, c) = None then (None, AList.update (v6, t, c) [] s)
      else (Some (IptablesError 1 False ''Chain already exists.''), s))"
  "ipt_ClearChain (mem_iptables v6) t c s = (None, AList.update (v6, t, c) [] s)"
  "ipt_DeleteChain (mem_iptables v6) t c s = (if map_of s (v6, t, c) = None then (Some mem_missing, s)
      else (None, AList.delete (v6, t, c) s))"
  "ipt_Insert (mem_iptables v6) t c n r s = mem_change v6 t c (\<lambda>rs. take (nat (n - 1)) rs @ [r] @ drop (nat (n - 1)) rs) s"
  "ipt_Append (mem_iptables v6) t c r s = mem_change v6 t c (\<lambda>rs. rs @ [r]) s"
  "ipt_AppendUnique (mem_iptables v6) t c r s = mem_change v6 t c (add_unique False r) s"
  by (simp_all add: mem_iptables_def)

lemma mem_ruleset_apply [simp]: "mem_ruleset s v6 (t, c) = map_of s (v6, t, c)"
  by (simp add: mem_ruleset_def)

lemma mem_ruleset_update: "mem_ruleset (AList.update (v6, t, c) rs s) =
    (mem_ruleset s)(v6 := (mem_ruleset s v6)((t, c) \<mapsto> rs))"
  by (auto simp: mem_ruleset_def update_conv' fun_eq_iff)

lemma mem_ruleset_delete: "mem_ruleset (AList.delete (v6, t, c) s) =
    (mem_ruleset s)(v6 := (mem_ruleset s v6)((t, c) := None))"
  by (auto simp: mem_ruleset_def delete_conv' fun_eq_iff)

lemma mem_change_None:
  "mem_change v6 t c f s = (None, s') \<Longrightarrow> \<exists>rs. map_of s (v6, t, c) = Some rs \<and>
    mem_ruleset s' = (mem_ruleset s)(v6 := (mem_ruleset s v6)((t, c) \<mapsto> f rs))"
  by (auto simp: mem_change_def mem_ruleset_update split: option.splits)

lemma mem_change_Some: "mem_change v6 t c f s = (Some e, s') \<Longrightarrow> s' = s"
  by (auto simp: mem_change_def split: option.splits)

lemma mem_ListChains:
  assumes "ipt_ListChains (mem_iptables v6) t s = Inr cs"
  shows "c \<in> set cs \<longleftrightarrow> mem_ruleset s v6 (t, c) \<noteq> None"
proof -
  have "set cs = {c. \<exists>rs. ((v6, t, c), rs) \<in> set s}"
    using assms by (force simp: mem_iptables_def)
  then show ?thesis by (force simp: map_of_eq_None_iff)
qed

interpretation mem_ipt: iptables "mem_iptables v6" v6 mem_ruleset "\<lambda>r. r" mem_line mem_parse
proof (unfold_locales, goal_cases)
  case (1 t s cs c)
  then show ?case by (rule mem_ListChains)
next
  case (15 s t c rs q)
  have "mem_parse (mem_line c q) = Inr ([''-A'', c] @ q)" unfolding mem_parse_def mem_line_def words_line ..
  then show ?case by simp
next
  case (16 name c r)
  have "is_alnum x \<or> x = CHR ''-'' \<Longrightarrow> plain_char x" for x
    by (auto simp: plain_char_def is_alnum_def)
  with 16 have "show_word name = name" by (auto simp: show_word_def list_all_iff)
  moreover have "show_word ''-j'' = ''-j''" by (simp add: show_word_def plain_char_def)
  moreover have last: "join '' '' (map show_word (ws @ [w])) = join '' '' (map show_word ws) @ '' '' @ show_word w" if "ws \<noteq> []" for ws w
    using that by (simp add: join_snoc)
  then have "mem_line c (r @ [''-j'', name]) = (join '' '' (map show_word ([''-A'', c] @ r)) @ '' '') @ (show_word ''-j'' @ '' '' @ show_word name)"
    using last [of "[''-A'', c] @ r @ [''-j'']" name] last [of "[''-A'', c] @ r" "''-j''"]
    by (simp add: mem_line_def del: join.simps)
  ultimately have "mem_line c (r @ [''-j'', name]) = (join '' '' (map show_word ([''-A'', c] @ r)) @ '' '') @ (''-j '' @ name)"
    by simp
  then show ?case by (metis has_suffix_append)
qed (auto simp: mem_iptables_def mem_ruleset_update mem_ruleset_delete mem_missing_def statusChainExists_def
    dest: mem_change_None mem_change_Some split: option.splits if_splits)

end
