(* ===== verification/Chains.thy ===== *)
theory Chains
  imports PortMap IpTables_Mem "HOL-Library.Multiset"
begin

text \<open>
  \<open>setup\<close> and \<open>teardown\<close> of a chain (\<open>chain.go\<close>) against their effect on the abstract rule
  set, inside the locale \<open>iptables\<close>: what a run that succeeds does, and what a run that may have
  failed leaves alone.
\<close>

section \<open>The effect of a chain\<close>

text \<open>
  An operation adds a rule to a chain unless it is there: \<open>((table, chain), front, rule)\<close>. The
  operations of \<open>setup\<close>, and its effect and that of \<open>teardown\<close> on the rules of a family.
\<close>

type_synonym 'r add_op = "(string \<times> string) \<times> bool \<times> 'r"

fun add_op :: "'r add_op \<Rightarrow> 'r ruleset \<Rightarrow> 'r ruleset" where
  "add_op (k, front, r) m = on_chain k (add_unique front r) m"

definition setup_ops :: "(string list \<Rightarrow> 'r) \<Rightarrow> chain \<Rightarrow> 'r add_op list" where
  "setup_ops canon c =
     map (\<lambda>r. ((ch_table c, ch_name c), False, canon r)) (ch_rules c) @
     concat (map (\<lambda>e. map (\<lambda>r. ((ch_table c, e), prependEntry c, canon (entry_rule c r))) (entryRules c)) (entryChains c))"

definition spec_setup :: "(string list \<Rightarrow> 'r) \<Rightarrow> chain \<Rightarrow> 'r ruleset \<Rightarrow> 'r ruleset" where
  "spec_setup canon c m = fold add_op (setup_ops canon c) (ensured (ch_table c, ch_name c) m)"

definition jumps :: "(string \<Rightarrow> 'r \<Rightarrow> string) \<Rightarrow> string \<Rightarrow> string \<Rightarrow> 'r \<Rightarrow> bool" where
  "jumps shown e name r \<longleftrightarrow> has_suffix (shown e r) (''-j '' @ name)"

definition unlink :: "(string \<Rightarrow> 'r \<Rightarrow> string) \<Rightarrow> string \<Rightarrow> string \<Rightarrow> string \<Rightarrow> 'r ruleset \<Rightarrow> 'r ruleset" where
  "unlink shown t name e = on_chain (t, e) (filter (\<lambda>r. \<not> jumps shown e name r))"

definition spec_teardown :: "(string \<Rightarrow> 'r \<Rightarrow> string) \<Rightarrow> chain \<Rightarrow> 'r ruleset \<Rightarrow> 'r ruleset" where
  "spec_teardown shown c m =
     (fold (unlink shown (ch_table c) (ch_name c)) (entryChains c) m)((ch_table c, ch_name c) := None)"

definition present :: "string \<times> string \<Rightarrow> 'r \<Rightarrow> 'r ruleset \<Rightarrow> bool" where
  "present k r m \<longleftrightarrow> (\<forall>rs. m k = Some rs \<longrightarrow> r \<in> set rs)"

declare add_op.simps [simp del]

lemma add_op_apply: "add_op (k, front, r) m k' = (if k' = k then map_option (add_unique front r) (m k) else m k')"
  by (simp add: add_op.simps on_chain_apply)

lemma add_op_present: "present k r (add_op (k, front, r) m)"
  by (auto simp: present_def add_op_apply)

lemma add_op_keeps: "present k r m \<Longrightarrow> present k r (add_op p m)"
  by (cases p) (auto simp: present_def add_op_apply split: if_splits)

lemma fold_add_op_keeps: "present k r m \<Longrightarrow> present k r (fold add_op ops m)"
  by (induction ops arbitrary: m) (simp_all add: add_op_keeps)

lemma fold_add_op_present: "(k, front, r) \<in> set ops \<Longrightarrow> present k r (fold add_op ops m)"
proof (induction ops arbitrary: m)
  case (Cons p ops)
  then show ?case using fold_add_op_keeps [OF add_op_present [of k r front m]] by auto
qed simp

lemma add_op_done: "present k r m \<Longrightarrow> add_op (k, front, r) m = m"
  by (auto simp: present_def add_op.simps on_chain_def split: option.split)

lemma fold_add_op_done: "\<forall>(k, front, r)\<in>set ops. present k r m \<Longrightarrow> fold add_op ops m = m"
  by (induction ops) (auto simp: add_op_done)

lemma add_op_dom: "add_op p m k = None \<longleftrightarrow> m k = None"
  by (cases p) (auto simp: add_op_apply)

lemma fold_add_op_dom: "fold add_op ops m k = None \<longleftrightarrow> m k = None"
  by (induction ops arbitrary: m) (simp_all add: add_op_dom)

lemma spec_setup_idem: "spec_setup canon c (spec_setup canon c m) = spec_setup canon c m"
proof -
  let ?m = "spec_setup canon c m"
  have "?m (ch_table c, ch_name c) \<noteq> None"
    by (simp add: spec_setup_def fold_add_op_dom ensured_apply)
  then have "ensured (ch_table c, ch_name c) ?m = ?m" by (auto simp: ensured_def)
  moreover have "\<forall>(k, front, r)\<in>set (setup_ops canon c). present k r ?m"
    unfolding spec_setup_def using fold_add_op_present by fast
  ultimately show ?thesis by (simp add: spec_setup_def [of canon c ?m] fold_add_op_done)
qed

text \<open>What \<open>setup\<close> adds, \<open>teardown\<close> takes away.\<close>

lemma filter_add_unique: "\<not> P r \<Longrightarrow> filter P (add_unique front r rs) = filter P rs"
  by (simp add: add_unique_def)

lemma fold_unlink:
  "(fold (unlink shown t name) es m) (t', e) =
     (if t' = t \<and> e \<in> set es then map_option (filter (\<lambda>r. \<not> jumps shown e name r)) (m (t', e)) else m (t', e))"
  by (induction es arbitrary: m) (auto simp: unlink_def on_chain_apply option.map_comp comp_def)

lemma setup_ops_filter:
  assumes "\<forall>(k', front, r)\<in>set ops. k' = k \<longrightarrow> \<not> P r"
  shows "map_option (filter P) (fold add_op ops m k) = map_option (filter P) (m k)"
  using assms
proof (induction ops arbitrary: m)
  case (Cons p ops)
  obtain k' front r where p: "p = (k', front, r)" by (cases p)
  have "map_option (filter P) (add_op p m k) = map_option (filter P) (m k)"
    using Cons.prems p
    by (cases "m k") (auto simp: add_op_apply filter_add_unique)
  with Cons show ?case by simp
qed simp

lemma setup_ops_other: "k \<notin> fst ` set ops \<Longrightarrow> fold add_op ops m k = m k"
  by (induction ops arbitrary: m) (force simp: add_op_apply)+

lemma teardown_setup:
  assumes new: "m (ch_table c, ch_name c) = None"
    and unused: "\<And>e rs r. e \<in> set (entryChains c) \<Longrightarrow> m (ch_table c, e) = Some rs \<Longrightarrow> r \<in> set rs \<Longrightarrow>
      \<not> jumps shown e (ch_name c) r"
    and jump: "\<And>e r. r \<in> set (entryRules c) \<Longrightarrow> jumps shown e (ch_name c) (canon (entry_rule c r))"
    and other: "ch_name c \<notin> set (entryChains c)"
  shows "spec_teardown shown c (spec_setup canon c m) = m"
proof
  fix k :: "string \<times> string"
  obtain t e where k: "k = (t, e)" by (cases k)
  let ?k = "(ch_table c, ch_name c)"
  consider "k = ?k" | "k \<noteq> ?k" "t = ch_table c" "e \<in> set (entryChains c)"
    | "k \<noteq> ?k" "\<not> (t = ch_table c \<and> e \<in> set (entryChains c))" by blast
  then show "spec_teardown shown c (spec_setup canon c m) k = m k"
  proof cases
    case 1
    then show ?thesis using new by (simp add: spec_teardown_def)
  next
    case 2
    let ?P = "\<lambda>r. \<not> jumps shown e (ch_name c) r"
    have "\<forall>(k', front, r)\<in>set (setup_ops canon c). k' = k \<longrightarrow> \<not> ?P r"
      using jump other 2 k by (auto simp: setup_ops_def)
    then have "map_option (filter ?P) (spec_setup canon c m k) = map_option (filter ?P) (m k)"
      using setup_ops_filter [of "setup_ops canon c" k ?P] 2(1) by (simp add: spec_setup_def ensured_apply)
    also have "\<dots> = m k" using unused 2 k by (cases "m k") (auto intro: filter_True)
    finally show ?thesis using 2 k by (simp add: spec_teardown_def fold_unlink)
  next
    case 3
    then have "k \<notin> fst ` set (setup_ops canon c)" using k by (auto simp: setup_ops_def)
    then have "spec_setup canon c m k = m k"
      using 3(1) by (simp add: spec_setup_def setup_ops_other ensured_apply)
    then show ?thesis using 3 k by (auto simp: spec_teardown_def fold_unlink)
  qed
qed

section \<open>The code against the effect\<close>

text \<open>An effect on one family of the rules.\<close>

definition on_family :: "bool \<Rightarrow> ('r ruleset \<Rightarrow> 'r ruleset) \<Rightarrow> (bool \<Rightarrow> 'r ruleset) \<Rightarrow> bool \<Rightarrow> 'r ruleset" where
  "on_family v6 h R = R(v6 := h (R v6))"

lemma on_family_comp [simp]: "on_family v6 g (on_family v6 h R) = on_family v6 (g \<circ> h) R"
  by (simp add: on_family_def)

lemma then_ipt_None: "then_ipt r f = (None, s') \<longleftrightarrow> (\<exists>s. r = (None, s) \<and> f s = (None, s'))"
  by (auto simp: then_ipt_def split: prod.splits option.splits)

lemma each_fold:
  assumes "\<And>x s s'. x \<in> set xs \<Longrightarrow> f x s = (None, s') \<Longrightarrow> V s' = on_family v6 (g x) (V s)" "each f xs s = (None, s')"
  shows "V s' = on_family v6 (fold g xs) (V s)"
  using assms
proof (induction xs arbitrary: s)
  case Nil
  then show ?case by (simp add: on_family_def)
next
  case (Cons x xs)
  then obtain s1 where "f x s = (None, s1)" "each f xs s1 = (None, s')" by (auto simp: then_ipt_None)
  then have "V s1 = on_family v6 (g x) (V s)" "V s' = on_family v6 (fold g xs) (V s1)"
    using Cons.prems(1) [of x s s1] Cons.IH [of s1] Cons.prems(1) by auto
  then show ?case by (simp add: comp_def)
qed

lemma fold_concat_map: "fold (\<lambda>x. fold g (h x)) xs = fold g (concat (map h xs))"
  by (induction xs) simp_all

context iptables begin

lemma insertUnique_None:
  assumes "insertUnique I t c front r s = (None, s')"
  shows "rules s' = on_family v6 (add_op ((t, c), front, canon r)) (rules s)"
proof -
  obtain b where b: "ipt_Exists I t c r s = Inr b" using assms by (auto simp: insertUnique_def split: sum.splits)
  show ?thesis
  proof (cases b)
    case True
    then have "present (t, c) (canon r) (rules s v6)" using Exists [OF b] by (auto simp: present_def)
    then show ?thesis using assms b True by (simp add: insertUnique_def add_op_done on_family_def)
  next
    case False
    then have new: "rules s v6 (t, c) = Some rs \<Longrightarrow> canon r \<notin> set rs" for rs using Exists [OF b] by auto
    show ?thesis
      using assms b False new Insert [of t c r s s'] Append [of t c r s s']
      by (cases front) (auto simp: insertUnique_def add_op.simps on_chain_def add_unique_def on_family_def)
  qed
qed

lemma setup_None:
  assumes "chain_setup c I s = (None, s')"
  shows "rules s' = on_family v6 (spec_setup canon c) (rules s)"
proof -
  obtain s1 s2 where 1: "EnsureChain I (ch_table c) (ch_name c) s = (None, s1)"
    and 2: "each (insertUnique I (ch_table c) (ch_name c) False) (ch_rules c) s1 = (None, s2)"
    and 3: "each (\<lambda>entryChain. each (\<lambda>rule.
        insertUnique I (ch_table c) entryChain (prependEntry c) (entry_rule c rule)) (entryRules c)) (entryChains c) s2 = (None, s')"
    using assms by (auto simp: chain_setup_def then_ipt_None)
  have "rules s1 = on_family v6 (ensured (ch_table c, ch_name c)) (rules s)"
    using EnsureChain_None [OF 1] by (simp add: on_family_def)
  moreover have "rules s2 = on_family v6 (fold (\<lambda>r. add_op ((ch_table c, ch_name c), False, canon r)) (ch_rules c)) (rules s1)"
    by (rule each_fold [OF insertUnique_None 2])
  moreover have "rules s' = on_family v6 (fold (\<lambda>e. fold (\<lambda>r. add_op ((ch_table c, e), prependEntry c, canon (entry_rule c r)))
      (entryRules c)) (entryChains c)) (rules s2)"
    by (rule each_fold [OF each_fold [OF insertUnique_None] 3])
  ultimately show ?thesis
    by (simp add: spec_setup_def [abs_def] setup_ops_def fold_map comp_def fold_concat_map [symmetric] map_concat)
qed

lemma fold_remove1_filter:
  "list_all (\<lambda>y. \<not> P y) ys \<Longrightarrow> fold remove1 (filter P xs) (ys @ xs) = ys @ filter (\<lambda>x. \<not> P x) xs"
proof (induction xs arbitrary: ys)
  case (Cons x xs)
  show ?case
  proof (cases "P x")
    case True
    then have "x \<notin> set ys" using Cons.prems by (auto simp: list_all_iff)
    then show ?thesis using True Cons by (simp add: remove1_append)
  next
    case False
    then show ?thesis using Cons.IH [of "ys @ [x]"] Cons.prems by simp
  qed
qed simp

lemma delete_entries_Ret:
  assumes "delete_entries parse c I e (map (shown e) qs) s = (r, s')"
    and "rules s v6 (ch_table c, e) = Some rs" "mset (filter (jumps shown e (ch_name c)) qs) \<subseteq># mset rs"
  shows "(\<forall>m. r \<noteq> Panic m) \<and> (r = Ret () \<longrightarrow> rules s' =
    (rules s)(v6 := (rules s v6)((ch_table c, e) \<mapsto> fold remove1 (filter (jumps shown e (ch_name c)) qs) rs)))"
  using assms
proof (induction qs arbitrary: s rs)
  case Nil
  then show ?case by (auto simp: fun_upd_idem)
next
  case (Cons q qs)
  show ?case
  proof (cases "jumps shown e (ch_name c) q")
    case False
    then show ?thesis using Cons by (simp add: jumps_def)
  next
    case True
    then have q: "q \<in> set rs" using Cons.prems(3) by (metis filter.simps(2) mset_subset_eqD set_mset_mset list.set_intros(1))
    obtain spec where spec: "parse (shown e q) = Inr (''-A'' # e # spec)" "canon spec = q"
      using parse_shown [OF Cons.prems(2) q] by blast
    obtain x s1 where d: "DeleteRule I (ch_table c) e spec s = (x, s1)" by (cases "DeleteRule I (ch_table c) e spec s")
    show ?thesis
    proof (cases x)
      case (Some err)
      then show ?thesis using Cons.prems(1) True spec d by (auto simp: jumps_def)
    next
      case None
      let ?m = "(rules s v6)((ch_table c, e) \<mapsto> remove1 q rs)"
      have s1: "rules s1 = (rules s)(v6 := ?m)"
        using DeleteRule_None [OF d [unfolded None] Cons.prems(2)] q spec(2) by simp
      have "delete_entries parse c I e (map (shown e) qs) s1 = (r, s')"
        using Cons.prems(1) True spec d None by (simp add: jumps_def)
      moreover have "mset (filter (jumps shown e (ch_name c)) qs) \<subseteq># mset (remove1 q rs)"
        using Cons.prems(3) True by (simp add: insert_subset_eq_iff)
      moreover have "(rules s1)(v6 := (rules s1 v6)((ch_table c, e) \<mapsto> xs)) = (rules s)(v6 := (rules s v6)((ch_table c, e) \<mapsto> xs))" for xs
        by (simp add: s1)
      moreover have "rules s1 v6 (ch_table c, e) = Some (remove1 q rs)" by (simp add: s1)
      ultimately show ?thesis
        using Cons.IH [of s1 "remove1 q rs"] True by (simp del: fun_upd_apply)
    qed
  qed
qed

lemma unlink_chains_Ret:
  assumes "unlink_chains parse c I es s = (r, s')"
    and "\<And>e t. e \<in> set es \<Longrightarrow> rules t v6 (ch_table c, e) \<noteq> None \<Longrightarrow> \<exists>lines. ipt_List I (ch_table c) e t = Inr lines"
  shows "(\<forall>m. r \<noteq> Panic m) \<and> (r = Ret () \<longrightarrow>
    rules s' = on_family v6 (fold (unlink shown (ch_table c) (ch_name c)) es) (rules s))"
  using assms
proof (induction es arbitrary: s)
  case Nil
  then show ?case by (auto simp: on_family_def)
next
  case (Cons e es)
  show ?case
  proof (cases "ipt_List I (ch_table c) e s")
    case (Inl err)
    then have "rules s v6 (ch_table c, e) = None" using Cons.prems(2) [of e s] by force
    then have "unlink shown (ch_table c) (ch_name c) e (rules s v6) = rules s v6"
      by (simp add: unlink_def on_chain_def)
    then show ?thesis using Cons Inl by (simp add: on_family_def)
  next
    case (Inr lines)
    obtain header rs where l: "rules s v6 (ch_table c, e) = Some rs" "lines = header # map (shown e) rs"
      using List [OF Inr] by blast
    obtain x s1 where d: "delete_entries parse c I e (map (shown e) rs) s = (x, s1)"
      by (cases "delete_entries parse c I e (map (shown e) rs) s")
    have x: "\<forall>m. x \<noteq> Panic m" "x = Ret () \<Longrightarrow> rules s1 = (rules s)(v6 := (rules s v6)((ch_table c, e) \<mapsto>
        filter (\<lambda>r. \<not> jumps shown e (ch_name c) r) rs))"
      using delete_entries_Ret [OF d l(1)] fold_remove1_filter [of "jumps shown e (ch_name c)" "[]" rs]
      by (simp_all add: mset_filter multiset_filter_subset)
    show ?thesis
    proof (cases x)
      case (Ret u)
      then have "rules s1 = on_family v6 (unlink shown (ch_table c) (ch_name c) e) (rules s)"
        using x(2) l(1) by (simp add: on_family_def unlink_def on_chain_upd)
      moreover have "unlink_chains parse c I es s1 = (r, s')" using Cons.prems(1) Inr l(2) d Ret by simp
      ultimately show ?thesis using Cons.IH [of s1] Cons.prems(2) by (simp add: comp_def)
    qed (use Cons.prems(1) Inr l(2) d x(1) in auto)
  qed
qed

lemma teardown_Ret:
  assumes "chain_teardown parse c I s = (r, s')" "ch_name c \<notin> set (entryChains c)"
    and "\<And>e t. e \<in> set (entryChains c) \<Longrightarrow> rules t v6 (ch_table c, e) \<noteq> None \<Longrightarrow>
      \<exists>lines. ipt_List I (ch_table c) e t = Inr lines"
  shows "(\<forall>m. r \<noteq> Panic m) \<and> (r = Ret () \<longrightarrow> rules s' = on_family v6 (spec_teardown shown c) (rules s))"
proof -
  let ?k = "(ch_table c, ch_name c)" and ?u = "fold (unlink shown (ch_table c) (ch_name c)) (entryChains c)"
  obtain x s1 where 1: "ClearChain I (ch_table c) (ch_name c) s = (x, s1)" by (cases "ClearChain I (ch_table c) (ch_name c) s")
  obtain y s2 where 2: "unlink_chains parse c I (entryChains c) s1 = (y, s2)"
    by (cases "unlink_chains parse c I (entryChains c) s1")
  note u = unlink_chains_Ret [OF 2 assms(3)]
  show ?thesis
  proof (cases "x = None \<and> y = Ret ()")
    case True
    have "rules s2 = (rules s)(v6 := ?u ((rules s v6)(?k \<mapsto> [])))"
      using u True ClearChain_None [of "ch_table c" "ch_name c" s s1] 1 by (simp add: on_family_def)
    moreover have "(?u ((rules s v6)(?k \<mapsto> [])))(?k := None) = (?u (rules s v6))(?k := None)"
      by (auto simp: fold_unlink fun_eq_iff)
    ultimately have "rules s' = on_family v6 (spec_teardown shown c) (rules s)" if "r = Ret ()"
      using that assms(1) 1 2 True DeleteChain_None [of "ch_table c" "ch_name c" s2 s']
      by (auto simp: chain_teardown_def then_out_def err_outcome_def on_family_def spec_teardown_def split: prod.splits option.splits)
    then show ?thesis
      using assms(1) 1 2 True
      by (auto simp: chain_teardown_def then_out_def err_outcome_def split: prod.splits option.splits)
  next
    case False
    then show ?thesis
      using assms(1) 1 2 u
      by (cases y) (auto simp: chain_teardown_def then_out_def err_outcome_def split: prod.splits option.splits)
  qed
qed

end

text \<open>A run that may have failed changes nothing outside the chains it works on.\<close>

definition same_except :: "bool \<Rightarrow> (string \<times> string) set \<Rightarrow> (bool \<Rightarrow> 'r ruleset) \<Rightarrow> (bool \<Rightarrow> 'r ruleset) \<Rightarrow> bool" where
  "same_except v6 ks R R' \<longleftrightarrow> (\<forall>f k. f \<noteq> v6 \<or> k \<notin> ks \<longrightarrow> R' f k = R f k)"

lemma same_except_refl [simp]: "same_except v6 ks R R"
  by (simp add: same_except_def)

lemma same_except_trans: "same_except v6 ks R R' \<Longrightarrow> same_except v6 ks R' R'' \<Longrightarrow> same_except v6 ks R R''"
  by (simp add: same_except_def)

lemma same_except_upd: "k \<in> ks \<Longrightarrow> same_except v6 ks R (R(v6 := (R v6)(k := x)))"
  by (simp add: same_except_def)

context iptables begin

lemma failed_same:
  "ipt_NewChain I t c s = (Some e, s') \<Longrightarrow> rules s' = rules s"
  "ipt_ClearChain I t c s = (Some e, s') \<Longrightarrow> rules s' = rules s"
  "ipt_DeleteChain I t c s = (Some e, s') \<Longrightarrow> rules s' = rules s"
  "ipt_Delete I t c r s = (Some e, s') \<Longrightarrow> rules s' = rules s"
  using failed by blast+

lemma EnsureChain_same:
  assumes "EnsureChain I t c s = (r, s')" "(t, c) \<in> ks"
  shows "same_except v6 ks (rules s) (rules s')"
  using assms NewChain [of t c s s'] failed_same(1) [of t c s _ s'] same_except_upd [OF assms(2)]
  by (cases "ipt_NewChain I t c s") (auto simp: EnsureChain_def split: sum.splits bool.splits option.splits if_splits)

lemma ClearChain_same:
  assumes "ClearChain I t c s = (r, s')" "(t, c) \<in> ks"
  shows "same_except v6 ks (rules s) (rules s')"
proof -
  obtain e s1 where e: "ipt_ClearChain I t c s = (e, s1)" by (cases "ipt_ClearChain I t c s")
  show ?thesis
  proof (cases e)
    case None
    then show ?thesis using assms e ClearChain [of t c s s1] same_except_upd [OF assms(2)] by (simp add: ClearChain_def)
  next
    case (Some err)
    then have "rules s1 = rules s" using failed_same(2) e by blast
    then show ?thesis
      using assms e Some EnsureChain_same [of t c s1 r s' ks] by (auto simp: ClearChain_def split: if_splits)
  qed
qed

lemma DeleteRule_same:
  assumes "DeleteRule I t c q s = (r, s')" "(t, c) \<in> ks"
  shows "same_except v6 ks (rules s) (rules s')"
proof (cases "ipt_Delete I t c q s")
  case (Pair e s1)
  then have "s1 = s'" using assms(1) by (auto simp: DeleteRule_def split: option.splits)
  then show ?thesis
    using Pair Delete [of t c q s s'] failed_same(4) [of t c q s _ s'] same_except_upd [OF assms(2)] by (cases e) auto
qed

lemma DeleteChain_same:
  assumes "DeleteChain I t c s = (r, s')" "(t, c) \<in> ks"
  shows "same_except v6 ks (rules s) (rules s')"
proof (cases "ipt_DeleteChain I t c s")
  case (Pair e s1)
  then have "s1 = s'" using assms(1) by (auto simp: DeleteChain_def split: option.splits)
  then show ?thesis
    using Pair DeleteChain [of t c s s'] failed_same(3) [of t c s _ s'] same_except_upd [OF assms(2)] by (cases e) auto
qed

lemma delete_entries_same:
  "delete_entries parse c I e lines s = (r, s') \<Longrightarrow> (ch_table c, e) \<in> ks \<Longrightarrow> same_except v6 ks (rules s) (rules s')"
proof (induction lines arbitrary: s)
  case (Cons l lines)
  show ?case
  proof (cases "parse l")
    case (Inr ws)
    obtain x s1 where d: "DeleteRule I (ch_table c) e (drop 2 ws) s = (x, s1)"
      by (cases "DeleteRule I (ch_table c) e (drop 2 ws) s")
    note DeleteRule_same [OF d Cons.prems(2)]
    moreover have "s' = s1 \<or> same_except v6 ks (rules s1) (rules s') \<or> same_except v6 ks (rules s) (rules s')"
      using Cons.prems Cons.IH [of s1] Cons.IH [of s] Inr d by (auto split: if_splits option.splits)
    ultimately show ?thesis using same_except_trans by blast
  qed (use Cons in \<open>auto split: if_splits\<close>)
qed simp

lemma unlink_chains_same:
  "unlink_chains parse c I es s = (r, s') \<Longrightarrow> \<forall>e\<in>set es. (ch_table c, e) \<in> ks \<Longrightarrow> same_except v6 ks (rules s) (rules s')"
proof (induction es arbitrary: s)
  case (Cons e es)
  show ?case
  proof (cases "ipt_List I (ch_table c) e s")
    case (Inr lines)
    obtain x s1 where d: "delete_entries parse c I e (tl lines) s = (x, s1)"
      by (cases "delete_entries parse c I e (tl lines) s")
    then have "same_except v6 ks (rules s) (rules s1)" using delete_entries_same Cons.prems(2) by auto
    moreover have "s' = s1 \<or> same_except v6 ks (rules s1) (rules s') \<or> same_except v6 ks (rules s) (rules s')"
      using Cons.prems Cons.IH [of s1] Cons.IH [of s] Inr d by (cases x) (auto split: if_splits)
    ultimately show ?thesis using same_except_trans by blast
  qed (use Cons in simp)
qed simp

lemma teardown_same:
  assumes "chain_teardown parse c I s = (r, s')" "(ch_table c, ch_name c) \<in> ks" "\<forall>e\<in>set (entryChains c). (ch_table c, e) \<in> ks"
  shows "same_except v6 ks (rules s) (rules s')"
proof -
  obtain x s1 where 1: "ClearChain I (ch_table c) (ch_name c) s = (x, s1)" by (cases "ClearChain I (ch_table c) (ch_name c) s")
  obtain y s2 where 2: "unlink_chains parse c I (entryChains c) s1 = (y, s2)"
    by (cases "unlink_chains parse c I (entryChains c) s1")
  obtain z s3 where 3: "DeleteChain I (ch_table c) (ch_name c) s2 = (z, s3)" by (cases "DeleteChain I (ch_table c) (ch_name c) s2")
  note s = ClearChain_same [OF 1 assms(2)] unlink_chains_same [OF 2 assms(3)] DeleteChain_same [OF 3 assms(2)]
  have "s' \<in> {s1, s2, s3}"
    using assms(1) 1 2 3 by (auto simp: chain_teardown_def then_out_def err_outcome_def split: option.splits outcome.splits)
  then show ?thesis using s same_except_trans by blast
qed

end

section \<open>Outcomes\<close>

lemma wrap_fail_Ret: "wrap_fail w q = (Ret (), s) \<longleftrightarrow> q = (Ret (), s)"
  by (cases "(w, q)" rule: wrap_fail.cases) auto

lemma then_out_Ret: "then_out r f = (Ret x, s') \<longleftrightarrow> (\<exists>s. r = (Ret (), s) \<and> f s = (Ret x, s'))"
  by (auto simp: then_out_def split: prod.splits outcome.splits)

lemma err_outcome_Ret: "err_outcome e = (Ret (), s) \<longleftrightarrow> e = (None, s)"
  by (auto simp: err_outcome_def split: prod.splits option.splits)

lemmas out_Ret = wrap_fail_Ret then_out_Ret err_outcome_Ret

end
