(* ===== verification/Firewall.thy ===== *)
theory Firewall
  imports Chains
begin

text \<open>
  The plugin \<open>firewall\<close> (\<open>plugins/plugins/meta/firewall\<close>): it lets the traffic of a container
  through, with rules of the table \<open>filter\<close> (\<open>iptables.go\<close>) or with the zones of \<open>firewalld\<close>
  (\<open>firewalld.go\<close>), which is a parameter, as is the library for iptables.
\<close>

section \<open>firewall.go: configuration\<close>

record firewall_conf =
  fwNet :: netconf
  Backend :: string
  IptablesAdminChainName :: string
  FirewalldZone :: string

definition dec_firewall_conf :: "json \<Rightarrow> go_error + firewall_conf" where
  "dec_firewall_conf j =
     bind_sum (dec_netconf j) (\<lambda>net.
     bind_sum (jmembers j) (\<lambda>kvs.
     bind_sum (dec_field dec_string [] kvs ''backend'') (\<lambda>b.
     bind_sum (dec_field dec_string [] kvs ''iptablesAdminChainName'') (\<lambda>admin.
     bind_sum (dec_field dec_string [] kvs ''firewalldZone'') (\<lambda>zone.
       Inr \<lparr>fwNet = net, Backend = b, IptablesAdminChainName = admin, FirewalldZone = zone\<rparr>)))))"

definition firewall_ipString :: "ip_net \<Rightarrow> string" where
  "firewall_ipString ip = (if is_v6 (IP ip) then ip_String (IP ip) @ ''/128'' else ip_String (IP ip) @ ''/32'')"

definition empty_result :: result_cur where
  "empty_result = \<lparr>CNIVersion = [], Interfaces = [], IPs = [], Routes = [], DNS = empty_dns\<rparr>"

text \<open>Without a previous result, DEL still goes on, with the empty one.\<close>

definition firewall_parseConf :: "document \<Rightarrow> go_error + firewall_conf \<times> result_cur" where
  "firewall_parseConf data =
     (case bind_sum data dec_firewall_conf of
        Inl err \<Rightarrow> Inl (Msg (''failed to load netconf: '' @ err_text err))
      | Inr conf \<Rightarrow>
          (let conf = (if FirewalldZone conf = [] then conf\<lparr>FirewalldZone := ''trusted''\<rparr> else conf)
           in if confRawPrevResult (fwNet conf) = None then Inr (conf, empty_result)
              else bind_sum (portmap_prevResult (fwNet conf)) (\<lambda>(net, result).
                case result of None \<Rightarrow> Inr (conf\<lparr>fwNet := net\<rparr>, empty_result)
                | Some r \<Rightarrow> Inr (conf\<lparr>fwNet := net\<rparr>, r))))"

section \<open>iptables.go\<close>

definition getPrivChainRules :: "string \<Rightarrow> string list list" where
  "getPrivChainRules ip =
     [[''-d'', ip, ''-m'', ''conntrack'', ''--ctstate'', ''RELATED,ESTABLISHED'', ''-j'', ''ACCEPT''],
      [''-s'', ip, ''-j'', ''ACCEPT'']]"

definition generateFilterRule :: "string \<Rightarrow> string list" where
  "generateFilterRule privChainName = [''-m'', ''comment'', ''--comment'', ''CNI firewall plugin rules'', ''-j'', privChainName]"

definition generateAdminRule :: "string \<Rightarrow> string list" where
  "generateAdminRule adminChainName =
     [''-m'', ''comment'', ''--comment'', ''CNI firewall plugin admin overrides'', ''-j'', adminChainName]"

text \<open>Errors of \<open>Delete\<close> are ignored.\<close>

fun cleanupRules :: "'s iptables \<Rightarrow> string \<Rightarrow> string list list \<Rightarrow> 's \<Rightarrow> 's" where
  "cleanupRules ipt privChainName [] s = s"
| "cleanupRules ipt privChainName (rule # rules) s =
     cleanupRules ipt privChainName rules (snd (ipt_Delete ipt ''filter'' privChainName rule s))"

definition ensureFirstChainRule :: "'s iptables \<Rightarrow> string \<Rightarrow> string list \<Rightarrow> 's \<Rightarrow> go_error option \<times> 's" where
  "ensureFirstChainRule ipt chain rule s =
     (case ipt_Exists ipt ''filter'' chain rule s of
        Inl err \<Rightarrow> (Some err, s)
      | Inr exists \<Rightarrow> if \<not> exists then ipt_Insert ipt ''filter'' chain 1 rule s else (None, s))"

record iptables_backend =
  privChainName :: string
  adminChainName :: string

definition setupChains :: "iptables_backend \<Rightarrow> 's iptables \<Rightarrow> 's \<Rightarrow> go_error option \<times> 's" where
  "setupChains ib ipt s =
     (let privRule = generateFilterRule (privChainName ib);
          adminRule = generateAdminRule (adminChainName ib)
      in then_ipt (EnsureChain ipt ''filter'' (privChainName ib) s) (\<lambda>s.
         then_ipt (EnsureChain ipt ''filter'' (adminChainName ib) s) (\<lambda>s.
         then_ipt (ensureFirstChainRule ipt ''FORWARD'' privRule s) (\<lambda>s.
         ensureFirstChainRule ipt (privChainName ib) adminRule s))))"

text \<open>The rules for the addresses of one family; a protocol is whether it is IPv6.\<close>

definition protoForIP :: "ip_net \<Rightarrow> bool" where
  "protoForIP ip = is_v6 (IP ip)"

definition proto_rules :: "result_cur \<Rightarrow> bool \<Rightarrow> string list list" where
  "proto_rules result proto =
     concat (map (\<lambda>ip. getPrivChainRules (firewall_ipString (Address ip)))
       (filter (\<lambda>ip. protoForIP (Address ip) = proto) (IPs result)))"

fun append_rules :: "'s iptables \<Rightarrow> string \<Rightarrow> string list list \<Rightarrow> string list list \<Rightarrow> 's \<Rightarrow> go_error option \<times> 's" where
  "append_rules ipt chain all [] s = (None, s)"
| "append_rules ipt chain all (rule # rules) s =
     (case ipt_AppendUnique ipt ''filter'' chain rule s of
        (Some err, s) \<Rightarrow> (Some err, cleanupRules ipt chain all s)
      | (None, s) \<Rightarrow> append_rules ipt chain all rules s)"

definition addRules :: "iptables_backend \<Rightarrow> result_cur \<Rightarrow> 's iptables \<Rightarrow> bool \<Rightarrow> 's \<Rightarrow> go_error option \<times> 's" where
  "addRules ib result ipt proto s =
     (let rules = proto_rules result proto
      in if length rules > 0
         then then_ipt (setupChains ib ipt s) (append_rules ipt (privChainName ib) rules rules)
         else (None, s))"

definition delRules :: "iptables_backend \<Rightarrow> result_cur \<Rightarrow> 's iptables \<Rightarrow> bool \<Rightarrow> 's \<Rightarrow> 's" where
  "delRules ib result ipt proto s =
     (let rules = proto_rules result proto
      in if length rules > 0 then cleanupRules ipt (privChainName ib) rules s else s)"

text \<open>A rule as \<open>%v\<close> prints it.\<close>

definition show_rule :: "string list \<Rightarrow> string" where
  "show_rule rule = ''['' @ join '' '' rule @ '']''"

fun find_rules :: "'s iptables \<Rightarrow> string \<Rightarrow> string list list \<Rightarrow> 's \<Rightarrow> go_error option" where
  "find_rules ipt chain [] s = None"
| "find_rules ipt chain (rule # rules) s =
     (case ipt_Exists ipt ''filter'' chain rule s of
        Inl err \<Rightarrow> Some err
      | Inr exists \<Rightarrow> if \<not> exists then Some (Msg (''expected rule '' @ show_rule rule @ '' not found''))
          else find_rules ipt chain rules s)"

definition expect_rule :: "'s iptables \<Rightarrow> string \<Rightarrow> string list \<Rightarrow> 's \<Rightarrow> go_error option" where
  "expect_rule ipt chain rule s =
     (case ipt_Exists ipt ''filter'' chain rule s of
        Inl err \<Rightarrow> Some err
      | Inr exists \<Rightarrow> if \<not> exists then Some (Msg (''expected '' @ chain @ '' rule '' @ show_rule rule @ '' not found'')) else None)"

definition checkRules :: "iptables_backend \<Rightarrow> result_cur \<Rightarrow> 's iptables \<Rightarrow> bool \<Rightarrow> 's \<Rightarrow> go_error option \<times> 's" where
  "checkRules ib result ipt proto s =
     (let rules = proto_rules result proto
      in if length rules \<le> 0 then (None, s)
         else then_ipt (EnsureChain ipt ''filter'' (privChainName ib) s) (\<lambda>s.
              then_ipt (EnsureChain ipt ''filter'' (adminChainName ib) s) (\<lambda>s.
              then_ipt (expect_rule ipt ''FORWARD'' (generateFilterRule (privChainName ib)) s, s) (\<lambda>s.
              then_ipt (expect_rule ipt (privChainName ib) (generateAdminRule (adminChainName ib)) s, s) (\<lambda>s.
              (find_rules ipt (privChainName ib) rules s, s))))))"

definition findProtos :: "firewall_conf \<Rightarrow> bool list outcome" where
  "findProtos conf =
     (case confPrevResult (fwNet conf) of
        None \<Rightarrow> Ret [False, True]
      | Some prev \<Rightarrow>
          (case NewResultFromResult prev of
             Inl err \<Rightarrow> Panic ''invalid memory address or nil pointer dereference''
           | Inr result \<Rightarrow> Ret (map (\<lambda>addr. protoForIP (Address addr)) (IPs result))))"

text \<open>
  The host: iptables, the order in which the map of protocols is visited, the system bus and its
  calls, given the object, the method and the arguments; of an answer only the error is used.
\<close>

record 's firewall_host =
  fh_iptables :: "'s new_iptables"
  fh_order :: "bool list"
  fh_SystemBus :: "'s \<Rightarrow> go_error option"
  fh_Call :: "string \<Rightarrow> string \<Rightarrow> string list \<Rightarrow> 's \<Rightarrow> go_error option \<times> 's"

datatype 's backend = BIptables "bool \<Rightarrow> 's iptables" iptables_backend | BFirewalld

definition init_error :: "string \<Rightarrow> go_error \<Rightarrow> go_error" where
  "init_error proto err = Msg (''could not initialize iptables protocol '' @ proto @ '': '' @ err_text err)"

definition newIptablesBackend :: "'s firewall_host \<Rightarrow> firewall_conf \<Rightarrow> 's \<Rightarrow> go_error + 's backend" where
  "newIptablesBackend H conf s =
     (let admin = (if IptablesAdminChainName conf = [] then ''CNI-ADMIN'' else IptablesAdminChainName conf);
          ib = \<lparr>privChainName = ''CNI-FORWARD'', adminChainName = admin\<rparr>
      in case fh_iptables H False s of
           Inl err \<Rightarrow> Inl (init_error ''0'' err)
         | Inr ip4t \<Rightarrow>
             (case fh_iptables H True s of
                Inl err \<Rightarrow> Inl (init_error ''1'' err)
              | Inr ip6t \<Rightarrow> Inr (BIptables (\<lambda>v6. if v6 then ip6t else ip4t) ib)))"

definition iptables_Add :: "bool list \<Rightarrow> (bool \<Rightarrow> 's iptables) \<Rightarrow> iptables_backend \<Rightarrow> result_cur \<Rightarrow> 's \<Rightarrow> go_error option \<times> 's" where
  "iptables_Add order ipts ib result s = each (\<lambda>proto. addRules ib result (ipts proto) proto) order s"

definition iptables_Del :: "bool list \<Rightarrow> (bool \<Rightarrow> 's iptables) \<Rightarrow> iptables_backend \<Rightarrow> result_cur \<Rightarrow> 's \<Rightarrow> 's" where
  "iptables_Del order ipts ib result s = fold (\<lambda>proto. delRules ib result (ipts proto) proto) order s"

definition iptables_Check :: "bool list \<Rightarrow> (bool \<Rightarrow> 's iptables) \<Rightarrow> iptables_backend \<Rightarrow> result_cur \<Rightarrow> 's \<Rightarrow> go_error option \<times> 's" where
  "iptables_Check order ipts ib result s = each (\<lambda>proto. checkRules ib result (ipts proto) proto) order s"

section \<open>firewalld.go\<close>

definition dbusName :: string where "dbusName = ''org.freedesktop.DBus''"
definition firewalldName :: string where "firewalldName = ''org.fedoraproject.FirewallD1''"
definition firewalldZoneInterface :: string where "firewalldZoneInterface = ''org.fedoraproject.FirewallD1.zone''"
definition errZoneAlreadySet :: string where "errZoneAlreadySet = ''ZONE_ALREADY_SET''"

definition isFirewalldRunning :: "'s firewall_host \<Rightarrow> 's \<Rightarrow> bool \<times> 's" where
  "isFirewalldRunning H s =
     (case fh_SystemBus H s of
        Some err \<Rightarrow> (False, s)
      | None \<Rightarrow> (case fh_Call H dbusName (dbusName @ ''.GetNameOwner'') [firewalldName] s of (err, s) \<Rightarrow> (err = None, s)))"

definition newFirewalldBackend :: "'s firewall_host \<Rightarrow> 's \<Rightarrow> go_error + 's backend" where
  "newFirewalldBackend H s = (case fh_SystemBus H s of Some err \<Rightarrow> Inl err | None \<Rightarrow> Inr BFirewalld)"

definition zone_call :: "'s firewall_host \<Rightarrow> string \<Rightarrow> string \<Rightarrow> string \<Rightarrow> 's \<Rightarrow> go_error option \<times> 's" where
  "zone_call H call zone ipStr s = fh_Call H firewalldName (firewalldZoneInterface @ ''.'' @ call) [zone, ipStr] s"

definition fwd_Add :: "'s firewall_host \<Rightarrow> firewall_conf \<Rightarrow> result_cur \<Rightarrow> 's \<Rightarrow> go_error option \<times> 's" where
  "fwd_Add H conf result s =
     each (\<lambda>ip s. let ipStr = firewall_ipString (Address ip) in
       case zone_call H ''addSource'' (FirewalldZone conf) ipStr s of
         (Some err, s) \<Rightarrow>
           (if contains_sub (err_text err) errZoneAlreadySet then None
            else Some (Msg (''failed to add the address '' @ ipStr @ '' to '' @ FirewalldZone conf @ '' zone: '' @ err_text err)), s)
       | (None, s) \<Rightarrow> (None, s)) (IPs result) s"

definition fwd_Del :: "'s firewall_host \<Rightarrow> firewall_conf \<Rightarrow> result_cur \<Rightarrow> 's \<Rightarrow> 's" where
  "fwd_Del H conf result s =
     fold (\<lambda>ip s. snd (zone_call H ''removeSource'' (FirewalldZone conf) (firewall_ipString (Address ip)) s)) (IPs result) s"

text \<open>The answer of \<open>querySource\<close> is read but not looked at.\<close>

definition fwd_Check :: "'s firewall_host \<Rightarrow> firewall_conf \<Rightarrow> result_cur \<Rightarrow> 's \<Rightarrow> go_error option \<times> 's" where
  "fwd_Check H conf result s =
     each (\<lambda>ip s. let ipStr = firewall_ipString (Address ip) in
       case zone_call H ''querySource'' (FirewalldZone conf) ipStr s of
         (Some err, s) \<Rightarrow> (Some (Msg (''failed to find the address '' @ ipStr @ '' in '' @ FirewalldZone conf @ '' zone'')), s)
       | (None, s) \<Rightarrow> (None, s)) (IPs result) s"

section \<open>firewall.go: commands\<close>

definition getBackend :: "'s firewall_host \<Rightarrow> firewall_conf \<Rightarrow> 's \<Rightarrow> (go_error + 's backend) \<times> 's" where
  "getBackend H conf s =
     (if Backend conf = ''iptables'' then (newIptablesBackend H conf s, s)
      else if Backend conf = ''firewalld'' then (newFirewalldBackend H s, s)
      else case isFirewalldRunning H s of
        (True, s) \<Rightarrow> (newFirewalldBackend H s, s)
      | (False, s) \<Rightarrow> (newIptablesBackend H conf s, s))"

definition backend_Add :: "'s firewall_host \<Rightarrow> 's backend \<Rightarrow> firewall_conf \<Rightarrow> result_cur \<Rightarrow> 's \<Rightarrow> go_error option \<times> 's" where
  "backend_Add H b conf result s =
     (case b of BIptables ipts ib \<Rightarrow> iptables_Add (fh_order H) ipts ib result s | BFirewalld \<Rightarrow> fwd_Add H conf result s)"

definition backend_Del :: "'s firewall_host \<Rightarrow> 's backend \<Rightarrow> firewall_conf \<Rightarrow> result_cur \<Rightarrow> 's \<Rightarrow> 's" where
  "backend_Del H b conf result s =
     (case b of BIptables ipts ib \<Rightarrow> iptables_Del (fh_order H) ipts ib result s | BFirewalld \<Rightarrow> fwd_Del H conf result s)"

definition backend_Check :: "'s firewall_host \<Rightarrow> 's backend \<Rightarrow> firewall_conf \<Rightarrow> result_cur \<Rightarrow> 's \<Rightarrow> go_error option \<times> 's" where
  "backend_Check H b conf result s =
     (case b of BIptables ipts ib \<Rightarrow> iptables_Check (fh_order H) ipts ib result s | BFirewalld \<Rightarrow> fwd_Check H conf result s)"

definition missing_prev :: go_error where
  "missing_prev = Msg ''missing prevResult from earlier plugin''"

definition firewall_cmdAdd :: "'s firewall_host \<Rightarrow> cmd_args \<Rightarrow> 's \<Rightarrow> cni_result outcome \<times> 's" where
  "firewall_cmdAdd H args s =
     (case firewall_parseConf (StdinData args) of
        Inl err \<Rightarrow> (Fail err, s)
      | Inr (conf, result) \<Rightarrow>
          if confPrevResult (fwNet conf) = None then (Fail missing_prev, s)
          else (case getBackend H conf s of
                  (Inl err, s) \<Rightarrow> (Fail err, s)
                | (Inr backend, s) \<Rightarrow>
                    (case backend_Add H backend conf result s of
                       (Some err, s) \<Rightarrow> (Fail err, s)
                     | (None, s) \<Rightarrow> (outcome_of (PrintResult (RCur result) (confCNIVersion (fwNet conf))), s))))"

definition firewall_cmdDel :: "'s firewall_host \<Rightarrow> cmd_args \<Rightarrow> 's \<Rightarrow> unit outcome \<times> 's" where
  "firewall_cmdDel H args s =
     (case firewall_parseConf (StdinData args) of
        Inl err \<Rightarrow> (Fail err, s)
      | Inr (conf, result) \<Rightarrow>
          (case getBackend H conf s of
             (Inl err, s) \<Rightarrow> (Fail err, s)
           | (Inr backend, s) \<Rightarrow> (Ret (), backend_Del H backend conf result s)))"

definition firewall_cmdCheck :: "'s firewall_host \<Rightarrow> cmd_args \<Rightarrow> 's \<Rightarrow> unit outcome \<times> 's" where
  "firewall_cmdCheck H args s =
     (case firewall_parseConf (StdinData args) of
        Inl err \<Rightarrow> (Fail err, s)
      | Inr (conf, result) \<Rightarrow>
          if confPrevResult (fwNet conf) = None then (Fail missing_prev, s)
          else (case getBackend H conf s of
                  (Inl err, s) \<Rightarrow> (Fail err, s)
                | (Inr backend, s) \<Rightarrow> err_outcome (backend_Check H backend conf result s)))"

definition firewall ::
  "'s firewall_host \<Rightarrow> ('s \<times> cni_result list) dispatcher \<Rightarrow> 's \<times> cni_result list \<Rightarrow>
    (unit outcome \<times> 's \<times> cni_result list) option" where
  "firewall H t w =
     (case PluginSupports [''0.4.0''] of
        Ret info \<Rightarrow>
          pluginMain t (\<lambda>args w. Some (printing (firewall_cmdAdd H args) w))
            (\<lambda>args w. Some (silent (firewall_cmdCheck H args) w)) (\<lambda>args w. Some (silent (firewall_cmdDel H args) w))
            info (BuildString ''firewall'' BuildVersion) w
      | Fail err \<Rightarrow> Some (Fail err, w)
      | Panic m \<Rightarrow> Some (Panic m, w))"

end
