(* ===== verification/Properties_PortMap.thy ===== *)
theory Properties_PortMap
  imports Chains
begin

text \<open>
  Properties of \<open>portmap\<close>: the partition of ports, \<open>setup\<close> and \<open>teardown\<close> of a chain, what
  ADD leaves in the rules and DEL removes from them, and a host whose rules are in memory.
\<close>

section \<open>Ports\<close>

lemma Itoa_no_comma: "CHR '','' \<notin> set (Itoa i)"
proof
  assume "CHR '','' \<in> set (Itoa i)"
  then have "is_digit (CHR '','')"
    using dec_nat_digits [of "CHR '',''"] by (auto simp: Itoa_def split: if_splits)
  then show False by (simp add: is_digit_def)
qed

lemma split_ports_words:
  assumes "\<forall>w\<in>set acc. CHR '','' \<notin> set w" "length acc < 15"
  shows "concat (map (split_on (CHR '','')) (split_ports acc l)) = acc @ map Itoa l \<and>
    (\<forall>p\<in>set (split_ports acc l). length (split_on (CHR '','') p) \<le> 15)"
  using assms
proof (induction acc l rule: split_ports.induct)
  case (1 acc)
  then show ?case by (simp add: split_on_join)
next
  case (2 acc i l)
  let ?acc = "acc @ [Itoa i]"
  have w: "\<forall>w\<in>set ?acc. CHR '','' \<notin> set w" using 2(3) Itoa_no_comma by auto
  show ?case
  proof (cases "length ?acc = 15")
    case True
    have "split_on (CHR '','') (join '','' ?acc) = ?acc"
      using w by (intro split_on_join) auto
    with 2(1) [OF refl True] True show ?thesis by simp
  next
    case False
    with 2(2) [OF refl False w] 2(4) show ?thesis by simp
  qed
qed

text \<open>
  \<open>splitPortList\<close> partitions the ports for the match \<open>multiport\<close>: the lists, split at the
  commas and put together, are the ports in order, and none has more than fifteen.
\<close>

theorem splitPortList_partition:
  "concat (map (split_on (CHR '','')) (splitPortList l)) = map Itoa l \<and>
    list_all (\<lambda>p. length (split_on (CHR '','') p) \<le> 15) (splitPortList l)"
  using split_ports_words [of "[]" l] by (simp add: splitPortList_def list_all_iff)

text \<open>A comment over the limit of 255 is cut to 256 characters.\<close>

lemma trimComment_length: "length (trimComment val) = (if length val \<le> 255 then length val else 256)"
  by (simp add: trimComment_def)

section \<open>Properties of a chain\<close>

text \<open>
  C29. \<open>setup\<close> refines its effect on the rules and is idempotent: when it succeeds, the rules of
  the family are those before with the chain and each missing rule added, the other family is as
  it was, \<open>check\<close> finds everything, and a second \<open>setup\<close> changes nothing.
\<close>

theorem chain_setup_refines:
  assumes "iptables I v6 rules canon shown parse" "chain_setup c I s = (None, s')"
    and "\<And>t. \<exists>cs. ipt_ListChains I t s' = Inr cs" "\<And>t e r. \<exists>b. ipt_Exists I t e r s' = Inr b"
    and "\<And>e. e \<in> set (entryChains c) \<Longrightarrow> rules s v6 (ch_table c, e) \<noteq> None"
  shows "rules s' v6 = spec_setup canon c (rules s v6) \<and> rules s' (\<not> v6) = rules s (\<not> v6) \<and>
    chain_check c I s' = None \<and> (\<forall>s''. chain_setup c I s' = (None, s'') \<longrightarrow> rules s'' = rules s')"
proof (intro conjI allI impI)
  note sr = iptables.setup_None [OF assms(1)]
  have r: "rules s' = on_family v6 (spec_setup canon c) (rules s)" by (rule sr [OF assms(2)])
  then show m: "rules s' v6 = spec_setup canon c (rules s v6)" and "rules s' (\<not> v6) = rules s (\<not> v6)"
    by (simp_all add: on_family_def)
  show "rules s'' = rules s'" if "chain_setup c I s' = (None, s'')" for s''
    using sr [OF that] m by (simp add: r on_family_def spec_setup_idem)
  have dom: "rules s' v6 k = None \<longleftrightarrow> rules s v6 k = None \<and> k \<noteq> (ch_table c, ch_name c)" for k
    by (auto simp: m spec_setup_def fold_add_op_dom ensured_apply)
  have found: "checkRule I (ch_table c) e q s'"
    if op: "((ch_table c, e), front, canon q) \<in> set (setup_ops canon c)" and e: "rules s' v6 (ch_table c, e) \<noteq> None" for e front q
  proof -
    have "present (ch_table c, e) (canon q) (rules s' v6)"
      unfolding m spec_setup_def by (rule fold_add_op_present [OF op])
    moreover obtain b where b: "ipt_Exists I (ch_table c) e q s' = Inr b" using assms(4) by blast
    ultimately show ?thesis using iptables.Exists [OF assms(1) b] e by (auto simp: checkRule_def present_def)
  qed
  obtain cs where cs: "ipt_ListChains I (ch_table c) s' = Inr cs" using assms(3) by blast
  have "ChainExists I (ch_table c) (ch_name c) s' = Inr True"
    using iptables.ListChains [OF assms(1) cs] dom by (auto simp: ChainExists_def cs list_ex_iff)
  moreover have "\<forall>q\<in>set (ch_rules c). checkRule I (ch_table c) (ch_name c) q s'"
    using found [of "ch_name c" False] dom by (auto simp: setup_ops_def)
  moreover have "\<forall>e\<in>set (entryChains c). \<forall>q\<in>set (entryRules c). checkRule I (ch_table c) e (entry_rule c q) s'"
  proof (intro ballI)
    fix e q assume "e \<in> set (entryChains c)" "q \<in> set (entryRules c)"
    then show "checkRule I (ch_table c) e (entry_rule c q) s'"
      using assms(5) dom by (intro found [of e "prependEntry c"]) (auto simp: setup_ops_def)
  qed
  ultimately show "chain_check c I s' = None"
    by (auto simp: chain_check_def list_ex_iff find_None_iff split: option.splits)
qed

text \<open>
  \<open>teardown\<close> refines its effect, on any outcome without a panic: the chain is gone, no rule
  of its entry chains leads to it any more, and all other rules are as they were.
\<close>

theorem chain_teardown_refines:
  assumes "iptables I v6 rules canon shown parse" "chain_teardown parse c I s = (r, s')"
    and "ch_name c \<notin> set (entryChains c)"
    and "\<And>e t. e \<in> set (entryChains c) \<Longrightarrow> rules t v6 (ch_table c, e) \<noteq> None \<Longrightarrow>
      \<exists>lines. ipt_List I (ch_table c) e t = Inr lines"
  shows "(\<forall>m. r \<noteq> Panic m) \<and> (r = Ret () \<longrightarrow>
    rules s' v6 = spec_teardown shown c (rules s v6) \<and> rules s' (\<not> v6) = rules s (\<not> v6))"
  using iptables.teardown_Ret [OF assms(1,2,3,4)] by (auto simp: on_family_def)

text \<open>
  C28. \<open>teardown\<close> undoes \<open>setup\<close>: for a chain whose name is new and plain, once both have
  succeeded all rules are what they were.
\<close>

theorem chain_setup_teardown:
  assumes "iptables I v6 rules canon shown parse"
    and "chain_setup c I s = (None, s')" "chain_teardown parse c I s' = (Ret (), s'')"
    and "rules s v6 (ch_table c, ch_name c) = None" "ch_name c \<notin> set (entryChains c)"
    and "ch_name c \<noteq> []" "list_all (\<lambda>x. is_alnum x \<or> x = CHR ''-'') (ch_name c)"
    and "\<And>e rs r. e \<in> set (entryChains c) \<Longrightarrow> rules s v6 (ch_table c, e) = Some rs \<Longrightarrow> r \<in> set rs \<Longrightarrow>
      \<not> has_suffix (shown e r) (''-j '' @ ch_name c)"
    and "\<And>e t. e \<in> set (entryChains c) \<Longrightarrow> rules t v6 (ch_table c, e) \<noteq> None \<Longrightarrow>
      \<exists>lines. ipt_List I (ch_table c) e t = Inr lines"
  shows "rules s'' = rules s"
proof -
  have "rules s' = on_family v6 (spec_setup canon c) (rules s)" by (rule iptables.setup_None [OF assms(1,2)])
  moreover have "rules s'' = on_family v6 (spec_teardown shown c) (rules s')"
    using iptables.teardown_Ret [OF assms(1,3,5,9)] by simp
  moreover have "spec_teardown shown c (spec_setup canon c (rules s v6)) = rules s v6"
    using assms(4-8) iptables.shown_jump [OF assms(1,6,7)]
    by (intro teardown_setup) (auto simp: jumps_def entry_rule_def)
  ultimately show ?thesis by (simp add: on_family_def fun_upd_idem)
qed

section \<open>Properties of the plugin\<close>

lemma genDnatChain_Ret:
  "genDnatChain sha512 n i = Ret \<lparr>ch_table = ''nat'', ch_name = ''CNI-DN-'' @ take 21 (sha512 (n @ i)),
     entryChains = [TopLevelDNATChainName], entryRules = [], ch_rules = [], prependEntry = False\<rparr>"
  by (simp add: genDnatChain_def named_chain_def MustFormatChainName_Ret chainPrefix_def)

lemma genOldSnatChain_Ret:
  "genOldSnatChain sha512 n i = Ret \<lparr>ch_table = ''nat'', ch_name = ''CNI-SN-'' @ take 21 (sha512 (n @ i)),
     entryChains = [OldTopLevelSNATChainName], entryRules = [], ch_rules = [], prependEntry = False\<rparr>"
  by (simp add: genOldSnatChain_def named_chain_def MustFormatChainName_Ret chainPrefix_def)

text \<open>
  C30. What \<open>forwardPorts\<close> leaves in the rules of the container's family, and only there: the
  shared chains for masquerading (unless the user brings one or turns it off), the top-level
  chain, and the chain of the container with the rules for its ports.
\<close>

theorem forwardPorts_rules:
  assumes "iptables I (is_v6 (IP n)) rules canon shown parse" "\<And>t. ph_iptables H (is_v6 (IP n)) t = Inr I"
    and "\<And>p d t. rules (snd (sf_WriteFile (ph_files H) p d t)) = rules t"
    and "genDnatChain (ph_sha512 H) (confName (pmNet config)) (pmContainerID config) = Ret dn"
    and "forwardPorts H config n s = (Ret (), s')"
  shows "rules s' = on_family (is_v6 (IP n)) (spec_setup canon (fillDnatRules dn config n) \<circ> spec_setup canon genToplevelDnatChain \<circ>
    (if SNAT config = Some True \<and> ExternalSetMarkChain config = None
     then spec_setup canon (genMarkMasqChain (mark_bit config)) \<circ> spec_setup canon (genSetMarkChain (mark_bit config)) else id)) (rules s)"
proof -
  note sr = iptables.setup_None [OF assms(1)]
  let ?base = "if SNAT config = Some True \<and> ExternalSetMarkChain config = None
     then spec_setup canon (genMarkMasqChain (mark_bit config)) \<circ> spec_setup canon (genSetMarkChain (mark_bit config)) else id"
  have sysctl: "rules t' = rules t" if "enableLocalnetRouting H i t = (Ret (), t')" for i t t'
    using that assms(3) [of "sysctl_path (''net.ipv4.conf.'' @ i @ ''.route_localnet'')" "''1''" t]
    by (auto simp: enableLocalnetRouting_def Sysctl_def setSysctl_def split: prod.splits option.splits)
  have masq: "rules t' = on_family (is_v6 (IP n)) ?base (rules t)"
    if snat: "SNAT config = Some True" and m: "setup_masq H config n I t = (Ret (), t')" for t t'
  proof -
    obtain t1 where t1: "(if ExternalSetMarkChain config = None then
          then_out (wrap_fail (''unable to create chain '' @ SetMarkChainName)
            (err_outcome (chain_setup (genSetMarkChain (mark_bit config)) I t))) (\<lambda>s.
          wrap_fail (''unable to create chain '' @ SetMarkChainName)
            (err_outcome (chain_setup (genMarkMasqChain (mark_bit config)) I s)))
        else (Ret (), t)) = (Ret (), t1)" and "rules t' = rules t1"
      using m sysctl by (auto simp: setup_masq_def out_Ret Let_def split: if_splits)
    moreover have "rules t1 = on_family (is_v6 (IP n)) ?base (rules t)"
    proof (cases "ExternalSetMarkChain config = None")
      case True
      then obtain t0 where "chain_setup (genSetMarkChain (mark_bit config)) I t = (None, t0)"
        "chain_setup (genMarkMasqChain (mark_bit config)) I t0 = (None, t1)"
        using t1 by (auto simp: out_Ret)
      then show ?thesis using True snat sr by simp
    qed (use t1 in \<open>auto simp: on_family_def\<close>)
    ultimately show ?thesis by simp
  qed
  obtain s1 s2 where 1: "(if SNAT config = Some True then setup_masq H config n I s else (Ret (), s)) = (Ret (), s1)"
    and 2: "chain_setup genToplevelDnatChain I s1 = (None, s2)" "chain_setup (fillDnatRules dn config n) I s2 = (None, s')"
    using assms(5) by (auto simp: forwardPorts_def assms(2,4) out_Ret)
  have "rules s1 = on_family (is_v6 (IP n)) ?base (rules s)"
    using 1 masq by (cases "SNAT config = Some True") (auto simp: on_family_def)
  then show ?thesis using sr [OF 2(1)] sr [OF 2(2)] by (simp add: comp_assoc)
qed

text \<open>The part of \<open>unforwardPorts\<close> for one family.\<close>

lemma teardown_family_Ret:
  assumes "iptables I v6 rules canon shown parse" "ipt = None \<or> ipt = Some I"
    and "ch_name dn \<notin> set (entryChains dn)"
    and "\<And>e t. e \<in> set (entryChains dn) \<Longrightarrow> rules t v6 (ch_table dn, e) \<noteq> None \<Longrightarrow>
      \<exists>lines. ipt_List I (ch_table dn) e t = Inr lines"
    and "teardown_family parse dn old family ipt s = (Ret (), s')"
    and "k \<noteq> (ch_table old, ch_name old)" "k \<notin> Pair (ch_table old) ` set (entryChains old)"
  shows "rules s' (\<not> v6) = rules s (\<not> v6) \<and>
    rules s' v6 k = (if ipt = None then rules s v6 k else spec_teardown shown dn (rules s v6) k)"
proof (cases ipt)
  case (Some J)
  then have ipt: "ipt = Some I" using assms(2) by auto
  obtain s1 where 1: "chain_teardown parse dn I s = (Ret (), s1)"
    and 2: "(case chain_teardown parse old I s1 of (Panic m, s) \<Rightarrow> (Panic m, s) | (_, s) \<Rightarrow> (Ret (), s)) = (Ret (), s')"
    using assms(5) by (auto simp: teardown_family_def ipt out_Ret)
  have "rules s1 = on_family v6 (spec_teardown shown dn) (rules s)"
    using iptables.teardown_Ret [OF assms(1) 1 assms(3,4)] by blast
  moreover obtain r where r: "chain_teardown parse old I s1 = (r, s')"
    using 2 by (cases "chain_teardown parse old I s1"; cases "fst (chain_teardown parse old I s1)") auto
  from assms(1) r have "same_except v6 ({(ch_table old, ch_name old)} \<union> Pair (ch_table old) ` set (entryChains old)) (rules s1) (rules s')"
    by (rule iptables.teardown_same) auto
  then have "rules s' (\<not> v6) = rules s1 (\<not> v6)" "rules s' v6 k = rules s1 v6 k"
    using assms(6,7) by (auto simp: same_except_def fun_eq_iff simp del: split_paired_All)
  ultimately show ?thesis using ipt by (simp add: on_family_def)
qed (use assms(5) in \<open>simp add: teardown_family_def\<close>)

lemma maybe_usable:
  assumes "\<And>v6 t. ph_iptables H v6 t = Inr (I v6)"
  shows "maybeGetIptables H v6 s = None \<or> maybeGetIptables H v6 s = Some (I v6)"
    and "(\<exists>lines. ipt_List (I v6) ''nat'' ''OUTPUT'' s = Inr lines) \<Longrightarrow> maybeGetIptables H v6 s = Some (I v6)"
  by (auto simp: maybeGetIptables_def assms split: sum.splits)

text \<open>
  C31. DEL of \<open>portmap\<close> removes the forwarding: once it has succeeded, in each family that can be
  used the container's chain is gone, no rule of the top-level chain leads to it, and outside of
  these and of the chains of old versions no rule has changed.
\<close>

theorem unforwardPorts_removes:
  assumes "\<And>v6. iptables (I v6) v6 rules canon shown (ph_parse H)" "\<And>v6 t. ph_iptables H v6 t = Inr (I v6)"
    and "\<And>v6 c t. rules t v6 (''nat'', c) \<noteq> None \<Longrightarrow> \<exists>lines. ipt_List (I v6) ''nat'' c t = Inr lines"
    and "genDnatChain (ph_sha512 H) (confName (pmNet config)) (pmContainerID config) = Ret dn"
    and "genOldSnatChain (ph_sha512 H) (confName (pmNet config)) (pmContainerID config) = Ret old"
    and "unforwardPorts H config s = (Ret (), s')" "rules s v6 (''nat'', ''OUTPUT'') \<noteq> None"
  shows "rules s' v6 (''nat'', ch_name dn) = None \<and>
    (\<forall>rs r. rules s' v6 (''nat'', TopLevelDNATChainName) = Some rs \<longrightarrow> r \<in> set rs \<longrightarrow>
      \<not> has_suffix (shown TopLevelDNATChainName r) (''-j '' @ ch_name dn)) \<and>
    (\<forall>k. k \<notin> {(''nat'', ch_name dn), (''nat'', TopLevelDNATChainName), (''nat'', ch_name old), (''nat'', OldTopLevelSNATChainName)} \<longrightarrow>
      rules s' v6 k = rules s v6 k)"
proof -
  let ?old = "{(''nat'', ch_name old), (''nat'', OldTopLevelSNATChainName)}"
  have dn: "ch_table dn = ''nat''" "entryChains dn = [TopLevelDNATChainName]" "ch_name dn \<noteq> TopLevelDNATChainName"
    "ch_name dn \<noteq> OldTopLevelSNATChainName" "\<exists>x. ch_name dn = ''CNI-DN-'' @ x"
    using assms(4) by (auto simp: genDnatChain_Ret TopLevelDNATChainName_def OldTopLevelSNATChainName_def)
  have old: "ch_table old = ''nat''" "entryChains old = [OldTopLevelSNATChainName]" "\<exists>x. ch_name old = ''CNI-SN-'' @ x"
    using assms(5) by (auto simp: genOldSnatChain_Ret)
  have keys: "(''nat'', ch_name dn) \<notin> ?old" "(''nat'', TopLevelDNATChainName) \<notin> ?old"
    using dn old(3) by (auto simp: TopLevelDNATChainName_def OldTopLevelSNATChainName_def)
  define ip where "ip = (\<lambda>f. maybeGetIptables H f s)"
  have use: "ip v6 = Some (I v6)"
    using maybe_usable(2) [of H I v6 s, OF assms(2)] assms(3) [OF assms(7)] by (simp add: ip_def)
  have "ip False \<noteq> None \<or> ip True \<noteq> None" using use by (cases v6) auto
  then have "then_out (teardown_family (ph_parse H) dn old ''ipv4'' (ip False) s)
      (teardown_family (ph_parse H) dn old ''ipv6'' (ip True)) = (Ret (), s')"
    using assms(6) unfolding unforwardPorts_def assms(4,5) by (auto simp: ip_def Let_def split: option.splits)
  then obtain s1 where s1: "teardown_family (ph_parse H) dn old ''ipv4'' (ip False) s = (Ret (), s1)"
    "teardown_family (ph_parse H) dn old ''ipv6'' (ip True) s1 = (Ret (), s')"
    by (auto simp: then_out_Ret)
  have fam: "rules u' (\<not> f) = rules u (\<not> f) \<and>
      rules u' f k = (if ip f = None then rules u f k else spec_teardown shown dn (rules u f) k)"
    if "teardown_family (ph_parse H) dn old n (ip f) u = (Ret (), u')" "k \<notin> ?old" for f n u u' k
    by (rule teardown_family_Ret [OF assms(1) _ _ _ that(1)])
      (use that(2) dn old maybe_usable(1) [of H I f s, OF assms(2)] assms(3) in \<open>auto simp: ip_def\<close>)
  have eq: "rules s' v6 k = spec_teardown shown dn (rules s v6) k" if k: "k \<notin> ?old" for k
  proof (cases v6)
    case True
    have "rules s1 True = rules s True" using fam [OF s1(1) k] by simp
    then show ?thesis using fam [OF s1(2) k] use True by simp
  next
    case False
    have "rules s' False = rules s1 False" using fam [OF s1(2) k] by simp
    then show ?thesis using fam [OF s1(1) k] use False by simp
  qed
  have eq: "rules s' v6 k = (if k = (''nat'', ch_name dn) then None
      else unlink shown ''nat'' (ch_name dn) TopLevelDNATChainName (rules s v6) k)" if "k \<notin> ?old" for k
    using eq [OF that] dn(1,2) by (simp add: spec_teardown_def)
  have "rules s' v6 (''nat'', ch_name dn) = None" using eq [OF keys(1)] by simp
  moreover have "rules s' v6 (''nat'', TopLevelDNATChainName) =
      map_option (filter (\<lambda>r. \<not> jumps shown TopLevelDNATChainName (ch_name dn) r)) (rules s v6 (''nat'', TopLevelDNATChainName))"
    using eq [OF keys(2)] dn(3) by (simp add: unlink_def on_chain_apply)
  moreover have "rules s' v6 k = rules s v6 k" if "k \<notin> ?old" "k \<noteq> (''nat'', ch_name dn)" "k \<noteq> (''nat'', TopLevelDNATChainName)" for k
    using eq [OF that(1)] that(2,3) by (simp add: unlink_def on_chain_apply)
  ultimately show ?thesis by (force simp: jumps_def)
qed

text \<open>
  C32. CHECK of \<open>portmap\<close> accepts missing rules: when the chain of the container does not exist
  among the IPv4 rules, \<open>checkPorts\<close> succeeds, whatever the configuration wants and whatever the
  IPv6 rules are.
\<close>

theorem checkPorts_missing:
  assumes "maybeGetIptables H False s = Some I"
    and "genDnatChain (ph_sha512 H) (confName (pmNet config)) (pmContainerID config) = Ret dn"
    and "ChainExists I ''nat'' (ch_name dn) s = Inr False"
  shows "checkPorts H config n s = Ret ()"
proof -
  have "ch_table dn = ''nat''" using assms(2) by (auto simp: genDnatChain_Ret)
  then show ?thesis
    using assms by (auto simp: checkPorts_def check_family_def fillDnatRules_def Let_def split: option.splits)
qed

section \<open>A host\<close>

definition mem_host :: "mem_rules portmap_host" where
  "mem_host =
     \<lparr>ph_iptables = (\<lambda>v6 s. Inr (mem_iptables v6)), ph_sha512 = (\<lambda>x. replicate 128 (CHR ''a'')), ph_parse = mem_parse,
      ph_RouteGet = (\<lambda>ip s. Inr [2]), ph_LinkByIndex = (\<lambda>i s. Inr ''eth0''),
      ph_files = \<lparr>sf_ReadFile = (\<lambda>p s. Inr ''1 ''), sf_WriteFile = (\<lambda>p d s. (None, s))\<rparr>\<rparr>"

definition ex_nat :: mem_rules where
  "ex_nat = map (\<lambda>c. ((False, ''nat'', c), [])) [''PREROUTING'', ''OUTPUT'', ''POSTROUTING'']"

definition ex_pm :: port_map_conf where
  "ex_pm = \<lparr>pmNet = \<lparr>confCNIVersion = ''0.4.0'', confName = ''net'', confType = ''portmap'', confCapabilities = [],
       confIPAM = [], confDNS = empty_dns, confRawPrevResult = None, confPrevResult = None\<rparr>,
     SNAT = Some True, ConditionsV4 = None, ConditionsV6 = None, MarkMasqBit = Some 13, ExternalSetMarkChain = None,
     PortMaps = [\<lparr>HostPort = 8080, ContainerPort = 80, Protocol = ''tcp'', HostIP = []\<rparr>],
     pmContainerID = ''c1'', ContIPv4 = zero_net, ContIPv6 = zero_net\<rparr>"

definition ex_pod :: ip_net where
  "ex_pod = \<lparr>IP = [10, 1, 2, 3], Mask = [255, 255, 255, 0]\<rparr>"

text \<open>In memory, \<open>setup\<close> succeeds when the entry chains exist, and \<open>teardown\<close> always.\<close>

definition dom_is :: "(bool \<times> string \<times> string \<Rightarrow> bool) \<Rightarrow> mem_rules \<Rightarrow> bool" where
  "dom_is K s \<longleftrightarrow> (\<forall>k. K k \<longleftrightarrow> map_of s k \<noteq> None)"

lemma mem_insert:
  assumes "dom_is K s" "K (v6, t, c)"
  shows "\<exists>s'. insertUnique (mem_iptables v6) t c front r s = (None, s') \<and> dom_is K s'"
proof -
  obtain rs where rs: "map_of s (v6, t, c) = Some rs" using assms unfolding dom_is_def by blast
  have "dom_is K (AList.update (v6, t, c) q s)" for q using assms by (simp add: dom_is_def update_conv')
  then show ?thesis
    using rs assms(1) by (cases "r \<in> set rs"; cases front) (simp_all add: insertUnique_def mem_iptables_simps mem_change_def)
qed

lemma each_total:
  assumes "\<And>x s. x \<in> set xs \<Longrightarrow> Q s \<Longrightarrow> \<exists>s'. f x s = (None, s') \<and> Q s'" "Q s"
  shows "\<exists>s'. each f xs s = (None, s') \<and> Q s'"
  using assms
proof (induction xs arbitrary: s)
  case (Cons x xs)
  then obtain s1 where "f x s = (None, s1)" "Q s1" by (meson list.set_intros(1))
  moreover then obtain s2 where "each f xs s1 = (None, s2)" "Q s2" using Cons by (meson list.set_intros(2))
  ultimately show ?case by (simp add: then_ipt_None)
qed simp

lemma mem_setup:
  assumes "dom_is K s" "\<forall>e\<in>set (entryChains c). K (v6, ch_table c, e)"
  shows "\<exists>s'. chain_setup c (mem_iptables v6) s = (None, s') \<and> dom_is (\<lambda>k. K k \<or> k = (v6, ch_table c, ch_name c)) s'"
proof -
  let ?K = "\<lambda>k. K k \<or> k = (v6, ch_table c, ch_name c)"
  have ex: "ChainExists (mem_iptables v6) t e u = Inr (map_of u (v6, t, e) \<noteq> None)" for t e u
  proof -
    obtain cs where cs: "ipt_ListChains (mem_iptables v6) t u = Inr cs" by (simp add: mem_iptables_def)
    show ?thesis using mem_ListChains [OF cs, of e] by (auto simp: ChainExists_def cs list_ex_iff)
  qed
  obtain s1 where 1: "EnsureChain (mem_iptables v6) (ch_table c) (ch_name c) s = (None, s1)" "dom_is ?K s1"
  proof (cases "map_of s (v6, ch_table c, ch_name c)")
    case None
    then have "EnsureChain (mem_iptables v6) (ch_table c) (ch_name c) s = (None, AList.update (v6, ch_table c, ch_name c) [] s)"
      by (simp add: EnsureChain_def ex mem_iptables_simps)
    then show ?thesis using assms(1) by (intro that) (auto simp: dom_is_def update_conv')
  next
    case (Some rs)
    then have "EnsureChain (mem_iptables v6) (ch_table c) (ch_name c) s = (None, s)" by (simp add: EnsureChain_def ex)
    then show ?thesis using assms(1) Some by (intro that) (auto simp: dom_is_def)
  qed
  obtain s2 where 2: "each (insertUnique (mem_iptables v6) (ch_table c) (ch_name c) False) (ch_rules c) s1 = (None, s2)" "dom_is ?K s2"
    using each_total [of "ch_rules c" "dom_is ?K" "insertUnique (mem_iptables v6) (ch_table c) (ch_name c) False" s1]
      mem_insert [of ?K _ v6 "ch_table c" "ch_name c" False] 1(2) by blast
  have "\<exists>s'. each (\<lambda>rule. insertUnique (mem_iptables v6) (ch_table c) e (prependEntry c) (entry_rule c rule)) (entryRules c) u =
      (None, s') \<and> dom_is ?K s'" if "e \<in> set (entryChains c)" "dom_is ?K u" for e u
    using assms(2) that by (intro each_total mem_insert) auto
  then obtain s3 where "each (\<lambda>e. each (\<lambda>rule. insertUnique (mem_iptables v6) (ch_table c) e (prependEntry c) (entry_rule c rule))
      (entryRules c)) (entryChains c) s2 = (None, s3)" "dom_is ?K s3"
    using each_total [of "entryChains c" "dom_is ?K" "\<lambda>e. each (\<lambda>rule. insertUnique (mem_iptables v6) (ch_table c) e
      (prependEntry c) (entry_rule c rule)) (entryRules c)" s2] 2(2) by blast
  then show ?thesis using 1 2 by (simp add: chain_setup_def then_ipt_None)
qed

lemma mem_DeleteRule: "\<exists>s'. DeleteRule (mem_iptables v6) t c r s = (None, s')"
  by (auto simp: DeleteRule_def mem_iptables_def mem_missing_def split: option.splits)

lemma mem_delete_entries: "\<exists>s'. delete_entries mem_parse c (mem_iptables v6) e (map (mem_line e) rs) s = (Ret (), s')"
proof (induction rs arbitrary: s)
  case (Cons r rs)
  have "mem_parse (mem_line e r) = Inr ([''-A'', e] @ r)" unfolding mem_parse_def mem_line_def words_line ..
  then show ?case using Cons mem_DeleteRule [of v6 "ch_table c" e r s] by auto
qed simp

lemma mem_unlink: "\<exists>s'. unlink_chains mem_parse c (mem_iptables v6) es s = (Ret (), s')"
proof (induction es arbitrary: s)
  case (Cons e es)
  show ?case
  proof (cases "map_of s (v6, ch_table c, e)")
    case None
    then have "ipt_List (mem_iptables v6) (ch_table c) e s = Inl mem_missing" by (simp add: mem_iptables_simps)
    then show ?thesis using Cons by simp
  next
    case (Some rs)
    then have "ipt_List (mem_iptables v6) (ch_table c) e s = Inr ((''-N '' @ e) # map (mem_line e) rs)"
      by (simp add: mem_iptables_simps)
    moreover obtain s1 where "delete_entries mem_parse c (mem_iptables v6) e (map (mem_line e) rs) s = (Ret (), s1)"
      using mem_delete_entries by blast
    ultimately show ?thesis using Cons [of s1] by simp
  qed
qed simp

lemma mem_teardown: "\<exists>s'. chain_teardown mem_parse c (mem_iptables v6) s = (Ret (), s')"
proof -
  let ?s1 = "AList.update (v6, ch_table c, ch_name c) [] s"
  have "ClearChain (mem_iptables v6) (ch_table c) (ch_name c) s = (None, ?s1)" by (simp add: ClearChain_def mem_iptables_simps)
  moreover obtain s2 where "unlink_chains mem_parse c (mem_iptables v6) (entryChains c) ?s1 = (Ret (), s2)"
    using mem_unlink by blast
  moreover have "\<exists>s3. DeleteChain (mem_iptables v6) (ch_table c) (ch_name c) s2 = (None, s3)"
    by (auto simp: DeleteChain_def mem_iptables_simps mem_missing_def)
  ultimately show ?thesis by (auto simp: chain_teardown_def out_Ret)
qed

lemma mem_List: "mem_ruleset t v6 (tb, c) \<noteq> None \<Longrightarrow> \<exists>lines. ipt_List (mem_iptables v6) tb c t = Inr lines"
  by (auto simp: mem_iptables_simps)

lemma mem_total: "\<exists>cs. ipt_ListChains (mem_iptables v6) tb t = Inr cs" "\<exists>b. ipt_Exists (mem_iptables v6) tb c r t = Inr b"
  by (simp add: mem_iptables_def) (cases "map_of t (v6, tb, c)"; simp add: mem_iptables_simps; blast)

lemma ex_nat_dom: "dom_is (\<lambda>k. k \<in> (\<lambda>c. (False, ''nat'', c)) ` {''PREROUTING'', ''OUTPUT'', ''POSTROUTING''}) ex_nat"
  by (auto simp: dom_is_def ex_nat_def)

theorem chain_setup_refines_witness:
  "\<exists>s'. chain_setup (genMarkMasqChain 13) (mem_iptables False) ex_nat = (None, s') \<and>
    chain_check (genMarkMasqChain 13) (mem_iptables False) s' = None"
proof -
  have e: "entryChains (genMarkMasqChain 13) = [''POSTROUTING'']" "ch_table (genMarkMasqChain 13) = ''nat''"
    by (simp_all add: genMarkMasqChain_def)
  obtain s' where s': "chain_setup (genMarkMasqChain 13) (mem_iptables False) ex_nat = (None, s')"
    using mem_setup [OF ex_nat_dom, of "genMarkMasqChain 13" False] e by auto
  have "chain_check (genMarkMasqChain 13) (mem_iptables False) s' = None"
    using chain_setup_refines [OF mem_ipt.iptables_axioms s' mem_total] by (simp add: e ex_nat_def)
  with s' show ?thesis by blast
qed

text \<open>A chain for one port, on these chains.\<close>

definition ex_chain :: chain where
  "ex_chain = \<lparr>ch_table = ''nat'', ch_name = ''CNI-DN-a'', entryChains = [''PREROUTING''],
     entryRules = [[''-p'', ''tcp'', ''--dport'', ''8080'']],
     ch_rules = [[''-p'', ''tcp'', ''-j'', ''DNAT'', ''--to-destination'', ''10.1.2.3:80'']], prependEntry = False\<rparr>"

lemma ex_chain_simps: "ch_table ex_chain = ''nat''" "ch_name ex_chain = ''CNI-DN-a''" "entryChains ex_chain = [''PREROUTING'']"
  by (simp_all add: ex_chain_def)

theorem chain_teardown_refines_witness:
  "\<exists>s'. chain_teardown mem_parse ex_chain (mem_iptables False) ex_nat = (Ret (), s') \<and>
    mem_ruleset s' False = spec_teardown mem_line ex_chain (mem_ruleset ex_nat False)"
proof -
  obtain s' where s': "chain_teardown mem_parse ex_chain (mem_iptables False) ex_nat = (Ret (), s')"
    using mem_teardown by blast
  with chain_teardown_refines [OF mem_ipt.iptables_axioms s'] mem_List show ?thesis
    by (auto simp: ex_chain_simps)
qed

theorem chain_setup_teardown_witness:
  "\<exists>s' s''. chain_setup ex_chain (mem_iptables False) ex_nat = (None, s') \<and>
    chain_teardown mem_parse ex_chain (mem_iptables False) s' = (Ret (), s'') \<and> mem_ruleset s'' = mem_ruleset ex_nat"
proof -
  obtain s' where s': "chain_setup ex_chain (mem_iptables False) ex_nat = (None, s')"
    using mem_setup [OF ex_nat_dom, of ex_chain False] by (auto simp: ex_chain_simps)
  obtain s'' where s'': "chain_teardown mem_parse ex_chain (mem_iptables False) s' = (Ret (), s'')"
    using mem_teardown by blast
  have "mem_ruleset ex_nat False (''nat'', ''CNI-DN-a'') = None" "mem_ruleset ex_nat False (''nat'', ''PREROUTING'') = Some []"
    by (simp_all add: ex_nat_def)
  then have "mem_ruleset s'' = mem_ruleset ex_nat"
    using chain_setup_teardown [OF mem_ipt.iptables_axioms s' s''] mem_List
    by (simp add: ex_chain_simps is_alnum_def del: mem_ruleset_apply)
  with s' s'' show ?thesis by blast
qed

lemma mem_forward: "\<exists>s'. forwardPorts mem_host ex_pm ex_pod ex_nat = (Ret (), s')"
proof -
  have v6: "is_v6 (IP ex_pod) = False" by (simp add: ex_pod_def is_v6_def To4_def)
  obtain dn where dn: "genDnatChain (ph_sha512 mem_host) ''net'' ''c1'' = Ret dn" "ch_table dn = ''nat''"
    "entryChains dn = [TopLevelDNATChainName]" by (simp add: genDnatChain_Ret)
  have fill: "ch_table (fillDnatRules dn ex_pm ex_pod) = ''nat''" "entryChains (fillDnatRules dn ex_pm ex_pod) = [TopLevelDNATChainName]"
    by (simp_all add: fillDnatRules_def dn)
  obtain s1 where 1: "chain_setup (genSetMarkChain 13) (mem_iptables False) ex_nat = (None, s1)"
    "dom_is (\<lambda>k. k \<in> (\<lambda>c. (False, ''nat'', c)) ` {''PREROUTING'', ''OUTPUT'', ''POSTROUTING''} \<or> k = (False, ''nat'', SetMarkChainName)) s1"
    using mem_setup [OF ex_nat_dom, of "genSetMarkChain 13" False] by (auto simp: genSetMarkChain_def)
  obtain s2 where 2: "chain_setup (genMarkMasqChain 13) (mem_iptables False) s1 = (None, s2)"
    "dom_is (\<lambda>k. (k \<in> (\<lambda>c. (False, ''nat'', c)) ` {''PREROUTING'', ''OUTPUT'', ''POSTROUTING''} \<or> k = (False, ''nat'', SetMarkChainName)) \<or>
      k = (False, ''nat'', MarkMasqChainName)) s2"
    using mem_setup [OF 1(2), of "genMarkMasqChain 13" False] by (auto simp: genMarkMasqChain_def)
  obtain s3 where 3: "chain_setup genToplevelDnatChain (mem_iptables False) s2 = (None, s3)"
    "dom_is (\<lambda>k. ((k \<in> (\<lambda>c. (False, ''nat'', c)) ` {''PREROUTING'', ''OUTPUT'', ''POSTROUTING''} \<or> k = (False, ''nat'', SetMarkChainName)) \<or>
      k = (False, ''nat'', MarkMasqChainName)) \<or> k = (False, ''nat'', TopLevelDNATChainName)) s3"
    using mem_setup [OF 2(2), of genToplevelDnatChain False] by (auto simp: genToplevelDnatChain_def)
  obtain s4 where 4: "chain_setup (fillDnatRules dn ex_pm ex_pod) (mem_iptables False) s3 = (None, s4)"
    using mem_setup [OF 3(2), of "fillDnatRules dn ex_pm ex_pod" False] by (auto simp: fill)
  have "enableLocalnetRouting mem_host i s2 = (Ret (), s2)" for i
    by (simp add: enableLocalnetRouting_def Sysctl_def setSysctl_def getSysctl_def mem_host_def)
  moreover have "SNAT ex_pm = Some True" "ExternalSetMarkChain ex_pm = None" "mark_bit ex_pm = 13"
    "confName (pmNet ex_pm) = ''net''" "pmContainerID ex_pm = ''c1''" "ph_iptables mem_host False ex_nat = Inr (mem_iptables False)"
    by (simp_all add: ex_pm_def mark_bit_def mem_host_def)
  ultimately have "forwardPorts mem_host ex_pm ex_pod ex_nat = (Ret (), s4)"
    using 1(1) 2(1) 3(1) 4 dn(1) v6
    by (simp add: forwardPorts_def setup_masq_def then_out_def err_outcome_def Let_def)
  then show ?thesis by blast
qed

theorem forwardPorts_rules_witness:
  "\<exists>s' dn. genDnatChain (ph_sha512 mem_host) ''net'' ''c1'' = Ret dn \<and> forwardPorts mem_host ex_pm ex_pod ex_nat = (Ret (), s') \<and>
    mem_ruleset s' True = mem_ruleset ex_nat True"
proof -
  obtain s' where s': "forwardPorts mem_host ex_pm ex_pod ex_nat = (Ret (), s')" using mem_forward by blast
  obtain dn where dn: "genDnatChain (ph_sha512 mem_host) ''net'' ''c1'' = Ret dn" by (simp add: genDnatChain_Ret)
  have v6: "is_v6 (IP ex_pod) = False" by (simp add: ex_pod_def is_v6_def To4_def)
  have "mem_ruleset s' True = mem_ruleset ex_nat True"
    using forwardPorts_rules [OF mem_ipt.iptables_axioms, of mem_host ex_pod ex_pm dn ex_nat s', unfolded v6] s' dn
    by (simp add: mem_host_def ex_pm_def on_family_def)
  with s' dn show ?thesis by blast
qed

theorem unforwardPorts_removes_witness:
  "\<exists>s' dn. genDnatChain (ph_sha512 mem_host) ''net'' ''c1'' = Ret dn \<and> unforwardPorts mem_host ex_pm ex_nat = (Ret (), s') \<and>
    mem_ruleset s' False (''nat'', ch_name dn) = None"
proof -
  obtain dn where dn: "genDnatChain (ph_sha512 mem_host) ''net'' ''c1'' = Ret dn" by (simp add: genDnatChain_Ret)
  obtain old where old: "genOldSnatChain (ph_sha512 mem_host) ''net'' ''c1'' = Ret old" by (simp add: genOldSnatChain_Ret)
  have cfg: "confName (pmNet ex_pm) = ''net''" "pmContainerID ex_pm = ''c1''" by (simp_all add: ex_pm_def)
  have use: "maybeGetIptables mem_host False ex_nat = Some (mem_iptables False)" "maybeGetIptables mem_host True ex_nat = None"
    by (simp_all add: maybeGetIptables_def mem_host_def mem_iptables_simps ex_nat_def)
  have parse: "ph_parse mem_host = mem_parse" by (simp add: mem_host_def)
  obtain s1 where 1: "chain_teardown mem_parse dn (mem_iptables False) ex_nat = (Ret (), s1)" using mem_teardown by blast
  obtain s2 where 2: "chain_teardown mem_parse old (mem_iptables False) s1 = (Ret (), s2)" using mem_teardown by blast
  have s': "unforwardPorts mem_host ex_pm ex_nat = (Ret (), s2)"
    by (simp add: unforwardPorts_def cfg dn old use parse teardown_family_def then_out_def 1 2)
  have "mem_ruleset s2 False (''nat'', ch_name dn) = None"
    using unforwardPorts_removes [OF mem_ipt.iptables_axioms [folded parse], of ex_pm dn old ex_nat s2 False]
      mem_List s' dn old by (simp add: cfg mem_host_def ex_nat_def)
  with s' dn show ?thesis by blast
qed

theorem checkPorts_missing_witness: "checkPorts mem_host ex_pm ex_pod ex_nat = Ret ()"
proof -
  obtain dn where dn: "genDnatChain (ph_sha512 mem_host) ''net'' ''c1'' = Ret dn" "\<exists>x. ch_name dn = ''CNI-DN-'' @ x"
    by (simp add: genDnatChain_Ret)
  have "maybeGetIptables mem_host False ex_nat = Some (mem_iptables False)"
    by (simp add: maybeGetIptables_def mem_host_def mem_iptables_simps ex_nat_def)
  moreover have "ChainExists (mem_iptables False) ''nat'' (ch_name dn) ex_nat = Inr False"
    using dn(2) by (auto simp: ChainExists_def mem_iptables_def ex_nat_def)
  ultimately show ?thesis
    using dn(1) by (intro checkPorts_missing) (auto simp: ex_pm_def)
qed

end
