(* ===== verification/Properties_Firewall.thy ===== *)
theory Properties_Firewall
  imports Firewall Properties_Json Properties_PortMap
begin

text \<open>
  The rules that the plugin \<open>firewall\<close> leaves behind, over every library that keeps the contract
  of the locale \<open>iptables\<close>: what ADD wrote is what CHECK looks for, and DEL takes away the rules
  of its container only.
\<close>

section \<open>Rules are added only\<close>

definition holds_rule :: "string \<times> string \<Rightarrow> 'r \<Rightarrow> 'r ruleset \<Rightarrow> bool" where
  "holds_rule k r m \<longleftrightarrow> (\<exists>rs. m k = Some rs \<and> r \<in> set rs)"

definition grows :: "(bool \<Rightarrow> 'r ruleset) \<Rightarrow> (bool \<Rightarrow> 'r ruleset) \<Rightarrow> bool" where
  "grows R R' \<longleftrightarrow>
     (\<forall>f k. (R f k \<noteq> None \<longrightarrow> R' f k \<noteq> None) \<and> (\<forall>r. holds_rule k r (R f) \<longrightarrow> holds_rule k r (R' f)))"

lemma grows_refl [simp]: "grows R R"
  by (simp add: grows_def)

lemma grows_trans: "grows R R' \<Longrightarrow> grows R' R'' \<Longrightarrow> grows R R''"
  by (simp add: grows_def)

lemma grows_keeps:
  "grows R R' \<Longrightarrow> R f k \<noteq> None \<Longrightarrow> R' f k \<noteq> None"
  "grows R R' \<Longrightarrow> holds_rule k r (R f) \<Longrightarrow> holds_rule k r (R' f)"
  unfolding grows_def by blast+

lemma grows_upd: "(\<And>rs. R f k = Some rs \<Longrightarrow> set rs \<subseteq> set xs) \<Longrightarrow> grows R (R(f := (R f)(k \<mapsto> xs)))"
  by (auto simp: grows_def holds_rule_def)

context iptables begin

lemma EnsureChain_grows:
  assumes "EnsureChain I t c s = (None, s')"
  shows "grows (rules s) (rules s')" "rules s' v6 (t, c) \<noteq> None"
  using EnsureChain_None [OF assms] by (auto simp: ensured_def fun_upd_idem intro: grows_upd)

lemma ensureFirst_grows:
  assumes "ensureFirstChainRule I c r s = (None, s')"
  shows "grows (rules s) (rules s')" "holds_rule (''filter'', c) (canon r) (rules s' v6)"
proof -
  obtain b where b: "ipt_Exists I ''filter'' c r s = Inr b" using assms by (auto simp: ensureFirstChainRule_def split: sum.splits)
  have "grows (rules s) (rules s') \<and> holds_rule (''filter'', c) (canon r) (rules s' v6)"
  proof (cases b)
    case True
    then show ?thesis using assms b Exists [OF b] by (simp add: ensureFirstChainRule_def holds_rule_def)
  next
    case False
    then obtain rs where "rules s v6 (''filter'', c) = Some rs"
      "rules s' = (rules s)(v6 := (rules s v6)((''filter'', c) \<mapsto> canon r # rs))"
      using assms b Insert [of "''filter''" c r s s'] by (auto simp: ensureFirstChainRule_def)
    then show ?thesis by (auto simp: holds_rule_def intro!: grows_upd)
  qed
  then show "grows (rules s) (rules s')" "holds_rule (''filter'', c) (canon r) (rules s' v6)" by simp_all
qed

lemma append_rules_grows:
  "append_rules I c all rs s = (None, s') \<Longrightarrow>
    grows (rules s) (rules s') \<and> list_all (\<lambda>r. holds_rule (''filter'', c) (canon r) (rules s' v6)) rs"
proof (induction rs arbitrary: s)
  case (Cons r rs)
  then obtain s1 where 1: "ipt_AppendUnique I ''filter'' c r s = (None, s1)" and 2: "append_rules I c all rs s1 = (None, s')"
    by (auto split: prod.splits option.splits)
  obtain xs where xs: "rules s v6 (''filter'', c) = Some xs"
    "rules s1 = (rules s)(v6 := (rules s v6)((''filter'', c) \<mapsto> add_unique False (canon r) xs))"
    using AppendUnique [OF 1] by blast
  then have "grows (rules s) (rules s1)" "holds_rule (''filter'', c) (canon r) (rules s1 v6)"
    by (auto simp: holds_rule_def intro!: grows_upd)
  then show ?case using Cons.IH [OF 2] grows_trans [of "rules s" "rules s1" "rules s'"] grows_keeps(2) by auto
qed simp

text \<open>What CHECK needs of a family.\<close>

definition ready :: "iptables_backend \<Rightarrow> string list list \<Rightarrow> 's \<Rightarrow> bool" where
  "ready ib rs s \<longleftrightarrow> rules s v6 (''filter'', privChainName ib) \<noteq> None \<and> rules s v6 (''filter'', adminChainName ib) \<noteq> None \<and>
     holds_rule (''filter'', ''FORWARD'') (canon (generateFilterRule (privChainName ib))) (rules s v6) \<and>
     holds_rule (''filter'', privChainName ib) (canon (generateAdminRule (adminChainName ib))) (rules s v6) \<and>
     list_all (\<lambda>r. holds_rule (''filter'', privChainName ib) (canon r) (rules s v6)) rs"

lemma ready_grows: "ready ib rs s \<Longrightarrow> grows (rules s) (rules s') \<Longrightarrow> ready ib rs s'"
  using grows_keeps [where R = "rules s" and R' = "rules s'" and f = v6] by (auto simp: ready_def list_all_iff)

lemma addRules_ready:
  assumes "addRules ib result I p s = (None, s')"
  shows "grows (rules s) (rules s')" "proto_rules result p \<noteq> [] \<Longrightarrow> ready ib (proto_rules result p) s'"
proof -
  let ?rs = "proto_rules result p" and ?priv = "privChainName ib" and ?admin = "adminChainName ib"
  have "grows (rules s) (rules s') \<and> (?rs \<noteq> [] \<longrightarrow> ready ib ?rs s')"
  proof (cases "?rs = []")
    case True
    then show ?thesis using assms by (simp add: addRules_def)
  next
    case False
    then obtain s1 s2 s3 s4 where
      1: "EnsureChain I ''filter'' ?priv s = (None, s1)" and 2: "EnsureChain I ''filter'' ?admin s1 = (None, s2)" and
      3: "ensureFirstChainRule I ''FORWARD'' (generateFilterRule ?priv) s2 = (None, s3)" and
      4: "ensureFirstChainRule I ?priv (generateAdminRule ?admin) s3 = (None, s4)" and
      5: "append_rules I ?priv ?rs ?rs s4 = (None, s')"
      using assms by (auto simp: addRules_def setupChains_def Let_def then_ipt_None)
    note g = EnsureChain_grows(1) [OF 1] EnsureChain_grows(1) [OF 2] ensureFirst_grows(1) [OF 3] ensureFirst_grows(1) [OF 4]
      append_rules_grows [OF 5, THEN conjunct1]
    have g4: "grows (rules s4) (rules s')" and g3: "grows (rules s3) (rules s')" and g2: "grows (rules s2) (rules s')"
      and g1: "grows (rules s1) (rules s')" and g0: "grows (rules s) (rules s')"
      using g grows_trans by blast+
    then show ?thesis
      using grows_keeps [OF g1] EnsureChain_grows(2) [OF 1] grows_keeps [OF g2] EnsureChain_grows(2) [OF 2]
        grows_keeps(2) [OF g3 ensureFirst_grows(2) [OF 3]] grows_keeps(2) [OF g4 ensureFirst_grows(2) [OF 4]]
        append_rules_grows [OF 5] by (simp add: ready_def)
  qed
  then show "grows (rules s) (rules s')" "?rs \<noteq> [] \<Longrightarrow> ready ib ?rs s'" by simp_all
qed

lemma EnsureChain_there:
  "ipt_ListChains I t s = Inr cs \<Longrightarrow> rules s v6 (t, c) \<noteq> None \<Longrightarrow> EnsureChain I t c s = (None, s)"
  using ListChains [of t s cs c] by (simp add: EnsureChain_def ChainExists_def list_ex_iff)

lemma Exists_there:
  "\<exists>b. ipt_Exists I t c r s = Inr b \<Longrightarrow> holds_rule (t, c) (canon r) (rules s v6) \<Longrightarrow> ipt_Exists I t c r s = Inr True"
  using Exists [of t c r s] by (auto simp: holds_rule_def)

lemma find_rules_there:
  assumes "\<And>r. \<exists>b. ipt_Exists I ''filter'' c r s = Inr b"
  shows "list_all (\<lambda>r. holds_rule (''filter'', c) (canon r) (rules s v6)) rs \<Longrightarrow> find_rules I c rs s = None"
  by (induction rs) (simp_all add: Exists_there [OF assms])

lemma checkRules_ready:
  assumes "ipt_ListChains I ''filter'' s = Inr cs" "\<And>c r. \<exists>b. ipt_Exists I ''filter'' c r s = Inr b"
    and "proto_rules result p \<noteq> [] \<Longrightarrow> ready ib (proto_rules result p) s"
  shows "checkRules ib result I p s = (None, s)"
  using assms(3)
  by (auto simp: checkRules_def Let_def then_ipt_def expect_rule_def ready_def EnsureChain_there [OF assms(1)]
      Exists_there [OF assms(2)] find_rules_there [OF assms(2)])

end

section \<open>Rules are taken away only\<close>

text \<open>The change of one chain that DEL may make: it removes rules of \<open>X\<close> and no other.\<close>

definition shrinks :: "'r set \<Rightarrow> string \<times> string \<Rightarrow> bool \<Rightarrow> (bool \<Rightarrow> 'r ruleset) \<Rightarrow> (bool \<Rightarrow> 'r ruleset) \<Rightarrow> bool" where
  "shrinks X k f R R' \<longleftrightarrow> (\<forall>f' k'. f' \<noteq> f \<or> k' \<noteq> k \<longrightarrow> R' f' k' = R f' k') \<and>
     map_option (filter (\<lambda>r. r \<notin> X)) (R' f k) = map_option (filter (\<lambda>r. r \<notin> X)) (R f k)"

lemma shrinks_refl [simp]: "shrinks X k f R R"
  by (simp add: shrinks_def)

lemma shrinksD:
  "shrinks X k f R R' \<Longrightarrow> f' \<noteq> f \<or> k' \<noteq> k \<Longrightarrow> R' f' k' = R f' k'"
  "shrinks X k f R R' \<Longrightarrow> map_option (filter (\<lambda>r. r \<notin> X)) (R' f k) = map_option (filter (\<lambda>r. r \<notin> X)) (R f k)"
  unfolding shrinks_def by blast+

lemma shrinks_trans: "shrinks X k f R R' \<Longrightarrow> shrinks X k f R' R'' \<Longrightarrow> shrinks X k f R R''"
  by (simp add: shrinks_def)

lemma filter_remove1_out: "\<not> P x \<Longrightarrow> filter P (remove1 x rs) = filter P rs"
  by (induction rs) auto

lemma shrinks_remove1:
  "R f k = Some rs \<Longrightarrow> x \<in> X \<Longrightarrow> shrinks X k f R (R(f := (R f)(k \<mapsto> remove1 x rs)))"
  by (simp add: shrinks_def filter_remove1_out)

context iptables begin

lemma cleanupRules_shrinks:
  "canon ` set rs \<subseteq> X \<Longrightarrow> shrinks X (''filter'', c) v6 (rules s) (rules (cleanupRules I c rs s))"
proof (induction rs arbitrary: s)
  case (Cons r rs)
  obtain e s1 where d: "ipt_Delete I ''filter'' c r s = (e, s1)" by (cases "ipt_Delete I ''filter'' c r s")
  have "shrinks X (''filter'', c) v6 (rules s) (rules s1)"
  proof (cases e)
    case None
    then obtain xs where "rules s v6 (''filter'', c) = Some xs"
      "rules s1 = (rules s)(v6 := (rules s v6)((''filter'', c) \<mapsto> remove1 (canon r) xs))"
      using Delete [of "''filter''" c r s s1] d by blast
    then show ?thesis using Cons.prems shrinks_remove1 [of "rules s" v6 "(''filter'', c)" xs "canon r" X] by simp
  next
    case (Some err)
    then have "rules s1 = rules s" using failed_same(4) d by blast
    then show ?thesis by simp
  qed
  moreover have "shrinks X (''filter'', c) v6 (rules s1) (rules (cleanupRules I c rs s1))" using Cons by simp
  ultimately show ?case using d shrinks_trans [of X _ v6 "rules s" "rules s1"] by simp
qed simp

lemma cleanupRules_gone:
  assumes "\<And>r s. holds_rule (''filter'', c) (canon r) (rules s v6) \<Longrightarrow> fst (ipt_Delete I ''filter'' c r s) = None"
  shows "rules s v6 (''filter'', c) = Some xs \<Longrightarrow> distinct xs \<Longrightarrow>
    \<exists>ys. rules (cleanupRules I c rs s) v6 (''filter'', c) = Some ys \<and> distinct ys \<and> set ys = set xs - canon ` set rs"
proof (induction rs arbitrary: s xs)
  case (Cons r rs)
  obtain e s1 where d: "ipt_Delete I ''filter'' c r s = (e, s1)" by (cases "ipt_Delete I ''filter'' c r s")
  have "rules s1 v6 (''filter'', c) = Some (remove1 (canon r) xs)"
  proof (cases "canon r \<in> set xs")
    case True
    then have "e = None" using assms [of r s] Cons.prems d by (simp add: holds_rule_def)
    then show ?thesis using Delete [of "''filter''" c r s s1] d Cons.prems by auto
  next
    case False
    then have "rules s1 = rules s" using Delete [of "''filter''" c r s s1] failed_same(4) [of "''filter''" c r s _ s1] d Cons.prems
      by (cases e) auto
    then show ?thesis using False Cons.prems by (simp add: remove1_idem)
  qed
  from Cons.IH [OF this] Cons.prems(2) d show ?case by auto
qed auto

end

section \<open>The commands\<close>

text \<open>
  The host has a handle for each family, whatever its state, and the configuration asks for
  iptables.
\<close>

definition with_iptables :: "'s firewall_host \<Rightarrow> (bool \<Rightarrow> 's iptables) \<Rightarrow> cmd_args \<Rightarrow> firewall_conf \<Rightarrow> result_cur \<Rightarrow> bool" where
  "with_iptables H ipts args conf result \<longleftrightarrow> fh_iptables H = (\<lambda>p s. Inr (ipts p)) \<and>
     firewall_parseConf (StdinData args) = Inr (conf, result) \<and> Backend conf = ''iptables''"

definition backend_of :: "firewall_conf \<Rightarrow> iptables_backend" where
  "backend_of conf = \<lparr>privChainName = ''CNI-FORWARD'',
     adminChainName = if IptablesAdminChainName conf = [] then ''CNI-ADMIN'' else IptablesAdminChainName conf\<rparr>"

lemma getBackend_iptables:
  "with_iptables H ipts args conf result \<Longrightarrow> getBackend H conf s = (Inr (BIptables ipts (backend_of conf)), s)"
  by (auto simp: with_iptables_def getBackend_def newIptablesBackend_def backend_of_def)

lemma each_each:
  assumes "each f xs s = (None, s')" "x \<in> set xs" "\<And>x s s'. f x s = (None, s') \<Longrightarrow> P s s'"
    "\<And>s. P s s" "\<And>s s' s''. P s s' \<Longrightarrow> P s' s'' \<Longrightarrow> P s s''"
  shows "\<exists>s1 s2. f x s1 = (None, s2) \<and> P s2 s'"
  using assms(1,2)
proof (induction xs arbitrary: s)
  case (Cons y ys)
  then obtain s1 where 1: "f y s = (None, s1)" "each f ys s1 = (None, s')" by (auto simp: then_ipt_None)
  have rest: "each f ys s1 = (None, s') \<Longrightarrow> P s1 s'"
  proof (induction ys arbitrary: s1)
    case (Cons z zs)
    then obtain s2 where "f z s1 = (None, s2)" "each f zs s2 = (None, s')" by (auto simp: then_ipt_None)
    then show ?case using Cons.IH assms(3,5) by blast
  qed (simp add: assms(4))
  show ?case using Cons 1 rest by auto
qed simp

lemma each_same: "\<forall>x\<in>set xs. f x s = (None, s) \<Longrightarrow> each f xs s = (None, s)"
  by (induction xs) (simp_all add: then_ipt_def)

lemma iptables_Add_ready:
  assumes "\<And>p. iptables (ipts p) p rules canon shown parse" "iptables_Add order ipts ib result s = (None, s')"
    and "p \<in> set order" "proto_rules result p \<noteq> []"
  shows "iptables.ready p rules canon ib (proto_rules result p) s'"
proof -
  obtain s1 s2 where a: "addRules ib result (ipts p) p s1 = (None, s2)" and g: "grows (rules s2) (rules s')"
    using each_each [OF assms(2) [unfolded iptables_Add_def] assms(3), where P = "\<lambda>s s'. grows (rules s) (rules s')"]
      iptables.addRules_ready(1) [OF assms(1)] grows_trans grows_refl by blast
  show ?thesis using iptables.ready_grows [OF assms(1) iptables.addRules_ready(2) [OF assms(1) a assms(4)] g] .
qed

text \<open>
  C33. With the backend \<open>iptables\<close>, an ADD that succeeds leaves, for every address of the
  result, the two rules that accept its traffic in the plugin's chain of its family; a CHECK of the
  same configuration that can read the rules then succeeds and leaves the host as it is.
\<close>

theorem firewall_ADD_CHECK:
  assumes "\<And>p. iptables (ipts p) p rules canon shown parse" "with_iptables H ipts args conf result"
    and "firewall_cmdAdd H args s = (Ret out, s')"
    and "\<And>p. \<exists>cs. ipt_ListChains (ipts p) ''filter'' s' = Inr cs"
    and "\<And>p c r. \<exists>b. ipt_Exists (ipts p) ''filter'' c r s' = Inr b"
  shows "list_all (\<lambda>ip. protoForIP (Address ip) \<in> set (fh_order H) \<longrightarrow>
        list_all (\<lambda>rule. holds_rule (''filter'', ''CNI-FORWARD'') (canon rule) (rules s' (protoForIP (Address ip))))
          (getPrivChainRules (firewall_ipString (Address ip)))) (IPs result) \<and>
      firewall_cmdCheck H args s' = (Ret (), s')"
proof -
  let ?ib = "backend_of conf"
  have prev: "confPrevResult (fwNet conf) \<noteq> None" and add: "iptables_Add (fh_order H) ipts ?ib result s = (None, s')"
    using assms(2,3) getBackend_iptables [OF assms(2), of s]
    by (auto simp: firewall_cmdAdd_def with_iptables_def backend_Add_def split: if_splits prod.splits option.splits)
  note ready = iptables_Add_ready [OF assms(1) add]
  have "checkRules ?ib result (ipts p) p s' = (None, s')" if "p \<in> set (fh_order H)" for p
    using assms(4) iptables.checkRules_ready [OF assms(1) _ assms(5)] ready [OF that] by blast
  then have "iptables_Check (fh_order H) ipts ?ib result s' = (None, s')"
    by (simp add: iptables_Check_def each_same)
  then have check: "firewall_cmdCheck H args s' = (Ret (), s')"
    using assms(2) prev getBackend_iptables [OF assms(2), of s']
    by (auto simp: firewall_cmdCheck_def with_iptables_def backend_Check_def err_outcome_def)
  have "list_all (\<lambda>rule. holds_rule (''filter'', ''CNI-FORWARD'') (canon rule) (rules s' (protoForIP (Address ip))))
      (getPrivChainRules (firewall_ipString (Address ip)))"
    if "ip \<in> set (IPs result)" "protoForIP (Address ip) \<in> set (fh_order H)" for ip
  proof -
    have sub: "set (getPrivChainRules (firewall_ipString (Address ip))) \<subseteq> set (proto_rules result (protoForIP (Address ip)))"
      using that(1) by (auto simp: proto_rules_def)
    then have "proto_rules result (protoForIP (Address ip)) \<noteq> []" by (auto simp: getPrivChainRules_def)
    from ready [OF that(2) this] sub show ?thesis
      by (auto simp: iptables.ready_def [OF assms(1)] backend_of_def list_all_iff)
  qed
  with check show ?thesis by (simp add: list_all_iff)
qed

text \<open>
  C34. DEL always returns, whatever the library answers. It takes away rules of the addresses of
  its own result, in the plugin's chain of their family, and no other: every other chain, and every
  other rule of that chain, stays. Where deleting a rule that is there succeeds and the chain holds no
  rule twice, none of them is left.
\<close>

theorem firewall_DEL_exact:
  assumes "\<And>p. iptables (ipts p) p rules canon shown parse" "with_iptables H ipts args conf result"
    and "distinct (fh_order H)" "firewall_cmdDel H args s = (r, s')"
  shows "r = Ret () \<and>
    (\<forall>p k. map_option (filter (\<lambda>q. q \<notin> canon ` set (proto_rules result p))) (rules s' p k) =
         map_option (filter (\<lambda>q. q \<notin> canon ` set (proto_rules result p))) (rules s p k) \<and>
      (k \<noteq> (''filter'', ''CNI-FORWARD'') \<longrightarrow> rules s' p k = rules s p k)) \<and>
    ((\<forall>c t rule. holds_rule (''filter'', c) (canon rule) (rules t p) \<longrightarrow> fst (ipt_Delete (ipts p) ''filter'' c rule t) = None) \<longrightarrow>
      p \<in> set (fh_order H) \<longrightarrow> rules s p (''filter'', ''CNI-FORWARD'') = Some xs \<longrightarrow> distinct xs \<longrightarrow>
      (\<exists>ys. rules s' p (''filter'', ''CNI-FORWARD'') = Some ys \<and>
         set ys = set xs - canon ` set (proto_rules result p)))"
proof -
  let ?ib = "backend_of conf" and ?k = "(''filter'', ''CNI-FORWARD'')"
  let ?X = "\<lambda>p. canon ` set (proto_rules result p)"
  have del: "r = Ret ()" "s' = iptables_Del (fh_order H) ipts ?ib result s"
    using assms(2,4) getBackend_iptables [OF assms(2), of s] by (auto simp: firewall_cmdDel_def with_iptables_def backend_Del_def)
  have one: "shrinks (?X p) ?k p (rules s) (rules (delRules ?ib result (ipts p) p s))" for p s
    using iptables.cleanupRules_shrinks [OF assms(1), of "proto_rules result p" "?X p" "''CNI-FORWARD''" p s]
    by (simp add: delRules_def Let_def backend_of_def)
  have shrink: "p \<notin> set order \<longrightarrow> rules (iptables_Del order ipts ?ib result s) p = rules s p"
    "map_option (filter (\<lambda>q. q \<notin> ?X p)) (rules (iptables_Del order ipts ?ib result s) p k) =
         map_option (filter (\<lambda>q. q \<notin> ?X p)) (rules s p k) \<and>
      (k \<noteq> ?k \<longrightarrow> rules (iptables_Del order ipts ?ib result s) p k = rules s p k)" for p k order s
  proof (induction order arbitrary: s)
    case (Cons p' order)
    {
      case 1
      then show ?case using Cons(1) [of "delRules ?ib result (ipts p') p' s"] one [of p' s]
        by (auto simp: iptables_Del_def shrinks_def fun_eq_iff)
    next
      case 2
      then show ?case using Cons(2) [of "delRules ?ib result (ipts p') p' s"]
          shrinksD(1) [OF one [of p' s], of p k] shrinksD(2) [OF one [of p' s]]
        by (cases "p' = p"; cases "k = ?k") (simp_all add: iptables_Del_def)
    }
  qed (simp_all add: iptables_Del_def)
  have gone: "\<exists>ys. rules (iptables_Del order ipts ?ib result s) p ?k = Some ys \<and> set ys = set xs - ?X p"
    if d: "\<forall>c t rule. holds_rule (''filter'', c) (canon rule) (rules t p) \<longrightarrow> fst (ipt_Delete (ipts p) ''filter'' c rule t) = None"
      and "p \<in> set order" "distinct order" "rules s p ?k = Some xs" "distinct xs" for order s
    using that(2-)
  proof (induction order arbitrary: s)
    case (Cons p' order)
    show ?case
    proof (cases "p' = p")
      case True
      have "\<exists>ys. rules (cleanupRules (ipts p) ''CNI-FORWARD'' (proto_rules result p) s) p ?k = Some ys \<and> distinct ys \<and>
          set ys = set xs - ?X p"
        using d by (intro iptables.cleanupRules_gone [where rules = rules, OF assms(1)] Cons.prems(3,4)) blast
      then have "\<exists>ys. rules (delRules ?ib result (ipts p) p s) p ?k = Some ys \<and> set ys = set xs - ?X p"
        using Cons.prems(3) by (auto simp: delRules_def Let_def backend_of_def)
      then show ?thesis using shrink(1) [of p order] Cons.prems(2) True by (auto simp: iptables_Del_def)
    next
      case False
      then show ?thesis
        using Cons.IH [of "delRules ?ib result (ipts p') p' s"] Cons.prems shrinksD(1) [OF one [of p' s], of p ?k]
        by (simp add: iptables_Del_def)
    qed
  qed simp
  show ?thesis
    unfolding del
    by (intro conjI allI impI refl shrink(2) [THEN conjunct1] shrink(2) [THEN conjunct2, rule_format]
        gone [OF _ _ assms(3)]) simp_all
qed

section \<open>Witnesses\<close>

text \<open>A pod with one address, on a host whose only chains are \<open>FORWARD\<close>.\<close>

definition ex_fw_ip :: ip_config where
  "ex_fw_ip = \<lparr>Version = ''4'', Interface = None, Address = \<lparr>IP = v4InV6Prefix @ [10,1,2,9], Mask = [255,0,0,0]\<rparr>, ConfGateway = []\<rparr>"

definition ex_fw_args :: cmd_args where
  "ex_fw_args = \<lparr>ContainerID = ''c1'', Netns = ''ns'', IfName = ''eth0'', Args = [], Path = [],
     StdinData = Inr (JObj [(''cniVersion'', JStr ''0.3.1''), (''backend'', JStr ''iptables''),
       (''prevResult'', JObj [(''ips'', JArr [IPConfig_MarshalJSON ex_fw_ip])])])\<rparr>"

definition ex_fw_result :: result_cur where
  "ex_fw_result = \<lparr>CNIVersion = ''0.4.0'', Interfaces = [], IPs = [ex_fw_ip], Routes = [], DNS = empty_dns\<rparr>"

definition ex_fw_host :: "mem_rules firewall_host" where
  "ex_fw_host = \<lparr>fh_iptables = (\<lambda>p s. Inr (mem_iptables p)), fh_order = [False, True], fh_SystemBus = (\<lambda>s. None),
     fh_Call = (\<lambda>obj call args s. (None, s))\<rparr>"

definition ex_fw_rules :: mem_rules where
  "ex_fw_rules = [((False, ''filter'', ''FORWARD''), []), ((True, ''filter'', ''FORWARD''), [])]"

lemma fw_lower: "map to_lower [''cniVersion'', ''backend'', ''prevResult'', ''iptablesAdminChainName'', ''firewalldZone'',
    ''name'', ''type'', ''capabilities'', ''ipam'', ''dns'', ''ips'', ''interfaces'', ''routes''] =
  [''cniversion'', ''backend'', ''prevresult'', ''iptablesadminchainname'', ''firewalldzone'',
    ''name'', ''type'', ''capabilities'', ''ipam'', ''dns'', ''ips'', ''interfaces'', ''routes'']"
  by code_simp

lemma ex_fw_ip_ok: "ipconfig_ok ex_fw_ip"
proof -
  have "cidr_bytes 4 8 = [255,0,0,0]" by code_simp
  then have "\<exists>k\<le>32. [255,0,0,0] = cidr_bytes 4 k" by (intro exI [of _ 8]) simp
  then show ?thesis by (simp add: ipconfig_ok_def net16_ok_def ip16_ok_def ex_fw_ip_def)
qed

lemma ex_fw_parse: "\<exists>conf. firewall_parseConf (StdinData ex_fw_args) = Inr (conf, ex_fw_result) \<and> Backend conf = ''iptables'' \<and>
    confCNIVersion (fwNet conf) = ''0.3.1'' \<and> confPrevResult (fwNet conf) \<noteq> None \<and> IptablesAdminChainName conf = []"
proof -
  let ?raw = "[(''ips'', JArr [IPConfig_MarshalJSON ex_fw_ip])]"
  have "find (\<lambda>(vs, new). Reconciler_CheckRaw ''0.3.1'' vs = None) resultFactories = Some (SupportedVersions, current_NewResult)"
    by (simp add: resultFactories_def Reconciler_CheckRaw_def SupportedVersions_def)
  moreover have "current_NewResult (Inr (JObj ?raw)) = Inr (RCur (ex_fw_result\<lparr>CNIVersion := []\<rparr>))"
    using fw_lower IPConfig_JSON_16 [OF ex_fw_ip_ok] json_names
    by (simp add: current_NewResult_def dec_field_def jfield_Cons ex_fw_result_def)
  ultimately have "version_NewResult ''0.3.1'' (Inr (marshal_map ?raw)) = Inr (RCur (ex_fw_result\<lparr>CNIVersion := []\<rparr>))"
    by (simp add: version_NewResult_def marshal_map_def)
  then show ?thesis
    using fw_lower
    by (simp add: ex_fw_args_def firewall_parseConf_def dec_firewall_conf_def dec_netconf_def dec_field_def jfield_Cons
        portmap_prevResult_def ParsePrevResult_def NewResultFromResult_RCur ImplementedSpecVersion_def ex_fw_result_def)
qed

lemma ex_fw_v4: "protoForIP (Address ex_fw_ip) = False"
  by (simp add: protoForIP_def is_v6_def ex_fw_ip_def To4_def v4InV6Prefix_def)

lemma ex_fw_order: "fh_order ex_fw_host = [False, True]"
  by (simp add: ex_fw_host_def)

lemma ex_fw_rules_v4: "proto_rules ex_fw_result False = getPrivChainRules (firewall_ipString (Address ex_fw_ip))"
  "proto_rules ex_fw_result True = []"
  by (simp_all add: proto_rules_def ex_fw_result_def ex_fw_v4)

lemma ex_fw_Add: "\<exists>s'. iptables_Add [False, True] mem_iptables (backend_of conf) ex_fw_result ex_fw_rules = (None, s')"
proof -
  have ensure: "\<exists>s'. EnsureChain (mem_iptables f) t c s = (None, s') \<and> (\<forall>k. map_of s k \<noteq> None \<longrightarrow> map_of s' k \<noteq> None) \<and>
      map_of s' (f, t, c) \<noteq> None" for f t c s
  proof -
    obtain cs where cs: "ipt_ListChains (mem_iptables f) t s = Inr cs" using mem_total by blast
    have in_cs: "c \<in> set cs \<longleftrightarrow> map_of s (f, t, c) \<noteq> None" using mem_ListChains [OF cs] by simp
    show ?thesis
      using cs in_cs
      by (cases "map_of s (f, t, c) = None")
        (auto simp: EnsureChain_def ChainExists_def list_ex_iff mem_iptables_simps update_conv' split: if_splits)
  qed
  have first: "\<exists>s'. ensureFirstChainRule (mem_iptables f) c r s = (None, s') \<and> (\<forall>k. map_of s k \<noteq> None \<longrightarrow> map_of s' k \<noteq> None)"
    if "map_of s (f, ''filter'', c) \<noteq> None" for f c r s
    using that by (auto simp: ensureFirstChainRule_def mem_iptables_simps mem_change_def update_conv')
  have append: "\<exists>s'. append_rules (mem_iptables f) c all rs s = (None, s')" if "map_of s (f, ''filter'', c) \<noteq> None" for f c all rs s
    using that
  proof (induction rs arbitrary: s)
    case (Cons r rs)
    then show ?case by (auto simp: mem_iptables_simps mem_change_def update_conv')
  qed simp
  let ?p = "privChainName (backend_of conf)" and ?a = "adminChainName (backend_of conf)"
  obtain s1 where 1: "EnsureChain (mem_iptables False) ''filter'' ?p ex_fw_rules = (None, s1)"
    "map_of s1 (False, ''filter'', ''FORWARD'') \<noteq> None" "map_of s1 (False, ''filter'', ?p) \<noteq> None"
    using ensure [of False "''filter''" ?p ex_fw_rules] by (auto simp: ex_fw_rules_def)
  obtain s2 where 2: "EnsureChain (mem_iptables False) ''filter'' ?a s1 = (None, s2)"
    "map_of s2 (False, ''filter'', ''FORWARD'') \<noteq> None" "map_of s2 (False, ''filter'', ?p) \<noteq> None"
    using ensure [of False "''filter''" ?a s1] 1(2,3) by blast
  obtain s3 where 3: "ensureFirstChainRule (mem_iptables False) ''FORWARD'' (generateFilterRule ?p) s2 = (None, s3)"
    "map_of s3 (False, ''filter'', ?p) \<noteq> None"
    using first [OF 2(2)] 2(3) by blast
  obtain s4 where 4: "ensureFirstChainRule (mem_iptables False) ?p (generateAdminRule ?a) s3 = (None, s4)"
    "map_of s4 (False, ''filter'', ?p) \<noteq> None"
    using first [OF 3(2)] 3(2) by blast
  obtain s5 where 5: "append_rules (mem_iptables False) ?p (proto_rules ex_fw_result False) (proto_rules ex_fw_result False) s4 = (None, s5)"
    using append [OF 4(2)] by blast
  have ne: "proto_rules ex_fw_result False \<noteq> []" by (simp add: ex_fw_rules_v4 getPrivChainRules_def)
  have "addRules (backend_of conf) ex_fw_result (mem_iptables False) False ex_fw_rules = (None, s5)"
    using 1(1) 2(1) 3(1) 4(1) 5 ne by (simp add: addRules_def setupChains_def Let_def then_ipt_def)
  moreover have "addRules (backend_of conf) ex_fw_result (mem_iptables True) True s5 = (None, s5)"
    by (simp add: addRules_def ex_fw_rules_v4)
  ultimately show ?thesis by (simp add: iptables_Add_def then_ipt_def)
qed

lemma ex_fw_with: "\<exists>conf. with_iptables ex_fw_host mem_iptables ex_fw_args conf ex_fw_result \<and>
    confCNIVersion (fwNet conf) = ''0.3.1'' \<and> confPrevResult (fwNet conf) \<noteq> None"
  using ex_fw_parse by (auto simp: with_iptables_def ex_fw_host_def)

theorem firewall_ADD_CHECK_witness:
  "\<exists>out s'. firewall_cmdAdd ex_fw_host ex_fw_args ex_fw_rules = (Ret out, s') \<and>
    list_all (\<lambda>rule. holds_rule (''filter'', ''CNI-FORWARD'') rule (mem_ruleset s' False))
      (getPrivChainRules (firewall_ipString (Address ex_fw_ip))) \<and>
    firewall_cmdCheck ex_fw_host ex_fw_args s' = (Ret (), s')"
proof -
  obtain conf where conf: "with_iptables ex_fw_host mem_iptables ex_fw_args conf ex_fw_result"
    "confCNIVersion (fwNet conf) = ''0.3.1''" "confPrevResult (fwNet conf) \<noteq> None" using ex_fw_with by blast
  obtain s' where add: "iptables_Add [False, True] mem_iptables (backend_of conf) ex_fw_result ex_fw_rules = (None, s')"
    using ex_fw_Add by blast
  obtain out where out: "PrintResult (RCur ex_fw_result) ''0.3.1'' = Inr out"
    by (auto simp: PrintResult_def GetAsVersionCur_def)
  have run: "firewall_cmdAdd ex_fw_host ex_fw_args ex_fw_rules = (Ret out, s')"
    using conf getBackend_iptables [OF conf(1), of ex_fw_rules] add out
    by (auto simp: firewall_cmdAdd_def with_iptables_def backend_Add_def ex_fw_order)
  show ?thesis
    using firewall_ADD_CHECK [OF mem_ipt.iptables_axioms conf(1) run] mem_total run ex_fw_v4
    by (auto simp: ex_fw_result_def ex_fw_order)
qed

theorem firewall_DEL_exact_witness:
  "fst (firewall_cmdDel ex_fw_host ex_fw_args ex_fw_rules) = Ret () \<and>
    mem_ruleset (snd (firewall_cmdDel ex_fw_host ex_fw_args ex_fw_rules)) False (''filter'', ''FORWARD'') = Some []"
proof -
  obtain conf where conf: "with_iptables ex_fw_host mem_iptables ex_fw_args conf ex_fw_result" using ex_fw_with by blast
  obtain r s' where run: "firewall_cmdDel ex_fw_host ex_fw_args ex_fw_rules = (r, s')"
    by (cases "firewall_cmdDel ex_fw_host ex_fw_args ex_fw_rules")
  have "r = Ret () \<and> mem_ruleset s' False (''filter'', ''FORWARD'') = mem_ruleset ex_fw_rules False (''filter'', ''FORWARD'')"
    using firewall_DEL_exact [OF mem_ipt.iptables_axioms conf _ run] ex_fw_order by auto
  then show ?thesis using run by (simp add: ex_fw_rules_def)
qed

end
