(* ===== verification/DhcpOptions.thy ===== *)
theory DhcpOptions
  imports CniTypes Cidr
begin

text \<open>
  The options of a DHCP acknowledgement (\<open>plugins/plugins/ipam/dhcp/options.go\<close>). The library
  \<open>dhcp4\<close> that decodes packets is a parameter; its options are a map from the codes the plugin
  uses to bytes. Durations are 64-bit numbers of nanoseconds, given by their value.
\<close>

section \<open>Options\<close>

datatype option_code =
    OptionSubnetMask
  | OptionRouter
  | OptionStaticRoute
  | OptionIPAddressLeaseTime
  | OptionDHCPMessageType
  | OptionParameterRequestList
  | OptionRenewalTimeValue
  | OptionRebindingTimeValue
  | OptionClientIdentifier
  | OptionClasslessRouteFormat

type_synonym dhcp_options = "option_code \<rightharpoonup> byte list"

definition parseRouter :: "dhcp_options \<Rightarrow> net_ip" where
  "parseRouter opts =
     (case opts OptionRouter of Some opt \<Rightarrow> if length opt = 4 then opt else [] | None \<Rightarrow> [])"

text \<open>\<open>IP.DefaultMask\<close> of the Go library: the mask of the class of an IPv4 address.\<close>

definition DefaultMask :: "net_ip \<Rightarrow> byte list" where
  "DefaultMask ip =
     (case To4 ip of
        [] \<Rightarrow> []
      | b # bs \<Rightarrow> if b < 0x80 then [0xFF, 0, 0, 0] else if b < 0xC0 then [0xFF, 0xFF, 0, 0] else [0xFF, 0xFF, 0xFF, 0])"

definition classfulSubnet :: "net_ip \<Rightarrow> ip_net" where
  "classfulSubnet sn = \<lparr>IP = sn, Mask = DefaultMask sn\<rparr>"

text \<open>Eight bytes for each route; what is left of a shorter tail is ignored.\<close>

function static_routes :: "byte list \<Rightarrow> route list" where
  "static_routes opt =
     (if length opt \<ge> 8
      then \<lparr>Dst = classfulSubnet (take 4 opt), GW = take 4 (drop 4 opt)\<rparr> # static_routes (drop 8 opt)
      else [])"
  by auto
termination by (relation "measure length") auto

declare static_routes.simps [simp del]

definition parseRoutes :: "dhcp_options \<Rightarrow> route list" where
  "parseRoutes opts = (case opts OptionStaticRoute of Some opt \<Rightarrow> static_routes opt | None \<Rightarrow> [])"

text \<open>
  Classless routes: the length of the prefix, its significant bytes, the router. A malformed route
  makes the whole list nil.
\<close>

definition prefix_octets :: "nat \<Rightarrow> nat" where
  "prefix_octets width = (if width > 0 then (width - 1) div 8 + 1 else 0)"

function cidr_routes :: "byte list \<Rightarrow> route list option" where
  "cidr_routes opt =
     (if length opt \<ge> 5
      then let width = unat (hd opt);
               octets = prefix_octets width
           in if width > 32 then None
              else if length opt < 1 + octets + 4 then None
              else map_option (\<lambda>routes.
                \<lparr>Dst = \<lparr>IP = take octets (tl opt) @ replicate (4 - octets) 0, Mask = CIDRMask (int width) 32\<rparr>,
                 GW = take 4 (drop (octets + 1) opt)\<rparr> # routes) (cidr_routes (drop (octets + 5) opt))
      else Some [])"
  by auto
termination by (relation "measure length") auto

declare cidr_routes.simps [simp del]

definition parseCIDRRoutes :: "dhcp_options \<Rightarrow> route list" where
  "parseCIDRRoutes opts =
     (case opts OptionClasslessRouteFormat of
        Some opt \<Rightarrow> (case cidr_routes opt of None \<Rightarrow> [] | Some routes \<Rightarrow> routes)
      | None \<Rightarrow> [])"

definition parseSubnetMask :: "dhcp_options \<Rightarrow> byte list" where
  "parseSubnetMask opts = (case opts OptionSubnetMask of None \<Rightarrow> [] | Some m \<Rightarrow> m)"

definition Second :: int where "Second = 1000000000"

definition parseDuration :: "dhcp_options \<Rightarrow> option_code \<Rightarrow> string \<Rightarrow> go_error + int" where
  "parseDuration opts code optName =
     (case opts code of
        None \<Rightarrow> Inl (Msg (''option '' @ optName @ '' not found''))
      | Some val \<Rightarrow>
          if length val \<noteq> 4 then Inl (Msg (''option '' @ optName @ '' is not 4 bytes''))
          else Inr (int (be_nat val) * Second))"

definition parseLeaseTime :: "dhcp_options \<Rightarrow> go_error + int" where
  "parseLeaseTime opts = parseDuration opts OptionIPAddressLeaseTime ''LeaseTime''"

definition parseRenewalTime :: "dhcp_options \<Rightarrow> go_error + int" where
  "parseRenewalTime opts = parseDuration opts OptionRenewalTimeValue ''RenewalTime''"

definition parseRebindingTime :: "dhcp_options \<Rightarrow> go_error + int" where
  "parseRebindingTime opts = parseDuration opts OptionRebindingTimeValue ''RebindingTime''"

section \<open>Routes of a lease (lease.go)\<close>

definition lease_Gateway :: "dhcp_options \<Rightarrow> net_ip" where
  "lease_Gateway opts = parseRouter opts"

definition lease_Routes :: "dhcp_options \<Rightarrow> route list" where
  "lease_Routes opts =
     (let opt121_routes = parseCIDRRoutes opts
      in if length opt121_routes > 0 then opt121_routes
         else parseRoutes opts @
           (if lease_Gateway opts \<noteq> [] then [\<lparr>Dst = \<lparr>IP = [0, 0, 0, 0], Mask = [0, 0, 0, 0]\<rparr>, GW = lease_Gateway opts\<rparr>]
            else []))"

section \<open>Properties\<close>

text \<open>How a server writes classless routes (RFC 3442), and the routes that can be written so.\<close>

definition enc_route :: "nat \<times> byte list \<times> net_ip \<Rightarrow> byte list" where
  "enc_route = (\<lambda>(width, sn, gw). of_nat width # take (prefix_octets width) sn @ gw)"

definition dec_route_of :: "nat \<times> byte list \<times> net_ip \<Rightarrow> route" where
  "dec_route_of = (\<lambda>(width, sn, gw). \<lparr>Dst = \<lparr>IP = sn, Mask = CIDRMask (int width) 32\<rparr>, GW = gw\<rparr>)"

definition classless_ok :: "nat \<times> byte list \<times> net_ip \<Rightarrow> bool" where
  "classless_ok = (\<lambda>(width, sn, gw). width \<le> 32 \<and> length sn = 4 \<and> length gw = 4 \<and>
     drop (prefix_octets width) sn = replicate (4 - prefix_octets width) 0)"

lemma prefix_octets_le: "width \<le> 32 \<Longrightarrow> prefix_octets width \<le> 4"
  using div_le_mono [of "width - 1" 31 8] by (auto simp: prefix_octets_def)

lemma cidr_routes_encoded:
  assumes "classless_ok x"
  shows "cidr_routes (enc_route x @ rest) = map_option (\<lambda>rs. dec_route_of x # rs) (cidr_routes rest)"
proof -
  obtain width sn gw where x: "x = (width, sn, gw)" by (cases x)
  let ?o = "prefix_octets width"
  have ok: "width \<le> 32" "length sn = 4" "length gw = 4" "drop ?o sn = replicate (4 - ?o) 0" and le: "?o \<le> 4"
    using assms prefix_octets_le by (auto simp: classless_ok_def x)
  have w: "unat (of_nat width :: byte) = width" using ok(1) by (simp add: unat_of_nat take_bit_nat_eq_self)
  have sn: "take ?o sn @ replicate (4 - ?o) 0 = sn" using ok(4) append_take_drop_id [of ?o sn] by simp
  show ?thesis
    using ok le
    by (subst cidr_routes.simps)
      (simp add: x enc_route_def dec_route_of_def w Let_def min_def sn drop_Cons' take_Cons')
qed

lemma cidr_routes_list: "list_all classless_ok xs \<Longrightarrow> cidr_routes (concat (map enc_route xs)) = Some (map dec_route_of xs)"
  by (induction xs) (simp add: cidr_routes.simps, simp add: cidr_routes_encoded)

text \<open>
  C40. Classless routes: the list of routes that a server encodes as RFC 3442 has it, each with its
  significant bytes and the rest zero, is the list that \<open>parseCIDRRoutes\<close> returns; where it is not
  empty it is all the lease has for routes, whatever the other options say.
\<close>

theorem classless_routes_roundtrip:
  assumes "list_all classless_ok xs" "opts OptionClasslessRouteFormat = Some (concat (map enc_route xs))"
  shows "parseCIDRRoutes opts = map dec_route_of xs \<and> (xs \<noteq> [] \<longrightarrow> lease_Routes opts = map dec_route_of xs)"
  using cidr_routes_list [OF assms(1)] by (auto simp: lease_Routes_def parseCIDRRoutes_def assms(2) Let_def)

lemma replicate_4: "replicate 4 x = [x, x, x, x]"
  by (simp add: numeral_eq_Suc)

theorem classless_routes_roundtrip_witness:
  "parseCIDRRoutes [OptionClasslessRouteFormat \<mapsto> [24, 10, 1, 2, 192, 168, 0, 1, 0, 192, 168, 0, 254]] =
     [\<lparr>Dst = \<lparr>IP = [10, 1, 2, 0], Mask = CIDRMask 24 32\<rparr>, GW = [192, 168, 0, 1]\<rparr>,
      \<lparr>Dst = \<lparr>IP = [0, 0, 0, 0], Mask = CIDRMask 0 32\<rparr>, GW = [192, 168, 0, 254]\<rparr>]"
proof -
  let ?xs = "[(24, [10, 1, 2, 0], [192, 168, 0, 1]), (0, [0, 0, 0, 0], [192, 168, 0, 254])] :: (nat \<times> byte list \<times> net_ip) list"
  have "list_all classless_ok ?xs" by (simp add: classless_ok_def prefix_octets_def replicate_4)
  moreover have "concat (map enc_route ?xs) = [24, 10, 1, 2, 192, 168, 0, 1, 0, 192, 168, 0, 254]"
    by (simp add: enc_route_def prefix_octets_def)
  ultimately show ?thesis
    using classless_routes_roundtrip [of ?xs "[OptionClasslessRouteFormat \<mapsto> [24, 10, 1, 2, 192, 168, 0, 1, 0, 192, 168, 0, 254]]"]
    by (simp add: dec_route_of_def)
qed

end
