(* ===== verification/Dhcp.thy ===== *)
theory Dhcp
  imports DhcpOptions Skel CniResult Paths ResultJson "HOL-Library.Signed_Division"
begin

text \<open>
  The DHCP plugin (\<open>plugins/plugins/ipam/dhcp\<close>): the client's exchanges (\<open>client.go\<close>), a lease
  and the loop that maintains it (\<open>lease.go\<close>), the daemon that keeps the leases (\<open>daemon.go\<close>)
  and the commands that call it (\<open>main.go\<close>). The packets and the client of the libraries
  \<open>dhcp4\<close> and \<open>dhcp4client\<close>, the link, the clock and the RPC are parameters. Times are
  nanoseconds; the logs are left out.
\<close>

section \<open>The host\<close>

text \<open>
  \<open>'c\<close> is a client, \<open>'p\<close> a packet, \<open>'s\<close> the host. \<open>dh_Sleep\<close> lets time pass; \<open>dh_jitter\<close>
  is the random value of \<open>jitter\<close> for a span.
\<close>

record link =
  lnIndex :: int
  lnName :: string
  lnMac :: "byte list"
  lnUp :: bool

record ('c, 'p, 's) dhcp_host =
  dh_Now :: "'s \<Rightarrow> int"
  dh_Sleep :: "int \<Rightarrow> 's \<Rightarrow> 's"
  dh_jitter :: "int \<Rightarrow> 's \<Rightarrow> int"
  dh_WithNetNSPath :: "string \<Rightarrow> 's \<Rightarrow> go_error option"
  dh_LinkByName :: "string \<Rightarrow> string \<Rightarrow> 's \<Rightarrow> go_error + link"
  dh_LinkSetUp :: "link \<Rightarrow> 's \<Rightarrow> go_error option \<times> 's"
  dh_LinkSetDown :: "link \<Rightarrow> 's \<Rightarrow> go_error option \<times> 's"
  dh_NewPacketSock :: "int \<Rightarrow> 's \<Rightarrow> go_error option"
  dh_NewClient :: "link \<Rightarrow> int \<Rightarrow> 's \<Rightarrow> go_error + 'c"
  dh_Close :: "'c \<Rightarrow> 's \<Rightarrow> 's"
  dh_DiscoverPacket :: "'c \<Rightarrow> 's \<Rightarrow> 'p"
  dh_RequestPacket :: "'c \<Rightarrow> 'p \<Rightarrow> 'p"
  dh_DeclinePacket :: "'c \<Rightarrow> 'p \<Rightarrow> 'p"
  dh_RenewalRequestPacket :: "'c \<Rightarrow> 'p \<Rightarrow> 'p"
  dh_ReleasePacket :: "'c \<Rightarrow> 'p \<Rightarrow> 'p"
  dh_AddOption :: "option_code \<Rightarrow> byte list \<Rightarrow> 'p \<Rightarrow> 'p"
  dh_PadToMinSize :: "'p \<Rightarrow> 'p"
  dh_SendPacket :: "'c \<Rightarrow> 'p \<Rightarrow> 's \<Rightarrow> go_error option \<times> 's"
  dh_GetOffer :: "'c \<Rightarrow> 'p \<Rightarrow> 's \<Rightarrow> 'p \<times> go_error option \<times> 's"
  dh_GetAcknowledgement :: "'c \<Rightarrow> 'p \<Rightarrow> 's \<Rightarrow> 'p \<times> go_error option \<times> 's"
  dh_ParseOptions :: "'p \<Rightarrow> dhcp_options"
  dh_YIAddr :: "'p \<Rightarrow> net_ip"

section \<open>client.go\<close>

text \<open>The options to send are a map; they are given in the order in which Go visits them.\<close>

type_synonym send_options = "(option_code \<times> byte list) list"

definition add_options :: "('c, 'p, 's) dhcp_host \<Rightarrow> send_options \<Rightarrow> 'p \<Rightarrow> 'p" where
  "add_options H options packet = dh_PadToMinSize H (fold (\<lambda>(opt, data). dh_AddOption H opt data) options packet)"

definition DhcpSendDiscoverPacket ::
  "('c, 'p, 's) dhcp_host \<Rightarrow> 'c \<Rightarrow> send_options \<Rightarrow> 's \<Rightarrow> 'p \<times> go_error option \<times> 's" where
  "DhcpSendDiscoverPacket H c options s =
     (let discoveryPacket = add_options H options (dh_DiscoverPacket H c s)
      in (discoveryPacket, dh_SendPacket H c discoveryPacket s))"

definition DhcpSendRequest ::
  "('c, 'p, 's) dhcp_host \<Rightarrow> 'c \<Rightarrow> send_options \<Rightarrow> 'p \<Rightarrow> 's \<Rightarrow> 'p \<times> go_error option \<times> 's" where
  "DhcpSendRequest H c options offerPacket s =
     (let requestPacket = add_options H options (dh_RequestPacket H c offerPacket)
      in (requestPacket, dh_SendPacket H c requestPacket s))"

definition DhcpSendDecline ::
  "('c, 'p, 's) dhcp_host \<Rightarrow> 'c \<Rightarrow> 'p \<Rightarrow> send_options \<Rightarrow> 's \<Rightarrow> 'p \<times> go_error option \<times> 's" where
  "DhcpSendDecline H c acknowledgementPacket options s =
     (let declinePacket = add_options H options (dh_DeclinePacket H c acknowledgementPacket)
      in (declinePacket, dh_SendPacket H c declinePacket s))"

text \<open>
  Whether the server acknowledged, the packet and the error. The message type of the answer is its
  first byte, which the code reads without a check; 5 is the acknowledgement.
\<close>

type_synonym 'p answer = "bool \<times> 'p \<times> go_error option"

definition is_ack :: "('c, 'p, 's) dhcp_host \<Rightarrow> 'p \<Rightarrow> 'p answer outcome" where
  "is_ack H acknowledgement =
     (case dh_ParseOptions H acknowledgement OptionDHCPMessageType of
        Some (t # ts) \<Rightarrow> Ret (t = 5, acknowledgement, None)
      | _ \<Rightarrow> Panic ''index out of range'')"

definition DhcpRequest ::
  "('c, 'p, 's) dhcp_host \<Rightarrow> 'c \<Rightarrow> send_options \<Rightarrow> 's \<Rightarrow> 'p answer outcome \<times> 's" where
  "DhcpRequest H c options s =
     (case DhcpSendDiscoverPacket H c options s of
        (discoveryPacket, Some err, s) \<Rightarrow> (Ret (False, discoveryPacket, Some err), s)
      | (discoveryPacket, None, s) \<Rightarrow>
     (case dh_GetOffer H c discoveryPacket s of
        (offerPacket, Some err, s) \<Rightarrow> (Ret (False, offerPacket, Some err), s)
      | (offerPacket, None, s) \<Rightarrow>
     (case DhcpSendRequest H c options offerPacket s of
        (requestPacket, Some err, s) \<Rightarrow> (Ret (False, requestPacket, Some err), s)
      | (requestPacket, None, s) \<Rightarrow>
     (case dh_GetAcknowledgement H c requestPacket s of
        (acknowledgement, Some err, s) \<Rightarrow> (Ret (False, acknowledgement, Some err), s)
      | (acknowledgement, None, s) \<Rightarrow> (is_ack H acknowledgement, s)))))"

definition DhcpRenew ::
  "('c, 'p, 's) dhcp_host \<Rightarrow> 'c \<Rightarrow> 'p \<Rightarrow> send_options \<Rightarrow> 's \<Rightarrow> 'p answer outcome \<times> 's" where
  "DhcpRenew H c acknowledgement options s =
     (let renewRequest = add_options H options (dh_RenewalRequestPacket H c acknowledgement) in
      case dh_SendPacket H c renewRequest s of
        (Some err, s) \<Rightarrow> (Ret (False, renewRequest, Some err), s)
      | (None, s) \<Rightarrow>
     (case dh_GetAcknowledgement H c renewRequest s of
        (newAcknowledgement, Some err, s) \<Rightarrow> (Ret (False, newAcknowledgement, Some err), s)
      | (newAcknowledgement, None, s) \<Rightarrow> (is_ack H newAcknowledgement, s)))"

definition DhcpRelease ::
  "('c, 'p, 's) dhcp_host \<Rightarrow> 'c \<Rightarrow> 'p \<Rightarrow> send_options \<Rightarrow> 's \<Rightarrow> go_error option \<times> 's" where
  "DhcpRelease H c acknowledgement options s =
     dh_SendPacket H c (add_options H options (dh_ReleasePacket H c acknowledgement)) s"

section \<open>lease.go: a lease\<close>

definition resendDelay0 :: int where "resendDelay0 = 4 * Second"
definition resendDelayMax :: int where "resendDelayMax = 62 * Second"

definition errNoMoreTries :: go_error where
  "errNoMoreTries = Msg ''no more tries''"

datatype lease_state = leaseStateBound | leaseStateRenewing | leaseStateRebinding

text \<open>The channels and the wait group of a lease are the state of its worker, see below.\<close>

record 'p dhcp_lease =
  clientID :: string
  ack :: "'p option"
  lease_opts :: dhcp_options
  lease_link :: link
  renewalTime :: int
  rebindingTime :: int
  expireTime :: int

text \<open>A client over a packet socket, with a timeout of five seconds.\<close>

definition newDHCPClient :: "('c, 'p, 's) dhcp_host \<Rightarrow> link \<Rightarrow> 's \<Rightarrow> go_error + 'c" where
  "newDHCPClient H l s =
     (case dh_NewPacketSock H (lnIndex l) s of
        Some err \<Rightarrow> Inl err
      | None \<Rightarrow> dh_NewClient H l (5 * Second) s)"

text \<open>A result of 64 bits, signed; division truncates towards zero.\<close>

definition int64 :: "int \<Rightarrow> int" where
  "int64 x = (x + 2 ^ 63) mod 2 ^ 64 - 2 ^ 63"

definition commit :: "('c, 'p, 's) dhcp_host \<Rightarrow> 'p dhcp_lease \<Rightarrow> 'p \<Rightarrow> 's \<Rightarrow> go_error + 'p dhcp_lease" where
  "commit H l pkt s =
     (let opts = dh_ParseOptions H pkt in
      case parseLeaseTime opts of
        Inl err \<Rightarrow> Inl err
      | Inr leaseTime \<Rightarrow>
          (let rebinding = (case parseRebindingTime opts of
                 Inl err \<Rightarrow> int64 (leaseTime * 85) sdiv 100
               | Inr t \<Rightarrow> if t > leaseTime then int64 (leaseTime * 85) sdiv 100 else t);
               renewal = (case parseRenewalTime opts of
                 Inl err \<Rightarrow> leaseTime sdiv 2
               | Inr t \<Rightarrow> if t > rebinding then leaseTime sdiv 2 else t);
               now = dh_Now H s
           in Inr (l\<lparr>expireTime := now + leaseTime, renewalTime := now + renewal, rebindingTime := now + rebinding,
                     ack := Some pkt, lease_opts := opts\<rparr>)))"

text \<open>
  The loop of \<open>backoffRetry\<close>, with the delay it has reached; \<open>None\<close> when it never returns. An
  answer that is no acknowledgement counts as a failure.
\<close>

partial_function (option) backoff_loop ::
  "('c, 'p, 's) dhcp_host \<Rightarrow> ('s \<Rightarrow> 'p outcome \<times> 's) \<Rightarrow> int \<Rightarrow> 's \<Rightarrow> ('p outcome \<times> 's) option" where
  "backoff_loop H f baseDelay s =
     (case f s of
        (Ret pkt, s) \<Rightarrow> Some (Ret pkt, s)
      | (Panic m, s) \<Rightarrow> Some (Panic m, s)
      | (Fail err, s) \<Rightarrow>
          (let s = dh_Sleep H (baseDelay + dh_jitter H Second s) s
           in if baseDelay < resendDelayMax then backoff_loop H f (baseDelay * 2) s
              else Some (Fail errNoMoreTries, s)))"

definition backoffRetry ::
  "('c, 'p, 's) dhcp_host \<Rightarrow> ('s \<Rightarrow> 'p outcome \<times> 's) \<Rightarrow> 's \<Rightarrow> ('p outcome \<times> 's) option" where
  "backoffRetry H f s = backoff_loop H f resendDelay0 s"

definition tried :: "string \<Rightarrow> 'p answer outcome \<times> 's \<Rightarrow> 'p outcome \<times> 's" where
  "tried nack r =
     (case r of
        (Ret (success, pkt, err), s) \<Rightarrow>
          (case err of Some e \<Rightarrow> (Fail e, s) | None \<Rightarrow> if \<not> success then (Fail (Msg nack), s) else (Ret pkt, s))
      | (Fail e, s) \<Rightarrow> (Fail e, s)
      | (Panic m, s) \<Rightarrow> (Panic m, s))"

definition str_bytes :: "string \<Rightarrow> byte list" where
  "str_bytes = map of_char"

definition client_id_option :: "'p dhcp_lease \<Rightarrow> send_options" where
  "client_id_option l = [(OptionClientIdentifier, str_bytes (clientID l))]"

text \<open>The lease after a success; a failure leaves it as it is. The client is closed at the end.\<close>

definition acquire :: "('c, 'p, 's) dhcp_host \<Rightarrow> 'p dhcp_lease \<Rightarrow> 's \<Rightarrow> ('p dhcp_lease outcome \<times> 's) option" where
  "acquire H l s =
     (case newDHCPClient H (lease_link l) s of
        Inl err \<Rightarrow> Some (Fail err, s)
      | Inr c \<Rightarrow>
     (case (if \<not> lnUp (lease_link l) then dh_LinkSetUp H (lease_link l) s else (None, s)) of
        (Some err, s) \<Rightarrow> Some (Fail err, dh_Close H c s)
      | (None, s) \<Rightarrow>
          (let opts = client_id_option l @ [(OptionParameterRequestList, [3, 1])] in
           case backoffRetry H (\<lambda>s. tried (''DHCP server NACK'' @ [CHR 0x27] @ ''d own offer'') (DhcpRequest H c opts s)) s of
             None \<Rightarrow> None
           | Some (Ret pkt, s) \<Rightarrow> Some (outcome_of (commit H l pkt s), dh_Close H c s)
           | Some (Fail err, s) \<Rightarrow> Some (Fail err, dh_Close H c s)
           | Some (Panic m, s) \<Rightarrow> Some (Panic m, dh_Close H c s))))"

text \<open>The error of \<open>commit\<close> is dropped: the lease is then unchanged, and renewal a success.\<close>

definition renew :: "('c, 'p, 's) dhcp_host \<Rightarrow> 'p dhcp_lease \<Rightarrow> 's \<Rightarrow> ('p dhcp_lease outcome \<times> 's) option" where
  "renew H l s =
     (case newDHCPClient H (lease_link l) s of
        Inl err \<Rightarrow> Some (Fail err, s)
      | Inr c \<Rightarrow>
          (case ack l of
             None \<Rightarrow> Some (Panic ''invalid memory address or nil pointer dereference'', dh_Close H c s)
           | Some p \<Rightarrow>
          (case backoffRetry H (\<lambda>s. tried ''DHCP server did not renew lease'' (DhcpRenew H c p (client_id_option l) s)) s of
             None \<Rightarrow> None
           | Some (Ret pkt, s) \<Rightarrow>
               Some (Ret (case commit H l pkt s of Inl err \<Rightarrow> l | Inr l \<Rightarrow> l), dh_Close H c s)
           | Some (Fail err, s) \<Rightarrow> Some (Fail err, dh_Close H c s)
           | Some (Panic m, s) \<Rightarrow> Some (Panic m, dh_Close H c s))))"

definition lease_release :: "('c, 'p, 's) dhcp_host \<Rightarrow> 'p dhcp_lease \<Rightarrow> 's \<Rightarrow> unit outcome \<times> 's" where
  "lease_release H l s =
     (case newDHCPClient H (lease_link l) s of
        Inl err \<Rightarrow> (Fail err, s)
      | Inr c \<Rightarrow>
          (case ack l of
             None \<Rightarrow> (Panic ''invalid memory address or nil pointer dereference'', dh_Close H c s)
           | Some p \<Rightarrow>
          (case DhcpRelease H c p (client_id_option l) s of
             (Some err, s) \<Rightarrow> (Fail (Msg ''failed to send DHCPRELEASE''), dh_Close H c s)
           | (None, s) \<Rightarrow> (Ret (), dh_Close H c s))))"

definition lease_IPNet :: "('c, 'p, 's) dhcp_host \<Rightarrow> 'p dhcp_lease \<Rightarrow> ip_net outcome" where
  "lease_IPNet H l =
     (let m = parseSubnetMask (lease_opts l) in
      if lease_opts l OptionSubnetMask = None
      then Fail (Msg ''DHCP option Subnet Mask not found in DHCPACK'')
      else case ack l of
        None \<Rightarrow> Panic ''invalid memory address or nil pointer dereference''
      | Some p \<Rightarrow> Ret \<lparr>IP = dh_YIAddr H p, Mask = m\<rparr>)"

definition downIface :: "('c, 'p, 's) dhcp_host \<Rightarrow> 'p dhcp_lease \<Rightarrow> 's \<Rightarrow> 's" where
  "downIface H l s = snd (dh_LinkSetDown H (lease_link l) s)"

end
