(* ===== verification/DhcpDaemon.thy ===== *)
theory DhcpDaemon
  imports Dhcp Kipam
begin

text \<open>
  The worker that maintains a lease and the daemon that keeps the leases, as step relations: the
  workers and the calls of the daemon run concurrently, each step is one turn of the loop or one
  section of a call between the points where it waits.
\<close>

section \<open>lease.go: the loop\<close>

text \<open>
  A turn of the loop of \<open>maintain\<close>: it goes on at once, it waits for a while or until the lease is
  stopped, or it ends because the lease has expired.
\<close>

datatype 'p turn = Continue lease_state "'p dhcp_lease" | Select int lease_state "'p dhcp_lease" | Expired

definition maintain_turn ::
  "('c, 'p, 's) dhcp_host \<Rightarrow> lease_state \<Rightarrow> 'p dhcp_lease \<Rightarrow> 's \<Rightarrow> ('p turn outcome \<times> 's) option" where
  "maintain_turn H state l s =
     (case state of
        leaseStateBound \<Rightarrow>
          (let sleepDur = renewalTime l - dh_Now H s
           in if sleepDur \<le> 0 then Some (Ret (Continue leaseStateRenewing l), s)
              else Some (Ret (Select sleepDur leaseStateBound l), s))
      | leaseStateRenewing \<Rightarrow>
          (case renew H l s of
             None \<Rightarrow> None
           | Some (Ret l', s) \<Rightarrow> Some (Ret (Select 0 leaseStateBound l'), s)
           | Some (Fail err, s) \<Rightarrow>
               Some (Ret (Select 0 (if dh_Now H s > rebindingTime l then leaseStateRebinding else leaseStateRenewing) l), s)
           | Some (Panic m, s) \<Rightarrow> Some (Panic m, s))
      | leaseStateRebinding \<Rightarrow>
          (case acquire H l s of
             None \<Rightarrow> None
           | Some (Ret l', s) \<Rightarrow> Some (Ret (Select 0 leaseStateBound l'), s)
           | Some (Fail err, s) \<Rightarrow>
               if dh_Now H s > expireTime l then Some (Ret Expired, downIface H l s)
               else Some (Ret (Select 0 leaseStateRebinding l), s)
           | Some (Panic m, s) \<Rightarrow> Some (Panic m, s)))"

text \<open>
  Where a worker is: in the loop, in the \<open>select\<close> until a time, or at its end, after the lease
  expired or was stopped. \<open>stopping\<close> says that the channel \<open>stop\<close> is closed. A panic ends the
  daemon: there is no step.
\<close>

datatype 'p worker_at =
    Running lease_state "'p dhcp_lease"
  | Waiting int lease_state "'p dhcp_lease"
  | Finished bool "'p dhcp_lease"

record 'p worker =
  wk_at :: "'p worker_at"
  stopping :: bool

inductive worker_step :: "('c, 'p, 's) dhcp_host \<Rightarrow> 'p worker \<times> 's \<Rightarrow> 'p worker \<times> 's \<Rightarrow> bool"
  for H :: "('c, 'p, 's) dhcp_host" where
  continue: "maintain_turn H state l s = Some (Ret (Continue state' l'), s') \<Longrightarrow>
    worker_step H (\<lparr>wk_at = Running state l, stopping = b\<rparr>, s) (\<lparr>wk_at = Running state' l', stopping = b\<rparr>, s')"
| select: "maintain_turn H state l s = Some (Ret (Select sleepDur state' l'), s') \<Longrightarrow>
    worker_step H (\<lparr>wk_at = Running state l, stopping = b\<rparr>, s)
      (\<lparr>wk_at = Waiting (dh_Now H s' + sleepDur) state' l', stopping = b\<rparr>, s')"
| expire: "maintain_turn H state l s = Some (Ret Expired, s') \<Longrightarrow>
    worker_step H (\<lparr>wk_at = Running state l, stopping = b\<rparr>, s) (\<lparr>wk_at = Finished True l, stopping = b\<rparr>, s')"
| wake: "t \<le> dh_Now H s \<Longrightarrow>
    worker_step H (\<lparr>wk_at = Waiting t state l, stopping = b\<rparr>, s) (\<lparr>wk_at = Running state l, stopping = b\<rparr>, s)"
| stop: "lease_release H l s = (r, s') \<Longrightarrow> \<forall>m. r \<noteq> Panic m \<Longrightarrow>
    worker_step H (\<lparr>wk_at = Waiting t state l, stopping = True\<rparr>, s) (\<lparr>wk_at = Finished False l, stopping = True\<rparr>, s')"

inductive_cases worker_stepE: "worker_step H (w, s) (w', s')"

section \<open>AcquireLease\<close>

text \<open>
  The caller waits until the worker has the lease or has failed; \<open>WithNetNSPath\<close> enters the
  namespace.
\<close>

definition AcquireLease ::
  "('c, 'p, 's) dhcp_host \<Rightarrow> string \<Rightarrow> string \<Rightarrow> string \<Rightarrow> 's \<Rightarrow> ('p dhcp_lease outcome \<times> 's) option" where
  "AcquireLease H cid netns ifName s =
     (case dh_WithNetNSPath H netns s of
        Some err \<Rightarrow> Some (Fail err, s)
      | None \<Rightarrow>
     (case dh_LinkByName H netns ifName s of
        Inl err \<Rightarrow> Some (Fail (Msg (''error looking up '' @ quote ifName @ '': '' @ err_text err)), s)
      | Inr l \<Rightarrow>
          acquire H \<lparr>clientID = cid, ack = None, lease_opts = (\<lambda>_. None), lease_link = l, renewalTime = 0,
            rebindingTime = 0, expireTime = 0\<rparr> s))"

definition new_worker :: "'p dhcp_lease \<Rightarrow> 'p worker" where
  "new_worker l = \<lparr>wk_at = Running leaseStateBound l, stopping = False\<rparr>"

fun lease_of :: "'p worker_at \<Rightarrow> 'p dhcp_lease" where
  "lease_of (Running state l) = l"
| "lease_of (Waiting t state l) = l"
| "lease_of (Finished expired l) = l"

fun is_finished :: "'p worker_at \<Rightarrow> bool" where
  "is_finished (Finished expired l) = True"
| "is_finished _ = False"

section \<open>daemon.go\<close>

text \<open>
  The table of leases by client, each the number of its worker, and the calls of \<open>Release\<close> that
  wait in \<open>Stop\<close> for a worker to end.
\<close>

record ('p, 's) dhcpd =
  leases :: "string \<rightharpoonup> nat"
  workers :: "'p worker list"
  stops :: "(string \<times> nat) list"
  dhost :: 's

definition newDHCP :: "'s \<Rightarrow> ('p, 's) dhcpd" where
  "newDHCP s = \<lparr>leases = (\<lambda>_. None), workers = [], stops = [], dhost = s\<rparr>"

definition generateClientID :: "string \<Rightarrow> string \<Rightarrow> string \<Rightarrow> string" where
  "generateClientID containerID netwName ifName = containerID @ ''/'' @ netwName @ ''/'' @ ifName"

definition getLease :: "('p, 's) dhcpd \<Rightarrow> string \<Rightarrow> nat option" where
  "getLease d cid = leases d cid"

definition setLease :: "string \<Rightarrow> nat \<Rightarrow> ('p, 's) dhcpd \<Rightarrow> ('p, 's) dhcpd" where
  "setLease cid i d = d\<lparr>leases := (leases d)(cid \<mapsto> i)\<rparr>"

definition clearLease :: "string \<Rightarrow> ('p, 's) dhcpd \<Rightarrow> ('p, 's) dhcpd" where
  "clearLease cid d = d\<lparr>leases := (leases d)(cid := None)\<rparr>"

text \<open>\<open>Stop\<close> closes the channel of a worker; who called it then waits for the worker's end.\<close>

definition close_stop :: "nat \<Rightarrow> ('p, 's) dhcpd \<Rightarrow> ('p, 's) dhcpd" where
  "close_stop i d = d\<lparr>workers := (workers d)[i := (workers d ! i)\<lparr>stopping := True\<rparr>]\<rparr>"

definition daemon_conf :: "document \<Rightarrow> go_error + netconf" where
  "daemon_conf data =
     (case bind_sum data dec_netconf of
        Inl err \<Rightarrow> Inl (Msg (''error parsing netconf: '' @ err_text err)) | Inr conf \<Rightarrow> Inr conf)"

definition lease_result :: "'p dhcp_lease \<Rightarrow> ip_net \<Rightarrow> result_cur" where
  "lease_result l ipn =
     \<lparr>CNIVersion = [], Interfaces = [],
      IPs = [\<lparr>Version = ''4'', Interface = None, Address = ipn, ConfGateway = lease_Gateway (lease_opts l)\<rparr>],
      Routes = lease_Routes (lease_opts l), DNS = empty_dns\<rparr>"

definition Allocate ::
  "('c, 'p, 's) dhcp_host \<Rightarrow> string \<Rightarrow> cmd_args \<Rightarrow> ('p, 's) dhcpd \<Rightarrow> (result_cur outcome \<times> ('p, 's) dhcpd) option" where
  "Allocate H hostNetnsPrefix args d =
     (case daemon_conf (StdinData args) of
        Inl err \<Rightarrow> Some (Fail err, d)
      | Inr conf \<Rightarrow>
          (let cid = generateClientID (ContainerID args) (confName conf) (IfName args) in
           case AcquireLease H cid (hostNetnsPrefix @ Netns args) (IfName args) (dhost d) of
             None \<Rightarrow> None
           | Some (Fail err, s) \<Rightarrow> Some (Fail err, d\<lparr>dhost := s\<rparr>)
           | Some (Panic m, s) \<Rightarrow> Some (Panic m, d\<lparr>dhost := s\<rparr>)
           | Some (Ret l, s) \<Rightarrow>
               (let i = length (workers d);
                    d = d\<lparr>dhost := s, workers := workers d @ [new_worker l]\<rparr>
                in case lease_IPNet H l of
                     Fail err \<Rightarrow> Some (Fail err, close_stop i d)
                   | Panic m \<Rightarrow> Some (Panic m, d)
                   | Ret ipn \<Rightarrow> Some (Ret (lease_result l ipn), setLease cid i d))))"

text \<open>\<open>Release\<close> up to the wait in \<open>Stop\<close>, and from there to its end.\<close>

definition Release_begin :: "cmd_args \<Rightarrow> ('p, 's) dhcpd \<Rightarrow> go_error option \<times> ('p, 's) dhcpd" where
  "Release_begin args d =
     (case daemon_conf (StdinData args) of
        Inl err \<Rightarrow> (Some err, d)
      | Inr conf \<Rightarrow>
          (let cid = generateClientID (ContainerID args) (confName conf) (IfName args) in
           case getLease d cid of
             None \<Rightarrow> (None, d)
           | Some i \<Rightarrow> (None, (close_stop i d)\<lparr>stops := (cid, i) # stops d\<rparr>)))"

definition Release_end :: "string \<Rightarrow> nat \<Rightarrow> ('p, 's) dhcpd \<Rightarrow> ('p, 's) dhcpd" where
  "Release_end cid i d = (clearLease cid d)\<lparr>stops := remove1 (cid, i) (stops d)\<rparr>"

inductive daemon_step :: "('c, 'p, 's) dhcp_host \<Rightarrow> string \<Rightarrow> ('p, 's) dhcpd \<Rightarrow> ('p, 's) dhcpd \<Rightarrow> bool"
  for H :: "('c, 'p, 's) dhcp_host" and hostPrefix :: string where
  work: "i < length (workers d) \<Longrightarrow> worker_step H (workers d ! i, dhost d) (w, s) \<Longrightarrow>
    daemon_step H hostPrefix d (d\<lparr>workers := (workers d)[i := w], dhost := s\<rparr>)"
| allocate: "Allocate H hostPrefix args d = Some (r, d') \<Longrightarrow> \<forall>m. r \<noteq> Panic m \<Longrightarrow> daemon_step H hostPrefix d d'"
| release: "Release_begin args d = (r, d') \<Longrightarrow> daemon_step H hostPrefix d d'"
| released: "(cid, i) \<in> set (stops d) \<Longrightarrow> is_finished (wk_at (workers d ! i)) \<Longrightarrow>
    daemon_step H hostPrefix d (Release_end cid i d)"
| pass: "dh_Now H (dhost d) \<le> dh_Now H s \<Longrightarrow> daemon_step H hostPrefix d (d\<lparr>dhost := s\<rparr>)"

section \<open>main.go\<close>

definition defaultSocketPath :: string where
  "defaultSocketPath = ''/run/cni/dhcp.sock''"

definition dec_socket_path :: "json \<Rightarrow> go_error + string" where
  "dec_socket_path j = bind_sum (jmembers j) (\<lambda>kvs.
     dec_field (\<lambda>j. bind_sum (jmembers j) (\<lambda>kvs. dec_field dec_string [] kvs ''daemonSocketPath'')) [] kvs ''ipam'')"

definition getSocketPath :: "document \<Rightarrow> go_error + string" where
  "getSocketPath stdinData =
     (case bind_sum stdinData dec_socket_path of
        Inl err \<Rightarrow> Inl (Msg (''error parsing socket path conf: '' @ err_text err))
      | Inr path \<Rightarrow> Inr (if path = [] then defaultSocketPath else path))"

text \<open>The connection to the daemon: \<open>rpc.DialHTTP\<close>, \<open>filepath.Abs\<close> and \<open>Call\<close>.\<close>

record 'w dhcp_rpc =
  rpc_Dial :: "string \<Rightarrow> 'w \<Rightarrow> go_error option"
  rpc_Abs :: "string \<Rightarrow> go_error + string"
  rpc_Call :: "string \<Rightarrow> string \<Rightarrow> cmd_args \<Rightarrow> 'w \<Rightarrow> (go_error + result_cur) \<times> 'w"

definition rpcCall :: "'w dhcp_rpc \<Rightarrow> string \<Rightarrow> cmd_args \<Rightarrow> 'w \<Rightarrow> (go_error + result_cur) \<times> 'w" where
  "rpcCall R meth args w =
     (case getSocketPath (StdinData args) of
        Inl err \<Rightarrow> (Inl (Msg (''error obtaining socketPath: '' @ err_text err)), w)
      | Inr socketPath \<Rightarrow>
     (case rpc_Dial R socketPath w of
        Some err \<Rightarrow> (Inl (Msg (''error dialing DHCP daemon: '' @ err_text err)), w)
      | None \<Rightarrow>
     (case rpc_Abs R (Netns args) of
        Inl err \<Rightarrow> (Inl (Msg (''failed to make '' @ quote (Netns args) @ '' an absolute path: '' @ err_text err)), w)
      | Inr netns \<Rightarrow>
     (case rpc_Call R socketPath meth (args\<lparr>Netns := netns\<rparr>) w of
        (Inl err, w) \<Rightarrow> (Inl (Msg (''error calling '' @ meth @ '': '' @ err_text err)), w)
      | (Inr result, w) \<Rightarrow> (Inr result, w)))))"

definition dhcp_cmdAdd :: "'w dhcp_rpc \<Rightarrow> cmd_args \<Rightarrow> 'w \<Rightarrow> cni_result outcome \<times> 'w" where
  "dhcp_cmdAdd R args w =
     (case ConfigDecoder_Decode (StdinData args) of
        Inl err \<Rightarrow> (Fail err, w)
      | Inr confVersion \<Rightarrow>
          (case rpcCall R ''DHCP.Allocate'' args w of
             (Inl err, w) \<Rightarrow> (Fail err, w)
           | (Inr result, w) \<Rightarrow> (outcome_of (PrintResult (RCur result) confVersion), w)))"

definition dhcp_cmdDel :: "'w dhcp_rpc \<Rightarrow> cmd_args \<Rightarrow> 'w \<Rightarrow> unit outcome \<times> 'w" where
  "dhcp_cmdDel R args w =
     (case rpcCall R ''DHCP.Release'' args w of (Inl err, w) \<Rightarrow> (Fail err, w) | (Inr _, w) \<Rightarrow> (Ret (), w))"

text \<open>CHECK calls \<open>Allocate\<close>, as ADD does.\<close>

definition dhcp_cmdCheck :: "'w dhcp_rpc \<Rightarrow> cmd_args \<Rightarrow> 'w \<Rightarrow> unit outcome \<times> 'w" where
  "dhcp_cmdCheck R args w =
     (case ConfigDecoder_Decode (StdinData args) of
        Inl err \<Rightarrow> (Fail err, w)
      | Inr _ \<Rightarrow>
          (case rpcCall R ''DHCP.Allocate'' args w of
             (Inl err, w) \<Rightarrow> (Fail err, w)
           | (Inr result, w) \<Rightarrow> (Ret (), w)))"

end
