(* ===== verification/Properties_Dhcp.thy ===== *)
theory Properties_Dhcp
  imports DhcpDaemon
begin

text \<open>
  What holds of the leases: every call returns, the times of a lease are in order, a worker takes
  its link down only after the lease has expired, and the table of the daemon. The locale
  \<open>dhcp_clock\<close> says that no operation of the host turns the clock back.
\<close>

section \<open>Retries\<close>

primrec retry :: "('c, 'p, 's) dhcp_host \<Rightarrow> ('s \<Rightarrow> 'p outcome \<times> 's) \<Rightarrow> int list \<Rightarrow> 's \<Rightarrow> 'p outcome \<times> 's" where
  "retry H f [] s = (Fail errNoMoreTries, s)"
| "retry H f (delay # delays) s =
     (case f s of
        (Fail err, s) \<Rightarrow> retry H f delays (dh_Sleep H (delay * Second + dh_jitter H Second s) s)
      | (r, s) \<Rightarrow> (r, s))"

lemma backoff_loop_retry:
  assumes "if base < resendDelayMax then \<forall>s. backoff_loop H f (base * 2) s = Some (retry H f delays s) else delays = []"
    and "base = delay * Second"
  shows "\<forall>s. backoff_loop H f base s = Some (retry H f (delay # delays) s)"
proof
  fix s
  show "backoff_loop H f base s = Some (retry H f (delay # delays) s)"
    using assms by (subst backoff_loop.simps) (auto simp: Let_def split: prod.split outcome.split if_splits)
qed

lemma backoffRetry_retry: "backoffRetry H f s = Some (retry H f [4, 8, 16, 32, 64] s)"
proof -
  note delays = resendDelayMax_def Second_def
  have "\<forall>s. backoff_loop H f (64 * Second) s = Some (retry H f [64] s)"
    by (rule backoff_loop_retry) (simp_all add: delays)
  then have "\<forall>s. backoff_loop H f (32 * Second) s = Some (retry H f [32, 64] s)"
    by (intro backoff_loop_retry) (simp_all add: delays)
  then have "\<forall>s. backoff_loop H f (16 * Second) s = Some (retry H f [16, 32, 64] s)"
    by (intro backoff_loop_retry) (simp_all add: delays)
  then have "\<forall>s. backoff_loop H f (8 * Second) s = Some (retry H f [8, 16, 32, 64] s)"
    by (intro backoff_loop_retry) (simp_all add: delays)
  then have "\<forall>s. backoff_loop H f (4 * Second) s = Some (retry H f [4, 8, 16, 32, 64] s)"
    by (intro backoff_loop_retry) (simp_all add: delays)
  then show ?thesis by (simp add: backoffRetry_def resendDelay0_def)
qed

lemma acquire_returns: "acquire H l s \<noteq> None"
proof (cases "newDHCPClient H (lease_link l) s")
  case (Inr c)
  obtain e s1 where up: "(if \<not> lnUp (lease_link l) then dh_LinkSetUp H (lease_link l) s else (None, s)) = (e, s1)"
    by (cases "if \<not> lnUp (lease_link l) then dh_LinkSetUp H (lease_link l) s else (None, s)")
  show ?thesis
    unfolding acquire_def Inr sum.case up backoffRetry_retry Let_def
    by (cases e) (simp_all split: prod.split outcome.split)
qed (simp add: acquire_def)

lemma renew_returns: "renew H l s \<noteq> None"
  unfolding renew_def backoffRetry_retry by (simp split: sum.split option.split prod.split outcome.split)


section \<open>The times of a lease\<close>

lemma int64_id: "- (2 ^ 63) \<le> x \<Longrightarrow> x < 2 ^ 63 \<Longrightarrow> int64 x = x"
  by (simp add: int64_def)

lemma parseDuration_nonneg: "parseDuration opts code name = Inr t \<Longrightarrow> 0 \<le> t"
  by (auto simp: parseDuration_def Second_def split: option.splits if_splits)

lemma sdiv_pos: "0 \<le> (a::int) \<Longrightarrow> 0 < b \<Longrightarrow> a sdiv b = a div b"
  by (simp add: signed_divide_int_def sgn_if)

lemma commit_same: "commit H l pkt s = Inr l' \<Longrightarrow> clientID l' = clientID l \<and> lease_link l' = lease_link l"
  by (auto simp: commit_def Let_def split: sum.splits)

text \<open>
  C39. After an acknowledgement the lease expires when its lease time has passed, and for lease
  times below \<open>2^63 / 85\<close> nanoseconds (about 3.4 years) renewing and rebinding are due between now
  and then. Renewing is due no later than rebinding provided that rebinding is due after at least
  half of the lease time.
\<close>

theorem commit_times:
  assumes "commit H l pkt s = Inr l'" "parseLeaseTime (dh_ParseOptions H pkt) = Inr t" "t * 85 < 2 ^ 63"
  shows "expireTime l' = dh_Now H s + t \<and>
    dh_Now H s \<le> renewalTime l' \<and> renewalTime l' \<le> expireTime l' \<and>
    dh_Now H s \<le> rebindingTime l' \<and> rebindingTime l' \<le> expireTime l' \<and>
    (dh_Now H s + t div 2 \<le> rebindingTime l' \<longrightarrow> renewalTime l' \<le> rebindingTime l')"
proof -
  let ?o = "dh_ParseOptions H pkt"
  have t: "0 \<le> t" using assms(2) parseDuration_nonneg by (auto simp: parseLeaseTime_def)
  then have d: "int64 (t * 85) sdiv 100 = t * 85 div 100" "t sdiv 2 = t div 2"
    using assms(3) by (simp_all add: int64_id sdiv_pos)
  have le: "0 \<le> t * 85 div 100" "t * 85 div 100 \<le> t" "0 \<le> t div 2" "t div 2 \<le> t" using t by auto
  define b where "b = (case parseRebindingTime ?o of Inl err \<Rightarrow> t * 85 div 100
    | Inr u \<Rightarrow> if u > t then t * 85 div 100 else u)"
  define r where "r = (case parseRenewalTime ?o of Inl err \<Rightarrow> t div 2 | Inr u \<Rightarrow> if u > b then t div 2 else u)"
  have b: "0 \<le> b" "b \<le> t"
    using le parseDuration_nonneg [of ?o OptionRebindingTimeValue] by (auto simp: b_def parseRebindingTime_def split: sum.splits)
  have r: "0 \<le> r" "r \<le> t" "t div 2 \<le> b \<longrightarrow> r \<le> b"
    using le b parseDuration_nonneg [of ?o OptionRenewalTimeValue] by (auto simp: r_def parseRenewalTime_def split: sum.splits)
  have "l' = l\<lparr>expireTime := dh_Now H s + t, renewalTime := dh_Now H s + r, rebindingTime := dh_Now H s + b,
      ack := Some pkt, lease_opts := ?o\<rparr>"
    using assms(1) unfolding commit_def Let_def assms(2) by (simp only: sum.case d b_def r_def sum.inject)
  then show ?thesis using b r by simp
qed

text \<open>
  A lease without end, of 2^32 - 1 seconds, overflows the product with 85: rebinding is due more than
  a year before the acknowledgement.
\<close>

lemma commit_infinite_lease:
  assumes "dh_ParseOptions H pkt OptionIPAddressLeaseTime = Some [255, 255, 255, 255]"
    and "dh_ParseOptions H pkt OptionRebindingTimeValue = None" "commit H l pkt s = Inr l'"
  shows "rebindingTime l' < dh_Now H s - 365 * 24 * 3600 * Second"
proof -
  have "parseLeaseTime (dh_ParseOptions H pkt) = Inr (4294967295 * Second)"
    using assms(1) by (simp add: parseLeaseTime_def parseDuration_def)
  moreover have "int64 (4294967295 * Second * 85) sdiv 100 < - (365 * 24 * 3600 * Second)"
    by (simp add: int64_def Second_def signed_divide_int_def)
  ultimately show ?thesis
    using assms(2,3) by (auto simp: commit_def Let_def parseRebindingTime_def parseDuration_def)
qed

section \<open>The clock\<close>

text \<open>No operation of the host turns the clock back.\<close>

locale dhcp_clock =
  fixes H :: "('c, 'p, 's) dhcp_host"
  assumes Sleep: "dh_Now H s \<le> dh_Now H (dh_Sleep H t s)"
    and LinkSetUp: "dh_LinkSetUp H l s = (e, s') \<Longrightarrow> dh_Now H s \<le> dh_Now H s'"
    and LinkSetDown: "dh_LinkSetDown H l s = (e, s') \<Longrightarrow> dh_Now H s \<le> dh_Now H s'"
    and Close: "dh_Now H s \<le> dh_Now H (dh_Close H c s)"
    and SendPacket: "dh_SendPacket H c p s = (e, s') \<Longrightarrow> dh_Now H s \<le> dh_Now H s'"
    and GetOffer: "dh_GetOffer H c p s = (q, e, s') \<Longrightarrow> dh_Now H s \<le> dh_Now H s'"
    and GetAcknowledgement: "dh_GetAcknowledgement H c p s = (q, e, s') \<Longrightarrow> dh_Now H s \<le> dh_Now H s'"
begin

lemma DhcpRequest_clock:
  assumes "DhcpRequest H c options s = (r, s')"
  shows "dh_Now H s \<le> dh_Now H s'"
proof -
  let ?p = "add_options H options (dh_DiscoverPacket H c s)"
  obtain e1 s1 where 1: "dh_SendPacket H c ?p s = (e1, s1)" by (cases "dh_SendPacket H c ?p s")
  obtain q e2 s2 where 2: "dh_GetOffer H c ?p s1 = (q, e2, s2)" by (cases "dh_GetOffer H c ?p s1")
  let ?r = "add_options H options (dh_RequestPacket H c q)"
  obtain e3 s3 where 3: "dh_SendPacket H c ?r s2 = (e3, s3)" by (cases "dh_SendPacket H c ?r s2")
  obtain a e4 s4 where 4: "dh_GetAcknowledgement H c ?r s3 = (a, e4, s4)" by (cases "dh_GetAcknowledgement H c ?r s3")
  have "s' \<in> {s1, s2, s3, s4}"
    using assms 1 2 3 4
    by (auto simp: DhcpRequest_def DhcpSendDiscoverPacket_def DhcpSendRequest_def Let_def split: option.splits)
  then show ?thesis
    using SendPacket [OF 1] GetOffer [OF 2] SendPacket [OF 3] GetAcknowledgement [OF 4] by auto
qed

lemma DhcpRenew_clock:
  assumes "DhcpRenew H c p options s = (r, s')"
  shows "dh_Now H s \<le> dh_Now H s'"
proof -
  let ?r = "add_options H options (dh_RenewalRequestPacket H c p)"
  obtain e1 s1 where 1: "dh_SendPacket H c ?r s = (e1, s1)" by (cases "dh_SendPacket H c ?r s")
  obtain a e2 s2 where 2: "dh_GetAcknowledgement H c ?r s1 = (a, e2, s2)" by (cases "dh_GetAcknowledgement H c ?r s1")
  have "s' \<in> {s1, s2}" using assms 1 2 by (auto simp: DhcpRenew_def Let_def split: option.splits)
  then show ?thesis using SendPacket [OF 1] GetAcknowledgement [OF 2] by auto
qed

lemma retry_clock:
  assumes "\<And>s r s'. f s = (r, s') \<Longrightarrow> dh_Now H s \<le> dh_Now H s'"
  shows "retry H f delays s = (r, s') \<Longrightarrow> dh_Now H s \<le> dh_Now H s'"
proof (induction delays arbitrary: s)
  case (Cons t delays)
  obtain q s1 where 1: "f s = (q, s1)" by (cases "f s")
  note le = assms [OF 1]
  show ?case
  proof (cases q)
    case (Fail err)
    let ?s = "dh_Sleep H (t * Second + dh_jitter H Second s1) s1"
    have "dh_Now H ?s \<le> dh_Now H s'" using Cons Fail 1 by simp
    then show ?thesis using le Sleep [of s1 "t * Second + dh_jitter H Second s1"] by linarith
  qed (use Cons.prems 1 le in auto)
qed simp

lemma tried_clock:
  "tried nack (DhcpRequest H c options s) = (r, s') \<Longrightarrow> dh_Now H s \<le> dh_Now H s'"
  "tried nack (DhcpRenew H c p options s) = (r, s') \<Longrightarrow> dh_Now H s \<le> dh_Now H s'"
  using DhcpRequest_clock [of c options s _ s'] DhcpRenew_clock [of c p options s _ s']
  by (auto simp: tried_def split: prod.splits outcome.splits option.splits if_splits)

lemma acquire_clock:
  assumes "acquire H l s = Some (r, s')"
  shows "dh_Now H s \<le> dh_Now H s'"
    and "r = Ret l' \<Longrightarrow> clientID l' = clientID l"
proof -
  have "dh_Now H s \<le> dh_Now H s' \<and> (r = Ret l' \<longrightarrow> clientID l' = clientID l)"
  proof (cases "newDHCPClient H (lease_link l) s")
    case (Inr c)
    obtain e s1 where up: "(if \<not> lnUp (lease_link l) then dh_LinkSetUp H (lease_link l) s else (None, s)) = (e, s1)"
      by (cases "if \<not> lnUp (lease_link l) then dh_LinkSetUp H (lease_link l) s else (None, s)")
    then have 1: "dh_Now H s \<le> dh_Now H s1" using LinkSetUp by (auto split: if_splits)
    show ?thesis
    proof (cases e)
      case (Some err)
      then show ?thesis using assms 1 Close [of s1 c] by (auto simp: acquire_def Inr up)
    next
      case None
      let ?f = "\<lambda>s. tried (''DHCP server NACK'' @ [CHR 0x27] @ ''d own offer'')
        (DhcpRequest H c (client_id_option l @ [(OptionParameterRequestList, [3, 1])]) s)"
      obtain q s2 where 2: "retry H ?f [4, 8, 16, 32, 64] s1 = (q, s2)" by (cases "retry H ?f [4, 8, 16, 32, 64] s1")
      have "s' = dh_Close H c s2 \<and> (r = Ret l' \<longrightarrow> (\<exists>pkt. commit H l pkt s2 = Inr l'))"
        using assms unfolding acquire_def Inr sum.case up None prod.case option.case Let_def backoffRetry_retry 2
        by (cases q) (auto elim: outcome_of.elims)
      then show ?thesis
        using 1 retry_clock [OF tried_clock(1) 2] Close [of s2 c] commit_same by fastforce
    qed
  qed (use assms in \<open>auto simp: acquire_def\<close>)
  then show "dh_Now H s \<le> dh_Now H s'" "r = Ret l' \<Longrightarrow> clientID l' = clientID l" by auto
qed

lemma renew_clock:
  assumes "renew H l s = Some (r, s')"
  shows "dh_Now H s \<le> dh_Now H s'"
    and "r = Ret l' \<Longrightarrow> clientID l' = clientID l"
proof -
  have "dh_Now H s \<le> dh_Now H s' \<and> (r = Ret l' \<longrightarrow> clientID l' = clientID l)"
  proof (cases "newDHCPClient H (lease_link l) s")
    case (Inr c)
    show ?thesis
    proof (cases "ack l")
      case None
      then show ?thesis using assms Close [of s c] by (auto simp: renew_def Inr)
    next
      case (Some p)
      let ?f = "\<lambda>s. tried ''DHCP server did not renew lease'' (DhcpRenew H c p (client_id_option l) s)"
      obtain q s2 where 2: "retry H ?f [4, 8, 16, 32, 64] s = (q, s2)" by (cases "retry H ?f [4, 8, 16, 32, 64] s")
      have "s' = dh_Close H c s2 \<and> (r = Ret l' \<longrightarrow> l' = l \<or> (\<exists>pkt. commit H l pkt s2 = Inr l'))"
        using assms unfolding renew_def Inr sum.case Some option.case backoffRetry_retry 2
        by (cases q) (auto split: sum.splits)
      then show ?thesis
        using retry_clock [OF tried_clock(2) 2] Close [of s2 c] commit_same by fastforce
    qed
  qed (use assms in \<open>auto simp: renew_def\<close>)
  then show "dh_Now H s \<le> dh_Now H s'" "r = Ret l' \<Longrightarrow> clientID l' = clientID l" by auto
qed

lemma release_clock:
  assumes "lease_release H l s = (r, s')"
  shows "dh_Now H s \<le> dh_Now H s'"
proof (cases "newDHCPClient H (lease_link l) s")
  case (Inr c)
  show ?thesis
  proof (cases "ack l")
    case None
    then show ?thesis using assms Close [of s c] by (auto simp: lease_release_def Inr)
  next
    case (Some p)
    obtain e s1 where 1: "DhcpRelease H c p (client_id_option l) s = (e, s1)" by (cases "DhcpRelease H c p (client_id_option l) s")
    then have "dh_Now H s \<le> dh_Now H s1" using SendPacket by (auto simp: DhcpRelease_def)
    then show ?thesis using assms 1 Some Close [of s1 c] by (cases e) (auto simp: lease_release_def Inr)
  qed
qed (use assms in \<open>auto simp: lease_release_def\<close>)

end

section \<open>Workers and the table\<close>

text \<open>What is known of the time where a worker is, and why it ended.\<close>

fun state_ok :: "lease_state \<Rightarrow> 'p dhcp_lease \<Rightarrow> int \<Rightarrow> bool" where
  "state_ok leaseStateBound l now = True"
| "state_ok leaseStateRenewing l now = (renewalTime l \<le> now)"
| "state_ok leaseStateRebinding l now = (renewalTime l \<le> now \<and> rebindingTime l < now)"

fun at_ok :: "'p worker_at \<Rightarrow> bool \<Rightarrow> int \<Rightarrow> bool" where
  "at_ok (Running state l) b now = state_ok state l now"
| "at_ok (Waiting t state l) b now = state_ok state l now"
| "at_ok (Finished expired l) b now = (if expired then expireTime l < now \<and> rebindingTime l < now else b)"

definition dhcpd_ok :: "('c, 'p, 's) dhcp_host \<Rightarrow> ('p, 's) dhcpd \<Rightarrow> bool" where
  "dhcpd_ok H d \<longleftrightarrow>
     (\<forall>w\<in>set (workers d). at_ok (wk_at w) (stopping w) (dh_Now H (dhost d))) \<and>
     (\<forall>k i. leases d k = Some i \<longrightarrow> i < length (workers d) \<and> clientID (lease_of (wk_at (workers d ! i))) = k) \<and>
     (\<forall>(k, i)\<in>set (stops d). i < length (workers d) \<and> stopping (workers d ! i) \<and>
        clientID (lease_of (wk_at (workers d ! i))) = k)"

lemma state_ok_later: "state_ok st l now \<Longrightarrow> now \<le> now' \<Longrightarrow> state_ok st l now'"
  by (cases st) auto

lemma at_ok_later: "at_ok a b now \<Longrightarrow> now \<le> now' \<Longrightarrow> at_ok a b now'"
  by (cases a) (auto intro: state_ok_later split: if_splits)

lemma at_ok_stop: "at_ok a b now \<Longrightarrow> at_ok a True now"
  by (cases a) auto

lemma dhcpd_ok_later: "dhcpd_ok H d \<Longrightarrow> dh_Now H (dhost d) \<le> dh_Now H s \<Longrightarrow> dhcpd_ok H (d\<lparr>dhost := s\<rparr>)"
  by (auto simp: dhcpd_ok_def intro: at_ok_later)

lemma upd_all: "\<forall>x\<in>set xs. P x \<Longrightarrow> P y \<Longrightarrow> \<forall>x\<in>set (xs[i := y]). P x"
  using set_update_subset_insert [of xs i y] by blast

lemma dhcpd_ok_work:
  assumes "dhcpd_ok H d" "i < length (workers d)" "dh_Now H (dhost d) \<le> dh_Now H s"
    and "at_ok (wk_at w) (stopping w) (dh_Now H s)" "stopping w = stopping (workers d ! i)"
    and "clientID (lease_of (wk_at w)) = clientID (lease_of (wk_at (workers d ! i)))"
  shows "dhcpd_ok H (d\<lparr>workers := (workers d)[i := w], dhost := s\<rparr>)"
proof -
  have "\<forall>w\<in>set (workers d). at_ok (wk_at w) (stopping w) (dh_Now H s)"
    using assms(1,3) by (auto simp: dhcpd_ok_def intro: at_ok_later)
  note upd_all [where P = "\<lambda>w. at_ok (wk_at w) (stopping w) (dh_Now H s)", OF this assms(4), of i]
  moreover have "stopping ((workers d)[i := w] ! j) = stopping (workers d ! j) \<and>
      clientID (lease_of (wk_at ((workers d)[i := w] ! j))) = clientID (lease_of (wk_at (workers d ! j)))" for j
    using assms(2,5,6) by (cases "j = i") auto
  ultimately show ?thesis using assms(1) by (auto simp: dhcpd_ok_def)
qed

lemma dhcpd_ok_close_stop:
  assumes "dhcpd_ok H d" "i < length (workers d)"
  shows "dhcpd_ok H (close_stop i d)"
proof -
  have all: "\<forall>w\<in>set (workers d). at_ok (wk_at w) (stopping w) (dh_Now H (dhost d))"
    using assms(1) by (simp add: dhcpd_ok_def)
  then have "at_ok (wk_at (workers d ! i)) True (dh_Now H (dhost d))"
    using nth_mem [OF assms(2)] at_ok_stop by blast
  then have "at_ok (wk_at ((workers d ! i)\<lparr>stopping := True\<rparr>)) (stopping ((workers d ! i)\<lparr>stopping := True\<rparr>)) (dh_Now H (dhost d))"
    by simp
  note upd_all [where P = "\<lambda>w. at_ok (wk_at w) (stopping w) (dh_Now H (dhost d))", OF all this, of i]
  moreover have "stopping (workers d ! j) \<Longrightarrow> stopping ((workers d)[i := (workers d ! i)\<lparr>stopping := True\<rparr>] ! j)"
    "clientID (lease_of (wk_at ((workers d)[i := (workers d ! i)\<lparr>stopping := True\<rparr>] ! j))) = clientID (lease_of (wk_at (workers d ! j)))" for j
    using assms(2) by (cases "j = i"; simp)+
  ultimately show ?thesis using assms(1) by (auto simp: dhcpd_ok_def close_stop_def)
qed

lemma close_stop_simps [simp]:
  "leases (close_stop i d) = leases d" "length (workers (close_stop i d)) = length (workers d)"
  "stops (close_stop i d) = stops d" "dhost (close_stop i d) = dhost d"
  by (simp_all add: close_stop_def)

lemma Allocate_cases:
  assumes "Allocate H pre args d = Some (r, d')"
  obtains (failed) "d' = d" "\<forall>res. r \<noteq> Ret res"
  | (no_lease) cid netns ifName s q where "AcquireLease H cid netns ifName (dhost d) = Some (q, s)" "\<forall>l. q \<noteq> Ret l" "d' = d\<lparr>dhost := s\<rparr>"
      "\<forall>res. r \<noteq> Ret res"
  | (panic) m where "r = Panic m"
  | (no_mask) cid netns ifName s l where "AcquireLease H cid netns ifName (dhost d) = Some (Ret l, s)"
      "d' = close_stop (length (workers d)) (d\<lparr>dhost := s, workers := workers d @ [new_worker l]\<rparr>)" "\<forall>res. r \<noteq> Ret res"
  | (granted) cid netns ifName s l conf where "AcquireLease H cid netns ifName (dhost d) = Some (Ret l, s)"
      "daemon_conf (StdinData args) = Inr conf" "cid = generateClientID (ContainerID args) (confName conf) (IfName args)"
      "d' = setLease cid (length (workers d)) (d\<lparr>dhost := s, workers := workers d @ [new_worker l]\<rparr>)"
proof (cases "daemon_conf (StdinData args)")
  case (Inl err)
  then show ?thesis using assms failed by (auto simp: Allocate_def)
next
  case (Inr conf)
  let ?cid = "generateClientID (ContainerID args) (confName conf) (IfName args)"
  show ?thesis
  proof (cases "AcquireLease H ?cid (pre @ Netns args) (IfName args) (dhost d)")
    case None
    then show ?thesis using assms by (simp add: Allocate_def Inr Let_def)
  next
    case (Some x)
    then obtain q s where x: "AcquireLease H ?cid (pre @ Netns args) (IfName args) (dhost d) = Some (q, s)" by (cases x) simp
    show ?thesis
    proof (cases q)
      case (Ret l)
      then show ?thesis
        using assms x no_mask [of ?cid "pre @ Netns args" "IfName args" l s] granted [of ?cid "pre @ Netns args" "IfName args" l s conf] panic Inr
        by (cases "lease_IPNet H l") (auto simp: Allocate_def Let_def)
    next
      case (Fail err)
      then show ?thesis using assms x no_lease [of ?cid "pre @ Netns args" "IfName args" q s] Inr by (auto simp: Allocate_def Let_def)
    next
      case (Panic m)
      then show ?thesis using assms x panic Inr by (auto simp: Allocate_def Let_def)
    qed
  qed
qed

lemma dhcpd_ok_new:
  assumes "dhcpd_ok H d" "dh_Now H (dhost d) \<le> dh_Now H s"
  shows "dhcpd_ok H (d\<lparr>dhost := s, workers := workers d @ [new_worker l]\<rparr>)"
  using assms by (auto simp: dhcpd_ok_def new_worker_def nth_append intro: at_ok_later less_SucI)

lemma dhcpd_ok_set:
  "dhcpd_ok H d \<Longrightarrow> i < length (workers d) \<Longrightarrow> clientID (lease_of (wk_at (workers d ! i))) = k \<Longrightarrow> dhcpd_ok H (setLease k i d)"
  by (auto simp: dhcpd_ok_def setLease_def)

lemma dhcpd_ok_end: "dhcpd_ok H d \<Longrightarrow> dhcpd_ok H (Release_end k i d)"
  by (auto simp: dhcpd_ok_def Release_end_def clearLease_def dest: notin_set_remove1 set_remove1_subset [THEN subsetD])

lemma Release_begin_ok:
  assumes "Release_begin args d = (r, d')" "dhcpd_ok H d"
  shows "dhcpd_ok H d'"
proof (cases "daemon_conf (StdinData args)")
  case (Inr conf)
  let ?cid = "generateClientID (ContainerID args) (confName conf) (IfName args)"
  show ?thesis
  proof (cases "leases d ?cid")
    case (Some i)
    then have i: "i < length (workers d)" "clientID (lease_of (wk_at (workers d ! i))) = ?cid" using assms(2) by (auto simp: dhcpd_ok_def)
    have "dhcpd_ok H (close_stop i d)" by (rule dhcpd_ok_close_stop [OF assms(2) i(1)])
    moreover have "stopping (workers (close_stop i d) ! i)" "clientID (lease_of (wk_at (workers (close_stop i d) ! i))) = ?cid"
      using i by (simp_all add: close_stop_def)
    ultimately have "dhcpd_ok H ((close_stop i d)\<lparr>stops := (?cid, i) # stops d\<rparr>)" using i(1) by (auto simp: dhcpd_ok_def)
    then show ?thesis using assms(1) Inr Some by (auto simp: Release_begin_def getLease_def Let_def)
  qed (use assms Inr in \<open>auto simp: Release_begin_def getLease_def Let_def\<close>)
qed (use assms in \<open>auto simp: Release_begin_def\<close>)

context dhcp_clock begin

lemma turn_clock:
  assumes "maintain_turn H st l s = Some (Ret t, s')" "state_ok st l (dh_Now H s)"
  shows "dh_Now H s \<le> dh_Now H s' \<and>
    (case t of
       Continue st' l' \<Rightarrow> state_ok st' l' (dh_Now H s') \<and> clientID l' = clientID l
     | Select sleepDur st' l' \<Rightarrow> state_ok st' l' (dh_Now H s') \<and> clientID l' = clientID l
     | Expired \<Rightarrow> expireTime l < dh_Now H s' \<and> rebindingTime l < dh_Now H s')"
proof (cases st)
  case leaseStateBound
  then show ?thesis using assms by (auto simp: maintain_turn_def Let_def split: if_splits)
next
  case leaseStateRenewing
  obtain r s1 where 1: "renew H l s = Some (r, s1)" using renew_returns [of H l s] by auto
  note c = renew_clock [OF 1]
  show ?thesis using assms 1 leaseStateRenewing c by (cases r) (auto simp: maintain_turn_def)
next
  case leaseStateRebinding
  obtain r s1 where 1: "acquire H l s = Some (r, s1)" using acquire_returns [of H l s] by auto
  note c = acquire_clock [OF 1]
  have down: "dh_Now H s1 \<le> dh_Now H (downIface H l s1)"
    using LinkSetDown [of "lease_link l" s1] by (cases "dh_LinkSetDown H (lease_link l) s1") (simp add: downIface_def)
  show ?thesis using assms 1 leaseStateRebinding c down by (cases r) (auto simp: maintain_turn_def split: if_splits)
qed

lemma worker_step_ok:
  assumes "worker_step H (w, s) (w', s')" "at_ok (wk_at w) (stopping w) (dh_Now H s)"
  shows "dh_Now H s \<le> dh_Now H s' \<and> at_ok (wk_at w') (stopping w') (dh_Now H s') \<and> stopping w' = stopping w \<and>
    clientID (lease_of (wk_at w')) = clientID (lease_of (wk_at w))"
  using assms(1)
proof (cases rule: worker_step.cases)
  case (continue state l state' l' b)
  then show ?thesis using turn_clock [OF continue(3)] assms(2) by auto
next
  case (select state l sleepDur state' l' b)
  then show ?thesis using turn_clock [OF select(3)] assms(2) by auto
next
  case (expire state l b)
  then show ?thesis using turn_clock [OF expire(3)] assms(2) by auto
next
  case (stop l r t state)
  then show ?thesis using release_clock [OF stop(3)] by auto
qed (use assms(2) in auto)

lemma AcquireLease_clock:
  assumes "AcquireLease H cid netns ifName s = Some (r, s')"
  shows "dh_Now H s \<le> dh_Now H s'" "r = Ret l \<Longrightarrow> clientID l = cid"
  using assms acquire_clock by (auto simp: AcquireLease_def split: option.splits sum.splits)

lemma Allocate_ok:
  assumes "Allocate H pre args d = Some (r, d')" "\<forall>m. r \<noteq> Panic m" "dhcpd_ok H d"
  shows "dhcpd_ok H d'"
  using assms(1)
proof (cases rule: Allocate_cases)
  case (no_lease cid netns ifName s q)
  then show ?thesis using dhcpd_ok_later [OF assms(3) AcquireLease_clock(1)] by auto
next
  case (no_mask cid netns ifName s l)
  have "dhcpd_ok H (d\<lparr>dhost := s, workers := workers d @ [new_worker l]\<rparr>)"
    by (rule dhcpd_ok_new [OF assms(3) AcquireLease_clock(1) [OF no_mask(1)]])
  then show ?thesis using no_mask(2) dhcpd_ok_close_stop by fastforce
next
  case (granted cid netns ifName s l conf)
  have "dhcpd_ok H (d\<lparr>dhost := s, workers := workers d @ [new_worker l]\<rparr>)"
    by (rule dhcpd_ok_new [OF assms(3) AcquireLease_clock(1) [OF granted(1)]])
  then have "dhcpd_ok H (setLease cid (length (workers d)) (d\<lparr>dhost := s, workers := workers d @ [new_worker l]\<rparr>))"
    by (rule dhcpd_ok_set) (use AcquireLease_clock(2) [OF granted(1)] in \<open>simp_all add: new_worker_def\<close>)
  then show ?thesis using granted(4) by simp
qed (use assms in auto)

lemma daemon_step_ok: "daemon_step H pre d d' \<Longrightarrow> dhcpd_ok H d \<Longrightarrow> dhcpd_ok H d'"
proof (induction rule: daemon_step.induct)
  case (work i d w s)
  have "at_ok (wk_at (workers d ! i)) (stopping (workers d ! i)) (dh_Now H (dhost d))"
    using work nth_mem by (auto simp: dhcpd_ok_def)
  from worker_step_ok [OF work(2) this] work show ?case by (intro dhcpd_ok_work) auto
next
  case (allocate args d r d')
  then show ?case using Allocate_ok by blast
next
  case (release args d r d')
  then show ?case using Release_begin_ok by blast
next
  case (released cid i d)
  then show ?case using dhcpd_ok_end by blast
next
  case (pass d s)
  then show ?case by (simp add: dhcpd_ok_later)
qed

lemma reachable_ok: "(daemon_step H pre)\<^sup>*\<^sup>* (newDHCP s) d \<Longrightarrow> dhcpd_ok H d"
proof (induction rule: rtranclp_induct)
  case base
  then show ?case by (simp add: dhcpd_ok_def newDHCP_def)
qed (rule daemon_step_ok)

end

text \<open>
  C36. Whatever clients ask and servers answer, in every state that the daemon reaches: a worker
  that renews its lease does so after the renewal time, and one that rebinds after the rebinding time; a
  worker whose loop has ended was stopped, or its lease had expired; and the table gives each client a
  worker of its own.
\<close>

theorem leases_kept:
  assumes "dhcp_clock H" "(daemon_step H hostPrefix)\<^sup>*\<^sup>* (newDHCP s) d"
  shows "list_all (\<lambda>w. at_ok (wk_at w) (stopping w) (dh_Now H (dhost d))) (workers d) \<and>
    (\<forall>k i. leases d k = Some i \<longrightarrow> i < length (workers d) \<and> clientID (lease_of (wk_at (workers d ! i))) = k)"
  using dhcp_clock.reachable_ok [OF assms] by (simp add: dhcpd_ok_def list_all_iff)

section \<open>A second Allocate\<close>

text \<open>A worker that the table does not name and that nobody has stopped stays so.\<close>

definition orphan :: "nat \<Rightarrow> ('p, 's) dhcpd \<Rightarrow> bool" where
  "orphan i d \<longleftrightarrow> i < length (workers d) \<and> (\<forall>k. leases d k \<noteq> Some i) \<and> \<not> stopping (workers d ! i)"

lemma worker_step_stopping: "worker_step H (w, s) (w', s') \<Longrightarrow> stopping w' = stopping w"
  by (erule worker_stepE) auto

lemma orphan_Allocate:
  assumes "Allocate H pre args d = Some (r, d')" "\<forall>m. r \<noteq> Panic m" "orphan i d"
  shows "orphan i d'"
  using assms(1)
  by (cases rule: Allocate_cases) (use assms in \<open>auto simp: orphan_def close_stop_def setLease_def nth_append\<close>)

lemma orphan_step: "daemon_step H pre d d' \<Longrightarrow> orphan i d \<Longrightarrow> orphan i d'"
proof (induction rule: daemon_step.induct)
  case (work j d w s)
  then show ?case using worker_step_stopping [OF work(2)] by (cases "j = i") (auto simp: orphan_def)
next
  case (allocate args d r d')
  then show ?case using orphan_Allocate by blast
next
  case (release args d r d')
  then show ?case
    by (auto simp: Release_begin_def orphan_def close_stop_def getLease_def Let_def split: sum.splits option.splits)
      (metis nth_list_update_neq)
qed (auto simp: orphan_def Release_end_def clearLease_def)

lemma orphan_steps: "(daemon_step H pre)\<^sup>*\<^sup>* d d' \<Longrightarrow> orphan i d \<Longrightarrow> orphan i d'"
  by (induction rule: rtranclp_induct) (auto intro: orphan_step)

text \<open>
  C37. When a client that has a lease calls \<open>Allocate\<close> again, as CHECK does, and is granted
  another, the table names the new worker in place of the first, which no call of \<open>Release\<close> will ever
  stop: whatever follows, the table does not name it and its channel is not closed.
\<close>

theorem second_Allocate_leaks:
  assumes "dhcp_clock H" "(daemon_step H hostPrefix)\<^sup>*\<^sup>* (newDHCP s) d"
    and "daemon_conf (StdinData args) = Inr conf"
    and "leases d (generateClientID (ContainerID args) (confName conf) (IfName args)) = Some i"
    and "\<not> stopping (workers d ! i)"
    and "Allocate H hostPrefix args d = Some (Ret res, d1)" "(daemon_step H hostPrefix)\<^sup>*\<^sup>* d1 d2"
  shows "leases d1 (generateClientID (ContainerID args) (confName conf) (IfName args)) = Some (length (workers d)) \<and>
    i < length (workers d) \<and> (\<forall>k. leases d2 k \<noteq> Some i) \<and> \<not> stopping (workers d2 ! i)"
proof -
  let ?cid = "generateClientID (ContainerID args) (confName conf) (IfName args)"
  have ok: "dhcpd_ok H d" by (rule dhcp_clock.reachable_ok [OF assms(1,2)])
  then have i: "i < length (workers d)" and only: "leases d k = Some i \<Longrightarrow> k = ?cid" for k
    using assms(4) unfolding dhcpd_ok_def by metis+
  have "leases d1 ?cid = Some (length (workers d)) \<and> orphan i d1"
    using assms(6)
    by (cases rule: Allocate_cases)
      (use assms(3,5) i only in \<open>auto simp: orphan_def setLease_def nth_append\<close>)
  then show ?thesis using orphan_steps [OF assms(7)] i by (auto simp: orphan_def)
qed

section \<open>Witnesses\<close>

text \<open>
  A host where every operation takes a second and succeeds; a packet is its options. The server
  grants 10.1.2.3 for an hour.
\<close>

definition sim_ack :: dhcp_options where
  "sim_ack = [OptionDHCPMessageType \<mapsto> [5], OptionIPAddressLeaseTime \<mapsto> [0, 0, 14, 16], OptionSubnetMask \<mapsto> [255, 255, 255, 0]]"

definition sim_host :: "(unit, dhcp_options, int) dhcp_host" where
  "sim_host = \<lparr>dh_Now = (\<lambda>s. s), dh_Sleep = (\<lambda>t s. max s (s + t)), dh_jitter = (\<lambda>span s. 0),
     dh_WithNetNSPath = (\<lambda>netns s. None),
     dh_LinkByName = (\<lambda>netns name s. Inr \<lparr>lnIndex = 1, lnName = name, lnMac = [], lnUp = True\<rparr>),
     dh_LinkSetUp = (\<lambda>l s. (None, s + Second)), dh_LinkSetDown = (\<lambda>l s. (None, s + Second)),
     dh_NewPacketSock = (\<lambda>i s. None), dh_NewClient = (\<lambda>l t s. Inr ()), dh_Close = (\<lambda>c s. s + Second),
     dh_DiscoverPacket = (\<lambda>c s. Map.empty), dh_RequestPacket = (\<lambda>c p. p), dh_DeclinePacket = (\<lambda>c p. p),
     dh_RenewalRequestPacket = (\<lambda>c p. p), dh_ReleasePacket = (\<lambda>c p. p),
     dh_AddOption = (\<lambda>opt data p. p(opt \<mapsto> data)), dh_PadToMinSize = (\<lambda>p. p),
     dh_SendPacket = (\<lambda>c p s. (None, s + Second)), dh_GetOffer = (\<lambda>c p s. (sim_ack, None, s + Second)),
     dh_GetAcknowledgement = (\<lambda>c p s. (sim_ack, None, s + Second)), dh_ParseOptions = (\<lambda>p. p),
     dh_YIAddr = (\<lambda>p. [10, 1, 2, 3])\<rparr>"

interpretation sim: dhcp_clock sim_host
  by unfold_locales (auto simp: sim_host_def Second_def)

lemma sim_host_simps:
  "dh_WithNetNSPath sim_host netns s = None" "dh_LinkByName sim_host netns name s = Inr \<lparr>lnIndex = 1, lnName = name, lnMac = [], lnUp = True\<rparr>"
  "dh_NewPacketSock sim_host i s = None" "dh_NewClient sim_host k t s = Inr ()"
  by (simp_all add: sim_host_def)

definition sim_args :: cmd_args where
  "sim_args = \<lparr>ContainerID = ''c1'', Netns = ''/ns'', IfName = ''eth0'', Args = [], Path = [],
     StdinData = Inr (JObj [(''name'', JStr ''net'')])\<rparr>"

lemma sim_conf: "\<exists>conf. daemon_conf (StdinData sim_args) = Inr conf \<and> confName conf = ''net''"
proof -
  have "map to_lower [''name'', ''cniVersion'', ''type'', ''capabilities'', ''ipam'', ''dns'', ''prevResult''] =
      [''name'', ''cniversion'', ''type'', ''capabilities'', ''ipam'', ''dns'', ''prevresult'']" by code_simp
  then show ?thesis by (simp add: daemon_conf_def sim_args_def dec_netconf_def dec_field_def jfield_Cons)
qed

lemma sim_cid: "daemon_conf (StdinData sim_args) = Inr conf \<Longrightarrow>
    generateClientID (ContainerID sim_args) (confName conf) (IfName sim_args) = ''c1/net/eth0''"
  using sim_conf by (auto simp: generateClientID_def sim_args_def)

lemma sim_acquire: "\<exists>l s'. acquire sim_host l0 s = Some (Ret l, s') \<and> lease_opts l = sim_ack \<and> ack l = Some sim_ack"
proof -
  let ?f = "\<lambda>s. tried (''DHCP server NACK'' @ [CHR 0x27] @ ''d own offer'')
    (DhcpRequest sim_host () (client_id_option l0 @ [(OptionParameterRequestList, [3, 1])]) s)"
  have "?f s = (Ret sim_ack, s + Second + Second + Second + Second)" for s
    by (simp add: tried_def DhcpRequest_def DhcpSendDiscoverPacket_def DhcpSendRequest_def is_ack_def sim_host_def sim_ack_def Let_def)
  then have "backoffRetry sim_host ?f s = Some (Ret sim_ack, s + Second + Second + Second + Second)" for s
    by (simp add: backoffRetry_retry)
  moreover have "\<exists>l. commit sim_host l0 sim_ack s = Inr l \<and> lease_opts l = sim_ack \<and> ack l = Some sim_ack" for s
    by (simp add: commit_def sim_host_def parseLeaseTime_def parseDuration_def sim_ack_def Let_def)
  ultimately show ?thesis
    by (simp add: acquire_def newDHCPClient_def Let_def) (simp add: sim_host_def)
qed

lemma sim_Allocate: "\<exists>l s res. Allocate sim_host [] sim_args d =
    Some (Ret res, setLease ''c1/net/eth0'' (length (workers d)) (d\<lparr>dhost := s, workers := workers d @ [new_worker l]\<rparr>))"
proof -
  obtain conf where conf: "daemon_conf (StdinData sim_args) = Inr conf" "confName conf = ''net''" using sim_conf by blast
  let ?l0 = "\<lparr>clientID = ''c1/net/eth0'', ack = None, lease_opts = (\<lambda>_. None),
    lease_link = \<lparr>lnIndex = 1, lnName = ''eth0'', lnMac = [], lnUp = True\<rparr>, renewalTime = 0, rebindingTime = 0,
    expireTime = 0\<rparr> :: dhcp_options dhcp_lease"
  obtain l s where l: "acquire sim_host ?l0 (dhost d) = Some (Ret l, s)" "lease_opts l = sim_ack" "ack l = Some sim_ack"
    using sim_acquire by blast
  then have "AcquireLease sim_host ''c1/net/eth0'' ''/ns'' ''eth0'' (dhost d) = Some (Ret l, s)"
    by (simp add: AcquireLease_def sim_host_simps)
  moreover have "\<exists>ipn. lease_IPNet sim_host l = Ret ipn"
    using l(2,3) by (simp add: lease_IPNet_def sim_ack_def)
  moreover have "Netns sim_args = ''/ns''" "IfName sim_args = ''eth0''" by (simp_all add: sim_args_def)
  ultimately show ?thesis using conf sim_cid [OF conf(1)]
    by (intro exI [of _ l] exI [of _ s]) (auto simp: Allocate_def Let_def)
qed

theorem leases_kept_witness:
  "\<exists>res d. Allocate sim_host [] sim_args (newDHCP 0) = Some (Ret res, d) \<and>
    list_all (\<lambda>w. at_ok (wk_at w) (stopping w) (dhost d)) (workers d) \<and> leases d ''c1/net/eth0'' = Some 0"
proof -
  obtain res l s where a: "Allocate sim_host [] sim_args (newDHCP 0) =
      Some (Ret res, setLease ''c1/net/eth0'' 0 ((newDHCP 0)\<lparr>dhost := s, workers := [new_worker l]\<rparr>))" (is "_ = Some (_, ?d)")
    using sim_Allocate [of "newDHCP 0"] by (auto simp: newDHCP_def)
  then have "(daemon_step sim_host [])\<^sup>*\<^sup>* (newDHCP 0) ?d" by (intro r_into_rtranclp daemon_step.allocate) auto
  from leases_kept [OF sim.dhcp_clock_axioms this]
  have "list_all (\<lambda>w. at_ok (wk_at w) (stopping w) (dh_Now sim_host (dhost ?d))) (workers ?d)" by blast
  then show ?thesis using a by (intro exI [of _ res] exI [of _ ?d]) (simp add: setLease_def sim_host_def)
qed

theorem second_Allocate_leaks_witness:
  "\<exists>res1 d res2 d1. Allocate sim_host [] sim_args (newDHCP 0) = Some (Ret res1, d) \<and> leases d ''c1/net/eth0'' = Some 0 \<and>
    Allocate sim_host [] sim_args d = Some (Ret res2, d1) \<and> leases d1 ''c1/net/eth0'' = Some 1 \<and>
    leases (snd (Release_begin sim_args d1)) ''c1/net/eth0'' = Some 1 \<and> \<not> stopping (workers (snd (Release_begin sim_args d1)) ! 0)"
proof -
  obtain res l s where a: "Allocate sim_host [] sim_args (newDHCP 0) =
      Some (Ret res, setLease ''c1/net/eth0'' 0 ((newDHCP 0)\<lparr>dhost := s, workers := [new_worker l]\<rparr>))" (is "_ = Some (_, ?d)")
    using sim_Allocate [of "newDHCP 0"] by (auto simp: newDHCP_def)
  then have d: "(daemon_step sim_host [])\<^sup>*\<^sup>* (newDHCP 0) ?d" by (intro r_into_rtranclp daemon_step.allocate) auto
  obtain res2 l2 s2 where b: "Allocate sim_host [] sim_args ?d =
      Some (Ret res2, setLease ''c1/net/eth0'' (length (workers ?d)) (?d\<lparr>dhost := s2, workers := workers ?d @ [new_worker l2]\<rparr>))"
    (is "_ = Some (_, ?d1)")
    using sim_Allocate [of ?d] by blast
  obtain conf where conf: "daemon_conf (StdinData sim_args) = Inr conf" using sim_conf by blast
  obtain r d2 where c: "Release_begin sim_args ?d1 = (r, d2)" by (cases "Release_begin sim_args ?d1")
  then have d2: "(daemon_step sim_host [])\<^sup>*\<^sup>* ?d1 d2" by (intro r_into_rtranclp daemon_step.release)
  have "leases ?d1 ''c1/net/eth0'' = Some (length (workers ?d)) \<and> 0 < length (workers ?d) \<and> \<not> stopping (workers d2 ! 0)"
    using second_Allocate_leaks [OF sim.dhcp_clock_axioms d conf _ _ b d2, of 0] sim_cid [OF conf]
    by (simp add: setLease_def new_worker_def)
  moreover have "leases d2 = leases ?d1"
    using c conf by (auto simp: Release_begin_def Let_def split: option.splits)
  ultimately show ?thesis
    using a b c by (intro exI [of _ res] exI [of _ ?d] exI [of _ res2] exI [of _ ?d1]) (simp add: setLease_def)
qed

theorem commit_times_witness:
  "\<exists>(l0 :: dhcp_options dhcp_lease) l.
     commit sim_host l0 sim_ack 7 = Inr l \<and> 7 \<le> renewalTime l \<and> renewalTime l \<le> expireTime l"
proof -
  fix l0 :: "dhcp_options dhcp_lease"
  have t: "parseLeaseTime (dh_ParseOptions sim_host sim_ack) = Inr (3600 * Second)"
    by (simp add: parseLeaseTime_def parseDuration_def sim_host_def sim_ack_def)
  then obtain l where l: "commit sim_host l0 sim_ack 7 = Inr l" by (simp add: commit_def Let_def)
  from commit_times [OF l t] l show ?thesis by (auto simp: Second_def sim_host_def)
qed

end
