(* ===== verification/Io.thy ===== *)
theory Io
  imports Prelude
begin

text \<open>
  Sequences of operations on the host: an operation takes the host and returns its outcome with
  the host afterwards. \<open>io_bind\<close> goes on after a success only, which is how the code's early
  returns behave; the errors of an operation are changed or dropped where the code does so.
\<close>

type_synonym ('a, 's) io = "'s \<Rightarrow> 'a outcome \<times> 's"

definition io_ret :: "'a \<Rightarrow> ('a, 's) io" where
  "io_ret x s = (Ret x, s)"

definition io_fail :: "go_error \<Rightarrow> ('a, 's) io" where
  "io_fail err s = (Fail err, s)"

definition io_bind :: "('a, 's) io \<Rightarrow> ('a \<Rightarrow> ('b, 's) io) \<Rightarrow> ('b, 's) io" where
  "io_bind m f s = (case m s of (Ret x, s) \<Rightarrow> f x s | (Fail err, s) \<Rightarrow> (Fail err, s) | (Panic p, s) \<Rightarrow> (Panic p, s))"

definition io_then :: "('a, 's) io \<Rightarrow> ('b, 's) io \<Rightarrow> ('b, 's) io" where
  "io_then m n = io_bind m (\<lambda>_. n)"

text \<open>A call that changes the host, one that only reads it, and a value computed without it.\<close>

definition io_do :: "('s \<Rightarrow> go_error option \<times> 's) \<Rightarrow> (unit, 's) io" where
  "io_do f s = (case f s of (None, s) \<Rightarrow> (Ret (), s) | (Some err, s) \<Rightarrow> (Fail err, s))"

definition io_get :: "('s \<Rightarrow> go_error + 'a) \<Rightarrow> ('a, 's) io" where
  "io_get f s = (outcome_of (f s), s)"

definition io_out :: "'a outcome \<Rightarrow> ('a, 's) io" where
  "io_out r s = (r, s)"

text \<open>The error of an operation replaced (\<open>fmt.Errorf\<close>), or handled.\<close>

definition io_catch :: "('a, 's) io \<Rightarrow> (go_error \<Rightarrow> ('a, 's) io) \<Rightarrow> ('a, 's) io" where
  "io_catch m h s = (case m s of (Fail err, s) \<Rightarrow> h err s | r \<Rightarrow> r)"

definition io_wrap :: "string \<Rightarrow> ('a, 's) io \<Rightarrow> ('a, 's) io" where
  "io_wrap prefix m = io_catch m (\<lambda>err. io_fail (Msg (prefix @ err_text err)))"

definition io_error :: "go_error \<Rightarrow> ('a, 's) io \<Rightarrow> ('a, 's) io" where
  "io_error err m = io_catch m (\<lambda>_. io_fail err)"

text \<open>The two cases of an error and of a value, when the code looks at the error itself.\<close>

definition io_try :: "('a, 's) io \<Rightarrow> (go_error + 'a, 's) io" where
  "io_try m = io_catch (io_bind m (\<lambda>x. io_ret (Inr x))) (\<lambda>err. io_ret (Inl err))"

definition io_ignore :: "('a, 's) io \<Rightarrow> (unit, 's) io" where
  "io_ignore m = io_bind (io_try m) (\<lambda>_. io_ret ())"

text \<open>A loop over a slice that returns at the first error.\<close>

fun io_each :: "('a \<Rightarrow> (unit, 's) io) \<Rightarrow> 'a list \<Rightarrow> (unit, 's) io" where
  "io_each f [] = io_ret ()"
| "io_each f (x # xs) = io_then (f x) (io_each f xs)"

text \<open>The same with a variable that the iterations change.\<close>

fun io_fold :: "('a \<Rightarrow> 'b \<Rightarrow> ('b, 's) io) \<Rightarrow> 'a list \<Rightarrow> 'b \<Rightarrow> ('b, 's) io" where
  "io_fold f [] a = io_ret a"
| "io_fold f (x # xs) a = io_bind (f x a) (io_fold f xs)"

definition io_when :: "bool \<Rightarrow> (unit, 's) io \<Rightarrow> (unit, 's) io" where
  "io_when b m = (if b then m else io_ret ())"

text \<open>The errors of the operating system that \<open>os.IsExist\<close> and \<open>os.IsNotExist\<close> know.\<close>

fun os_IsExist :: "go_error \<Rightarrow> bool" where
  "os_IsExist (Exist m) = True"
| "os_IsExist _ = False"

fun os_IsNotExist :: "go_error \<Rightarrow> bool" where
  "os_IsNotExist (NotExist m) = True"
| "os_IsNotExist _ = False"

section \<open>What the sequences do\<close>

named_theorems io_simps \<open>the outcome of a sequence of operations\<close>

lemma io_ret_Ret [io_simps]: "io_ret x s = (Ret y, s') \<longleftrightarrow> y = x \<and> s' = s"
  by (auto simp: io_ret_def)

lemma io_fail_Ret [io_simps]: "io_fail err s \<noteq> (Ret y, s')"
  by (simp add: io_fail_def)

lemma io_bind_Ret [io_simps]: "io_bind m f s = (Ret y, s') \<longleftrightarrow> (\<exists>x s1. m s = (Ret x, s1) \<and> f x s1 = (Ret y, s'))"
  by (auto simp: io_bind_def split: prod.splits outcome.splits)

lemma io_then_Ret [io_simps]: "io_then m n s = (Ret y, s') \<longleftrightarrow> (\<exists>x s1. m s = (Ret x, s1) \<and> n s1 = (Ret y, s'))"
  by (simp add: io_then_def io_bind_Ret)

lemma io_do_Ret [io_simps]: "io_do f s = (Ret y, s') \<longleftrightarrow> f s = (None, s')"
  by (auto simp: io_do_def split: prod.splits option.splits)

lemma io_get_Ret [io_simps]: "io_get f s = (Ret y, s') \<longleftrightarrow> f s = Inr y \<and> s' = s"
  by (auto simp: io_get_def)

lemma io_out_Ret [io_simps]: "io_out r s = (Ret y, s') \<longleftrightarrow> r = Ret y \<and> s' = s"
  by (auto simp: io_out_def)

lemma io_catch_Ret: "io_catch m h s = (Ret y, s') \<longleftrightarrow>
    m s = (Ret y, s') \<or> (\<exists>err s1. m s = (Fail err, s1) \<and> h err s1 = (Ret y, s'))"
  by (auto simp: io_catch_def split: prod.splits outcome.splits)

lemma io_wrap_Ret [io_simps]: "io_wrap p m s = (Ret y, s') \<longleftrightarrow> m s = (Ret y, s')"
  by (simp add: io_wrap_def io_catch_Ret io_fail_Ret)

lemma io_error_Ret [io_simps]: "io_error err m s = (Ret y, s') \<longleftrightarrow> m s = (Ret y, s')"
  by (simp add: io_error_def io_catch_Ret io_fail_Ret)

lemma io_try_Ret: "io_try m s = (Ret r, s') \<longleftrightarrow>
    (case r of Inr x \<Rightarrow> m s = (Ret x, s') | Inl err \<Rightarrow> m s = (Fail err, s'))"
  by (auto simp: io_try_def io_catch_def io_bind_def io_ret_def split: prod.splits outcome.splits sum.splits)

lemma io_ignore_Ret: "io_ignore m s = (Ret (), s') \<longleftrightarrow> (\<exists>x. m s = (Ret x, s')) \<or> (\<exists>err. m s = (Fail err, s'))"
  by (auto simp: io_ignore_def io_try_def io_catch_def io_bind_def io_ret_def split: prod.splits outcome.splits)

lemma io_when_Ret [io_simps]: "io_when b m s = (Ret y, s') \<longleftrightarrow> (if b then m s = (Ret y, s') else s' = s)"
  by (simp add: io_when_def io_ret_Ret)

text \<open>A property of the host that every step keeps is kept by the loop, whatever its outcome.\<close>

definition keeps :: "('s \<Rightarrow> bool) \<Rightarrow> ('a, 's) io \<Rightarrow> bool" where
  "keeps P m \<longleftrightarrow> (\<forall>s. P s \<longrightarrow> P (snd (m s)))"

lemma keepsD: "keeps P m \<Longrightarrow> P s \<Longrightarrow> m s = (r, s') \<Longrightarrow> P s'"
  by (auto simp: keeps_def)

named_theorems keeps_intros \<open>operations that keep a property of the host\<close>

lemma keeps_pure [keeps_intros]: "keeps P (io_ret x)" "keeps P (io_fail err)" "keeps P (io_out r)" "keeps P (io_get f)"
  by (auto simp: keeps_def io_ret_def io_fail_def io_out_def io_get_def)

lemma keeps_bind [keeps_intros]: "keeps P m \<Longrightarrow> (\<And>x. keeps P (f x)) \<Longrightarrow> keeps P (io_bind m f)"
  unfolding keeps_def io_bind_def
proof (intro allI impI, goal_cases)
  case (1 s)
  then show ?case by (cases "m s"; cases "fst (m s)") (auto dest: spec [of _ s])
qed

lemma keeps_then [keeps_intros]: "keeps P m \<Longrightarrow> keeps P n \<Longrightarrow> keeps P (io_then m n)"
  by (simp add: io_then_def keeps_bind)

lemma keeps_catch [keeps_intros]: "keeps P m \<Longrightarrow> (\<And>err. keeps P (h err)) \<Longrightarrow> keeps P (io_catch m h)"
  unfolding keeps_def io_catch_def
proof (intro allI impI, goal_cases)
  case (1 s)
  then show ?case by (cases "m s"; cases "fst (m s)") (auto dest: spec [of _ s])
qed

lemma keeps_wrap [keeps_intros]: "keeps P m \<Longrightarrow> keeps P (io_wrap p m)" "keeps P m \<Longrightarrow> keeps P (io_error err m)"
  by (simp_all add: io_wrap_def io_error_def keeps_intros)

lemma keeps_ignore [keeps_intros]: "keeps P m \<Longrightarrow> keeps P (io_try m)" "keeps P m \<Longrightarrow> keeps P (io_ignore m)"
  by (simp_all add: io_try_def io_ignore_def keeps_intros)

lemma keeps_when [keeps_intros]: "(b \<Longrightarrow> keeps P m) \<Longrightarrow> keeps P (io_when b m)"
  by (simp add: io_when_def keeps_intros)

lemma keeps_each [keeps_intros]: "(\<And>x. x \<in> set xs \<Longrightarrow> keeps P (f x)) \<Longrightarrow> keeps P (io_each f xs)"
proof (induction xs)
  case (Cons x xs)
  then show ?case by (simp add: keeps_then)
qed (simp add: keeps_pure)

lemma keeps_fold [keeps_intros]: "(\<And>x a. x \<in> set xs \<Longrightarrow> keeps P (f x a)) \<Longrightarrow> keeps P (io_fold f xs a)"
proof (induction xs arbitrary: a)
  case (Cons x xs)
  then show ?case by (simp add: keeps_bind)
qed (simp add: keeps_pure)

lemma keeps_do: "(\<And>s. P s \<Longrightarrow> P (snd (f s))) \<Longrightarrow> keeps P (io_do f)"
  unfolding keeps_def io_do_def
proof (intro allI impI, goal_cases)
  case (1 s)
  then show ?case using 1(1) [of s] by (cases "f s"; cases "fst (f s)") auto
qed

end
