(* ===== verification/Flannel.thy ===== *)
theory Flannel
  imports Invoke PortMap Io
begin

text \<open>
  The plugin \<open>flannel\<close> (\<open>plugins/plugins/meta/flannel/flannel.go\<close>, \<open>flannel_linux.go\<close>): ADD
  completes the configuration of another plugin with the settings of the node, keeps it in a
  file and delegates to that plugin; DEL delegates with what the file holds. The files and
  the process that runs plugins are parameters; \<open>'w\<close> is what both act on.
\<close>

section \<open>Configuration\<close>

record 'w flannel_host =
  fh_process :: "'w process"
  fh_ReadText :: "string \<Rightarrow> 'w \<Rightarrow> go_error + string"
  fh_MkdirAll :: "string \<Rightarrow> 'w \<Rightarrow> go_error option \<times> 'w"
  fh_WriteFile :: "string \<Rightarrow> json \<Rightarrow> 'w \<Rightarrow> go_error option \<times> 'w"
  fh_ReadFile :: "string \<Rightarrow> 'w \<Rightarrow> go_error + document"
  fh_Remove :: "string \<Rightarrow> 'w \<Rightarrow> go_error option \<times> 'w"

definition defaultSubnetFile :: string where "defaultSubnetFile = ''/run/flannel/subnet.env''"
definition flannel_defaultDataDir :: string where "flannel_defaultDataDir = ''/var/lib/cni/flannel''"

text \<open>A nil map is \<open>None\<close>.\<close>

record flannel_conf =
  flConf :: netconf
  SubnetFile :: string
  flDataDir :: string
  flDelegate :: "json go_map option"
  flRuntimeConfig :: "json go_map option"

definition dec_flannel :: "json \<Rightarrow> go_error + flannel_conf" where
  "dec_flannel j =
     bind_sum (dec_netconf j) (\<lambda>n.
     bind_sum (jmembers j) (\<lambda>kvs.
     bind_sum (dec_field (dec_string_or defaultSubnetFile) defaultSubnetFile kvs ''subnetFile'') (\<lambda>f.
     bind_sum (dec_field (dec_string_or flannel_defaultDataDir) flannel_defaultDataDir kvs ''dataDir'') (\<lambda>d.
     bind_sum (dec_field (dec_pointer (dec_map Inr)) None kvs ''delegate'') (\<lambda>del.
     bind_sum (dec_field (dec_pointer (dec_map Inr)) None kvs ''runtimeConfig'') (\<lambda>rc.
       Inr \<lparr>flConf = n, SubnetFile = f, flDataDir = d, flDelegate = del, flRuntimeConfig = rc\<rparr>))))))"

definition loadFlannelNetConf :: "document \<Rightarrow> go_error + flannel_conf" where
  "loadFlannelNetConf bytes =
     (case bind_sum bytes dec_flannel of
        Inl err \<Rightarrow> Inl (Msg (''failed to load netconf: '' @ err_text err)) | Inr n \<Rightarrow> Inr n)"

section \<open>The settings of the node\<close>

record subnet_env =
  seNw :: "ip_net option"
  seSn :: "ip_net option"
  seMtu :: "nat option"
  seIpmasq :: "bool option"

definition subnetEnv_missing :: "subnet_env \<Rightarrow> string" where
  "subnetEnv_missing se = join '', '' (
     (if seNw se = None then [''FLANNEL_NETWORK''] else []) @ (if seSn se = None then [''FLANNEL_SUBNET''] else []) @
     (if seMtu se = None then [''FLANNEL_MTU''] else []) @ (if seIpmasq se = None then [''FLANNEL_IPMASQ''] else []))"

text \<open>\<open>strconv.ParseUint\<close> in base 10 with 32 bits.\<close>

definition ParseUint32 :: "string \<Rightarrow> go_error + nat" where
  "ParseUint32 s =
     (if s = [] \<or> \<not> list_all is_digit s then Inl (Msg (''strconv.ParseUint: parsing '' @ quote s @ '': invalid syntax''))
      else if num_of_digits s > 2 ^ 32 - 1 then Inl (Msg (''strconv.ParseUint: parsing '' @ quote s @ '': value out of range''))
      else Inr (num_of_digits s))"

text \<open>
  One line. \<open>strings.SplitN(line, "=", 2)\<close> has no second part when the line has no \<open>=\<close>; the
  code reads it all the same when the line is one of the four names.
\<close>

definition subnet_line :: "subnet_env \<Rightarrow> string \<Rightarrow> subnet_env outcome" where
  "subnet_line se line =
     (let parts = (case split_env line of Some (k, v) \<Rightarrow> (k, Some v) | None \<Rightarrow> (line, None));
          value = (case snd parts of Some v \<Rightarrow> Ret v | None \<Rightarrow> Panic ''index out of range [1] with length 1'')
      in if fst parts = ''FLANNEL_NETWORK'' then
           bind_out value (\<lambda>v. bind_out (outcome_of (net_ParseCIDR v)) (\<lambda>(_, n). Ret (se\<lparr>seNw := Some n\<rparr>)))
         else if fst parts = ''FLANNEL_SUBNET'' then
           bind_out value (\<lambda>v. bind_out (outcome_of (net_ParseCIDR v)) (\<lambda>(_, n). Ret (se\<lparr>seSn := Some n\<rparr>)))
         else if fst parts = ''FLANNEL_MTU'' then
           bind_out value (\<lambda>v. bind_out (outcome_of (ParseUint32 v)) (\<lambda>m. Ret (se\<lparr>seMtu := Some m\<rparr>)))
         else if fst parts = ''FLANNEL_IPMASQ'' then
           bind_out value (\<lambda>v. Ret (se\<lparr>seIpmasq := Some (v = ''true'')\<rparr>))
         else Ret se)"

text \<open>The loop over the lines, up to one that does not fit the buffer of the scanner.\<close>

fun subnet_lines :: "string list \<Rightarrow> subnet_env \<Rightarrow> subnet_env outcome" where
  "subnet_lines [] se = Ret se"
| "subnet_lines (l # ls) se =
     (if max_token \<le> length l then Fail (Msg ''bufio.Scanner: token too long'')
      else bind_out (subnet_line se (drop_cr l)) (subnet_lines ls))"

definition loadFlannelSubnetEnv :: "'w flannel_host \<Rightarrow> string \<Rightarrow> 'w \<Rightarrow> subnet_env outcome" where
  "loadFlannelSubnetEnv H fn w =
     (case fh_ReadText H fn w of
        Inl err \<Rightarrow> Fail err
      | Inr text \<Rightarrow>
          bind_out (subnet_lines (raw_lines text) \<lparr>seNw = None, seSn = None, seMtu = None, seIpmasq = None\<rparr>) (\<lambda>se.
            if subnetEnv_missing se \<noteq> [] then Fail (Msg (fn @ '' is missing '' @ subnetEnv_missing se)) else Ret se))"

section \<open>The file of a container\<close>

definition saveScratchNetConf :: "'w flannel_host \<Rightarrow> string \<Rightarrow> string \<Rightarrow> json \<Rightarrow> (unit, 'w) io" where
  "saveScratchNetConf H containerID dataDir netconf =
     io_then (io_do (fh_MkdirAll H dataDir))
       (io_do (fh_WriteFile H (filepath_Join [dataDir, containerID]) netconf))"

text \<open>The two results of \<open>consumeScratchNetConf\<close>: the cleanup, and the contents or the error.\<close>

definition scratch_cleanup :: "'w flannel_host \<Rightarrow> string \<Rightarrow> string \<Rightarrow> 'a outcome \<Rightarrow> 'w \<Rightarrow> 'w" where
  "scratch_cleanup H containerID dataDir r w =
     (case r of Fail err \<Rightarrow> w | _ \<Rightarrow> snd (fh_Remove H (filepath_Join [dataDir, containerID]) w))"

definition consumeScratchNetConf ::
  "'w flannel_host \<Rightarrow> string \<Rightarrow> string \<Rightarrow> 'w \<Rightarrow> (unit outcome \<Rightarrow> 'w \<Rightarrow> 'w) \<times> (go_error + document)" where
  "consumeScratchNetConf H containerID dataDir w =
     (scratch_cleanup H containerID dataDir, fh_ReadFile H (filepath_Join [dataDir, containerID]) w)"

section \<open>Commands\<close>

definition hasKey :: "json go_map \<Rightarrow> string \<Rightarrow> bool" where
  "hasKey m k \<longleftrightarrow> map_of m k \<noteq> None"

fun isString :: "json option \<Rightarrow> bool" where
  "isString (Some (JStr s)) = True"
| "isString _ = False"

text \<open>The assertion \<open>m[k].(string)\<close>.\<close>

definition string_at :: "json go_map \<Rightarrow> string \<Rightarrow> string outcome" where
  "string_at m k = (case map_of m k of Some (JStr s) \<Rightarrow> Ret s | _ \<Rightarrow> Panic ''interface conversion'')"

definition flannel_delegateAdd ::
  "'w flannel_host \<Rightarrow> string \<Rightarrow> string \<Rightarrow> json go_map \<Rightarrow> (cni_result, 'w) io" where
  "flannel_delegateAdd H cid dataDir netconf =
     io_then (saveScratchNetConf H cid dataDir (marshal_map netconf))
       (io_bind (io_out (string_at netconf ''type'')) (\<lambda>t w.
          case DelegateAdd (fh_process H) t (Inr (marshal_map netconf)) None w of (r, w) \<Rightarrow> (outcome_of r, w)))"

text \<open>\<open>if !hasKey(m, k) { m[k] = v }\<close>\<close>

definition set_default :: "string \<Rightarrow> json \<Rightarrow> json go_map \<Rightarrow> json go_map" where
  "set_default k v m = (if hasKey m k then m else AList.update k v m)"

definition flannel_ipam :: "subnet_env \<Rightarrow> json outcome" where
  "flannel_ipam fenv =
     (case (seSn fenv, seNw fenv) of
        (Some sn, Some nw) \<Rightarrow> Ret (JObj [(''routes'', JArr [Route_MarshalJSON \<lparr>Dst = nw, GW = []\<rparr>]),
          (''subnet'', JStr (IPNet_String sn)), (''type'', JStr ''host-local'')])
      | _ \<Rightarrow> Panic ''invalid memory address or nil pointer dereference'')"

definition flannel_defaults :: "netconf \<Rightarrow> subnet_env \<Rightarrow> json go_map \<Rightarrow> json go_map outcome" where
  "flannel_defaults n fenv m =
     (case (seIpmasq fenv, seMtu fenv) of
        (Some ipmasq, Some mtu) \<Rightarrow>
          (let m = AList.update ''name'' (JStr (confName n)) m;
               m = set_default ''type'' (JStr ''bridge'') m;
               m = set_default ''ipMasq'' (JBool (\<not> ipmasq)) m;
               m = set_default ''mtu'' (JNum (dec_nat mtu)) m
           in bind_out (string_at m ''type'') (\<lambda>t.
              let m = (if t = ''bridge'' then set_default ''isGateway'' (JBool True) m else m);
                  m = (if confCNIVersion n \<noteq> [] then AList.update ''cniVersion'' (JStr (confCNIVersion n)) m else m)
              in bind_out (flannel_ipam fenv) (\<lambda>ipam. Ret (AList.update ''ipam'' ipam m))))
      | _ \<Rightarrow> Panic ''invalid memory address or nil pointer dereference'')"

definition flannel_doCmdAdd ::
  "'w flannel_host \<Rightarrow> cmd_args \<Rightarrow> flannel_conf \<Rightarrow> json go_map \<Rightarrow> subnet_env \<Rightarrow> (cni_result, 'w) io" where
  "flannel_doCmdAdd H args n delegate fenv =
     io_bind (io_out (flannel_defaults (flConf n) fenv delegate))
       (flannel_delegateAdd H (ContainerID args) (flDataDir n))"

text \<open>The delegate's configuration as \<open>cmdAdd\<close> checks and starts it.\<close>

definition flannel_delegate :: "flannel_conf \<Rightarrow> json go_map outcome" where
  "flannel_delegate n =
     bind_out
       (case flDelegate n of
          None \<Rightarrow> Ret []
        | Some m \<Rightarrow>
            if hasKey m ''type'' \<and> \<not> isString (map_of m ''type'')
            then Fail (Msg (squote ''delegate'' @ '' dictionary, if present, must have (string) '' @ squote ''type'' @ '' field''))
            else if hasKey m ''name''
            then Fail (Msg (squote ''delegate'' @ '' dictionary must not have '' @ squote ''name'' @
              '' field, it'' @ [CHR 0x27] @ ''ll be set by flannel''))
            else if hasKey m ''ipam''
            then Fail (Msg (squote ''delegate'' @ '' dictionary must not have '' @ squote ''ipam'' @
              '' field, it'' @ [CHR 0x27] @ ''ll be set by flannel''))
            else Ret m)
       (\<lambda>m. Ret (case flRuntimeConfig n of None \<Rightarrow> m | Some rc \<Rightarrow> AList.update ''runtimeConfig'' (marshal_map rc) m))"

definition flannel_cmdAdd :: "'w flannel_host \<Rightarrow> cmd_args \<Rightarrow> (cni_result, 'w) io" where
  "flannel_cmdAdd H args =
     io_bind (io_out (outcome_of (loadFlannelNetConf (StdinData args)))) (\<lambda>n.
     io_bind (\<lambda>w. (loadFlannelSubnetEnv H (SubnetFile n) w, w)) (\<lambda>fenv.
     io_bind (io_out (flannel_delegate n)) (\<lambda>delegate.
       flannel_doCmdAdd H args n delegate fenv)))"

definition flannel_doCmdDel :: "'w flannel_host \<Rightarrow> cmd_args \<Rightarrow> flannel_conf \<Rightarrow> (unit, 'w) io" where
  "flannel_doCmdDel H args n w =
     (case consumeScratchNetConf H (ContainerID args) (flDataDir n) w of
        (cleanup, Inl err) \<Rightarrow> (if os_IsNotExist err then (Ret (), w) else (Fail err, w))
      | (cleanup, Inr netConfBytes) \<Rightarrow>
          (case (case bind_sum netConfBytes dec_netconf of
                   Inl err \<Rightarrow> (Fail (Msg (''failed to parse netconf: '' @ err_text err)), w)
                 | Inr nc \<Rightarrow>
                     (case DelegateDel (fh_process H) (confType nc) netConfBytes None w of
                        (Some err, w) \<Rightarrow> (Fail err, w) | (None, w) \<Rightarrow> (Ret (), w))) of
             (r, w) \<Rightarrow> (r, cleanup r w)))"

text \<open>What \<open>cmdDel\<close> puts into the delegate's configuration is not used any more.\<close>

definition flannel_cmdDel :: "'w flannel_host \<Rightarrow> cmd_args \<Rightarrow> (unit, 'w) io" where
  "flannel_cmdDel H args =
     io_bind (io_out (outcome_of (loadFlannelNetConf (StdinData args)))) (\<lambda>nc.
       let nc = (case flRuntimeConfig nc of
                   None \<Rightarrow> nc
                 | Some rc \<Rightarrow> nc\<lparr>flDelegate := Some (AList.update ''runtimeConfig'' (marshal_map rc)
                     (case flDelegate nc of None \<Rightarrow> [] | Some m \<Rightarrow> m))\<rparr>)
       in flannel_doCmdDel H args nc)"

definition flannel_cmdCheck :: "cmd_args \<Rightarrow> unit outcome" where
  "flannel_cmdCheck args = Ret ()"

definition flannel ::
  "'w flannel_host \<Rightarrow> ('w \<times> cni_result list) dispatcher \<Rightarrow> 'w \<times> cni_result list \<Rightarrow>
    (unit outcome \<times> 'w \<times> cni_result list) option" where
  "flannel H t w =
     pluginMain t (\<lambda>args w. Some (printing (flannel_cmdAdd H args) w)) (\<lambda>args w. Some (flannel_cmdCheck args, w))
       (\<lambda>args w. Some (silent (flannel_cmdDel H args) w)) version_All (BuildString ''flannel'' BuildVersion) w"

end
