(* ===== verification/Netlink.thy ===== *)
theory Netlink
  imports Invoke IpTables Io
begin

text \<open>
  Links, addresses, routes and network namespaces as the plugins that make interfaces use them:
  \<open>plugins/pkg/ns/ns_linux.go\<close>, \<open>plugins/pkg/ip\<close> (\<open>link_linux.go\<close>, \<open>route_linux.go\<close>,
  \<open>addr_linux.go\<close>, \<open>utils_linux.go\<close>, \<open>ipforward_linux.go\<close>), \<open>plugins/pkg/utils/hwaddr\<close> and
  \<open>plugins/pkg/ipam\<close>. The kernel is a parameter, reached through the libraries \<open>netlink\<close> and
  \<open>ethtool\<close>. Structs printed inside the texts of errors are left out.
\<close>

section \<open>The kernel\<close>

datatype ipvlan_mode = IPVLAN_MODE_L2 | IPVLAN_MODE_L3 | IPVLAN_MODE_L3S | IPVLAN_MODE_MAX

datatype macvlan_mode = MACVLAN_MODE_DEFAULT | MACVLAN_MODE_PRIVATE | MACVLAN_MODE_VEPA | MACVLAN_MODE_BRIDGE
  | MACVLAN_MODE_PASSTHRU | MACVLAN_MODE_SOURCE

text \<open>
  The dynamic type of a link: the name of the peer, whether a bridge filters VLANs, the identifier of
  a VLAN, and the modes.
\<close>

datatype link_kind = Veth string | Bridge bool | Vlan int | IPVlan ipvlan_mode | Macvlan macvlan_mode | OtherLink string

type_synonym mac = "byte list"

record net_link =
  lkIndex :: int
  lkName :: string
  lkMac :: mac
  lkMTU :: int
  lkUp :: bool
  lkOperUp :: bool
  lkParent :: int
  lkMaster :: int
  lkPromisc :: int
  lkAlias :: string
  lkKind :: link_kind

definition new_link :: "string \<Rightarrow> int \<Rightarrow> link_kind \<Rightarrow> net_link" where
  "new_link name mtu k = \<lparr>lkIndex = 0, lkName = name, lkMac = [], lkMTU = mtu, lkUp = False, lkOperUp = False,
     lkParent = 0, lkMaster = 0, lkPromisc = 0, lkAlias = [], lkKind = k\<rparr>"

record nl_addr =
  naNet :: ip_net
  naTentative :: bool

datatype nl_family = FAMILY_ALL | FAMILY_V4 | FAMILY_V6
datatype nl_scope = SCOPE_UNIVERSE | SCOPE_LINK | SCOPE_HOST | SCOPE_NOWHERE
datatype rt_filter = RT_FILTER_DST | RT_FILTER_GW

record nl_route =
  nrLink :: int
  nrScope :: nl_scope
  nrDst :: "ip_net option"
  nrGw :: net_ip
  nrSrc :: net_ip

text \<open>
  A network namespace is a number, and a thread runs in one: it is the first argument of every
  operation on links, of the files below \<open>/proc\<close> and of the clients of the kernel. The second
  argument of \<open>nh_LinkAdd\<close> is the namespace that the new link goes to when it is another one.
\<close>

record 's net_host =
  nh_LinkByName :: "nat \<Rightarrow> string \<Rightarrow> 's \<Rightarrow> go_error + net_link"
  nh_LinkByIndex :: "nat \<Rightarrow> int \<Rightarrow> 's \<Rightarrow> go_error + net_link"
  nh_LinkList :: "nat \<Rightarrow> 's \<Rightarrow> go_error + net_link list"
  nh_InterfaceByName :: "nat \<Rightarrow> string \<Rightarrow> 's \<Rightarrow> go_error + int"
  nh_isLinkNotFound :: "go_error \<Rightarrow> bool"
  nh_LinkAdd :: "nat \<Rightarrow> nat option \<Rightarrow> net_link \<Rightarrow> 's \<Rightarrow> go_error option \<times> 's"
  nh_LinkDel :: "nat \<Rightarrow> net_link \<Rightarrow> 's \<Rightarrow> go_error option \<times> 's"
  nh_LinkSetUp :: "nat \<Rightarrow> net_link \<Rightarrow> 's \<Rightarrow> go_error option \<times> 's"
  nh_LinkSetDown :: "nat \<Rightarrow> net_link \<Rightarrow> 's \<Rightarrow> go_error option \<times> 's"
  nh_LinkSetName :: "nat \<Rightarrow> net_link \<Rightarrow> string \<Rightarrow> 's \<Rightarrow> go_error option \<times> 's"
  nh_LinkSetAlias :: "nat \<Rightarrow> net_link \<Rightarrow> string \<Rightarrow> 's \<Rightarrow> go_error option \<times> 's"
  nh_LinkSetMTU :: "nat \<Rightarrow> net_link \<Rightarrow> int \<Rightarrow> 's \<Rightarrow> go_error option \<times> 's"
  nh_LinkSetHardwareAddr :: "nat \<Rightarrow> net_link \<Rightarrow> mac \<Rightarrow> 's \<Rightarrow> go_error option \<times> 's"
  nh_LinkSetMaster :: "nat \<Rightarrow> net_link \<Rightarrow> net_link \<Rightarrow> 's \<Rightarrow> go_error option \<times> 's"
  nh_LinkSetHairpin :: "nat \<Rightarrow> net_link \<Rightarrow> bool \<Rightarrow> 's \<Rightarrow> go_error option \<times> 's"
  nh_LinkSetNsFd :: "nat \<Rightarrow> net_link \<Rightarrow> nat \<Rightarrow> 's \<Rightarrow> go_error option \<times> 's"
  nh_SetPromisc :: "nat \<Rightarrow> net_link \<Rightarrow> bool \<Rightarrow> 's \<Rightarrow> go_error option \<times> 's"
  nh_BridgeVlanAdd :: "nat \<Rightarrow> net_link \<Rightarrow> 16 word \<Rightarrow> 's \<Rightarrow> go_error option \<times> 's"
  nh_AddrList :: "nat \<Rightarrow> net_link \<Rightarrow> nl_family \<Rightarrow> 's \<Rightarrow> go_error + nl_addr list"
  nh_AddrAdd :: "nat \<Rightarrow> net_link \<Rightarrow> ip_net \<Rightarrow> 's \<Rightarrow> go_error option \<times> 's"
  nh_AddrDel :: "nat \<Rightarrow> net_link \<Rightarrow> ip_net \<Rightarrow> 's \<Rightarrow> go_error option \<times> 's"
  nh_AddrEqual :: "ip_net \<Rightarrow> ip_net \<Rightarrow> bool"
  nh_AddrString :: "ip_net \<Rightarrow> string"
  nh_RouteAdd :: "nat \<Rightarrow> nl_route \<Rightarrow> 's \<Rightarrow> go_error option \<times> 's"
  nh_RouteDel :: "nat \<Rightarrow> nl_route \<Rightarrow> 's \<Rightarrow> go_error option \<times> 's"
  nh_RouteList :: "nat \<Rightarrow> nl_family \<Rightarrow> 's \<Rightarrow> go_error + nl_route list"
  nh_RouteListFiltered :: "nat \<Rightarrow> nl_family \<Rightarrow> nl_route \<Rightarrow> rt_filter list \<Rightarrow> 's \<Rightarrow> go_error + nl_route list"
  nh_GratuitousArp :: "nat \<Rightarrow> net_ip \<Rightarrow> string \<Rightarrow> 's \<Rightarrow> 's"
  nh_NewEthtool :: "nat \<Rightarrow> 's \<Rightarrow> go_error option"
  nh_Stats :: "nat \<Rightarrow> string \<Rightarrow> 's \<Rightarrow> go_error + (string \<rightharpoonup> nat)"
  nh_files :: "nat \<Rightarrow> 's sys_files"
  nh_ReadDir :: "string \<Rightarrow> 's \<Rightarrow> go_error + string list"
  nh_Lstat :: "string \<Rightarrow> 's \<Rightarrow> go_error option"
  nh_Glob :: "string \<Rightarrow> 's \<Rightarrow> go_error + string list"
  nh_Statfs :: "string \<Rightarrow> 's \<Rightarrow> go_error + nat"
  nh_OpenNs :: "string \<Rightarrow> 's \<Rightarrow> go_error + nat"
  nh_CloseNs :: "nat \<Rightarrow> 's \<Rightarrow> go_error option"
  nh_Setns :: "nat \<Rightarrow> 's \<Rightarrow> go_error option"
  nh_threadPath :: "nat \<Rightarrow> string"
  nh_Entropy :: "'s \<Rightarrow> (go_error + byte list) \<times> 's"
  nh_Now :: "'s \<Rightarrow> int"
  nh_Sleep :: "int \<Rightarrow> 's \<Rightarrow> 's"
  nh_process :: "'s process"
  nh_iptables :: "nat \<Rightarrow> 's new_iptables"
  nh_sha512 :: hash

section \<open>Addresses of package net\<close>

definition IPv4zero :: net_ip where "IPv4zero = v4InV6Prefix @ [0, 0, 0, 0]"
definition IPv6zero :: net_ip where "IPv6zero = replicate 16 0"

definition IsLoopback :: "net_ip \<Rightarrow> bool" where
  "IsLoopback ip \<longleftrightarrow> (if To4 ip \<noteq> [] then To4 ip ! 0 = 127 else ip_Equal ip (replicate 15 0 @ [1]))"

definition IsMulticast :: "net_ip \<Rightarrow> bool" where
  "IsMulticast ip \<longleftrightarrow> (if To4 ip \<noteq> [] then (To4 ip ! 0) AND 0xF0 = 0xE0 else length ip = 16 \<and> ip ! 0 = 0xFF)"

definition IsLinkLocalUnicast :: "net_ip \<Rightarrow> bool" where
  "IsLinkLocalUnicast ip \<longleftrightarrow> (if To4 ip \<noteq> [] then To4 ip ! 0 = 169 \<and> To4 ip ! 1 = 254
     else length ip = 16 \<and> ip ! 0 = 0xFE \<and> (ip ! 1) AND 0xC0 = 0x80)"

definition IsGlobalUnicast :: "net_ip \<Rightarrow> bool" where
  "IsGlobalUnicast ip \<longleftrightarrow> (length ip = 4 \<or> length ip = 16) \<and> \<not> ip_Equal ip (v4InV6Prefix @ [255, 255, 255, 255]) \<and>
     \<not> (ip_Equal ip IPv4zero \<or> ip_Equal ip IPv6zero) \<and> \<not> IsLoopback ip \<and> \<not> IsMulticast ip \<and> \<not> IsLinkLocalUnicast ip"

definition mac_String :: "mac \<Rightarrow> string" where
  "mac_String m = join '':'' (map hex_byte m)"

text \<open>\<open>xtoi2\<close>: two hexadecimal digits, with nothing or \<open>e\<close> after them.\<close>

definition xtoi2 :: "string \<Rightarrow> char \<Rightarrow> byte option" where
  "xtoi2 s e =
     (if length s > 2 \<and> s ! 2 \<noteq> e then None
      else case xtoi (take 2 s) of (n, i, ok) \<Rightarrow> if ok \<and> i = 2 then Some (of_nat n) else None)"

fun mac_pairs :: "nat \<Rightarrow> char \<Rightarrow> string \<Rightarrow> mac option" where
  "mac_pairs 0 e s = Some []"
| "mac_pairs (Suc n) e s =
     (case xtoi2 s e of None \<Rightarrow> None | Some b \<Rightarrow> map_option (\<lambda>bs. b # bs) (mac_pairs n e (drop 3 s)))"

fun mac_quads :: "nat \<Rightarrow> char \<Rightarrow> string \<Rightarrow> mac option" where
  "mac_quads 0 e s = Some []"
| "mac_quads (Suc n) e s =
     (case xtoi2 (take 2 s) (CHR 0x00) of
        None \<Rightarrow> None
      | Some b \<Rightarrow>
          (case xtoi2 (drop 2 s) e of
             None \<Rightarrow> None | Some c \<Rightarrow> map_option (\<lambda>bs. b # c # bs) (mac_quads n e (drop 5 s))))"

definition ParseMAC :: "string \<Rightarrow> go_error + mac" where
  "ParseMAC s =
     (let n3 = (length s + 1) div 3; n5 = 2 * (length s + 1) div 5;
          r = (if length s < 14 then None
               else if s ! 2 = CHR '':'' \<or> s ! 2 = CHR ''-'' then
                 (if (length s + 1) mod 3 \<noteq> 0 \<or> n3 \<notin> {6, 8, 20} then None else mac_pairs n3 (s ! 2) s)
               else if s ! 4 = CHR ''.'' then
                 (if (length s + 1) mod 5 \<noteq> 0 \<or> n5 \<notin> {6, 8, 20} then None else mac_quads (n5 div 2) (s ! 4) s)
               else None)
      in case r of None \<Rightarrow> Inl (Msg (''address '' @ s @ '': invalid MAC address'')) | Some m \<Rightarrow> Inr m)"

section \<open>ns_linux.go\<close>

record netns =
  nsPath :: string
  nsFd :: nat
  nsClosed :: bool

definition PROCFS_MAGIC :: nat where "PROCFS_MAGIC = 0x9fa0"
definition NSFS_MAGIC :: nat where "NSFS_MAGIC = 0x6e736673"

definition IsNSorErr :: "'s net_host \<Rightarrow> string \<Rightarrow> 's \<Rightarrow> go_error option" where
  "IsNSorErr H nspath s =
     (case nh_Statfs H nspath s of
        Inl err \<Rightarrow> Some (Msg (''failed to Statfs '' @ quote nspath @ '': '' @ err_text err))
      | Inr fstype \<Rightarrow>
          if fstype = PROCFS_MAGIC \<or> fstype = NSFS_MAGIC then None
          else Some (Msg (''unknown FS magic on '' @ quote nspath @ '': '' @ hex_nat fstype)))"

definition GetNS :: "'s net_host \<Rightarrow> string \<Rightarrow> 's \<Rightarrow> go_error + netns" where
  "GetNS H nspath s =
     (case IsNSorErr H nspath s of
        Some err \<Rightarrow> Inl err
      | None \<Rightarrow> bind_sum (nh_OpenNs H nspath s) (\<lambda>fd. Inr \<lparr>nsPath = nspath, nsFd = fd, nsClosed = False\<rparr>))"

text \<open>\<open>tns\<close> is the namespace of the thread; \<open>nh_threadPath\<close> is its path below \<open>/proc\<close>.\<close>

definition GetCurrentNS :: "'s net_host \<Rightarrow> nat \<Rightarrow> 's \<Rightarrow> go_error + netns" where
  "GetCurrentNS H tns s = GetNS H (nh_threadPath H tns) s"

definition ns_errorIfClosed :: "netns \<Rightarrow> go_error option" where
  "ns_errorIfClosed ns = (if nsClosed ns then Some (Msg (quote (nsPath ns) @ '' has already been closed'')) else None)"

definition ns_Close :: "'s net_host \<Rightarrow> netns \<Rightarrow> 's \<Rightarrow> go_error + netns" where
  "ns_Close H ns s =
     (case ns_errorIfClosed ns of
        Some err \<Rightarrow> Inl err
      | None \<Rightarrow>
          (case nh_CloseNs H (nsFd ns) s of
             Some err \<Rightarrow> Inl (Msg (''Failed to close '' @ quote (nsPath ns) @ '': '' @ err_text err))
           | None \<Rightarrow> Inr (ns\<lparr>nsClosed := True\<rparr>)))"

definition ns_Set :: "'s net_host \<Rightarrow> netns \<Rightarrow> 's \<Rightarrow> go_error + unit" where
  "ns_Set H ns s =
     (case ns_errorIfClosed ns of
        Some err \<Rightarrow> Inl err
      | None \<Rightarrow>
          (case nh_Setns H (nsFd ns) s of
             Some err \<Rightarrow> Inl (Msg (''Error switching to ns '' @ nsPath ns @ '': '' @ err_text err))
           | None \<Rightarrow> Inr ()))"

text \<open>
  \<open>Do\<close> runs the closure in a thread of its own, which changes to the namespace and back again; the
  thread of the caller stays where it is. The closure gets the namespace it runs in and a handle for
  that of the caller.
\<close>

definition ns_Do :: "'s net_host \<Rightarrow> nat \<Rightarrow> netns \<Rightarrow> (nat \<Rightarrow> netns \<Rightarrow> ('a, 's) io) \<Rightarrow> ('a, 's) io" where
  "ns_Do H tns ns toRun =
     (case ns_errorIfClosed ns of
        Some err \<Rightarrow> io_fail err
      | None \<Rightarrow>
          io_bind (io_wrap ''Failed to open current namespace: '' (io_get (GetCurrentNS H tns))) (\<lambda>hostNS.
          io_bind (io_wrap ''failed to open current netns: '' (io_get (GetCurrentNS H tns))) (\<lambda>threadNS.
          io_then (io_wrap (''error switching to ns '' @ nsPath ns @ '': '') (io_get (ns_Set H ns)))
            (toRun (nsFd ns) hostNS))))"

definition WithNetNSPath :: "'s net_host \<Rightarrow> nat \<Rightarrow> string \<Rightarrow> (nat \<Rightarrow> netns \<Rightarrow> ('a, 's) io) \<Rightarrow> ('a, 's) io" where
  "WithNetNSPath H tns nspath toRun = io_bind (io_get (GetNS H nspath)) (\<lambda>ns. ns_Do H tns ns toRun)"

section \<open>hwaddr.go\<close>

definition PrivateMACPrefix :: "byte list" where "PrivateMACPrefix = [0x0a, 0x58]"

definition GenerateHardwareAddr4 :: "net_ip \<Rightarrow> byte list \<Rightarrow> go_error + mac" where
  "GenerateHardwareAddr4 ip prefix =
     (if To4 ip = [] then Inl (Msg ''GenerateHardwareAddr4 only supports valid IPv4 address as input'')
      else if length prefix \<noteq> length PrivateMACPrefix
      then Inl (Msg (''Prefix has length '' @ Itoa (int (length prefix)) @ '' instead  of '' @
        Itoa (int (length PrivateMACPrefix))))
      else Inr (prefix @ drop (length ip - 4) ip))"

section \<open>link_linux.go\<close>

definition get_link :: "'s net_host \<Rightarrow> nat \<Rightarrow> string \<Rightarrow> (net_link, 's) io" where
  "get_link H tns name = io_get (nh_LinkByName H tns name)"

definition makeVethPair :: "'s net_host \<Rightarrow> nat \<Rightarrow> string \<Rightarrow> string \<Rightarrow> int \<Rightarrow> (net_link, 's) io" where
  "makeVethPair H tns name peer mtu =
     (let veth = (new_link name mtu (Veth peer))\<lparr>lkUp := True\<rparr> in
      io_then (io_do (nh_LinkAdd H tns None veth))
        (io_catch (get_link H tns name) (\<lambda>err. io_then (io_ignore (io_do (nh_LinkDel H tns veth))) (io_fail err))))"

definition peerExists :: "'s net_host \<Rightarrow> nat \<Rightarrow> string \<Rightarrow> 's \<Rightarrow> bool" where
  "peerExists H tns name s = (case nh_LinkByName H tns name s of Inl err \<Rightarrow> False | Inr l \<Rightarrow> True)"

definition RandomVethName :: "'s net_host \<Rightarrow> (string, 's) io" where
  "RandomVethName H s =
     (case nh_Entropy H s of
        (Inl err, s) \<Rightarrow> (Fail (Msg (''failed to generate random veth name: '' @ err_text err)), s)
      | (Inr entropy, s) \<Rightarrow> (Ret (''veth'' @ concat (map hex_byte entropy)), s))"

text \<open>The loop of \<open>makeVeth\<close>, with the rounds that are left.\<close>

primrec veth_loop :: "'s net_host \<Rightarrow> nat \<Rightarrow> string \<Rightarrow> string \<Rightarrow> int \<Rightarrow> nat \<Rightarrow> (string \<times> net_link, 's) io" where
  "veth_loop H tns name vethPeerName mtu 0 = io_fail (Msg ''failed to find a unique veth name'')"
| "veth_loop H tns name vethPeerName mtu (Suc n) =
     io_bind (if vethPeerName \<noteq> [] then io_ret vethPeerName else RandomVethName H) (\<lambda>peerName.
     io_bind (io_try (makeVethPair H tns name peerName mtu)) (\<lambda>r.
       case r of
         Inr veth \<Rightarrow> io_ret (peerName, veth)
       | Inl err \<Rightarrow>
           if os_IsExist err then
             io_bind (\<lambda>s. (Ret (peerExists H tns peerName s), s)) (\<lambda>ex.
               if ex \<and> vethPeerName = [] then veth_loop H tns name vethPeerName mtu n
               else io_fail (Msg (''container veth name provided ('' @ name @ '') already exists'')))
           else io_fail (Msg (''failed to make veth pair: '' @ err_text err))))"

definition makeVeth :: "'s net_host \<Rightarrow> nat \<Rightarrow> string \<Rightarrow> string \<Rightarrow> int \<Rightarrow> (string \<times> net_link, 's) io" where
  "makeVeth H tns name vethPeerName mtu = veth_loop H tns name vethPeerName mtu 10"

definition RenameLink :: "'s net_host \<Rightarrow> nat \<Rightarrow> string \<Rightarrow> string \<Rightarrow> (unit, 's) io" where
  "RenameLink H tns curName newName =
     io_bind (get_link H tns curName) (\<lambda>link. io_do (nh_LinkSetName H tns link newName))"

record net_interface =
  niIndex :: int
  niMTU :: int
  niName :: string
  niMac :: mac
  niUp :: bool

definition ifaceFromNetlinkLink :: "net_link \<Rightarrow> net_interface" where
  "ifaceFromNetlinkLink l = \<lparr>niIndex = lkIndex l, niMTU = lkMTU l, niName = lkName l, niMac = lkMac l, niUp = lkUp l\<rparr>"

text \<open>The result of \<open>sysctl.Sysctl\<close> is dropped by most callers; an empty file makes it panic.\<close>

definition io_sysctl :: "'s net_host \<Rightarrow> nat \<Rightarrow> string \<Rightarrow> string list \<Rightarrow> (string, 's) io" where
  "io_sysctl H tns name params s = Sysctl (nh_files H tns) name params s"

definition SetupVethWithName ::
  "'s net_host \<Rightarrow> nat \<Rightarrow> string \<Rightarrow> string \<Rightarrow> int \<Rightarrow> netns \<Rightarrow> (net_interface \<times> net_interface, 's) io" where
  "SetupVethWithName H tns contVethName hostVethName mtu hostNS =
     io_bind (makeVeth H tns contVethName hostVethName mtu) (\<lambda>(hostVethName, contVeth).
     io_then (io_wrap (''failed to set '' @ quote contVethName @ '' up: '') (io_do (nh_LinkSetUp H tns contVeth)))
     (io_bind (io_wrap (''failed to lookup '' @ quote hostVethName @ '': '') (get_link H tns hostVethName)) (\<lambda>hostVeth.
     io_then (io_wrap ''failed to move veth to host netns: '' (io_do (nh_LinkSetNsFd H tns hostVeth (nsFd hostNS))))
     (io_bind (ns_Do H tns hostNS (\<lambda>host _.
        io_bind (io_wrap (''failed to lookup '' @ quote hostVethName @ '' in '' @ quote (nsPath hostNS) @ '': '')
          (get_link H host hostVethName)) (\<lambda>hostVeth.
        io_then (io_wrap (''failed to set '' @ quote hostVethName @ '' up: '') (io_do (nh_LinkSetUp H host hostVeth)))
        (io_then (io_ignore (io_sysctl H host (''net/ipv6/conf/'' @ hostVethName @ ''/accept_ra'') [''0'']))
          (io_ret hostVeth))))) (\<lambda>hostVeth.
       io_ret (ifaceFromNetlinkLink hostVeth, ifaceFromNetlinkLink contVeth))))))"

definition SetupVeth ::
  "'s net_host \<Rightarrow> nat \<Rightarrow> string \<Rightarrow> int \<Rightarrow> netns \<Rightarrow> (net_interface \<times> net_interface, 's) io" where
  "SetupVeth H tns contVethName mtu hostNS = SetupVethWithName H tns contVethName [] mtu hostNS"

definition ErrLinkNotFound :: go_error where
  "ErrLinkNotFound = Msg ''link not found''"

text \<open>The lookup with which both deletions begin.\<close>

definition lookup_for_del :: "'s net_host \<Rightarrow> nat \<Rightarrow> string \<Rightarrow> (net_link, 's) io" where
  "lookup_for_del H tns ifName =
     io_catch (get_link H tns ifName) (\<lambda>err.
       io_fail (if nh_isLinkNotFound H err then ErrLinkNotFound
                else Msg (''failed to lookup '' @ quote ifName @ '': '' @ err_text err)))"

definition DelLinkByName :: "'s net_host \<Rightarrow> nat \<Rightarrow> string \<Rightarrow> (unit, 's) io" where
  "DelLinkByName H tns ifName =
     io_bind (lookup_for_del H tns ifName) (\<lambda>iface.
       io_wrap (''failed to delete '' @ quote ifName @ '': '') (io_do (nh_LinkDel H tns iface)))"

definition DelLinkByNameAddr :: "'s net_host \<Rightarrow> nat \<Rightarrow> string \<Rightarrow> (ip_net list, 's) io" where
  "DelLinkByNameAddr H tns ifName =
     io_bind (lookup_for_del H tns ifName) (\<lambda>iface.
     io_bind (io_wrap (''failed to get IP addresses for '' @ quote ifName @ '': '')
        (io_get (nh_AddrList H tns iface FAMILY_ALL))) (\<lambda>addrs.
     io_then (io_wrap (''failed to delete '' @ quote ifName @ '': '') (io_do (nh_LinkDel H tns iface)))
       (io_ret (map naNet (filter (\<lambda>a. IsGlobalUnicast (IP (naNet a))) addrs)))))"

text \<open>The callers of the deletions take a missing link for success.\<close>

definition unless_missing :: "'a \<Rightarrow> ('a, 's) io \<Rightarrow> ('a, 's) io" where
  "unless_missing x m = io_catch m (\<lambda>err. if err = ErrLinkNotFound then io_ret x else io_fail err)"

definition SetHWAddrByIP :: "'s net_host \<Rightarrow> nat \<Rightarrow> string \<Rightarrow> net_ip \<Rightarrow> net_ip \<Rightarrow> (unit, 's) io" where
  "SetHWAddrByIP H tns ifName ip4 ip6 =
     io_bind (io_wrap (''failed to lookup '' @ quote ifName @ '': '') (get_link H tns ifName)) (\<lambda>iface.
       if ip4 = [] \<and> ip6 = [] then io_fail (Msg ''neither ip4 or ip6 specified'')
       else if ip4 \<noteq> [] then
         io_bind (io_wrap ''failed to generate hardware addr: ''
            (io_out (outcome_of (GenerateHardwareAddr4 ip4 PrivateMACPrefix)))) (\<lambda>hwAddr.
           io_wrap (''failed to add hardware addr to '' @ quote ifName @ '': '')
             (io_do (nh_LinkSetHardwareAddr H tns iface hwAddr)))
       else io_ret ())"

fun is_veth :: "link_kind \<Rightarrow> bool" where
  "is_veth (Veth p) = True"
| "is_veth _ = False"

definition peer_from_stats :: "'s net_host \<Rightarrow> nat \<Rightarrow> net_link \<Rightarrow> (int, 's) io" where
  "peer_from_stats H tns link =
     io_then (io_wrap ''failed to initialize ethtool: ''
        (io_get (\<lambda>s. case nh_NewEthtool H tns s of None \<Rightarrow> Inr () | Some err \<Rightarrow> Inl err)))
     (io_bind (io_wrap ''failed to request ethtool stats: '' (io_get (nh_Stats H tns (lkName link)))) (\<lambda>stats.
        case stats ''peer_ifindex'' of
          None \<Rightarrow> io_fail (Msg (''failed to find '' @ squote ''peer_ifindex'' @ '' in ethtool stats''))
        | Some n \<Rightarrow>
            if n > 32767 \<or> n = 0 then io_fail (Msg (''invalid '' @ squote ''peer_ifindex'' @ '' '' @ dec_nat n))
            else io_ret (int n)))"

definition GetVethPeerIfindex :: "'s net_host \<Rightarrow> nat \<Rightarrow> string \<Rightarrow> (net_link \<times> int, 's) io" where
  "GetVethPeerIfindex H tns ifName =
     io_bind (io_wrap (''could not look up '' @ quote ifName @ '': '') (get_link H tns ifName)) (\<lambda>link.
       if \<not> is_veth (lkKind link) then io_fail (Msg (''interface '' @ quote ifName @ '' was not a veth interface''))
       else io_bind (if lkParent link \<le> 0 then peer_from_stats H tns link else io_ret (lkParent link))
         (\<lambda>peerIndex. io_ret (link, peerIndex)))"

end
