(* ===== verification/Ipam.thy ===== *)
theory Ipam
  imports Netlink
begin

text \<open>
  The rest of \<open>plugins/pkg/ip\<close> (routes, settling addresses, the checks of CHECK, forwarding) and
  \<open>plugins/pkg/ipam\<close>: delegating to an address management plugin and putting its result on an
  interface.
\<close>

section \<open>route_linux.go\<close>

definition add_route :: "'s net_host \<Rightarrow> nat \<Rightarrow> nl_scope \<Rightarrow> ip_net \<Rightarrow> net_ip \<Rightarrow> net_link \<Rightarrow> (unit, 's) io" where
  "add_route H tns scope ipn gw dev =
     io_do (nh_RouteAdd H tns \<lparr>nrLink = lkIndex dev, nrScope = scope, nrDst = Some ipn, nrGw = gw, nrSrc = []\<rparr>)"

definition AddRoute :: "'s net_host \<Rightarrow> nat \<Rightarrow> ip_net \<Rightarrow> net_ip \<Rightarrow> net_link \<Rightarrow> (unit, 's) io" where
  "AddRoute H tns ipn gw dev = add_route H tns SCOPE_UNIVERSE ipn gw dev"

definition AddHostRoute :: "'s net_host \<Rightarrow> nat \<Rightarrow> ip_net \<Rightarrow> net_ip \<Rightarrow> net_link \<Rightarrow> (unit, 's) io" where
  "AddHostRoute H tns ipn gw dev = add_route H tns SCOPE_HOST ipn gw dev"

definition AddDefaultRoute :: "'s net_host \<Rightarrow> nat \<Rightarrow> net_ip \<Rightarrow> net_link \<Rightarrow> (unit, 's) io" where
  "AddDefaultRoute H tns gw dev = AddRoute H tns \<lparr>IP = [0, 0, 0, 0], Mask = [0, 0, 0, 0]\<rparr> gw dev"

section \<open>addr_linux.go\<close>

text \<open>Times are nanoseconds.\<close>

definition SETTLE_INTERVAL :: int where "SETTLE_INTERVAL = 50000000"

definition settle_timeout :: "string \<Rightarrow> int \<Rightarrow> go_error" where
  "settle_timeout ifName timeout =
     Msg (''link '' @ ifName @ '' still has tentative addresses after '' @ Itoa timeout @ '' seconds'')"

text \<open>
  The loop, with the rounds that are left. Each round but the last sleeps, so with a clock that
  advances by what was slept the deadline passes before the rounds run out (\<open>settle_rounds\<close> below).
\<close>

primrec settle_loop ::
  "'s net_host \<Rightarrow> nat \<Rightarrow> net_link \<Rightarrow> string \<Rightarrow> int \<Rightarrow> int \<Rightarrow> nat \<Rightarrow> (unit, 's) io" where
  "settle_loop H tns link ifName timeout deadline 0 = io_fail (settle_timeout ifName timeout)"
| "settle_loop H tns link ifName timeout deadline (Suc n) =
     io_bind (io_wrap ''could not list addresses: '' (io_get (nh_AddrList H tns link FAMILY_ALL))) (\<lambda>addrs.
       if length addrs = 0 then io_ret ()
       else if \<not> list_ex naTentative addrs then io_ret ()
       else (\<lambda>s. if nh_Now H s > deadline then io_fail (settle_timeout ifName timeout) s
                 else settle_loop H tns link ifName timeout deadline n (nh_Sleep H SETTLE_INTERVAL s)))"

definition settle_rounds :: "int \<Rightarrow> nat" where
  "settle_rounds timeout = nat (timeout * 20) + 2"

definition SettleAddresses :: "'s net_host \<Rightarrow> nat \<Rightarrow> string \<Rightarrow> int \<Rightarrow> (unit, 's) io" where
  "SettleAddresses H tns ifName timeout =
     io_bind (io_wrap ''failed to retrieve link: '' (get_link H tns ifName)) (\<lambda>link s.
       settle_loop H tns link ifName timeout (nh_Now H s + timeout * 1000000000) (settle_rounds timeout) s)"

section \<open>utils_linux.go\<close>

definition family_of :: "string \<Rightarrow> nl_family option" where
  "family_of v = (if v = ''4'' then Some FAMILY_V4 else if v = ''6'' then Some FAMILY_V6 else None)"

definition dst_route :: "ip_net option \<Rightarrow> net_ip \<Rightarrow> nl_route" where
  "dst_route dst gw = \<lparr>nrLink = 0, nrScope = SCOPE_UNIVERSE, nrDst = dst, nrGw = gw, nrSrc = []\<rparr>"

text \<open>The error of parsing the prefix is dropped and leaves the destination nil.\<close>

definition validate_ip :: "'s net_host \<Rightarrow> nat \<Rightarrow> string \<Rightarrow> ip_config \<Rightarrow> (unit, 's) io" where
  "validate_ip H tns ifName ips =
     io_bind (io_error (Msg (''Cannot find container link '' @ ifName)) (get_link H tns ifName)) (\<lambda>link.
     io_bind (io_error (Msg ''Cannot obtain List of IP Addresses'') (io_get (nh_AddrList H tns link FAMILY_ALL))) (\<lambda>addrList.
       if \<not> list_ex (\<lambda>addr. nh_AddrEqual H (naNet addr) (Address ips)) addrList
       then io_fail (Msg (''Failed to match addr '' @ nh_AddrString H (Address ips) @ '' on interface '' @ ifName))
       else
         (let ourPrefix = (case net_ParseCIDR (nh_AddrString H (Address ips)) of Inl err \<Rightarrow> None | Inr (_, n) \<Rightarrow> Some n) in
          case family_of (Version ips) of
            None \<Rightarrow> io_fail (Msg (''Invalid IP Version '' @ Version ips @ '' for interface '' @ ifName))
          | Some family \<Rightarrow>
              io_bind (io_catch (io_get (nh_RouteListFiltered H tns family (dst_route ourPrefix []) [RT_FILTER_DST])) (\<lambda>err.
                 io_fail (Msg (''Error '' @ err_text err @ '' trying to find Gateway '' @ ip_String (ConfGateway ips) @
                   '' for interface '' @ ifName)))) (\<lambda>gwy.
                if gwy = [] then io_fail (Msg (''Failed to find Gateway '' @ ip_String (ConfGateway ips) @
                  '' for interface '' @ ifName))
                else io_ret ()))))"

definition ValidateExpectedInterfaceIPs :: "'s net_host \<Rightarrow> nat \<Rightarrow> string \<Rightarrow> ip_config list \<Rightarrow> (unit, 's) io" where
  "ValidateExpectedInterfaceIPs H tns ifName resultIPs = io_each (validate_ip H tns ifName) resultIPs"

text \<open>The family, the route to look for and the filter of one expected route.\<close>

definition route_query :: "route \<Rightarrow> (nl_family \<times> nl_route \<times> rt_filter list) option" where
  "route_query r =
     (let full = (dst_route (Some (Dst r)) (GW r), [RT_FILTER_DST, RT_FILTER_GW]);
          default = (dst_route None (GW r), [RT_FILTER_DST])
      in if To4 (IP (Dst r)) \<noteq> [] then
           Some (FAMILY_V4, if IPNet_String (Dst r) = ''0.0.0.0/0'' then default else full)
         else if length (IP (Dst r)) = 16 then
           Some (FAMILY_V6, if IPNet_String (Dst r) = ''::/0'' then default else full)
         else None)"

definition validate_route :: "'s net_host \<Rightarrow> nat \<Rightarrow> route \<Rightarrow> (unit, 's) io" where
  "validate_route H tns r =
     (case route_query r of
        None \<Rightarrow> io_fail (Msg ''Invalid static route found'')
      | Some (family, want, routeFilter) \<Rightarrow>
          io_bind (io_wrap ''Expected Route not route table lookup error ''
             (io_get (nh_RouteListFiltered H tns family want routeFilter))) (\<lambda>wasFound.
            if wasFound = [] then io_fail (Msg ''Expected Route not found in routing table'') else io_ret ()))"

definition ValidateExpectedRoute :: "'s net_host \<Rightarrow> nat \<Rightarrow> route list \<Rightarrow> (unit, 's) io" where
  "ValidateExpectedRoute H tns resultRoutes = io_each (validate_route H tns) resultRoutes"

section \<open>ipforward_linux.go\<close>

definition echo1 :: "'s net_host \<Rightarrow> nat \<Rightarrow> string \<Rightarrow> (unit, 's) io" where
  "echo1 H tns f =
     io_bind (io_try (io_get (sf_ReadFile (nh_files H tns) f))) (\<lambda>r.
       case r of
         Inr content \<Rightarrow> if trim_space content = ''1'' then io_ret () else io_do (sf_WriteFile (nh_files H tns) f ''1'')
       | Inl err \<Rightarrow> io_do (sf_WriteFile (nh_files H tns) f ''1''))"

definition EnableIP4Forward :: "'s net_host \<Rightarrow> nat \<Rightarrow> (unit, 's) io" where
  "EnableIP4Forward H tns = echo1 H tns ''/proc/sys/net/ipv4/ip_forward''"

definition EnableIP6Forward :: "'s net_host \<Rightarrow> nat \<Rightarrow> (unit, 's) io" where
  "EnableIP6Forward H tns = echo1 H tns ''/proc/sys/net/ipv6/conf/all/forwarding''"

definition EnableForward :: "'s net_host \<Rightarrow> nat \<Rightarrow> ip_config list \<Rightarrow> (unit, 's) io" where
  "EnableForward H tns ips =
     io_bind (io_fold (\<lambda>ip (v4, v6).
        if Version ip = ''4'' \<and> \<not> v4 then io_then (EnableIP4Forward H tns) (io_ret (True, v6))
        else if Version ip = ''6'' \<and> \<not> v6 then io_then (EnableIP6Forward H tns) (io_ret (v4, True))
        else io_ret (v4, v6)) ips (False, False)) (\<lambda>_. io_ret ())"

section \<open>pkg/ipam\<close>

definition ExecAdd :: "'s net_host \<Rightarrow> string \<Rightarrow> document \<Rightarrow> (cni_result, 's) io" where
  "ExecAdd H plugin netconf s = (case DelegateAdd (nh_process H) plugin netconf None s of (r, s) \<Rightarrow> (outcome_of r, s))"

definition ExecCheck :: "'s net_host \<Rightarrow> string \<Rightarrow> document \<Rightarrow> (unit, 's) io" where
  "ExecCheck H plugin netconf = io_do (DelegateCheck (nh_process H) plugin netconf None)"

definition ExecDel :: "'s net_host \<Rightarrow> string \<Rightarrow> document \<Rightarrow> (unit, 's) io" where
  "ExecDel H plugin netconf = io_do (DelegateDel (nh_process H) plugin netconf None)"

definition disable_ipv6 :: "string \<Rightarrow> string" where
  "disable_ipv6 iface = ''net.ipv6.conf.'' @ iface @ ''.disable_ipv6''"

definition enable_ipv6 :: "'s net_host \<Rightarrow> nat \<Rightarrow> string \<Rightarrow> (unit, 's) io" where
  "enable_ipv6 H tns iface =
     io_bind (io_try (io_sysctl H tns (disable_ipv6 iface) [])) (\<lambda>r.
       case r of
         Inl err \<Rightarrow> io_ret ()
       | Inr value \<Rightarrow>
           if value = ''0'' then io_ret ()
           else io_bind (io_wrap (''failed to enable IPv6 for interface '' @ quote iface @ '' ('' @ disable_ipv6 iface @ ''='' @
             value @ ''): '') (io_sysctl H tns (disable_ipv6 iface) [''0''])) (\<lambda>_. io_ret ()))"

text \<open>The variables of the loop over the addresses: the gateways and whether IPv6 was enabled.\<close>

record iface_vars =
  v4gw :: net_ip
  v6gw :: net_ip
  has_enabled_ipv6 :: bool

definition index_ok :: "string \<Rightarrow> interface list \<Rightarrow> int \<Rightarrow> bool" where
  "index_ok ifName ifs i \<longleftrightarrow> 0 \<le> i \<and> i < int (length ifs) \<and> Name (ifs ! nat i) = ifName"

definition configure_ip ::
  "'s net_host \<Rightarrow> nat \<Rightarrow> string \<Rightarrow> net_link \<Rightarrow> interface list \<Rightarrow> ip_config \<Rightarrow> iface_vars \<Rightarrow> (iface_vars, 's) io" where
  "configure_ip H tns ifName link ifs ipc v =
     (case Interface ipc of
        None \<Rightarrow> io_ret v
      | Some intIdx \<Rightarrow>
          if \<not> index_ok ifName ifs intIdx
          then io_fail (Msg (''failed to add IP addr to '' @ quote ifName @ '': invalid interface index''))
          else
            io_then (io_when (\<not> has_enabled_ipv6 v \<and> Version ipc = ''6'')
               (io_each (enable_ipv6 H tns) [''lo'', ifName]))
            (io_then (io_wrap (''failed to add IP addr to '' @ quote ifName @ '': '') (io_do (nh_AddrAdd H tns link (Address ipc))))
            (let gw = ConfGateway ipc; gwIsV4 = (To4 gw \<noteq> []) in
             io_ret (v\<lparr>has_enabled_ipv6 := has_enabled_ipv6 v \<or> Version ipc = ''6'',
               v4gw := (if gwIsV4 \<and> v4gw v = [] then gw else v4gw v),
               v6gw := (if \<not> gwIsV4 \<and> v6gw v = [] then gw else v6gw v)\<rparr>))))"

definition route_gw :: "iface_vars \<Rightarrow> route \<Rightarrow> net_ip" where
  "route_gw v r =
     (let routeIsV4 = (To4 (IP (Dst r)) \<noteq> []) in
      if GW r \<noteq> [] then GW r
      else if routeIsV4 \<and> v4gw v \<noteq> [] then v4gw v
      else if \<not> routeIsV4 \<and> v6gw v \<noteq> [] then v6gw v else [])"

definition configure_route :: "'s net_host \<Rightarrow> nat \<Rightarrow> string \<Rightarrow> net_link \<Rightarrow> iface_vars \<Rightarrow> route \<Rightarrow> (unit, 's) io" where
  "configure_route H tns ifName link v r =
     io_catch (AddRoute H tns (Dst r) (route_gw v r) link) (\<lambda>err.
       if os_IsExist err then io_ret ()
       else io_fail (Msg (''failed to add route '' @ squote (IPNet_String (Dst r) @ '' via '' @ ip_String (route_gw v r) @
         '' dev '' @ ifName) @ '': '' @ err_text err)))"

definition ConfigureIface :: "'s net_host \<Rightarrow> nat \<Rightarrow> string \<Rightarrow> result_cur \<Rightarrow> (unit, 's) io" where
  "ConfigureIface H tns ifName res =
     (if length (Interfaces res) = 0 then io_fail (Msg ''no interfaces to configure'')
      else
        io_bind (io_wrap (''failed to lookup '' @ quote ifName @ '': '') (get_link H tns ifName)) (\<lambda>link.
        io_then (io_wrap (''failed to set '' @ quote ifName @ '' UP: '') (io_do (nh_LinkSetUp H tns link)))
        (io_bind (io_fold (configure_ip H tns ifName link (Interfaces res)) (IPs res)
           \<lparr>v4gw = [], v6gw = [], has_enabled_ipv6 = False\<rparr>) (\<lambda>v.
         io_then (io_when (v6gw v \<noteq> []) (io_ignore (SettleAddresses H tns ifName 10)))
           (io_each (configure_route H tns ifName link v) (Routes res))))))"

end
