(* ===== verification/Iface.thy ===== *)
theory Iface
  imports Ipam PortMap
begin

text \<open>
  What the plugins that make an interface (\<open>plugins/plugins/main\<close>) have in common: releasing the
  addresses when a later step fails, and the start of CHECK.
\<close>

text \<open>
  The deferred call \<open>if err != nil { ipam.ExecDel(...) }\<close> for a step whose error the code stores in
  the variable \<open>err\<close> that the deferred call sees. Steps whose error is returned directly or is in
  another variable of that name are not wrapped.
\<close>

definition release_on_error :: "'s net_host \<Rightarrow> string \<Rightarrow> document \<Rightarrow> ('a, 's) io \<Rightarrow> ('a, 's) io" where
  "release_on_error H plugin netconf m =
     io_catch m (\<lambda>err. io_then (io_ignore (ExecDel H plugin netconf)) (io_fail err))"

definition open_netns :: "'s net_host \<Rightarrow> string \<Rightarrow> (netns, 's) io" where
  "open_netns H path = io_wrap (''failed to open netns '' @ quote path @ '': '') (io_get (GetNS H path))"

text \<open>All addresses belong to the interface with index \<open>i\<close> of the result.\<close>

definition own_ips :: "int \<Rightarrow> ip_config list \<Rightarrow> ip_config list" where
  "own_ips i ips = map (\<lambda>ipc. ipc\<lparr>Interface := Some i\<rparr>) ips"

definition missing_ips :: go_error where
  "missing_ips = Msg ''IPAM plugin returned missing IP config''"

definition print_result :: "result_cur \<Rightarrow> string \<Rightarrow> (cni_result, 's) io" where
  "print_result r cniVersion = io_out (outcome_of (PrintResult (RCur r) cniVersion))"

definition net_interface_of :: "net_link \<Rightarrow> netns \<Rightarrow> interface" where
  "net_interface_of l ns = \<lparr>Name = lkName l, Mac = mac_String (lkMac l), Sandbox = nsPath ns\<rparr>"

definition empty_interface :: interface where
  "empty_interface = \<lparr>Name = [], Mac = [], Sandbox = []\<rparr>"

section \<open>CHECK\<close>

text \<open>The previous result; \<open>missing\<close> is the text when there is none.\<close>

definition check_prev :: "string \<Rightarrow> netconf \<Rightarrow> result_cur outcome" where
  "check_prev missing conf =
     (if confRawPrevResult conf = None then Fail (Msg missing)
      else bind_out (outcome_of (ParsePrevResult conf)) (\<lambda>conf.
        case confPrevResult conf of
          None \<Rightarrow> Panic ''invalid memory address or nil pointer dereference''
        | Some prev \<Rightarrow> outcome_of (NewResultFromResult prev)))"

text \<open>The interface of the container is the last one with the name and the namespace of the call.\<close>

definition find_cont :: "cmd_args \<Rightarrow> interface list \<Rightarrow> interface" where
  "find_cont args ifs =
     (case filter (\<lambda>i. IfName args = Name i \<and> Netns args = Sandbox i) ifs of [] \<Rightarrow> empty_interface | is \<Rightarrow> last is)"

definition sandbox_mismatch :: "interface \<Rightarrow> cmd_args \<Rightarrow> go_error" where
  "sandbox_mismatch cont args =
     Msg (''Sandbox in prevResult '' @ Sandbox cont @ '' doesn'' @ [CHR 0x27] @ ''t match configured netns: '' @ Netns args)"

definition check_addressing :: "'s net_host \<Rightarrow> nat \<Rightarrow> string \<Rightarrow> result_cur \<Rightarrow> (unit, 's) io" where
  "check_addressing H tns ifName result =
     io_then (ValidateExpectedInterfaceIPs H tns ifName (IPs result)) (ValidateExpectedRoute H tns (Routes result))"

text \<open>
  The common start of \<open>validateCniContainerInterface\<close>: the link, which has to be in a sandbox.
  \<open>notFound\<close> and \<open>prefix\<close> are what the plugins put before the texts.
\<close>

definition cont_link :: "'s net_host \<Rightarrow> nat \<Rightarrow> string \<Rightarrow> interface \<Rightarrow> (net_link, 's) io" where
  "cont_link H tns prefix intf =
     (if Name intf = [] then io_fail (Msg (''Container interface name missing in prevResult: '' @ Name intf))
      else io_bind (io_error (Msg (prefix @ ''Container Interface name in prevResult: '' @ Name intf @ '' not found''))
             (get_link H tns (Name intf))) (\<lambda>link.
        if Sandbox intf = []
        then io_fail (Msg (prefix @ ''Error: Container interface '' @ lkName link @ '' should not be in host namespace''))
        else io_ret link))"

definition check_mac :: "string \<Rightarrow> interface \<Rightarrow> net_link \<Rightarrow> (unit, 's) io" where
  "check_mac prefix intf link =
     (if Mac intf \<noteq> [] \<and> Mac intf \<noteq> mac_String (lkMac link)
      then io_fail (Msg (prefix @ ''Interface '' @ Name intf @ '' Mac '' @ Mac intf @ '' doesn'' @ [CHR 0x27] @
        ''t match container Mac: '' @ mac_String (lkMac link)))
      else io_ret ())"

definition mtu_by_name :: "'s net_host \<Rightarrow> nat \<Rightarrow> string \<Rightarrow> (int, 's) io" where
  "mtu_by_name H tns ifName = io_bind (get_link H tns ifName) (\<lambda>link. io_ret (lkMTU link))"

text \<open>Deleting the interface, which may be missing.\<close>

definition del_interface :: "'s net_host \<Rightarrow> nat \<Rightarrow> cmd_args \<Rightarrow> (unit, 's) io" where
  "del_interface H tns args =
     (if Netns args = [] then io_ret ()
      else WithNetNSPath H tns (Netns args) (\<lambda>n _. unless_missing () (DelLinkByName H n (IfName args))))"

text \<open>The address \<open>MAC\<close> of \<open>CNI_ARGS\<close> (\<open>MacEnvArgs\<close>), empty when there is none.\<close>

definition mac_EnvArgs :: container where
  "mac_EnvArgs = CommonArgs @ [(''MAC'', FStr [])]"

definition env_mac :: "string \<Rightarrow> string outcome" where
  "env_mac envArgs =
     (if envArgs = [] then Ret []
      else case LoadArgs envArgs mac_EnvArgs of
        (Fail err, _) \<Rightarrow> Fail err | (Panic m, _) \<Rightarrow> Panic m | (Ret _, e) \<Rightarrow> Ret (str_field ''MAC'' e))"

text \<open>The file of a network configuration (\<open>json.Unmarshal\<close> with the text that all of them use).\<close>

definition load_as :: "(json \<Rightarrow> go_error + 'a) \<Rightarrow> document \<Rightarrow> ('a, 's) io" where
  "load_as d bytes = io_wrap ''failed to load netconf: '' (io_out (outcome_of (bind_sum bytes d)))"

definition bad_mtu :: "int \<Rightarrow> int \<Rightarrow> go_error" where
  "bad_mtu mtu masterMTU = Msg (''invalid MTU '' @ Itoa mtu @ '', must be [0, master MTU('' @ Itoa masterMTU @ '')]'')"

text \<open>A plugin: its commands run in the namespace \<open>tns\<close>, and ADD prints results.\<close>

definition link_plugin ::
  "string \<Rightarrow> (cmd_args \<Rightarrow> (cni_result, 's) io) \<Rightarrow> (cmd_args \<Rightarrow> (unit, 's) io) \<Rightarrow> (cmd_args \<Rightarrow> (unit, 's) io) \<Rightarrow>
    ('s \<times> cni_result list) dispatcher \<Rightarrow> 's \<times> cni_result list \<Rightarrow> (unit outcome \<times> 's \<times> cni_result list) option" where
  "link_plugin name add check del t w =
     pluginMain t (\<lambda>args w. Some (printing (add args) w)) (\<lambda>args w. Some (silent (check args) w))
       (\<lambda>args w. Some (silent (del args) w)) version_All (BuildString name BuildVersion) w"

section \<open>Lemmas\<close>

lemma release_on_error_Ret [io_simps]: "release_on_error H p c m s = (Ret y, s') \<longleftrightarrow> m s = (Ret y, s')"
  by (auto simp: release_on_error_def io_catch_Ret io_then_Ret io_fail_Ret)

lemma ExecDel_ignored: "io_ignore (ExecDel H p c) s = (Ret (), snd (DelegateDel (nh_process H) p c None s))"
  by (auto simp: io_ignore_def io_try_def io_catch_def io_bind_def io_ret_def ExecDel_def io_do_def
      split: prod.splits option.splits outcome.splits)

lemma release_on_error_Fail:
  "m s = (Fail err, s1) \<Longrightarrow> release_on_error H p c m s = (Fail err, snd (DelegateDel (nh_process H) p c None s1))"
  by (simp add: ExecDel_ignored release_on_error_def io_catch_def io_then_def io_bind_def io_fail_def)

end
