(* ===== verification/Vlan.thy ===== *)
theory Vlan
  imports Iface
begin

text \<open>
  The plugins \<open>loopback\<close>, \<open>vlan\<close> and \<open>ipvlan\<close> (\<open>plugins/plugins/main\<close>). \<open>tns\<close> is the namespace of
  the plugin's process.
\<close>

section \<open>loopback\<close>

definition lo_parseNetConf :: "document \<Rightarrow> netconf outcome" where
  "lo_parseNetConf bytes =
     (case bind_sum bytes dec_netconf of
        Inl err \<Rightarrow> Fail (Msg (''failed to parse network config: '' @ err_text err))
      | Inr conf \<Rightarrow>
          if confRawPrevResult conf = None then Ret conf
          else
            (case ParsePrevResult conf of
               Inl err \<Rightarrow> Fail (Msg (''failed to parse prevResult: '' @ err_text err))
             | Inr conf \<Rightarrow>
                 (case confPrevResult conf of
                    None \<Rightarrow> Panic ''invalid memory address or nil pointer dereference''
                  | Some prev \<Rightarrow>
                      (case NewResultFromResult prev of
                         Inl err \<Rightarrow> Fail (Msg (''failed to convert result to current version: '' @ err_text err))
                       | Inr _ \<Rightarrow> Ret conf))))"

text \<open>The first address of a family; all of them have to be loopback addresses.\<close>

definition lo_addr :: "'s net_host \<Rightarrow> nat \<Rightarrow> net_link \<Rightarrow> nl_family \<Rightarrow> (ip_net option, 's) io" where
  "lo_addr H tns link family =
     io_bind (io_get (nh_AddrList H tns link family)) (\<lambda>addrs.
       case find (\<lambda>a. \<not> IsLoopback (IP (naNet a))) addrs of
         Some a \<Rightarrow> io_fail (Msg (''loopback interface found with non-loopback address '' @ quote (ip_String (IP (naNet a)))))
       | None \<Rightarrow> io_ret (case addrs of [] \<Rightarrow> None | a # _ \<Rightarrow> Some (naNet a)))"

definition lo_ip :: "string \<Rightarrow> ip_net option \<Rightarrow> ip_config list" where
  "lo_ip v addr = (case addr of None \<Rightarrow> [] | Some n \<Rightarrow> [\<lparr>Version = v, Interface = Some 0, Address = n, ConfGateway = []\<rparr>])"

definition lo_cmdAdd :: "'s net_host \<Rightarrow> nat \<Rightarrow> cmd_args \<Rightarrow> (cni_result, 's) io" where
  "lo_cmdAdd H tns args =
     io_bind (io_out (lo_parseNetConf (StdinData args))) (\<lambda>conf.
     io_bind (WithNetNSPath H tns (Netns args) (\<lambda>n _.
        io_bind (get_link H n ''lo'') (\<lambda>link.
        io_then (io_do (nh_LinkSetUp H n link))
        (io_bind (lo_addr H n link FAMILY_V4) (\<lambda>v4.
         io_bind (lo_addr H n link FAMILY_V6) (\<lambda>v6. io_ret (v4, v6))))))) (\<lambda>(v4, v6).
       let result = (case confPrevResult conf of
             Some prev \<Rightarrow> prev
           | None \<Rightarrow> RCur \<lparr>CNIVersion = confCNIVersion conf,
               Interfaces = [\<lparr>Name = ''lo'', Mac = ''00:00:00:00:00:00'', Sandbox = Netns args\<rparr>],
               IPs = lo_ip ''4'' v4 @ lo_ip ''6'' v6, Routes = [], DNS = empty_dns\<rparr>)
       in io_out (outcome_of (PrintResult result (confCNIVersion conf)))))"

definition lo_cmdDel :: "'s net_host \<Rightarrow> nat \<Rightarrow> cmd_args \<Rightarrow> (unit, 's) io" where
  "lo_cmdDel H tns args =
     (if Netns args = [] then io_ret ()
      else WithNetNSPath H tns (Netns args) (\<lambda>n _.
        io_bind (get_link H n ''lo'') (\<lambda>link. io_do (nh_LinkSetDown H n link))))"

definition lo_cmdCheck :: "'s net_host \<Rightarrow> nat \<Rightarrow> cmd_args \<Rightarrow> (unit, 's) io" where
  "lo_cmdCheck H tns args =
     WithNetNSPath H tns (Netns args) (\<lambda>n _.
       io_bind (get_link H n ''lo'') (\<lambda>link.
         if \<not> lkUp link then io_fail (Msg ''loopback interface is down'') else io_ret ()))"

definition loopback :: "'s net_host \<Rightarrow> nat \<Rightarrow> ('s \<times> cni_result list) dispatcher \<Rightarrow> 's \<times> cni_result list \<Rightarrow>
    (unit outcome \<times> 's \<times> cni_result list) option" where
  "loopback H tns = link_plugin ''loopback'' (lo_cmdAdd H tns) (lo_cmdCheck H tns) (lo_cmdDel H tns)"

section \<open>vlan\<close>

record vlan_conf =
  vlConf :: netconf
  vlMaster :: string
  VlanId :: int
  vlMTU :: int

definition dec_vlan :: "json \<Rightarrow> go_error + vlan_conf" where
  "dec_vlan j =
     bind_sum (dec_netconf j) (\<lambda>n.
     bind_sum (jmembers j) (\<lambda>kvs.
     bind_sum (dec_field dec_string [] kvs ''master'') (\<lambda>m.
     bind_sum (dec_field dec_int 0 kvs ''vlanId'') (\<lambda>v.
     bind_sum (dec_field dec_int 0 kvs ''mtu'') (\<lambda>mtu.
       Inr \<lparr>vlConf = n, vlMaster = m, VlanId = v, vlMTU = mtu\<rparr>)))))"

definition vlan_loadConf :: "'s net_host \<Rightarrow> nat \<Rightarrow> document \<Rightarrow> (vlan_conf, 's) io" where
  "vlan_loadConf H tns bytes =
     io_bind (load_as dec_vlan bytes) (\<lambda>n.
       if vlMaster n = [] then io_fail (Msg (quote ''master'' @
         '' field is required. It specifies the host interface name to create the VLAN for.''))
       else if VlanId n < 0 \<or> VlanId n > 4094 then io_fail (Msg (''invalid VLAN ID '' @ Itoa (VlanId n) @
         '' (must be between 0 and 4095 inclusive)''))
       else io_bind (mtu_by_name H tns (vlMaster n)) (\<lambda>masterMTU.
         if vlMTU n < 0 \<or> vlMTU n > masterMTU then io_fail (bad_mtu (vlMTU n) masterMTU) else io_ret n))"

text \<open>
  The new link is made under a random name and renamed in the namespace of the container; \<open>what\<close>
  is the word of the plugin for it.
\<close>

definition rename_in :: "'s net_host \<Rightarrow> nat \<Rightarrow> string \<Rightarrow> string \<Rightarrow> string \<Rightarrow> netns \<Rightarrow> (interface, 's) io" where
  "rename_in H tns what tmpName ifName netns =
     ns_Do H tns netns (\<lambda>n _.
       io_then (io_wrap (''failed to rename '' @ what @ '' to '' @ quote ifName @ '': '') (RenameLink H n tmpName ifName))
       (io_bind (io_wrap (''failed to refetch '' @ what @ '' '' @ quote ifName @ '': '') (get_link H n ifName)) (\<lambda>l.
         io_ret \<lparr>Name = ifName, Mac = mac_String (lkMac l), Sandbox = nsPath netns\<rparr>)))"

definition createVlan :: "'s net_host \<Rightarrow> nat \<Rightarrow> vlan_conf \<Rightarrow> string \<Rightarrow> netns \<Rightarrow> (interface, 's) io" where
  "createVlan H tns conf ifName netns =
     io_bind (io_wrap (''failed to lookup master '' @ quote (vlMaster conf) @ '': '') (get_link H tns (vlMaster conf))) (\<lambda>m.
     io_bind (RandomVethName H) (\<lambda>tmpName.
     io_then (io_wrap ''failed to create vlan: '' (io_do (nh_LinkAdd H tns (Some (nsFd netns))
        ((new_link tmpName (vlMTU conf) (Vlan (VlanId conf)))\<lparr>lkParent := lkIndex m\<rparr>))))
       (rename_in H tns ''vlan'' tmpName ifName netns)))"

text \<open>The part of \<open>cmdAdd\<close> that follows the answer of the address management plugin.\<close>

definition vlan_configure ::
  "'s net_host \<Rightarrow> nat \<Rightarrow> cmd_args \<Rightarrow> vlan_conf \<Rightarrow> netns \<Rightarrow> interface \<Rightarrow> cni_result \<Rightarrow> (cni_result, 's) io" where
  "vlan_configure H tns args n netns vlanInterface r =
     io_bind (release_on_error H (confIPAM (vlConf n)) (StdinData args) (io_out (outcome_of (NewResultFromResult r)))) (\<lambda>result.
       if length (IPs result) = 0 then io_fail missing_ips
       else
         (let result = result\<lparr>IPs := own_ips 0 (IPs result), Interfaces := [vlanInterface]\<rparr> in
          io_then (release_on_error H (confIPAM (vlConf n)) (StdinData args)
              (ns_Do H tns netns (\<lambda>n _. ConfigureIface H n (IfName args) result)))
            (print_result (result\<lparr>DNS := confDNS (vlConf n)\<rparr>) (confCNIVersion (vlConf n)))))"

definition vlan_cmdAdd :: "'s net_host \<Rightarrow> nat \<Rightarrow> cmd_args \<Rightarrow> (cni_result, 's) io" where
  "vlan_cmdAdd H tns args =
     io_bind (vlan_loadConf H tns (StdinData args)) (\<lambda>n.
     io_bind (open_netns H (Netns args)) (\<lambda>netns.
     io_bind (createVlan H tns n (IfName args) netns) (\<lambda>vlanInterface.
     io_bind (ExecAdd H (confIPAM (vlConf n)) (StdinData args)) (\<lambda>r.
       vlan_configure H tns args n netns vlanInterface r))))"

definition vlan_cmdDel :: "'s net_host \<Rightarrow> nat \<Rightarrow> cmd_args \<Rightarrow> (unit, 's) io" where
  "vlan_cmdDel H tns args =
     io_bind (vlan_loadConf H tns (StdinData args)) (\<lambda>n.
     io_then (ExecDel H (confIPAM (vlConf n)) (StdinData args)) (del_interface H tns args))"

definition vlan_validate :: "'s net_host \<Rightarrow> nat \<Rightarrow> interface \<Rightarrow> int \<Rightarrow> int \<Rightarrow> (unit, 's) io" where
  "vlan_validate H tns intf vlanId mtu =
     io_bind (cont_link H tns ''ptp: '' intf) (\<lambda>link.
       case lkKind link of
         Vlan v \<Rightarrow>
           io_then (check_mac ''vlan: '' intf link)
             (if vlanId \<noteq> v then io_fail (Msg (''Error: Tuning link '' @ Name intf @ '' configured promisc is '' @
                Itoa vlanId @ '', current value is '' @ Itoa v))
              else if mtu \<noteq> 0 \<and> mtu \<noteq> lkMTU link then io_fail (Msg (''Error: Tuning configured MTU of '' @ Name intf @ '' is '' @
                Itoa mtu @ '', current value is '' @ Itoa (lkMTU link)))
              else io_ret ())
       | _ \<Rightarrow> io_fail (Msg (''Error: Container interface '' @ lkName link @ '' not of type vlan'')))"

definition vlan_cmdCheck :: "'s net_host \<Rightarrow> nat \<Rightarrow> cmd_args \<Rightarrow> (unit, 's) io" where
  "vlan_cmdCheck H tns args =
     io_bind (load_as dec_vlan (StdinData args)) (\<lambda>conf.
     io_bind (open_netns H (Netns args)) (\<lambda>netns.
     io_then (ExecCheck H (confIPAM (vlConf conf)) (StdinData args))
     (io_bind (io_out (check_prev ''ptp: Required prevResult missing'' (vlConf conf))) (\<lambda>result.
        let cont = find_cont args (Interfaces result) in
        if Netns args \<noteq> Sandbox cont then io_fail (sandbox_mismatch cont args)
        else io_bind (io_wrap (''failed to lookup master '' @ quote (vlMaster conf) @ '': '') (get_link H tns (vlMaster conf))) (\<lambda>m.
          ns_Do H tns netns (\<lambda>n _. io_then (vlan_validate H n cont (VlanId conf) (vlMTU conf))
            (check_addressing H n (IfName args) result)))))))"

definition vlan :: "'s net_host \<Rightarrow> nat \<Rightarrow> ('s \<times> cni_result list) dispatcher \<Rightarrow> 's \<times> cni_result list \<Rightarrow>
    (unit outcome \<times> 's \<times> cni_result list) option" where
  "vlan H tns = link_plugin ''vlan'' (vlan_cmdAdd H tns) (vlan_cmdCheck H tns) (vlan_cmdDel H tns)"

section \<open>ipvlan\<close>

record ipvlan_conf =
  ivConf :: netconf
  ivMaster :: string
  ivMode :: string
  ivMTU :: int

definition dec_ipvlan :: "json \<Rightarrow> go_error + ipvlan_conf" where
  "dec_ipvlan j =
     bind_sum (dec_netconf j) (\<lambda>n.
     bind_sum (jmembers j) (\<lambda>kvs.
     bind_sum (dec_field dec_string [] kvs ''master'') (\<lambda>m.
     bind_sum (dec_field dec_string [] kvs ''mode'') (\<lambda>mode.
     bind_sum (dec_field dec_int 0 kvs ''mtu'') (\<lambda>mtu.
       Inr \<lparr>ivConf = n, ivMaster = m, ivMode = mode, ivMTU = mtu\<rparr>)))))"

text \<open>The previous result parsed and converted, when there is one.\<close>

definition chained_result :: "netconf \<Rightarrow> (netconf \<times> result_cur option) outcome" where
  "chained_result n =
     (if confRawPrevResult n = None then Ret (n, None)
      else case ParsePrevResult n of
        Inl err \<Rightarrow> Fail (Msg (''could not parse prevResult: '' @ err_text err))
      | Inr n \<Rightarrow>
          (case confPrevResult n of
             None \<Rightarrow> Panic ''invalid memory address or nil pointer dereference''
           | Some prev \<Rightarrow>
               (case NewResultFromResult prev of
                  Inl err \<Rightarrow> Fail (Msg (''could not convert result to current version: '' @ err_text err))
                | Inr r \<Rightarrow> Ret (n, Some r))))"

definition ipvlan_loadConf :: "document \<Rightarrow> bool \<Rightarrow> (ipvlan_conf, 's) io" where
  "ipvlan_loadConf bytes cmdCheck =
     io_bind (load_as dec_ipvlan bytes) (\<lambda>n.
       if cmdCheck then io_ret n
       else io_bind (io_out (chained_result (ivConf n))) (\<lambda>(c, result).
         let n = n\<lparr>ivConf := c\<rparr> in
         if ivMaster n \<noteq> [] then io_ret n
         else case result of
           None \<Rightarrow> io_fail (Msg (quote ''master'' @ '' field is required. It specifies the host interface name to virtualize''))
         | Some r \<Rightarrow>
             if length (Interfaces r) = 1 \<and> Name (Interfaces r ! 0) \<noteq> [] then io_ret (n\<lparr>ivMaster := Name (Interfaces r ! 0)\<rparr>)
             else io_fail (Msg ''chained master failure. PrevResult lacks a single named interface'')))"

definition ipvlan_modeFromString :: "string \<Rightarrow> go_error + ipvlan_mode" where
  "ipvlan_modeFromString s =
     (if s = [] \<or> s = ''l2'' then Inr IPVLAN_MODE_L2 else if s = ''l3'' then Inr IPVLAN_MODE_L3
      else if s = ''l3s'' then Inr IPVLAN_MODE_L3S else Inl (Msg (''unknown ipvlan mode: '' @ quote s)))"

fun ipvlan_modeToString :: "ipvlan_mode \<Rightarrow> go_error + string" where
  "ipvlan_modeToString IPVLAN_MODE_L2 = Inr ''l2''"
| "ipvlan_modeToString IPVLAN_MODE_L3 = Inr ''l3''"
| "ipvlan_modeToString IPVLAN_MODE_L3S = Inr ''l3s''"
| "ipvlan_modeToString _ = Inl (Msg ''unknown ipvlan mode'')"

definition createIpvlan :: "'s net_host \<Rightarrow> nat \<Rightarrow> ipvlan_conf \<Rightarrow> string \<Rightarrow> netns \<Rightarrow> (interface, 's) io" where
  "createIpvlan H tns conf ifName netns =
     io_bind (io_out (outcome_of (ipvlan_modeFromString (ivMode conf)))) (\<lambda>mode.
     io_bind (io_wrap (''failed to lookup master '' @ quote (ivMaster conf) @ '': '') (get_link H tns (ivMaster conf))) (\<lambda>m.
     io_bind (RandomVethName H) (\<lambda>tmpName.
     io_then (io_wrap ''failed to create ipvlan: '' (io_do (nh_LinkAdd H tns (Some (nsFd netns))
        ((new_link tmpName (ivMTU conf) (IPVlan mode))\<lparr>lkParent := lkIndex m\<rparr>))))
       (rename_in H tns ''ipvlan'' tmpName ifName netns))))"

text \<open>
  The addresses: those of a previous result, or those of the address management plugin. The
  deferred release sees the \<open>err\<close> of the inner block only, so a later failure to configure the
  interface does not release them.
\<close>

definition ipvlan_result :: "'s net_host \<Rightarrow> cmd_args \<Rightarrow> netconf \<Rightarrow> (result_cur, 's) io" where
  "ipvlan_result H args n =
     io_bind (if confIPAM n = [] \<and> confPrevResult n \<noteq> None
        then io_bind (io_out (outcome_of (NewResultFromResult (the (confPrevResult n))))) (\<lambda>r.
               io_ret (if length (IPs r) > 0 then Some r else None))
        else io_ret None) (\<lambda>have.
       case have of
         Some r \<Rightarrow> io_ret r
       | None \<Rightarrow>
           io_bind (ExecAdd H (confIPAM n) (StdinData args)) (\<lambda>r.
           io_bind (release_on_error H (confIPAM n) (StdinData args) (io_out (outcome_of (NewResultFromResult r)))) (\<lambda>result.
             if length (IPs result) = 0 then io_fail missing_ips else io_ret result)))"

definition ipvlan_cmdAdd :: "'s net_host \<Rightarrow> nat \<Rightarrow> cmd_args \<Rightarrow> (cni_result, 's) io" where
  "ipvlan_cmdAdd H tns args =
     io_bind (ipvlan_loadConf (StdinData args) False) (\<lambda>n.
     io_bind (open_netns H (Netns args)) (\<lambda>netns.
     io_bind (createIpvlan H tns n (IfName args) netns) (\<lambda>ipvlanInterface.
     io_bind (ipvlan_result H args (ivConf n)) (\<lambda>result.
       let result = result\<lparr>IPs := own_ips 0 (IPs result), Interfaces := [ipvlanInterface]\<rparr> in
       io_then (ns_Do H tns netns (\<lambda>n _. ConfigureIface H n (IfName args) result))
         (print_result (result\<lparr>DNS := confDNS (ivConf n)\<rparr>) (confCNIVersion (ivConf n)))))))"

definition ipvlan_cmdDel :: "'s net_host \<Rightarrow> nat \<Rightarrow> cmd_args \<Rightarrow> (unit, 's) io" where
  "ipvlan_cmdDel H tns args =
     io_bind (ipvlan_loadConf (StdinData args) False) (\<lambda>n.
     io_then (io_when (confIPAM (ivConf n) \<noteq> []) (ExecDel H (confIPAM (ivConf n)) (StdinData args)))
       (del_interface H tns args))"

text \<open>An unknown mode of the configuration counts as the first one here.\<close>

definition ipvlan_validate :: "'s net_host \<Rightarrow> nat \<Rightarrow> interface \<Rightarrow> string \<Rightarrow> (unit, 's) io" where
  "ipvlan_validate H tns intf modeExpected =
     io_bind (cont_link H tns [] intf) (\<lambda>link.
       case lkKind link of
         IPVlan m \<Rightarrow>
           (let mode = (case ipvlan_modeFromString modeExpected of Inl err \<Rightarrow> IPVLAN_MODE_L2 | Inr mode \<Rightarrow> mode) in
            if m \<noteq> mode then
              io_bind (io_out (outcome_of (ipvlan_modeToString m))) (\<lambda>currString.
              io_bind (io_out (outcome_of (ipvlan_modeToString mode))) (\<lambda>confString.
                io_fail (Msg (''Container IPVlan mode '' @ currString @ '' does not match expected value: '' @ confString))))
            else check_mac [] intf link)
       | _ \<Rightarrow> io_fail (Msg (''Error: Container interface '' @ lkName link @ '' not of type ipvlan'')))"

definition ipvlan_cmdCheck :: "'s net_host \<Rightarrow> nat \<Rightarrow> cmd_args \<Rightarrow> (unit, 's) io" where
  "ipvlan_cmdCheck H tns args =
     io_bind (ipvlan_loadConf (StdinData args) True) (\<lambda>n.
     io_bind (open_netns H (Netns args)) (\<lambda>netns.
     io_then (io_when (confIPAM (ivConf n) \<noteq> []) (ExecCheck H (confIPAM (ivConf n)) (StdinData args)))
     (io_bind (io_out (check_prev ''Required prevResult missing'' (ivConf n))) (\<lambda>result.
        let cont = find_cont args (Interfaces result) in
        if Netns args \<noteq> Sandbox cont then io_fail (sandbox_mismatch cont args)
        else io_bind (io_wrap (''failed to lookup master '' @ quote (ivMaster n) @ '': '') (get_link H tns (ivMaster n))) (\<lambda>m.
          ns_Do H tns netns (\<lambda>c _. io_then (ipvlan_validate H c cont (ivMode n))
            (check_addressing H c (IfName args) result)))))))"

definition ipvlan :: "'s net_host \<Rightarrow> nat \<Rightarrow> ('s \<times> cni_result list) dispatcher \<Rightarrow> 's \<times> cni_result list \<Rightarrow>
    (unit outcome \<times> 's \<times> cni_result list) option" where
  "ipvlan H tns = link_plugin ''ipvlan'' (ipvlan_cmdAdd H tns) (ipvlan_cmdCheck H tns) (ipvlan_cmdDel H tns)"

end
