(* ===== verification/Macvlan.thy ===== *)
theory Macvlan
  imports Iface
begin

text \<open>The plugins \<open>macvlan\<close> and \<open>host-device\<close> (\<open>plugins/plugins/main\<close>).\<close>

section \<open>macvlan\<close>

record macvlan_conf =
  mvConf :: netconf
  mvMaster :: string
  mvMode :: string
  mvMTU :: int
  mvMac :: string
  mvRuntimeMac :: string

definition dec_mac_runtime :: "json \<Rightarrow> go_error + string" where
  "dec_mac_runtime j = bind_sum (jmembers j) (\<lambda>kvs. dec_field dec_string [] kvs ''mac'')"

definition dec_macvlan :: "json \<Rightarrow> go_error + macvlan_conf" where
  "dec_macvlan j =
     bind_sum (dec_netconf j) (\<lambda>n.
     bind_sum (jmembers j) (\<lambda>kvs.
     bind_sum (dec_field dec_string [] kvs ''master'') (\<lambda>m.
     bind_sum (dec_field dec_string [] kvs ''mode'') (\<lambda>mode.
     bind_sum (dec_field dec_int 0 kvs ''mtu'') (\<lambda>mtu.
     bind_sum (dec_field dec_string [] kvs ''mac'') (\<lambda>mac.
     bind_sum (dec_field dec_mac_runtime [] kvs ''runtimeConfig'') (\<lambda>rc.
       Inr \<lparr>mvConf = n, mvMaster = m, mvMode = mode, mvMTU = mtu, mvMac = mac, mvRuntimeMac = rc\<rparr>)))))))"

definition getDefaultRouteInterfaceName :: "'s net_host \<Rightarrow> nat \<Rightarrow> (string, 's) io" where
  "getDefaultRouteInterfaceName H tns =
     io_bind (io_get (nh_RouteList H tns FAMILY_ALL)) (\<lambda>rs.
       case find (\<lambda>v. nrDst v = None) rs of
         Some v \<Rightarrow> io_bind (io_get (nh_LinkByIndex H tns (nrLink v))) (\<lambda>l. io_ret (lkName l))
       | None \<Rightarrow> io_fail (Msg ''no default route interface found''))"

definition macvlan_loadConf :: "'s net_host \<Rightarrow> nat \<Rightarrow> document \<Rightarrow> string \<Rightarrow> (macvlan_conf, 's) io" where
  "macvlan_loadConf H tns bytes envArgs =
     io_bind (load_as dec_macvlan bytes) (\<lambda>n.
     io_bind (if mvMaster n = [] then getDefaultRouteInterfaceName H tns else io_ret (mvMaster n)) (\<lambda>master.
     io_bind (mtu_by_name H tns master) (\<lambda>masterMTU.
       if mvMTU n < 0 \<or> mvMTU n > masterMTU then io_fail (bad_mtu (mvMTU n) masterMTU)
       else io_bind (io_out (env_mac envArgs)) (\<lambda>mac.
         io_ret (n\<lparr>mvMaster := master,
           mvMac := (if mvRuntimeMac n \<noteq> [] then mvRuntimeMac n else if mac \<noteq> [] then mac else mvMac n)\<rparr>)))))"

definition macvlan_modeFromString :: "string \<Rightarrow> go_error + macvlan_mode" where
  "macvlan_modeFromString s =
     (if s = [] \<or> s = ''bridge'' then Inr MACVLAN_MODE_BRIDGE else if s = ''private'' then Inr MACVLAN_MODE_PRIVATE
      else if s = ''vepa'' then Inr MACVLAN_MODE_VEPA else if s = ''passthru'' then Inr MACVLAN_MODE_PASSTHRU
      else Inl (Msg (''unknown macvlan mode: '' @ quote s)))"

fun macvlan_modeToString :: "macvlan_mode \<Rightarrow> go_error + string" where
  "macvlan_modeToString MACVLAN_MODE_BRIDGE = Inr ''bridge''"
| "macvlan_modeToString MACVLAN_MODE_PRIVATE = Inr ''private''"
| "macvlan_modeToString MACVLAN_MODE_VEPA = Inr ''vepa''"
| "macvlan_modeToString MACVLAN_MODE_PASSTHRU = Inr ''passthru''"
| "macvlan_modeToString _ = Inl (Msg ''unknown macvlan mode'')"

definition macvlan_addr :: "macvlan_conf \<Rightarrow> mac outcome" where
  "macvlan_addr conf =
     (if mvMac conf = [] then Ret []
      else case ParseMAC (mvMac conf) of
        Inl err \<Rightarrow> Fail (Msg (''invalid args '' @ mvMac conf @ '' for MAC addr: '' @ err_text err))
      | Inr addr \<Rightarrow> Ret addr)"

text \<open>A step of the setup in the container; when it fails the new link is deleted.\<close>

definition or_delete :: "'s net_host \<Rightarrow> nat \<Rightarrow> net_link \<Rightarrow> (unit, 's) io \<Rightarrow> (unit, 's) io" where
  "or_delete H tns mv m = io_catch m (\<lambda>err. io_then (io_ignore (io_do (nh_LinkDel H tns mv))) (io_fail err))"

definition createMacvlan :: "'s net_host \<Rightarrow> nat \<Rightarrow> macvlan_conf \<Rightarrow> string \<Rightarrow> netns \<Rightarrow> (interface, 's) io" where
  "createMacvlan H tns conf ifName netns =
     io_bind (io_out (outcome_of (macvlan_modeFromString (mvMode conf)))) (\<lambda>mode.
     io_bind (io_wrap (''failed to lookup master '' @ quote (mvMaster conf) @ '': '') (get_link H tns (mvMaster conf))) (\<lambda>m.
     io_bind (RandomVethName H) (\<lambda>tmpName.
     io_bind (io_out (macvlan_addr conf)) (\<lambda>addr.
     let mv = (new_link tmpName (mvMTU conf) (Macvlan mode))\<lparr>lkParent := lkIndex m, lkMac := addr\<rparr> in
     io_then (io_wrap ''failed to create macvlan: '' (io_do (nh_LinkAdd H tns (Some (nsFd netns)) mv)))
     (ns_Do H tns netns (\<lambda>n _.
        io_then (or_delete H n mv (io_wrap (''failed to set proxy_arp on newly added interface '' @ quote tmpName @ '': '')
          (io_bind (io_sysctl H n (''net.ipv4.conf.'' @ tmpName @ ''.proxy_arp'') [''1'']) (\<lambda>_. io_ret ()))))
        (io_then (or_delete H n mv (io_wrap (''failed to rename macvlan to '' @ quote ifName @ '': '') (RenameLink H n tmpName ifName)))
        (io_bind (io_wrap (''failed to refetch macvlan '' @ quote ifName @ '': '') (get_link H n ifName)) (\<lambda>l.
          io_ret \<lparr>Name = ifName, Mac = mac_String (lkMac l), Sandbox = nsPath netns\<rparr>)))))))))"

text \<open>A gratuitous ARP for each IPv4 address; its errors are dropped.\<close>

definition send_arps :: "'s net_host \<Rightarrow> nat \<Rightarrow> string \<Rightarrow> ip_config list \<Rightarrow> (unit, 's) io" where
  "send_arps H tns ifName ips =
     io_each (\<lambda>ipc. if Version ipc = ''4'' then (\<lambda>s. (Ret (), nh_GratuitousArp H tns (IP (Address ipc)) ifName s)) else io_ret ()) ips"

definition interface_by_name :: "'s net_host \<Rightarrow> nat \<Rightarrow> string \<Rightarrow> (int, 's) io" where
  "interface_by_name H tns ifName = io_get (nh_InterfaceByName H tns ifName)"

text \<open>
  Addresses from the plugin for address management. The errors of this block are in a variable of its
  own, which only the deferred release sees.
\<close>

definition macvlan_layer3 ::
  "'s net_host \<Rightarrow> nat \<Rightarrow> cmd_args \<Rightarrow> macvlan_conf \<Rightarrow> netns \<Rightarrow> result_cur \<Rightarrow> (result_cur, 's) io" where
  "macvlan_layer3 H tns args n netns result =
     (let plugin = confIPAM (mvConf n) in
      io_bind (ExecAdd H plugin (StdinData args)) (\<lambda>r.
      io_bind (release_on_error H plugin (StdinData args) (io_out (outcome_of (NewResultFromResult r)))) (\<lambda>ipamResult.
        if length (IPs ipamResult) = 0 then io_fail missing_ips
        else
          (let result = result\<lparr>IPs := own_ips 0 (IPs ipamResult), Routes := Routes ipamResult\<rparr> in
           io_then (release_on_error H plugin (StdinData args) (ns_Do H tns netns (\<lambda>c _.
              io_then (ConfigureIface H c (IfName args) result)
              (io_bind (io_wrap (''failed to look up '' @ quote (IfName args) @ '': '') (interface_by_name H c (IfName args))) (\<lambda>_.
                send_arps H c (IfName args) (IPs result))))))
             (io_ret result)))))"

definition macvlan_layer2 :: "'s net_host \<Rightarrow> nat \<Rightarrow> cmd_args \<Rightarrow> interface \<Rightarrow> netns \<Rightarrow> (unit, 's) io" where
  "macvlan_layer2 H tns args intf netns =
     ns_Do H tns netns (\<lambda>c _.
       io_bind (io_wrap (''failed to find interface name '' @ quote (Name intf) @ '': '') (get_link H c (IfName args))) (\<lambda>l.
         io_wrap (''failed to set '' @ quote (IfName args) @ '' UP: '') (io_do (nh_LinkSetUp H c l))))"

text \<open>
  The deferred deletion of the link sees the outer \<open>err\<close>: only the failure without address
  management sets it.
\<close>

definition macvlan_cmdAdd :: "'s net_host \<Rightarrow> nat \<Rightarrow> cmd_args \<Rightarrow> (cni_result, 's) io" where
  "macvlan_cmdAdd H tns args =
     io_bind (macvlan_loadConf H tns (StdinData args) (Args args)) (\<lambda>n.
     io_bind (io_wrap ''failed to open netns %!q(<nil>): '' (io_get (GetNS H (Netns args)))) (\<lambda>netns.
     io_bind (createMacvlan H tns n (IfName args) netns) (\<lambda>macvlanInterface.
       let result = \<lparr>CNIVersion = confCNIVersion (mvConf n), Interfaces = [macvlanInterface], IPs = [], Routes = [],
             DNS = empty_dns\<rparr>
       in io_bind
            (if confIPAM (mvConf n) \<noteq> [] then macvlan_layer3 H tns args n netns result
             else io_then (io_catch (macvlan_layer2 H tns args macvlanInterface netns) (\<lambda>err.
                    io_then (io_ignore (ns_Do H tns netns (\<lambda>c _. DelLinkByName H c (IfName args)))) (io_fail err)))
                    (io_ret result))
            (\<lambda>result. print_result (result\<lparr>DNS := confDNS (mvConf n)\<rparr>) (confCNIVersion (mvConf n))))))"

definition macvlan_cmdDel :: "'s net_host \<Rightarrow> nat \<Rightarrow> cmd_args \<Rightarrow> (unit, 's) io" where
  "macvlan_cmdDel H tns args =
     io_bind (macvlan_loadConf H tns (StdinData args) (Args args)) (\<lambda>n.
     io_then (io_when (confIPAM (mvConf n) \<noteq> []) (ExecDel H (confIPAM (mvConf n)) (StdinData args)))
       (del_interface H tns args))"

definition macvlan_validate :: "'s net_host \<Rightarrow> nat \<Rightarrow> interface \<Rightarrow> string \<Rightarrow> (unit, 's) io" where
  "macvlan_validate H tns intf modeExpected =
     io_bind (cont_link H tns [] intf) (\<lambda>link.
       case lkKind link of
         Macvlan m \<Rightarrow>
           (let mode = (case macvlan_modeFromString modeExpected of Inl err \<Rightarrow> MACVLAN_MODE_DEFAULT | Inr mode \<Rightarrow> mode) in
            if m \<noteq> mode then
              io_bind (io_out (outcome_of (macvlan_modeToString m))) (\<lambda>currString.
              io_bind (io_out (outcome_of (macvlan_modeToString mode))) (\<lambda>confString.
                io_fail (Msg (''Container macvlan mode '' @ currString @ '' does not match expected value: '' @ confString))))
            else check_mac [] intf link)
       | _ \<Rightarrow> io_fail (Msg (''Error: Container interface '' @ lkName link @ '' not of type macvlan'')))"

definition macvlan_cmdCheck :: "'s net_host \<Rightarrow> nat \<Rightarrow> cmd_args \<Rightarrow> (unit, 's) io" where
  "macvlan_cmdCheck H tns args =
     io_bind (macvlan_loadConf H tns (StdinData args) (Args args)) (\<lambda>n.
     io_bind (open_netns H (Netns args)) (\<lambda>netns.
     io_then (io_when (confIPAM (mvConf n) \<noteq> []) (ExecCheck H (confIPAM (mvConf n)) (StdinData args)))
     (io_bind (io_out (check_prev ''Required prevResult missing'' (mvConf n))) (\<lambda>result.
        let cont = find_cont args (Interfaces result) in
        if Netns args \<noteq> Sandbox cont then io_fail (sandbox_mismatch cont args)
        else io_bind (io_wrap (''failed to lookup master '' @ quote (mvMaster n) @ '': '') (get_link H tns (mvMaster n))) (\<lambda>m.
          ns_Do H tns netns (\<lambda>c _. io_then (macvlan_validate H c cont (mvMode n))
            (check_addressing H c (IfName args) result)))))))"

definition macvlan :: "'s net_host \<Rightarrow> nat \<Rightarrow> ('s \<times> cni_result list) dispatcher \<Rightarrow> 's \<times> cni_result list \<Rightarrow>
    (unit outcome \<times> 's \<times> cni_result list) option" where
  "macvlan H tns = link_plugin ''macvlan'' (macvlan_cmdAdd H tns) (macvlan_cmdCheck H tns) (macvlan_cmdDel H tns)"

section \<open>host-device\<close>

record device_conf =
  hdConf :: netconf
  Device :: string
  HWAddr :: string
  KernelPath :: string
  PCIAddr :: string

definition dec_device_id :: "json \<Rightarrow> go_error + string" where
  "dec_device_id j = bind_sum (jmembers j) (\<lambda>kvs. dec_field dec_string [] kvs ''deviceID'')"

text \<open>The device of the runtime replaces the PCI address.\<close>

definition dec_device :: "json \<Rightarrow> go_error + device_conf" where
  "dec_device j =
     bind_sum (dec_netconf j) (\<lambda>n.
     bind_sum (jmembers j) (\<lambda>kvs.
     bind_sum (dec_field dec_string [] kvs ''device'') (\<lambda>d.
     bind_sum (dec_field dec_string [] kvs ''hwaddr'') (\<lambda>hw.
     bind_sum (dec_field dec_string [] kvs ''kernelpath'') (\<lambda>kp.
     bind_sum (dec_field dec_string [] kvs ''pciBusID'') (\<lambda>pci.
     bind_sum (dec_field dec_device_id [] kvs ''runtimeConfig'') (\<lambda>rc.
       Inr \<lparr>hdConf = n, Device = d, HWAddr = hw, KernelPath = kp, PCIAddr = (if rc \<noteq> [] then rc else pci)\<rparr>)))))))"

definition device_loadConf :: "document \<Rightarrow> (device_conf, 's) io" where
  "device_loadConf bytes =
     io_bind (load_as dec_device bytes) (\<lambda>n.
       if Device n = [] \<and> HWAddr n = [] \<and> KernelPath n = [] \<and> PCIAddr n = []
       then io_fail (Msg (''specify either '' @ quote ''device'' @ '', '' @ quote ''hwaddr'' @ '', '' @ quote ''kernelpath'' @
         '' or '' @ quote ''pciBusID''))
       else io_ret n)"

definition no_device :: go_error where
  "no_device = Msg ''failed to find physical interface''"

definition found :: "net_link option \<Rightarrow> (net_link, 's) io" where
  "found l = (case l of Some l \<Rightarrow> io_ret l | None \<Rightarrow> io_fail no_device)"

text \<open>The directory below the PCI device: its own, or that of a virtio device.\<close>

definition pci_net_dir :: "'s net_host \<Rightarrow> string \<Rightarrow> (string, 's) io" where
  "pci_net_dir H pciaddr =
     (let netDir = filepath_Join [''/sys/bus/pci/devices'', pciaddr, ''net''] in
      io_bind (\<lambda>s. (Ret (nh_Lstat H netDir s), s)) (\<lambda>r.
        case r of
          None \<Rightarrow> io_ret netDir
        | Some _ \<Rightarrow>
            io_bind (\<lambda>s. (Ret (nh_Glob H (filepath_Join [''/sys/bus/pci/devices'', pciaddr, ''virtio*'', ''net'']) s), s)) (\<lambda>matches.
              case matches of
                Inr (m # _) \<Rightarrow> io_ret m
              | _ \<Rightarrow> io_fail (Msg (''no net directory under pci device '' @ pciaddr)))))"

definition getLink :: "'s net_host \<Rightarrow> nat \<Rightarrow> string \<Rightarrow> string \<Rightarrow> string \<Rightarrow> string \<Rightarrow> (net_link, 's) io" where
  "getLink H tns devname hwaddr kernelpath pciaddr =
     io_bind (io_wrap ''failed to list node links: '' (io_get (nh_LinkList H tns))) (\<lambda>links.
       if devname \<noteq> [] then get_link H tns devname
       else if hwaddr \<noteq> [] then
         io_bind (io_wrap (''failed to parse MAC address '' @ quote hwaddr @ '': '') (io_out (outcome_of (ParseMAC hwaddr)))) (\<lambda>hwAddr.
           found (find (\<lambda>l. lkMac l = hwAddr) links))
       else if kernelpath \<noteq> [] then
         (if hd kernelpath \<noteq> CHR ''/'' \<or> \<not> has_prefix kernelpath ''/sys/devices/''
          then io_fail (Msg (''kernel device path '' @ quote kernelpath @ '' must be absolute and begin with /sys/devices/''))
          else
            io_bind (io_error (Msg (''failed to find network devices at '' @ quote (filepath_Join [kernelpath, ''net''])))
              (io_get (nh_ReadDir H (filepath_Join [kernelpath, ''net''])))) (\<lambda>files.
              found (find (\<lambda>l. True) (concat (map (\<lambda>f. filter (\<lambda>l. lkName l = f) links) files)))))
       else if pciaddr \<noteq> [] then
         io_bind (pci_net_dir H pciaddr) (\<lambda>netDir.
         io_bind (io_catch (io_get (nh_ReadDir H netDir)) (\<lambda>err.
            io_fail (Msg (''failed to read net directory '' @ netDir @ '': '' @ quote (err_text err))))) (\<lambda>fInfo.
            case fInfo of
              f # _ \<Rightarrow> get_link H tns f
            | [] \<Rightarrow> io_fail (Msg (''failed to find device name for pci address '' @ pciaddr))))
       else io_fail no_device)"

definition moveLinkIn :: "'s net_host \<Rightarrow> nat \<Rightarrow> net_link \<Rightarrow> netns \<Rightarrow> string \<Rightarrow> (net_link, 's) io" where
  "moveLinkIn H tns hostDev containerNs ifName =
     (let name = lkName hostDev in
      io_then (io_do (nh_LinkSetNsFd H tns hostDev (nsFd containerNs)))
      (ns_Do H tns containerNs (\<lambda>c _.
        io_bind (io_wrap (''failed to find '' @ quote name @ '': '') (get_link H c name)) (\<lambda>contDev.
        io_then (io_wrap (''failed to set '' @ quote name @ '' down: '') (io_do (nh_LinkSetDown H c contDev)))
        (io_then (io_wrap (''failed to set alias to '' @ quote name @ '': '') (io_do (nh_LinkSetAlias H c contDev name)))
        (io_then (io_wrap (''failed to rename device '' @ quote name @ '' to '' @ quote ifName @ '': '')
           (io_do (nh_LinkSetName H c contDev ifName)))
         (io_wrap (''failed to find '' @ quote ifName @ '': '') (get_link H c ifName))))))))"

text \<open>A device that cannot be moved gets its name in the container back.\<close>

definition moveLinkOut :: "'s net_host \<Rightarrow> nat \<Rightarrow> netns \<Rightarrow> string \<Rightarrow> (unit, 's) io" where
  "moveLinkOut H tns containerNs ifName =
     io_bind (io_get (GetCurrentNS H tns)) (\<lambda>defaultNs.
     ns_Do H tns containerNs (\<lambda>c _.
       io_bind (io_wrap (''failed to find '' @ quote ifName @ '': '') (get_link H c ifName)) (\<lambda>dev.
       io_then (io_wrap (''failed to set '' @ quote ifName @ '' down: '') (io_do (nh_LinkSetDown H c dev)))
       (io_then (io_wrap (''failed to restore '' @ quote ifName @ '' to original name '' @ quote (lkAlias dev) @ '': '')
          (io_do (nh_LinkSetName H c dev (lkAlias dev))))
        (io_catch (io_wrap (''failed to move '' @ quote (lkAlias dev) @ '' to host netns: '')
            (io_do (nh_LinkSetNsFd H c dev (nsFd defaultNs)))) (\<lambda>err.
          io_then (io_ignore (io_do (nh_LinkSetName H c dev ifName))) (io_fail err)))))))"

definition device_cmdAdd :: "'s net_host \<Rightarrow> nat \<Rightarrow> cmd_args \<Rightarrow> (cni_result, 's) io" where
  "device_cmdAdd H tns args =
     io_bind (device_loadConf (StdinData args)) (\<lambda>cfg.
     io_bind (open_netns H (Netns args)) (\<lambda>containerNs.
     io_bind (io_wrap ''failed to find host device: '' (getLink H tns (Device cfg) (HWAddr cfg) (KernelPath cfg) (PCIAddr cfg))) (\<lambda>hostDev.
     io_bind (io_wrap ''failed to move link '' (moveLinkIn H tns hostDev containerNs (IfName args))) (\<lambda>contDev.
       let plugin = confIPAM (hdConf cfg); intf = net_interface_of contDev containerNs in
       if plugin \<noteq> [] then
         io_bind (ExecAdd H plugin (StdinData args)) (\<lambda>r.
         io_bind (release_on_error H plugin (StdinData args) (io_out (outcome_of (NewResultFromResult r)))) (\<lambda>result.
           if length (IPs result) = 0 then io_fail missing_ips
           else
             (let result = result\<lparr>Interfaces := [intf], IPs := own_ips 0 (IPs result)\<rparr> in
              io_then (release_on_error H plugin (StdinData args)
                  (ns_Do H tns containerNs (\<lambda>c _. ConfigureIface H c (IfName args) result)))
                (print_result (result\<lparr>DNS := confDNS (hdConf cfg)\<rparr>) (confCNIVersion (hdConf cfg))))))
       else print_result \<lparr>CNIVersion = ImplementedSpecVersion, Interfaces = [intf], IPs = [], Routes = [], DNS = empty_dns\<rparr>
         (confCNIVersion (hdConf cfg))))))"

definition device_cmdDel :: "'s net_host \<Rightarrow> nat \<Rightarrow> cmd_args \<Rightarrow> (unit, 's) io" where
  "device_cmdDel H tns args =
     io_bind (device_loadConf (StdinData args)) (\<lambda>cfg.
       if Netns args = [] then io_ret ()
       else io_bind (open_netns H (Netns args)) (\<lambda>containerNs.
         io_then (moveLinkOut H tns containerNs (IfName args))
           (io_when (confIPAM (hdConf cfg) \<noteq> []) (ExecDel H (confIPAM (hdConf cfg)) (StdinData args)))))"

definition device_validate :: "'s net_host \<Rightarrow> nat \<Rightarrow> interface \<Rightarrow> (unit, 's) io" where
  "device_validate H tns intf = io_bind (cont_link H tns [] intf) (check_mac [] intf)"

definition device_cmdCheck :: "'s net_host \<Rightarrow> nat \<Rightarrow> cmd_args \<Rightarrow> (unit, 's) io" where
  "device_cmdCheck H tns args =
     io_bind (device_loadConf (StdinData args)) (\<lambda>cfg.
     io_bind (open_netns H (Netns args)) (\<lambda>netns.
     io_then (io_when (confIPAM (hdConf cfg) \<noteq> []) (ExecCheck H (confIPAM (hdConf cfg)) (StdinData args)))
     (io_bind (io_out (check_prev ''Required prevResult missing'' (hdConf cfg))) (\<lambda>result.
        let cont = find_cont args (Interfaces result) in
        if Netns args \<noteq> Sandbox cont then io_fail (sandbox_mismatch cont args)
        else ns_Do H tns netns (\<lambda>c _. io_then (device_validate H c cont) (check_addressing H c (IfName args) result))))))"

definition host_device :: "'s net_host \<Rightarrow> nat \<Rightarrow> ('s \<times> cni_result list) dispatcher \<Rightarrow> 's \<times> cni_result list \<Rightarrow>
    (unit outcome \<times> 's \<times> cni_result list) option" where
  "host_device H tns = link_plugin ''host-device'' (device_cmdAdd H tns) (device_cmdCheck H tns) (device_cmdDel H tns)"

end
