(* ===== verification/Ptp.thy ===== *)
theory Ptp
  imports Macvlan
begin

text \<open>The plugin \<open>ptp\<close> (\<open>plugins/plugins/main/ptp/ptp.go\<close>): a pair of links with a route each way.\<close>

record ptp_conf =
  ppConf :: netconf
  ppIPMasq :: bool
  ppMTU :: int

definition dec_ptp :: "json \<Rightarrow> go_error + ptp_conf" where
  "dec_ptp j =
     bind_sum (dec_netconf j) (\<lambda>n.
     bind_sum (jmembers j) (\<lambda>kvs.
     bind_sum (dec_field dec_bool False kvs ''ipMasq'') (\<lambda>m.
     bind_sum (dec_field dec_int 0 kvs ''mtu'') (\<lambda>mtu.
       Inr \<lparr>ppConf = n, ppIPMasq = m, ppMTU = mtu\<rparr>))))"

section \<open>ADD\<close>

definition route_do :: "string \<Rightarrow> ('s \<Rightarrow> go_error option \<times> 's) \<Rightarrow> (unit, 's) io" where
  "route_do what f = io_wrap (''failed to '' @ what @ '' route: '') (io_do f)"

text \<open>
  The routes of one address: the one that the kernel added is replaced by one to the gateway and one
  to the network through the gateway.
\<close>

definition subnet_of :: "ip_config \<Rightarrow> ip_net" where
  "subnet_of ipc = \<lparr>IP = ip_Mask (IP (Address ipc)) (Mask (Address ipc)), Mask = Mask (Address ipc)\<rparr>"

definition ptp_routes :: "int \<Rightarrow> ip_config \<Rightarrow> nl_route list" where
  "ptp_routes idx ipc =
     (let addrBits = (if Version ipc = ''6'' then 128 else 32) in
      [\<lparr>nrLink = idx, nrScope = SCOPE_LINK, nrDst = Some \<lparr>IP = ConfGateway ipc, Mask = CIDRMask addrBits addrBits\<rparr>,
          nrGw = [], nrSrc = IP (Address ipc)\<rparr>,
       \<lparr>nrLink = idx, nrScope = SCOPE_UNIVERSE, nrDst = Some (subnet_of ipc), nrGw = ConfGateway ipc,
          nrSrc = IP (Address ipc)\<rparr>])"

definition ptp_route :: "'s net_host \<Rightarrow> nat \<Rightarrow> int \<Rightarrow> ip_config \<Rightarrow> (unit, 's) io" where
  "ptp_route H tns idx ipc =
     io_then (route_do ''delete'' (nh_RouteDel H tns
        \<lparr>nrLink = idx, nrScope = SCOPE_NOWHERE, nrDst = Some (subnet_of ipc), nrGw = [], nrSrc = []\<rparr>))
       (io_each (\<lambda>r. route_do ''add'' (nh_RouteAdd H tns r)) (ptp_routes idx ipc))"

text \<open>
  The result that is passed by reference gets the two interfaces, and the addresses the second one:
  it is a result of the function here, with the interfaces of host and container.
\<close>

definition setupContainerVeth ::
  "'s net_host \<Rightarrow> nat \<Rightarrow> netns \<Rightarrow> string \<Rightarrow> int \<Rightarrow> result_cur \<Rightarrow> (interface \<times> interface \<times> result_cur, 's) io" where
  "setupContainerVeth H tns netns ifName mtu pr =
     ns_Do H tns netns (\<lambda>c hostNS.
       io_bind (SetupVeth H c ifName mtu hostNS) (\<lambda>(hostVeth, contVeth0).
       let hostInterface = \<lparr>Name = niName hostVeth, Mac = mac_String (niMac hostVeth), Sandbox = []\<rparr>;
           containerInterface = \<lparr>Name = niName contVeth0, Mac = mac_String (niMac contVeth0), Sandbox = nsPath netns\<rparr>;
           pr = pr\<lparr>IPs := own_ips 1 (IPs pr), Interfaces := [hostInterface, containerInterface]\<rparr>
       in io_then (ConfigureIface H c ifName pr)
          (io_bind (io_wrap (''failed to look up '' @ quote ifName @ '': '') (interface_by_name H c ifName)) (\<lambda>idx.
           io_then (io_each (ptp_route H c idx) (IPs pr))
           (io_then (send_arps H c ifName (IPs pr))
             (io_ret (hostInterface, containerInterface, pr)))))))"

definition host_net :: "ip_config \<Rightarrow> net_ip \<Rightarrow> ip_net" where
  "host_net ipc ip =
     (let maskLen = (if To4 (IP (Address ipc)) \<noteq> [] then 32 else 128) in \<lparr>IP = ip, Mask = CIDRMask maskLen maskLen\<rparr>)"

definition setupHostVeth :: "'s net_host \<Rightarrow> nat \<Rightarrow> string \<Rightarrow> result_cur \<Rightarrow> (unit, 's) io" where
  "setupHostVeth H tns vethName result =
     io_bind (io_wrap (''failed to lookup '' @ quote vethName @ '': '') (get_link H tns vethName)) (\<lambda>veth.
       io_each (\<lambda>ipc.
         io_then (io_wrap ''failed to add IP addr to veth: '' (io_do (nh_AddrAdd H tns veth (host_net ipc (ConfGateway ipc)))))
           (io_catch (AddHostRoute H tns (host_net ipc (IP (Address ipc))) [] veth) (\<lambda>err.
              if os_IsExist err then io_ret () else io_fail (Msg (''failed to add route on host: '' @ err_text err)))))
         (IPs result))"

text \<open>Masquerading of the container \<open>id\<close> on the network \<open>name\<close>.\<close>

definition masq_all ::
  "'s net_host \<Rightarrow> string \<Rightarrow> string \<Rightarrow> (string \<Rightarrow> string \<Rightarrow> (unit, 's) io) \<Rightarrow> (unit, 's) io" where
  "masq_all H name ident f =
     io_bind (io_out (FormatChainName (nh_sha512 H) name ident)) (\<lambda>chain. f chain (FormatComment name ident))"

definition setup_masq_ips :: "'s net_host \<Rightarrow> nat \<Rightarrow> string \<Rightarrow> string \<Rightarrow> ip_config list \<Rightarrow> (unit, 's) io" where
  "setup_masq_ips H tns name ident ips =
     masq_all H name ident (\<lambda>chain comment.
       io_each (\<lambda>ipc. io_do (SetupIPMasq (nh_iptables H tns) (Address ipc) chain comment)) ips)"

text \<open>An empty list in the configuration is not told from an absent one.\<close>

definition dnsConfSet :: "dns_conf \<Rightarrow> bool" where
  "dnsConfSet d \<longleftrightarrow> Nameservers d \<noteq> [] \<or> Search d \<noteq> [] \<or> Options d \<noteq> [] \<or> Domain d \<noteq> []"

text \<open>
  The errors of a missing address, of forwarding and of printing are not in the variable that the
  deferred release sees.
\<close>

definition ptp_cmdAdd :: "'s net_host \<Rightarrow> nat \<Rightarrow> cmd_args \<Rightarrow> (cni_result, 's) io" where
  "ptp_cmdAdd H tns args =
     io_bind (load_as dec_ptp (StdinData args)) (\<lambda>conf.
     let plugin = confIPAM (ppConf conf); name = confName (ppConf conf) in
     io_bind (ExecAdd H plugin (StdinData args)) (\<lambda>r.
     io_bind (release_on_error H plugin (StdinData args) (io_out (outcome_of (NewResultFromResult r)))) (\<lambda>result.
       if length (IPs result) = 0 then io_fail missing_ips
       else
         io_then (io_wrap ''Could not enable IP forwarding: '' (EnableForward H tns (IPs result)))
         (io_bind (release_on_error H plugin (StdinData args)
            (io_bind (open_netns H (Netns args)) (\<lambda>netns.
             io_bind (setupContainerVeth H tns netns (IfName args) (ppMTU conf) result) (\<lambda>(hostInterface, _, result).
             io_then (setupHostVeth H tns (Name hostInterface) result)
             (io_then (io_when (ppIPMasq conf) (setup_masq_ips H tns name (ContainerID args) (IPs result)))
               (io_ret result)))))) (\<lambda>result.
            print_result (if dnsConfSet (confDNS (ppConf conf)) then result\<lparr>DNS := confDNS (ppConf conf)\<rparr> else result)
              (confCNIVersion (ppConf conf)))))))"

section \<open>DEL and CHECK\<close>

text \<open>The interface is deleted; its addresses are returned, none when there is no interface.\<close>

definition del_interface_addrs :: "'s net_host \<Rightarrow> nat \<Rightarrow> cmd_args \<Rightarrow> (ip_net list, 's) io" where
  "del_interface_addrs H tns args =
     WithNetNSPath H tns (Netns args) (\<lambda>c _. unless_missing [] (DelLinkByNameAddr H c (IfName args)))"

text \<open>Every teardown is tried; only the error of the last one is kept.\<close>

definition teardown_masq_last :: "'s net_host \<Rightarrow> nat \<Rightarrow> ip_net list \<Rightarrow> string \<Rightarrow> string \<Rightarrow> (unit, 's) io" where
  "teardown_masq_last H tns ipnets chain comment =
     io_bind (io_fold (\<lambda>ipn (err :: go_error option). \<lambda>s.
        case TeardownIPMasq (nh_iptables H tns) ipn chain comment s of (err, s) \<Rightarrow> (Ret err, s)) ipnets None) (\<lambda>err.
       case err of None \<Rightarrow> io_ret () | Some err \<Rightarrow> io_fail err)"

definition ptp_cmdDel :: "'s net_host \<Rightarrow> nat \<Rightarrow> cmd_args \<Rightarrow> (unit, 's) io" where
  "ptp_cmdDel H tns args =
     io_bind (load_as dec_ptp (StdinData args)) (\<lambda>conf.
     io_then (ExecDel H (confIPAM (ppConf conf)) (StdinData args))
       (if Netns args = [] then io_ret ()
        else io_bind (del_interface_addrs H tns args) (\<lambda>ipnets.
          io_when (length ipnets \<noteq> 0 \<and> ppIPMasq conf)
            (masq_all H (confName (ppConf conf)) (ContainerID args) (teardown_masq_last H tns ipnets)))))"

definition ptp_validate :: "'s net_host \<Rightarrow> nat \<Rightarrow> interface \<Rightarrow> (unit, 's) io" where
  "ptp_validate H tns intf =
     io_bind (cont_link H tns ''ptp: '' intf) (\<lambda>link.
       if \<not> is_veth (lkKind link) then io_fail (Msg (''Error: Container interface '' @ lkName link @ '' not of type veth/p2p''))
       else check_mac ''ptp: '' intf link)"

definition ptp_cmdCheck :: "'s net_host \<Rightarrow> nat \<Rightarrow> cmd_args \<Rightarrow> (unit, 's) io" where
  "ptp_cmdCheck H tns args =
     io_bind (load_as dec_ptp (StdinData args)) (\<lambda>conf.
     io_bind (open_netns H (Netns args)) (\<lambda>netns.
     io_then (ExecCheck H (confIPAM (ppConf conf)) (StdinData args))
     (io_bind (io_out (check_prev ''ptp: Required prevResult missing'' (ppConf conf))) (\<lambda>result.
        let cont = find_cont args (Interfaces result) in
        if Netns args \<noteq> Sandbox cont then io_fail (sandbox_mismatch cont args)
        else ns_Do H tns netns (\<lambda>c _. io_then (ptp_validate H c cont) (check_addressing H c (IfName args) result))))))"

definition ptp :: "'s net_host \<Rightarrow> nat \<Rightarrow> ('s \<times> cni_result list) dispatcher \<Rightarrow> 's \<times> cni_result list \<Rightarrow>
    (unit outcome \<times> 's \<times> cni_result list) option" where
  "ptp H tns = link_plugin ''ptp'' (ptp_cmdAdd H tns) (ptp_cmdCheck H tns) (ptp_cmdDel H tns)"

end
