(* ===== verification/Bridge.thy ===== *)
theory Bridge
  imports Ptp
begin

text \<open>
  The plugin \<open>bridge\<close> (\<open>plugins/plugins/main/bridge/bridge.go\<close>): containers joined by a bridge, with
  the gateway's addresses on the bridge. \<open>debugPostIPAMError\<close>, which only tests set, is left out.
\<close>

section \<open>Configuration\<close>

record bridge_conf =
  brConf :: netconf
  BrName :: string
  IsGW :: bool
  IsDefaultGW :: bool
  ForceAddress :: bool
  brIPMasq :: bool
  brMTU :: int
  HairpinMode :: bool
  PromiscMode :: bool
  brVlan :: int

definition dec_bridge :: "json \<Rightarrow> go_error + bridge_conf" where
  "dec_bridge j =
     bind_sum (dec_netconf j) (\<lambda>n.
     bind_sum (jmembers j) (\<lambda>kvs.
     bind_sum (dec_field (dec_string_or ''cni0'') ''cni0'' kvs ''bridge'') (\<lambda>b.
     bind_sum (dec_field dec_bool False kvs ''isGateway'') (\<lambda>gw.
     bind_sum (dec_field dec_bool False kvs ''isDefaultGateway'') (\<lambda>dgw.
     bind_sum (dec_field dec_bool False kvs ''forceAddress'') (\<lambda>force.
     bind_sum (dec_field dec_bool False kvs ''ipMasq'') (\<lambda>masq.
     bind_sum (dec_field dec_int 0 kvs ''mtu'') (\<lambda>mtu.
     bind_sum (dec_field dec_bool False kvs ''hairpinMode'') (\<lambda>hairpin.
     bind_sum (dec_field dec_bool False kvs ''promiscMode'') (\<lambda>promisc.
     bind_sum (dec_field dec_int 0 kvs ''vlan'') (\<lambda>v.
       Inr \<lparr>brConf = n, BrName = b, IsGW = gw, IsDefaultGW = dgw, ForceAddress = force, brIPMasq = masq, brMTU = mtu,
            HairpinMode = hairpin, PromiscMode = promisc, brVlan = v\<rparr>)))))))))))"

definition bridge_loadNetConf :: "document \<Rightarrow> (bridge_conf, 's) io" where
  "bridge_loadNetConf bytes =
     io_bind (load_as dec_bridge bytes) (\<lambda>n.
       if brVlan n < 0 \<or> brVlan n > 4094
       then io_fail (Msg (''invalid VLAN ID '' @ Itoa (brVlan n) @ '' (must be between 0 and 4094)''))
       else io_ret n)"

section \<open>Gateways\<close>

record gw_info =
  gws :: "ip_net list"
  gwFamily :: nl_family
  defaultRouteFound :: bool

definition calcGatewayIP :: "ip_net \<Rightarrow> net_ip" where
  "calcGatewayIP ipn = NextIP (ip_Mask (IP ipn) (Mask ipn))"

text \<open>\<open>net.IPMask\<close> of the zero address as the mask of the default network.\<close>

definition default_net :: "nl_family \<Rightarrow> ip_net" where
  "default_net family = (let z = (if family = FAMILY_V4 then IPv4zero else IPv6zero) in \<lparr>IP = z, Mask = z\<rparr>)"

definition ip_family :: "net_ip \<Rightarrow> nl_family option" where
  "ip_family ip = (if To4 ip \<noteq> [] then Some FAMILY_V4 else if length ip = 16 then Some FAMILY_V6 else None)"

definition has_default_route :: "nl_family \<Rightarrow> route list \<Rightarrow> bool" where
  "has_default_route family rs \<longleftrightarrow> list_ex (\<lambda>r. GW r \<noteq> [] \<and> IPNet_String (default_net family) = IPNet_String (Dst r)) rs"

text \<open>
  One address: its new value, the routes and the gateways of its family. The first part is the route,
  the second the list of gateways.
\<close>

definition gateway_of :: "bridge_conf \<Rightarrow> ip_config \<Rightarrow> ip_config" where
  "gateway_of n ipc =
     (let ipc = ipc\<lparr>Interface := Some 2\<rparr> in
      if ConfGateway ipc = [] \<and> IsGW n then ipc\<lparr>ConfGateway := calcGatewayIP (Address ipc)\<rparr> else ipc)"

definition calc_default :: "bridge_conf \<Rightarrow> nl_family \<Rightarrow> ip_config \<Rightarrow> route list \<Rightarrow> gw_info \<Rightarrow> route list \<times> gw_info" where
  "calc_default n family ipc rs g =
     (if IsDefaultGW n \<and> \<not> defaultRouteFound g
      then (if has_default_route family rs then rs else rs @ [\<lparr>Dst = default_net family, GW = ConfGateway ipc\<rparr>],
            g\<lparr>defaultRouteFound := True\<rparr>)
      else (rs, g))"

definition calc_gw :: "bridge_conf \<Rightarrow> nl_family \<Rightarrow> ip_config \<Rightarrow> gw_info \<Rightarrow> gw_info" where
  "calc_gw n family ipc g =
     (if IsGW n then g\<lparr>gwFamily := family, gws := gws g @ [\<lparr>IP = ConfGateway ipc, Mask = Mask (Address ipc)\<rparr>]\<rparr>
      else g\<lparr>gwFamily := family\<rparr>)"

fun calc_gateways ::
  "bridge_conf \<Rightarrow> ip_config list \<Rightarrow> route list \<Rightarrow> gw_info \<Rightarrow> gw_info \<Rightarrow>
    go_error + (ip_config list \<times> route list \<times> gw_info \<times> gw_info)" where
  "calc_gateways n [] rs g4 g6 = Inr ([], rs, g4, g6)"
| "calc_gateways n (ipc # ips) rs g4 g6 =
     (case ip_family (IP (Address ipc)) of
        None \<Rightarrow> Inl (Msg ''Unknown IP object'')
      | Some family \<Rightarrow>
          (let ipc = gateway_of n ipc; g = (if family = FAMILY_V4 then g4 else g6);
               (rs, g) = calc_default n family ipc rs g; g = calc_gw n family ipc g
           in bind_sum (if family = FAMILY_V4 then calc_gateways n ips rs g g6 else calc_gateways n ips rs g4 g)
                (\<lambda>(ips, rest). Inr (ipc # ips, rest))))"

definition no_gws :: gw_info where
  "no_gws = \<lparr>gws = [], gwFamily = FAMILY_ALL, defaultRouteFound = False\<rparr>"

definition calcGateways :: "result_cur \<Rightarrow> bridge_conf \<Rightarrow> go_error + (result_cur \<times> gw_info \<times> gw_info)" where
  "calcGateways result n =
     bind_sum (calc_gateways n (IPs result) (Routes result) no_gws no_gws) (\<lambda>(ips, rs, g4, g6).
       Inr (result\<lparr>IPs := ips, Routes := rs\<rparr>, g4, g6))"

section \<open>The bridge and its addresses\<close>

definition deleteAddr :: "'s net_host \<Rightarrow> nat \<Rightarrow> net_link \<Rightarrow> ip_net \<Rightarrow> (unit, 's) io" where
  "deleteAddr H tns br ipn =
     io_wrap (''could not remove IP address from '' @ quote (lkName br) @ '': '') (io_do (nh_AddrDel H tns br ipn))"

text \<open>The loop over the addresses of the bridge; whether the address is there already.\<close>

primrec ensure_loop ::
  "'s net_host \<Rightarrow> nat \<Rightarrow> net_link \<Rightarrow> nl_family \<Rightarrow> ip_net \<Rightarrow> bool \<Rightarrow> nl_addr list \<Rightarrow> (bool, 's) io" where
  "ensure_loop H tns br family ipn forceAddress [] = io_ret False"
| "ensure_loop H tns br family ipn forceAddress (a # as) =
     (if IPNet_String (naNet a) = IPNet_String ipn then io_ret True
      else if family = FAMILY_V4 \<or> IPNet_Contains (naNet a) (IP ipn) \<or> IPNet_Contains ipn (IP (naNet a)) then
        (if forceAddress then io_then (deleteAddr H tns br (naNet a)) (ensure_loop H tns br family ipn forceAddress as)
         else io_fail (Msg (quote (lkName br) @ '' already has an IP address different from '' @ IPNet_String ipn)))
      else ensure_loop H tns br family ipn forceAddress as)"

text \<open>\<open>syscall.ENOENT\<close> and \<open>syscall.EEXIST\<close> are the errors that \<open>os\<close> calls by these names.\<close>

definition ensureAddr :: "'s net_host \<Rightarrow> nat \<Rightarrow> net_link \<Rightarrow> nl_family \<Rightarrow> ip_net \<Rightarrow> bool \<Rightarrow> (unit, 's) io" where
  "ensureAddr H tns br family ipn forceAddress =
     io_bind (io_catch (io_get (nh_AddrList H tns br family)) (\<lambda>err.
        if os_IsNotExist err then io_ret [] else io_fail (Msg (''could not get list of IP addresses: '' @ err_text err)))) (\<lambda>addrs.
     io_bind (ensure_loop H tns br family ipn forceAddress addrs) (\<lambda>present.
       if present then io_ret ()
       else
         io_then (io_catch (io_do (nh_AddrAdd H tns br ipn)) (\<lambda>err.
            if os_IsExist err then io_ret ()
            else io_fail (Msg (''could not add IP address to '' @ quote (lkName br) @ '': '' @ err_text err))))
           (io_wrap (''could not set bridge'' @ [CHR 0x27] @ ''s mac: '')
             (io_do (nh_LinkSetHardwareAddr H tns br (lkMac br))))))"

fun is_bridge :: "link_kind \<Rightarrow> bool" where
  "is_bridge (Bridge f) = True"
| "is_bridge _ = False"

definition bridgeByName :: "'s net_host \<Rightarrow> nat \<Rightarrow> string \<Rightarrow> (net_link, 's) io" where
  "bridgeByName H tns name =
     io_bind (io_wrap (''could not lookup '' @ quote name @ '': '') (get_link H tns name)) (\<lambda>l.
       if is_bridge (lkKind l) then io_ret l else io_fail (Msg (quote name @ '' already exists but is not a bridge'')))"

definition ensureBridge :: "'s net_host \<Rightarrow> nat \<Rightarrow> string \<Rightarrow> int \<Rightarrow> bool \<Rightarrow> bool \<Rightarrow> (net_link, 's) io" where
  "ensureBridge H tns brName mtu promiscMode vlanFiltering =
     (let br = new_link brName mtu (Bridge vlanFiltering) in
      io_then (io_catch (io_do (nh_LinkAdd H tns None br)) (\<lambda>err.
         if os_IsExist err then io_ret () else io_fail (Msg (''could not add '' @ quote brName @ '': '' @ err_text err))))
      (io_then (io_when promiscMode (io_wrap (''could not set promiscuous mode on '' @ quote brName @ '': '')
         (io_do (nh_SetPromisc H tns br True))))
      (io_bind (bridgeByName H tns brName) (\<lambda>br.
       io_then (io_ignore (io_sysctl H tns (''net/ipv6/conf/'' @ brName @ ''/accept_ra'') [''0'']))
       (io_then (io_do (nh_LinkSetUp H tns br)) (io_ret br))))))"

definition bridge_setupVeth ::
  "'s net_host \<Rightarrow> nat \<Rightarrow> netns \<Rightarrow> net_link \<Rightarrow> string \<Rightarrow> int \<Rightarrow> bool \<Rightarrow> int \<Rightarrow> (interface \<times> interface, 's) io" where
  "bridge_setupVeth H tns netns br ifName mtu hairpinMode vlanID =
     io_bind (ns_Do H tns netns (\<lambda>c hostNS. SetupVeth H c ifName mtu hostNS)) (\<lambda>(hostVeth, containerVeth).
     let contIface = \<lparr>Name = niName containerVeth, Mac = mac_String (niMac containerVeth), Sandbox = nsPath netns\<rparr>;
         hostName = niName hostVeth
     in io_bind (io_wrap (''failed to lookup '' @ quote hostName @ '': '') (get_link H tns hostName)) (\<lambda>hostVeth.
        io_then (io_wrap (''failed to connect '' @ quote (lkName hostVeth) @ '' to bridge '' @ lkName br @ '': '')
          (io_do (nh_LinkSetMaster H tns hostVeth br)))
        (io_then (io_wrap (''failed to setup hairpin mode for '' @ lkName hostVeth @ '': '')
          (io_do (nh_LinkSetHairpin H tns hostVeth hairpinMode)))
        (io_then (io_when (vlanID \<noteq> 0) (io_wrap (''failed to setup vlan tag on interface '' @ quote hostName @ '': '')
          (io_do (nh_BridgeVlanAdd H tns hostVeth (of_int vlanID)))))
          (io_ret (\<lparr>Name = hostName, Mac = mac_String (lkMac hostVeth), Sandbox = []\<rparr>, contIface))))))"

definition ensureVlanInterface :: "'s net_host \<Rightarrow> nat \<Rightarrow> net_link \<Rightarrow> int \<Rightarrow> (net_link, 's) io" where
  "ensureVlanInterface H tns br vlanId =
     (let name = lkName br @ ''.'' @ Itoa vlanId in
      io_catch (get_link H tns name) (\<lambda>err.
        if err_text err \<noteq> ''Link not found'' then io_fail (Msg (''failed to find interface '' @ quote name @ '': '' @ err_text err))
        else
          io_bind (io_wrap ''faild to find host namespace: '' (io_get (GetCurrentNS H tns))) (\<lambda>hostNS.
          io_bind (io_wrap (''faild to create vlan gateway '' @ quote name @ '': '')
            (bridge_setupVeth H tns hostNS br name (lkMTU br) False vlanId)) (\<lambda>(_, brGatewayIface).
            io_wrap (''failed to lookup '' @ quote (Name brGatewayIface) @ '': '') (get_link H tns (Name brGatewayIface))))))"

definition setupBridge :: "'s net_host \<Rightarrow> nat \<Rightarrow> bridge_conf \<Rightarrow> (net_link \<times> interface, 's) io" where
  "setupBridge H tns n =
     io_bind (io_wrap (''failed to create bridge '' @ quote (BrName n) @ '': '')
        (ensureBridge H tns (BrName n) (brMTU n) (PromiscMode n) (brVlan n \<noteq> 0))) (\<lambda>br.
       io_ret (br, \<lparr>Name = lkName br, Mac = mac_String (lkMac br), Sandbox = []\<rparr>))"

definition disableIPV6DAD :: "'s net_host \<Rightarrow> nat \<Rightarrow> string \<Rightarrow> (unit, 's) io" where
  "disableIPV6DAD H tns ifName =
     io_bind (io_try (io_get (sf_ReadFile (nh_files H tns) (''/proc/sys/net/ipv6/conf/'' @ ifName @ ''/enhanced_dad'')))) (\<lambda>enh.
       if enh = Inr (''1'' @ [CHR 0x0A]) then io_ret ()
       else io_do (sf_WriteFile (nh_files H tns) (''/proc/sys/net/ipv6/conf/'' @ ifName @ ''/accept_dad'') ''0''))"

definition enableIPForward :: "'s net_host \<Rightarrow> nat \<Rightarrow> nl_family \<Rightarrow> (unit, 's) io" where
  "enableIPForward H tns family = (if family = FAMILY_V4 then EnableIP4Forward H tns else EnableIP6Forward H tns)"

section \<open>ADD\<close>

text \<open>The waits of the loop that looks at the port of the bridge, in milliseconds.\<close>

primrec port_wait :: "'s net_host \<Rightarrow> nat \<Rightarrow> string \<Rightarrow> int list \<Rightarrow> (unit, 's) io" where
  "port_wait H tns name [] = io_ret ()"
| "port_wait H tns name (sleep # rest) =
     io_bind (\<lambda>s. get_link H tns name (nh_Sleep H (sleep * 1000000) s)) (\<lambda>hostVeth.
       if lkOperUp hostVeth then io_ret ()
       else if rest = [] then io_fail (Msg ''bridge port in error state'')
       else port_wait H tns name rest)"

definition configure_container :: "'s net_host \<Rightarrow> nat \<Rightarrow> cmd_args \<Rightarrow> bridge_conf \<Rightarrow> netns \<Rightarrow> result_cur \<Rightarrow> (unit, 's) io" where
  "configure_container H tns args n netns result =
     ns_Do H tns netns (\<lambda>c _.
       io_then (io_when (list_ex (\<lambda>ipc. Version ipc = ''6'' \<and> (HairpinMode n \<or> PromiscMode n)) (IPs result))
          (disableIPV6DAD H c (IfName args)))
         (ConfigureIface H c (IfName args) result))"

text \<open>
  The addresses of the gateways: on the bridge, or on the interface of the VLAN, which is added to the
  result once. The variable is that interface.
\<close>

definition gateway_step ::
  "'s net_host \<Rightarrow> nat \<Rightarrow> bridge_conf \<Rightarrow> net_link \<Rightarrow> nl_family \<Rightarrow> ip_net \<Rightarrow> interface option \<Rightarrow> (interface option, 's) io" where
  "gateway_step H tns n br family gw vlanInterface =
     (if brVlan n \<noteq> 0 then
        io_bind (io_wrap ''failed to create vlan interface: '' (ensureVlanInterface H tns br (brVlan n))) (\<lambda>vlanIface.
        io_then (io_wrap ''failed to set vlan interface for bridge with addr: ''
            (ensureAddr H tns vlanIface family gw (ForceAddress n)))
          (io_ret (Some (case vlanInterface of
             None \<Rightarrow> \<lparr>Name = lkName vlanIface, Mac = mac_String (lkMac vlanIface), Sandbox = []\<rparr> | Some i \<Rightarrow> i))))
      else
        io_then (io_wrap ''failed to set bridge addr: '' (ensureAddr H tns br family gw (ForceAddress n)))
          (io_ret vlanInterface))"

definition setup_gateways ::
  "'s net_host \<Rightarrow> nat \<Rightarrow> bridge_conf \<Rightarrow> net_link \<Rightarrow> gw_info list \<Rightarrow> (interface option, 's) io" where
  "setup_gateways H tns n br infos =
     io_fold (\<lambda>g vlanInterface.
       io_bind (io_fold (\<lambda>gw v. gateway_step H tns n br (gwFamily g) gw v) (gws g) vlanInterface) (\<lambda>vlanInterface.
       io_then (io_when (gws g \<noteq> []) (io_wrap ''failed to enable forwarding: '' (enableIPForward H tns (gwFamily g))))
         (io_ret vlanInterface))) infos None"

text \<open>The deferred release of the addresses runs after every way out but success.\<close>

definition release_unless_success :: "'s net_host \<Rightarrow> string \<Rightarrow> document \<Rightarrow> ('a, 's) io \<Rightarrow> ('a, 's) io" where
  "release_unless_success H plugin netconf m s =
     (case m s of
        (Ret x, s) \<Rightarrow> (Ret x, s)
      | (r, s) \<Rightarrow> (r, snd (DelegateDel (nh_process H) plugin netconf None s)))"

definition bridge_layer3 ::
  "'s net_host \<Rightarrow> nat \<Rightarrow> cmd_args \<Rightarrow> bridge_conf \<Rightarrow> net_link \<Rightarrow> netns \<Rightarrow> string \<Rightarrow> result_cur \<Rightarrow> cni_result \<Rightarrow> (result_cur, 's) io" where
  "bridge_layer3 H tns args n br netns hostName result r =
     io_bind (io_out (outcome_of (NewResultFromResult r))) (\<lambda>ipamResult.
     let result = result\<lparr>IPs := IPs ipamResult, Routes := Routes ipamResult\<rparr> in
     if length (IPs result) = 0 then io_fail missing_ips
     else
       io_bind (io_out (outcome_of (calcGateways result n))) (\<lambda>(result, gwsV4, gwsV6).
       io_then (configure_container H tns args n netns result)
       (io_then (port_wait H tns hostName [0, 50, 500, 1000, 1000])
       (io_then (ns_Do H tns netns (\<lambda>c _.
          io_bind (interface_by_name H c (IfName args)) (\<lambda>_. send_arps H c (IfName args) (IPs result))))
       (io_bind (if IsGW n then setup_gateways H tns n br [gwsV4, gwsV6] else io_ret None) (\<lambda>vlanInterface.
        let result = (case vlanInterface of None \<Rightarrow> result | Some i \<Rightarrow> result\<lparr>Interfaces := Interfaces result @ [i]\<rparr>) in
        io_then (io_when (brIPMasq n) (setup_masq_ips H tns (confName (brConf n)) (ContainerID args) (IPs result)))
          (io_ret result)))))))"

text \<open>The MAC address of the bridge is read again at the end.\<close>

definition refetch_bridge :: "'s net_host \<Rightarrow> nat \<Rightarrow> bridge_conf \<Rightarrow> result_cur \<Rightarrow> (result_cur, 's) io" where
  "refetch_bridge H tns n result =
     io_bind (bridgeByName H tns (BrName n)) (\<lambda>br.
       io_ret (result\<lparr>Interfaces := (Interfaces result)[0 := (Interfaces result ! 0)\<lparr>Mac := mac_String (lkMac br)\<rparr>],
         DNS := confDNS (brConf n)\<rparr>))"

definition bridge_cmdAdd :: "'s net_host \<Rightarrow> nat \<Rightarrow> cmd_args \<Rightarrow> (cni_result, 's) io" where
  "bridge_cmdAdd H tns args =
     io_bind (bridge_loadNetConf (StdinData args)) (\<lambda>n.
     let n = n\<lparr>IsGW := IsGW n \<or> IsDefaultGW n\<rparr>; plugin = confIPAM (brConf n); cniVersion = confCNIVersion (brConf n) in
     if HairpinMode n \<and> PromiscMode n
     then io_fail (Msg ''cannot set hairpin mode and promiscous mode at the same time.'')
     else
       io_bind (setupBridge H tns n) (\<lambda>(br, brInterface).
       io_bind (open_netns H (Netns args)) (\<lambda>netns.
       io_bind (bridge_setupVeth H tns netns br (IfName args) (brMTU n) (HairpinMode n) (brVlan n)) (\<lambda>(hostInterface, containerInterface).
       let result = \<lparr>CNIVersion = cniVersion, Interfaces = [brInterface, hostInterface, containerInterface],
             IPs = [], Routes = [], DNS = empty_dns\<rparr>
       in io_bind
            (if plugin \<noteq> [] then
               io_bind (ExecAdd H plugin (StdinData args)) (\<lambda>r.
               release_unless_success H plugin (StdinData args)
                 (io_bind (bridge_layer3 H tns args n br netns (Name hostInterface) result r) (refetch_bridge H tns n)))
             else refetch_bridge H tns n result)
            (\<lambda>result. print_result result cniVersion)))))"

section \<open>DEL\<close>

definition bridge_cmdDel :: "'s net_host \<Rightarrow> nat \<Rightarrow> cmd_args \<Rightarrow> (unit, 's) io" where
  "bridge_cmdDel H tns args =
     io_bind (bridge_loadNetConf (StdinData args)) (\<lambda>n.
     let isLayer3 = (confIPAM (brConf n) \<noteq> []) in
     io_then (io_when isLayer3 (ExecDel H (confIPAM (brConf n)) (StdinData args)))
       (if Netns args = [] then io_ret ()
        else io_bind (del_interface_addrs H tns args) (\<lambda>ipnets.
          io_when (isLayer3 \<and> brIPMasq n)
            (masq_all H (confName (brConf n)) (ContainerID args) (\<lambda>chain comment.
               io_each (\<lambda>ipn. io_do (TeardownIPMasq (nh_iptables H tns) ipn chain comment)) ipnets)))))"

section \<open>CHECK\<close>

record bridge_if =
  biName :: string
  ifIndex :: int
  peerIndex :: int
  masterIndex :: int
  biFound :: bool

definition no_if :: bridge_if where
  "no_if = \<lparr>biName = [], ifIndex = 0, peerIndex = 0, masterIndex = 0, biFound = False\<rparr>"

definition validateInterface :: "'s net_host \<Rightarrow> nat \<Rightarrow> interface \<Rightarrow> bool \<Rightarrow> (net_link, 's) io" where
  "validateInterface H tns intf expectInSb =
     (if Name intf = [] then io_fail (Msg ''Interface name missing '')
      else io_bind (io_error (Msg (''Interface name '' @ Name intf @ '' not found'')) (get_link H tns (Name intf))) (\<lambda>link.
        if expectInSb \<and> Sandbox intf = [] then io_fail (Msg (''Interface '' @ Name intf @ '' is expected to be in a sandbox''))
        else if \<not> expectInSb \<and> Sandbox intf \<noteq> [] then io_fail (Msg (''Interface '' @ Name intf @ '' should not be in sandbox''))
        else io_ret link))"

definition mac_mismatch :: "interface \<Rightarrow> net_link \<Rightarrow> bool" where
  "mac_mismatch intf link \<longleftrightarrow> Mac intf \<noteq> [] \<and> Mac intf \<noteq> mac_String (lkMac link)"

definition validateCniBrInterface :: "'s net_host \<Rightarrow> nat \<Rightarrow> interface \<Rightarrow> bridge_conf \<Rightarrow> (bridge_if, 's) io" where
  "validateCniBrInterface H tns intf n =
     io_bind (validateInterface H tns intf False) (\<lambda>link.
       if \<not> is_bridge (lkKind link) then io_fail (Msg (''Interface '' @ Name intf @ '' does not have link type of bridge''))
       else if mac_mismatch intf link
       then io_fail (Msg (''Bridge interface '' @ Name intf @ '' Mac doesn'' @ [CHR 0x27] @ ''t match: '' @ Mac intf))
       else if (lkPromisc link \<noteq> 0) \<noteq> PromiscMode n
       then io_fail (Msg (''Bridge interface '' @ Name intf @ '' configured Promisc Mode doesn'' @ [CHR 0x27] @ ''t match current state''))
       else io_ret (no_if\<lparr>biFound := True, biName := lkName link, ifIndex := lkIndex link, masterIndex := lkMaster link\<rparr>))"

definition veth_peer :: "'s net_host \<Rightarrow> nat \<Rightarrow> net_link \<Rightarrow> (int, 's) io" where
  "veth_peer H tns link =
     io_bind (io_error (Msg (''Unable to obtain veth peer index for veth '' @ lkName link)) (GetVethPeerIfindex H tns (lkName link)))
       (\<lambda>(_, p). io_ret p)"

definition validateCniVethInterface ::
  "'s net_host \<Rightarrow> nat \<Rightarrow> interface \<Rightarrow> bridge_if \<Rightarrow> bridge_if \<Rightarrow> (bridge_if, 's) io" where
  "validateCniVethInterface H tns intf brIf contIf =
     io_bind (validateInterface H tns intf False) (\<lambda>link.
       if \<not> is_veth (lkKind link) then io_ret no_if
       else io_bind (veth_peer H tns link) (\<lambda>p.
         let vethFound = no_if\<lparr>peerIndex := p, ifIndex := lkIndex link, masterIndex := lkMaster link\<rparr> in
         if ifIndex vethFound \<noteq> peerIndex contIf then io_ret vethFound
         else if ifIndex contIf \<noteq> peerIndex vethFound then io_ret vethFound
         else if masterIndex vethFound \<noteq> ifIndex brIf then io_ret vethFound
         else if mac_mismatch intf link
         then io_fail (Msg (''Interface '' @ Name intf @ '' Mac doesn'' @ [CHR 0x27] @ ''t match: '' @ Mac intf @ '' not found''))
         else io_ret (vethFound\<lparr>biFound := True, biName := lkName link\<rparr>)))"

definition bridge_validate_container :: "'s net_host \<Rightarrow> nat \<Rightarrow> interface \<Rightarrow> (bridge_if, 's) io" where
  "bridge_validate_container H tns intf =
     io_bind (validateInterface H tns intf True) (\<lambda>link.
       if \<not> is_veth (lkKind link) then io_fail (Msg (''Error: Container interface '' @ lkName link @ '' not of type veth''))
       else io_bind (veth_peer H tns link) (\<lambda>p.
         io_then (check_mac [] intf link)
           (io_ret (no_if\<lparr>peerIndex := p, ifIndex := lkIndex link, biFound := True, biName := lkName link\<rparr>))))"

text \<open>The two loops over the interfaces of the result: the last that match, and the first veth that does.\<close>

definition find_bridge :: "bridge_conf \<Rightarrow> interface list \<Rightarrow> interface" where
  "find_bridge n ifs = (case filter (\<lambda>i. BrName n = Name i) ifs of [] \<Rightarrow> empty_interface | is \<Rightarrow> last is)"

definition find_bridge_cont :: "bridge_conf \<Rightarrow> cmd_args \<Rightarrow> interface list \<Rightarrow> interface" where
  "find_bridge_cont n args ifs = find_cont args (filter (\<lambda>i. BrName n \<noteq> Name i) ifs)"

primrec find_veth ::
  "'s net_host \<Rightarrow> nat \<Rightarrow> interface \<Rightarrow> interface \<Rightarrow> bridge_if \<Rightarrow> bridge_if \<Rightarrow> interface list \<Rightarrow> (bool, 's) io" where
  "find_veth H tns brMap contMap brCNI contCNI [] = io_ret False"
| "find_veth H tns brMap contMap brCNI contCNI (intf # ifs) =
     (if Name brMap = Name intf \<or> Name contMap = Name intf then find_veth H tns brMap contMap brCNI contCNI ifs
      else io_bind (validateCniVethInterface H tns intf brCNI contCNI) (\<lambda>v.
        if biFound v then io_ret True else find_veth H tns brMap contMap brCNI contCNI ifs))"

definition bridge_cmdCheck :: "'s net_host \<Rightarrow> nat \<Rightarrow> cmd_args \<Rightarrow> (unit, 's) io" where
  "bridge_cmdCheck H tns args =
     io_bind (bridge_loadNetConf (StdinData args)) (\<lambda>n.
     io_bind (open_netns H (Netns args)) (\<lambda>netns.
     io_then (ExecCheck H (confIPAM (brConf n)) (StdinData args))
     (io_bind (io_out (check_prev ''Required prevResult missing'' (brConf n))) (\<lambda>result.
        let brMap = find_bridge n (Interfaces result); contMap = find_bridge_cont n args (Interfaces result) in
        io_bind (validateCniBrInterface H tns brMap n) (\<lambda>brCNI.
        if Netns args \<noteq> Sandbox contMap then io_fail (sandbox_mismatch contMap args)
        else
          io_bind (ns_Do H tns netns (\<lambda>c _. bridge_validate_container H c contMap)) (\<lambda>contCNI.
          io_bind (find_veth H tns brMap contMap brCNI contCNI (Interfaces result)) (\<lambda>vethFound.
            if \<not> biFound brCNI then io_fail (Msg (''CNI created bridge '' @ BrName n @ '' in host namespace was not found''))
            else if \<not> biFound contCNI then io_fail (Msg (''CNI created interface in container '' @ IfName args @ '' not found''))
            else if \<not> vethFound then io_fail (Msg (''CNI veth created for bridge '' @ BrName n @ '' was not found''))
            else ns_Do H tns netns (\<lambda>c _. check_addressing H c (IfName args) result))))))))"

definition bridge :: "'s net_host \<Rightarrow> nat \<Rightarrow> ('s \<times> cni_result list) dispatcher \<Rightarrow> 's \<times> cni_result list \<Rightarrow>
    (unit outcome \<times> 's \<times> cni_result list) option" where
  "bridge H tns = link_plugin ''bridge'' (bridge_cmdAdd H tns) (bridge_cmdCheck H tns) (bridge_cmdDel H tns)"

end
