(* ===== verification/Tuning.thy ===== *)
theory Tuning
  imports Macvlan
begin

text \<open>
  The plugin \<open>tuning\<close> (\<open>plugins/plugins/meta/tuning/tuning.go\<close>): kernel variables and attributes of an
  interface that another plugin made.
\<close>

section \<open>Configuration\<close>

text \<open>\<open>None\<close> is a nil map, and a member of \<open>args\<close> that is absent.\<close>

record tuning_args =
  taSysCtl :: "string go_map option"
  taMac :: "string option"
  taPromisc :: "bool option"
  taMtu :: "int option"

record tuning_conf =
  tuConf :: netconf
  SysCtl :: "string go_map option"
  tuMac :: string
  Promisc :: bool
  Mtu :: int

definition dec_tuning_args :: "json \<Rightarrow> go_error + tuning_args" where
  "dec_tuning_args j =
     bind_sum (jmembers j) (\<lambda>kvs.
     bind_sum (dec_field (dec_pointer (dec_map dec_string)) None kvs ''sysctl'') (\<lambda>s.
     bind_sum (dec_field (dec_pointer dec_string) None kvs ''mac'') (\<lambda>m.
     bind_sum (dec_field (dec_pointer dec_bool) None kvs ''promisc'') (\<lambda>p.
     bind_sum (dec_field (dec_pointer dec_int) None kvs ''mtu'') (\<lambda>mtu.
       Inr \<lparr>taSysCtl = s, taMac = m, taPromisc = p, taMtu = mtu\<rparr>)))))"

definition dec_args_cni :: "json \<Rightarrow> go_error + tuning_args option" where
  "dec_args_cni j = bind_sum (jmembers j) (\<lambda>kvs. dec_field (dec_pointer dec_tuning_args) None kvs ''cni'')"

text \<open>The configuration, the address of the runtime, and \<open>args\<close>.\<close>

definition dec_tuning :: "json \<Rightarrow> go_error + (tuning_conf \<times> string \<times> tuning_args option)" where
  "dec_tuning j =
     bind_sum (dec_netconf j) (\<lambda>n.
     bind_sum (jmembers j) (\<lambda>kvs.
     bind_sum (dec_field (dec_pointer (dec_map dec_string)) None kvs ''sysctl'') (\<lambda>s.
     bind_sum (dec_field dec_string [] kvs ''mac'') (\<lambda>m.
     bind_sum (dec_field dec_bool False kvs ''promisc'') (\<lambda>p.
     bind_sum (dec_field dec_int 0 kvs ''mtu'') (\<lambda>mtu.
     bind_sum (dec_field dec_mac_runtime [] kvs ''runtimeConfig'') (\<lambda>rc.
     bind_sum (dec_field (dec_pointer dec_args_cni) None kvs ''args'') (\<lambda>a.
       Inr (\<lparr>tuConf = n, SysCtl = s, tuMac = m, Promisc = p, Mtu = mtu\<rparr>, rc,
            case a of None \<Rightarrow> None | Some a \<Rightarrow> a)))))))))"

text \<open>Entries of \<open>args\<close> are stored in the map of the configuration, which must not be nil.\<close>

definition merge_sysctl :: "string go_map \<Rightarrow> string go_map option \<Rightarrow> string go_map option outcome" where
  "merge_sysctl new m =
     (if new = [] then Ret m
      else case m of
        None \<Rightarrow> Panic ''assignment to entry in nil map''
      | Some m \<Rightarrow> Ret (Some (foldl (\<lambda>m (k, v). AList.update k v m) m new)))"

definition or_else :: "'a option \<Rightarrow> 'a \<Rightarrow> 'a" where
  "or_else x y = (case x of None \<Rightarrow> y | Some x \<Rightarrow> x)"

definition apply_args :: "tuning_args \<Rightarrow> tuning_conf \<Rightarrow> tuning_conf outcome" where
  "apply_args a conf =
     bind_out (merge_sysctl (or_else (taSysCtl a) []) (SysCtl conf)) (\<lambda>m.
       Ret (conf\<lparr>SysCtl := m, tuMac := or_else (taMac a) (tuMac conf), Promisc := or_else (taPromisc a) (Promisc conf),
         Mtu := or_else (taMtu a) (Mtu conf)\<rparr>))"

definition parseConf :: "document \<Rightarrow> string \<Rightarrow> tuning_conf outcome" where
  "parseConf data envArgs =
     (case bind_sum data dec_tuning of
        Inl err \<Rightarrow> Fail (Msg (''failed to load netconf: '' @ err_text err))
      | Inr (conf, runtimeMac, args) \<Rightarrow>
          bind_out (env_mac envArgs) (\<lambda>m.
          let conf = conf\<lparr>tuMac := (if runtimeMac \<noteq> [] then runtimeMac else if m \<noteq> [] then m else tuMac conf)\<rparr>
          in case args of None \<Rightarrow> Ret conf | Some a \<Rightarrow> apply_args a conf))"

section \<open>The interface\<close>

definition changeMacAddr :: "'s net_host \<Rightarrow> nat \<Rightarrow> string \<Rightarrow> string \<Rightarrow> (unit, 's) io" where
  "changeMacAddr H tns ifName newMacAddr =
     io_bind (io_wrap (''invalid args '' @ newMacAddr @ '' for MAC addr: '') (io_out (outcome_of (ParseMAC newMacAddr)))) (\<lambda>addr.
     io_bind (io_wrap (''failed to get '' @ quote ifName @ '': '') (get_link H tns ifName)) (\<lambda>link.
       io_do (nh_LinkSetHardwareAddr H tns link addr)))"

text \<open>The previous result is changed in place; one of version 0.2.0 has no interfaces.\<close>

fun updateResultsMacAddr :: "cni_result \<Rightarrow> string \<Rightarrow> string \<Rightarrow> cni_result" where
  "updateResultsMacAddr (RCur r) ifName newMacAddr =
     RCur (r\<lparr>Interfaces := map (\<lambda>i. if Name i = ifName then i\<lparr>Mac := newMacAddr\<rparr> else i) (Interfaces r)\<rparr>)"
| "updateResultsMacAddr (R020 r) ifName newMacAddr = R020 r"

definition changePromisc :: "'s net_host \<Rightarrow> nat \<Rightarrow> string \<Rightarrow> bool \<Rightarrow> (unit, 's) io" where
  "changePromisc H tns ifName val =
     io_bind (io_wrap (''failed to get '' @ quote ifName @ '': '') (get_link H tns ifName)) (\<lambda>link. io_do (nh_SetPromisc H tns link val))"

definition changeMtu :: "'s net_host \<Rightarrow> nat \<Rightarrow> string \<Rightarrow> int \<Rightarrow> (unit, 's) io" where
  "changeMtu H tns ifName mtu =
     io_bind (io_wrap (''failed to get '' @ quote ifName @ '': '') (get_link H tns ifName)) (\<lambda>link. io_do (nh_LinkSetMTU H tns link mtu))"

section \<open>Commands\<close>

definition tuning_file :: "string \<Rightarrow> string" where
  "tuning_file key = filepath_Clean (filepath_Join [''/proc/sys'', map (\<lambda>c. if c = CHR ''.'' then CHR ''/'' else c) key])"

definition write_sysctl :: "'s net_host \<Rightarrow> nat \<Rightarrow> string \<times> string \<Rightarrow> (unit, 's) io" where
  "write_sysctl H tns kv =
     (let fileName = tuning_file (fst kv) in
      if \<not> has_prefix fileName ''/proc/sys/net/'' then io_fail (Msg (''invalid net sysctl key: '' @ quote (fst kv)))
      else io_do (sf_WriteFile (nh_files H tns) fileName (snd kv)))"

text \<open>The entries of the map in the order in which Go visits them.\<close>

definition sysctl_entries :: "'s net_host \<Rightarrow> tuning_conf \<Rightarrow> (string \<times> string) list" where
  "sysctl_entries H conf = pr_order (nh_process H) (or_else (SysCtl conf) [])"

definition tune :: "'s net_host \<Rightarrow> nat \<Rightarrow> cmd_args \<Rightarrow> tuning_conf \<Rightarrow> result_cur \<Rightarrow> (unit, 's) io" where
  "tune H tns args conf result =
     io_then (io_each (write_sysctl H tns) (sysctl_entries H conf))
     (io_then (io_when (tuMac conf \<noteq> [])
        (io_then (changeMacAddr H tns (IfName args) (tuMac conf)) (send_arps H tns (IfName args) (IPs result))))
     (io_then (io_when (Promisc conf) (changePromisc H tns (IfName args) True))
       (io_when (Mtu conf \<noteq> 0) (changeMtu H tns (IfName args) (Mtu conf)))))"

text \<open>The previous result as it is, and converted.\<close>

definition tuning_prev :: "netconf \<Rightarrow> (cni_result \<times> result_cur) outcome" where
  "tuning_prev conf =
     (if confRawPrevResult conf = None then Fail (Msg ''Required prevResult missing'')
      else bind_out (outcome_of (ParsePrevResult conf)) (\<lambda>conf.
        case confPrevResult conf of
          None \<Rightarrow> Panic ''invalid memory address or nil pointer dereference''
        | Some prev \<Rightarrow> bind_out (outcome_of (NewResultFromResult prev)) (\<lambda>result. Ret (prev, result))))"

definition tuning_cmdAdd :: "'s net_host \<Rightarrow> nat \<Rightarrow> cmd_args \<Rightarrow> (cni_result, 's) io" where
  "tuning_cmdAdd H tns args =
     io_bind (io_out (parseConf (StdinData args) (Args args))) (\<lambda>conf.
     io_bind (io_out (tuning_prev (tuConf conf))) (\<lambda>(prev, result).
     io_then (WithNetNSPath H tns (Netns args) (\<lambda>c _. tune H c args conf result))
       (io_out (outcome_of (PrintResult (if tuMac conf \<noteq> [] then updateResultsMacAddr prev (IfName args) (tuMac conf) else prev)
         (confCNIVersion (tuConf conf)))))))"

definition tuning_cmdDel :: "cmd_args \<Rightarrow> (unit, 's) io" where
  "tuning_cmdDel args = io_ret ()"

definition tuning_mismatch :: "string \<Rightarrow> string \<Rightarrow> string \<Rightarrow> go_error" where
  "tuning_mismatch what configured current =
     Msg (''Error: Tuning '' @ what @ '' is '' @ configured @ '', current value is '' @ current)"

definition check_sysctl :: "'s net_host \<Rightarrow> nat \<Rightarrow> string \<times> string \<Rightarrow> (unit, 's) io" where
  "check_sysctl H tns kv =
     (let fileName = tuning_file (fst kv) in
      io_bind (io_get (sf_ReadFile (nh_files H tns) fileName)) (\<lambda>contents.
        let curValue = (if contents \<noteq> [] \<and> last contents = CHR 0x0A then butlast contents else contents) in
        if snd kv \<noteq> curValue then io_fail (tuning_mismatch (''configured value of '' @ fileName) (snd kv) curValue) else io_ret ()))"

definition bool_text :: "bool \<Rightarrow> string" where
  "bool_text b = (if b then ''true'' else ''false'')"

definition check_link :: "cmd_args \<Rightarrow> tuning_conf \<Rightarrow> net_link \<Rightarrow> unit outcome" where
  "check_link args conf link =
     (if tuMac conf \<noteq> [] \<and> tuMac conf \<noteq> mac_String (lkMac link)
      then Fail (tuning_mismatch (''configured Ethernet of '' @ IfName args) (tuMac conf) (mac_String (lkMac link)))
      else if Promisc conf \<noteq> (lkPromisc link \<noteq> 0)
      then Fail (tuning_mismatch (''link '' @ IfName args @ '' configured promisc'') (bool_text (Promisc conf)) (Itoa (lkPromisc link)))
      else if Mtu conf \<noteq> 0 \<and> Mtu conf \<noteq> lkMTU link
      then Fail (tuning_mismatch (''configured MTU of '' @ IfName args) (Itoa (Mtu conf)) (Itoa (lkMTU link)))
      else Ret ())"

definition tuning_cmdCheck :: "'s net_host \<Rightarrow> nat \<Rightarrow> cmd_args \<Rightarrow> (unit, 's) io" where
  "tuning_cmdCheck H tns args =
     io_bind (io_out (parseConf (StdinData args) (Args args))) (\<lambda>conf.
     io_bind (io_out (tuning_prev (tuConf conf))) (\<lambda>_.
       WithNetNSPath H tns (Netns args) (\<lambda>c _.
         io_then (io_each (check_sysctl H c) (sysctl_entries H conf))
         (io_bind (io_error (Msg (''Cannot find container link '' @ IfName args)) (get_link H c (IfName args))) (\<lambda>link.
            io_out (check_link args conf link))))))"

definition tuning :: "'s net_host \<Rightarrow> nat \<Rightarrow> ('s \<times> cni_result list) dispatcher \<Rightarrow> 's \<times> cni_result list \<Rightarrow>
    (unit outcome \<times> 's \<times> cni_result list) option" where
  "tuning H tns = link_plugin ''tuning'' (tuning_cmdAdd H tns) (tuning_cmdCheck H tns) tuning_cmdDel"

end
