(* ===== verification/Sbr.thy ===== *)
theory Sbr
  imports Macvlan
begin

text \<open>
  The plugin \<open>sbr\<close>, source based routing (\<open>plugins/plugins/meta/sbr/main.go\<close>): a routing table of its
  own for the addresses of an interface. The logs are left out.
\<close>

section \<open>Rules, tables and the lock\<close>

text \<open>Routes with their table; \<open>sb_Lock\<close> is the file mutex on the path of the namespace.\<close>

record nl_rule =
  ruTable :: int
  ruSrc :: "ip_net option"
  ruRest :: string

record table_route =
  trRoute :: nl_route
  trTable :: int

record 's sbr_host =
  sb_net :: "'s net_host"
  sb_RuleList :: "nat \<Rightarrow> 's \<Rightarrow> go_error + nl_rule list"
  sb_RuleAdd :: "nat \<Rightarrow> nl_rule \<Rightarrow> 's \<Rightarrow> go_error option \<times> 's"
  sb_RuleDel :: "nat \<Rightarrow> nl_rule \<Rightarrow> 's \<Rightarrow> go_error option \<times> 's"
  sb_RouteList :: "nat \<Rightarrow> net_link option \<Rightarrow> 's \<Rightarrow> go_error + table_route list"
  sb_RouteAdd :: "nat \<Rightarrow> table_route \<Rightarrow> 's \<Rightarrow> go_error option \<times> 's"
  sb_RouteDel :: "nat \<Rightarrow> table_route \<Rightarrow> 's \<Rightarrow> go_error option \<times> 's"
  sb_RouteReplace :: "nat \<Rightarrow> table_route \<Rightarrow> 's \<Rightarrow> go_error option \<times> 's"
  sb_NewLock :: "string \<Rightarrow> 's \<Rightarrow> go_error option"
  sb_Lock :: "string \<Rightarrow> 's \<Rightarrow> go_error option \<times> 's"
  sb_Unlock :: "string \<Rightarrow> 's \<Rightarrow> go_error option \<times> 's"

definition firstTableID :: int where "firstTableID = 100"

text \<open>The lock is left to the end of the process when the operation fails.\<close>

definition withLockAndNetNS :: "'s sbr_host \<Rightarrow> nat \<Rightarrow> string \<Rightarrow> (nat \<Rightarrow> netns \<Rightarrow> (unit, 's) io) \<Rightarrow> (unit, 's) io" where
  "withLockAndNetNS H tns nspath toRun =
     io_then (io_get (\<lambda>s. case sb_NewLock H nspath s of None \<Rightarrow> Inr () | Some err \<Rightarrow> Inl err))
     (io_then (io_do (sb_Lock H nspath))
     (io_then (WithNetNSPath (sb_net H) tns nspath toRun)
       (io_do (sb_Unlock H nspath))))"

section \<open>Configuration\<close>

definition sbr_parseConfig :: "document \<Rightarrow> (netconf \<times> result_cur option) outcome" where
  "sbr_parseConfig stdin =
     (case bind_sum stdin dec_netconf of
        Inl err \<Rightarrow> Fail (Msg (''failed to parse network configuration: '' @ err_text err))
      | Inr conf \<Rightarrow>
          (case confRawPrevResult conf of
             None \<Rightarrow> Ret (conf, None)
           | Some raw \<Rightarrow>
               (case version_NewResult (confCNIVersion conf) (Inr (marshal_map raw)) of
                  Inl err \<Rightarrow> Fail (Msg (''could not parse prevResult: '' @ err_text err))
                | Inr res \<Rightarrow>
                    (case NewResultFromResult res of
                       Inl err \<Rightarrow> Fail (Msg (''could not convert result to current version: '' @ err_text err))
                     | Inr r \<Rightarrow> Ret (conf\<lparr>confRawPrevResult := None\<rparr>, Some r)))))"

text \<open>The addresses without an interface, or whose interface is not known to be another one.\<close>

definition getIPCfgs :: "string \<Rightarrow> result_cur \<Rightarrow> go_error + ip_config list" where
  "getIPCfgs iface prevResult =
     (if length (IPs prevResult) = 0 then Inl (Msg (''No IP addresses supplied on interface: '' @ iface))
      else Inr (filter (\<lambda>ipCfg. case Interface ipCfg of
          None \<Rightarrow> True
        | Some i \<Rightarrow> \<not> (0 \<le> i \<and> i < int (length (Interfaces prevResult)) \<and> Name (Interfaces prevResult ! nat i) \<noteq> iface))
        (IPs prevResult)))"

section \<open>ADD\<close>

text \<open>The first table from \<open>t\<close> on that no rule and no route uses.\<close>

function pick_table :: "int list \<Rightarrow> int \<Rightarrow> int" where
  "pick_table used t = (if t \<in> set used then pick_table used (t + 1) else t)"
  by auto

termination
proof (relation "measure (\<lambda>(used, t). card {u \<in> set used. t \<le> u})", goal_cases)
  case (2 used t)
  let ?A = "\<lambda>v. {u \<in> set used. v \<le> u}"
  have "t \<in> ?A t" "t \<notin> ?A (t + 1)" "?A (t + 1) \<subseteq> ?A t" using 2 by auto
  then have "?A (t + 1) \<subset> ?A t" by blast
  then show ?case by (auto intro!: psubset_card_mono)
qed simp

declare pick_table.simps [simp del]

definition source_rule :: "int \<Rightarrow> ip_config \<Rightarrow> nl_rule" where
  "source_rule table ipCfg =
     (let m = (if Version ipCfg = ''4'' then CIDRMask 32 32 else CIDRMask 128 128)
      in \<lparr>ruTable = table, ruSrc = Some \<lparr>IP = IP (Address ipCfg), Mask = m\<rparr>, ruRest = []\<rparr>)"

definition source_default :: "int \<Rightarrow> int \<Rightarrow> ip_config \<Rightarrow> table_route" where
  "source_default table linkIndex ipCfg =
     (let dest = (if Version ipCfg = ''4'' then \<lparr>IP = IPv4zero, Mask = CIDRMask 0 32\<rparr> else \<lparr>IP = IPv6zero, Mask = CIDRMask 0 128\<rparr>)
      in \<lparr>trRoute = \<lparr>nrLink = linkIndex, nrScope = SCOPE_UNIVERSE, nrDst = Some dest, nrGw = ConfGateway ipCfg, nrSrc = []\<rparr>,
          trTable = table\<rparr>)"

definition source_step :: "'s sbr_host \<Rightarrow> nat \<Rightarrow> int \<Rightarrow> int \<Rightarrow> ip_config \<Rightarrow> (unit, 's) io" where
  "source_step H tns table linkIndex ipCfg =
     io_then (io_wrap ''Failed to add rule: '' (io_do (sb_RuleAdd H tns (source_rule table ipCfg))))
       (io_when (ConfGateway ipCfg \<noteq> [])
         (io_wrap (''Failed to add default route to '' @ ip_String (ConfGateway ipCfg) @ '': '')
           (io_do (sb_RouteAdd H tns (source_default table linkIndex ipCfg)))))"

definition move_route :: "'s sbr_host \<Rightarrow> nat \<Rightarrow> int \<Rightarrow> table_route \<Rightarrow> (unit, 's) io" where
  "move_route H tns table r =
     io_then (io_wrap ''Failed to delete route: '' (io_do (sb_RouteDel H tns r)))
       (io_wrap ''Failed to readd route: '' (io_do (sb_RouteReplace H tns (r\<lparr>trTable := table\<rparr>))))"

definition doRoutes :: "'s sbr_host \<Rightarrow> nat \<Rightarrow> ip_config list \<Rightarrow> string \<Rightarrow> (unit, 's) io" where
  "doRoutes H tns ipCfgs iface =
     io_bind (io_wrap ''Failed to list all rules: '' (io_get (sb_RuleList H tns))) (\<lambda>rules.
     io_bind (io_wrap ''Failed to list all routes: '' (io_get (sb_RouteList H tns None))) (\<lambda>routes.
     let table = pick_table (map ruTable rules @ map trTable routes) firstTableID in
     io_bind (io_wrap (''Cannot find network interface '' @ iface @ '': '') (get_link (sb_net H) tns iface)) (\<lambda>link.
     io_then (io_each (source_step H tns table (lkIndex link)) ipCfgs)
     (io_bind (io_wrap ''Unable to list routes: '' (io_get (sb_RouteList H tns (Some link)))) (\<lambda>routes.
        io_each (move_route H tns table) routes)))))"

definition sbr_cmdAdd :: "'s sbr_host \<Rightarrow> nat \<Rightarrow> cmd_args \<Rightarrow> (cni_result, 's) io" where
  "sbr_cmdAdd H tns args =
     io_bind (io_out (sbr_parseConfig (StdinData args))) (\<lambda>(conf, prevResult).
       case prevResult of
         None \<Rightarrow> io_fail (Msg ''This plugin must be called as chained plugin'')
       | Some r \<Rightarrow>
           io_bind (io_out (outcome_of (getIPCfgs (IfName args) r))) (\<lambda>ipCfgs.
           io_then (withLockAndNetNS H tns (Netns args) (\<lambda>c _. doRoutes H c ipCfgs (IfName args)))
             (print_result r (confCNIVersion conf))))"

section \<open>DEL\<close>

definition rule_of_addr :: "nl_addr list \<Rightarrow> nl_rule \<Rightarrow> bool" where
  "rule_of_addr addrs rule =
     (case ruSrc rule of None \<Rightarrow> False | Some src \<Rightarrow> list_ex (\<lambda>addr. ip_Equal (IP src) (IP (naNet addr))) addrs)"

text \<open>Every rule of an address is tried; the last error is returned.\<close>

definition delete_rules :: "'s sbr_host \<Rightarrow> nat \<Rightarrow> nl_addr list \<Rightarrow> nl_rule list \<Rightarrow> (go_error option, 's) io" where
  "delete_rules H tns addrs rules =
     io_fold (\<lambda>rule errReturn s.
       if rule_of_addr addrs rule then
         (case sb_RuleDel H tns rule s of
            (None, s) \<Rightarrow> (Ret errReturn, s)
          | (Some err, s) \<Rightarrow> (Ret (Some (Msg (''Failed to delete rule '' @ err_text err))), s))
       else (Ret errReturn, s)) rules None"

definition tidyRules :: "'s sbr_host \<Rightarrow> nat \<Rightarrow> string \<Rightarrow> (unit, 's) io" where
  "tidyRules H tns iface =
     io_bind (io_wrap ''Failed to list all rules to tidy: '' (io_get (sb_RuleList H tns))) (\<lambda>rules.
     io_bind (io_wrap (''Failed to get link '' @ iface @ '': '') (get_link (sb_net H) tns iface)) (\<lambda>link.
     io_bind (io_wrap ''Failed to list all addrs: '' (io_get (nh_AddrList (sb_net H) tns link FAMILY_ALL))) (\<lambda>addrs.
     io_bind (delete_rules H tns addrs rules) (\<lambda>errReturn.
       case errReturn of None \<Rightarrow> io_ret () | Some err \<Rightarrow> io_fail err))))"

definition sbr_cmdDel :: "'s sbr_host \<Rightarrow> nat \<Rightarrow> cmd_args \<Rightarrow> (unit, 's) io" where
  "sbr_cmdDel H tns args =
     io_bind (io_out (sbr_parseConfig (StdinData args))) (\<lambda>_.
       withLockAndNetNS H tns (Netns args) (\<lambda>c _. tidyRules H c (IfName args)))"

definition sbr_cmdCheck :: "cmd_args \<Rightarrow> (unit, 's) io" where
  "sbr_cmdCheck args = io_ret ()"

definition sbr :: "'s sbr_host \<Rightarrow> nat \<Rightarrow> ('s \<times> cni_result list) dispatcher \<Rightarrow> 's \<times> cni_result list \<Rightarrow>
    (unit outcome \<times> 's \<times> cni_result list) option" where
  "sbr H tns = link_plugin ''sbr'' (sbr_cmdAdd H tns) sbr_cmdCheck (sbr_cmdDel H tns)"

section \<open>The table\<close>

lemma pick_table_least:
  "t \<le> pick_table used t \<and> pick_table used t \<notin> set used \<and> (\<forall>u. t \<le> u \<and> u < pick_table used t \<longrightarrow> u \<in> set used)"
proof (induction used t rule: pick_table.induct)
  case (1 used t)
  show ?case
  proof (cases "t \<in> set used")
    case True
    then have "pick_table used t = pick_table used (t + 1)" by (simp add: pick_table.simps [of used t])
    moreover have "u \<in> set used" if "t \<le> u" "u < pick_table used (t + 1)" for u
      using "1.IH" [OF True] that True by (cases "u = t") auto
    ultimately show ?thesis using "1.IH" [OF True] by auto
  qed (auto simp: pick_table.simps [of used t])
qed

lemma pick_table_bound: "pick_table used t \<le> t + int (length used)"
proof -
  have "int (card {t ..< pick_table used t}) \<le> int (length used)"
    using pick_table_least [of t used] card_mono [of "set used" "{t ..< pick_table used t}"] card_length [of used] by fastforce
  then show ?thesis using pick_table_least [of t used] by simp
qed

end
