(* ===== verification/Bandwidth.thy ===== *)
theory Bandwidth
  imports Macvlan
begin

text \<open>
  The plugin \<open>bandwidth\<close> (\<open>plugins/plugins/meta/bandwidth/main.go\<close>, \<open>ifb_creator.go\<close>): limits of
  the traffic of a container. The sizes that \<open>buffer\<close> and \<open>limit\<close> compute in \<open>float64\<close> are
  parameters, as the library's queues and filters are.
\<close>

section \<open>Queues\<close>

datatype qdisc = Tbf int "64 word" "32 word" "32 word" | Ingress int | PfifoFast | OtherQdisc string

text \<open>\<open>bw_FilterAdd\<close> redirects the traffic of the first link to the second.\<close>

record 's bw_host =
  bw_net :: "'s net_host"
  bw_QdiscAdd :: "qdisc \<Rightarrow> 's \<Rightarrow> go_error option \<times> 's"
  bw_QdiscList :: "net_link \<Rightarrow> 's \<Rightarrow> go_error + qdisc list"
  bw_FilterAdd :: "int \<Rightarrow> int \<Rightarrow> 's \<Rightarrow> go_error option \<times> 's"
  bw_buffer :: "64 word \<Rightarrow> 32 word \<Rightarrow> 32 word"
  bw_limit :: "64 word \<Rightarrow> 32 word \<Rightarrow> 32 word"

section \<open>Configuration\<close>

record bandwidth_entry =
  IngressRate :: "64 word"
  IngressBurst :: "64 word"
  EgressRate :: "64 word"
  EgressBurst :: "64 word"

definition isZero :: "bandwidth_entry \<Rightarrow> bool" where
  "isZero bw \<longleftrightarrow> IngressBurst bw = 0 \<and> IngressRate bw = 0 \<and> EgressBurst bw = 0 \<and> EgressRate bw = 0"

record bandwidth_conf =
  bwConf :: netconf
  bwRuntime :: "bandwidth_entry option"
  bwEntry :: "bandwidth_entry option"

fun dec_uint64 :: "json \<Rightarrow> go_error + 64 word" where
  "dec_uint64 JNull = Inr 0"
| "dec_uint64 (JNum s) =
     (if s = [] \<or> \<not> list_all is_digit s \<or> num_of_digits s \<ge> 2 ^ 64 then json_error else Inr (of_nat (num_of_digits s)))"
| "dec_uint64 _ = json_error"

definition dec_entry :: "(string \<times> json) list \<Rightarrow> go_error + bandwidth_entry" where
  "dec_entry kvs =
     bind_sum (dec_field dec_uint64 0 kvs ''ingressRate'') (\<lambda>ir.
     bind_sum (dec_field dec_uint64 0 kvs ''ingressBurst'') (\<lambda>ib.
     bind_sum (dec_field dec_uint64 0 kvs ''egressRate'') (\<lambda>er.
     bind_sum (dec_field dec_uint64 0 kvs ''egressBurst'') (\<lambda>eb.
       Inr \<lparr>IngressRate = ir, IngressBurst = ib, EgressRate = er, EgressBurst = eb\<rparr>))))"

text \<open>The embedded pointer is set when the document has one of its members.\<close>

definition has_entry :: "(string \<times> json) list \<Rightarrow> bool" where
  "has_entry kvs \<longleftrightarrow> list_ex (\<lambda>k. jfield kvs k \<noteq> None) [''ingressRate'', ''ingressBurst'', ''egressRate'', ''egressBurst'']"

definition dec_bandwidth_runtime :: "json \<Rightarrow> go_error + bandwidth_entry option" where
  "dec_bandwidth_runtime j =
     bind_sum (jmembers j) (\<lambda>kvs. dec_field (dec_pointer (\<lambda>j. bind_sum (jmembers j) dec_entry)) None kvs ''bandwidth'')"

definition dec_bandwidth :: "json \<Rightarrow> go_error + bandwidth_conf" where
  "dec_bandwidth j =
     bind_sum (dec_netconf j) (\<lambda>n.
     bind_sum (jmembers j) (\<lambda>kvs.
     bind_sum (dec_field dec_bandwidth_runtime None kvs ''runtimeConfig'') (\<lambda>rc.
     bind_sum (dec_entry kvs) (\<lambda>e.
       Inr \<lparr>bwConf = n, bwRuntime = rc, bwEntry = (if has_entry kvs then Some e else None)\<rparr>))))"

definition getBandwidth :: "bandwidth_conf \<Rightarrow> bandwidth_entry option" where
  "getBandwidth conf = (if bwEntry conf = None \<and> bwRuntime conf \<noteq> None then bwRuntime conf else bwEntry conf)"

text \<open>The numbers are unsigned, so the first case of the code is never taken.\<close>

definition validateRateAndBurst :: "64 word \<Rightarrow> 64 word \<Rightarrow> go_error option" where
  "validateRateAndBurst rate burst =
     (if burst < 0 \<or> rate < 0 then Some (Msg ''rate and burst must be a positive integer'')
      else if burst = 0 \<and> rate \<noteq> 0 then Some (Msg ''if rate is set, burst must also be set'')
      else if rate = 0 \<and> burst \<noteq> 0 then Some (Msg ''if burst is set, rate must also be set'')
      else if burst div 8 \<ge> 0xFFFFFFFF then Some (Msg ''burst cannot be more than 4GB'')
      else None)"

definition bandwidth_valid :: "bandwidth_entry option \<Rightarrow> go_error option" where
  "bandwidth_valid bw =
     (case bw of
        None \<Rightarrow> None
      | Some b \<Rightarrow>
          (case validateRateAndBurst (IngressRate b) (IngressBurst b) of
             Some err \<Rightarrow> Some err
           | None \<Rightarrow> validateRateAndBurst (EgressRate b) (EgressBurst b)))"

definition bandwidth_parseConfig :: "document \<Rightarrow> bandwidth_conf outcome" where
  "bandwidth_parseConfig stdin =
     (case bind_sum stdin dec_bandwidth of
        Inl err \<Rightarrow> Fail (Msg (''failed to parse network configuration: '' @ err_text err))
      | Inr conf \<Rightarrow>
          (case bandwidth_valid (getBandwidth conf) of
             Some err \<Rightarrow> Fail err
           | None \<Rightarrow>
               (if confRawPrevResult (bwConf conf) = None then Ret conf
                else case ParsePrevResult (bwConf conf) of
                  Inl err \<Rightarrow> Fail (Msg (''could not parse prevResult: '' @ err_text err))
                | Inr n \<Rightarrow>
                    (case confPrevResult n of
                       None \<Rightarrow> Panic ''invalid memory address or nil pointer dereference''
                     | Some prev \<Rightarrow>
                         (case NewResultFromResult prev of
                            Inl err \<Rightarrow> Fail (Msg (''could not convert result to current version: '' @ err_text err))
                          | Inr _ \<Rightarrow> Ret (conf\<lparr>bwConf := n\<rparr>))))))"

section \<open>ifb_creator.go\<close>

definition CreateIfb :: "'s bw_host \<Rightarrow> nat \<Rightarrow> string \<Rightarrow> int \<Rightarrow> (unit, 's) io" where
  "CreateIfb H tns name mtu =
     io_wrap ''adding link: '' (io_do (nh_LinkAdd (bw_net H) tns None ((new_link name mtu (OtherLink ''ifb''))\<lparr>lkUp := True\<rparr>)))"

definition TeardownIfb :: "'s bw_host \<Rightarrow> nat \<Rightarrow> string \<Rightarrow> (unit, 's) io" where
  "TeardownIfb H tns deviceName =
     unless_missing () (io_bind (DelLinkByNameAddr (bw_net H) tns deviceName) (\<lambda>_. io_ret ()))"

definition createTBF :: "'s bw_host \<Rightarrow> 64 word \<Rightarrow> 64 word \<Rightarrow> int \<Rightarrow> (unit, 's) io" where
  "createTBF H rateInBits burstInBits linkIndex =
     (if rateInBits \<le> 0 then io_fail (Msg (''invalid rate: '' @ dec_nat (unat rateInBits)))
      else if burstInBits \<le> 0 then io_fail (Msg (''invalid burst: '' @ dec_nat (unat burstInBits)))
      else
        (let rateInBytes = rateInBits div 8; burstInBytes = ucast (burstInBits div 8) in
         io_wrap ''create qdisc: '' (io_do (bw_QdiscAdd H
           (Tbf linkIndex rateInBytes (bw_limit H rateInBytes burstInBytes) (bw_buffer H rateInBytes burstInBytes))))))"

definition CreateIngressQdisc :: "'s bw_host \<Rightarrow> nat \<Rightarrow> 64 word \<Rightarrow> 64 word \<Rightarrow> string \<Rightarrow> (unit, 's) io" where
  "CreateIngressQdisc H tns rateInBits burstInBits hostDeviceName =
     io_bind (io_wrap ''get host device: '' (get_link (bw_net H) tns hostDeviceName)) (\<lambda>hostDevice.
       createTBF H rateInBits burstInBits (lkIndex hostDevice))"

definition CreateEgressQdisc :: "'s bw_host \<Rightarrow> nat \<Rightarrow> 64 word \<Rightarrow> 64 word \<Rightarrow> string \<Rightarrow> string \<Rightarrow> (unit, 's) io" where
  "CreateEgressQdisc H tns rateInBits burstInBits hostDeviceName ifbDeviceName =
     io_bind (io_wrap ''get ifb device: '' (get_link (bw_net H) tns ifbDeviceName)) (\<lambda>ifbDevice.
     io_bind (io_wrap ''get host device: '' (get_link (bw_net H) tns hostDeviceName)) (\<lambda>hostDevice.
     io_then (io_wrap ''create ingress qdisc: '' (io_do (bw_QdiscAdd H (Ingress (lkIndex hostDevice)))))
     (io_then (io_wrap ''add filter: '' (io_do (bw_FilterAdd H (lkIndex hostDevice) (lkIndex ifbDevice))))
       (io_wrap ''create ifb qdisc: '' (createTBF H rateInBits burstInBits (lkIndex ifbDevice))))))"

section \<open>Commands\<close>

definition getIfbDeviceName :: "'s bw_host \<Rightarrow> string \<Rightarrow> string \<Rightarrow> string outcome" where
  "getIfbDeviceName H networkName containerId =
     MustFormatHashWithPrefix (nh_sha512 (bw_net H)) 15 ''bwp'' (networkName @ containerId)"

text \<open>
  The index of the peer in the host, with the text of the error: 0 when the namespace cannot be
  entered, whose error is dropped, and -1 when the interface has no peer.
\<close>

definition peer_index :: "'s bw_host \<Rightarrow> nat \<Rightarrow> string \<Rightarrow> netns \<Rightarrow> (int \<times> string, 's) io" where
  "peer_index H tns containerIfName netns =
     io_bind (io_try (ns_Do (bw_net H) tns netns (\<lambda>c _. io_try (GetVethPeerIfindex (bw_net H) c containerIfName)))) (\<lambda>r.
       io_ret (case r of
           Inl _ \<Rightarrow> (0, ''<nil>'') | Inr (Inl err) \<Rightarrow> (-1, err_text err) | Inr (Inr (_, p)) \<Rightarrow> (p, ''<nil>'')))"

definition getHostInterface :: "'s bw_host \<Rightarrow> nat \<Rightarrow> interface list \<Rightarrow> string \<Rightarrow> netns \<Rightarrow> (interface, 's) io" where
  "getHostInterface H tns ifs containerIfName netns =
     (if length ifs = 0 then io_fail (Msg ''no interfaces provided'')
      else
        io_bind (peer_index H tns containerIfName netns) (\<lambda>(peerIndex, err).
        if peerIndex \<le> 0 then io_fail (Msg (''container interface '' @ containerIfName @ '' has no veth peer: '' @ err))
        else
          io_bind (io_error (Msg (''veth peer with index '' @ Itoa peerIndex @ '' is not in host ns''))
            (io_get (nh_LinkByIndex (bw_net H) tns peerIndex))) (\<lambda>link.
            case find (\<lambda>i. Sandbox i = [] \<and> Name i = lkName link) ifs of
              Some i \<Rightarrow> io_ret i
            | None \<Rightarrow> io_fail (Msg ''no veth peer of container interface found in host ns''))))"

text \<open>The previous result, converted; a nil one is an error with the text \<open>missing\<close>.\<close>

definition bandwidth_prev :: "string \<Rightarrow> netconf \<Rightarrow> result_cur outcome" where
  "bandwidth_prev missing n =
     (case confPrevResult n of
        None \<Rightarrow> Fail (Msg missing)
      | Some prev \<Rightarrow>
          (case NewResultFromResult prev of
             Inl err \<Rightarrow> Fail (Msg (''could not convert result to current version: '' @ err_text err)) | Inr r \<Rightarrow> Ret r))"

definition bandwidth_egress ::
  "'s bw_host \<Rightarrow> nat \<Rightarrow> cmd_args \<Rightarrow> bandwidth_conf \<Rightarrow> bandwidth_entry \<Rightarrow> string \<Rightarrow> result_cur \<Rightarrow> (result_cur, 's) io" where
  "bandwidth_egress H tns args conf bw hostName result =
     io_bind (mtu_by_name (bw_net H) tns hostName) (\<lambda>mtu.
     io_bind (io_out (getIfbDeviceName H (confName (bwConf conf)) (ContainerID args))) (\<lambda>ifbDeviceName.
     io_then (CreateIfb H tns ifbDeviceName mtu)
     (io_bind (get_link (bw_net H) tns ifbDeviceName) (\<lambda>ifbDevice.
      io_then (CreateEgressQdisc H tns (EgressRate bw) (EgressBurst bw) hostName ifbDeviceName)
        (io_ret (result\<lparr>Interfaces := Interfaces result @
          [\<lparr>Name = ifbDeviceName, Mac = mac_String (lkMac ifbDevice), Sandbox = []\<rparr>]\<rparr>))))))"

definition bandwidth_cmdAdd :: "'s bw_host \<Rightarrow> nat \<Rightarrow> cmd_args \<Rightarrow> (cni_result, 's) io" where
  "bandwidth_cmdAdd H tns args =
     io_bind (io_out (bandwidth_parseConfig (StdinData args))) (\<lambda>conf.
       case getBandwidth conf of
         None \<Rightarrow> io_out (case confPrevResult (bwConf conf) of
             None \<Rightarrow> Panic ''invalid memory address or nil pointer dereference''
           | Some prev \<Rightarrow> outcome_of (PrintResult prev (confCNIVersion (bwConf conf))))
       | Some bw \<Rightarrow>
           if isZero bw then io_out (case confPrevResult (bwConf conf) of
               None \<Rightarrow> Panic ''invalid memory address or nil pointer dereference''
             | Some prev \<Rightarrow> outcome_of (PrintResult prev (confCNIVersion (bwConf conf))))
           else
             io_bind (io_out (bandwidth_prev ''must be called as chained plugin'' (bwConf conf))) (\<lambda>result.
             io_bind (io_wrap ''failed to open netns %!q(<nil>): '' (io_get (GetNS (bw_net H) (Netns args)))) (\<lambda>netns.
             io_bind (getHostInterface H tns (Interfaces result) (IfName args) netns) (\<lambda>hostInterface.
             io_then (io_when (IngressRate bw > 0 \<and> IngressBurst bw > 0)
                (CreateIngressQdisc H tns (IngressRate bw) (IngressBurst bw) (Name hostInterface)))
             (io_bind (if EgressRate bw > 0 \<and> EgressBurst bw > 0
                 then bandwidth_egress H tns args conf bw (Name hostInterface) result else io_ret result) (\<lambda>result.
                print_result result (confCNIVersion (bwConf conf))))))))"

definition bandwidth_cmdDel :: "'s bw_host \<Rightarrow> nat \<Rightarrow> cmd_args \<Rightarrow> (unit, 's) io" where
  "bandwidth_cmdDel H tns args =
     io_bind (io_out (bandwidth_parseConfig (StdinData args))) (\<lambda>conf.
     io_bind (io_out (getIfbDeviceName H (confName (bwConf conf)) (ContainerID args))) (\<lambda>ifbDeviceName.
       TeardownIfb H tns ifbDeviceName))"

definition SafeQdiscList :: "'s bw_host \<Rightarrow> net_link \<Rightarrow> 's \<Rightarrow> go_error + qdisc list" where
  "SafeQdiscList H link s = bind_sum (bw_QdiscList H link s) (\<lambda>qs. Inr (filter (\<lambda>q. q \<noteq> PfifoFast) qs))"

text \<open>The loop over the queues, which ends at the first that is no token bucket.\<close>

fun check_tbfs :: "64 word \<Rightarrow> 32 word \<Rightarrow> 32 word \<Rightarrow> qdisc list \<Rightarrow> go_error option" where
  "check_tbfs rate lim buf (Tbf i r l b # qs) =
     (if r \<noteq> rate then Some (Msg (''Rate doesn'' @ [CHR 0x27] @ ''t match''))
      else if l \<noteq> lim then Some (Msg (''Limit doesn'' @ [CHR 0x27] @ ''t match''))
      else if b \<noteq> buf then Some (Msg (''Buffer doesn'' @ [CHR 0x27] @ ''t match''))
      else check_tbfs rate lim buf qs)"
| "check_tbfs rate lim buf qs = None"

definition check_direction :: "'s bw_host \<Rightarrow> 64 word \<Rightarrow> 64 word \<Rightarrow> net_link \<Rightarrow> (unit, 's) io" where
  "check_direction H rate burst link =
     (let rateInBytes = rate div 8; burstInBytes = ucast (burst div 8) in
      io_bind (io_get (SafeQdiscList H link)) (\<lambda>qdiscs.
        if length qdiscs = 0 then io_fail (Msg ''Failed to find qdisc'')
        else case check_tbfs rateInBytes (bw_limit H rateInBytes burstInBytes) (bw_buffer H rateInBytes burstInBytes) qdiscs of
          None \<Rightarrow> io_ret () | Some err \<Rightarrow> io_fail err))"

text \<open>A configuration without limits makes CHECK read a nil entry.\<close>

definition bandwidth_cmdCheck :: "'s bw_host \<Rightarrow> nat \<Rightarrow> cmd_args \<Rightarrow> (unit, 's) io" where
  "bandwidth_cmdCheck H tns args =
     io_bind (io_out (bandwidth_parseConfig (StdinData args))) (\<lambda>conf.
     io_bind (io_out (bandwidth_prev ''must be called as a chained plugin'' (bwConf conf))) (\<lambda>result.
     io_bind (io_wrap ''failed to open netns %!q(<nil>): '' (io_get (GetNS (bw_net H) (Netns args)))) (\<lambda>netns.
     io_bind (getHostInterface H tns (Interfaces result) (IfName args) netns) (\<lambda>hostInterface.
     io_bind (get_link (bw_net H) tns (Name hostInterface)) (\<lambda>link.
       case getBandwidth conf of
         None \<Rightarrow> io_out (Panic ''invalid memory address or nil pointer dereference'')
       | Some bw \<Rightarrow>
           io_then (io_when (IngressRate bw > 0 \<and> IngressBurst bw > 0)
              (check_direction H (IngressRate bw) (IngressBurst bw) link))
             (io_when (EgressRate bw > 0 \<and> EgressBurst bw > 0)
               (io_bind (io_out (getIfbDeviceName H (confName (bwConf conf)) (ContainerID args))) (\<lambda>name.
                io_bind (io_wrap ''get ifb device: '' (get_link (bw_net H) tns name)) (\<lambda>ifbDevice.
                  check_direction H (EgressRate bw) (EgressBurst bw) ifbDevice)))))))))"

definition bandwidth ::
  "'s bw_host \<Rightarrow> nat \<Rightarrow> ('s \<times> cni_result list) dispatcher \<Rightarrow> 's \<times> cni_result list \<Rightarrow>
    (unit outcome \<times> 's \<times> cni_result list) option" where
  "bandwidth H tns t w =
     (case PluginSupports [''0.3.0'', ''0.3.1'', Current] of
        Ret info \<Rightarrow>
          pluginMain t (\<lambda>args w. Some (printing (bandwidth_cmdAdd H tns args) w))
            (\<lambda>args w. Some (silent (bandwidth_cmdCheck H tns args) w))
            (\<lambda>args w. Some (silent (bandwidth_cmdDel H tns args) w)) info (BuildString ''bandwidth'' BuildVersion) w
      | Fail err \<Rightarrow> Some (Fail err, w)
      | Panic m \<Rightarrow> Some (Panic m, w))"

end
