(* ===== verification/Spec2Isabelle.thy ===== *)
theory Spec2Isabelle
  imports Properties_Ranges Properties_Kipam Properties_HostLocal Properties_LibApi Cli
    Static Properties_Firewall Properties_Dhcp
    Flannel Vlan Bridge Tuning Sbr Bandwidth
begin

text \<open>
  Kube-ipam: verification development.

  Kube-ipam is a CNI address management plugin. The container runtime starts it once per
  command (ADD, DEL, CHECK) with a network configuration on standard input; it allocates
  addresses from configured ranges and keeps the reservations in etcd, shared by all nodes.

  The theories, in the order of the code's layers:

  Prelude: Go errors and outcomes, the string functions of the Go library the code calls.
  GoNet: \<open>net.IP\<close>, \<open>net.IPNet\<close>, masks, printing and parsing of addresses (Go library).
  Cidr: \<open>plugins/pkg/ip/cidr.go\<close>, addresses as numbers.
  Ranges, RangeSets: \<open>backend/allocator/range.go\<close> and \<open>range_set.go\<close>.
  CniTypes, CniResult: the types of \<open>cni/pkg/types\<close> that results are made of.
  Store: the interface \<open>backend/store.go\<close>, its contract as the locale \<open>ip_store\<close>.
  Iter, Allocator: \<open>backend/allocator/allocator.go\<close>.
  Etcd: \<open>backend/etcd\<close> over a parameter for the etcd client library; the locale
  \<open>etcd_client\<close> states what the library documents.
  Properties_Ranges, Properties_Alloc: the properties with their instances.
\<close>

end
